(* ===== verification/Rust_Prelude.thy ===== *)
theory Rust_Prelude
  imports Main "HOL-Library.Word" "HOL-Library.Code_Target_Nat" "HOL-Library.List_Lexorder" "HOL-Library.Char_ord"
begin

text \<open>
  The vocabulary of the Rust standard library that the server's sources use, shared by every
  component: machine integers with saturating arithmetic, decimal parsing and printing, byte
  strings with the exact whitespace rule of \<open>str::split_whitespace\<close>, and \<open>BTreeMap\<close> and
  \<open>BTreeSet\<close> as strictly ordered association lists.

  A Rust \<open>String\<close> is its UTF-8 byte sequence, one \<^typ>\<open>char\<close> per byte: \<open>len\<close> is \<^const>\<open>length\<close>,
  the order of \<open>String\<close> keys is the lexicographic order of the bytes, and a loop over \<open>chars()\<close>
  that only compares with ASCII characters acts on the bytes in the same way, since every byte
  of a multi-byte character is at least 128.
\<close>

subsection \<open>Automation shared by the components\<close>

named_theorems btree_simps
named_theorems id_simps
named_theorems response_simps

subsection \<open>Machine integers\<close>

type_synonym u8 = "8 word"
type_synonym u16 = "16 word"
type_synonym u32 = "32 word"
type_synonym u64 = "64 word"

text \<open>\<open>saturating_add\<close> and \<open>saturating_sub\<close>: the result is clamped to the type's range.\<close>

definition sat_add :: "'a::len word \<Rightarrow> 'a word \<Rightarrow> 'a word" where
  "sat_add a b = (if unat a + unat b < 2 ^ LENGTH('a) then a + b else -1)"

definition sat_sub :: "'a::len word \<Rightarrow> 'a word \<Rightarrow> 'a word" where
  "sat_sub a b = (if b \<le> a then a - b else 0)"

definition sat_mul :: "'a::len word \<Rightarrow> 'a word \<Rightarrow> 'a word" where
  "sat_mul a b = (if unat a * unat b < 2 ^ LENGTH('a) then a * b else -1)"

lemma unat_max_word: "unat (-1 :: 'a::len word) = 2 ^ LENGTH('a) - 1"
  by (simp add: unsigned_minus_1_eq_mask mask_eq_exp_minus_1)

lemma unat_sat_add: "unat (sat_add a b) = min (unat a + unat b) (2 ^ LENGTH('a) - 1)"
  for a b :: "'a::len word"
proof (cases "unat a + unat b < 2 ^ LENGTH('a)")
  case True
  then have "unat (a + b) = unat a + unat b"
    by (simp add: unat_add_lem)
  with True show ?thesis by (simp add: sat_add_def)
next
  case False
  then show ?thesis by (simp add: sat_add_def unat_max_word)
qed

lemma unat_sat_sub: "unat (sat_sub a b) = unat a - unat b"
  by (auto simp: sat_sub_def unat_sub word_le_nat_alt)

lemma unat_sat_mul: "unat (sat_mul a b) = min (unat a * unat b) (2 ^ LENGTH('a) - 1)"
  for a b :: "'a::len word"
proof (cases "unat a * unat b < 2 ^ LENGTH('a)")
  case True
  then have "unat (a * b) = unat a * unat b"
    by (simp add: unat_mult_lem)
  with True show ?thesis by (simp add: sat_mul_def)
next
  case False
  then show ?thesis by (simp add: sat_mul_def unat_max_word)
qed

lemma sat_add_one_greater: "a \<noteq> -1 \<Longrightarrow> a < sat_add a 1"
  for a :: "'a::len word"
proof -
  assume "a \<noteq> -1"
  then have "unat a \<noteq> unat (-1 :: 'a word)" by (simp add: word_unat_eq_iff)
  then have "unat a < 2 ^ LENGTH('a) - 1"
    using unsigned_less [of a, where 'a = nat] unat_max_word [where 'a = 'a] by linarith
  then show ?thesis by (simp add: word_less_nat_alt unat_sat_add)
qed

lemma sat_add_le: "a \<le> sat_add a b"
  for a b :: "'a::len word"
proof -
  have "unat a < 2 ^ LENGTH('a)" by simp
  then have "unat a \<le> 2 ^ LENGTH('a) - 1" by linarith
  then show ?thesis by (simp add: word_le_nat_alt unat_sat_add)
qed

lemma sat_add_max [simp]: "sat_add (-1) 1 = (-1 :: 'a::len word)"
  by (simp add: word_unat_eq_iff unat_sat_add unat_max_word)

lemma sat_sub_le: "sat_sub a b \<le> a"
  by (simp add: word_le_nat_alt unat_sat_sub)

subsection \<open>Decimal numbers\<close>

definition digit_value :: "char \<Rightarrow> nat option" where
  "digit_value c = (let n = of_char c in if 48 \<le> n \<and> n \<le> 57 then Some (n - 48) else None)"

fun parse_digits :: "nat \<Rightarrow> string \<Rightarrow> nat option" where
  "parse_digits acc [] = Some acc"
| "parse_digits acc (c # cs) =
     (case digit_value c of None \<Rightarrow> None | Some d \<Rightarrow> parse_digits (10 * acc + d) cs)"

text \<open>
  \<open>parse::<uN>()\<close>: one optional \<open>+\<close>, then at least one decimal digit and nothing else; a value
  beyond the type is an error.
\<close>

definition strip_plus :: "string \<Rightarrow> string" where
  "strip_plus s = (case s of c # cs \<Rightarrow> if c = CHR ''+'' then cs else s | [] \<Rightarrow> [])"

definition parse_uint :: "nat \<Rightarrow> string \<Rightarrow> nat option" where
  "parse_uint w s =
     (let ds = strip_plus s in
      if ds = [] then None
      else case parse_digits 0 ds of
             None \<Rightarrow> None
           | Some n \<Rightarrow> if n < 2 ^ w then Some n else None)"

definition parse_word :: "string \<Rightarrow> 'a::len word option" where
  "parse_word s = map_option of_nat (parse_uint LENGTH('a) s)"

text \<open>\<open>parse::<iN>()\<close>: one optional sign, then decimal digits; out of range is an error.\<close>

definition parse_int :: "nat \<Rightarrow> string \<Rightarrow> int option" where
  "parse_int w s =
     (case s of
        [] \<Rightarrow> None
      | c # cs \<Rightarrow>
          (let ds = (if c = CHR ''+'' \<or> c = CHR ''-'' then cs else s) in
           if ds = [] then None
           else case parse_digits 0 ds of
                  None \<Rightarrow> None
                | Some n \<Rightarrow>
                    (let v = (if c = CHR ''-'' then - int n else int n) in
                     if - (2 ^ (w - 1)) \<le> v \<and> v < 2 ^ (w - 1) then Some v else None)))"

text \<open>\<open>to_string()\<close> of an unsigned number.\<close>

definition digit_char :: "nat \<Rightarrow> char" where
  "digit_char d = char_of (48 + d)"

fun nat_to_string :: "nat \<Rightarrow> string" where
  "nat_to_string n =
     (if n < 10 then [digit_char n] else nat_to_string (n div 10) @ [digit_char (n mod 10)])"

declare nat_to_string.simps [simp del]

definition word_to_string :: "'a::len word \<Rightarrow> string" where
  "word_to_string w = nat_to_string (unat w)"

definition int_to_string :: "int \<Rightarrow> string" where
  "int_to_string i = (if i < 0 then CHR ''-'' # nat_to_string (nat (- i)) else nat_to_string (nat i))"

lemma digit_value_digit_char [simp]: "d < 10 \<Longrightarrow> digit_value (digit_char d) = Some d"
  by (simp add: digit_value_def digit_char_def)

lemma digit_char_not_sign [simp]:
  "d < 10 \<Longrightarrow> digit_char d \<noteq> CHR ''+''" "d < 10 \<Longrightarrow> digit_char d \<noteq> CHR ''-''"
proof -
  have "of_char (digit_char d) \<noteq> (43 :: nat) \<and> of_char (digit_char d) \<noteq> (45 :: nat)" if "d < 10"
    using that by (simp add: digit_char_def)
  then show "d < 10 \<Longrightarrow> digit_char d \<noteq> CHR ''+''" "d < 10 \<Longrightarrow> digit_char d \<noteq> CHR ''-''"
    by auto
qed

lemma parse_digits_append:
  "parse_digits acc (xs @ ys) =
     (case parse_digits acc xs of None \<Rightarrow> None | Some a \<Rightarrow> parse_digits a ys)"
  by (induction xs arbitrary: acc) (auto split: option.splits)

lemma parse_digits_nat_to_string [simp]: "parse_digits 0 (nat_to_string n) = Some n"
proof (induction n rule: nat_to_string.induct)
  case (1 n)
  show ?case
  proof (cases "n < 10")
    case True
    then show ?thesis by (simp add: nat_to_string.simps [of n])
  next
    case False
    with 1 have "parse_digits 0 (nat_to_string (n div 10)) = Some (n div 10)" by simp
    with False show ?thesis
      by (simp add: nat_to_string.simps [of n] parse_digits_append)
  qed
qed

lemma nat_to_string_ne [simp]: "nat_to_string n \<noteq> []"
  by (simp add: nat_to_string.simps [of n])

lemma hd_nat_to_string: "\<exists>d cs. d < 10 \<and> nat_to_string n = digit_char d # cs"
proof (induction n rule: nat_to_string.induct)
  case (1 n)
  show ?case
  proof (cases "n < 10")
    case True
    then show ?thesis by (auto simp: nat_to_string.simps [of n])
  next
    case False
    with 1 obtain d cs where "d < 10" "nat_to_string (n div 10) = digit_char d # cs" by blast
    with False show ?thesis by (auto simp: nat_to_string.simps [of n])
  qed
qed

lemma strip_plus_nat_to_string [simp]: "strip_plus (nat_to_string n) = nat_to_string n"
proof -
  obtain d cs where "d < 10" "nat_to_string n = digit_char d # cs"
    using hd_nat_to_string by blast
  then show ?thesis by (simp add: strip_plus_def)
qed

text \<open>Printing and parsing an unsigned number is the identity at every width.\<close>

lemma parse_word_to_string [simp]: "parse_word (word_to_string w) = Some w"
  by (simp add: parse_word_def parse_uint_def word_to_string_def)

lemma parse_word_Some_bound: "parse_uint n s = Some v \<Longrightarrow> v < 2 ^ n"
  by (auto simp: parse_uint_def Let_def split: option.splits if_splits)

lemma parse_int_to_string:
  assumes "- (2 ^ (w - 1)) \<le> i" and "i < 2 ^ (w - 1)"
  shows "parse_int w (int_to_string i) = Some i"
proof (cases "i < 0")
  case True
  then show ?thesis using assms by (simp add: int_to_string_def parse_int_def)
next
  case False
  obtain d cs where d: "d < 10" "nat_to_string (nat i) = digit_char d # cs"
    using hd_nat_to_string by blast
  then have "parse_digits 0 (digit_char d # cs) = Some (nat i)"
    using parse_digits_nat_to_string [of "nat i"] by simp
  then show ?thesis using assms False d by (simp add: int_to_string_def parse_int_def)
qed

subsection \<open>Options and iterators\<close>

text \<open>
  \<open>Option::or_else\<close> and \<open>Option::or\<close>; \<open>Iterator::find_map\<close>, \<open>max\<close>, \<open>min\<close>, \<open>position\<close>, and the
  update of the first element that \<open>iter_mut().find(..)\<close> returns.
\<close>

definition or_else :: "'a option \<Rightarrow> 'a option \<Rightarrow> 'a option" where
  "or_else a b = (case a of None \<Rightarrow> b | Some x \<Rightarrow> Some x)"

definition unwrap_or :: "'a \<Rightarrow> 'a option \<Rightarrow> 'a" where
  "unwrap_or d a = (case a of None \<Rightarrow> d | Some x \<Rightarrow> x)"

definition opt_filter :: "('a \<Rightarrow> bool) \<Rightarrow> 'a option \<Rightarrow> 'a option" where
  "opt_filter P a = (case a of None \<Rightarrow> None | Some x \<Rightarrow> if P x then Some x else None)"

fun find_map :: "('a \<Rightarrow> 'b option) \<Rightarrow> 'a list \<Rightarrow> 'b option" where
  "find_map f [] = None"
| "find_map f (x # xs) = (case f x of Some y \<Rightarrow> Some y | None \<Rightarrow> find_map f xs)"

definition iter_max :: "'a::linorder list \<Rightarrow> 'a option" where
  "iter_max xs = (case xs of [] \<Rightarrow> None | y # ys \<Rightarrow> Some (fold max ys y))"

definition iter_min :: "'a::linorder list \<Rightarrow> 'a option" where
  "iter_min xs = (case xs of [] \<Rightarrow> None | y # ys \<Rightarrow> Some (fold min ys y))"

fun position :: "('a \<Rightarrow> bool) \<Rightarrow> 'a list \<Rightarrow> nat option" where
  "position P [] = None"
| "position P (x # xs) = (if P x then Some 0 else map_option Suc (position P xs))"

fun update_first :: "('a \<Rightarrow> bool) \<Rightarrow> ('a \<Rightarrow> 'a) \<Rightarrow> 'a list \<Rightarrow> 'a list" where
  "update_first P f [] = []"
| "update_first P f (x # xs) = (if P x then f x # xs else x # update_first P f xs)"

lemma or_else_simps [simp]:
  "or_else None b = b"
  "or_else (Some x) b = Some x"
  by (simp_all add: or_else_def)

lemma or_else_eq_None [simp]: "or_else a b = None \<longleftrightarrow> a = None \<and> b = None"
  by (cases a) simp_all

lemma unwrap_or_simps [simp]:
  "unwrap_or d None = d"
  "unwrap_or d (Some x) = x"
  by (simp_all add: unwrap_or_def)

lemma opt_filter_simps [simp]:
  "opt_filter P None = None"
  "opt_filter P (Some x) = (if P x then Some x else None)"
  by (simp_all add: opt_filter_def)

lemma find_map_Some: "find_map f xs = Some y \<Longrightarrow> \<exists>x \<in> set xs. f x = Some y"
  by (induction xs) (auto split: option.splits)

lemma find_map_None: "find_map f xs = None \<longleftrightarrow> (\<forall>x \<in> set xs. f x = None)"
  by (induction xs) (auto split: option.splits)

lemma find_SomeD: "List.find P xs = Some x \<Longrightarrow> x \<in> set xs \<and> P x"
  by (induction xs) (auto split: if_splits)

lemma find_NoneD: "List.find P xs = None \<longleftrightarrow> (\<forall>x \<in> set xs. \<not> P x)"
  by (induction xs) auto

lemma iter_max_Max: "xs \<noteq> [] \<Longrightarrow> iter_max xs = Some (Max (set xs))"
  by (cases xs) (simp_all add: iter_max_def Max.set_eq_fold [symmetric])

lemma iter_min_Min: "xs \<noteq> [] \<Longrightarrow> iter_min xs = Some (Min (set xs))"
  by (cases xs) (simp_all add: iter_min_def Min.set_eq_fold [symmetric])

lemma iter_max_None [simp]: "iter_max xs = None \<longleftrightarrow> xs = []"
  by (simp add: iter_max_def split: list.splits)

lemma iter_min_None [simp]: "iter_min xs = None \<longleftrightarrow> xs = []"
  by (simp add: iter_min_def split: list.splits)

lemma iter_max_Nil [simp]: "iter_max [] = None"
  by simp

lemma iter_min_Nil [simp]: "iter_min [] = None"
  by simp

lemma iter_max_ge: "x \<in> set xs \<Longrightarrow> \<exists>m. iter_max xs = Some m \<and> x \<le> m"
  using iter_max_Max [of xs] by fastforce

lemma iter_max_in: "iter_max xs = Some m \<Longrightarrow> m \<in> set xs"
  using iter_max_Max [of xs] by (metis List.finite_set Max_in iter_max_Nil option.distinct(1) option.inject set_empty)

lemma iter_min_in: "iter_min xs = Some m \<Longrightarrow> m \<in> set xs"
  using iter_min_Min [of xs] by (metis List.finite_set Min_in iter_min_Nil option.distinct(1) option.inject set_empty)

lemma position_None [simp]: "position P xs = None \<longleftrightarrow> (\<forall>x \<in> set xs. \<not> P x)"
  by (induction xs) auto

lemma position_Some: "position P xs = Some i \<Longrightarrow> i < length xs \<and> P (xs ! i)"
  by (induction xs arbitrary: i) (auto split: if_splits)

lemma position_list_update:
  "position P xs = Some i \<Longrightarrow> xs[i := f (xs ! i)] = update_first P f xs"
  by (induction xs arbitrary: i) (auto split: if_splits)

lemma position_find: "position P xs = Some i \<Longrightarrow> List.find P xs = Some (xs ! i)"
  by (induction xs arbitrary: i) (auto split: if_splits)

lemma update_first_map:
  "(\<And>x. x \<in> set xs \<Longrightarrow> P x \<Longrightarrow> g (f x) = g x) \<Longrightarrow> map g (update_first P f xs) = map g xs"
  by (induction xs) auto

lemma length_update_first [simp]: "length (update_first P f xs) = length xs"
  by (induction xs) auto

lemma update_first_none: "(\<And>x. x \<in> set xs \<Longrightarrow> \<not> P x) \<Longrightarrow> update_first P f xs = xs"
  by (induction xs) auto

end
