(* ===== verification/Btree_Map.thy ===== *)
theory Btree_Map
  imports Rust_Prelude
begin

text \<open>
  \<open>BTreeMap<K, V>\<close> as an association list whose keys are strictly increasing: that is the order
  in which \<open>iter\<close>, \<open>keys\<close> and \<open>values\<close> visit it and in which \<open>find\<close> picks its first match.
  \<open>BTreeSet<T>\<close> is a strictly increasing list. The locale \<open>ordered_map\<close> states what the components
  rely on; it is interpreted on the operations below.
\<close>

type_synonym ('k, 'v) btree = "('k \<times> 'v) list"

definition bt_get :: "('k, 'v) btree \<Rightarrow> 'k \<Rightarrow> 'v option" where
  "bt_get m k = map_of m k"

definition bt_contains_key :: "('k, 'v) btree \<Rightarrow> 'k \<Rightarrow> bool" where
  "bt_contains_key m k = (bt_get m k \<noteq> None)"

fun bt_insert :: "'k::linorder \<Rightarrow> 'v \<Rightarrow> ('k, 'v) btree \<Rightarrow> ('k, 'v) btree" where
  "bt_insert k v [] = [(k, v)]"
| "bt_insert k v ((a, b) # m) =
     (if k < a then (k, v) # (a, b) # m
      else if k = a then (k, v) # m
      else (a, b) # bt_insert k v m)"

definition bt_remove :: "'k \<Rightarrow> ('k, 'v) btree \<Rightarrow> ('k, 'v) btree" where
  "bt_remove k m = filter (\<lambda>p. fst p \<noteq> k) m"

definition bt_keys :: "('k, 'v) btree \<Rightarrow> 'k list" where
  "bt_keys m = map fst m"

definition bt_values :: "('k, 'v) btree \<Rightarrow> 'v list" where
  "bt_values m = map snd m"

text \<open>\<open>get_mut\<close> followed by an assignment through the reference.\<close>

definition bt_update :: "'k \<Rightarrow> ('v \<Rightarrow> 'v) \<Rightarrow> ('k, 'v) btree \<Rightarrow> ('k, 'v) btree" where
  "bt_update k f m = map (\<lambda>p. if fst p = k then (fst p, f (snd p)) else p) m"

text \<open>\<open>values_mut\<close> with a body, and \<open>retain\<close>.\<close>

definition bt_map_values :: "('v \<Rightarrow> 'w) \<Rightarrow> ('k, 'v) btree \<Rightarrow> ('k, 'w) btree" where
  "bt_map_values f m = map (\<lambda>p. (fst p, f (snd p))) m"

definition bt_retain :: "('k \<Rightarrow> 'v \<Rightarrow> bool) \<Rightarrow> ('k, 'v) btree \<Rightarrow> ('k, 'v) btree" where
  "bt_retain P m = filter (\<lambda>p. P (fst p) (snd p)) m"

text \<open>\<open>extend\<close> and \<open>collect\<close>: later entries win.\<close>

definition bt_extend :: "('k::linorder, 'v) btree \<Rightarrow> ('k \<times> 'v) list \<Rightarrow> ('k, 'v) btree" where
  "bt_extend m ps = foldl (\<lambda>acc p. bt_insert (fst p) (snd p) acc) m ps"

definition bt_collect :: "('k::linorder \<times> 'v) list \<Rightarrow> ('k, 'v) btree" where
  "bt_collect ps = bt_extend [] ps"

definition bt_inv :: "('k::linorder, 'v) btree \<Rightarrow> bool" where
  "bt_inv m = sorted_wrt (<) (map fst m)"

subsection \<open>Sets\<close>

definition bs_collect :: "'a::linorder list \<Rightarrow> 'a list" where
  "bs_collect xs = foldl (\<lambda>acc x. insort_insert x acc) [] xs"

definition bs_inv :: "'a::linorder list \<Rightarrow> bool" where
  "bs_inv xs = (sorted xs \<and> distinct xs)"

lemma bs_inv_insert: "bs_inv xs \<Longrightarrow> bs_inv (insort_insert x xs)"
  by (simp add: bs_inv_def distinct_insort_insert sorted_insort_insert)

lemma bs_collect_append_inv:
  "bs_inv acc \<Longrightarrow> bs_inv (foldl (\<lambda>acc x. insort_insert x acc) acc xs) \<and>
     set (foldl (\<lambda>acc x. insort_insert x acc) acc xs) = set acc \<union> set xs"
  by (induction xs arbitrary: acc) (auto simp: bs_inv_insert set_insort_insert)

lemma bs_inv_collect [simp, intro]: "bs_inv (bs_collect xs)"
  using bs_collect_append_inv [of "[]" xs] by (simp add: bs_collect_def bs_inv_def)

lemma set_bs_collect [simp]: "set (bs_collect xs) = set xs"
  using bs_collect_append_inv [of "[]" xs] by (simp add: bs_collect_def bs_inv_def)

lemma distinct_bs_collect [simp]: "distinct (bs_collect xs)"
  using bs_inv_collect [of xs] by (simp add: bs_inv_def)

subsection \<open>The invariant is kept and the operations act on the map\<close>

lemma bt_inv_Nil [simp]: "bt_inv []"
  by (simp add: bt_inv_def)

lemma bt_inv_distinct: "bt_inv m \<Longrightarrow> distinct (map fst m)"
  by (simp add: bt_inv_def strict_sorted_iff)

lemma fst_set_bt_insert: "fst ` set (bt_insert k v m) = insert k (fst ` set m)"
proof (induction m)
  case Nil
  then show ?case by simp
next
  case (Cons p m)
  then show ?case by (cases p) (simp add: insert_commute)
qed

lemma bt_inv_insert [intro, btree_simps]: "bt_inv m \<Longrightarrow> bt_inv (bt_insert k v m)"
proof (induction m)
  case Nil
  then show ?case by (simp add: bt_inv_def)
next
  case (Cons p m)
  obtain a b where p: "p = (a, b)" by (cases p)
  have tl: "bt_inv m" and lt: "\<forall>x \<in> fst ` set m. a < x"
    using Cons.prems p by (auto simp: bt_inv_def)
  have "bt_inv (bt_insert k v m)" using tl by (rule Cons.IH)
  then have "a < k \<Longrightarrow> bt_inv ((a, b) # bt_insert k v m)"
    using lt by (simp add: bt_inv_def fst_set_bt_insert)
  then show ?case
    using Cons.prems lt p by (auto simp: bt_inv_def)
qed

lemma bt_get_Nil [simp]: "bt_get [] k = None"
  by (simp add: bt_get_def)

lemma bt_get_insert [btree_simps]: "bt_get (bt_insert k v m) = (bt_get m)(k \<mapsto> v)"
proof
  fix x
  show "bt_get (bt_insert k v m) x = ((bt_get m)(k \<mapsto> v)) x"
    by (induction m) (auto simp: bt_get_def)
qed

lemma bt_get_remove [btree_simps]: "bt_get (bt_remove k m) = (bt_get m)(k := None)"
proof
  fix x
  show "bt_get (bt_remove k m) x = ((bt_get m)(k := None)) x"
    by (induction m) (auto simp: bt_get_def bt_remove_def)
qed

lemma bt_get_update [btree_simps]:
  "bt_get (bt_update k f m) x = (if x = k then map_option f (bt_get m k) else bt_get m x)"
  by (induction m) (auto simp: bt_get_def bt_update_def)

lemma bt_get_map_values [btree_simps]: "bt_get (bt_map_values f m) x = map_option f (bt_get m x)"
  by (induction m) (auto simp: bt_get_def bt_map_values_def)

lemma sorted_wrt_filter_fst: "sorted_wrt (<) (map fst m) \<Longrightarrow> sorted_wrt (<) (map fst (filter P m))"
  by (induction m) auto

lemma bt_inv_remove [intro, btree_simps]: "bt_inv m \<Longrightarrow> bt_inv (bt_remove k m)"
  by (simp add: bt_inv_def bt_remove_def sorted_wrt_filter_fst)

lemma bt_inv_retain [intro, btree_simps]: "bt_inv m \<Longrightarrow> bt_inv (bt_retain P m)"
  by (simp add: bt_inv_def bt_retain_def sorted_wrt_filter_fst)

lemma bt_keys_update [simp]: "bt_keys (bt_update k f m) = bt_keys m"
  by (simp add: bt_keys_def bt_update_def)

lemma bt_keys_map_values [simp]: "bt_keys (bt_map_values f m) = bt_keys m"
  by (simp add: bt_keys_def bt_map_values_def)

lemma bt_inv_update [intro, btree_simps]: "bt_inv m \<Longrightarrow> bt_inv (bt_update k f m)"
  using bt_keys_update [of k f m] by (simp add: bt_inv_def bt_keys_def)

lemma bt_inv_map_values [intro, btree_simps]: "bt_inv m \<Longrightarrow> bt_inv (bt_map_values f m)"
  using bt_keys_map_values [of f m] by (simp add: bt_inv_def bt_keys_def)

lemma bt_inv_extend [intro, btree_simps]: "bt_inv m \<Longrightarrow> bt_inv (bt_extend m ps)"
  unfolding bt_extend_def by (induction ps arbitrary: m) (auto intro: bt_inv_insert)

lemma bt_inv_collect [simp, intro, btree_simps]: "bt_inv (bt_collect ps)"
  by (simp add: bt_collect_def bt_inv_extend)

lemma bt_get_extend [btree_simps]: "bt_get (bt_extend m ps) = bt_get m ++ map_of (rev ps)"
proof (induction ps arbitrary: m)
  case Nil
  then show ?case by (simp add: bt_extend_def)
next
  case (Cons p ps)
  have "bt_extend m (p # ps) = bt_extend (bt_insert (fst p) (snd p) m) ps"
    by (simp add: bt_extend_def)
  then show ?case
    using Cons.IH by (cases p) (simp add: bt_get_insert map_add_def fun_eq_iff split: option.splits)
qed

lemma bt_get_retain [btree_simps]:
  "bt_inv m \<Longrightarrow> bt_get (bt_retain P m) k =
     (case bt_get m k of None \<Rightarrow> None | Some v \<Rightarrow> if P k v then Some v else None)"
proof (induction m)
  case Nil
  then show ?case by (simp add: bt_get_def bt_retain_def)
next
  case (Cons p m)
  obtain a b where p: "p = (a, b)" by (cases p)
  have "bt_inv m" and lt: "\<forall>x \<in> fst ` set m. a < x"
    using Cons.prems p by (auto simp: bt_inv_def)
  moreover from lt have "map_of m a = None"
    by (auto simp: map_of_eq_None_iff)
  ultimately show ?case
    using Cons.IH p by (auto simp: bt_get_def bt_retain_def split: option.splits)
qed

lemma bt_get_in_values: "bt_get m k = Some v \<Longrightarrow> v \<in> set (bt_values m)"
  by (auto simp: bt_get_def bt_values_def dest: map_of_SomeD intro: rev_image_eqI)

lemma bt_get_in_keys: "bt_get m k = Some v \<Longrightarrow> k \<in> set (bt_keys m)"
  by (auto simp: bt_get_def bt_keys_def dest: map_of_SomeD intro: rev_image_eqI)

lemma bt_keys_iff: "k \<in> set (bt_keys m) \<longleftrightarrow> bt_get m k \<noteq> None"
  by (auto simp: bt_get_def bt_keys_def map_of_eq_None_iff)

lemma bt_get_of_mem: "bt_inv m \<Longrightarrow> (k, v) \<in> set m \<Longrightarrow> bt_get m k = Some v"
  using bt_inv_distinct by (fastforce simp: bt_get_def)

text \<open>Two ordered maps with the same lookups are the same list: iteration order is determined.\<close>

lemma bt_ext: "bt_inv m \<Longrightarrow> bt_inv n \<Longrightarrow> bt_get m = bt_get n \<Longrightarrow> m = n"
proof -
  assume inv: "bt_inv m" "bt_inv n" and eq: "bt_get m = bt_get n"
  have d: "distinct (map fst m)" "distinct (map fst n)"
    using inv by (auto intro: bt_inv_distinct)
  have "map_of m = map_of n"
    using eq by (auto simp: bt_get_def fun_eq_iff)
  then have "set m = set n"
    using map_of_inject_set [OF d] by blast
  moreover from this have "inj_on fst (set m \<union> set n)"
    using d by (simp add: distinct_map)
  moreover have "sorted (map fst m)" "sorted (map fst n)"
    using inv by (auto simp: bt_inv_def strict_sorted_iff)
  ultimately show "m = n"
    using d by (intro map_sorted_distinct_set_unique [of fst m n]) simp_all
qed

subsection \<open>The interface the components rely on\<close>

locale ordered_map =
  fixes get :: "'m \<Rightarrow> 'k::linorder \<Rightarrow> 'v option"
    and insert :: "'k \<Rightarrow> 'v \<Rightarrow> 'm \<Rightarrow> 'm"
    and remove :: "'k \<Rightarrow> 'm \<Rightarrow> 'm"
    and keys :: "'m \<Rightarrow> 'k list"
    and inv :: "'m \<Rightarrow> bool"
  assumes get_insert: "inv m \<Longrightarrow> get (insert k v m) = (get m)(k \<mapsto> v)"
    and get_remove: "inv m \<Longrightarrow> get (remove k m) = (get m)(k := None)"
    and inv_insert: "inv m \<Longrightarrow> inv (insert k v m)"
    and inv_remove: "inv m \<Longrightarrow> inv (remove k m)"
    and keys_get: "k \<in> set (keys m) \<longleftrightarrow> get m k \<noteq> None"
    and keys_sorted: "inv m \<Longrightarrow> sorted_wrt (<) (keys m)"
begin

lemma insert_same: "inv m \<Longrightarrow> get (insert k v m) k = Some v"
  by (simp add: get_insert)

lemma insert_other: "inv m \<Longrightarrow> j \<noteq> k \<Longrightarrow> get (insert k v m) j = get m j"
  by (simp add: get_insert)

lemma remove_insert_fresh:
  "inv m \<Longrightarrow> get m k = None \<Longrightarrow> get (remove k (insert k v m)) = get m"
  by (simp add: get_remove get_insert inv_insert fun_eq_iff)

lemma keys_insert: "inv m \<Longrightarrow> set (keys (insert k v m)) = Set.insert k (set (keys m))"
  by (auto simp: keys_get get_insert split: if_splits)

lemma keys_remove: "inv m \<Longrightarrow> set (keys (remove k m)) = set (keys m) - {k}"
  by (auto simp: keys_get get_remove split: if_splits)

text \<open>The identifier scheme of the server: one above the largest key in use.\<close>

lemma above_keys_fresh: "(\<forall>j \<in> set (keys m). j < k) \<Longrightarrow> get m k = None"
  using keys_get by fastforce

lemma insert_fresh_keeps:
  "inv m \<Longrightarrow> get m k = None \<Longrightarrow> get m j = Some w \<Longrightarrow> get (insert k v m) j = Some w"
  by (auto simp: get_insert)

end

interpretation bt: ordered_map bt_get bt_insert bt_remove bt_keys bt_inv
proof unfold_locales
  fix m :: "('a, 'b) btree"
  assume "bt_inv m"
  then show "sorted_wrt (<) (bt_keys m)" by (simp add: bt_inv_def bt_keys_def)
qed (simp_all add: btree_simps bt_keys_iff)

end
