(* ===== verification/Rust_Strings.thy ===== *)
theory Rust_Strings
  imports Btree_Map
begin

text \<open>
  The \<open>str\<close> methods the sources call, over UTF-8 bytes. \<open>ws_len\<close> is the number of bytes of the
  Unicode \<open>White_Space\<close> character a string starts with (0 if none): the ASCII ones, U+0085 and
  U+00A0 (two bytes), U+1680, U+2000 to U+200A, U+2028, U+2029, U+202F, U+205F and U+3000 (three
  bytes). Continuation bytes start none of these, so a scan byte by byte meets the same
  characters as a scan by \<open>char\<close>.
\<close>

definition byte :: "char \<Rightarrow> nat" where
  "byte c = of_char c"

definition ascii_ws :: "char \<Rightarrow> bool" where
  "ascii_ws c = ((9 \<le> byte c \<and> byte c \<le> 13) \<or> byte c = 32)"

definition ws2 :: "char \<Rightarrow> char \<Rightarrow> bool" where
  "ws2 c d = (byte c = 194 \<and> (byte d = 133 \<or> byte d = 160))"

definition ws3 :: "char \<Rightarrow> char \<Rightarrow> char \<Rightarrow> bool" where
  "ws3 c d e =
     ((byte c = 225 \<and> byte d = 154 \<and> byte e = 128) \<or>
      (byte c = 226 \<and> byte d = 128 \<and>
        ((128 \<le> byte e \<and> byte e \<le> 138) \<or> byte e = 168 \<or> byte e = 169 \<or> byte e = 175)) \<or>
      (byte c = 226 \<and> byte d = 129 \<and> byte e = 159) \<or>
      (byte c = 227 \<and> byte d = 128 \<and> byte e = 128))"

fun ws_len :: "string \<Rightarrow> nat" where
  "ws_len [] = 0"
| "ws_len [c] = (if ascii_ws c then 1 else 0)"
| "ws_len [c, d] = (if ascii_ws c then 1 else if ws2 c d then 2 else 0)"
| "ws_len (c # d # e # s) =
     (if ascii_ws c then 1 else if ws2 c d then 2 else if ws3 c d e then 3 else 0)"

text \<open>\<open>split_whitespace\<close>: the maximal runs of non-whitespace.\<close>

function split_ws_from :: "string \<Rightarrow> string \<Rightarrow> string list" where
  "split_ws_from cur [] = (if cur = [] then [] else [cur])"
| "split_ws_from cur (c # cs) =
     (if ws_len (c # cs) = 0 then split_ws_from (cur @ [c]) cs
      else (if cur = [] then [] else [cur]) @ split_ws_from [] (drop (ws_len (c # cs) - 1) cs))"
  by pat_completeness auto
termination split_ws_from
  by (relation "measure (\<lambda>(cur, s). length s)") auto

definition split_whitespace :: "string \<Rightarrow> string list" where
  "split_whitespace s = split_ws_from [] s"

text \<open>\<open>trim\<close>: whitespace is dropped at both ends.\<close>

function trim_start :: "string \<Rightarrow> string" where
  "trim_start s = (if ws_len s = 0 then s else trim_start (drop (ws_len s) s))"
  by pat_completeness auto

lemma ws_len_pos_nonempty: "ws_len s \<noteq> 0 \<Longrightarrow> s \<noteq> []"
  by (cases s) auto

termination trim_start
  by (relation "measure length") (auto simp: ws_len_pos_nonempty)

declare trim_start.simps [simp del]

fun ws_len_end :: "string \<Rightarrow> nat" where
  "ws_len_end [] = 0"
| "ws_len_end [c] = (if ascii_ws c then 1 else 0)"
| "ws_len_end [d, c] = (if ascii_ws d then 1 else if ws2 c d then 2 else 0)"
| "ws_len_end (e # d # c # s) =
     (if ascii_ws e then 1 else if ws2 d e then 2 else if ws3 c d e then 3 else 0)"

function trim_end_rev :: "string \<Rightarrow> string" where
  "trim_end_rev s = (if ws_len_end s = 0 then s else trim_end_rev (drop (ws_len_end s) s))"
  by pat_completeness auto

lemma ws_len_end_pos_nonempty: "ws_len_end s \<noteq> 0 \<Longrightarrow> s \<noteq> []"
  by (cases s) auto

termination trim_end_rev
  by (relation "measure length") (auto simp: ws_len_end_pos_nonempty)

declare trim_end_rev.simps [simp del]

definition trim :: "string \<Rightarrow> string" where
  "trim s = rev (trim_end_rev (rev (trim_start s)))"

text \<open>\<open>split_once(c)\<close>, \<open>split(c)\<close>, \<open>strip_prefix\<close>, \<open>join\<close> and \<open>to_ascii_lowercase\<close>.\<close>

fun split_once :: "char \<Rightarrow> string \<Rightarrow> (string \<times> string) option" where
  "split_once d [] = None"
| "split_once d (c # cs) =
     (if c = d then Some ([], cs)
      else case split_once d cs of None \<Rightarrow> None | Some (a, b) \<Rightarrow> Some (c # a, b))"

fun split_char :: "char \<Rightarrow> string \<Rightarrow> string list" where
  "split_char d [] = [[]]"
| "split_char d (c # cs) =
     (if c = d then [] # split_char d cs
      else case split_char d cs of [] \<Rightarrow> [[c]] | x # xs \<Rightarrow> (c # x) # xs)"

fun strip_prefix :: "string \<Rightarrow> string \<Rightarrow> string option" where
  "strip_prefix [] s = Some s"
| "strip_prefix (p # ps) [] = None"
| "strip_prefix (p # ps) (c # cs) = (if p = c then strip_prefix ps cs else None)"

definition strip_suffix :: "string \<Rightarrow> string \<Rightarrow> string option" where
  "strip_suffix p s = map_option rev (strip_prefix (rev p) (rev s))"

definition starts_with :: "string \<Rightarrow> string \<Rightarrow> bool" where
  "starts_with p s = (strip_prefix p s \<noteq> None)"

fun join_with :: "string \<Rightarrow> string list \<Rightarrow> string" where
  "join_with sep [] = []"
| "join_with sep [x] = x"
| "join_with sep (x # y # xs) = x @ sep @ join_with sep (y # xs)"

definition ascii_lower_char :: "char \<Rightarrow> char" where
  "ascii_lower_char c = (if 65 \<le> byte c \<and> byte c \<le> 90 then char_of (byte c + 32) else c)"

definition to_ascii_lowercase :: "string \<Rightarrow> string" where
  "to_ascii_lowercase s = map ascii_lower_char s"

subsection \<open>Facts\<close>

lemma byte_eq_iff [simp]: "byte c = byte d \<longleftrightarrow> c = d"
  by (simp add: byte_def)

lemma split_char_ne: "split_char d s \<noteq> []"
  by (induction s) (auto split: list.splits)

lemma split_char_append: "d \<notin> set p \<Longrightarrow> split_char d (p @ d # q) = p # split_char d q"
  by (induction p) auto

lemma strip_prefix_append [simp]: "strip_prefix p (p @ s) = Some s"
  by (induction p) auto

lemma strip_prefix_Some: "strip_prefix p s = Some r \<longleftrightarrow> s = p @ r"
  by (induction p s rule: strip_prefix.induct) auto

lemma starts_with_iff: "starts_with p s \<longleftrightarrow> (\<exists>r. s = p @ r)"
  by (auto simp: starts_with_def strip_prefix_Some)

lemma split_once_append: "d \<notin> set k \<Longrightarrow> split_once d (k @ d # v) = Some (k, v)"
  by (induction k) auto

lemma split_once_None: "split_once d s = None \<longleftrightarrow> d \<notin> set s"
  by (induction s) (auto split: option.splits)

lemma split_once_Some: "split_once d s = Some (a, b) \<Longrightarrow> s = a @ d # b \<and> d \<notin> set a"
  by (induction s arbitrary: a) (auto split: if_splits option.splits prod.splits)

text \<open>A string without whitespace at any position.\<close>

fun no_ws :: "string \<Rightarrow> bool" where
  "no_ws [] = True"
| "no_ws (c # cs) = (ws_len (c # cs) = 0 \<and> no_ws cs)"

lemma ws_len_append_ascii:
  assumes "s \<noteq> []" and "byte d < 128" and "ws_len s = 0"
  shows "ws_len (s @ d # t) = 0"
proof -
  have nd: "\<not> ws2 c d" "\<not> ws3 c d e" "\<not> ws3 c e d" for c e
    using assms(2) by (auto simp: ws2_def ws3_def)
  show ?thesis
    using assms(1,3) nd
    by (cases s rule: ws_len.cases; cases t) (auto split: if_splits)
qed

lemma split_ws_from_token:
  "no_ws s \<Longrightarrow> cur @ s \<noteq> [] \<Longrightarrow>
     split_ws_from cur (s @ CHR '' '' # t) = (cur @ s) # split_ws_from [] t"
proof (induction s arbitrary: cur)
  case Nil
  have "ws_len (CHR '' '' # t) = 1"
    by (cases "CHR '' '' # t" rule: ws_len.cases) (auto simp: ascii_ws_def byte_def)
  with Nil show ?case by simp
next
  case (Cons c s)
  have "ws_len ((c # s) @ CHR '' '' # t) = 0"
    using Cons.prems by (intro ws_len_append_ascii) (auto simp: byte_def)
  with Cons show ?case by simp
qed

lemma split_ws_from_last: "no_ws s \<Longrightarrow> cur @ s \<noteq> [] \<Longrightarrow> split_ws_from cur s = [cur @ s]"
  by (induction s arbitrary: cur) auto

text \<open>Joining whitespace-free tokens with blanks and splitting again gives the tokens.\<close>

lemma split_whitespace_join:
  "(\<forall>t \<in> set ts. no_ws t \<and> t \<noteq> []) \<Longrightarrow> split_whitespace (join_with '' '' ts) = ts"
proof (induction ts rule: induct_list012)
  case 1
  then show ?case by (simp add: split_whitespace_def)
next
  case (2 x)
  then show ?case by (simp add: split_whitespace_def split_ws_from_last)
next
  case (3 x y xs)
  have "split_whitespace (join_with '' '' (x # y # xs)) =
      x # split_ws_from [] (join_with '' '' (y # xs))"
    using 3 split_ws_from_token [of x "[]" "join_with '' '' (y # xs)"]
    by (simp add: split_whitespace_def)
  with 3 show ?case by (simp add: split_whitespace_def)
qed

lemma no_ws_append_ascii:
  "no_ws s \<Longrightarrow> no_ws (c # t) \<Longrightarrow> byte c < 128 \<Longrightarrow> no_ws (s @ c # t)"
proof (induction s)
  case Nil
  then show ?case by simp
next
  case (Cons a s)
  then have "ws_len ((a # s) @ c # t) = 0"
    by (intro ws_len_append_ascii) auto
  with Cons show ?case by simp
qed

end
