(* ===== verification/Query_Parser.thy ===== *)
theory Query_Parser
  imports Rust_Strings
begin

text \<open>
  \<open>protocols/serverquery/parser.rs\<close>: the ServerQuery line format. Requests are blank-separated
  tokens; \<open>key=value\<close> tokens fill \<open>named_args\<close> and the option group the parser is in, a \<open>|\<close> opens
  the next option group, \<open>-flag\<close> tokens are flags. Responses are rows of fields joined by \<open>|\<close>,
  then the error line.
\<close>

record command_request =
  command :: string
  positional_args :: "string list"
  named_args :: "(string, string) btree"
  option_groups :: "(string, string) btree list"
  flags :: "string list"

type_synonym row = "(string, string) btree"

record query_response =
  rows :: "row list"
  error_id :: u32
  message :: string
  extra_fields :: row

definition response_ok :: query_response where
  "response_ok = \<lparr>rows = [], error_id = 0, message = ''ok'', extra_fields = []\<rparr>"

definition response_ok_row :: "row \<Rightarrow> query_response" where
  "response_ok_row r = \<lparr>rows = [r], error_id = 0, message = ''ok'', extra_fields = []\<rparr>"

definition response_ok_rows :: "row list \<Rightarrow> query_response" where
  "response_ok_rows rs = \<lparr>rows = rs, error_id = 0, message = ''ok'', extra_fields = []\<rparr>"

definition response_error :: "u32 \<Rightarrow> string \<Rightarrow> query_response" where
  "response_error eid msg = \<lparr>rows = [], error_id = eid, message = msg, extra_fields = []\<rparr>"

definition response_error_with_fields ::
    "u32 \<Rightarrow> string \<Rightarrow> (string \<times> string) list \<Rightarrow> query_response" where
  "response_error_with_fields eid msg fs =
     \<lparr>rows = [], error_id = eid, message = msg, extra_fields = bt_collect fs\<rparr>"

lemmas response_defs [response_simps] =
  response_ok_def response_ok_row_def response_ok_rows_def response_error_def
  response_error_with_fields_def

subsection \<open>Escaping\<close>

abbreviation (input) backslash :: char where
  "backslash \<equiv> CHR 0x5C"

definition decode_escape :: "char \<Rightarrow> char" where
  "decode_escape c =
     (if c = CHR ''s'' then CHR '' ''
      else if c = CHR ''p'' then CHR ''|''
      else if c = CHR ''/'' then CHR ''/''
      else if c = CHR ''n'' then CHR 0x0A
      else if c = CHR ''t'' then CHR 0x09
      else if c = backslash then backslash
      else c)"

fun decode_from :: "bool \<Rightarrow> string \<Rightarrow> string" where
  "decode_from escaped [] = (if escaped then [backslash] else [])"
| "decode_from escaped (c # cs) =
     (if escaped then decode_escape c # decode_from False cs
      else if c = backslash then decode_from True cs
      else c # decode_from False cs)"

definition decode_query_value :: "string \<Rightarrow> string" where
  "decode_query_value value = decode_from False value"

definition encode_char :: "char \<Rightarrow> string" where
  "encode_char c =
     (if c = backslash then [backslash, backslash]
      else if c = CHR '' '' then [backslash, CHR ''s'']
      else if c = CHR ''|'' then [backslash, CHR ''p'']
      else if c = CHR ''/'' then [backslash, CHR ''/'']
      else if c = CHR 0x0A then [backslash, CHR ''n'']
      else if c = CHR 0x09 then [backslash, CHR ''t'']
      else [c])"

definition encode_query_value :: "string \<Rightarrow> string" where
  "encode_query_value value = concat (map encode_char value)"

fun pipe_segments_from :: "bool \<Rightarrow> string \<Rightarrow> string \<Rightarrow> string list" where
  "pipe_segments_from escaped cur [] = [cur]"
| "pipe_segments_from escaped cur (c # cs) =
     (if escaped then pipe_segments_from False (cur @ [c]) cs
      else if c = backslash then pipe_segments_from True (cur @ [c]) cs
      else if c = CHR ''|'' then cur # pipe_segments_from False [] cs
      else pipe_segments_from False (cur @ [c]) cs)"

definition split_pipe_segments :: "string \<Rightarrow> string list" where
  "split_pipe_segments token = pipe_segments_from False [] token"

subsection \<open>Parsing a request line\<close>

function ensure_option_group :: "row list \<Rightarrow> nat \<Rightarrow> row list" where
  "ensure_option_group gs i =
     (if length gs \<le> i then ensure_option_group (gs @ [[]]) i else gs)"
  by pat_completeness auto
termination ensure_option_group
  by (relation "measure (\<lambda>(gs, i). Suc i - length gs)") auto

declare ensure_option_group.simps [simp del]

text \<open>The loop variables of \<open>parse_request_line\<close>.\<close>

record parse_state =
  ps_positional :: "string list"
  ps_named :: row
  ps_groups :: "row list"
  ps_flags :: "string list"
  ps_index :: nat

definition parse_init :: parse_state where
  "parse_init = \<lparr>ps_positional = [], ps_named = [], ps_groups = [], ps_flags = [], ps_index = 0\<rparr>"

definition insert_named :: "string \<Rightarrow> string \<Rightarrow> parse_state \<Rightarrow> parse_state" where
  "insert_named key value st =
     (let decoded_value = decode_query_value value;
          gs = ensure_option_group (ps_groups st) (ps_index st)
      in st\<lparr>ps_named := bt_insert key decoded_value (ps_named st),
            ps_groups := gs[ps_index st := bt_insert key decoded_value (gs ! ps_index st)]\<rparr>)"

definition push_positional :: "string \<Rightarrow> parse_state \<Rightarrow> parse_state" where
  "push_positional token st =
     st\<lparr>ps_positional := ps_positional st @ [decode_query_value token]\<rparr>"

definition parse_segment :: "parse_state \<Rightarrow> string \<Rightarrow> parse_state" where
  "parse_segment st segment =
     (case split_once (CHR ''='') segment of
        Some (key, value) \<Rightarrow> insert_named key value st
      | None \<Rightarrow> if segment \<noteq> [] then push_positional segment st else st)"

fun parse_segments :: "parse_state \<Rightarrow> string list \<Rightarrow> parse_state" where
  "parse_segments st [] = st"
| "parse_segments st [seg] = parse_segment st seg"
| "parse_segments st (seg # seg' # segs) =
     (let st' = parse_segment st seg
      in parse_segments (st'\<lparr>ps_index := Suc (ps_index st')\<rparr>) (seg' # segs))"

definition parse_token :: "parse_state \<Rightarrow> string \<Rightarrow> parse_state" where
  "parse_token st token =
     (case strip_prefix ''-'' token of
        Some flag \<Rightarrow>
          if flag \<noteq> [] then st\<lparr>ps_flags := insort_insert flag (ps_flags st)\<rparr> else st
      | None \<Rightarrow>
          (let segments = split_pipe_segments token in
           if length segments = 1 then
             (case split_once (CHR ''='') token of
                Some (key, value) \<Rightarrow> insert_named key value st
              | None \<Rightarrow> push_positional token st)
           else parse_segments st segments))"

definition parse_request_line :: "string \<Rightarrow> string + command_request" where
  "parse_request_line line =
     (let tokens = split_whitespace line in
      case tokens of
        [] \<Rightarrow> Inl ''empty query line''
      | name # args \<Rightarrow>
          (let st = foldl parse_token parse_init args;
               gs = (if length (ps_groups st) = 1 \<and> ps_groups st ! 0 = [] then []
                     else ps_groups st)
           in Inr \<lparr>command = to_ascii_lowercase name,
                   positional_args = ps_positional st,
                   named_args = ps_named st,
                   option_groups = gs,
                   flags = ps_flags st\<rparr>))"

subsection \<open>Rendering a response\<close>

definition render_field :: "string \<times> string \<Rightarrow> string" where
  "render_field kv = fst kv @ ''='' @ encode_query_value (snd kv)"

definition render_row :: "row \<Rightarrow> string" where
  "render_row r = join_with '' '' (map render_field r)"

definition render_rows :: "row list \<Rightarrow> string" where
  "render_rows rs = join_with ''|'' (map render_row rs)"

definition render_error_line :: "query_response \<Rightarrow> string" where
  "render_error_line r =
     join_with '' ''
       ([''error id='' @ word_to_string (error_id r),
         ''msg='' @ encode_query_value (message r)] @ map render_field (extra_fields r))"

definition render_response :: "query_response \<Rightarrow> string" where
  "render_response r =
     (if rows r = [] then render_error_line r
      else render_rows (rows r) @ [CHR 0x0A] @ render_error_line r)"

subsection \<open>Escaping is inverted by unescaping\<close>

lemma decode_escape_encode:
  "decode_from False (encode_char c @ s) = c # decode_from False s"
  by (simp add: encode_char_def decode_escape_def)

lemma decode_encode: "decode_query_value (encode_query_value v) = v"
  unfolding decode_query_value_def encode_query_value_def
  by (induction v) (simp_all add: decode_escape_encode)

lemma pipe_segments_encode_char:
  "pipe_segments_from False cur (encode_char c @ s) = pipe_segments_from False (cur @ encode_char c) s"
  by (simp add: encode_char_def)

lemma pipe_segments_encode:
  "pipe_segments_from False cur (concat (map encode_char v) @ s) =
     pipe_segments_from False (cur @ concat (map encode_char v)) s"
  by (induction v arbitrary: cur) (simp_all add: pipe_segments_encode_char)

subsection \<open>Fields that survive the line format\<close>

text \<open>
  A key is plain when it has no whitespace and none of the characters the format uses; a value may
  be anything whose only whitespace is what \<open>encode_query_value\<close> escapes.
\<close>

definition plain_char :: "char \<Rightarrow> bool" where
  "plain_char c = (byte c < 128 \<and> \<not> ascii_ws c \<and> c \<noteq> CHR ''='' \<and> c \<noteq> CHR ''|'' \<and> c \<noteq> backslash)"

definition plain_key :: "string \<Rightarrow> bool" where
  "plain_key k = (list_all plain_char k \<and> k \<noteq> [] \<and> hd k \<noteq> CHR ''-'')"

fun escapable_ws :: "string \<Rightarrow> bool" where
  "escapable_ws [] = True"
| "escapable_ws (c # cs) =
     ((ws_len (c # cs) = 0 \<or> c = CHR '' '' \<or> c = CHR 0x0A \<or> c = CHR 0x09) \<and> escapable_ws cs)"

definition wf_field :: "string \<times> string \<Rightarrow> bool" where
  "wf_field kv = (plain_key (fst kv) \<and> escapable_ws (snd kv))"

definition wf_row :: "row \<Rightarrow> bool" where
  "wf_row r = (r \<noteq> [] \<and> bt_inv r \<and> list_all wf_field r)"

lemma ws_len_Cons_0:
  "ws_len (c # s) = 0 \<longleftrightarrow>
     \<not> ascii_ws c \<and> (\<forall>d s'. s = d # s' \<longrightarrow> \<not> ws2 c d) \<and>
     (\<forall>d e s'. s = d # e # s' \<longrightarrow> \<not> ws3 c d e)"
  by (cases "c # s" rule: ws_len.cases) auto

lemma encode_char_cases:
  obtains "encode_char c = [c]" "c \<noteq> backslash" "c \<noteq> CHR '' ''" "c \<noteq> CHR ''|''" "c \<noteq> CHR 0x0A" "c \<noteq> CHR 0x09"
  | x where "encode_char c = [backslash, x]" "x \<in> set [backslash, CHR ''s'', CHR ''p'', CHR ''/'', CHR ''n'', CHR ''t'']"
proof (cases "c = backslash \<or> c = CHR '' '' \<or> c = CHR ''|'' \<or> c = CHR ''/'' \<or> c = CHR 0x0A \<or> c = CHR 0x09")
  case True
  then have "\<exists>x \<in> set [backslash, CHR ''s'', CHR ''p'', CHR ''/'', CHR ''n'', CHR ''t'']. encode_char c = [backslash, x]"
    by (elim disjE) (simp_all add: encode_char_def)
  then show ?thesis using that(2) by blast
next
  case False
  then have "encode_char c = [c]" by (simp add: encode_char_def)
  with False show ?thesis using that(1) by blast
qed

lemma ws_backslash: "\<not> ws2 c backslash" "\<not> ws3 c backslash e" "\<not> ws3 c d backslash"
  by (simp_all add: ws2_def ws3_def byte_def)

lemma ws_len_escape: "x \<in> set [backslash, CHR ''s'', CHR ''p'', CHR ''/'', CHR ''n'', CHR ''t''] \<Longrightarrow> ws_len (x # s) = 0"
  by (auto simp: ws_len_Cons_0 ascii_ws_def ws2_def ws3_def byte_def)

lemma ws_len_encode_tail:
  assumes "ws_len (c # cs) = 0"
  shows "ws_len (c # encode_query_value cs) = 0"
proof (cases cs)
  case Nil
  with assms show ?thesis by (simp add: encode_query_value_def)
next
  case (Cons d ds)
  have head: "encode_query_value cs = encode_char d @ encode_query_value ds"
    using Cons by (simp add: encode_query_value_def)
  show ?thesis
  proof (cases ds)
    case Nil
    with head assms Cons show ?thesis
      by (cases d rule: encode_char_cases)
        (auto simp: ws_len_Cons_0 ws_backslash encode_query_value_def split: if_splits)
  next
    case (Cons e es)
    then have "encode_query_value ds = encode_char e @ encode_query_value es"
      by (simp add: encode_query_value_def)
    with head assms Cons \<open>cs = d # ds\<close> show ?thesis
      by (cases d rule: encode_char_cases; cases e rule: encode_char_cases)
        (auto simp: ws_len_Cons_0 ws_backslash split: if_splits)
  qed
qed

lemma no_ws_encode: "escapable_ws v \<Longrightarrow> no_ws (encode_query_value v)"
proof (induction v)
  case Nil
  then show ?case by (simp add: encode_query_value_def)
next
  case (Cons c cs)
  have eq: "encode_query_value (c # cs) = encode_char c @ encode_query_value cs"
    by (simp add: encode_query_value_def)
  show ?case
  proof (cases c rule: encode_char_cases)
    case 1
    with Cons.prems have "ws_len (c # cs) = 0" by simp
    then have "ws_len (c # encode_query_value cs) = 0" by (rule ws_len_encode_tail)
    with Cons 1 eq show ?thesis by simp
  next
    case (2 x)
    then have "ws_len (x # encode_query_value cs) = 0"
      and "ws_len (backslash # x # encode_query_value cs) = 0"
      by (simp_all only: ws_len_escape list.set insertI1)
    with Cons 2 eq show ?thesis by simp
  qed
qed

lemma plain_no_ws: "list_all plain_char k \<Longrightarrow> no_ws k"
proof (induction k)
  case Nil
  then show ?case by simp
next
  case (Cons c k)
  have "\<not> ws2 c d" "\<not> ws3 c d e" for d e
    using Cons.prems by (auto simp: plain_char_def ws2_def ws3_def)
  with Cons show ?case by (simp add: ws_len_Cons_0 plain_char_def)
qed

lemma no_ws_field: "wf_field kv \<Longrightarrow> no_ws (render_field kv)"
proof -
  assume wf: "wf_field kv"
  have "ws_len (CHR ''='' # s) = 0" for s
    by (simp add: ws_len_Cons_0 ascii_ws_def ws2_def ws3_def byte_def)
  then have "no_ws (CHR ''='' # encode_query_value (snd kv))"
    using wf by (simp add: wf_field_def no_ws_encode)
  moreover have "no_ws (fst kv)"
    using wf by (simp add: wf_field_def plain_key_def plain_no_ws)
  ultimately have "no_ws (fst kv @ CHR ''='' # encode_query_value (snd kv))"
    by (intro no_ws_append_ascii) (simp_all add: byte_def)
  then show ?thesis by (simp add: render_field_def)
qed

lemma pipe_segments_plain:
  "list_all plain_char k \<Longrightarrow> pipe_segments_from False cur (k @ s) = pipe_segments_from False (cur @ k) s"
  by (induction k arbitrary: cur) (auto simp: plain_char_def)

lemma pipe_segments_field:
  "wf_field kv \<Longrightarrow>
     pipe_segments_from False cur (render_field kv @ s) = pipe_segments_from False (cur @ render_field kv) s"
  using pipe_segments_encode [of "cur @ fst kv @ ''=''" "snd kv" s]
  by (simp add: render_field_def wf_field_def plain_key_def encode_query_value_def
      pipe_segments_plain)

lemma split_once_field: "wf_field kv \<Longrightarrow> split_once (CHR ''='') (render_field kv) = Some (fst kv, encode_query_value (snd kv))"
  unfolding render_field_def wf_field_def plain_key_def
  by (auto intro!: split_once_append simp: list_all_iff plain_char_def)

lemma strip_dash_field: "wf_field kv \<Longrightarrow> strip_prefix ''-'' (render_field kv @ s) = None"
  unfolding render_field_def wf_field_def plain_key_def by (cases "fst kv") auto

lemma field_not_empty: "render_field kv \<noteq> []"
  by (simp add: render_field_def)

subsection \<open>The tokens of a rendered list of rows\<close>

text \<open>Rows are joined by \<open>|\<close> and fields by a blank, so the last field of a row and the first of the
  next share a token.\<close>

fun glue :: "string list list \<Rightarrow> string list" where
  "glue [] = []"
| "glue ([] # rs) = glue rs"
| "glue [[f]] = [f]"
| "glue ([f] # r # rs) = (f @ ''|'' @ hd (glue (r # rs))) # tl (glue (r # rs))"
| "glue ((f # f' # r) # rs) = f # glue ((f' # r) # rs)"

lemma glue_ne: "\<forall>r \<in> set rs. r \<noteq> [] \<Longrightarrow> rs \<noteq> [] \<Longrightarrow> glue rs \<noteq> []"
  by (induction rs rule: glue.induct) auto

lemma join_glue:
  "\<forall>r \<in> set rs. r \<noteq> [] \<Longrightarrow>
     join_with ''|'' (map (join_with '' '') rs) = join_with '' '' (glue rs)"
proof (induction rs rule: glue.induct)
  case (4 f r rs)
  have ne: "glue (r # rs) \<noteq> []" using 4 glue_ne by auto
  then obtain h t where ht: "glue (r # rs) = h # t" by (cases "glue (r # rs)") auto
  have IH: "join_with ''|'' (map (join_with '' '') (r # rs)) = join_with '' '' (glue (r # rs))"
    using 4 by simp
  have "join_with '' '' ((f @ ''|'' @ h) # t) = f @ ''|'' @ join_with '' '' (h # t)"
    by (cases t) auto
  with IH ht show ?case by simp
next
  case (5 f f' r rs)
  have IH: "join_with ''|'' (map (join_with '' '') ((f' # r) # rs)) = join_with '' '' (glue ((f' # r) # rs))"
    using 5 by simp
  have ne: "glue ((f' # r) # rs) \<noteq> []" using 5 glue_ne by auto
  have "join_with ''|'' (map (join_with '' '') ((f # f' # r) # rs)) =
      f @ '' '' @ join_with ''|'' (map (join_with '' '') ((f' # r) # rs))"
    by (cases rs) auto
  with IH ne show ?case by (cases "glue ((f' # r) # rs)") auto
qed auto

lemma glue_tokens:
  "(\<forall>r \<in> set rs. r \<noteq> [] \<and> (\<forall>f \<in> set r. no_ws f \<and> f \<noteq> [])) \<Longrightarrow>
     \<forall>t \<in> set (glue rs). no_ws t \<and> t \<noteq> []"
proof (induction rs rule: glue.induct)
  case (4 f r rs)
  have tok: "\<forall>t \<in> set (glue (r # rs)). no_ws t \<and> t \<noteq> []"
    using "4.prems" by (intro "4.IH"(1)) simp
  have "glue (r # rs) \<noteq> []" using "4.prems" by (intro glue_ne) auto
  then obtain h t where ht: "glue (r # rs) = h # t" by (cases "glue (r # rs)") auto
  have "ws_len (CHR ''|'' # h) = 0"
    by (simp add: ws_len_Cons_0 ascii_ws_def ws2_def ws3_def byte_def)
  with tok have "no_ws (f @ CHR ''|'' # h)"
    using "4.prems" ht by (intro no_ws_append_ascii) (auto simp: byte_def)
  with tok ht show ?case by simp
next
  case (5 f f' r rs)
  have "\<forall>t \<in> set (glue ((f' # r) # rs)). no_ws t \<and> t \<noteq> []"
    using "5.prems" by (intro "5.IH") simp
  with "5.prems" show ?case by simp
qed simp_all

definition next_group :: "parse_state \<Rightarrow> parse_state" where
  "next_group st = st\<lparr>ps_index := Suc (ps_index st)\<rparr>"

definition put_field :: "parse_state \<Rightarrow> string \<times> string \<Rightarrow> parse_state" where
  "put_field st kv = insert_named (fst kv) (encode_query_value (snd kv)) st"

lemma parse_token_field: "wf_field kv \<Longrightarrow> parse_token st (render_field kv) = put_field st kv"
  using strip_dash_field [of kv "[]"] pipe_segments_field [of kv "[]" "[]"]
  by (simp add: parse_token_def split_once_field put_field_def split_pipe_segments_def)

text \<open>A token that starts with a field and a \<open>|\<close> is that field, the next group, and the rest.\<close>

definition field_token :: "string \<Rightarrow> bool" where
  "field_token t = (\<forall>seg \<in> set (split_pipe_segments t). \<exists>k v. split_once (CHR ''='') seg = Some (k, v))"

lemma split_pipe_ne: "pipe_segments_from e cur s \<noteq> []"
  by (induction e cur s rule: pipe_segments_from.induct) auto

lemma split_pipe_single: "pipe_segments_from e cur s = [x] \<Longrightarrow> x = cur @ s"
proof (induction e cur s rule: pipe_segments_from.induct)
  case (2 e cur c cs)
  then show ?case by (auto split: if_splits simp: split_pipe_ne)
qed auto

lemma parse_token_segments:
  assumes "field_token t" and "strip_prefix ''-'' t = None"
  shows "parse_token st t = parse_segments st (split_pipe_segments t)"
proof (cases "length (split_pipe_segments t) = 1")
  case True
  then have "split_pipe_segments t = [t]"
    using split_pipe_single [of False "[]" t] by (auto simp: split_pipe_segments_def length_Suc_conv)
  with assms show ?thesis
    by (auto simp: parse_token_def field_token_def parse_segment_def)
next
  case False
  with assms show ?thesis by (simp add: parse_token_def)
qed

lemma split_pipe_glued:
  "wf_field kv \<Longrightarrow>
     split_pipe_segments (render_field kv @ ''|'' @ t) = render_field kv # split_pipe_segments t"
  using pipe_segments_field [of kv "[]" "''|'' @ t"] by (simp add: split_pipe_segments_def)

lemma parse_token_glued:
  assumes "wf_field kv" and "field_token t" and "strip_prefix ''-'' t = None"
  shows "parse_token st (render_field kv @ ''|'' @ t) = parse_token (next_group (put_field st kv)) t"
proof -
  have "field_token (render_field kv @ ''|'' @ t)"
    using assms split_pipe_glued [of kv t] by (auto simp: field_token_def split_once_field)
  then have "parse_token st (render_field kv @ ''|'' @ t) =
      parse_segments st (render_field kv # split_pipe_segments t)"
    using parse_token_segments strip_dash_field [OF assms(1)] split_pipe_glued [OF assms(1)] by metis
  also have "\<dots> = parse_segments (next_group (put_field st kv)) (split_pipe_segments t)"
    using assms(1) split_pipe_ne [of False "[]" t]
    by (cases "split_pipe_segments t")
      (auto simp: parse_segment_def split_once_field put_field_def next_group_def
        split_pipe_segments_def Let_def)
  also have "\<dots> = parse_token (next_group (put_field st kv)) t"
    using assms by (simp add: parse_token_segments)
  finally show ?thesis .
qed

lemma field_token_field: "wf_field kv \<Longrightarrow> field_token (render_field kv)"
  using pipe_segments_field [of kv "[]" "[]"]
  by (auto simp: field_token_def split_pipe_segments_def split_once_field)

lemma field_token_glued:
  "wf_field kv \<Longrightarrow> field_token t \<Longrightarrow> field_token (render_field kv @ ''|'' @ t)"
  using split_pipe_glued [of kv t] by (auto simp: field_token_def split_once_field)

fun put_rows :: "parse_state \<Rightarrow> row list \<Rightarrow> parse_state" where
  "put_rows st [] = st"
| "put_rows st [r] = foldl put_field st r"
| "put_rows st (r # r' # rs) = put_rows (next_group (foldl put_field st r)) (r' # rs)"

lemma run_glue:
  assumes "\<forall>r \<in> set rs. r \<noteq> [] \<and> (\<forall>f \<in> set r. wf_field f)" and "rs \<noteq> []"
  shows "foldl parse_token st (glue (map (map render_field) rs)) = put_rows st rs \<and>
     field_token (hd (glue (map (map render_field) rs))) \<and>
     strip_prefix ''-'' (hd (glue (map (map render_field) rs))) = None"
  using assms
proof (induction "map (map render_field) rs" arbitrary: rs st rule: glue.induct)
  case (3 f)
  then obtain kv where "rs = [[kv]]" by auto
  with 3 show ?case
    using parse_token_field field_token_field strip_dash_field [of kv "[]"] by simp
next
  case (4 f r rs0)
  then obtain kv r1 rs1 where rs: "rs = [kv] # r1 # rs1" and kv: "f = render_field kv" by auto
  let ?g = "glue (map (map render_field) (r1 # rs1))"
  have IH: "foldl parse_token st' ?g = put_rows st' (r1 # rs1) \<and> field_token (hd ?g) \<and>
      strip_prefix ''-'' (hd ?g) = None" for st'
    using "4.hyps"(1) [of "r1 # rs1" st'] "4.hyps"(3) "4.prems" rs by simp
  have "?g \<noteq> []" using "4.prems" rs by (intro glue_ne) auto
  then obtain h t where g: "?g = h # t" by (cases ?g) auto
  have wf: "wf_field kv" using "4.prems" rs by simp
  have "foldl parse_token st ((f @ ''|'' @ h) # t) = foldl parse_token (next_group (put_field st kv)) ?g"
    using g IH parse_token_glued [OF wf] kv by simp
  with IH g rs kv wf show ?case
    using field_token_glued [OF wf] strip_dash_field [OF wf] by simp
next
  case (5 f f' r rs0)
  then obtain kv kv' r1 rs1 where rs: "rs = (kv # kv' # r1) # rs1" and kv: "f = render_field kv"
    by auto
  have wf: "wf_field kv" using "5.prems" rs by simp
  have IH: "foldl parse_token st' (glue (map (map render_field) ((kv' # r1) # rs1))) =
      put_rows st' ((kv' # r1) # rs1)" for st'
    using "5.hyps"(1) [of "(kv' # r1) # rs1" st'] "5.hyps"(2) "5.prems" rs by simp
  have "put_rows (put_field st kv) ((kv' # r1) # rs1) = put_rows st ((kv # kv' # r1) # rs1)"
    by (cases rs1) auto
  with IH rs wf show ?case
    using field_token_field [OF wf] strip_dash_field [OF wf, of "[]"]
    by (simp add: parse_token_field)
qed auto

lemma ensure_fresh: "ensure_option_group gs (length gs) = gs @ [[]]"
  by (subst ensure_option_group.simps) (simp add: ensure_option_group.simps [of "gs @ [[]]"])

lemma ensure_present: "i < length gs \<Longrightarrow> ensure_option_group gs i = gs"
  by (simp add: ensure_option_group.simps [of gs])

lemma put_field_open:
  "ps_groups st = gs @ [g] \<Longrightarrow> ps_index st = length gs \<Longrightarrow>
     put_field st kv = st\<lparr>ps_named := bt_insert (fst kv) (snd kv) (ps_named st),
       ps_groups := gs @ [bt_insert (fst kv) (snd kv) g]\<rparr>"
  by (simp add: put_field_def insert_named_def decode_encode ensure_present Let_def)

lemma put_row_open:
  "ps_groups st = gs @ [g] \<Longrightarrow> ps_index st = length gs \<Longrightarrow>
     foldl put_field st r = st\<lparr>ps_named := bt_extend (ps_named st) r, ps_groups := gs @ [bt_extend g r]\<rparr>"
proof (induction r arbitrary: st g)
  case Nil
  then show ?case by (simp add: bt_extend_def)
next
  case (Cons kv r)
  then show ?case by (simp add: put_field_open bt_extend_def)
qed

lemma bt_insert_above: "\<forall>x \<in> set m. fst x < k \<Longrightarrow> bt_insert k v m = m @ [(k, v)]"
  by (induction m) auto

lemma bt_extend_sorted: "bt_inv (m @ r) \<Longrightarrow> bt_extend m r = m @ r"
proof (induction r arbitrary: m)
  case Nil
  then show ?case by (simp add: bt_extend_def)
next
  case (Cons kv r)
  have "bt_insert (fst kv) (snd kv) m = m @ [kv]"
    using Cons.prems by (intro bt_insert_above [of m "fst kv" "snd kv", simplified])
      (auto simp: bt_inv_def sorted_wrt_append)
  moreover have "bt_extend (m @ [kv]) r = (m @ [kv]) @ r"
    using Cons.prems by (intro Cons.IH) simp
  ultimately show ?case by (simp add: bt_extend_def)
qed

lemma put_row_fresh:
  assumes "ps_index st = length (ps_groups st)" and "r \<noteq> []" and "bt_inv r"
  shows "foldl put_field st r =
     st\<lparr>ps_named := bt_extend (ps_named st) r, ps_groups := ps_groups st @ [r]\<rparr>"
proof -
  obtain kv r' where r: "r = kv # r'" using assms(2) by (cases r) auto
  have "put_field st kv = st\<lparr>ps_named := bt_insert (fst kv) (snd kv) (ps_named st),
      ps_groups := ps_groups st @ [[kv]]\<rparr>"
    using assms(1) by (simp add: put_field_def insert_named_def decode_encode ensure_fresh Let_def)
  then have "foldl put_field st r = st\<lparr>ps_named := bt_extend (ps_named st) r,
      ps_groups := ps_groups st @ [bt_extend [kv] r']\<rparr>"
    using put_row_open [of "put_field st kv" "ps_groups st" "[kv]" r'] assms(1) r
    by (simp add: bt_extend_def)
  then show ?thesis using bt_extend_sorted [of "[kv]" r'] assms(3) r by simp
qed

definition merge_rows :: "row \<Rightarrow> row list \<Rightarrow> row" where
  "merge_rows m rs = foldl bt_extend m rs"

lemma put_rows_fresh:
  "ps_index st = length (ps_groups st) \<Longrightarrow> \<forall>r \<in> set rs. r \<noteq> [] \<and> bt_inv r \<Longrightarrow> rs \<noteq> [] \<Longrightarrow>
     put_rows st rs = st\<lparr>ps_named := merge_rows (ps_named st) rs, ps_groups := ps_groups st @ rs,
       ps_index := ps_index st + length rs - 1\<rparr>"
proof (induction st rs rule: put_rows.induct)
  case (3 st r r' rs)
  then show ?case by (simp add: put_row_fresh next_group_def merge_rows_def)
qed (simp_all add: put_row_fresh merge_rows_def)

subsection \<open>The parser's invariant: \<open>named_args\<close> is the union of the option groups\<close>

lemma ensure_replicate: "ensure_option_group gs i = gs @ replicate (Suc i - length gs) []"
proof (induction gs i rule: ensure_option_group.induct)
  case (1 gs i)
  show ?case
  proof (cases "length gs \<le> i")
    case True
    then have "Suc i - length gs = Suc (Suc i - length (gs @ [[]]))" by simp
    with True 1 show ?thesis by (simp add: ensure_option_group.simps [of gs])
  next
    case False
    then show ?thesis by (simp add: ensure_option_group.simps [of gs])
  qed
qed

definition group_union :: "row list \<Rightarrow> (string \<rightharpoonup> string)" where
  "group_union gs = foldl (++) Map.empty (map bt_get gs)"

lemma group_union_snoc: "group_union (gs @ [g]) = group_union gs ++ bt_get g"
  by (simp add: group_union_def)

lemma group_union_replicate: "group_union (gs @ replicate n []) = group_union gs"
proof (induction n)
  case (Suc n)
  have "gs @ replicate (Suc n) [] = (gs @ replicate n []) @ [[]]"
    by (simp add: replicate_append_same)
  then have "group_union (gs @ replicate (Suc n) []) = group_union (gs @ replicate n []) ++ bt_get []"
    by (simp only: group_union_snoc)
  with Suc show ?case by (simp add: map_add_def bt_get_def)
qed simp

definition parse_inv :: "parse_state \<Rightarrow> bool" where
  "parse_inv st \<longleftrightarrow> bt_inv (ps_named st) \<and> (\<forall>g \<in> set (ps_groups st). bt_inv g) \<and>
     length (ps_groups st) \<le> Suc (ps_index st) \<and> bt_get (ps_named st) = group_union (ps_groups st)"

lemma parse_inv_insert_named: "parse_inv st \<Longrightarrow> parse_inv (insert_named k v st)"
proof -
  assume inv: "parse_inv st"
  let ?gs = "ensure_option_group (ps_groups st) (ps_index st)"
  have len: "length ?gs = Suc (ps_index st)"
    using inv by (simp add: ensure_replicate parse_inv_def)
  then obtain gs g where gs: "?gs = gs @ [g]" and i: "length gs = ps_index st"
    by (metis length_append_singleton length_greater_0_conv nat.inject rev_exhaust zero_less_Suc list.size(3) nat.distinct(1))
  have "group_union ?gs = group_union (ps_groups st)"
    by (simp add: ensure_replicate group_union_replicate)
  moreover have "\<forall>g \<in> set ?gs. bt_inv g"
    using inv by (auto simp: ensure_replicate parse_inv_def)
  ultimately show ?thesis
    using inv gs i [symmetric]
    by (auto simp: insert_named_def parse_inv_def Let_def group_union_snoc bt_get_insert intro: bt_inv_insert)
qed

lemma parse_inv_segment: "parse_inv st \<Longrightarrow> parse_inv (parse_segment st seg)"
  by (auto simp: parse_segment_def push_positional_def parse_inv_insert_named
      split: option.splits) (simp_all add: parse_inv_def)

lemma parse_inv_segments: "parse_inv st \<Longrightarrow> parse_inv (parse_segments st segs)"
proof (induction st segs rule: parse_segments.induct)
  case (3 st seg seg' segs)
  have "parse_inv (parse_segment st seg)" using 3 by (simp add: parse_inv_segment)
  then have "parse_inv (parse_segment st seg\<lparr>ps_index := Suc (ps_index (parse_segment st seg))\<rparr>)"
    by (simp add: parse_inv_def)
  with 3 show ?case by (simp add: Let_def)
qed (simp_all add: parse_inv_segment)

lemma parse_inv_token: "parse_inv st \<Longrightarrow> parse_inv (parse_token st t)"
  by (auto simp: parse_token_def Let_def push_positional_def parse_inv_insert_named
      parse_inv_segments split: option.splits) (simp_all add: parse_inv_def)

lemma parse_inv_tokens: "parse_inv st \<Longrightarrow> parse_inv (foldl parse_token st ts)"
  by (induction ts arbitrary: st) (simp_all add: parse_inv_token)

lemma parse_inv_init: "parse_inv parse_init"
  by (simp add: parse_inv_def parse_init_def group_union_def bt_get_def fun_eq_iff)

subsection \<open>Properties\<close>

text \<open>Property C1: unescaping undoes escaping for every value, whatever bytes it holds.\<close>

theorem decode_encode_query_value: "decode_query_value (encode_query_value v) = v"
  by (rule decode_encode)


definition sample_rows :: "row list" where
  "sample_rows = [[(''a'', ''x y''), (''b'', ''|'')], [(''a'', ''2'')]]"


text \<open>
  Of every accepted line, \<open>named_args\<close> and every option group are well-ordered maps,
  and looking a name up in \<open>named_args\<close> is looking it up in the last option group that has it.
\<close>

theorem named_args_union:
  assumes "parse_request_line line = Inr r"
  shows "bt_inv (named_args r) \<and> (\<forall>g \<in> set (option_groups r). bt_inv g) \<and>
     bt_get (named_args r) = group_union (option_groups r)"
proof -
  obtain name args where tok: "split_whitespace line = name # args"
    using assms by (cases "split_whitespace line") (auto simp: parse_request_line_def)
  let ?st = "foldl parse_token parse_init args"
  have inv: "parse_inv ?st" by (rule parse_inv_tokens [OF parse_inv_init])
  have "length gs = 1 \<Longrightarrow> gs ! 0 = [] \<Longrightarrow> group_union gs = group_union []" for gs
    using group_union_replicate [of "[]" 1] by (cases gs) (auto simp: length_Suc_conv)
  with inv assms tok show ?thesis
    by (auto simp: parse_request_line_def Let_def parse_inv_def split: if_splits)
qed

end
