(* ===== verification/Runtime_State.thy ===== *)
theory Runtime_State
  imports Query_Parser "HOL-Library.Product_Lexorder"
begin

text \<open>
  The data of the server: the structs of \<open>runtime/models.rs\<close>, \<open>runtime/permissions/models.rs\<close> and
  \<open>runtime/musicbot/mod.rs\<close>, one record each with the fields in the source's order, and the state
  \<open>InMemoryStore\<close> and \<open>BaselineRuntime\<close> of \<open>runtime/mod.rs\<close>. Field names carry a short prefix of
  their struct. \<open>i64\<close> and \<open>i32\<close> fields are integers.

  The SQLite handle, the state file, the channels to other threads and the event subscribers are
  not state the handlers read back; what the handlers send there is kept, in order, as a list of
  effects.
\<close>

subsection \<open>Permissions\<close>

record perm_assignment =
  pa_value :: int
  pa_negated :: bool
  pa_skipped :: bool

type_synonym perm_map = "(string, perm_assignment) btree"

record permission_actor_context =
  ac_server_id :: u32
  ac_channel_id :: u32
  ac_client_database_id :: u64

record permission_catalog_entry =
  pce_name :: string
  pce_id :: u32
  pce_description :: string

subsection \<open>Sessions and notifications\<close>

datatype notification_event_kind =
  EvServer | EvChannel | EvTextServer | EvTextChannel | EvTextPrivate

fun notification_event_parse :: "string \<Rightarrow> notification_event_kind option" where
  "notification_event_parse value =
     (if value = ''server'' then Some EvServer
      else if value = ''channel'' then Some EvChannel
      else if value = ''textserver'' then Some EvTextServer
      else if value = ''textchannel'' then Some EvTextChannel
      else if value = ''textprivate'' then Some EvTextPrivate
      else None)"

fun notification_event_as_str :: "notification_event_kind \<Rightarrow> string" where
  "notification_event_as_str EvServer = ''server''"
| "notification_event_as_str EvChannel = ''channel''"
| "notification_event_as_str EvTextServer = ''textserver''"
| "notification_event_as_str EvTextChannel = ''textchannel''"
| "notification_event_as_str EvTextPrivate = ''textprivate''"

record notification_subscription =
  ns_event :: notification_event_kind
  ns_channel_id :: "u32 option"

record anti_flood_session_state =
  af_last_update_millis :: u64
  af_points :: u32
  af_blocked_until_millis :: u64
  af_last_points_decay_millis :: u64

record whisper_target_selection =
  wt_client_ids :: "u64 set"
  wt_channel_ids :: "u32 set"
  wt_server_group_ids :: "u32 set"
  wt_echo_self :: bool

record query_session =
  qs_client_id :: u64
  qs_connection_ip :: string
  qs_authenticated_login :: "string option"
  qs_selected_virtual_server_id :: "u32 option"
  qs_current_channel_id :: "u32 option"
  qs_virtual_mode :: bool
  qs_notification_subscriptions :: "notification_subscription list"
  qs_actor_client_database_id_override :: "u64 option"
  qs_client_nickname :: string
  qs_client_away :: bool
  qs_client_away_message :: string
  qs_client_input_muted :: bool
  qs_client_output_muted :: bool
  qs_is_desktop_client :: bool
  qs_whisper_targets :: "whisper_target_selection option"
  qs_ignored_clients :: "u64 list"
  qs_subscribed_channels :: "u32 list"
  qs_points :: u32
  qs_blocked_until_millis :: u64
  qs_last_points_decay_millis :: u64

definition effective_nickname :: "query_session \<Rightarrow> string" where
  "effective_nickname s =
     (let nickname = trim (qs_client_nickname s) in
      if nickname \<noteq> [] then nickname
      else case qs_authenticated_login s of Some l \<Rightarrow> l | None \<Rightarrow> ''Query'')"

definition reset_client_state :: "query_session \<Rightarrow> query_session" where
  "reset_client_state s =
     s\<lparr>qs_client_nickname := [], qs_client_away := False, qs_client_away_message := [],
       qs_client_input_muted := False, qs_client_output_muted := False,
       qs_actor_client_database_id_override := None, qs_subscribed_channels := []\<rparr>"

text \<open>\<open>QuerySessionState::default()\<close>.\<close>

definition default_session :: query_session where
  "default_session =
     \<lparr>qs_client_id = 0, qs_connection_ip = [], qs_authenticated_login = None,
      qs_selected_virtual_server_id = None, qs_current_channel_id = None, qs_virtual_mode = False,
      qs_notification_subscriptions = [], qs_actor_client_database_id_override = None,
      qs_client_nickname = [], qs_client_away = False, qs_client_away_message = [],
      qs_client_input_muted = False, qs_client_output_muted = False, qs_is_desktop_client = False,
      qs_whisper_targets = None, qs_ignored_clients = [], qs_subscribed_channels = [],
      qs_points = 0, qs_blocked_until_millis = 0, qs_last_points_decay_millis = 0\<rparr>"

subsection \<open>Channels, groups and servers\<close>

datatype channel_kind = Temporary | SemiPermanent | Permanent

definition channel_kind_from_flags :: "bool \<Rightarrow> bool \<Rightarrow> channel_kind" where
  "channel_kind_from_flags flag_permanent flag_semi_permanent =
     (if flag_permanent then Permanent else if flag_semi_permanent then SemiPermanent else Temporary)"

definition to_permanent_flag :: "channel_kind \<Rightarrow> u32" where
  "to_permanent_flag k = (case k of Permanent \<Rightarrow> 1 | _ \<Rightarrow> 0)"

definition to_semi_permanent_flag :: "channel_kind \<Rightarrow> u32" where
  "to_semi_permanent_flag k = (case k of SemiPermanent \<Rightarrow> 1 | _ \<Rightarrow> 0)"

definition runtime_bool_flag :: "string \<Rightarrow> bool" where
  "runtime_bool_flag value =
     (value = ''1'' \<or> value = ''true'' \<or> value = ''yes'' \<or> value = ''on'')"

definition named_flag :: "command_request \<Rightarrow> string \<Rightarrow> bool" where
  "named_flag request name =
     (case bt_get (named_args request) name of None \<Rightarrow> False | Some v \<Rightarrow> runtime_bool_flag v)"

definition channel_kind_from_request_flags :: "command_request \<Rightarrow> channel_kind" where
  "channel_kind_from_request_flags request =
     (if named_flag request ''channel_flag_temporary'' then Temporary
      else if named_flag request ''channel_flag_semi_permanent'' then SemiPermanent
      else if (case bt_get (named_args request) ''channel_flag_permanent'' of
                 None \<Rightarrow> False | Some v \<Rightarrow> \<not> runtime_bool_flag v) then Temporary
      else Permanent)"

record query_account =
  qa_login_name :: string
  qa_password :: string
  qa_server_id :: "u32 option"
  qa_client_database_id :: "u64 option"
  qa_server_groups :: "u32 list"
  qa_permissions :: perm_map

record server_group =
  sg_id :: u32
  sg_name :: string
  sg_group_type :: u32
  sg_icon_id :: int
  sg_save_db :: bool
  sg_permissions :: perm_map

record channel_group =
  cg_id :: u32
  cg_name :: string
  cg_group_type :: u32
  cg_icon_id :: int
  cg_save_db :: bool
  cg_permissions :: perm_map

record channel_group_assignment =
  cga_channel_id :: u32
  cga_client_database_id :: u64
  cga_channel_group_id :: u32

record channel_client_permission_target =
  ccp_channel_id :: u32
  ccp_client_database_id :: u64
  ccp_permissions :: perm_map

record client_permission_target =
  cpt_server_id :: u32
  cpt_client_database_id :: u64
  cpt_client_unique_identifier :: string
  cpt_client_nickname :: string
  cpt_permissions :: perm_map

record channel =
  ch_id :: u32
  ch_parent_id :: u32
  ch_order :: u32
  ch_kind :: channel_kind
  ch_name :: string
  ch_topic :: string
  ch_description :: string
  ch_password :: string
  ch_codec :: u32
  ch_codec_quality :: u32
  ch_maxclients :: int
  ch_maxfamilyclients :: int
  ch_flag_default :: bool
  ch_flag_password :: bool
  ch_permissions :: perm_map

definition permission_power :: "channel \<Rightarrow> string \<Rightarrow> int" where
  "permission_power c perm_name =
     (case bt_get (ch_permissions c) perm_name of None \<Rightarrow> 0 | Some p \<Rightarrow> pa_value p)"

definition needed_talk_power :: "channel \<Rightarrow> int" where
  "needed_talk_power c = permission_power c ''i_channel_needed_talk_power''"

definition set_permission_power :: "string \<Rightarrow> int \<Rightarrow> channel \<Rightarrow> channel" where
  "set_permission_power perm_name value c =
     (if (value \<le> 0 \<and> perm_name \<noteq> ''i_icon_id'') \<or> (value = 0 \<and> perm_name = ''i_icon_id'')
      then c\<lparr>ch_permissions := bt_remove perm_name (ch_permissions c)\<rparr>
      else c\<lparr>ch_permissions :=
               bt_insert perm_name \<lparr>pa_value = value, pa_negated = False, pa_skipped = False\<rparr>
                 (ch_permissions c)\<rparr>)"

definition set_needed_talk_power :: "int \<Rightarrow> channel \<Rightarrow> channel" where
  "set_needed_talk_power value c = set_permission_power ''i_channel_needed_talk_power'' value c"

record server_temp_password =
  tp_server_id :: u32
  tp_password :: string
  tp_password_clear :: string
  tp_description :: string
  tp_start_timestamp :: u64
  tp_end_timestamp :: u64
  tp_target_channel_id :: u32
  tp_target_channel_password :: string
  tp_invoker_name :: string
  tp_invoker_unique_id :: string

record virtual_server =
  vs_id :: u32
  vs_port :: u16
  vs_name :: string
  vs_status :: string
  vs_password :: string
  vs_unique_identifier :: string
  vs_welcome_message :: string
  vs_host_message :: string
  vs_host_message_mode :: u32
  vs_ask_for_privilegekey :: u32
  vs_max_clients :: u32
  vs_antiflood_points_tick_reduce :: u32
  vs_antiflood_points_needed_command_block :: u32
  vs_antiflood_points_needed_ip_block :: u32
  vs_antiflood_ban_time :: u32

subsection \<open>Messages, tokens, bans\<close>

record conversation_message =
  cm_conversation_id :: u32
  cm_timestamp :: u64
  cm_sender_database_id :: u64
  cm_sender_unique_id :: string
  cm_sender_name :: string
  cm_message :: string

record conversation_participant =
  cp_database_id :: u64
  cp_unique_identifier :: string
  cp_nickname :: string

record private_message =
  pm_timestamp :: u64
  pm_sender_database_id :: u64
  pm_sender_unique_id :: string
  pm_sender_name :: string
  pm_target_database_id :: u64
  pm_target_unique_id :: string
  pm_target_name :: string
  pm_message :: string

record offline_message =
  om_id :: u64
  om_server_id :: u32
  om_sender_database_id :: u64
  om_sender_unique_identifier :: string
  om_sender_nickname :: string
  om_recipient_database_id :: u64
  om_recipient_unique_identifier :: string
  om_subject :: string
  om_message :: string
  om_timestamp :: u64
  om_flag_read :: bool

record client_complaint =
  cc_server_id :: u32
  cc_target_database_id :: u64
  cc_target_name :: string
  cc_from_database_id :: u64
  cc_from_name :: string
  cc_message :: string
  cc_timestamp :: u64

record server_log_entry =
  sl_id :: u64
  sl_server_id :: u32
  sl_timestamp :: u64
  sl_level :: u32
  sl_channel :: string
  sl_message :: string

record token_action =
  ta_id :: u32
  ta_action_type :: u32
  ta_action_id1 :: u32
  ta_action_id2 :: u32
  ta_action_text :: string

datatype token_action_mutation =
    AddAction (add_type: u32) (add_id1: u32) (add_id2: u32) (add_text: string)
  | UpdateAction u32 u32 u32 u32 string
  | RemoveAction u32

record privilege_token =
  tk_id :: u32
  tk_server_id :: u32
  tk_token :: string
  tk_description :: string
  tk_max_uses :: u32
  tk_uses :: u32
  tk_created_at :: u64
  tk_owner_login :: string
  tk_expired_at :: "u64 option"
  tk_actions :: "token_action list"

record ban_trigger =
  bt_client_unique_identifier :: string
  bt_client_nickname :: string
  bt_client_hardware_identifier :: string
  bt_connection_client_ip :: string
  bt_timestamp :: u64

record active_ban =
  ab_id :: u32
  ab_server_id :: u32
  ab_name :: string
  ab_unique_identifier :: string
  ab_hardware_identifier :: string
  ab_ip :: string
  ab_reason :: string
  ab_created_at :: u64
  ab_duration_seconds :: u32
  ab_invoker_name :: string
  ab_invoker_database_id :: u64
  ab_invoker_unique_identifier :: string
  ab_triggers :: "ban_trigger list"

subsection \<open>Clients\<close>

record online_client =
  oc_id :: u64
  oc_database_id :: u64
  oc_unique_identifier :: string
  oc_nickname :: string
  oc_away :: bool
  oc_away_message :: string
  oc_input_muted :: bool
  oc_output_muted :: bool
  oc_server_id :: u32
  oc_channel_id :: u32
  oc_client_type :: u32
  oc_version :: string
  oc_platform :: string
  oc_country :: string
  oc_connection_ip :: string
  oc_server_groups :: "u32 list"
  oc_connected_at :: u64
  oc_last_seen_at :: u64
  oc_whisper_targets :: "whisper_target_selection option"
  oc_extra_properties :: "(string, string) btree"

record client =
  cl_database_id :: u64
  cl_unique_identifier :: string
  cl_nickname :: string
  cl_description :: string
  cl_created_at :: u64
  cl_last_connected_at :: u64
  cl_total_connections :: u32
  cl_month_bytes_uploaded :: u64
  cl_month_bytes_downloaded :: u64
  cl_total_bytes_uploaded :: u64
  cl_total_bytes_downloaded :: u64
  cl_client_flag_avatar :: string

record online_client_snapshot =
  os_id :: u64
  os_database_id :: u64
  os_unique_identifier :: string
  os_nickname :: string
  os_away :: bool
  os_away_message :: string
  os_input_muted :: bool
  os_output_muted :: bool
  os_server_id :: u32
  os_channel_id :: u32
  os_client_type :: u32
  os_client_type_exact :: u32
  os_whisper_targets :: "whisper_target_selection option"
  os_ignored_clients :: "u64 list"
  os_version :: string
  os_platform :: string
  os_country :: string
  os_connection_ip :: string
  os_server_groups :: "u32 list"
  os_client_flag_avatar :: string
  os_extra_properties :: "(string, string) btree"

record channel_snapshot =
  cs_id :: u32
  cs_parent_id :: u32
  cs_order :: u32
  cs_kind :: channel_kind
  cs_name :: string
  cs_topic :: string
  cs_description :: string
  cs_codec :: u32
  cs_codec_quality :: u32
  cs_maxclients :: int
  cs_maxfamilyclients :: int
  cs_flag_default :: bool
  cs_flag_password :: bool
  cs_needed_talk_power :: int
  cs_needed_join_power :: int
  cs_needed_subscribe_power :: int
  cs_needed_description_view_power :: int
  cs_needed_modify_power :: int
  cs_needed_delete_power :: int
  cs_icon_id :: int
  cs_total_clients :: u32

definition snapshot_from_channel :: "channel \<Rightarrow> u32 \<Rightarrow> channel_snapshot" where
  "snapshot_from_channel c total_clients =
     \<lparr>cs_id = ch_id c, cs_parent_id = ch_parent_id c, cs_order = ch_order c, cs_kind = ch_kind c,
      cs_name = ch_name c, cs_topic = ch_topic c, cs_description = ch_description c,
      cs_codec = ch_codec c, cs_codec_quality = ch_codec_quality c,
      cs_maxclients = ch_maxclients c, cs_maxfamilyclients = ch_maxfamilyclients c,
      cs_flag_default = ch_flag_default c, cs_flag_password = ch_flag_password c,
      cs_needed_talk_power = needed_talk_power c,
      cs_needed_join_power = permission_power c ''i_channel_needed_join_power'',
      cs_needed_subscribe_power = permission_power c ''i_channel_needed_subscribe_power'',
      cs_needed_description_view_power =
        permission_power c ''i_channel_needed_description_view_power'',
      cs_needed_modify_power = permission_power c ''i_channel_needed_modify_power'',
      cs_needed_delete_power = permission_power c ''i_channel_needed_delete_power'',
      cs_icon_id = permission_power c ''i_icon_id'',
      cs_total_clients = total_clients\<rparr>"

record temporary_channel_cleanup =
  tcc_removed_client :: "online_client_snapshot option"
  tcc_removed_channel :: "channel_snapshot option"

subsection \<open>Music bots\<close>

record music_queue_entry =
  mq_id :: u32
  mq_previous_song_id :: u32
  mq_url :: string
  mq_url_loader :: string
  mq_invoker_database_id :: u64
  mq_loaded :: bool
  mq_metadata :: string
  mq_title :: string
  mq_description :: string
  mq_thumbnail :: string
  mq_length_seconds :: u32
  mq_seekable :: bool
  mq_live_stream :: bool

record playlist_client_permission_target =
  pcp_client_database_id :: u64
  pcp_permissions :: perm_map

datatype music_bot_state = Stopped | Playing | Paused

record music_bot =
  mb_id :: u32
  mb_server_id :: u32
  mb_client_database_id :: u64
  mb_linked_client_id :: "u64 option"
  mb_nickname :: string
  mb_channel_id :: u32
  mb_playlist_id :: u32
  mb_current_song_id :: "u32 option"
  mb_next_song_id :: u32
  mb_state :: music_bot_state
  mb_player_volume :: string
  mb_playlist_title :: string
  mb_playlist_description :: string
  mb_playlist_flag_delete_played :: bool
  mb_playlist_flag_finished :: bool
  mb_playlist_replay_mode :: u32
  mb_playlist_max_songs :: u32
  mb_permissions :: perm_map
  mb_client_permissions :: "playlist_client_permission_target list"
  mb_current_song_started_at_millis :: "u64 option"
  mb_current_song_progress_millis :: u32
  mb_queue :: "music_queue_entry list"

subsection \<open>The store and the runtime\<close>

record active_media_broadcast =
  amb_server_id :: u32
  amb_channel_id :: u32
  amb_broadcaster_client_id :: u64
  amb_broadcast_type :: u32
  amb_ssrc :: u32
  amb_joined_client_ids :: "u64 list"

record in_memory_store =
  st_query_accounts :: "(string, query_account) btree"
  st_server_groups :: "(u32, server_group) btree"
  st_channel_groups :: "(u32, channel_group) btree"
  st_virtual_servers :: "(u32, virtual_server) btree"
  st_channels :: "(u32, channel list) btree"
  st_channel_group_assignments :: "channel_group_assignment list"
  st_channel_client_permissions :: "channel_client_permission_target list"
  st_client_permissions :: "client_permission_target list"
  st_conversation_messages :: "(u32, conversation_message list) btree"
  st_private_messages :: "(u32, private_message list) btree"
  st_offline_messages :: "(u64, offline_message) btree"
  st_complaints :: "client_complaint list"
  st_custom_client_properties :: "(u32 \<times> u64, (string, string) btree) btree"
  st_server_logs :: "server_log_entry list"
  st_instance_properties :: "(string, string) btree"
  st_tokens :: "(u32, privilege_token) btree"
  st_server_temp_passwords :: "server_temp_password list"
  st_active_bans :: "(u32, active_ban) btree"
  st_online_clients :: "(u64, online_client) btree"
  st_clients :: "(u64, client) btree"
  st_music_bots :: "(u32, music_bot) btree"
  st_active_broadcasts :: "(u32 \<times> u64 \<times> u32, active_media_broadcast) btree"
  st_next_query_client_id :: u64
  st_next_client_database_id :: u64
  st_next_conversation_timestamp :: u64
  st_next_ban_id :: u32
  st_next_token_id :: u32
  st_next_token_action_id :: u32
  st_next_offline_message_id :: u64
  st_next_log_id :: u64

text \<open>What the transports are told.\<close>

record session_presence =
  sp_client_id :: u64
  sp_login_name :: string
  sp_unique_identifier :: string
  sp_client_type :: u32
  sp_server_id :: u32
  sp_channel_id :: u32

text \<open>The notifications that the modelled operations send; the source has more.\<close>

datatype transport_notification =
    ClientUpdated u32 online_client_snapshot online_client_snapshot
  | ClientLeftView session_presence "u32 option" u32 string u64 string string "u32 option"
  | ChannelDeleted u32 channel_snapshot u64 string
  | VideoBroadcastChanged u32 u32

text \<open>
  What the handlers write to SQLite (through the runtime's handle or the store's), to the state file
  and to the event subscribers, in order.
\<close>

datatype db_handle = RuntimeDb | StoreDb

datatype runtime_effect =
    DbSaveChannel db_handle u32 channel
  | DbDeleteChannel db_handle u32 u32
  | DbSaveServerGroup u32 server_group
  | DbSaveChannelGroup u32 channel_group
  | DbSaveAssignment u32 channel_group_assignment
  | DbSaveClientPermissionTarget client_permission_target
  | DbSaveChannelClientPermissionTarget channel_client_permission_target
  | DbClearAllPermissionsAndGroups
  | DbSaveToken privilege_token
  | DbSaveClient client
  | DbUpdateClientAvatar string string
  | DbSaveVirtualServer virtual_server
  | DbDeleteVirtualServer u32
  | LifecycleStart u32 u16
  | LifecycleStop u32
  | PersistState
  | BroadcastEvent u32 transport_notification
  | RtcUnassignBroadcaster u64
  | RtcUnassignViewerSlot u64

record persisted_session_snapshot =
  pss_selected_virtual_server_id :: "u32 option"
  pss_current_channel_id :: "u32 option"
  pss_virtual_mode :: bool
  pss_notification_subscriptions :: "(string \<times> u32 option) list"

record baseline_runtime =
  rt_store :: in_memory_store
  rt_permission_catalog :: "(string, permission_catalog_entry) btree"
  rt_web_permission_base_ids :: "(string, u32) btree"
  rt_session_snapshots :: "(string, persisted_session_snapshot) btree"
  rt_anti_flood_ip_states :: "(u32 \<times> string, anti_flood_session_state) btree"
  rt_pending_temp_cleanups :: "temporary_channel_cleanup list"
  rt_effects :: "runtime_effect list"

definition emit :: "runtime_effect list \<Rightarrow> baseline_runtime \<Rightarrow> baseline_runtime" where
  "emit es r = r\<lparr>rt_effects := rt_effects r @ es\<rparr>"

definition upd_store ::
    "(in_memory_store \<Rightarrow> in_memory_store) \<Rightarrow> baseline_runtime \<Rightarrow> baseline_runtime" where
  "upd_store f r = r\<lparr>rt_store := f (rt_store r)\<rparr>"

lemma store_simps [simp]:
  "rt_store (emit es r) = rt_store r"
  "rt_store (upd_store f r) = f (rt_store r)"
  "rt_effects (upd_store f r) = rt_effects r"
  "rt_effects (emit es r) = rt_effects r @ es"
  "rt_permission_catalog (upd_store f r) = rt_permission_catalog r"
  "rt_permission_catalog (emit es r) = rt_permission_catalog r"
  "rt_web_permission_base_ids (upd_store f r) = rt_web_permission_base_ids r"
  "rt_web_permission_base_ids (emit es r) = rt_web_permission_base_ids r"
  by (simp_all add: emit_def upd_store_def)

text \<open>A store and a runtime with nothing in them, the base of concrete examples.\<close>

definition empty_store :: in_memory_store where
  "empty_store =
     \<lparr>st_query_accounts = [], st_server_groups = [], st_channel_groups = [], st_virtual_servers = [],
      st_channels = [], st_channel_group_assignments = [], st_channel_client_permissions = [],
      st_client_permissions = [], st_conversation_messages = [], st_private_messages = [],
      st_offline_messages = [], st_complaints = [], st_custom_client_properties = [],
      st_server_logs = [], st_instance_properties = [], st_tokens = [],
      st_server_temp_passwords = [], st_active_bans = [], st_online_clients = [], st_clients = [],
      st_music_bots = [], st_active_broadcasts = [], st_next_query_client_id = 1,
      st_next_client_database_id = 100, st_next_conversation_timestamp = 1, st_next_ban_id = 1,
      st_next_token_id = 1, st_next_token_action_id = 1, st_next_offline_message_id = 1,
      st_next_log_id = 1\<rparr>"

definition empty_runtime :: baseline_runtime where
  "empty_runtime =
     \<lparr>rt_store = empty_store, rt_permission_catalog = [], rt_web_permission_base_ids = [],
      rt_session_snapshots = [], rt_anti_flood_ip_states = [], rt_pending_temp_cleanups = [],
      rt_effects = []\<rparr>"

end
