(* ===== verification/Anti_Flood.thy ===== *)
theory Anti_Flood
  imports Runtime_State
begin

text \<open>
  Anti-flood: \<open>antiflood_command_cost\<close> and \<open>antiflood_command_rejected\<close> of
  \<open>runtime/catalog_and_utils.rs\<close>, \<open>anti_flood_config_for_server\<close> and
  \<open>shared_ip_antiflood_rejected\<close> of \<open>runtime/client_and_ban_state.rs\<close>. Commands cost points; points
  decay by whole seconds; a client address at the IP threshold is blocked for the ban time.
\<close>

record anti_flood_config =
  fc_points_tick_reduce :: u32
  fc_points_needed_command_block :: u32
  fc_points_needed_ip_block :: u32
  fc_ban_time :: u32

definition antiflood_command_cost :: "string \<Rightarrow> u32" where
  "antiflood_command_cost command_name =
     (if command_name \<in> set [''musicbotlist'', ''mbotlist'', ''musicbotplayerinfo'',
           ''musicbotplayeraction'', ''mbotplayer'', ''musicbotqueuelist'', ''playlistlist'',
           ''playlistinfo'', ''playlistsonglist'', ''serverrequestconnectioninfo'', ''whoami'']
      then 0
      else if command_name \<in> set [''sendtextmessage'', ''serveredit'', ''clientmove'',
           ''channelcreate'', ''channeldelete'', ''channeledit'', ''channelmove'']
      then 2 else 1)"

definition default_flood_state :: anti_flood_session_state where
  "default_flood_state =
     \<lparr>af_last_update_millis = 0, af_points = 0, af_blocked_until_millis = 0,
      af_last_points_decay_millis = 0\<rparr>"

definition u64_from_u32 :: "u32 \<Rightarrow> u64" where
  "u64_from_u32 x = ucast x"

text \<open>The decay step of \<open>antiflood_command_rejected\<close>: whole elapsed seconds are turned into points.\<close>

definition antiflood_decay ::
    "anti_flood_config \<Rightarrow> u64 \<Rightarrow> anti_flood_session_state \<Rightarrow> anti_flood_session_state" where
  "antiflood_decay config now s0 =
     (let s = (if af_last_update_millis s0 = 0 then s0\<lparr>af_last_update_millis := now\<rparr> else s0);
          elapsed = sat_sub now (af_last_update_millis s)
      in if 0 < fc_points_tick_reduce config then
           (let reduced = sat_mul (elapsed div 1000) (u64_from_u32 (fc_points_tick_reduce config)) in
            if 0 < reduced then
              s\<lparr>af_points := sat_sub (af_points s) (ucast (min reduced (u64_from_u32 (-1)))),
                af_last_update_millis :=
                  sat_add (af_last_update_millis s) (elapsed - elapsed mod 1000)\<rparr>
            else s)
         else s\<lparr>af_last_update_millis := now\<rparr>)"

definition antiflood_command_rejected ::
    "anti_flood_config \<Rightarrow> anti_flood_session_state \<Rightarrow> u32 \<Rightarrow> u64 \<Rightarrow>
       bool \<times> anti_flood_session_state" where
  "antiflood_command_rejected config s0 points_to_add now =
     (if points_to_add = 0 then (False, s0)
      else
        (let s = antiflood_decay config now s0 in
         if now < af_blocked_until_millis s then (True, s)
         else
           (let s' = s\<lparr>af_points := sat_add (af_points s) points_to_add\<rparr> in
            if 0 < fc_points_needed_ip_block config \<and> fc_points_needed_ip_block config \<le> af_points s'
            then (True, s'\<lparr>af_blocked_until_millis :=
                            sat_add now (sat_mul (u64_from_u32 (fc_ban_time config)) 1000)\<rparr>)
            else if 0 < fc_points_needed_command_block config \<and>
                    fc_points_needed_command_block config \<le> af_points s'
            then (True, s')
            else (False, s'))))"

definition anti_flood_config_for_server :: "baseline_runtime \<Rightarrow> u32 \<Rightarrow> anti_flood_config option" where
  "anti_flood_config_for_server rt server_id =
     map_option
       (\<lambda>server. \<lparr>fc_points_tick_reduce = vs_antiflood_points_tick_reduce server,
                 fc_points_needed_command_block = vs_antiflood_points_needed_command_block server,
                 fc_points_needed_ip_block = vs_antiflood_points_needed_ip_block server,
                 fc_ban_time = vs_antiflood_ban_time server\<rparr>)
       (bt_get (st_virtual_servers (rt_store rt)) server_id)"

text \<open>
  The address test \<open>parse::<IpAddr>().is_loopback()\<close> is an argument, the predicate \<open>is_loopback\<close>.
\<close>

definition shared_ip_antiflood_rejected ::
    "(string \<Rightarrow> bool) \<Rightarrow> anti_flood_config \<Rightarrow> u32 \<Rightarrow> string \<Rightarrow> u32 \<Rightarrow> u64 \<Rightarrow> bool \<Rightarrow>
       baseline_runtime \<Rightarrow> bool \<times> baseline_runtime" where
  "shared_ip_antiflood_rejected is_loopback config server_id connection_ip points_to_add now
       skip_loopback rt =
     (if trim connection_ip = [] then (False, rt)
      else if skip_loopback \<and> is_loopback connection_ip then (False, rt)
      else
        (let key = (server_id, connection_ip);
             states = rt_anti_flood_ip_states rt;
             s = (case bt_get states key of Some s \<Rightarrow> s | None \<Rightarrow> default_flood_state);
             res = antiflood_command_rejected config s points_to_add now
         in (fst res, rt\<lparr>rt_anti_flood_ip_states := bt_insert key (snd res) states\<rparr>)))"

text \<open>A burst: commands with their costs at their times, from one address.\<close>

fun antiflood_run ::
    "anti_flood_config \<Rightarrow> anti_flood_session_state \<Rightarrow> (u32 \<times> u64) list \<Rightarrow>
       bool list \<times> anti_flood_session_state" where
  "antiflood_run config s [] = ([], s)"
| "antiflood_run config s ((cost, now) # cmds) =
     (let (rejected, s') = antiflood_command_rejected config s cost now;
          (rest, s'') = antiflood_run config s' cmds
      in (rejected # rest, s''))"

definition burst_cost :: "(u32 \<times> u64) list \<Rightarrow> nat" where
  "burst_cost cmds = sum_list (map (\<lambda>c. unat (fst c)) cmds)"

lemma burst_cost_simps [simp]:
  "burst_cost [] = 0" "burst_cost (c # cmds) = unat (fst c) + burst_cost cmds"
  by (simp_all add: burst_cost_def)

subsection \<open>Decay\<close>

lemma decay_blocked [simp]:
  "af_blocked_until_millis (antiflood_decay config now s) = af_blocked_until_millis s"
  by (simp add: antiflood_decay_def Let_def)

lemma decay_points_le: "af_points (antiflood_decay config now s) \<le> af_points s"
  by (simp add: antiflood_decay_def Let_def sat_sub_le)

text \<open>Decay never moves the clock of an address beyond the present.\<close>

lemma decay_clock:
  assumes "af_last_update_millis s \<le> now"
  shows "af_last_update_millis (antiflood_decay config now s) \<le> now"
proof -
  let ?s = "if af_last_update_millis s = 0 then s\<lparr>af_last_update_millis := now\<rparr> else s"
  let ?e = "sat_sub now (af_last_update_millis ?s)"
  have le: "af_last_update_millis ?s \<le> now" using assms by simp
  have "unat (?e - ?e mod 1000) \<le> unat ?e"
    by (simp add: unat_sub word_le_nat_alt unat_mod)
  then have "unat (sat_add (af_last_update_millis ?s) (?e - ?e mod 1000)) \<le>
      unat (af_last_update_millis ?s) + (unat now - unat (af_last_update_millis ?s))"
    by (simp add: unat_sat_add unat_sat_sub)
  then have "sat_add (af_last_update_millis ?s) (?e - ?e mod 1000) \<le> now"
    using le by (simp add: word_le_nat_alt)
  then show ?thesis using le by (auto simp: antiflood_decay_def Let_def)
qed

lemma unat_le_max: "unat w \<le> 2 ^ LENGTH('a) - 1"
  for w :: "'a::len word"
proof -
  have "unat w < 2 ^ LENGTH('a)" by simp
  then show ?thesis by linarith
qed

lemma unat_u64_from_u32 [simp]: "unat (u64_from_u32 x) = unat x"
proof -
  have "unat x < 2 ^ 64" using unat_le_max [of x] by simp
  then show ?thesis by (simp add: u64_from_u32_def unsigned_ucast_eq take_bit_nat_eq_self)
qed

lemma unat_clip_u32: "unat (ucast (min r (u64_from_u32 (-1))) :: u32) = min (unat r) (2 ^ 32 - 1)"
proof -
  have m: "unat (u64_from_u32 (-1)) = 2 ^ 32 - 1"
    by (simp add: unat_max_word)
  have "unat (min r (u64_from_u32 (-1))) = min (unat r) (2 ^ 32 - 1)"
    using m by (simp add: min_def word_le_nat_alt)
  moreover have "unat (ucast w :: u32) = unat w" if "unat w < 2 ^ 32" for w :: u64
    using that by (simp add: unsigned_ucast_eq take_bit_nat_eq_self)
  ultimately show ?thesis by simp
qed

text \<open>Points and clock after decay, as numbers: neither saturation nor truncation shows.\<close>

lemma decay_points_nat:
  assumes "af_last_update_millis s \<noteq> 0" and "af_last_update_millis s \<le> now"
  shows "unat (af_points (antiflood_decay config now s)) =
     unat (af_points s) -
       (unat now - unat (af_last_update_millis s)) div 1000 * unat (fc_points_tick_reduce config)"
proof -
  let ?e = "sat_sub now (af_last_update_millis s)"
  let ?secs = "(unat now - unat (af_last_update_millis s)) div 1000"
  let ?t = "unat (fc_points_tick_reduce config)"
  let ?r = "sat_mul (?e div 1000) (u64_from_u32 (fc_points_tick_reduce config))"
  have r: "unat ?r = min (?secs * ?t) (2 ^ 64 - 1)"
    by (simp add: unat_sat_mul unat_div unat_sat_sub)
  have p: "unat (af_points s) \<le> 2 ^ 32 - 1"
    using unat_le_max [of "af_points s"] by simp
  show ?thesis
  proof (cases "0 < fc_points_tick_reduce config \<and> 0 < ?r")
    case True
    then have "unat (af_points (antiflood_decay config now s)) =
        unat (af_points s) - min (unat ?r) (2 ^ 32 - 1)"
      using assms by (simp add: antiflood_decay_def Let_def unat_sat_sub unat_clip_u32)
    then show ?thesis using r p by (simp add: min_def split: if_splits)
  next
    case False
    then have eq: "af_points (antiflood_decay config now s) = af_points s"
      using assms by (auto simp: antiflood_decay_def Let_def)
    from False have "?t = 0 \<or> unat ?r = 0"
      by (auto simp: word_less_nat_alt)
    then have "?secs * ?t = 0" using r by (auto simp: min_def split: if_splits)
    with eq show ?thesis by (simp only: diff_zero)
  qed
qed

lemma decay_clock_nat:
  assumes "af_last_update_millis s \<noteq> 0" and "af_last_update_millis s \<le> now"
    and "0 < fc_points_tick_reduce config"
  shows "unat (af_last_update_millis (antiflood_decay config now s)) =
     unat (af_last_update_millis s) +
       1000 * ((unat now - unat (af_last_update_millis s)) div 1000)"
proof -
  let ?l = "af_last_update_millis s"
  let ?e = "sat_sub now ?l"
  let ?secs = "(unat now - unat ?l) div 1000"
  let ?r = "sat_mul (?e div 1000) (u64_from_u32 (fc_points_tick_reduce config))"
  have e: "unat ?e = unat now - unat ?l" by (simp add: unat_sat_sub)
  have t: "0 < unat (fc_points_tick_reduce config)"
    using assms(3) by (simp add: word_less_nat_alt)
  have r: "0 < ?r \<longleftrightarrow> 0 < ?secs"
    using t by (auto simp: word_less_nat_alt unat_sat_mul unat_div e min_def intro: gr0I)
  show ?thesis
  proof (cases "0 < ?r")
    case True
    have "unat (?e - ?e mod 1000) = unat ?e - unat ?e mod 1000"
      by (simp add: unat_sub word_le_nat_alt unat_mod)
    also have "\<dots> = 1000 * ?secs" by (simp add: e minus_mod_eq_mult_div)
    finally have m: "unat (?e - ?e mod 1000) = 1000 * ?secs" .
    have "unat ?l + 1000 * ?secs \<le> unat now"
      using assms(2) by (simp add: word_le_nat_alt)
    also have "unat now \<le> 2 ^ 64 - 1"
      using unat_le_max [of now] by simp
    finally have "unat (sat_add ?l (?e - ?e mod 1000)) = unat ?l + 1000 * ?secs"
      by (simp add: unat_sat_add m)
    with True assms show ?thesis by (simp add: antiflood_decay_def Let_def)
  next
    case False
    with assms r show ?thesis by (simp add: antiflood_decay_def Let_def)
  qed
qed

text \<open>
  Property C3: an address that reached the IP threshold is blocked until the stored time: every
  command that costs points before that time is refused, whatever sequence of commands is sent, and
  the block is never shortened by them.
\<close>

theorem antiflood_block_holds:
  assumes "\<forall>c \<in> set cmds. fst c \<noteq> 0 \<and> snd c < af_blocked_until_millis s"
  shows "fst (antiflood_run config s cmds) = replicate (length cmds) True \<and>
     af_blocked_until_millis (snd (antiflood_run config s cmds)) = af_blocked_until_millis s"
  using assms
proof (induction cmds arbitrary: s)
  case Nil
  then show ?case by simp
next
  case (Cons c cmds)
  obtain cost now where c: "c = (cost, now)" by (cases c)
  let ?s = "antiflood_decay config now s"
  have step: "antiflood_command_rejected config s cost now = (True, ?s)"
    using Cons.prems c by (simp add: antiflood_command_rejected_def Let_def)
  have "fst (antiflood_run config ?s cmds) = replicate (length cmds) True \<and>
      af_blocked_until_millis (snd (antiflood_run config ?s cmds)) = af_blocked_until_millis ?s"
    using Cons.prems by (intro Cons.IH) simp
  with c step show ?case by (auto simp: Let_def split: prod.splits)
qed

definition blocked_state :: anti_flood_session_state where
  "blocked_state = default_flood_state\<lparr>af_last_update_millis := 5000, af_points := 250,
     af_blocked_until_millis := 25000\<rparr>"

theorem antiflood_block_holds_witness:
  "fst (antiflood_run \<lparr>fc_points_tick_reduce = 5, fc_points_needed_command_block = 150,
       fc_points_needed_ip_block = 250, fc_ban_time = 20\<rparr> blocked_state [(1, 6000), (2, 24999)]) =
     [True, True]"
proof -
  have "\<forall>c \<in> set [(1 :: u32, 6000 :: u64), (2, 24999)].
      fst c \<noteq> 0 \<and> snd c < af_blocked_until_millis blocked_state"
    by (simp add: blocked_state_def)
  from antiflood_block_holds [OF this] show ?thesis by (simp add: numeral_2_eq_2)
qed

text \<open>
  Decay does not depend on how often it is applied: points left at a time are the same
  whether the address was also charged for its elapsed seconds at an earlier time or not, so sending
  commands often cannot slow down or speed up the decay.
\<close>

theorem antiflood_decay_memoryless:
  assumes "0 < fc_points_tick_reduce config" and "af_last_update_millis s \<noteq> 0"
    and "af_last_update_millis s \<le> t1" and "t1 \<le> t2"
  shows "af_points (antiflood_decay config t2 (antiflood_decay config t1 s)) =
     af_points (antiflood_decay config t2 s)"
proof -
  let ?l = "unat (af_last_update_millis s)"
  let ?s1 = "antiflood_decay config t1 s"
  let ?k = "(unat t1 - ?l) div 1000"
  let ?t = "unat (fc_points_tick_reduce config)"
  have l1: "unat (af_last_update_millis ?s1) = ?l + 1000 * ?k"
    using assms by (intro decay_clock_nat)
  have le1: "af_last_update_millis ?s1 \<le> t1" using assms by (intro decay_clock)
  have ne: "af_last_update_millis ?s1 \<noteq> 0"
    using l1 assms(2) by (metis add_is_0 unat_0 word_unat_eq_iff)
  have "unat t1 \<le> unat t2" using assms(4) by (simp add: word_le_nat_alt)
  then have secs: "?k + (unat t2 - (?l + 1000 * ?k)) div 1000 = (unat t2 - ?l) div 1000"
    by linarith
  have "unat (af_points (antiflood_decay config t2 ?s1)) =
      unat (af_points s) - ?k * ?t - (unat t2 - (?l + 1000 * ?k)) div 1000 * ?t"
    using decay_points_nat [of s t1 config] decay_points_nat [of ?s1 t2 config] assms le1 ne l1
    by simp
  also have "\<dots> = unat (af_points s) - (unat t2 - ?l) div 1000 * ?t"
    using secs by (metis diff_diff_left distrib_right)
  also have "\<dots> = unat (af_points (antiflood_decay config t2 s))"
    using decay_points_nat [of s t2 config] assms by simp
  finally show ?thesis by (simp add: word_unat_eq_iff)
qed

text \<open>The thresholds of a configuration, 0 meaning that the threshold is off.\<close>

definition under_limits :: "anti_flood_config \<Rightarrow> nat \<Rightarrow> bool" where
  "under_limits config points \<longleftrightarrow>
     (fc_points_needed_ip_block config = 0 \<or> points < unat (fc_points_needed_ip_block config)) \<and>
     (fc_points_needed_command_block config = 0 \<or>
        points < unat (fc_points_needed_command_block config))"

lemma under_limits_mono: "under_limits config n \<Longrightarrow> m \<le> n \<Longrightarrow> under_limits config m"
  by (auto simp: under_limits_def)

lemma under_limits_sat:
  "under_limits config (unat (sat_add p c) + n) \<longleftrightarrow> under_limits config (unat p + unat c + n)"
  for p c :: u32
proof (cases "unat p + unat c < 2 ^ 32")
  case True
  then show ?thesis by (simp add: unat_sat_add)
next
  case False
  then have "\<not> unat (sat_add p c) + n < unat t" "\<not> unat p + unat c + n < unat t" for t :: u32
    using unat_le_max [of t] by (simp_all add: unat_sat_add)
  then show ?thesis by (simp add: under_limits_def)
qed

lemma rejected_iff:
  assumes "cost \<noteq> 0" and "af_blocked_until_millis s \<le> now"
  shows "\<not> fst (antiflood_command_rejected config s cost now) \<longleftrightarrow>
     under_limits config (unat (af_points (antiflood_decay config now s)) + unat cost)"
proof -
  let ?p = "af_points (antiflood_decay config now s)"
  have le: "t \<le> sat_add ?p cost \<longleftrightarrow> unat t \<le> unat ?p + unat cost" for t :: u32
    using unat_le_max [of t] by (auto simp: word_le_nat_alt unat_sat_add min_def)
  show ?thesis
    using assms
    by (auto simp: antiflood_command_rejected_def Let_def under_limits_def le word_neq_0_conv
        linorder_not_less linorder_not_le)
qed

lemma accepted_state:
  assumes "\<not> fst (antiflood_command_rejected config s cost now)" and "cost \<noteq> 0"
  shows "snd (antiflood_command_rejected config s cost now) =
     (antiflood_decay config now s)\<lparr>af_points := sat_add (af_points (antiflood_decay config now s)) cost\<rparr>"
  using assms by (auto simp: antiflood_command_rejected_def Let_def split: if_splits)

definition within_second :: "anti_flood_session_state \<Rightarrow> u64 \<Rightarrow> bool" where
  "within_second s now \<longleftrightarrow> af_last_update_millis s \<le> now \<and>
     unat now < unat (af_last_update_millis s) + 1000"

lemma decay_within_second:
  assumes "within_second s now" and "af_last_update_millis s \<noteq> 0" and "0 < fc_points_tick_reduce config"
  shows "antiflood_decay config now s = s"
proof -
  have "(unat now - unat (af_last_update_millis s)) div 1000 = 0"
    using assms(1) by (auto simp: within_second_def)
  then have "sat_mul (sat_sub now (af_last_update_millis s) div 1000)
      (u64_from_u32 (fc_points_tick_reduce config)) = 0"
    by (simp add: word_unat_eq_iff unat_sat_mul unat_div unat_sat_sub)
  with assms show ?thesis by (simp add: antiflood_decay_def Let_def)
qed

text \<open>
  A burst of commands within one second of the address's clock is let through
  entirely exactly when the points it starts with and the cost of all its commands stay below every
  threshold that is switched on: no command is refused too early, and none too late.
\<close>

theorem antiflood_burst_exact:
  assumes "0 < fc_points_tick_reduce config" and "af_last_update_millis s \<noteq> 0"
    and "\<forall>c \<in> set cmds. fst c \<noteq> 0 \<and> within_second s (snd c) \<and> af_blocked_until_millis s \<le> snd c"
    and "cmds \<noteq> []"
  shows "fst (antiflood_run config s cmds) = replicate (length cmds) False \<longleftrightarrow>
     under_limits config (unat (af_points s) + burst_cost cmds)"
  using assms
proof (induction cmds arbitrary: s)
  case Nil
  then show ?case by simp
next
  case (Cons c cmds)
  obtain cost now where c: "c = (cost, now)" by (cases c)
  let ?r = "antiflood_command_rejected config s cost now"
  have dec: "antiflood_decay config now s = s"
    using Cons.prems c by (intro decay_within_second) auto
  have rej: "\<not> fst ?r \<longleftrightarrow> under_limits config (unat (af_points s) + unat cost)"
    using Cons.prems c dec rejected_iff [of cost s now config] by simp
  show ?case
  proof (cases "fst ?r")
    case True
    then have "\<not> under_limits config (unat (af_points s) + burst_cost (c # cmds))"
      using rej c under_limits_mono [of config
          "unat (af_points s) + (unat cost + burst_cost cmds)"
          "unat (af_points s) + unat cost"] by auto
    with True c show ?thesis by (auto simp: Let_def split: prod.splits)
  next
    case False
    let ?s = "s\<lparr>af_points := sat_add (af_points s) cost\<rparr>"
    have r: "?r = (False, ?s)"
      using False accepted_state [of config s cost now] Cons.prems(3) c dec
      by (simp add: prod_eq_iff)
    show ?thesis
    proof (cases "cmds = []")
      case True
      with r c rej show ?thesis by simp
    next
      case ne: False
      have IH: "fst (antiflood_run config ?s cmds) = replicate (length cmds) False \<longleftrightarrow>
          under_limits config (unat (af_points ?s) + burst_cost cmds)"
        using Cons.prems ne by (intro Cons.IH) (auto simp: within_second_def)
      then have "fst (antiflood_run config ?s cmds) = replicate (length cmds) False \<longleftrightarrow>
          under_limits config (unat (af_points s) + burst_cost (c # cmds))"
        using under_limits_sat [of config "af_points s" cost "burst_cost cmds"] c
        by (simp add: add.assoc)
      with r c show ?thesis by (simp add: Let_def case_prod_beta)
    qed
  qed
qed

theorem antiflood_burst_exact_witness:
  "fst (antiflood_run \<lparr>fc_points_tick_reduce = 5, fc_points_needed_command_block = 150,
       fc_points_needed_ip_block = 250, fc_ban_time = 20\<rparr>
     (default_flood_state\<lparr>af_last_update_millis := 5000, af_points := 146\<rparr>) [(1, 5000), (2, 5500)]) =
     [False, False]"
proof -
  let ?c = "\<lparr>fc_points_tick_reduce = 5, fc_points_needed_command_block = 150,
       fc_points_needed_ip_block = 250, fc_ban_time = 20\<rparr>"
  let ?s = "default_flood_state\<lparr>af_last_update_millis := 5000, af_points := 146\<rparr>"
  let ?cmds = "[(1, 5000), (2, 5500)] :: (u32 \<times> u64) list"
  have burst: "\<forall>c \<in> set ?cmds. fst c \<noteq> 0 \<and> within_second ?s (snd c) \<and> af_blocked_until_millis ?s \<le> snd c"
    by (simp add: within_second_def default_flood_state_def)
  have clock: "0 < fc_points_tick_reduce ?c" "af_last_update_millis ?s \<noteq> 0" "?cmds \<noteq> []"
    by simp_all
  have "under_limits ?c (unat (af_points ?s) + burst_cost ?cmds)"
    by (simp add: under_limits_def)
  then have "fst (antiflood_run ?c ?s ?cmds) = replicate (length ?cmds) False"
    using antiflood_burst_exact [OF clock(1,2) burst clock(3)] by blast
  then show ?thesis by (simp del: antiflood_run.simps)
qed

end
