(* ===== verification/Store_Queries.thy ===== *)
theory Store_Queries
  imports Runtime_State
begin

text \<open>
  The read-only lookups of \<open>runtime/session_and_identity.rs\<close> and
  \<open>runtime/normalization_and_helpers.rs\<close> that the handlers share: channels of a server, online
  clients, query accounts, and the identity behind a unique identifier or a database id.
\<close>

unbundle bit_operations_syntax

subsection \<open>Hashes and identifiers\<close>

definition fnv1a64 :: "string \<Rightarrow> u64" where
  "fnv1a64 bytes =
     fold (\<lambda>b hash. (hash XOR of_nat (byte b)) * 0x100000001b3) bytes 0xcbf29ce484222325"

definition synthetic_permission_id :: "string \<Rightarrow> u32" where
  "synthetic_permission_id permission_name =
     (let hash = fold (\<lambda>b hash. (hash XOR of_nat (byte b)) * 16777619) permission_name 2166136261
      in sat_add 200000 (hash mod 50000))"

definition stable_query_client_unique_identifier :: "string \<Rightarrow> string" where
  "stable_query_client_unique_identifier login_name = login_name"

definition stable_web_client_database_id :: "string \<Rightarrow> u64" where
  "stable_web_client_database_id unique_identifier =
     1000000000000 + (fnv1a64 unique_identifier AND 0x0000FFFFFFFFFFFF)"

definition unique_id_byte :: "char \<Rightarrow> bool" where
  "unique_id_byte c =
     ((byte CHR ''A'' \<le> byte c \<and> byte c \<le> byte CHR ''Z'')
      \<or> (byte CHR ''a'' \<le> byte c \<and> byte c \<le> byte CHR ''z'')
      \<or> (byte CHR ''0'' \<le> byte c \<and> byte c \<le> byte CHR ''9'')
      \<or> c = CHR ''+'' \<or> c = CHR ''/'' \<or> c = CHR ''='')"

definition looks_like_blackteaspeak_unique_id :: "string \<Rightarrow> bool" where
  "looks_like_blackteaspeak_unique_id value =
     (length value = 28 \<and> last value = CHR ''='' \<and> list_all unique_id_byte value)"

definition parse_query_bool :: "string \<Rightarrow> bool option" where
  "parse_query_bool value =
     (if value = ''0'' \<or> value = ''false'' then Some False
      else if value = ''1'' \<or> value = ''true'' then Some True
      else None)"

subsection \<open>Servers and channels\<close>

definition selected_server :: "baseline_runtime \<Rightarrow> query_session \<Rightarrow> virtual_server option" where
  "selected_server r session =
     Option.bind (qs_selected_virtual_server_id session) (bt_get (st_virtual_servers (rt_store r)))"

definition server_channels :: "baseline_runtime \<Rightarrow> u32 \<Rightarrow> channel list option" where
  "server_channels r server_id = bt_get (st_channels (rt_store r)) server_id"

fun min_by_id :: "channel list \<Rightarrow> channel option" where
  "min_by_id [] = None"
| "min_by_id (c # cs) =
     (case min_by_id cs of None \<Rightarrow> Some c
      | Some d \<Rightarrow> if ch_id d < ch_id c then Some d else Some c)"

definition default_channel_of :: "channel list \<Rightarrow> channel option" where
  "default_channel_of channels =
     or_else (List.find ch_flag_default channels)
       (or_else (List.find (\<lambda>c. ch_parent_id c = 0 \<and> ch_order c = 0) channels)
          (min_by_id channels))"

definition default_channel_id_for_server :: "baseline_runtime \<Rightarrow> u32 \<Rightarrow> u32 option" where
  "default_channel_id_for_server r server_id =
     Option.bind (server_channels r server_id)
       (\<lambda>channels. map_option ch_id (default_channel_of channels))"

definition channel_by_id :: "baseline_runtime \<Rightarrow> u32 \<Rightarrow> u32 \<Rightarrow> channel option" where
  "channel_by_id r server_id channel_id =
     Option.bind (server_channels r server_id) (List.find (\<lambda>c. ch_id c = channel_id))"

definition channel_exists :: "baseline_runtime \<Rightarrow> u32 \<Rightarrow> u32 \<Rightarrow> bool" where
  "channel_exists r server_id channel_id =
     (case server_channels r server_id of None \<Rightarrow> False
      | Some channels \<Rightarrow> \<exists>c \<in> set channels. ch_id c = channel_id)"

definition conversation_id_exists :: "baseline_runtime \<Rightarrow> u32 \<Rightarrow> u32 \<Rightarrow> bool" where
  "conversation_id_exists r server_id conversation_id =
     (bt_contains_key (st_virtual_servers (rt_store r)) server_id
      \<and> (conversation_id = 0 \<or> channel_by_id r server_id conversation_id \<noteq> None))"

definition conversation_messages ::
    "baseline_runtime \<Rightarrow> u32 \<Rightarrow> u32 \<Rightarrow> conversation_message list" where
  "conversation_messages r server_id conversation_id =
     (case bt_get (st_conversation_messages (rt_store r)) server_id of
        None \<Rightarrow> []
      | Some messages \<Rightarrow> filter (\<lambda>m. cm_conversation_id m = conversation_id) messages)"

definition latest_conversation_timestamp :: "baseline_runtime \<Rightarrow> u32 \<Rightarrow> u32 \<Rightarrow> u64" where
  "latest_conversation_timestamp r server_id conversation_id =
     unwrap_or 0 (iter_max (map cm_timestamp (conversation_messages r server_id conversation_id)))"

definition private_conversation_messages ::
    "baseline_runtime \<Rightarrow> u32 \<Rightarrow> u64 \<Rightarrow> u64 \<Rightarrow> private_message list" where
  "private_conversation_messages r server_id left right =
     (case bt_get (st_private_messages (rt_store r)) server_id of
        None \<Rightarrow> []
      | Some messages \<Rightarrow>
          filter (\<lambda>m. (pm_sender_database_id m = left \<and> pm_target_database_id m = right)
                     \<or> (pm_sender_database_id m = right \<and> pm_target_database_id m = left)) messages)"

subsection \<open>Clients and accounts\<close>

definition online_client_by_cldbid ::
    "baseline_runtime \<Rightarrow> u32 \<Rightarrow> u64 \<Rightarrow> online_client option" where
  "online_client_by_cldbid r server_id client_database_id =
     List.find (\<lambda>c. oc_server_id c = server_id \<and> oc_database_id c = client_database_id)
       (bt_values (st_online_clients (rt_store r)))"

definition online_client_by_id_in_server ::
    "baseline_runtime \<Rightarrow> u32 \<Rightarrow> u64 \<Rightarrow> online_client option" where
  "online_client_by_id_in_server r server_id client_id =
     opt_filter (\<lambda>c. oc_server_id c = server_id) (bt_get (st_online_clients (rt_store r)) client_id)"

definition query_account_by_cldbid :: "baseline_runtime \<Rightarrow> u64 \<Rightarrow> query_account option" where
  "query_account_by_cldbid r client_database_id =
     List.find (\<lambda>a. qa_client_database_id a = Some client_database_id)
       (bt_values (st_query_accounts (rt_store r)))"

definition client_count_in_channel :: "baseline_runtime \<Rightarrow> u32 \<Rightarrow> u32 \<Rightarrow> u32" where
  "client_count_in_channel r server_id channel_id =
     of_nat (length (filter (\<lambda>c. oc_server_id c = server_id \<and> oc_channel_id c = channel_id)
       (bt_values (st_online_clients (rt_store r)))))"

definition client_count_in_server :: "baseline_runtime \<Rightarrow> u32 \<Rightarrow> u32" where
  "client_count_in_server r server_id =
     of_nat (length (filter (\<lambda>c. oc_server_id c = server_id)
       (bt_values (st_online_clients (rt_store r)))))"

definition query_account_unique_identifier :: "query_account \<Rightarrow> string" where
  "query_account_unique_identifier account =
     stable_query_client_unique_identifier (qa_login_name account)"

definition query_account_matches_server :: "query_account \<Rightarrow> u32 \<Rightarrow> bool" where
  "query_account_matches_server account server_id =
     (case qa_server_id account of Some sid \<Rightarrow> sid = server_id | None \<Rightarrow> True)"

definition query_session_database_id :: "baseline_runtime \<Rightarrow> query_session \<Rightarrow> u64" where
  "query_session_database_id r session =
     unwrap_or 0
       (Option.bind (qs_authenticated_login session)
          (\<lambda>login. Option.bind (bt_get (st_query_accounts (rt_store r)) login)
             qa_client_database_id))"

definition known_client_database_ids :: "baseline_runtime \<Rightarrow> u64 list" where
  "known_client_database_ids r =
     bs_collect
       (List.map_filter qa_client_database_id (bt_values (st_query_accounts (rt_store r)))
        @ bt_keys (st_clients (rt_store r))
        @ map snd (bt_keys (st_custom_client_properties (rt_store r)))
        @ map oc_database_id (bt_values (st_online_clients (rt_store r)))
        @ map cpt_client_database_id (st_client_permissions (rt_store r)))"

definition client_database_id_exists :: "baseline_runtime \<Rightarrow> u64 \<Rightarrow> bool" where
  "client_database_id_exists r client_database_id =
     (query_account_by_cldbid r client_database_id \<noteq> None
      \<or> bt_contains_key (st_clients (rt_store r)) client_database_id
      \<or> (\<exists>k \<in> set (bt_keys (st_custom_client_properties (rt_store r))). snd k = client_database_id)
      \<or> (\<exists>t \<in> set (st_client_permissions (rt_store r)). cpt_client_database_id t = client_database_id)
      \<or> (\<exists>c \<in> set (bt_values (st_online_clients (rt_store r))). oc_database_id c = client_database_id))"

subsection \<open>Identities\<close>

type_synonym identity = "string \<times> u64 \<times> string"

definition target_identity :: "client_permission_target \<Rightarrow> identity option" where
  "target_identity target =
     (if cpt_client_unique_identifier target = [] then None
      else Some (cpt_client_unique_identifier target, cpt_client_database_id target,
                 if cpt_client_nickname target = [] then cpt_client_unique_identifier target
                 else cpt_client_nickname target))"

definition private_message_identity_by_dbid ::
    "baseline_runtime \<Rightarrow> u32 \<Rightarrow> u64 \<Rightarrow> identity option" where
  "private_message_identity_by_dbid r server_id client_database_id =
     Option.bind (bt_get (st_private_messages (rt_store r)) server_id)
       (\<lambda>messages. find_map
          (\<lambda>m. if pm_sender_database_id m = client_database_id
               then Some (pm_sender_unique_id m, client_database_id, pm_sender_name m)
               else if pm_target_database_id m = client_database_id
               then Some (pm_target_unique_id m, client_database_id, pm_target_name m)
               else None)
          (rev messages))"

definition lookup_client_identity_by_dbid ::
    "baseline_runtime \<Rightarrow> u32 \<Rightarrow> u64 \<Rightarrow> identity option" where
  "lookup_client_identity_by_dbid r server_id client_database_id =
     or_else
       (map_option (\<lambda>a. (query_account_unique_identifier a, client_database_id, qa_login_name a))
          (List.find (\<lambda>a. query_account_matches_server a server_id
                          \<and> qa_client_database_id a = Some client_database_id)
             (bt_values (st_query_accounts (rt_store r)))))
     (or_else
       (map_option (\<lambda>c. (oc_unique_identifier c, oc_database_id c, oc_nickname c))
          (List.find (\<lambda>c. oc_server_id c = server_id \<and> oc_database_id c = client_database_id)
             (bt_values (st_online_clients (rt_store r)))))
     (or_else
       (map_option (\<lambda>c. (cl_unique_identifier c, cl_database_id c, cl_nickname c))
          (bt_get (st_clients (rt_store r)) client_database_id))
     (or_else
       (Option.bind
          (List.find (\<lambda>t. cpt_client_database_id t = client_database_id)
             (st_client_permissions (rt_store r)))
          target_identity)
       (private_message_identity_by_dbid r server_id client_database_id))))"

definition lookup_client_identity_by_uid ::
    "baseline_runtime \<Rightarrow> u32 \<Rightarrow> string \<Rightarrow> identity option" where
  "lookup_client_identity_by_uid r server_id client_uid =
     (let normalized_uid = unwrap_or client_uid (strip_prefix ''query:'' client_uid) in
      or_else
       (map_option (\<lambda>c. (oc_unique_identifier c, oc_database_id c, oc_nickname c))
          (List.find (\<lambda>c. oc_server_id c = server_id
                          \<and> (oc_unique_identifier c = client_uid
                             \<or> oc_unique_identifier c = normalized_uid))
             (bt_values (st_online_clients (rt_store r)))))
     (or_else
       (Option.bind
          (List.find (\<lambda>a. query_account_matches_server a server_id
                          \<and> (query_account_unique_identifier a = client_uid
                             \<or> query_account_unique_identifier a = normalized_uid))
             (bt_values (st_query_accounts (rt_store r))))
          (\<lambda>a. map_option (\<lambda>d. (query_account_unique_identifier a, d, qa_login_name a))
                 (qa_client_database_id a)))
     (or_else
       (map_option (\<lambda>c. (cl_unique_identifier c, cl_database_id c, cl_nickname c))
          (List.find (\<lambda>c. cl_unique_identifier c = client_uid
                          \<or> cl_unique_identifier c = normalized_uid)
             (bt_values (st_clients (rt_store r)))))
     (or_else
       (Option.bind
          (List.find (\<lambda>t. cpt_client_unique_identifier t = client_uid)
             (st_client_permissions (rt_store r)))
          target_identity)
       (if looks_like_blackteaspeak_unique_id client_uid
        then Some (client_uid, stable_web_client_database_id client_uid, client_uid)
        else None)))))"

subsection \<open>Laws\<close>

lemma find_Some_ex: "(\<exists>y. List.find P xs = Some y) \<longleftrightarrow> (\<exists>x \<in> set xs. P x)"
  by (induction xs) auto

lemma channel_exists_iff: "channel_exists r sid cid \<longleftrightarrow> channel_by_id r sid cid \<noteq> None"
  by (auto simp: channel_exists_def channel_by_id_def find_Some_ex split: option.splits)

lemma channel_by_id_in:
  "channel_by_id r sid cid = Some c \<Longrightarrow>
   \<exists>cs. server_channels r sid = Some cs \<and> c \<in> set cs \<and> ch_id c = cid"
  by (auto simp: channel_by_id_def bind_eq_Some_conv dest: find_SomeD)

lemma min_by_id_None: "min_by_id cs = None \<longleftrightarrow> cs = []"
  by (cases cs) (auto split: option.splits)

lemma min_by_id_Some: "min_by_id cs = Some c \<Longrightarrow> c \<in> set cs \<and> (\<forall>d \<in> set cs. ch_id c \<le> ch_id d)"
proof (induction cs arbitrary: c)
  case (Cons a cs)
  show ?case
  proof (cases "min_by_id cs")
    case None
    then show ?thesis using Cons.prems by (simp add: min_by_id_None)
  next
    case (Some d)
    then show ?thesis using Cons.prems Cons.IH [OF Some] by (auto split: if_splits)
  qed
qed simp

lemma default_channel_of_in: "default_channel_of cs = Some c \<Longrightarrow> c \<in> set cs"
  by (auto simp: default_channel_of_def or_else_def dest: find_SomeD min_by_id_Some
      split: option.splits)

lemma default_channel_of_None: "default_channel_of cs = None \<longleftrightarrow> cs = []"
  by (auto simp: default_channel_of_def min_by_id_None)

lemma default_channel_exists:
  "default_channel_id_for_server r sid = Some cid \<Longrightarrow> channel_exists r sid cid"
  by (auto simp: default_channel_id_for_server_def channel_exists_def bind_eq_Some_conv
      dest!: default_channel_of_in)

end
