(* ===== verification/Seed_Store.thy ===== *)
theory Seed_Store
  imports Runtime_State
begin

text \<open>
  The store a fresh server starts from, \<open>seed_store\<close> of \<open>runtime/permissions/checks.rs\<close>, one definition
  per group of entries. The clock is an argument: the source reads it once per entry.
\<close>

definition seed_query_accounts :: "(string, query_account) btree" where
  "seed_query_accounts =
     bt_insert ''serveradmin''
       \<lparr>qa_login_name = ''serveradmin'', qa_password = ''serveradmin'', qa_server_id = Some 1,
        qa_client_database_id = Some 1, qa_server_groups = [6], qa_permissions = []\<rparr> []"

definition icon_of :: "perm_map \<Rightarrow> int \<Rightarrow> int" where
  "icon_of perms d = unwrap_or d (map_option pa_value (bt_get perms ''i_icon_id''))"

definition seed_server_groups :: "perm_map \<Rightarrow> perm_map \<Rightarrow> perm_map \<Rightarrow> (u32, server_group) btree" where
  "seed_server_groups admin_permissions guest_permissions server_admin_permissions =
     bt_insert 9
       \<lparr>sg_id = 9, sg_name = ''Server Admin'', sg_group_type = 1,
        sg_icon_id = icon_of server_admin_permissions 300, sg_save_db = True,
        sg_permissions = server_admin_permissions\<rparr>
     (bt_insert 8
       \<lparr>sg_id = 8, sg_name = ''Normal'', sg_group_type = 1, sg_icon_id = 0, sg_save_db = True,
        sg_permissions = []\<rparr>
     (bt_insert 7
       \<lparr>sg_id = 7, sg_name = ''Guest Server Query'', sg_group_type = 1, sg_icon_id = 0,
        sg_save_db = True, sg_permissions = guest_permissions\<rparr>
     (bt_insert 6
       \<lparr>sg_id = 6, sg_name = ''Admin Server Query'', sg_group_type = 1, sg_icon_id = 300,
        sg_save_db = True, sg_permissions = admin_permissions\<rparr> [])))"

definition seed_channel_groups :: "perm_map \<Rightarrow> perm_map \<Rightarrow> perm_map \<Rightarrow> (u32, channel_group) btree" where
  "seed_channel_groups channel_admin_permissions channel_operator_permissions
     channel_guest_permissions =
     bt_insert 10
       \<lparr>cg_id = 10, cg_name = ''Guest'', cg_group_type = 2,
        cg_icon_id = icon_of channel_guest_permissions 0, cg_save_db = True,
        cg_permissions = channel_guest_permissions\<rparr>
     (bt_insert 9
       \<lparr>cg_id = 9, cg_name = ''Operator'', cg_group_type = 1,
        cg_icon_id = icon_of channel_operator_permissions 200, cg_save_db = True,
        cg_permissions = channel_operator_permissions\<rparr>
     (bt_insert 8
       \<lparr>cg_id = 8, cg_name = ''Channel Admin'', cg_group_type = 2,
        cg_icon_id = icon_of channel_admin_permissions 100, cg_save_db = True,
        cg_permissions = channel_admin_permissions\<rparr> []))"

definition seed_virtual_servers :: "(u32, virtual_server) btree" where
  "seed_virtual_servers =
     bt_insert 1
       \<lparr>vs_id = 1, vs_port = 9987, vs_name = ''BlackTeaSpeak Compat'', vs_status = ''online'',
        vs_password = [], vs_unique_identifier = ''compat-baseline-uid'',
        vs_welcome_message = ''Welcome to BlackTeaSpeak Compat'', vs_host_message = [],
        vs_host_message_mode = 0, vs_ask_for_privilegekey = 0, vs_max_clients = 128,
        vs_antiflood_points_tick_reduce = 10, vs_antiflood_points_needed_command_block = 150,
        vs_antiflood_points_needed_ip_block = 250, vs_antiflood_ban_time = 300\<rparr> []"

definition seed_channel :: "u32 \<Rightarrow> u32 \<Rightarrow> string \<Rightarrow> string \<Rightarrow> bool \<Rightarrow> channel" where
  "seed_channel cid order name topic flag_default =
     \<lparr>ch_id = cid, ch_parent_id = 0, ch_order = order, ch_kind = Permanent, ch_name = name,
      ch_topic = topic, ch_description = [], ch_password = [], ch_codec = 4,
      ch_codec_quality = 10, ch_maxclients = -1, ch_maxfamilyclients = -1,
      ch_flag_default = flag_default, ch_flag_password = False, ch_permissions = []\<rparr>"

definition seed_channels :: "(u32, channel list) btree" where
  "seed_channels =
     bt_insert 1
       [seed_channel 1 0 ''Default Channel'' ''Default Channel has no topic'' True,
        seed_channel 2 1 ''Music Lounge'' ''Music bot staging area'' False] []"

definition seed_client_40 :: "u64 \<Rightarrow> client" where
  "seed_client_40 now =
     \<lparr>cl_database_id = 40, cl_unique_identifier = ''compat-seed-user-40'', cl_nickname = ''ScP'',
      cl_description = [], cl_created_at = now, cl_last_connected_at = now,
      cl_total_connections = 1, cl_month_bytes_uploaded = 0, cl_month_bytes_downloaded = 0,
      cl_total_bytes_uploaded = 0, cl_total_bytes_downloaded = 0, cl_client_flag_avatar = []\<rparr>"

definition seed_client_41 :: "u64 \<Rightarrow> client" where
  "seed_client_41 now =
     \<lparr>cl_database_id = 41, cl_unique_identifier = ''compat-seed-user-41'', cl_nickname = ''Rabe85'',
      cl_description = [], cl_created_at = now, cl_last_connected_at = now,
      cl_total_connections = 1, cl_month_bytes_uploaded = 0, cl_month_bytes_downloaded = 0,
      cl_total_bytes_uploaded = 0, cl_total_bytes_downloaded = 0, cl_client_flag_avatar = []\<rparr>"

definition seed_client_42 :: "u64 \<Rightarrow> client" where
  "seed_client_42 now =
     \<lparr>cl_database_id = 42, cl_unique_identifier = ''compat-seed-user-42'', cl_nickname = ''DJ Mix'',
      cl_description = [], cl_created_at = now, cl_last_connected_at = now,
      cl_total_connections = 1, cl_month_bytes_uploaded = 0, cl_month_bytes_downloaded = 0,
      cl_total_bytes_uploaded = 0, cl_total_bytes_downloaded = 0, cl_client_flag_avatar = []\<rparr>"

definition seed_clients :: "u64 \<Rightarrow> (u64, client) btree" where
  "seed_clients now =
     bt_insert 42 (seed_client_42 now)
       (bt_insert 41 (seed_client_41 now) (bt_insert 40 (seed_client_40 now) []))"

definition seed_online_client_10 :: "u64 \<Rightarrow> online_client" where
  "seed_online_client_10 now =
     \<lparr>oc_id = 10, oc_database_id = 40, oc_unique_identifier = ''compat-seed-user-40'',
      oc_nickname = ''ScP'', oc_away = False, oc_away_message = [], oc_input_muted = False,
      oc_output_muted = False, oc_server_id = 1, oc_channel_id = 1, oc_client_type = 0,
      oc_version = ''BlackTeaSpeak 1.5.6 compat-seed'', oc_platform = ''Windows'', oc_country = ''DE'',
      oc_connection_ip = ''198.51.100.10'', oc_server_groups = [8], oc_connected_at = now,
      oc_last_seen_at = now, oc_whisper_targets = None, oc_extra_properties = []\<rparr>"

definition seed_online_client_11 :: "u64 \<Rightarrow> online_client" where
  "seed_online_client_11 now =
     \<lparr>oc_id = 11, oc_database_id = 41, oc_unique_identifier = ''compat-seed-user-41'',
      oc_nickname = ''Rabe85'', oc_away = False, oc_away_message = [], oc_input_muted = False,
      oc_output_muted = False, oc_server_id = 1, oc_channel_id = 1, oc_client_type = 0,
      oc_version = ''BlackTeaSpeak 1.5.6 compat-seed'', oc_platform = ''Linux'', oc_country = ''AT'',
      oc_connection_ip = ''198.51.100.11'', oc_server_groups = [8], oc_connected_at = now,
      oc_last_seen_at = now, oc_whisper_targets = None, oc_extra_properties = []\<rparr>"

definition seed_online_client_12 :: "u64 \<Rightarrow> online_client" where
  "seed_online_client_12 now =
     \<lparr>oc_id = 12, oc_database_id = 42, oc_unique_identifier = ''compat-seed-user-42'',
      oc_nickname = ''DJ Mix'', oc_away = False, oc_away_message = [], oc_input_muted = False,
      oc_output_muted = False, oc_server_id = 1, oc_channel_id = 2, oc_client_type = 0,
      oc_version = ''BlackTeaSpeak 1.5.6 compat-seed'', oc_platform = ''macOS'', oc_country = ''CH'',
      oc_connection_ip = ''198.51.100.12'', oc_server_groups = [8], oc_connected_at = now,
      oc_last_seen_at = now, oc_whisper_targets = None, oc_extra_properties = 
        bt_collect
          [(''client_type_exact'', ''4''), (''player_state'', ''4''), (''player_volume'', ''1''),
           (''client_playlist_id'', ''0''), (''client_disabled'', ''0''),
           (''client_flag_notify_song_change'', ''0''), (''client_bot_type'', ''0''),
           (''client_uptime_mode'', ''0'')]\<rparr>"

definition seed_online_clients :: "u64 \<Rightarrow> (u64, online_client) btree" where
  "seed_online_clients now =
     bt_insert 12 (seed_online_client_12 now)
       (bt_insert 11 (seed_online_client_11 now) (bt_insert 10 (seed_online_client_10 now) []))"

definition seed_channel_group_assignments :: "channel_group_assignment list" where
  "seed_channel_group_assignments =
     [\<lparr>cga_channel_id = 1, cga_client_database_id = 40, cga_channel_group_id = 10\<rparr>,
      \<lparr>cga_channel_id = 1, cga_client_database_id = 41, cga_channel_group_id = 10\<rparr>,
      \<lparr>cga_channel_id = 2, cga_client_database_id = 42, cga_channel_group_id = 10\<rparr>]"

definition seed_music_bots :: "(u32, music_bot) btree" where
  "seed_music_bots =
     bt_insert 1
       \<lparr>mb_id = 1, mb_server_id = 1, mb_client_database_id = 42, mb_linked_client_id = Some 12,
        mb_nickname = ''DJ Mix'', mb_channel_id = 2, mb_playlist_id = 1, mb_current_song_id = None,
        mb_next_song_id = 1, mb_state = Stopped, mb_player_volume = ''1'', mb_playlist_title = [],
        mb_playlist_description = [], mb_playlist_flag_delete_played = False,
        mb_playlist_flag_finished = False, mb_playlist_replay_mode = 0, mb_playlist_max_songs = 0,
        mb_permissions = [], mb_client_permissions = [], mb_current_song_started_at_millis = None,
        mb_current_song_progress_millis = 0, mb_queue = []\<rparr> []"

definition seed_server_logs :: "u64 \<Rightarrow> server_log_entry list" where
  "seed_server_logs now =
     [\<lparr>sl_id = 1, sl_server_id = 0, sl_timestamp = now, sl_level = 4, sl_channel = ''ServerLibPriv'',
       sl_message = ''TeamSpeak 3 Server started''\<rparr>,
      \<lparr>sl_id = 2, sl_server_id = 1, sl_timestamp = now, sl_level = 4,
       sl_channel = ''VirtualServerBase'', sl_message = ''listening on 0.0.0.0:9987''\<rparr>]"

definition seed_store ::
    "u64 \<Rightarrow> perm_map \<Rightarrow> perm_map \<Rightarrow> perm_map \<Rightarrow> perm_map \<Rightarrow> perm_map \<Rightarrow> perm_map \<Rightarrow> in_memory_store" where
  "seed_store now admin_permissions guest_permissions server_admin_permissions
     channel_admin_permissions channel_operator_permissions channel_guest_permissions =
     \<lparr>st_query_accounts = seed_query_accounts,
      st_server_groups =
        seed_server_groups admin_permissions guest_permissions server_admin_permissions,
      st_channel_groups =
        seed_channel_groups channel_admin_permissions channel_operator_permissions
          channel_guest_permissions,
      st_virtual_servers = seed_virtual_servers,
      st_channels = seed_channels,
      st_channel_group_assignments = seed_channel_group_assignments,
      st_channel_client_permissions = [], st_client_permissions = [],
      st_conversation_messages = [], st_private_messages = [], st_offline_messages = [],
      st_complaints = [], st_custom_client_properties = [],
      st_server_logs = seed_server_logs now,
      st_instance_properties = [], st_tokens = [], st_server_temp_passwords = [],
      st_active_bans = [],
      st_online_clients = seed_online_clients now,
      st_clients = seed_clients now,
      st_music_bots = seed_music_bots,
      st_active_broadcasts = [], st_next_query_client_id = 1,
      st_next_client_database_id = 100, st_next_conversation_timestamp = 1, st_next_ban_id = 1,
      st_next_token_id = 1, st_next_token_action_id = 1, st_next_offline_message_id = 1,
      st_next_log_id = 3\<rparr>"

subsection \<open>A seeded runtime for examples\<close>

definition perm :: "int \<Rightarrow> perm_assignment" where
  "perm v = \<lparr>pa_value = v, pa_negated = False, pa_skipped = False\<rparr>"

definition seed_admin_permissions :: perm_map where
  "seed_admin_permissions =
     bt_collect
       (map (\<lambda>n. (n, perm 1))
          [''b_channel_create_permanent'', ''b_channel_create_temporary'', ''b_channel_create_child'',
           ''b_channel_create_with_sortorder'', ''b_channel_delete_permanent'',
           ''b_channel_delete_flag_force'', ''b_virtualserver_token_add'',
           ''b_virtualserver_token_list'', ''b_virtualserver_token_delete'',
           ''b_virtualserver_token_use'', ''b_virtualserver_servergroup_create'']
        @ [(''i_group_member_add_power'', perm 75), (''i_group_modify_power'', perm 75)])"

definition seeded_runtime :: "in_memory_store \<Rightarrow> baseline_runtime" where
  "seeded_runtime s = empty_runtime\<lparr>rt_store := s\<rparr>"

definition admin_session :: query_session where
  "admin_session =
     default_session\<lparr>qs_client_id := 1, qs_authenticated_login := Some ''serveradmin'',
       qs_selected_virtual_server_id := Some 1, qs_current_channel_id := Some 1\<rparr>"

definition demo_store :: in_memory_store where
  "demo_store = seed_store 1000 seed_admin_permissions [] [] [] [] []"

end
