(* ===== verification/Permissions.thy ===== *)
theory Permissions
  imports Store_Queries Seed_Store "HOL-Library.Multiset"
begin

text \<open>
  Permission evaluation: the checks of \<open>runtime/permissions/checks.rs\<close>, the actor and the effective
  permissions of \<open>runtime/permissions/evaluation_and_catalog.rs\<close>, the lookup of channel groups and
  client targets of \<open>runtime/permissions/web.rs\<close>, and the numeric ids of permissions.

  A check returns \<open>Result<(), &str>\<close>: \<open>Inl\<close> is the name of the permission that failed.
\<close>

unbundle bit_operations_syntax

type_synonym perm_check = "string + unit"

subsection \<open>Checks\<close>

definition session_has_permission_actor :: "query_session \<Rightarrow> bool" where
  "session_has_permission_actor session =
     (qs_authenticated_login session \<noteq> None \<or> qs_actor_client_database_id_override session \<noteq> None)"

definition permission_value_or_default :: "perm_map \<Rightarrow> string list \<Rightarrow> int" where
  "permission_value_or_default permissions candidate_names =
     unwrap_or 0 (find_map (\<lambda>n. map_option pa_value (bt_get permissions n)) candidate_names)"

definition permission_power_max_or_default :: "perm_map \<Rightarrow> string list \<Rightarrow> int" where
  "permission_power_max_or_default permissions candidate_names =
     unwrap_or 0
       (iter_max (List.map_filter (\<lambda>n. map_option pa_value (bt_get permissions n)) candidate_names))"

definition check_power ::
    "perm_map \<Rightarrow> perm_map \<Rightarrow> string list \<Rightarrow> string list \<Rightarrow> string \<Rightarrow> perm_check" where
  "check_power actor_permissions target_permissions actor_power_names needed_power_names failed =
     (if permission_power_max_or_default actor_permissions actor_power_names
         < permission_power_max_or_default target_permissions needed_power_names
      then Inl failed else Inr ())"

definition check_server_group_membership_change ::
    "perm_map \<Rightarrow> perm_map \<Rightarrow> bool \<Rightarrow> bool \<Rightarrow> perm_check" where
  "check_server_group_membership_change actor_permissions target_permissions self_target add_group =
     (case (add_group, self_target) of
        (True, True) \<Rightarrow>
          check_power actor_permissions target_permissions
            [''i_server_group_self_add_power'', ''i_group_member_add_power'']
            [''i_server_group_needed_member_add_power'', ''i_group_needed_member_add_power'']
            ''i_server_group_self_add_power''
      | (True, False) \<Rightarrow>
          check_power actor_permissions target_permissions
            [''i_server_group_member_add_power'', ''i_group_member_add_power'']
            [''i_server_group_needed_member_add_power'', ''i_group_needed_member_add_power'']
            ''i_group_member_add_power''
      | (False, True) \<Rightarrow>
          check_power actor_permissions target_permissions
            [''i_server_group_self_remove_power'', ''i_group_member_remove_power'']
            [''i_server_group_needed_member_remove_power'', ''i_group_needed_member_remove_power'']
            ''i_server_group_self_remove_power''
      | (False, False) \<Rightarrow>
          check_power actor_permissions target_permissions
            [''i_server_group_member_remove_power'', ''i_group_member_remove_power'']
            [''i_server_group_needed_member_remove_power'', ''i_group_needed_member_remove_power'']
            ''i_group_member_remove_power'')"

definition check_group_modify_allowed :: "perm_map \<Rightarrow> perm_map \<Rightarrow> string list \<Rightarrow> perm_check" where
  "check_group_modify_allowed actor_permissions target_permissions target_needed_modify_names =
     check_power actor_permissions target_permissions
       [''i_group_modify_power'', ''i_server_group_modify_power'', ''i_channel_group_modify_power'']
       target_needed_modify_names ''i_group_modify_power''"

definition check_permission_edit_allowed :: "perm_map \<Rightarrow> perm_map \<Rightarrow> string list \<Rightarrow> perm_check" where
  "check_permission_edit_allowed actor_permissions target_permissions target_needed_modify_names =
     (case check_group_modify_allowed actor_permissions target_permissions target_needed_modify_names of
        Inl p \<Rightarrow> Inl p
      | Inr _ \<Rightarrow>
          if 0 < permission_power_max_or_default actor_permissions [''b_permission_modify_power_ignore'']
          then Inr ()
          else if permission_power_max_or_default actor_permissions
                    [''i_permission_modify_power'', ''i_channel_permission_modify_power'',
                     ''i_client_permission_modify_power''] < 1
          then Inl ''i_permission_modify_power''
          else Inr ())"

definition check_required_permission :: "perm_map \<Rightarrow> string list \<Rightarrow> string \<Rightarrow> perm_check" where
  "check_required_permission actor_permissions candidate_names failed_permission_name =
     (if permission_power_max_or_default actor_permissions candidate_names < 1
      then Inl failed_permission_name else Inr ())"

definition check_channel_group_membership_change ::
    "perm_map \<Rightarrow> perm_map \<Rightarrow> bool \<Rightarrow> perm_check" where
  "check_channel_group_membership_change actor_permissions target_permissions add_group =
     (if add_group
      then check_power actor_permissions target_permissions [''i_group_member_add_power'']
             [''i_channel_group_needed_member_add_power'', ''i_group_needed_member_add_power'']
             ''i_group_member_add_power''
      else check_power actor_permissions target_permissions [''i_group_member_remove_power'']
             [''i_channel_group_needed_member_remove_power'', ''i_group_needed_member_remove_power'']
             ''i_group_member_remove_power'')"

definition check_channel_modify_power_allowed :: "perm_map \<Rightarrow> perm_map \<Rightarrow> perm_check" where
  "check_channel_modify_power_allowed actor_permissions target_permissions =
     check_power actor_permissions target_permissions [''i_channel_modify_power'']
       [''i_channel_needed_modify_power''] ''i_channel_modify_power''"

definition check_channel_delete_power_allowed :: "perm_map \<Rightarrow> perm_map \<Rightarrow> perm_check" where
  "check_channel_delete_power_allowed actor_permissions target_permissions =
     check_power actor_permissions target_permissions [''i_channel_delete_power'']
       [''i_channel_needed_delete_power''] ''i_channel_delete_power''"

definition check_playlist_power_allowed ::
    "perm_map \<Rightarrow> perm_map \<Rightarrow> string list \<Rightarrow> string list \<Rightarrow> string \<Rightarrow> perm_check" where
  "check_playlist_power_allowed actor_permissions target_permissions actor_names needed_names failed =
     check_power actor_permissions target_permissions actor_names needed_names failed"

text \<open>A sequence of \<open>if let Err(name) = check { return .. }\<close>: the first failure decides.\<close>

fun first_failed :: "perm_check list \<Rightarrow> perm_check" where
  "first_failed [] = Inr ()"
| "first_failed (c # cs) = (case c of Inl p \<Rightarrow> Inl p | Inr _ \<Rightarrow> first_failed cs)"

definition check_when :: "bool \<Rightarrow> perm_check \<Rightarrow> perm_check" where
  "check_when b c = (if b then c else Inr ())"

subsection \<open>Numeric ids\<close>

definition bt_find_key :: "('v \<Rightarrow> bool) \<Rightarrow> ('k, 'v) btree \<Rightarrow> 'k option" where
  "bt_find_key P m = map_option fst (List.find (\<lambda>kv. P (snd kv)) m)"

definition needed_modify_base_id :: "baseline_runtime \<Rightarrow> string \<Rightarrow> u32 option" where
  "needed_modify_base_id r rest =
     (let b_name = ''b_'' @ rest; i_name = ''i_'' @ rest; s_name = ''s_'' @ rest;
          catalog_id = (\<lambda>n. map_option pce_id (bt_get (rt_permission_catalog r) n));
          web_id = bt_get (rt_web_permission_base_ids r) in
      or_else (catalog_id b_name) (or_else (catalog_id i_name) (or_else (catalog_id s_name)
        (or_else (web_id b_name) (or_else (web_id i_name) (web_id s_name))))))"

definition plain_permission_id :: "baseline_runtime \<Rightarrow> string \<Rightarrow> u32" where
  "plain_permission_id r permission_name =
     (case bt_get (rt_permission_catalog r) permission_name of
        Some entry \<Rightarrow> pce_id entry
      | None \<Rightarrow>
          (case bt_get (rt_web_permission_base_ids r) permission_name of
             Some i \<Rightarrow> i
           | None \<Rightarrow> synthetic_permission_id permission_name))"

definition permission_id_for_name :: "baseline_runtime \<Rightarrow> string \<Rightarrow> u32" where
  "permission_id_for_name r permission_name =
     (case Option.bind (strip_prefix ''i_needed_modify_power_'' permission_name)
             (needed_modify_base_id r) of
        Some base_id \<Rightarrow> base_id OR 0x8000
      | None \<Rightarrow> plain_permission_id r permission_name)"

definition all_known_permission_names :: "baseline_runtime \<Rightarrow> string list" where
  "all_known_permission_names r =
     (let s = rt_store r in
      bs_collect
        (bt_keys (rt_permission_catalog r)
         @ concat (map (bt_keys \<circ> sg_permissions) (bt_values (st_server_groups s)))
         @ concat (map (bt_keys \<circ> cg_permissions) (bt_values (st_channel_groups s)))
         @ concat (map (bt_keys \<circ> ch_permissions) (concat (bt_values (st_channels s))))
         @ concat (map (bt_keys \<circ> ccp_permissions) (st_channel_client_permissions s))
         @ concat (map (bt_keys \<circ> qa_permissions) (bt_values (st_query_accounts s)))
         @ concat (map (bt_keys \<circ> mb_permissions) (bt_values (st_music_bots s)))
         @ concat (map (bt_keys \<circ> pcp_permissions)
                     (concat (map mb_client_permissions (bt_values (st_music_bots s)))))))"

definition knows_permission_name :: "baseline_runtime \<Rightarrow> string \<Rightarrow> bool" where
  "knows_permission_name r permission_name =
     (let s = rt_store r; holds = (\<lambda>m. bt_contains_key m permission_name) in
      (case strip_prefix ''i_needed_modify_power_'' permission_name of
         None \<Rightarrow> False
       | Some rest \<Rightarrow>
           bt_contains_key (rt_permission_catalog r) (''b_'' @ rest)
           \<or> bt_contains_key (rt_permission_catalog r) (''i_'' @ rest)
           \<or> bt_contains_key (rt_web_permission_base_ids r) (''b_'' @ rest)
           \<or> bt_contains_key (rt_web_permission_base_ids r) (''i_'' @ rest))
      \<or> bt_contains_key (rt_permission_catalog r) permission_name
      \<or> bt_contains_key (rt_web_permission_base_ids r) permission_name
      \<or> list_ex (holds \<circ> sg_permissions) (bt_values (st_server_groups s))
      \<or> list_ex (holds \<circ> cg_permissions) (bt_values (st_channel_groups s))
      \<or> list_ex (list_ex (holds \<circ> ch_permissions)) (bt_values (st_channels s))
      \<or> list_ex (holds \<circ> ccp_permissions) (st_channel_client_permissions s)
      \<or> list_ex (holds \<circ> qa_permissions) (bt_values (st_query_accounts s))
      \<or> list_ex (holds \<circ> mb_permissions) (bt_values (st_music_bots s))
      \<or> list_ex (\<lambda>bot. list_ex (holds \<circ> pcp_permissions) (mb_client_permissions bot))
          (bt_values (st_music_bots s)))"

definition teaweb_permission_group_ends :: "u32 list" where
  "teaweb_permission_group_ends =
     [0, 7, 13, 18, 21, 21, 34, 48, 82, 82, 89, 113, 133, 140, 157, 157, 173, 175, 199, 201, 201,
      275, 303, 323, 342, 360]"

record web_permission_layout =
  wl_ids_by_name :: "(string, u32) btree"
  wl_group_markers :: "u32 list"

definition assign_fallback_ids ::
    "string list \<Rightarrow> (string, u32) btree \<times> u32 \<Rightarrow> (string, u32) btree \<times> u32" where
  "assign_fallback_ids names acc =
     fold (\<lambda>n (ids, next_id). (bt_insert n next_id ids, sat_add next_id 1)) names acc"

definition build_web_permission_layout :: "baseline_runtime \<Rightarrow> web_permission_layout" where
  "build_web_permission_layout r =
     (let known = all_known_permission_names r; web = rt_web_permission_base_ids r in
      if web = [] then
        let ids = bt_collect (map (\<lambda>n. (n, permission_id_for_name r n)) known) in
        \<lparr>wl_ids_by_name = ids,
         wl_group_markers = (case iter_max (bt_values ids) of None \<Rightarrow> [] | Some m \<Rightarrow> [m])\<rparr>
      else
        let ids = bt_collect
                    (List.map_filter (\<lambda>n. map_option (\<lambda>i. (n, i)) (bt_get web n)) known);
            next_id = sat_add (unwrap_or 0 (iter_max (bt_values web))) 1;
            fallback = sort_key (\<lambda>n. (permission_id_for_name r n, n))
                         (filter (\<lambda>n. \<not> bt_contains_key ids n) known);
            ids' = fst (assign_fallback_ids fallback (ids, next_id));
            max_id = unwrap_or 0 (iter_max (bt_values ids'));
            markers = filter (\<lambda>e. e \<le> max_id) teaweb_permission_group_ends in
        \<lparr>wl_ids_by_name = ids',
         wl_group_markers =
           (if 0 < max_id \<and> \<not> (markers \<noteq> [] \<and> last markers = max_id)
            then markers @ [max_id] else markers)\<rparr>)"

definition store_permission_names :: "in_memory_store \<Rightarrow> string list" where
  "store_permission_names s =
     concat (map (bt_keys \<circ> sg_permissions) (bt_values (st_server_groups s)))
     @ concat (map (bt_keys \<circ> ch_permissions) (concat (bt_values (st_channels s))))
     @ concat (map (bt_keys \<circ> cg_permissions) (bt_values (st_channel_groups s)))
     @ concat (map (bt_keys \<circ> ccp_permissions) (st_channel_client_permissions s))
     @ concat (map (bt_keys \<circ> qa_permissions) (bt_values (st_query_accounts s)))
     @ concat (map (bt_keys \<circ> mb_permissions) (bt_values (st_music_bots s)))
     @ concat (map (bt_keys \<circ> pcp_permissions)
                 (concat (map mb_client_permissions (bt_values (st_music_bots s)))))"

definition plain_permission_name :: "baseline_runtime \<Rightarrow> u32 \<Rightarrow> string option" where
  "plain_permission_name r permission_id =
     or_else (bt_find_key (\<lambda>e. pce_id e = permission_id) (rt_permission_catalog r))
     (or_else (bt_find_key (\<lambda>i. i = permission_id) (rt_web_permission_base_ids r))
     (or_else (bt_find_key (\<lambda>i. i = permission_id)
                 (wl_ids_by_name (build_web_permission_layout r)))
       (List.find (\<lambda>n. synthetic_permission_id n = permission_id)
          (store_permission_names (rt_store r)))))"

function permission_name_for_id :: "baseline_runtime \<Rightarrow> u32 \<Rightarrow> string option" where
  "permission_name_for_id r permission_id =
     or_else
       (if 0x8000 \<le> permission_id
        then Option.bind (permission_name_for_id r (permission_id AND 0x7FFF))
               (\<lambda>base_name. map_option (\<lambda>rest. ''i_needed_modify_power_'' @ rest)
                  (or_else (strip_prefix ''b_'' base_name) (strip_prefix ''i_'' base_name)))
        else None)
       (plain_permission_name r permission_id)"
  by pat_completeness auto

lemma and_7fff_less: "w AND 0x7FFF < 0x8000" for w :: u32
proof -
  have "w AND 0x7FFF \<le> 0x7FFF" by (rule word_and_le1)
  also have "(0x7FFF :: u32) < 0x8000" by simp
  finally show ?thesis .
qed

termination permission_name_for_id
proof (relation "measure (\<lambda>(r, i). unat i)")
  fix r :: baseline_runtime and i :: u32
  assume "0x8000 \<le> i"
  then have "i AND 0x7FFF < i" using and_7fff_less [of i] by (meson less_le_trans)
  then show "((r, i AND 0x7FFF), (r, i)) \<in> measure (\<lambda>(r, i). unat i)"
    by (simp add: word_less_nat_alt)
qed simp

declare permission_name_for_id.simps [simp del]

definition resolve_permission_name_from_args :: "baseline_runtime \<Rightarrow> row \<Rightarrow> string option" where
  "resolve_permission_name_from_args r args =
     (case bt_get args ''permsid'' of
        Some permission_name \<Rightarrow> Some permission_name
      | None \<Rightarrow> Option.bind (Option.bind (bt_get args ''permid'') parse_word) (permission_name_for_id r))"

definition insufficient_permission_response :: "baseline_runtime \<Rightarrow> string \<Rightarrow> query_response" where
  "insufficient_permission_response r permission_name =
     response_error_with_fields 0xA08 ''insufficient client permissions''
       [(''failed_permid'', word_to_string (permission_id_for_name r permission_name))]"

subsection \<open>Effective permissions\<close>

definition effective_permissions_for_account :: "baseline_runtime \<Rightarrow> query_account \<Rightarrow> perm_map" where
  "effective_permissions_for_account r account =
     (let from_groups =
        fold (\<lambda>group_id eff.
           case bt_get (st_server_groups (rt_store r)) group_id of
             None \<Rightarrow> eff
           | Some sgroup \<Rightarrow>
               fold (\<lambda>(n, a) eff.
                  if (case bt_get eff n of Some cur \<Rightarrow> pa_value cur \<le> pa_value a | None \<Rightarrow> True)
                  then bt_insert n a eff else eff)
                 (sg_permissions sgroup) eff)
          (qa_server_groups account) []
      in bt_extend from_groups (qa_permissions account))"

definition default_channel_group_id :: "baseline_runtime \<Rightarrow> u32 option" where
  "default_channel_group_id r =
     (let groups = st_channel_groups (rt_store r) in
      or_else
        (map_option fst
           (List.find (\<lambda>(_, t). t = 10)
              (List.map_filter
                 (\<lambda>g. map_option (\<lambda>a. (cg_id g, pa_value a))
                        (bt_get (cg_permissions g) ''i_group_auto_update_type''))
                 (bt_values groups))))
      (or_else
        (map_option cg_id (List.find (\<lambda>g. cg_name g = ''Guest'') (bt_values groups)))
        (case bt_keys groups of [] \<Rightarrow> None | k # _ \<Rightarrow> Some k)))"

definition effective_channel_group :: "baseline_runtime \<Rightarrow> u32 \<Rightarrow> u64 \<Rightarrow> channel_group option" where
  "effective_channel_group r channel_id client_database_id =
     (case List.find (\<lambda>a. cga_channel_id a = channel_id \<and> cga_client_database_id a = client_database_id)
             (st_channel_group_assignments (rt_store r)) of
        Some assignment \<Rightarrow>
          bt_get (st_channel_groups (rt_store r)) (cga_channel_group_id assignment)
      | None \<Rightarrow>
          Option.bind (default_channel_group_id r) (bt_get (st_channel_groups (rt_store r))))"

definition effective_channel_group_id_for_client ::
    "baseline_runtime \<Rightarrow> u32 \<Rightarrow> u32 \<Rightarrow> u64 \<Rightarrow> u32" where
  "effective_channel_group_id_for_client r server_id channel_id client_database_id =
     unwrap_or 8
       (or_else (map_option cg_id (effective_channel_group r channel_id client_database_id))
          (default_channel_group_id r))"

definition client_permission_target ::
    "baseline_runtime \<Rightarrow> u32 \<Rightarrow> u64 \<Rightarrow> client_permission_target option" where
  "client_permission_target r server_id client_database_id =
     List.find (\<lambda>t. cpt_server_id t = server_id \<and> cpt_client_database_id t = client_database_id)
       (st_client_permissions (rt_store r))"

text \<open>Tier 1: the permission maps of the server groups of an account, an online client or a stored client.\<close>

definition groups_of_ids :: "baseline_runtime \<Rightarrow> u32 list \<Rightarrow> perm_map list" where
  "groups_of_ids r ids =
     List.map_filter (\<lambda>g. map_option sg_permissions (bt_get (st_server_groups (rt_store r)) g)) ids"

definition server_group_perms :: "baseline_runtime \<Rightarrow> u32 \<Rightarrow> u64 \<Rightarrow> perm_map list" where
  "server_group_perms r server_id client_database_id =
     (case query_account_by_cldbid r client_database_id of
        Some account \<Rightarrow> groups_of_ids r (qa_server_groups account)
      | None \<Rightarrow>
        (case online_client_by_cldbid r server_id client_database_id of
           Some c \<Rightarrow> groups_of_ids r (oc_server_groups c)
         | None \<Rightarrow>
           (case Option.bind
                   (bt_get (st_custom_client_properties (rt_store r)) (0, client_database_id))
                   (\<lambda>props. bt_get props ''server_groups'') of
              Some raw_groups \<Rightarrow>
                groups_of_ids r
                  (List.map_filter (\<lambda>part. parse_word (trim part)) (split_char (CHR '','') raw_groups))
            | None \<Rightarrow> [])))"

definition push_assignment ::
    "string \<times> perm_assignment \<Rightarrow> (string, perm_assignment list) btree \<Rightarrow>
     (string, perm_assignment list) btree" where
  "push_assignment na combined =
     (case na of (n, a) \<Rightarrow>
        bt_insert n (unwrap_or [] (bt_get combined n) @ [a]) combined)"

definition combine_groups :: "perm_map list \<Rightarrow> (string, perm_assignment list) btree" where
  "combine_groups groups = fold (\<lambda>g combined. fold push_assignment g combined) groups []"

definition merge_assignments :: "perm_assignment list \<Rightarrow> perm_assignment" where
  "merge_assignments assignments =
     (let is_negated = list_ex pa_negated assignments in
      \<lparr>pa_value =
         (if is_negated then unwrap_or 0 (iter_min (map pa_value assignments))
          else unwrap_or 0 (iter_max (map pa_value assignments))),
       pa_negated = is_negated,
       pa_skipped = list_ex pa_skipped assignments\<rparr>)"

definition merge_server_groups :: "perm_map list \<Rightarrow> perm_map" where
  "merge_server_groups groups =
     fold (\<lambda>(n, assignments) eff. bt_insert n (merge_assignments assignments) eff)
       (combine_groups groups) []"

text \<open>Tier 2 replaces; tiers 3 to 5 replace unless the entry already there is marked skipped.\<close>

definition client_tier :: "baseline_runtime \<Rightarrow> u32 \<Rightarrow> u64 \<Rightarrow> perm_map" where
  "client_tier r server_id client_database_id =
     (case query_account_by_cldbid r client_database_id of
        Some account \<Rightarrow> qa_permissions account
      | None \<Rightarrow>
        (case client_permission_target r server_id client_database_id of
           Some target \<Rightarrow> cpt_permissions target
         | None \<Rightarrow> []))"

definition overlay_entry :: "string \<times> perm_assignment \<Rightarrow> perm_map \<Rightarrow> perm_map" where
  "overlay_entry na eff =
     (case na of (n, a) \<Rightarrow>
        (case bt_get eff n of
           Some existing \<Rightarrow> if pa_skipped existing then eff else bt_insert n a eff
         | None \<Rightarrow> bt_insert n a eff))"

definition overlay :: "perm_map \<Rightarrow> perm_map \<Rightarrow> perm_map" where
  "overlay layer eff = fold overlay_entry layer eff"

definition channel_tier :: "baseline_runtime \<Rightarrow> u32 \<Rightarrow> u32 \<Rightarrow> perm_map" where
  "channel_tier r server_id channel_id =
     (case channel_by_id r server_id channel_id of Some c \<Rightarrow> ch_permissions c | None \<Rightarrow> [])"

definition channel_group_tier :: "baseline_runtime \<Rightarrow> u32 \<Rightarrow> u64 \<Rightarrow> perm_map" where
  "channel_group_tier r channel_id client_database_id =
     (case effective_channel_group r channel_id client_database_id of
        Some g \<Rightarrow> cg_permissions g | None \<Rightarrow> [])"

definition channel_client_tier :: "baseline_runtime \<Rightarrow> u32 \<Rightarrow> u64 \<Rightarrow> perm_map" where
  "channel_client_tier r channel_id client_database_id =
     (case List.find (\<lambda>t. ccp_channel_id t = channel_id \<and> ccp_client_database_id t = client_database_id)
             (st_channel_client_permissions (rt_store r)) of
        Some t \<Rightarrow> ccp_permissions t | None \<Rightarrow> [])"

definition effective_permissions_for_client_in_channel_context ::
    "baseline_runtime \<Rightarrow> u32 \<Rightarrow> u32 \<Rightarrow> u64 \<Rightarrow> perm_map option" where
  "effective_permissions_for_client_in_channel_context r server_id channel_id client_database_id =
     (let eff1 = merge_server_groups (server_group_perms r server_id client_database_id);
          eff2 = bt_extend eff1 (client_tier r server_id client_database_id);
          global_skip =
            (case bt_get eff2 ''b_client_skip_channelgroup_permissions'' of
               Some a \<Rightarrow> pa_value a \<noteq> 0 | None \<Rightarrow> False)
      in if global_skip then Some eff2
         else Some (overlay (channel_client_tier r channel_id client_database_id)
                     (overlay (channel_group_tier r channel_id client_database_id)
                       (overlay (channel_tier r server_id channel_id) eff2))))"

definition effective_permissions_for_client ::
    "baseline_runtime \<Rightarrow> u32 \<Rightarrow> u32 \<Rightarrow> u64 \<Rightarrow> perm_map option" where
  "effective_permissions_for_client r server_id channel_id client_database_id =
     (let online = online_client_by_cldbid r server_id client_database_id;
          resolved_channel_id =
            (if query_account_by_cldbid r client_database_id \<noteq> None
             then Some (unwrap_or channel_id (map_option oc_channel_id online))
             else case online of
                    Some c \<Rightarrow> Some (oc_channel_id c)
                  | None \<Rightarrow>
                      if client_permission_target r server_id client_database_id \<noteq> None
                         \<or> bt_contains_key (st_clients (rt_store r)) client_database_id
                      then Some channel_id else None)
      in Option.bind resolved_channel_id
           (\<lambda>cid. effective_permissions_for_client_in_channel_context r server_id cid
                    client_database_id))"

definition query_permission_actor_context ::
    "baseline_runtime \<Rightarrow> query_session \<Rightarrow> query_response + permission_actor_context" where
  "query_permission_actor_context r session =
     (let s = rt_store r;
          first_server = (case bt_keys (st_virtual_servers s) of [] \<Rightarrow> None | k # _ \<Rightarrow> Some k) in
      case qs_actor_client_database_id_override session of
        Some client_database_id \<Rightarrow>
          let server_id =
                unwrap_or 1
                  (or_else (qs_selected_virtual_server_id session)
                    (or_else
                      (map_option oc_server_id
                         (List.find (\<lambda>c. oc_database_id c = client_database_id)
                            (bt_values (st_online_clients s))))
                      first_server));
              channel_id =
                unwrap_or 1
                  (or_else (opt_filter (channel_exists r server_id) (qs_current_channel_id session))
                    (or_else
                      (map_option oc_channel_id
                         (online_client_by_cldbid r server_id client_database_id))
                      (default_channel_id_for_server r server_id)))
          in Inr \<lparr>ac_server_id = server_id, ac_channel_id = channel_id,
                  ac_client_database_id = client_database_id\<rparr>
      | None \<Rightarrow>
        (case qs_authenticated_login session of
           None \<Rightarrow> Inl (response_error 521 ''login required'')
         | Some login_name \<Rightarrow>
           (case bt_get (st_query_accounts s) login_name of
              None \<Rightarrow> Inl (response_error 768 ''query account not found'')
            | Some account \<Rightarrow>
              (case qa_client_database_id account of
                 None \<Rightarrow> Inl (response_error 768 ''query account not found'')
               | Some client_database_id \<Rightarrow>
                   let server_id =
                         unwrap_or 1
                           (or_else (qs_selected_virtual_server_id session)
                             (or_else (qa_server_id account) first_server));
                       channel_id =
                         unwrap_or 1
                           (or_else (opt_filter (channel_exists r server_id)
                                       (qs_current_channel_id session))
                              (default_channel_id_for_server r server_id))
                   in Inr \<lparr>ac_server_id = server_id, ac_channel_id = channel_id,
                           ac_client_database_id = client_database_id\<rparr>))))"

definition query_actor_effective_permissions ::
    "baseline_runtime \<Rightarrow> query_session \<Rightarrow> query_response + permission_actor_context \<times> perm_map" where
  "query_actor_effective_permissions r session =
     (case query_permission_actor_context r session of
        Inl e \<Rightarrow> Inl e
      | Inr actor \<Rightarrow>
        (case effective_permissions_for_client r (ac_server_id actor) (ac_channel_id actor)
                (ac_client_database_id actor) of
           None \<Rightarrow> Inl (response_error 768 ''query account not found'')
         | Some perms \<Rightarrow> Inr (actor, perms)))"

definition web_client_can_view_channel :: "baseline_runtime \<Rightarrow> u32 \<Rightarrow> u32 \<Rightarrow> u64 \<Rightarrow> bool" where
  "web_client_can_view_channel r server_id channel_id client_database_id =
     (case effective_permissions_for_client_in_channel_context r server_id channel_id
             client_database_id of
        None \<Rightarrow> False
      | Some eff \<Rightarrow>
        (let has_explicit_info_view = bt_contains_key eff ''b_channel_info_view'';
             has_explicit_view_power =
               bt_contains_key eff ''b_channel_ignore_view_power''
               \<or> bt_contains_key eff ''i_channel_view_power''
               \<or> bt_contains_key eff ''i_channel_needed_view_power'' in
         if \<not> has_explicit_info_view \<and> \<not> has_explicit_view_power then True
         else if has_explicit_info_view
                 \<and> permission_value_or_default eff [''b_channel_info_view''] < 1 then False
         else if 0 < permission_value_or_default eff [''b_channel_ignore_view_power''] then True
         else permission_value_or_default eff [''i_channel_needed_view_power'']
              \<le> permission_power_max_or_default eff [''i_channel_view_power'']))"

definition client_talk_power :: "baseline_runtime \<Rightarrow> u32 \<Rightarrow> u32 \<Rightarrow> u64 \<Rightarrow> int" where
  "client_talk_power r server_id channel_id client_database_id =
     unwrap_or 0
       (map_option (\<lambda>perms. permission_value_or_default perms [''i_client_talk_power''])
          (effective_permissions_for_client_in_channel_context r server_id channel_id
             client_database_id))"

definition client_can_speak_in_channel :: "baseline_runtime \<Rightarrow> u32 \<Rightarrow> u64 \<Rightarrow> bool" where
  "client_can_speak_in_channel r server_id client_id =
     (case online_client_by_id_in_server r server_id client_id of
        None \<Rightarrow> True
      | Some c \<Rightarrow>
          if bt_get (oc_extra_properties c) ''client_type_exact'' = Some ''4''
             \<or> starts_with ''compat-musicbot-'' (oc_unique_identifier c) then True
          else if (case bt_get (oc_extra_properties c) ''client_is_talker'' of
                     None \<Rightarrow> False | Some v \<Rightarrow> runtime_bool_flag v) then True
          else
            let needed = unwrap_or 0
                  (map_option needed_talk_power (channel_by_id r server_id (oc_channel_id c))) in
            if needed \<le> 0 then True
            else needed \<le> client_talk_power r server_id (oc_channel_id c) (oc_database_id c))"

subsection \<open>Requests and rows\<close>

definition permission_option_groups :: "command_request \<Rightarrow> string list \<Rightarrow> row list" where
  "permission_option_groups request global_keys =
     (if option_groups request = [] then [named_args request]
      else map (\<lambda>grp.
             bt_extend
               (fold (\<lambda>k merged. case bt_get (named_args request) k of
                          None \<Rightarrow> merged | Some v \<Rightarrow> bt_insert k v merged) global_keys [])
               grp)
           (option_groups request))"

definition parse_one_assignment ::
    "baseline_runtime \<Rightarrow> row \<Rightarrow> query_response + string \<times> perm_assignment" where
  "parse_one_assignment r grp =
     (case resolve_permission_name_from_args r grp of
        None \<Rightarrow> Inl (response_error 512 ''permid or permsid is required'')
      | Some permission_name \<Rightarrow>
        (case Option.bind (bt_get grp ''permvalue'') (parse_int 64) of
           None \<Rightarrow> Inl (response_error 512 ''permvalue is required'')
         | Some value \<Rightarrow>
             Inr (permission_name,
                  \<lparr>pa_value = value,
                   pa_negated = unwrap_or False
                     (Option.bind (bt_get grp ''permnegated'') parse_query_bool),
                   pa_skipped = unwrap_or False
                     (Option.bind (bt_get grp ''permskip'') parse_query_bool)\<rparr>)))"

text \<open>A \<open>for\<close> loop that pushes each parsed element and returns the first error.\<close>

fun map_result :: "('a \<Rightarrow> 'e + 'b) \<Rightarrow> 'a list \<Rightarrow> 'e + 'b list" where
  "map_result f [] = Inr []"
| "map_result f (x # xs) =
     (case f x of Inl e \<Rightarrow> Inl e
      | Inr y \<Rightarrow> (case map_result f xs of Inl e \<Rightarrow> Inl e | Inr ys \<Rightarrow> Inr (y # ys)))"

definition parse_permission_assignments ::
    "baseline_runtime \<Rightarrow> command_request \<Rightarrow> string list \<Rightarrow>
     query_response + (string \<times> perm_assignment) list" where
  "parse_permission_assignments r request global_keys =
     (case map_result (parse_one_assignment r) (permission_option_groups request global_keys) of
        Inl e \<Rightarrow> Inl e
      | Inr parsed \<Rightarrow>
          if parsed = [] then Inl (response_error 512 ''no permission assignments provided'')
          else Inr parsed)"

definition parse_requested_permission_names ::
    "baseline_runtime \<Rightarrow> command_request \<Rightarrow> string list \<Rightarrow> query_response + string list" where
  "parse_requested_permission_names r request global_keys =
     (case map_result
             (\<lambda>grp. case resolve_permission_name_from_args r grp of
                      None \<Rightarrow> Inl (response_error 512 ''permid or permsid is required'')
                    | Some n \<Rightarrow> Inr n)
             (permission_option_groups request global_keys) of
        Inl e \<Rightarrow> Inl e
      | Inr names \<Rightarrow>
          if names = [] then Inl (response_error 512 ''no permissions requested'') else Inr names)"

definition flag_string :: "bool \<Rightarrow> string" where
  "flag_string b = (if b then ''1'' else ''0'')"

definition render_permission_row_with_id ::
    "u32 \<Rightarrow> string \<Rightarrow> perm_assignment \<Rightarrow> bool \<Rightarrow> row" where
  "render_permission_row_with_id permission_id permission_name assignment include_permission_name =
     (let row = bt_insert ''permskip'' (flag_string (pa_skipped assignment))
                 (bt_insert ''permnegated'' (flag_string (pa_negated assignment))
                 (bt_insert ''permvalue'' (int_to_string (pa_value assignment))
                 (bt_insert ''permid'' (word_to_string permission_id) [])))
      in if include_permission_name then bt_insert ''permsid'' permission_name row else row)"

definition render_permission_row :: "baseline_runtime \<Rightarrow> string \<Rightarrow> perm_assignment \<Rightarrow> bool \<Rightarrow> row" where
  "render_permission_row r permission_name assignment include_permission_name =
     render_permission_row_with_id (permission_id_for_name r permission_name) permission_name
       assignment include_permission_name"

definition render_permoverview_row ::
    "baseline_runtime \<Rightarrow> u32 \<Rightarrow> u64 \<Rightarrow> u64 \<Rightarrow> string \<Rightarrow> perm_assignment \<Rightarrow>
     u32 \<times> u64 \<times> u64 \<times> u32 \<times> row" where
  "render_permoverview_row r target_type id1 id2 permission_name assignment =
     (let permission_id = permission_id_for_name r permission_name;
          row = bt_insert ''s'' (flag_string (pa_skipped assignment))
               (bt_insert ''n'' (flag_string (pa_negated assignment))
               (bt_insert ''v'' (int_to_string (pa_value assignment))
               (bt_insert ''p'' (word_to_string permission_id)
               (bt_insert ''id2'' (word_to_string id2)
               (bt_insert ''id1'' (word_to_string id1)
               (bt_insert ''t'' (word_to_string target_type) []))))))
      in (target_type, id1, id2, permission_id, row))"

definition layout_permission_id :: "baseline_runtime \<Rightarrow> web_permission_layout \<Rightarrow> string \<Rightarrow> u32" where
  "layout_permission_id r layout n =
     unwrap_or (permission_id_for_name r n) (bt_get (wl_ids_by_name layout) n)"

definition grant_row ::
    "baseline_runtime \<Rightarrow> web_permission_layout \<Rightarrow> perm_map \<Rightarrow> int \<Rightarrow> string \<Rightarrow> row option" where
  "grant_row r layout permissions grant_fallback n =
     (if starts_with ''i_needed_modify_power_'' n then None
      else
        let base_id = layout_permission_id r layout n in
        if 0x8000 \<le> base_id then None
        else
          let grant_val = unwrap_or grant_fallback
                (Option.bind (or_else (strip_prefix ''b_'' n) (strip_prefix ''i_'' n))
                   (\<lambda>rest. map_option pa_value
                      (bt_get permissions (''i_needed_modify_power_'' @ rest))))
          in if 0 < grant_val
             then Some (render_permission_row_with_id (base_id OR 0x8000) n
                          \<lparr>pa_value = grant_val, pa_negated = False, pa_skipped = False\<rparr> False)
             else None)"

definition build_web_needed_permission_rows :: "baseline_runtime \<Rightarrow> perm_map \<Rightarrow> row list" where
  "build_web_needed_permission_rows r permissions =
     (let layout = build_web_permission_layout r;
          sorted_permissions =
            sort_key (\<lambda>na. (layout_permission_id r layout (fst na), fst na)) permissions;
          rows = map (\<lambda>(n, a).
                   render_permission_row_with_id (layout_permission_id r layout n) n a False)
                 sorted_permissions;
          ignore_modify =
            0 < permission_value_or_default permissions [''b_permission_modify_power_ignore''];
          default_grant_power =
            permission_value_or_default permissions [''i_permission_modify_power''];
          grant_fallback =
            (if 0 < default_grant_power then default_grant_power
             else if ignore_modify then 75 else 0);
          rows' = rows @
            (if 0 < grant_fallback
             then List.map_filter (\<lambda>na. grant_row r layout permissions grant_fallback (fst na))
                    sorted_permissions
             else [])
      in case rows' of
           [] \<Rightarrow> [bt_insert ''relative'' ''0'' []]
         | first # rest \<Rightarrow> bt_insert ''relative'' ''0'' first # rest)"

definition insert_fields :: "(string \<times> string) list \<Rightarrow> row \<Rightarrow> row" where
  "insert_fields kvs row = fold (\<lambda>(k, v) row. bt_insert k v row) kvs row"

definition build_web_permission_assignment_rows ::
    "baseline_runtime \<Rightarrow> perm_map \<Rightarrow> (string \<times> string) list \<Rightarrow> row list" where
  "build_web_permission_assignment_rows r permissions subject_fields =
     (let layout = build_web_permission_layout r;
          resolve_id = (\<lambda>n. if starts_with ''i_needed_modify_power_'' n
                            then permission_id_for_name r n else layout_permission_id r layout n);
          rows = map (\<lambda>(n, a). insert_fields subject_fields
                        (render_permission_row_with_id (resolve_id n) n a False))
                   (sort_key (\<lambda>na. (resolve_id (fst na), fst na)) permissions)
      in if rows = [] then [insert_fields subject_fields []] else rows)"

definition ensure_playlist_power ::
    "baseline_runtime \<Rightarrow> perm_check \<Rightarrow> query_response + unit" where
  "ensure_playlist_power r c =
     (case c of Inl p \<Rightarrow> Inl (insufficient_permission_response r p) | Inr u \<Rightarrow> Inr u)"

definition ensure_playlist_view_allowed ::
    "baseline_runtime \<Rightarrow> perm_map \<Rightarrow> perm_map \<Rightarrow> query_response + unit" where
  "ensure_playlist_view_allowed r actor_permissions target_permissions =
     ensure_playlist_power r
       (check_playlist_power_allowed actor_permissions target_permissions
          [''i_playlist_view_power'', ''i_client_music_play_power'']
          [''i_playlist_needed_view_power''] ''i_playlist_view_power'')"

definition ensure_playlist_modify_allowed ::
    "baseline_runtime \<Rightarrow> perm_map \<Rightarrow> perm_map \<Rightarrow> query_response + unit" where
  "ensure_playlist_modify_allowed r actor_permissions target_permissions =
     ensure_playlist_power r
       (check_playlist_power_allowed actor_permissions target_permissions
          [''i_playlist_modify_power'', ''i_client_music_play_power'']
          [''i_playlist_needed_modify_power''] ''i_playlist_modify_power'')"

definition ensure_playlist_permission_modify_allowed ::
    "baseline_runtime \<Rightarrow> perm_map \<Rightarrow> perm_map \<Rightarrow> query_response + unit" where
  "ensure_playlist_permission_modify_allowed r actor_permissions target_permissions =
     (if 0 < permission_power_max_or_default actor_permissions [''b_permission_modify_power_ignore'']
      then Inr ()
      else ensure_playlist_power r
        (check_playlist_power_allowed actor_permissions target_permissions
           [''i_playlist_permission_modify_power'', ''i_permission_modify_power'',
            ''i_client_music_play_power'']
           [''i_playlist_needed_permission_modify_power''] ''i_playlist_permission_modify_power''))"

definition ensure_playlist_song_add_allowed ::
    "baseline_runtime \<Rightarrow> perm_map \<Rightarrow> perm_map \<Rightarrow> query_response + unit" where
  "ensure_playlist_song_add_allowed r actor_permissions target_permissions =
     ensure_playlist_power r
       (check_playlist_power_allowed actor_permissions target_permissions
          [''i_playlist_song_add_power'', ''i_client_music_play_power'']
          [''i_playlist_song_needed_add_power''] ''i_playlist_song_add_power'')"

definition ensure_playlist_song_move_allowed ::
    "baseline_runtime \<Rightarrow> perm_map \<Rightarrow> perm_map \<Rightarrow> query_response + unit" where
  "ensure_playlist_song_move_allowed r actor_permissions target_permissions =
     ensure_playlist_power r
       (check_playlist_power_allowed actor_permissions target_permissions
          [''i_playlist_song_move_power'', ''i_client_music_play_power'']
          [''i_playlist_song_needed_move_power''] ''i_playlist_song_move_power'')"

definition ensure_playlist_song_remove_allowed ::
    "baseline_runtime \<Rightarrow> perm_map \<Rightarrow> perm_map \<Rightarrow> query_response + unit" where
  "ensure_playlist_song_remove_allowed r actor_permissions target_permissions =
     ensure_playlist_power r
       (check_playlist_power_allowed actor_permissions target_permissions
          [''i_playlist_song_remove_power'', ''i_client_music_play_power'']
          [''i_playlist_song_needed_remove_power''] ''i_playlist_song_remove_power'')"

definition ensure_playlist_permission_list_allowed ::
    "baseline_runtime \<Rightarrow> perm_map \<Rightarrow> perm_map \<Rightarrow> query_response + unit" where
  "ensure_playlist_permission_list_allowed r actor_permissions target_permissions =
     (if 0 < permission_power_max_or_default actor_permissions
               [''b_virtualserver_playlist_permission_list'']
      then Inr ()
      else ensure_playlist_view_allowed r actor_permissions target_permissions)"

subsection \<open>What the tiers compute\<close>

text \<open>
  The contract of the evaluation, name by name: the server groups are merged, the client's own
  entry replaces the merge, and each channel tier replaces what is there unless it is marked
  skipped.
\<close>

definition resolve_tier ::
    "perm_assignment option \<Rightarrow> perm_assignment option \<Rightarrow> perm_assignment option" where
  "resolve_tier layer cur =
     (case cur of
        Some a \<Rightarrow> if pa_skipped a then cur else or_else layer cur
      | None \<Rightarrow> layer)"

definition merged_group_entry :: "perm_map list \<Rightarrow> string \<Rightarrow> perm_assignment option" where
  "merged_group_entry groups n =
     (case List.map_filter (\<lambda>g. bt_get g n) groups of
        [] \<Rightarrow> None
      | a # as \<Rightarrow> Some (merge_assignments (a # as)))"

definition base_entry :: "baseline_runtime \<Rightarrow> u32 \<Rightarrow> u64 \<Rightarrow> string \<Rightarrow> perm_assignment option" where
  "base_entry r sid dbid n =
     or_else (bt_get (client_tier r sid dbid) n)
       (merged_group_entry (server_group_perms r sid dbid) n)"

definition permission_spec ::
    "baseline_runtime \<Rightarrow> u32 \<Rightarrow> u32 \<Rightarrow> u64 \<Rightarrow> string \<Rightarrow> perm_assignment option" where
  "permission_spec r sid cid dbid n =
     (if (case base_entry r sid dbid ''b_client_skip_channelgroup_permissions'' of
            Some a \<Rightarrow> pa_value a \<noteq> 0 | None \<Rightarrow> False)
      then base_entry r sid dbid n
      else resolve_tier (bt_get (channel_client_tier r cid dbid) n)
             (resolve_tier (bt_get (channel_group_tier r cid dbid) n)
               (resolve_tier (bt_get (channel_tier r sid cid) n) (base_entry r sid dbid n))))"

text \<open>Every permission map of the store is a \<open>BTreeMap\<close>.\<close>

definition perm_maps_inv :: "in_memory_store \<Rightarrow> bool" where
  "perm_maps_inv s =
     (list_all (bt_inv \<circ> sg_permissions) (bt_values (st_server_groups s))
      \<and> list_all (bt_inv \<circ> cg_permissions) (bt_values (st_channel_groups s))
      \<and> list_all (bt_inv \<circ> ch_permissions) (concat (bt_values (st_channels s)))
      \<and> list_all (bt_inv \<circ> ccp_permissions) (st_channel_client_permissions s)
      \<and> list_all (bt_inv \<circ> cpt_permissions) (st_client_permissions s)
      \<and> list_all (bt_inv \<circ> qa_permissions) (bt_values (st_query_accounts s)))"

lemma map_filter_append_snoc:
  "List.map_filter f (xs @ [x]) =
     List.map_filter f xs @ (case f x of None \<Rightarrow> [] | Some y \<Rightarrow> [y])"
  by (simp add: List.map_filter_def split: option.splits)

lemma bt_get_Cons: "bt_get ((k, v) # m) n = (if n = k then Some v else bt_get m n)"
  by (simp add: bt_get_def)

lemma bt_inv_ConsD: "bt_inv ((k, v) # m) \<Longrightarrow> bt_inv m \<and> bt_get m k = None"
  by (fastforce simp: bt_inv_def bt_get_def map_of_eq_None_iff)

lemma push_assignment_pair:
  "push_assignment (k, a) m = bt_insert k (unwrap_or [] (bt_get m k) @ [a]) m"
  by (simp add: push_assignment_def)

lemma overlay_entry_get:
  "bt_get (overlay_entry (k, a) eff) n =
     (if n = k then resolve_tier (Some a) (bt_get eff k) else bt_get eff n)"
  by (simp add: overlay_entry_def resolve_tier_def bt_get_insert split: option.splits)

lemma bt_get_fold_push:
  "bt_inv g \<Longrightarrow>
   bt_get (fold push_assignment g m) n =
     (case bt_get g n of None \<Rightarrow> bt_get m n
      | Some a \<Rightarrow> Some (unwrap_or [] (bt_get m n) @ [a]))"
proof (induction g arbitrary: m)
  case (Cons na g)
  obtain k a where na: "na = (k, a)" by (cases na)
  with Cons.prems have g: "bt_inv g" "bt_get g k = None" using bt_inv_ConsD by fastforce+
  show ?case
    using g by (auto simp: na Cons.IH push_assignment_pair bt_get_insert bt_get_Cons split: option.splits)
qed simp

lemma bt_get_combine_from:
  "list_all bt_inv groups \<Longrightarrow>
   bt_get (fold (\<lambda>g combined. fold push_assignment g combined) groups m) n =
     (case List.map_filter (\<lambda>g. bt_get g n) groups of
        [] \<Rightarrow> bt_get m n
      | as \<Rightarrow> Some (unwrap_or [] (bt_get m n) @ as))"
proof (induction groups arbitrary: m)
  case Nil
  show ?case by (simp add: List.map_filter_def)
next
  case (Cons g groups)
  then show ?case
    by (auto simp: bt_get_fold_push List.map_filter_def split: option.splits list.splits)
qed

lemma bt_get_combine_groups:
  "list_all bt_inv groups \<Longrightarrow>
   bt_get (combine_groups groups) n =
     (case List.map_filter (\<lambda>g. bt_get g n) groups of [] \<Rightarrow> None | a # as \<Rightarrow> Some (a # as))"
  by (simp add: combine_groups_def bt_get_combine_from split: list.splits)

lemma bt_inv_push: "bt_inv m \<Longrightarrow> bt_inv (fold push_assignment g m)"
  by (induction g arbitrary: m) (auto simp: push_assignment_def)

lemma bt_inv_combine_groups: "bt_inv (combine_groups groups)"
proof -
  have "bt_inv m \<Longrightarrow> bt_inv (fold (\<lambda>g combined. fold push_assignment g combined) groups m)" for m
    by (induction groups arbitrary: m) (auto simp: bt_inv_push)
  then show ?thesis by (simp add: combine_groups_def)
qed

lemma bt_get_fold_insert:
  "bt_inv xs \<Longrightarrow>
   bt_get (fold (\<lambda>(n, v) eff. bt_insert n (f v) eff) xs m) n =
     or_else (map_option f (bt_get xs n)) (bt_get m n)"
proof (induction xs arbitrary: m)
  case (Cons kv xs)
  obtain k v where kv: "kv = (k, v)" by (cases kv)
  with Cons.prems have xs: "bt_inv xs" "bt_get xs k = None" using bt_inv_ConsD by fastforce+
  show ?case
    using xs by (auto simp: kv Cons.IH bt_get_insert bt_get_Cons or_else_def split: option.splits)
qed simp

lemma bt_get_merge_server_groups:
  "list_all bt_inv groups \<Longrightarrow> bt_get (merge_server_groups groups) n = merged_group_entry groups n"
  by (simp add: merge_server_groups_def bt_get_fold_insert bt_inv_combine_groups
      bt_get_combine_groups merged_group_entry_def or_else_def split: list.splits)

lemma bt_get_overlay:
  "bt_inv layer \<Longrightarrow> bt_get (overlay layer eff) n = resolve_tier (bt_get layer n) (bt_get eff n)"
  unfolding overlay_def
proof (induction layer arbitrary: eff)
  case Nil
  show ?case by (simp add: resolve_tier_def split: option.splits)
next
  case (Cons na layer)
  obtain k a where na: "na = (k, a)" by (cases na)
  with Cons.prems have l: "bt_inv layer" "bt_get layer k = None" using bt_inv_ConsD by fastforce+
  show ?case
    using l by (simp add: na Cons.IH overlay_entry_get bt_get_Cons)
      (simp add: resolve_tier_def split: option.splits)
qed

lemma map_of_rev_distinct: "distinct (map fst ps) \<Longrightarrow> map_of (rev ps) = map_of ps"
  by (rule map_of_inject_set [THEN iffD2]) (simp_all add: rev_map [symmetric])

lemma bt_get_extend_inv:
  "bt_inv ps \<Longrightarrow> bt_get (bt_extend m ps) n = or_else (bt_get ps n) (bt_get m n)"
  using map_of_rev_distinct [of ps] bt_inv_distinct [of ps]
  by (simp add: bt_get_extend map_add_def or_else_def bt_get_def split: option.splits)

lemma list_all_values_get:
  "list_all P (bt_values m) \<Longrightarrow> bt_get m k = Some v \<Longrightarrow> P v"
  using bt_get_in_values by (fastforce simp: list_all_iff)

lemma set_map_filter_iff: "x \<in> set (List.map_filter f xs) \<longleftrightarrow> (\<exists>y \<in> set xs. f y = Some x)"
  by (induction xs) (auto simp: List.map_filter_def split: option.splits)

lemma groups_of_ids_inv: "perm_maps_inv (rt_store r) \<Longrightarrow> list_all bt_inv (groups_of_ids r ids)"
  by (auto simp: groups_of_ids_def perm_maps_inv_def list_all_iff set_map_filter_iff
      dest!: bt_get_in_values)

lemma server_group_perms_inv:
  "perm_maps_inv (rt_store r) \<Longrightarrow> list_all bt_inv (server_group_perms r sid dbid)"
  by (simp add: server_group_perms_def groups_of_ids_inv split: option.splits)

lemma client_tier_inv: "perm_maps_inv (rt_store r) \<Longrightarrow> bt_inv (client_tier r sid dbid)"
  by (auto simp: client_tier_def perm_maps_inv_def query_account_by_cldbid_def list_all_iff
      client_permission_target_def dest!: find_SomeD split: option.splits)

lemma channel_tier_inv: "perm_maps_inv (rt_store r) \<Longrightarrow> bt_inv (channel_tier r sid cid)"
  by (auto simp: channel_tier_def perm_maps_inv_def server_channels_def list_all_iff
      dest!: channel_by_id_in bt_get_in_values split: option.splits)

lemma channel_group_tier_inv: "perm_maps_inv (rt_store r) \<Longrightarrow> bt_inv (channel_group_tier r cid dbid)"
  by (auto simp: channel_group_tier_def effective_channel_group_def perm_maps_inv_def list_all_iff
      bind_eq_Some_conv dest!: bt_get_in_values split: option.splits)

lemma channel_client_tier_inv:
  "perm_maps_inv (rt_store r) \<Longrightarrow> bt_inv (channel_client_tier r cid dbid)"
  by (auto simp: channel_client_tier_def perm_maps_inv_def list_all_iff
      dest!: find_SomeD split: option.splits)

lemma overlay_inv: "bt_inv eff \<Longrightarrow> bt_inv (overlay layer eff)"
  unfolding overlay_def
  by (induction layer arbitrary: eff) (auto simp: overlay_entry_def bt_inv_insert split: option.splits)

lemma merge_server_groups_inv: "bt_inv (merge_server_groups groups)"
proof -
  have "bt_inv m \<Longrightarrow> bt_inv (fold (\<lambda>(n, as) eff. bt_insert n (merge_assignments as) eff) xs m)"
    for xs and m :: perm_map
    by (induction xs arbitrary: m) (auto simp: bt_inv_insert)
  then show ?thesis by (simp add: merge_server_groups_def)
qed

lemmas tier_invs =
  server_group_perms_inv client_tier_inv channel_tier_inv channel_group_tier_inv
  channel_client_tier_inv

lemma base_entry_get:
  "perm_maps_inv (rt_store r) \<Longrightarrow>
   bt_get (bt_extend (merge_server_groups (server_group_perms r sid dbid)) (client_tier r sid dbid)) n
     = base_entry r sid dbid n"
  by (simp add: bt_get_extend_inv bt_get_merge_server_groups tier_invs base_entry_def)

lemma effective_permissions_by_name:
  assumes "perm_maps_inv (rt_store r)"
  shows "\<exists>eff. effective_permissions_for_client_in_channel_context r sid cid dbid = Some eff
               \<and> bt_inv eff \<and> (\<forall>n. bt_get eff n = permission_spec r sid cid dbid n)"
proof -
  let ?eff2 = "bt_extend (merge_server_groups (server_group_perms r sid dbid)) (client_tier r sid dbid)"
  have "bt_inv ?eff2" by (simp add: bt_inv_extend merge_server_groups_inv)
  then show ?thesis
    by (simp add: effective_permissions_for_client_in_channel_context_def permission_spec_def Let_def
        base_entry_get bt_get_overlay overlay_inv tier_invs assms)
qed


definition skip_demo_runtime :: baseline_runtime where
  "skip_demo_runtime =
     seeded_runtime (demo_store\<lparr>
       st_channels := [(1, [seed_channel 1 0 ''Default Channel'' [] True
         \<lparr>ch_permissions := [(''b_channel_create_child'', perm 0), (''i_icon_id'', perm 5)]\<rparr>])],
       st_query_accounts := bt_update ''serveradmin''
         (qa_permissions_update (\<lambda>_. [(''b_channel_create_child'',
            \<lparr>pa_value = 1, pa_negated = False, pa_skipped = True\<rparr>)])) seed_query_accounts\<rparr>)"


subsection \<open>Merging server groups\<close>

definition group_values :: "perm_map list \<Rightarrow> string \<Rightarrow> perm_assignment list" where
  "group_values groups n = List.map_filter (\<lambda>g. bt_get g n) groups"

lemma iter_extrema_perm:
  "mset xs = mset ys \<Longrightarrow> iter_max xs = iter_max ys \<and> iter_min xs = iter_min ys"
  using iter_max_Max [of xs] iter_max_Max [of ys] iter_min_Min [of xs] iter_min_Min [of ys]
  by (metis mset_zero_iff set_mset_mset)

lemma merge_assignments_perm:
  assumes "mset as = mset bs"
  shows "merge_assignments as = merge_assignments bs"
proof -
  have "set as = set bs" using assms by (metis set_mset_mset)
  moreover have "mset (map pa_value as) = mset (map pa_value bs)" using assms by simp
  note iter_extrema_perm [OF this]
  ultimately show ?thesis by (simp add: merge_assignments_def list_ex_iff Let_def)
qed

lemma merged_group_entry_alt:
  "merged_group_entry groups n =
     (if List.map_filter (\<lambda>g. bt_get g n) groups = [] then None
      else Some (merge_assignments (List.map_filter (\<lambda>g. bt_get g n) groups)))"
  by (simp add: merged_group_entry_def split: list.splits)

text \<open>
  The order in which the server groups of a client are listed does not matter to the
  merged permissions.
\<close>

theorem merge_server_groups_order_independent:
  assumes "list_all bt_inv groups" and "mset groups = mset groups'"
  shows "merge_server_groups groups = merge_server_groups groups'"
proof (rule bt_ext)
  have inv': "list_all bt_inv groups'"
    using assms by (metis (no_types) list_all_iff set_mset_mset)
  have "merged_group_entry groups n = merged_group_entry groups' n" for n
  proof -
    have "mset (List.map_filter (\<lambda>g. bt_get g n) groups) = mset (List.map_filter (\<lambda>g. bt_get g n) groups')"
      using assms(2) by (simp add: List.map_filter_def mset_filter)
    then show ?thesis
      using merge_assignments_perm by (metis merged_group_entry_alt mset_zero_iff)
  qed
  then show "bt_get (merge_server_groups groups) = bt_get (merge_server_groups groups')"
    by (simp add: fun_eq_iff bt_get_merge_server_groups assms(1) inv')
qed (simp_all add: merge_server_groups_inv)

text \<open>
  A merged entry is negated exactly when one of the groups negates it, and carries the
  least value of the groups then, the greatest value otherwise; it is skipped when one of the groups
  skips it.
\<close>

theorem merged_group_value:
  assumes "list_all bt_inv groups" and "bt_get (merge_server_groups groups) n = Some a"
  shows "group_values groups n \<noteq> []
         \<and> pa_negated a = list_ex pa_negated (group_values groups n)
         \<and> pa_skipped a = list_ex pa_skipped (group_values groups n)
         \<and> pa_value a =
             (if pa_negated a then Min (pa_value ` set (group_values groups n))
              else Max (pa_value ` set (group_values groups n)))"
proof -
  have entry: "merged_group_entry groups n = Some a"
    using assms by (simp add: bt_get_merge_server_groups)
  then have ne: "group_values groups n \<noteq> []" and a: "a = merge_assignments (group_values groups n)"
    by (auto simp: merged_group_entry_def group_values_def split: list.splits)
  have "map pa_value (group_values groups n) \<noteq> []" using ne by simp
  then show ?thesis
    using ne by (simp add: a merge_assignments_def Let_def iter_max_Max iter_min_Min)
qed

subsection \<open>Checks and ids\<close>

lemma power_max_ge_iff:
  "0 < k \<Longrightarrow> k \<le> permission_power_max_or_default perms names
   \<longleftrightarrow> (\<exists>n \<in> set names. \<exists>a. bt_get perms n = Some a \<and> k \<le> pa_value a)"
proof -
  assume k: "0 < k"
  let ?vs = "List.map_filter (\<lambda>n. map_option pa_value (bt_get perms n)) names"
  have mem: "v \<in> set ?vs \<longleftrightarrow> (\<exists>n \<in> set names. \<exists>a. bt_get perms n = Some a \<and> v = pa_value a)" for v
    by (auto simp: set_map_filter_iff)
  show ?thesis
  proof (cases "?vs = []")
    case True
    then have "\<not> (\<exists>n \<in> set names. \<exists>a. bt_get perms n = Some a)" using mem by (metis empty_iff empty_set)
    then show ?thesis using k True by (auto simp: permission_power_max_or_default_def)
  next
    case False
    then have "k \<le> permission_power_max_or_default perms names \<longleftrightarrow> (\<exists>v \<in> set ?vs. k \<le> v)"
      by (simp add: permission_power_max_or_default_def iter_max_Max Max_ge_iff)
    then show ?thesis unfolding Bex_def mem by blast
  qed
qed

text \<open>
  A required permission is granted exactly when one of the candidate names is assigned a
  value of at least one.
\<close>

lemma required_permission_iff:
  "check_required_permission perms names failed = Inr ()
   \<longleftrightarrow> (\<exists>n \<in> set names. \<exists>a. bt_get perms n = Some a \<and> 1 \<le> pa_value a)"
  using power_max_ge_iff [of 1 perms names]
  by (auto simp: check_required_permission_def linorder_not_le)

lemma or_and_mask: "w < 0x8000 \<Longrightarrow> (w OR 0x8000) AND 0x7FFF = w" for w :: u32
proof -
  assume w: "w < 0x8000"
  have "(w OR 0x8000) AND 0x7FFF = (w AND 0x7FFF) OR (0x8000 AND 0x7FFF)"
    by (simp add: bit.conj_disj_distrib2)
  also have "\<dots> = w AND mask 15" by (simp add: mask_eq_exp_minus_1)
  also have "\<dots> = take_bit 15 w" by (simp add: take_bit_eq_mask)
  also have "\<dots> = w"
    using w by (simp add: word_unat_eq_iff unsigned_take_bit_eq take_bit_nat_eq_self word_less_nat_alt)
  finally show ?thesis .
qed

lemma catalog_find_name:
  assumes "bt_inv m" and "bt_get m n = Some e" and "\<And>n' e'. bt_get m n' = Some e' \<Longrightarrow> f e' = f e \<Longrightarrow> n' = n"
  shows "bt_find_key (\<lambda>e'. f e' = f e) m = Some n"
proof -
  have mem: "(n, e) \<in> set m" using assms(2) by (simp add: bt_get_def map_of_SomeD)
  then obtain kv where kv: "List.find (\<lambda>kv. f (snd kv) = f e) m = Some kv"
    using find_Some_ex [of "\<lambda>kv. f (snd kv) = f e" m] by fastforce
  then have "kv \<in> set m" "f (snd kv) = f e" by (auto dest: find_SomeD)
  then have "fst kv = n" using assms(1,3) bt_get_of_mem by (metis prod.collapse)
  then show ?thesis by (simp add: bt_find_key_def kv)
qed

definition catalog_ids_unique :: "(string, permission_catalog_entry) btree \<Rightarrow> bool" where
  "catalog_ids_unique m = (bt_inv m \<and> distinct (map (pce_id \<circ> snd) m))"

lemma catalog_ids_uniqueD:
  assumes "catalog_ids_unique m" and "bt_get m n = Some e" and "bt_get m n' = Some e'"
    and "pce_id e' = pce_id e"
  shows "n' = n"
proof -
  have "(n, e) \<in> set m" "(n', e') \<in> set m" using assms(2,3) by (simp_all add: bt_get_def map_of_SomeD)
  moreover have "inj_on (pce_id \<circ> snd) (set m)"
    using assms(1) by (simp add: catalog_ids_unique_def distinct_map)
  ultimately have "(n', e') = (n, e)" using assms(4) by (metis comp_apply inj_onD snd_conv)
  then show ?thesis by simp
qed

lemma plain_name_of_catalog_id:
  assumes "catalog_ids_unique (rt_permission_catalog r)"
    and "bt_get (rt_permission_catalog r) n = Some e"
  shows "plain_permission_name r (pce_id e) = Some n"
proof -
  have "bt_find_key (\<lambda>e'. pce_id e' = pce_id e) (rt_permission_catalog r) = Some n"
  proof (rule catalog_find_name)
    show "bt_inv (rt_permission_catalog r)" using assms(1) by (simp add: catalog_ids_unique_def)
    show "bt_get (rt_permission_catalog r) n = Some e" by (rule assms(2))
  qed (rule catalog_ids_uniqueD [OF assms])
  then show ?thesis by (simp add: plain_permission_name_def)
qed

lemma name_of_small_id:
  assumes "catalog_ids_unique (rt_permission_catalog r)"
    and "bt_get (rt_permission_catalog r) n = Some e" and "pce_id e < 0x8000"
  shows "permission_name_for_id r (pce_id e) = Some n"
  using plain_name_of_catalog_id [OF assms(1,2)] assms(3)
  by (simp add: permission_name_for_id.simps [of r "pce_id e"] linorder_not_less [symmetric])

text \<open>
  Looking up the id of a catalogue permission and then the name of that id is the
  identity, for the permission itself and for its grant permission, whose id is the base id with
  bit 15 set.
\<close>

theorem permission_id_roundtrip:
  assumes "catalog_ids_unique (rt_permission_catalog r)"
    and "bt_get (rt_permission_catalog r) n = Some e" and "pce_id e < 0x8000"
    and "n = ''b_'' @ rest"
  shows "permission_name_for_id r (permission_id_for_name r n) = Some n
         \<and> permission_name_for_id r (permission_id_for_name r (''i_needed_modify_power_'' @ rest))
             = Some (''i_needed_modify_power_'' @ rest)"
proof
  have "strip_prefix ''i_needed_modify_power_'' n = None" using assms(4) by simp
  then have "permission_id_for_name r n = pce_id e"
    using assms(2) by (simp add: permission_id_for_name_def plain_permission_id_def)
  then show "permission_name_for_id r (permission_id_for_name r n) = Some n"
    using name_of_small_id [OF assms(1-3)] by simp
next
  let ?id = "pce_id e OR 0x8000" and ?g = "''i_needed_modify_power_'' @ rest"
  have "needed_modify_base_id r rest = Some (pce_id e)"
    using assms(2,4) by (simp add: needed_modify_base_id_def Let_def)
  then have grant_id: "permission_id_for_name r ?g = ?id"
    by (simp add: permission_id_for_name_def del: append.simps)
  have "permission_name_for_id r (?id AND 0x7FFF) = Some n"
    using name_of_small_id [OF assms(1-3)] or_and_mask [OF assms(3)] by simp
  moreover have "0x8000 \<le> ?id" by (rule le_word_or1)
  ultimately show "permission_name_for_id r (permission_id_for_name r ?g) = Some ?g"
    using assms(4) unfolding grant_id
    by (simp add: permission_name_for_id.simps [of r ?id])
qed

definition catalog_demo_runtime :: baseline_runtime where
  "catalog_demo_runtime =
     empty_runtime\<lparr>rt_permission_catalog :=
       [(''b_channel_modify_name'',
         \<lparr>pce_name = ''b_channel_modify_name'', pce_id = 91, pce_description = []\<rparr>),
        (''i_channel_modify_power'',
         \<lparr>pce_name = ''i_channel_modify_power'', pce_id = 103, pce_description = []\<rparr>)]\<rparr>"

definition permission_rows_request :: "string \<Rightarrow> row list \<Rightarrow> command_request" where
  "permission_rows_request cmd rs =
     \<lparr>command = cmd, positional_args = [], named_args = [], option_groups = rs, flags = []\<rparr>"

definition i64_value :: "perm_assignment \<Rightarrow> bool" where
  "i64_value a = (- (2 ^ 63) \<le> pa_value a \<and> pa_value a < 2 ^ 63)"

lemma parse_flag_string [simp]: "parse_query_bool (flag_string b) = Some b"
  by (simp add: parse_query_bool_def flag_string_def)

lemma render_permission_row_get:
  "bt_get (render_permission_row r n a True) ''permsid'' = Some n"
  "bt_get (render_permission_row r n a True) ''permvalue'' = Some (int_to_string (pa_value a))"
  "bt_get (render_permission_row r n a True) ''permnegated'' = Some (flag_string (pa_negated a))"
  "bt_get (render_permission_row r n a True) ''permskip'' = Some (flag_string (pa_skipped a))"
  by (simp_all add: render_permission_row_def render_permission_row_with_id_def Let_def bt_get_Cons)

lemma render_permission_row_inv: "bt_inv (render_permission_row r n a b)"
  unfolding render_permission_row_def render_permission_row_with_id_def Let_def
  by (simp add: bt_inv_insert del: bt_insert.simps)

lemma parse_rendered_row:
  assumes "i64_value a"
    and "bt_get grp = bt_get (render_permission_row r n a True)"
  shows "parse_one_assignment r' grp = Inr (n, a)"
  using assms parse_int_to_string [of 64 "pa_value a"]
  by (simp add: parse_one_assignment_def resolve_permission_name_from_args_def i64_value_def
      render_permission_row_get)

lemma map_result_map:
  "(\<And>x. x \<in> set xs \<Longrightarrow> f (g x) = Inr (h x)) \<Longrightarrow> map_result f (map g xs) = Inr (map h xs)"
  by (induction xs) simp_all

text \<open>
  An assignment printed as a row of a permission list and sent back as the option groups of
  an edit request is parsed to the same assignments, for values in the range of \<open>i64\<close>.
\<close>

theorem permission_rows_roundtrip:
  assumes "as \<noteq> []" and "list_all (i64_value \<circ> snd) as"
  shows "parse_permission_assignments r
           (permission_rows_request cmd (map (\<lambda>(n, a). render_permission_row r n a True) as)) keys
         = Inr as"
proof -
  let ?row = "\<lambda>na. render_permission_row r (fst na) (snd na) True"
  have grp: "parse_one_assignment r (bt_extend [] (?row na)) = Inr na" if "na \<in> set as" for na
  proof -
    have "bt_get (bt_extend [] (?row na)) = bt_get (?row na)"
      by (rule ext) (simp add: bt_get_extend_inv render_permission_row_inv or_else_def split: option.splits)
    moreover have "i64_value (snd na)" using assms(2) that by (simp add: list_all_iff)
    ultimately show ?thesis using parse_rendered_row [of "snd na"] by fastforce
  qed
  have none: "fold (\<lambda>k merged. merged) keys [] = ([] :: row)"
    by (induction keys) simp_all
  have "map_result (parse_one_assignment r) (map (\<lambda>na. bt_extend [] (?row na)) as) = Inr (map id as)"
    by (rule map_result_map) (simp add: grp)
  then show ?thesis
    using assms(1)
    by (simp add: parse_permission_assignments_def permission_option_groups_def
        permission_rows_request_def case_prod_beta comp_def none)
qed

end
