(* ===== verification/Handler_Contract.thy ===== *)
theory Handler_Contract
  imports Permissions
begin

text \<open>
  The contracts that command handlers share, as locales: a command that fails leaves the state as it
  was, and a command that keeps an invariant keeps it along every sequence of requests.
\<close>

subsection \<open>Failed commands change nothing\<close>

locale atomic_command =
  fixes run :: "'q \<Rightarrow> 's \<Rightarrow> query_response \<times> 's"
  assumes unchanged: "error_id (fst (run q s)) \<noteq> 0 \<Longrightarrow> snd (run q s) = s"
begin

lemma changed_ok: "snd (run q s) \<noteq> s \<Longrightarrow> error_id (fst (run q s)) = 0"
  using unchanged by blast

lemma failed_keeps: "run q s = (resp, s') \<Longrightarrow> error_id resp \<noteq> 0 \<Longrightarrow> P s \<Longrightarrow> P s'"
  using unchanged [of q s] by simp

text \<open>A request sequence of failures only is the identity.\<close>

lemma all_failed_same:
  "(\<And>q. q \<in> set qs \<Longrightarrow> error_id (fst (run q s)) \<noteq> 0) \<Longrightarrow> fold (\<lambda>q s. snd (run q s)) qs s = s"
  by (induction qs) (simp_all add: unchanged)

end

lemma response_ids [simp]:
  "error_id (response_error e m) = e"
  "error_id response_ok = 0"
  "error_id (response_ok_row row) = 0"
  "error_id (response_ok_rows rs) = 0"
  "error_id (insufficient_permission_response r p) = 0xA08"
  by (simp_all add: response_defs insufficient_permission_response_def)

text \<open>
  \<open>fails_unchanged s res\<close>: the result is a success, or carries the state \<open>s\<close> the command started
  from. The rules follow the branches of a handler.
\<close>

definition fails_unchanged :: "'s \<Rightarrow> query_response \<times> 's \<Rightarrow> bool" where
  "fails_unchanged s res = (error_id (fst res) \<noteq> 0 \<longrightarrow> snd res = s)"

lemma fails_unchanged_same: "fails_unchanged s (resp, s)"
  by (simp add: fails_unchanged_def)

lemma fails_unchanged_ok: "error_id (fst res) = 0 \<Longrightarrow> fails_unchanged s res"
  by (simp add: fails_unchanged_def)

lemma fails_unchanged_sum:
  "(\<And>x. a = Inl x \<Longrightarrow> fails_unchanged s (f x)) \<Longrightarrow> (\<And>y. a = Inr y \<Longrightarrow> fails_unchanged s (g y)) \<Longrightarrow>
   fails_unchanged s (case a of Inl x \<Rightarrow> f x | Inr y \<Rightarrow> g y)"
  by (cases a) auto

lemma fails_unchanged_option:
  "(a = None \<Longrightarrow> fails_unchanged s x) \<Longrightarrow> (\<And>y. a = Some y \<Longrightarrow> fails_unchanged s (g y)) \<Longrightarrow>
   fails_unchanged s (case a of None \<Rightarrow> x | Some y \<Rightarrow> g y)"
  by (cases a) auto

lemma fails_unchanged_prod:
  "(\<And>x y. a = (x, y) \<Longrightarrow> fails_unchanged s (f x y)) \<Longrightarrow> fails_unchanged s (case a of (x, y) \<Rightarrow> f x y)"
  by (cases a) auto

lemma fails_unchanged_if:
  "(c \<Longrightarrow> fails_unchanged s x) \<Longrightarrow> (\<not> c \<Longrightarrow> fails_unchanged s y) \<Longrightarrow> fails_unchanged s (if c then x else y)"
  by auto

lemma fails_unchanged_Let: "fails_unchanged s (f a) \<Longrightarrow> fails_unchanged s (Let a f)"
  by simp

lemmas fails_unchanged_branches =
  fails_unchanged_same fails_unchanged_sum fails_unchanged_option fails_unchanged_prod
  fails_unchanged_if fails_unchanged_Let

subsection \<open>What a success says\<close>

text \<open>\<open>ok_then P res\<close>: if the result is a success, it satisfies \<open>P\<close>.\<close>

definition ok_then :: "(query_response \<times> 's \<Rightarrow> bool) \<Rightarrow> query_response \<times> 's \<Rightarrow> bool" where
  "ok_then P res = (error_id (fst res) = 0 \<longrightarrow> P res)"

lemma ok_then_error: "error_id e \<noteq> 0 \<Longrightarrow> ok_then P (e, s)"
  by (simp add: ok_then_def)

lemma ok_then_I: "P res \<Longrightarrow> ok_then P res"
  by (simp add: ok_then_def)

lemma ok_then_sum:
  "(\<And>x. a = Inl x \<Longrightarrow> ok_then P (f x)) \<Longrightarrow> (\<And>y. a = Inr y \<Longrightarrow> ok_then P (g y)) \<Longrightarrow>
   ok_then P (case a of Inl x \<Rightarrow> f x | Inr y \<Rightarrow> g y)"
  by (cases a) auto

lemma ok_then_option:
  "(a = None \<Longrightarrow> ok_then P x) \<Longrightarrow> (\<And>y. a = Some y \<Longrightarrow> ok_then P (g y)) \<Longrightarrow>
   ok_then P (case a of None \<Rightarrow> x | Some y \<Rightarrow> g y)"
  by (cases a) auto

lemma ok_then_prod: "(\<And>x y. a = (x, y) \<Longrightarrow> ok_then P (f x y)) \<Longrightarrow> ok_then P (case a of (x, y) \<Rightarrow> f x y)"
  by (cases a) auto

lemma ok_then_if: "(c \<Longrightarrow> ok_then P x) \<Longrightarrow> (\<not> c \<Longrightarrow> ok_then P y) \<Longrightarrow> ok_then P (if c then x else y)"
  by auto

lemma ok_then_Let: "ok_then P (f a) \<Longrightarrow> ok_then P (Let a f)"
  by simp

lemmas ok_then_branches = ok_then_sum ok_then_option ok_then_prod ok_then_if ok_then_Let

lemma actor_context_error: "query_permission_actor_context r session = Inl e \<Longrightarrow> error_id e \<noteq> 0"
  by (auto simp: query_permission_actor_context_def Let_def split: option.splits)

lemma actor_permissions_error: "query_actor_effective_permissions r session = Inl e \<Longrightarrow> error_id e \<noteq> 0"
  by (auto simp: query_actor_effective_permissions_def split: sum.splits option.splits
      dest: actor_context_error)

subsection \<open>Commands that keep an invariant\<close>

text \<open>\<open>after I res\<close>: the state of the result satisfies \<open>I\<close>.\<close>

definition after :: "('s \<Rightarrow> bool) \<Rightarrow> query_response \<times> 's \<Rightarrow> bool" where
  "after I res = I (snd res)"

lemma after_pair: "I s \<Longrightarrow> after I (resp, s)"
  by (simp add: after_def)

lemma after_sum:
  "(\<And>x. a = Inl x \<Longrightarrow> after I (f x)) \<Longrightarrow> (\<And>y. a = Inr y \<Longrightarrow> after I (g y)) \<Longrightarrow>
   after I (case a of Inl x \<Rightarrow> f x | Inr y \<Rightarrow> g y)"
  by (cases a) auto

lemma after_option:
  "(a = None \<Longrightarrow> after I x) \<Longrightarrow> (\<And>y. a = Some y \<Longrightarrow> after I (g y)) \<Longrightarrow>
   after I (case a of None \<Rightarrow> x | Some y \<Rightarrow> g y)"
  by (cases a) auto

lemma after_prod: "(\<And>x y. a = (x, y) \<Longrightarrow> after I (f x y)) \<Longrightarrow> after I (case a of (x, y) \<Rightarrow> f x y)"
  by (cases a) auto

lemma after_if: "(c \<Longrightarrow> after I x) \<Longrightarrow> (\<not> c \<Longrightarrow> after I y) \<Longrightarrow> after I (if c then x else y)"
  by auto

lemma after_Let: "after I (f a) \<Longrightarrow> after I (Let a f)"
  by simp

lemmas after_branches = after_sum after_option after_prod after_if after_Let

text \<open>\<open>returns_in I m\<close>: the command returns, in a state that satisfies \<open>I\<close>.\<close>

definition returns_in :: "('s \<Rightarrow> bool) \<Rightarrow> (query_response \<times> 's) option \<Rightarrow> bool" where
  "returns_in I m = (case m of None \<Rightarrow> False | Some res \<Rightarrow> I (snd res))"

lemma returns_in_Some: "I s \<Longrightarrow> returns_in I (Some (resp, s))"
  by (simp add: returns_in_def)

lemma returns_in_sum:
  "(\<And>x. a = Inl x \<Longrightarrow> returns_in I (f x)) \<Longrightarrow> (\<And>y. a = Inr y \<Longrightarrow> returns_in I (g y)) \<Longrightarrow>
   returns_in I (case a of Inl x \<Rightarrow> f x | Inr y \<Rightarrow> g y)"
  by (cases a) auto

lemma returns_in_option:
  "(a = None \<Longrightarrow> returns_in I x) \<Longrightarrow> (\<And>y. a = Some y \<Longrightarrow> returns_in I (g y)) \<Longrightarrow>
   returns_in I (case a of None \<Rightarrow> x | Some y \<Rightarrow> g y)"
  by (cases a) auto

lemma returns_in_prod:
  "(\<And>x y. a = (x, y) \<Longrightarrow> returns_in I (f x y)) \<Longrightarrow> returns_in I (case a of (x, y) \<Rightarrow> f x y)"
  by (cases a) auto

lemma returns_in_if:
  "(c \<Longrightarrow> returns_in I x) \<Longrightarrow> (\<not> c \<Longrightarrow> returns_in I y) \<Longrightarrow> returns_in I (if c then x else y)"
  by auto

lemma returns_in_Let: "returns_in I (f a) \<Longrightarrow> returns_in I (Let a f)"
  by simp

lemma returns_in_bind:
  "m \<noteq> None \<Longrightarrow> (\<And>x. m = Some x \<Longrightarrow> returns_in I (f x)) \<Longrightarrow> returns_in I (Option.bind m f)"
  by (cases m) auto

lemmas returns_in_branches =
  returns_in_sum returns_in_option returns_in_prod returns_in_if returns_in_Let

locale invariant_command =
  fixes inv :: "'s \<Rightarrow> bool" and ready :: "'q \<Rightarrow> 's \<Rightarrow> bool"
    and run :: "'q \<Rightarrow> 's \<Rightarrow> (query_response \<times> 's) option"
  assumes keeps: "inv s \<Longrightarrow> ready q s \<Longrightarrow> returns_in inv (run q s)"
begin

lemma step: "inv s \<Longrightarrow> ready q s \<Longrightarrow> \<exists>resp s'. run q s = Some (resp, s') \<and> inv s'"
  using keeps [of s q] by (auto simp: returns_in_def split: option.splits)

lemma no_divergence: "inv s \<Longrightarrow> ready q s \<Longrightarrow> run q s \<noteq> None"
  using step by fastforce

lemma keeps_inv: "inv s \<Longrightarrow> ready q s \<Longrightarrow> run q s = Some (resp, s') \<Longrightarrow> inv s'"
  using step by fastforce

end

end
