(* ===== verification/Channel_Tree.thy ===== *)
theory Channel_Tree
  imports Store_Queries
begin

text \<open>
  The channel tree of a virtual server, as \<open>runtime/catalog_and_utils.rs\<close> keeps it: each channel names
  its parent and, as its sort order, the sibling it stands after (0 for the first). The functions
  that list siblings in order, rewrite the order, find an insert position and look for a channel
  among the ancestors of another.

  The ancestor walk follows parent ids and does not end on a parent cycle that avoids the channel
  looked for; it is a partial function whose value is \<open>None\<close> then.
\<close>

subsection \<open>Order of siblings\<close>

definition siblings_of :: "channel list \<Rightarrow> u32 \<Rightarrow> u32 option \<Rightarrow> channel list" where
  "siblings_of channels parent_id excluded_channel_id =
     filter (\<lambda>c. ch_parent_id c = parent_id \<and> Some (ch_id c) \<noteq> excluded_channel_id) channels"

definition next_sibling :: "channel list \<Rightarrow> u32 list \<Rightarrow> u32 \<Rightarrow> u32 option" where
  "next_sibling siblings remaining previous_id =
     iter_min (map ch_id (filter (\<lambda>c. ch_id c \<in> set remaining \<and> ch_order c = previous_id) siblings))"

lemma next_sibling_remaining:
  "next_sibling siblings remaining previous_id = Some n \<Longrightarrow> n \<in> set remaining"
  unfolding next_sibling_def by (drule iter_min_in) auto

function sibling_chain :: "channel list \<Rightarrow> u32 list \<Rightarrow> u32 \<Rightarrow> u32 list" where
  "sibling_chain siblings remaining previous_id =
     (case next_sibling siblings remaining previous_id of
        None \<Rightarrow> remaining
      | Some next_id \<Rightarrow> next_id # sibling_chain siblings (removeAll next_id remaining) next_id)"
  by pat_completeness auto

termination sibling_chain
  by (relation "measure (\<lambda>(_, remaining, _). length remaining)")
    (auto dest: next_sibling_remaining simp: length_removeAll_less)

declare sibling_chain.simps [simp del]

definition ordered_sibling_ids :: "channel list \<Rightarrow> u32 \<Rightarrow> u32 option \<Rightarrow> u32 list" where
  "ordered_sibling_ids channels parent_id excluded_channel_id =
     (let siblings = siblings_of channels parent_id excluded_channel_id
      in sibling_chain siblings (bs_collect (map ch_id siblings)) 0)"

fun relink_from :: "u32 \<Rightarrow> u32 \<Rightarrow> u32 list \<Rightarrow> channel list \<Rightarrow> channel list" where
  "relink_from parent_id previous_id [] channels = channels"
| "relink_from parent_id previous_id (i # js) channels =
     (if list_ex (\<lambda>c. ch_id c = i \<and> ch_parent_id c = parent_id) channels
      then relink_from parent_id i js
             (update_first (\<lambda>c. ch_id c = i \<and> ch_parent_id c = parent_id)
                (ch_order_update (\<lambda>_. previous_id)) channels)
      else relink_from parent_id previous_id js channels)"

definition relink_sibling_orders :: "channel list \<Rightarrow> u32 \<Rightarrow> u32 list \<Rightarrow> channel list" where
  "relink_sibling_orders channels parent_id ordered_ids = relink_from parent_id 0 ordered_ids channels"

definition resolve_insert_index :: "u32 list \<Rightarrow> u32 option \<Rightarrow> nat option" where
  "resolve_insert_index sibling_ids requested_order =
     (case requested_order of
        Some anchor_id \<Rightarrow>
          if anchor_id = 0 then Some 0
          else map_option Suc (position (\<lambda>i. i = anchor_id) sibling_ids)
      | None \<Rightarrow> Some (length sibling_ids))"

text \<open>\<open>Vec::insert\<close>.\<close>

definition insert_at :: "nat \<Rightarrow> 'a \<Rightarrow> 'a list \<Rightarrow> 'a list" where
  "insert_at i x xs = take i xs @ x # drop i xs"

subsection \<open>Ancestors\<close>

definition parent_of :: "channel list \<Rightarrow> u32 \<Rightarrow> u32" where
  "parent_of channels cid =
     unwrap_or 0 (map_option ch_parent_id (List.find (\<lambda>c. ch_id c = cid) channels))"

partial_function (option) descendant_loop :: "channel list \<Rightarrow> u32 \<Rightarrow> u32 \<Rightarrow> bool option" where
  "descendant_loop channels channel_id current_parent_id =
     (if current_parent_id = 0 then Some False
      else if current_parent_id = channel_id then Some True
      else descendant_loop channels channel_id (parent_of channels current_parent_id))"

declare descendant_loop.simps [code]

definition channel_is_descendant :: "channel list \<Rightarrow> u32 \<Rightarrow> u32 \<Rightarrow> bool option" where
  "channel_is_descendant channels candidate_parent_id channel_id =
     descendant_loop channels channel_id candidate_parent_id"

subsection \<open>The set of channels a forced delete removes\<close>

fun delete_pass :: "channel list \<Rightarrow> u32 list \<times> bool \<Rightarrow> u32 list \<times> bool" where
  "delete_pass [] acc = acc"
| "delete_pass (c # cs) (to_delete, added) =
     (if ch_id c \<notin> set to_delete \<and> ch_parent_id c \<in> set to_delete
      then delete_pass cs (insort_insert (ch_id c) to_delete, True)
      else delete_pass cs (to_delete, added))"

lemma delete_pass_grows: "set to_delete \<subseteq> set (fst (delete_pass cs (to_delete, added)))"
proof (induction cs arbitrary: to_delete added)
  case (Cons c cs)
  then show ?case by (simp add: set_insort_insert subset_iff)
qed simp

lemma delete_pass_bound:
  "set (fst (delete_pass cs (to_delete, added))) \<subseteq> set to_delete \<union> set (map ch_id cs)"
proof (induction cs arbitrary: to_delete added)
  case (Cons c cs)
  show ?case
    using Cons.IH [of "insort_insert (ch_id c) to_delete" True] Cons.IH [of to_delete added]
    by (auto simp: set_insort_insert)
qed simp

lemma delete_pass_added:
  "snd (delete_pass cs (to_delete, added)) \<Longrightarrow> \<not> added \<Longrightarrow>
   \<exists>i \<in> set (map ch_id cs). i \<notin> set to_delete \<and> i \<in> set (fst (delete_pass cs (to_delete, added)))"
proof (induction cs arbitrary: to_delete added)
  case (Cons c cs)
  show ?case
  proof (cases "ch_id c \<notin> set to_delete \<and> ch_parent_id c \<in> set to_delete")
    case True
    then have "ch_id c \<in> set (fst (delete_pass (c # cs) (to_delete, added)))"
      using delete_pass_grows [of "insort_insert (ch_id c) to_delete" cs True]
      by (simp add: set_insort_insert)
    with True show ?thesis by auto
  next
    case False
    then have eq: "delete_pass (c # cs) (to_delete, added) = delete_pass cs (to_delete, added)" by auto
    then show ?thesis using Cons.IH [of to_delete added] Cons.prems by auto
  qed
qed simp

function delete_closure :: "channel list \<Rightarrow> u32 list \<Rightarrow> u32 list" where
  "delete_closure channels to_delete =
     (case delete_pass channels (to_delete, False) of
        (to_delete', added) \<Rightarrow>
          if added then delete_closure channels to_delete' else to_delete')"
  by pat_completeness auto

lemma delete_pass_decreases:
  assumes "delete_pass cs (td, False) = (td', True)"
  shows "card (set (map ch_id cs) - set td') < card (set (map ch_id cs) - set td)"
proof (rule psubset_card_mono)
  have grows: "set td \<subseteq> set td'" using delete_pass_grows [of td cs False] assms by simp
  obtain i where "i \<in> set (map ch_id cs)" "i \<notin> set td" "i \<in> set td'"
    using delete_pass_added [of cs td False] assms by auto
  with grows show "set (map ch_id cs) - set td' \<subset> set (map ch_id cs) - set td" by blast
qed simp

termination delete_closure
  by (relation "measure (\<lambda>(cs, td). card (set (map ch_id cs) - set td))")
    (auto dest!: delete_pass_decreases [OF sym, simplified])

declare delete_closure.simps [simp del]

subsection \<open>Listing siblings\<close>

lemma set_sibling_chain [simp]: "set (sibling_chain siblings remaining p) = set remaining"
proof (induction siblings remaining p rule: sibling_chain.induct)
  case (1 siblings remaining p)
  show ?case
    using 1 by (auto simp: sibling_chain.simps [of siblings remaining p]
        split: option.splits dest: next_sibling_remaining)
qed

lemma distinct_sibling_chain: "distinct remaining \<Longrightarrow> distinct (sibling_chain siblings remaining p)"
proof (induction siblings remaining p rule: sibling_chain.induct)
  case (1 siblings remaining p)
  show ?case
    using 1 by (auto simp: sibling_chain.simps [of siblings remaining p] distinct_removeAll
        split: option.splits)
qed

lemma sibling_ids_set: "set (map ch_id (siblings_of cs p ex)) =
    {ch_id c |c. c \<in> set cs \<and> ch_parent_id c = p \<and> Some (ch_id c) \<noteq> ex}"
  by (auto simp: siblings_of_def)

text \<open>
  The ordered list of siblings holds every channel below the parent, except the
  excluded one, exactly once, whatever the order fields say: a broken or cyclic order chain loses
  no channel.
\<close>

theorem ordered_sibling_ids_complete:
  "distinct (ordered_sibling_ids cs p ex)
   \<and> set (ordered_sibling_ids cs p ex) =
       {ch_id c |c. c \<in> set cs \<and> ch_parent_id c = p \<and> Some (ch_id c) \<noteq> ex}"
  by (simp add: ordered_sibling_ids_def Let_def distinct_sibling_chain del: set_map)
    (simp only: sibling_ids_set [symmetric] set_bs_collect)

lemma distinct_ordered [simp]: "distinct (ordered_sibling_ids cs p ex)"
  by (simp add: ordered_sibling_ids_def Let_def distinct_sibling_chain)

lemma set_ordered [simp]: "set (ordered_sibling_ids cs p ex) =
    {ch_id c |c. c \<in> set cs \<and> ch_parent_id c = p \<and> Some (ch_id c) \<noteq> ex}"
  by (simp add: ordered_sibling_ids_def Let_def del: set_map)
    (simp only: sibling_ids_set [symmetric])

fun linked :: "channel list \<Rightarrow> u32 \<Rightarrow> u32 list \<Rightarrow> bool" where
  "linked cs prev [] = True"
| "linked cs prev (i # js) = ((\<exists>c \<in> set cs. ch_id c = i \<and> ch_order c = prev) \<and> linked cs i js)"

lemma same_id_same_channel:
  "distinct (map ch_id cs) \<Longrightarrow> c \<in> set cs \<Longrightarrow> d \<in> set cs \<Longrightarrow> ch_id c = ch_id d \<Longrightarrow> c = d"
  by (simp add: distinct_map inj_on_def)

lemma linked_order:
  assumes "linked cs prev ids" and "distinct (map ch_id cs)" and "c \<in> set cs" and "ch_id c \<in> set ids"
  shows "(ch_id c = hd ids \<and> ch_order c = prev) \<or> ch_order c \<in> set ids"
  using assms
proof (induction ids arbitrary: prev)
  case (Cons i js)
  from Cons.prems(1) obtain d where d: "d \<in> set cs" "ch_id d = i" "ch_order d = prev"
    and rest: "linked cs i js" by auto
  show ?case
  proof (cases "ch_id c = i")
    case True
    then have "c = d" using d Cons.prems(2,3) same_id_same_channel by metis
    then show ?thesis using d by simp
  next
    case False
    then show ?thesis using Cons.IH [OF rest Cons.prems(2,3)] Cons.prems(4) by auto
  qed
qed simp

lemma next_sibling_linked:
  assumes "linked cs prev (i # js)" and "distinct (map ch_id cs)"
    and "prev \<notin> set (i # js)" and "set rem = set (i # js)"
  shows "next_sibling cs rem prev = Some i"
proof -
  let ?xs = "map ch_id (filter (\<lambda>c. ch_id c \<in> set rem \<and> ch_order c = prev) cs)"
  have "x = i" if "x \<in> set ?xs" for x
    using that linked_order [OF assms(1,2)] assms(3,4) by auto
  moreover have "i \<in> set ?xs" using assms(1,4) by auto
  ultimately have "set ?xs = {i}" by blast
  then have "?xs \<noteq> []" by fastforce
  then show ?thesis using iter_min_Min [of ?xs] \<open>set ?xs = {i}\<close> by (simp add: next_sibling_def)
qed

lemma sibling_chain_linked:
  assumes "linked cs prev ids" and "distinct (map ch_id cs)" and "distinct ids"
    and "prev \<notin> set ids" and "set rem = set ids"
  shows "sibling_chain cs rem prev = ids"
  using assms
proof (induction ids arbitrary: prev rem)
  case Nil
  then show ?case by (simp add: sibling_chain.simps [of cs "[]"] next_sibling_def)
next
  case (Cons i js)
  have "next_sibling cs rem prev = Some i"
    using Cons.prems by (intro next_sibling_linked) auto
  moreover have "sibling_chain cs (removeAll i rem) i = js"
    using Cons.prems by (intro Cons.IH) auto
  ultimately show ?case by (simp add: sibling_chain.simps [of cs rem])
qed

subsection \<open>Rewriting the order\<close>

lemma update_first_keeps: "x \<in> set xs \<Longrightarrow> \<not> P x \<Longrightarrow> x \<in> set (update_first P f xs)"
  by (induction xs) auto

lemma update_first_hits: "list_ex P xs \<Longrightarrow> \<exists>x \<in> set xs. P x \<and> f x \<in> set (update_first P f xs)"
  by (induction xs) auto

lemma relink_from_map:
  "(\<And>c n. f (c\<lparr>ch_order := n\<rparr>) = f c) \<Longrightarrow> map f (relink_from p prev ids cs) = map f cs"
proof (induction ids arbitrary: prev cs)
  case (Cons i js)
  then show ?case by (auto simp: update_first_map)
qed simp

lemma relink_from_fields [simp]:
  "map ch_id (relink_from p prev ids cs) = map ch_id cs"
  "map ch_parent_id (relink_from p prev ids cs) = map ch_parent_id cs"
  "map (\<lambda>c. (ch_id c, ch_parent_id c)) (relink_from p prev ids cs) = map (\<lambda>c. (ch_id c, ch_parent_id c)) cs"
  by (rule relink_from_map, simp)+

lemma relink_from_other:
  "c \<in> set cs \<Longrightarrow> ch_id c \<notin> set ids \<or> ch_parent_id c \<noteq> p \<Longrightarrow> c \<in> set (relink_from p prev ids cs)"
proof (induction ids arbitrary: prev cs)
  case (Cons i js)
  then show ?case by (auto intro!: Cons.IH update_first_keeps)
qed simp

definition has_child :: "channel list \<Rightarrow> u32 \<Rightarrow> u32 \<Rightarrow> bool" where
  "has_child cs p i = ((i, p) \<in> set (map (\<lambda>c. (ch_id c, ch_parent_id c)) cs))"

lemma has_child_ex: "has_child cs p i \<longleftrightarrow> list_ex (\<lambda>c. ch_id c = i \<and> ch_parent_id c = p) cs"
  by (auto simp: has_child_def list_ex_iff)

lemma has_child_update_first [simp]:
  "has_child (update_first P (ch_order_update (\<lambda>_. n)) cs) p i = has_child cs p i"
  by (simp add: has_child_def update_first_map del: set_map)

lemma relink_from_linked:
  "distinct ids \<Longrightarrow> list_all (has_child cs p) ids \<Longrightarrow> linked (relink_from p prev ids cs) prev ids"
proof (induction ids arbitrary: prev cs)
  case (Cons i js)
  let ?P = "\<lambda>c. ch_id c = i \<and> ch_parent_id c = p"
  let ?cs = "update_first ?P (ch_order_update (\<lambda>_. prev)) cs"
  have here: "list_ex ?P cs" using Cons.prems(2) by (simp add: has_child_ex)
  then obtain c where "c \<in> set cs" "?P c" "c\<lparr>ch_order := prev\<rparr> \<in> set ?cs"
    using update_first_hits [of ?P cs "ch_order_update (\<lambda>_. prev)"] by auto
  then have "c\<lparr>ch_order := prev\<rparr> \<in> set (relink_from p i js ?cs)"
    using Cons.prems(1) by (intro relink_from_other) auto
  then have "\<exists>d \<in> set (relink_from p i js ?cs). ch_id d = i \<and> ch_order d = prev"
    using \<open>?P c\<close> by (intro bexI [of _ "c\<lparr>ch_order := prev\<rparr>"]) auto
  moreover have "linked (relink_from p i js ?cs) i js"
    using Cons.prems by (intro Cons.IH) (auto simp: list_all_iff)
  ultimately show ?case using here by simp
qed simp

lemma linked_filter:
  assumes "linked cs prev ids" and "\<And>c. c \<in> set cs \<Longrightarrow> ch_id c \<in> set ids \<Longrightarrow> P c"
  shows "linked (filter P cs) prev ids"
  using assms by (induction ids arbitrary: prev) auto

lemma children_ids:
  "set (map ch_id (siblings_of cs p None)) = {i. (i, p) \<in> set (map (\<lambda>c. (ch_id c, ch_parent_id c)) cs)}"
  by (auto simp: siblings_of_def)

lemma relink_list_inverse:
  assumes "distinct (map ch_id cs)" and "distinct ids" and "0 \<notin> set ids"
    and children: "set ids = ch_id ` set (filter (\<lambda>c. ch_parent_id c = p) cs)"
  shows "ordered_sibling_ids (relink_sibling_orders cs p ids) p None = ids
         \<and> map (ch_order_update (\<lambda>_. 0)) (relink_sibling_orders cs p ids)
           = map (ch_order_update (\<lambda>_. 0)) cs"
proof
  have idset: "set ids = {ch_id c |c. c \<in> set cs \<and> ch_parent_id c = p}" using children by auto
  let ?cs = "relink_from p 0 ids cs"
  let ?sib = "siblings_of ?cs p None"
  have ip: "set (map (\<lambda>c. (ch_id c, ch_parent_id c)) ?cs) = set (map (\<lambda>c. (ch_id c, ch_parent_id c)) cs)"
    by (simp only: relink_from_fields)
  have child: "list_all (has_child cs p) ids" using idset by (auto simp: list_all_iff has_child_def)
  have d: "distinct (map ch_id ?cs)" using assms(1) by simp
  have below: "ch_parent_id c = p" if mem: "c \<in> set ?cs" and listed: "ch_id c \<in> set ids" for c
  proof -
    have "(ch_id c, ch_parent_id c) \<in> set (map (\<lambda>c. (ch_id c, ch_parent_id c)) cs)"
      using imageI [OF mem, of "\<lambda>c. (ch_id c, ch_parent_id c)"] ip by (simp only: set_map)
    then obtain b where b: "b \<in> set cs" "ch_id b = ch_id c" "ch_parent_id b = ch_parent_id c" by auto
    obtain a where a: "a \<in> set cs" "ch_id a = ch_id c" "ch_parent_id a = p" using listed idset by auto
    have "a = b" using same_id_same_channel [OF assms(1)] a b by simp
    then show ?thesis using a b by simp
  qed
  have "linked ?sib 0 ids"
    unfolding siblings_of_def using relink_from_linked [OF assms(2) child] below
    by (intro linked_filter) auto
  moreover have "distinct (map ch_id ?sib)"
    using d by (simp add: siblings_of_def distinct_map_filter)
  moreover have "set (map ch_id ?sib) = set ids"
    unfolding children_ids ip idset by auto
  ultimately show "ordered_sibling_ids (relink_sibling_orders cs p ids) p None = ids"
    using assms(2,3)
    by (simp add: ordered_sibling_ids_def relink_sibling_orders_def sibling_chain_linked del: set_map)
  show "map (ch_order_update (\<lambda>_. 0)) (relink_sibling_orders cs p ids) = map (ch_order_update (\<lambda>_. 0)) cs"
    unfolding relink_sibling_orders_def by (rule relink_from_map) simp
qed

text \<open>
  Writing an order of the children of a parent and listing them again gives that order
  back; no other field of any channel changes.
\<close>

theorem relink_then_list:
  assumes "distinct (map ch_id cs)" and "distinct ids" and "0 \<notin> set ids"
    and children: "set ids = ch_id ` set (filter (\<lambda>c. ch_parent_id c = p) cs)"
  shows "ordered_sibling_ids (relink_sibling_orders cs p ids) p None = ids
         \<and> map (ch_order_update (\<lambda>_. 0)) (relink_sibling_orders cs p ids)
           = map (ch_order_update (\<lambda>_. 0)) cs"
  using assms by (rule relink_list_inverse)

definition demo_channel :: "u32 \<Rightarrow> u32 \<Rightarrow> channel" where
  "demo_channel cid parent_id =
     \<lparr>ch_id = cid, ch_parent_id = parent_id, ch_order = 0, ch_kind = Permanent, ch_name = [],
      ch_topic = [], ch_description = [], ch_password = [], ch_codec = 4, ch_codec_quality = 6,
      ch_maxclients = -1, ch_maxfamilyclients = -1, ch_flag_default = False,
      ch_flag_password = False, ch_permissions = []\<rparr>"

lemma demo_channel_simps [simp]:
  "ch_id (demo_channel i p) = i" "ch_parent_id (demo_channel i p) = p"
  by (simp_all add: demo_channel_def)

theorem relink_then_list_witness:
  "ordered_sibling_ids
     (relink_sibling_orders [demo_channel 1 0, demo_channel 2 0, demo_channel 3 2, demo_channel 4 0]
        0 [4, 1, 2]) 0 None = [4, 1, 2]"
  by (rule relink_then_list [THEN conjunct1]) auto

subsection \<open>Walking to the root\<close>

inductive reaches_root :: "channel list \<Rightarrow> u32 \<Rightarrow> bool" for cs where
  root: "reaches_root cs 0"
| up: "reaches_root cs (parent_of cs i) \<Longrightarrow> reaches_root cs i"

inductive ancestor_or_self :: "channel list \<Rightarrow> u32 \<Rightarrow> u32 \<Rightarrow> bool" for cs a where
  self: "a \<noteq> 0 \<Longrightarrow> ancestor_or_self cs a a"
| up: "i \<noteq> 0 \<Longrightarrow> ancestor_or_self cs a (parent_of cs i) \<Longrightarrow> ancestor_or_self cs a i"

inductive_cases ancestor_or_selfE: "ancestor_or_self cs a i"

lemma ancestor_step:
  "i \<noteq> 0 \<Longrightarrow> i \<noteq> a \<Longrightarrow> ancestor_or_self cs a i \<longleftrightarrow> ancestor_or_self cs a (parent_of cs i)"
  by (auto intro: ancestor_or_self.up elim: ancestor_or_selfE)

lemma ancestor_zero: "\<not> ancestor_or_self cs a 0"
  by (auto elim: ancestor_or_selfE)

lemma descendant_returns:
  assumes "reaches_root cs candidate"
  shows "channel_is_descendant cs candidate cid = Some (ancestor_or_self cs cid candidate)"
  unfolding channel_is_descendant_def using assms
proof (induction rule: reaches_root.induct)
  case root
  show ?case by (subst descendant_loop.simps) (simp add: ancestor_zero)
next
  case (up i)
  show ?case
  proof (cases "i = 0 \<or> i = cid")
    case True
    then show ?thesis
      by (subst descendant_loop.simps) (auto simp: ancestor_zero intro: ancestor_or_self.self)
  next
    case False
    then show ?thesis using up.IH by (subst descendant_loop.simps) (simp add: ancestor_step)
  qed
qed

text \<open>
  Property C7: on a channel whose chain of parents ends, the ancestor walk returns, and answers whether
  the channel is among the ancestors of the candidate or the candidate itself.
\<close>

theorem channel_is_descendant_correct:
  assumes "reaches_root cs candidate"
  shows "channel_is_descendant cs candidate cid = Some (ancestor_or_self cs cid candidate)"
  using assms by (rule descendant_returns)

theorem channel_is_descendant_correct_witness:
  "reaches_root [demo_channel 1 0, demo_channel 2 1, demo_channel 3 2] 3
   \<and> channel_is_descendant [demo_channel 1 0, demo_channel 2 1, demo_channel 3 2] 3 1 = Some True"
proof -
  let ?cs = "[demo_channel 1 0, demo_channel 2 1, demo_channel 3 2]"
  have p: "parent_of ?cs 3 = 2" "parent_of ?cs 2 = 1" "parent_of ?cs 1 = 0"
    by (simp_all add: parent_of_def demo_channel_def)
  have reach: "reaches_root ?cs 3"
    by (rule reaches_root.up, simp only: p)+ (rule reaches_root.root)
  have "ancestor_or_self ?cs 1 3"
    using p ancestor_or_self.self [of 1 ?cs] ancestor_or_self.up [of 2 ?cs 1]
      ancestor_or_self.up [of 3 ?cs 1] by simp
  with channel_is_descendant_correct [OF reach, of 1] reach show ?thesis by simp
qed

subsection \<open>Moving a channel\<close>

definition set_parent :: "channel list \<Rightarrow> u32 \<Rightarrow> u32 \<Rightarrow> channel list" where
  "set_parent channels cid p =
     update_first (\<lambda>c. ch_id c = cid) (ch_parent_id_update (\<lambda>_. p)) channels"

lemma find_update_first_same:
  "(\<And>x. P x \<Longrightarrow> P (f x)) \<Longrightarrow> List.find P (update_first P f xs) = map_option f (List.find P xs)"
  by (induction xs) auto

lemma find_update_first_other:
  "(\<And>x. P x \<Longrightarrow> \<not> Q x \<and> \<not> Q (f x)) \<Longrightarrow> List.find Q (update_first P f xs) = List.find Q xs"
  by (induction xs) auto

lemma parent_of_set_parent:
  assumes "cid \<in> set (map ch_id cs)"
  shows "parent_of (set_parent cs cid p) i = (if i = cid then p else parent_of cs i)"
proof (cases "i = cid")
  case True
  obtain c where "List.find (\<lambda>c. ch_id c = cid) cs = Some c"
    using assms find_Some_ex [of "\<lambda>c. ch_id c = cid" cs] by auto
  then show ?thesis
    using True by (simp add: parent_of_def set_parent_def find_update_first_same)
next
  case False
  then show ?thesis by (simp add: parent_of_def set_parent_def find_update_first_other)
qed

lemma set_parent_ids [simp]: "map ch_id (set_parent cs cid p) = map ch_id cs"
  by (simp add: set_parent_def update_first_map)

lemma find_cong_map:
  "map (\<lambda>c. (ch_id c, ch_parent_id c)) cs = map (\<lambda>c. (ch_id c, ch_parent_id c)) ds \<Longrightarrow>
   parent_of cs i = parent_of ds i"
proof (induction cs arbitrary: ds)
  case (Cons c cs)
  then obtain d ds' where "ds = d # ds'" by (cases ds) auto
  then show ?case using Cons by (auto simp: parent_of_def)
qed simp

lemma parent_of_relink [simp]: "parent_of (relink_sibling_orders cs p ids) i = parent_of cs i"
  unfolding relink_sibling_orders_def by (rule find_cong_map) simp

lemma reaches_root_cong:
  "(\<And>i. parent_of cs i = parent_of ds i) \<Longrightarrow> reaches_root cs i \<Longrightarrow> reaches_root ds i"
proof -
  assume eq: "\<And>i. parent_of cs i = parent_of ds i" and "reaches_root cs i"
  from this(2) show ?thesis
    by (induction rule: reaches_root.induct) (auto intro: reaches_root.intros simp: eq)
qed

lemma reaches_root_relink [simp]:
  "reaches_root (relink_sibling_orders cs p ids) i \<longleftrightarrow> reaches_root cs i"
  using reaches_root_cong [of cs "relink_sibling_orders cs p ids"]
    reaches_root_cong [of "relink_sibling_orders cs p ids" cs] by auto

lemma reaches_root_avoiding:
  assumes "reaches_root cs i" and "\<not> ancestor_or_self cs cid i" and "cid \<noteq> 0"
    and "\<And>j. j \<noteq> cid \<Longrightarrow> parent_of ds j = parent_of cs j"
  shows "reaches_root ds i"
  using assms(1,2)
proof (induction rule: reaches_root.induct)
  case root
  show ?case by (rule reaches_root.root)
next
  case (up i)
  have "i \<noteq> cid" using up.prems assms(3) ancestor_or_self.self by blast
  show ?case
  proof (cases "i = 0")
    case False
    then have "\<not> ancestor_or_self cs cid (parent_of cs i)"
      using up.prems \<open>i \<noteq> cid\<close> by (simp add: ancestor_step)
    then show ?thesis
      using up.IH assms(4) [OF \<open>i \<noteq> cid\<close>] by (metis reaches_root.up)
  qed (simp add: reaches_root.root)
qed

definition tree_ok :: "channel list \<Rightarrow> bool" where
  "tree_ok cs = (distinct (map ch_id cs) \<and> 0 \<notin> set (map ch_id cs)
                 \<and> (\<forall>c \<in> set cs. reaches_root cs (ch_id c)))"

lemma reaches_root_any: "tree_ok cs \<Longrightarrow> reaches_root cs i"
proof (cases "i \<in> set (map ch_id cs)")
  case False
  then have "List.find (\<lambda>c. ch_id c = i) cs = None" by (auto simp: find_NoneD)
  then have "parent_of cs i = 0" by (simp add: parent_of_def)
  then show ?thesis by (metis reaches_root.root reaches_root.up)
qed (auto simp: tree_ok_def)

lemma tree_okI:
  "distinct (map ch_id cs) \<Longrightarrow> 0 \<notin> set (map ch_id cs) \<Longrightarrow> (\<And>i. reaches_root cs i) \<Longrightarrow> tree_ok cs"
  by (simp add: tree_ok_def)

lemma tree_ok_relink [simp]: "tree_ok (relink_sibling_orders cs p ids) \<longleftrightarrow> tree_ok cs"
proof -
  have ids: "map ch_id (relink_sibling_orders cs p ids) = map ch_id cs"
    by (simp add: relink_sibling_orders_def)
  have "tree_ok ds \<longleftrightarrow> distinct (map ch_id ds) \<and> 0 \<notin> set (map ch_id ds) \<and> (\<forall>i. reaches_root ds i)" for ds
    using reaches_root_any [of ds] by (auto simp: tree_ok_def)
  then show ?thesis by (simp only: ids reaches_root_relink)
qed

lemma move_tree:
  assumes "tree_ok cs" and "cid \<in> set (map ch_id cs)"
    and "channel_is_descendant cs p cid = Some False"
  shows "tree_ok (set_parent cs cid p)"
proof -
  have nz: "cid \<noteq> 0" using assms(1,2) by (auto simp: tree_ok_def)
  have par: "parent_of (set_parent cs cid p) j = (if j = cid then p else parent_of cs j)" for j
    by (rule parent_of_set_parent [OF assms(2)])
  have "\<not> ancestor_or_self cs cid p"
    using descendant_returns [OF reaches_root_any [OF assms(1)]] assms(3) by auto
  then have p_root: "reaches_root (set_parent cs cid p) p"
    using reaches_root_avoiding [OF reaches_root_any [OF assms(1)] _ nz] par by auto
  have "reaches_root (set_parent cs cid p) i" if "reaches_root cs i" for i
    using that
  proof (induction rule: reaches_root.induct)
    case root
    show ?case by (rule reaches_root.root)
  next
    case (up i)
    then show ?case using p_root par by (metis reaches_root.up)
  qed
  then show ?thesis
    using assms(1) reaches_root_any [OF assms(1)] by (intro tree_okI) (auto simp: tree_ok_def)
qed

text \<open>
  A move that the code allows keeps the tree a tree. When the ancestor walk from the new
  parent answers that the channel is not above it, every channel still reaches the root afterwards.
\<close>

theorem move_keeps_tree:
  assumes "tree_ok cs" and "cid \<in> set (map ch_id cs)"
    and "channel_is_descendant cs p cid = Some False"
  shows "tree_ok (relink_sibling_orders (set_parent cs cid p) q ids)"
  using move_tree [OF assms] by simp

subsection \<open>Forced deletes\<close>

inductive in_subtree :: "channel list \<Rightarrow> u32 list \<Rightarrow> u32 \<Rightarrow> bool" for cs td where
  start: "i \<in> set td \<Longrightarrow> in_subtree cs td i"
| child: "c \<in> set cs \<Longrightarrow> in_subtree cs td (ch_parent_id c) \<Longrightarrow> in_subtree cs td (ch_id c)"

lemma delete_pass_sound:
  assumes "\<And>i. i \<in> set td \<Longrightarrow> Q i" and "set cs \<subseteq> set ds"
    and "\<And>c. c \<in> set ds \<Longrightarrow> Q (ch_parent_id c) \<Longrightarrow> Q (ch_id c)"
    and "i \<in> set (fst (delete_pass cs (td, added)))"
  shows "Q i"
  using assms(1,2,4)
proof (induction cs arbitrary: td added)
  case (Cons c cs)
  show ?case
  proof (cases "ch_id c \<notin> set td \<and> ch_parent_id c \<in> set td")
    case True
    then have "Q (ch_id c)" using Cons.prems(1,2) assms(3) by auto
    then show ?thesis
      using Cons.IH [of "insort_insert (ch_id c) td" True] Cons.prems True
      by (auto simp: set_insort_insert)
  next
    case False
    then have "delete_pass (c # cs) (td, added) = delete_pass cs (td, added)" by auto
    then show ?thesis using Cons.IH [of td added] Cons.prems by auto
  qed
qed auto

lemma delete_pass_mono_added: "added \<Longrightarrow> snd (delete_pass cs (td, added))"
  by (induction cs arbitrary: td added) auto

lemma delete_pass_stable:
  "\<not> snd (delete_pass cs (td, False)) \<Longrightarrow>
   fst (delete_pass cs (td, False)) = td
   \<and> (\<forall>c \<in> set cs. ch_parent_id c \<in> set td \<longrightarrow> ch_id c \<in> set td)"
proof (induction cs arbitrary: td)
  case (Cons c cs)
  show ?case
  proof (cases "ch_id c \<notin> set td \<and> ch_parent_id c \<in> set td")
    case True
    then show ?thesis using Cons.prems by (simp add: delete_pass_mono_added)
  next
    case False
    then have "delete_pass (c # cs) (td, False) = delete_pass cs (td, False)" by auto
    then show ?thesis using Cons.IH [of td] Cons.prems False by auto
  qed
qed simp

lemma delete_closure_unfold:
  "delete_closure cs td =
     (if snd (delete_pass cs (td, False)) then delete_closure cs (fst (delete_pass cs (td, False)))
      else fst (delete_pass cs (td, False)))"
  by (subst delete_closure.simps) (simp add: case_prod_beta)

lemma delete_closure_induct:
  assumes "\<And>td. (snd (delete_pass cs (td, False)) \<Longrightarrow> P (fst (delete_pass cs (td, False)))) \<Longrightarrow> P td"
  shows "P td"
proof (induction "card (set (map ch_id cs) - set td)" arbitrary: td rule: less_induct)
  case less
  show ?case
  proof (rule assms)
    assume "snd (delete_pass cs (td, False))"
    then have "delete_pass cs (td, False) = (fst (delete_pass cs (td, False)), True)"
      by (simp add: prod_eq_iff)
    from delete_pass_decreases [OF this] show "P (fst (delete_pass cs (td, False)))" by (rule less)
  qed
qed

lemma delete_closure_grows: "set td \<subseteq> set (delete_closure cs td)"
proof (induction td rule: delete_closure_induct [of cs])
  case (1 td)
  show ?case
    using 1 delete_pass_grows [of td cs False] by (subst delete_closure_unfold) auto
qed

lemma delete_closure_closed:
  assumes "c \<in> set cs"
  shows "ch_parent_id c \<in> set (delete_closure cs td) \<Longrightarrow> ch_id c \<in> set (delete_closure cs td)"
proof (induction td rule: delete_closure_induct [of cs])
  case (1 td)
  show ?case
    using 1 delete_pass_stable [of cs td] assms
    by (cases "snd (delete_pass cs (td, False))") (simp_all add: delete_closure_unfold [of cs td])
qed

lemma delete_closure_sound:
  assumes "\<And>c. c \<in> set cs \<Longrightarrow> Q (ch_parent_id c) \<Longrightarrow> Q (ch_id c)"
  shows "(\<And>i. i \<in> set td \<Longrightarrow> Q i) \<Longrightarrow> i \<in> set (delete_closure cs td) \<Longrightarrow> Q i"
proof (induction td rule: delete_closure_induct [of cs])
  case (1 td)
  have pass: "Q j" if "j \<in> set (fst (delete_pass cs (td, False)))" for j
    using delete_pass_sound [of td Q cs cs j False] 1(2) assms that by blast
  show ?case
  proof (cases "snd (delete_pass cs (td, False))")
    case True
    then show ?thesis using 1(1) [OF True pass] 1(3) by (simp add: delete_closure_unfold [of cs td])
  next
    case False
    then show ?thesis using pass 1(3) by (simp add: delete_closure_unfold [of cs td])
  qed
qed

lemma subtree_closure: "i \<in> set (delete_closure cs td) \<longleftrightarrow> in_subtree cs td i"
proof
  assume "i \<in> set (delete_closure cs td)"
  then show "in_subtree cs td i"
    using delete_closure_sound [of cs "in_subtree cs td" td] by (auto intro: in_subtree.intros)
next
  assume "in_subtree cs td i"
  then show "i \<in> set (delete_closure cs td)"
    by induction (use delete_closure_grows delete_closure_closed in auto)
qed

text \<open>
  Property C8: the loop that collects what a forced delete removes ends, with exactly the channel and
  everything below it.
\<close>

theorem delete_closure_subtree: "set (delete_closure cs td) = {i. in_subtree cs td i}"
  using subtree_closure by blast

definition no_orphans :: "channel list \<Rightarrow> bool" where
  "no_orphans cs = (\<forall>c \<in> set cs. ch_parent_id c = 0 \<or> ch_parent_id c \<in> set (map ch_id cs))"

lemma closure_removal_no_orphans:
  assumes "no_orphans cs"
  shows "no_orphans (filter (\<lambda>c. ch_id c \<notin> set (delete_closure cs td)) cs)"
  using assms delete_closure_closed [of _ cs td]
  by (fastforce simp: no_orphans_def)

lemma parent_of_filter:
  "distinct (map ch_id cs) \<Longrightarrow>
   parent_of (filter P cs) i = parent_of cs i \<or> parent_of (filter P cs) i = 0"
proof (induction cs)
  case (Cons c cs)
  show ?case
  proof (cases "ch_id c = i")
    case True
    then have "\<forall>d \<in> set cs. ch_id d \<noteq> i" using Cons.prems by (metis distinct.simps(2) imageI list.set_map list.simps(9))
    then have "List.find (\<lambda>c. ch_id c = i) (filter P cs) = None" by (simp add: find_NoneD)
    then show ?thesis using True by (simp add: parent_of_def)
  next
    case False
    then show ?thesis using Cons by (simp add: parent_of_def)
  qed
qed (simp add: parent_of_def)

lemma tree_ok_filter: "tree_ok cs \<Longrightarrow> tree_ok (filter P cs)"
proof (rule tree_okI)
  assume ok: "tree_ok cs"
  then show "distinct (map ch_id (filter P cs))" "0 \<notin> set (map ch_id (filter P cs))"
    by (auto simp: tree_ok_def distinct_map_filter)
  fix i
  from reaches_root_any [OF ok, of i] show "reaches_root (filter P cs) i"
  proof (induction rule: reaches_root.induct)
    case root
    show ?case by (rule reaches_root.root)
  next
    case (up i)
    have "parent_of (filter P cs) i = parent_of cs i \<or> parent_of (filter P cs) i = 0"
      using ok by (intro parent_of_filter) (simp add: tree_ok_def)
    then show ?case using up.IH by (metis reaches_root.root reaches_root.up)
  qed
qed

end
