(* ===== verification/Music_Queue.thy ===== *)
theory Music_Queue
  imports Permissions "HOL-Library.Multiset"
begin

text \<open>
  The play queue of a music bot: playback progress and queue normalisation of
  \<open>runtime/musicbot/mod.rs\<close>, the queue operations of \<open>runtime/musicbot/queue_and_loader.rs\<close>, and the
  copy of a bot's state to its online client.

  An operation that fails returns its error together with the bot as it is at that point, because
  the bot is changed in place. The clock in milliseconds is an argument. The properties a bot shows
  as a client are rendered with \<open>serde_json\<close>, which is not part of the repository; the function that
  renders them is an argument, \<open>extra\<close>.
\<close>

subsection \<open>Playback\<close>

definition music_bot_current_song :: "music_bot \<Rightarrow> music_queue_entry option" where
  "music_bot_current_song mbot =
     Option.bind (mb_current_song_id mbot) (\<lambda>i. List.find (\<lambda>e. mq_id e = i) (mb_queue mbot))"

definition music_bot_queue_position :: "music_bot \<Rightarrow> u32" where
  "music_bot_queue_position mbot =
     unwrap_or 0
       (map_option (\<lambda>i. of_nat i + 1)
          (Option.bind (mb_current_song_id mbot) (\<lambda>i. position (\<lambda>e. mq_id e = i) (mb_queue mbot))))"

definition music_bot_current_song_max_millis :: "music_bot \<Rightarrow> u32" where
  "music_bot_current_song_max_millis mbot =
     unwrap_or 0 (map_option (\<lambda>s. sat_mul (mq_length_seconds s) 1000) (music_bot_current_song mbot))"

definition music_bot_current_song_replay_millis :: "u64 \<Rightarrow> music_bot \<Rightarrow> u32" where
  "music_bot_current_song_replay_millis now mbot =
     (let replay_millis =
            (case (mb_state mbot, mb_current_song_started_at_millis mbot) of
               (Playing, Some started) \<Rightarrow>
                 sat_add (mb_current_song_progress_millis mbot)
                   (ucast (min (sat_sub now started) (ucast (-1 :: u32))))
             | _ \<Rightarrow> mb_current_song_progress_millis mbot);
          max_millis = music_bot_current_song_max_millis mbot
      in if 0 < max_millis
            \<and> (case music_bot_current_song mbot of None \<Rightarrow> False | Some s \<Rightarrow> \<not> mq_live_stream s)
         then min replay_millis max_millis else replay_millis)"

definition music_bot_current_song_buffered_millis :: "u64 \<Rightarrow> music_bot \<Rightarrow> u32" where
  "music_bot_current_song_buffered_millis now mbot =
     (let replay_millis = music_bot_current_song_replay_millis now mbot;
          max_millis = music_bot_current_song_max_millis mbot
      in if max_millis = 0 then replay_millis else min (sat_add replay_millis 15000) max_millis)"

definition reset_music_bot_playback_progress :: "u64 \<Rightarrow> music_bot \<Rightarrow> music_bot" where
  "reset_music_bot_playback_progress now mbot =
     mbot\<lparr>mb_current_song_progress_millis := 0,
         mb_current_song_started_at_millis :=
           (if mb_state mbot = Playing \<and> mb_current_song_id mbot \<noteq> None then Some now else None)\<rparr>"

definition pause_music_bot_playback :: "u64 \<Rightarrow> music_bot \<Rightarrow> music_bot" where
  "pause_music_bot_playback now mbot =
     mbot\<lparr>mb_current_song_progress_millis := music_bot_current_song_replay_millis now mbot,
         mb_current_song_started_at_millis := None\<rparr>"

definition resume_music_bot_playback :: "u64 \<Rightarrow> music_bot \<Rightarrow> music_bot" where
  "resume_music_bot_playback now mbot =
     mbot\<lparr>mb_current_song_started_at_millis :=
           (if mb_current_song_id mbot \<noteq> None then Some now else None)\<rparr>"

definition stop_music_bot_playback :: "music_bot \<Rightarrow> music_bot" where
  "stop_music_bot_playback mbot =
     mbot\<lparr>mb_current_song_progress_millis := 0, mb_current_song_started_at_millis := None\<rparr>"

subsection \<open>The queue\<close>

fun relink_songs :: "u32 \<Rightarrow> music_queue_entry list \<Rightarrow> music_queue_entry list" where
  "relink_songs previous_song_id [] = []"
| "relink_songs previous_song_id (e # es) =
     e\<lparr>mq_previous_song_id := previous_song_id\<rparr> # relink_songs (mq_id e) es"

definition choose_current_song :: "music_bot \<Rightarrow> u32 option" where
  "choose_current_song mbot =
     (let kept = opt_filter (\<lambda>i. list_ex (\<lambda>e. mq_id e = i) (mb_queue mbot)) (mb_current_song_id mbot)
      in or_else kept (case mb_queue mbot of [] \<Rightarrow> None | e # _ \<Rightarrow> Some (mq_id e)))"

definition settle_current_song :: "u64 \<Rightarrow> music_bot \<Rightarrow> music_bot" where
  "settle_current_song now mbot =
     (let previous = mb_current_song_id mbot;
          chosen = mbot\<lparr>mb_current_song_id := choose_current_song mbot\<rparr>
      in if mb_current_song_id chosen \<noteq> previous
         then (if mb_current_song_id chosen \<noteq> None
               then reset_music_bot_playback_progress now chosen
               else stop_music_bot_playback chosen)
         else if mb_current_song_id chosen = None then stop_music_bot_playback chosen
         else chosen)"

definition normalize_playlist :: "music_bot \<Rightarrow> music_bot" where
  "normalize_playlist mbot =
     mbot\<lparr>mb_playlist_id := (if mb_playlist_id mbot = 0 then mb_id mbot else mb_playlist_id mbot),
          mb_client_permissions :=
            sort_key pcp_client_database_id
              (filter (\<lambda>t. pcp_permissions t \<noteq> []) (mb_client_permissions mbot)),
          mb_queue := relink_songs 0 (mb_queue mbot)\<rparr>"

definition normalize_music_bot_queue :: "u64 \<Rightarrow> music_bot \<Rightarrow> music_bot" where
  "normalize_music_bot_queue now mbot =
     (let b = settle_current_song now (normalize_playlist mbot);
          next_seed = max (sat_add (unwrap_or 0 (iter_max (map mq_id (mb_queue b)))) 1) 1
      in b\<lparr>mb_next_song_id := max (mb_next_song_id b) next_seed\<rparr>)"

definition list_insert :: "nat \<Rightarrow> 'a \<Rightarrow> 'a list \<Rightarrow> 'a list" where
  "list_insert i x xs = take i xs @ x # drop i xs"

definition list_remove :: "nat \<Rightarrow> 'a list \<Rightarrow> 'a list" where
  "list_remove i xs = take i xs @ drop (Suc i) xs"

definition song_not_found :: query_response where
  "song_not_found = response_error 768 ''song not found''"

definition insert_music_queue_entry ::
    "u64 \<Rightarrow> music_bot \<Rightarrow> music_queue_entry \<Rightarrow> u32 \<Rightarrow> (query_response + unit) \<times> music_bot" where
  "insert_music_queue_entry now mbot entry previous_song_id =
     (case (if previous_song_id = 0 then Some (length (mb_queue mbot))
            else map_option Suc (position (\<lambda>s. mq_id s = previous_song_id) (mb_queue mbot))) of
        None \<Rightarrow> (Inl song_not_found, mbot)
      | Some insert_index \<Rightarrow>
          let queue_was_empty = (mb_queue mbot = []);
              b1 = normalize_music_bot_queue now
                     (mbot\<lparr>mb_queue := list_insert insert_index entry (mb_queue mbot)\<rparr>);
              b2 = b1\<lparr>mb_current_song_id :=
                     (case mb_queue b1 of [] \<Rightarrow> None | s # _ \<Rightarrow> Some (mq_id s))\<rparr>
          in (Inr (),
              if queue_was_empty
              then (if mb_current_song_id b2 \<noteq> None
                    then reset_music_bot_playback_progress now (b2\<lparr>mb_state := Playing\<rparr>)
                    else b2)
              else b1))"

definition remove_music_queue_entry ::
    "u64 \<Rightarrow> music_bot \<Rightarrow> u32 \<Rightarrow> (query_response + music_queue_entry) \<times> music_bot" where
  "remove_music_queue_entry now mbot song_id =
     (case position (\<lambda>s. mq_id s = song_id) (mb_queue mbot) of
        None \<Rightarrow> (Inl song_not_found, mbot)
      | Some index \<Rightarrow>
          let removed = mb_queue mbot ! index;
              q = list_remove index (mb_queue mbot);
              b1 = mbot\<lparr>mb_queue := q\<rparr>;
              next_current =
                (if index < length q then Some (mq_id (q ! index))
                 else if 0 < index \<and> index - 1 < length q then Some (mq_id (q ! (index - 1)))
                 else None);
              b2 = (if mb_current_song_id b1 = Some song_id
                    then (let b = b1\<lparr>mb_current_song_id := next_current\<rparr>
                          in if next_current = None then b\<lparr>mb_state := Stopped\<rparr> else b)
                    else b1)
          in (Inr removed, normalize_music_bot_queue now b2))"

definition reorder_music_queue_entry ::
    "u64 \<Rightarrow> music_bot \<Rightarrow> u32 \<Rightarrow> u32 \<Rightarrow> (query_response + unit) \<times> music_bot" where
  "reorder_music_queue_entry now mbot song_id previous_song_id =
     (case position (\<lambda>s. mq_id s = song_id) (mb_queue mbot) of
        None \<Rightarrow> (Inl song_not_found, mbot)
      | Some current_index \<Rightarrow>
          let entry = mb_queue mbot ! current_index;
              b1 = mbot\<lparr>mb_queue := list_remove current_index (mb_queue mbot)\<rparr>
          in (case (if previous_song_id = 0 then Some 0
                    else map_option Suc (position (\<lambda>s. mq_id s = previous_song_id) (mb_queue b1))) of
                None \<Rightarrow> (Inl song_not_found, b1)
              | Some insert_index \<Rightarrow>
                  (Inr (), normalize_music_bot_queue now
                     (b1\<lparr>mb_queue :=
                        list_insert (min insert_index (length (mb_queue b1))) entry (mb_queue b1)\<rparr>))))"

definition set_music_queue_current_song ::
    "u64 \<Rightarrow> music_bot \<Rightarrow> u32 \<Rightarrow> (query_response + unit) \<times> music_bot" where
  "set_music_queue_current_song now mbot song_id =
     (if \<not> list_ex (\<lambda>s. mq_id s = song_id) (mb_queue mbot) then (Inl song_not_found, mbot)
      else (Inr (), reset_music_bot_playback_progress now
              (normalize_music_bot_queue now
                 (mbot\<lparr>mb_current_song_id := Some song_id, mb_state := Playing\<rparr>))))"

subsection \<open>The bot as a client\<close>

definition online_client_snapshot ::
    "baseline_runtime \<Rightarrow> u32 \<Rightarrow> u64 \<Rightarrow> online_client_snapshot option" where
  "online_client_snapshot r server_id client_id =
     map_option
       (\<lambda>c. \<lparr>os_id = oc_id c, os_database_id = oc_database_id c,
             os_unique_identifier = oc_unique_identifier c, os_nickname = oc_nickname c,
             os_away = oc_away c, os_away_message = oc_away_message c,
             os_input_muted = oc_input_muted c, os_output_muted = oc_output_muted c,
             os_server_id = oc_server_id c, os_channel_id = oc_channel_id c,
             os_client_type = oc_client_type c,
             os_client_type_exact =
               unwrap_or (oc_client_type c)
                 (Option.bind (bt_get (oc_extra_properties c) ''client_type_exact'') parse_word),
             os_whisper_targets = oc_whisper_targets c, os_ignored_clients = [],
             os_version = oc_version c, os_platform = oc_platform c, os_country = oc_country c,
             os_connection_ip = oc_connection_ip c, os_server_groups = oc_server_groups c,
             os_client_flag_avatar = [], os_extra_properties = oc_extra_properties c\<rparr>)
       (opt_filter (\<lambda>c. oc_server_id c = server_id)
          (bt_get (st_online_clients (rt_store r)) client_id))"

definition music_bot_id_by_client :: "baseline_runtime \<Rightarrow> u32 \<Rightarrow> u64 \<Rightarrow> u32 option" where
  "music_bot_id_by_client r server_id client_id =
     map_option mb_id
       (List.find (\<lambda>b. mb_server_id b = server_id \<and> mb_linked_client_id b = Some client_id)
          (bt_values (st_music_bots (rt_store r))))"

definition always_synced_keys :: "string list" where
  "always_synced_keys =
     [''client_type_exact'', ''player_state'', ''player_volume'', ''client_playlist_id'',
      ''_music_song_state'', ''_music_sync_state'', ''_music_loaded_songs'']"

definition merge_bot_properties :: "row \<Rightarrow> row \<Rightarrow> row" where
  "merge_bot_properties extra_properties props =
     fold (\<lambda>(k, v) props.
             if k \<in> set always_synced_keys \<or> \<not> bt_contains_key props k
             then bt_insert k v props else props)
       extra_properties props"

definition sync_music_bot_client_properties ::
    "(music_bot \<Rightarrow> row) \<Rightarrow> u32 \<Rightarrow> baseline_runtime \<Rightarrow> (u32 \<times> u64) option \<times> baseline_runtime" where
  "sync_music_bot_client_properties extra bot_id r =
     (case bt_get (st_music_bots (rt_store r)) bot_id of
        None \<Rightarrow> (None, r)
      | Some mbot \<Rightarrow>
        (case mb_linked_client_id mbot of
           None \<Rightarrow> (None, r)
         | Some client_id \<Rightarrow>
           (case opt_filter (\<lambda>c. oc_server_id c = mb_server_id mbot)
                   (bt_get (st_online_clients (rt_store r)) client_id) of
              None \<Rightarrow> (None, r)
            | Some c \<Rightarrow>
                (Some (mb_server_id mbot, client_id),
                 upd_store
                   (\<lambda>s. s\<lparr>
                      st_online_clients :=
                        bt_update client_id
                          (oc_extra_properties_update (merge_bot_properties (extra mbot)))
                          (st_online_clients s),
                      st_music_bots :=
                        bt_update bot_id
                          (\<lambda>b. b\<lparr>mb_nickname :=
                                   (if trim (oc_nickname c) \<noteq> [] then oc_nickname c else mb_nickname b),
                                 mb_channel_id :=
                                   (if oc_channel_id c \<noteq> 0 then oc_channel_id c else mb_channel_id b)\<rparr>)
                          (st_music_bots s)\<rparr>) r))))"

definition sync_music_bot_client_state ::
    "(music_bot \<Rightarrow> row) \<Rightarrow> u32 \<Rightarrow> baseline_runtime \<Rightarrow> baseline_runtime" where
  "sync_music_bot_client_state extra bot_id r =
     (case bt_get (st_music_bots (rt_store r)) bot_id of
        None \<Rightarrow> r
      | Some mbot \<Rightarrow>
        (case mb_linked_client_id mbot of
           None \<Rightarrow> r
         | Some client_id \<Rightarrow>
             let server_id = mb_server_id mbot;
                 before = online_client_snapshot r server_id client_id;
                 r' = snd (sync_music_bot_client_properties extra bot_id r);
                 after = online_client_snapshot r' server_id client_id
             in (case (before, after) of
                   (Some b, Some a) \<Rightarrow>
                     if b \<noteq> a then emit [BroadcastEvent server_id (ClientUpdated server_id b a)] r' else r'
                 | _ \<Rightarrow> r')))"

subsection \<open>Progress\<close>

lemma sat_add_0 [simp]: "sat_add a 0 = (a :: 'a::len word)"
proof -
  have "unat a < 2 ^ LENGTH('a)" by simp
  then have "unat a \<le> 2 ^ LENGTH('a) - 1" by linarith
  then show ?thesis by (simp add: word_unat_eq_iff unat_sat_add)
qed

lemma sat_sub_self [simp]: "sat_sub a a = (0 :: 'a::len word)"
  by (simp add: word_unat_eq_iff unat_sat_sub)

lemma current_song_updates [simp]:
  "music_bot_current_song (b\<lparr>mb_current_song_progress_millis := p\<rparr>) = music_bot_current_song b"
  "music_bot_current_song (b\<lparr>mb_current_song_started_at_millis := s\<rparr>) = music_bot_current_song b"
  by (simp_all add: music_bot_current_song_def)

lemma max_millis_updates [simp]:
  "music_bot_current_song_max_millis (b\<lparr>mb_current_song_progress_millis := p\<rparr>)
     = music_bot_current_song_max_millis b"
  "music_bot_current_song_max_millis (b\<lparr>mb_current_song_started_at_millis := s\<rparr>)
     = music_bot_current_song_max_millis b"
  by (simp_all add: music_bot_current_song_max_millis_def)

text \<open>
  Pausing a bot and resuming it later loses and gains no playback position: right after
  the resume the position is what it was at the pause.
\<close>

theorem pause_resume_position:
  "music_bot_current_song_replay_millis later
     (resume_music_bot_playback later (pause_music_bot_playback now b))
   = music_bot_current_song_replay_millis now b"
  by (simp add: music_bot_current_song_replay_millis_def [of later] resume_music_bot_playback_def
      pause_music_bot_playback_def Let_def split: music_bot_state.splits option.splits)
    (simp add: music_bot_current_song_replay_millis_def Let_def)

subsection \<open>Queue invariant\<close>

fun songs_linked :: "u32 \<Rightarrow> music_queue_entry list \<Rightarrow> bool" where
  "songs_linked prev [] = True"
| "songs_linked prev (e # es) = (mq_previous_song_id e = prev \<and> songs_linked (mq_id e) es)"

definition song_ids :: "music_bot \<Rightarrow> u32 list" where
  "song_ids b = map mq_id (mb_queue b)"

definition queue_inv :: "music_bot \<Rightarrow> bool" where
  "queue_inv b =
     (songs_linked 0 (mb_queue b)
      \<and> (case mb_current_song_id b of None \<Rightarrow> mb_queue b = [] | Some i \<Rightarrow> i \<in> set (song_ids b))
      \<and> list_all (\<lambda>i. i < mb_next_song_id b \<or> i = -1) (song_ids b))"

lemma songs_linked_relink [simp]: "songs_linked p (relink_songs p es)"
  by (induction es arbitrary: p) auto

lemma relink_songs_ids [simp]: "map mq_id (relink_songs p es) = map mq_id es"
  by (induction es arbitrary: p) auto

lemma relink_songs_Nil [simp]: "relink_songs p es = [] \<longleftrightarrow> es = []"
  by (cases es) auto

lemma playback_fields [simp]:
  "mb_queue (reset_music_bot_playback_progress t b) = mb_queue b"
  "mb_queue (stop_music_bot_playback b) = mb_queue b"
  "mb_current_song_id (reset_music_bot_playback_progress t b) = mb_current_song_id b"
  "mb_current_song_id (stop_music_bot_playback b) = mb_current_song_id b"
  "mb_next_song_id (reset_music_bot_playback_progress t b) = mb_next_song_id b"
  "mb_next_song_id (stop_music_bot_playback b) = mb_next_song_id b"
  by (simp_all add: reset_music_bot_playback_progress_def stop_music_bot_playback_def)

lemma settle_fields [simp]:
  "mb_queue (settle_current_song t b) = mb_queue b"
  "mb_next_song_id (settle_current_song t b) = mb_next_song_id b"
  "mb_current_song_id (settle_current_song t b) = choose_current_song b"
  by (simp_all add: settle_current_song_def Let_def)

lemma normalize_queue: "mb_queue (normalize_music_bot_queue t b) = relink_songs 0 (mb_queue b)"
  by (simp add: normalize_music_bot_queue_def normalize_playlist_def Let_def)

lemma normalize_song_ids [simp]: "song_ids (normalize_music_bot_queue t b) = song_ids b"
  by (simp add: song_ids_def normalize_queue)

lemma list_ex_relink: "list_ex (\<lambda>e. mq_id e = i) (relink_songs p es) = list_ex (\<lambda>e. mq_id e = i) es"
  by (induction es arbitrary: p) auto

lemma choose_current_normalized: "choose_current_song (normalize_playlist b) = choose_current_song b"
  by (cases "mb_queue b")
    (simp_all add: choose_current_song_def normalize_playlist_def Let_def list_ex_relink)

lemma normalize_current:
  "mb_current_song_id (normalize_music_bot_queue t b) = choose_current_song b"
  by (simp add: normalize_music_bot_queue_def Let_def choose_current_normalized)

lemma next_id_covers:
  "i \<in> set xs \<Longrightarrow> i < max n (max (sat_add (unwrap_or 0 (iter_max xs)) 1) 1) \<or> i = (-1 :: u32)"
proof -
  assume "i \<in> set xs"
  then obtain m where m: "iter_max xs = Some m" "i \<le> m" using iter_max_ge by blast
  have "i < sat_add m 1" if "i \<noteq> -1"
  proof (cases "i = m")
    case True
    then show ?thesis using that sat_add_one_greater by blast
  next
    case False
    then show ?thesis using m(2) sat_add_le [of m 1] by (meson le_neq_trans less_le_trans)
  qed
  then show ?thesis using m(1) by (auto simp: less_max_iff_disj)
qed

lemma normalize_next_song_id:
  "mb_next_song_id (normalize_music_bot_queue t b) =
     max (mb_next_song_id b) (max (sat_add (unwrap_or 0 (iter_max (song_ids b))) 1) 1)"
  by (simp add: normalize_music_bot_queue_def normalize_playlist_def Let_def song_ids_def)

lemma choose_current_inv:
  "case choose_current_song b of None \<Rightarrow> mb_queue b = [] | Some i \<Rightarrow> i \<in> set (song_ids b)"
  by (auto simp: choose_current_song_def song_ids_def Let_def list_ex_iff opt_filter_def
      split: option.splits list.splits)

lemma normalize_queue_inv [simp]: "queue_inv (normalize_music_bot_queue t b)"
  using choose_current_inv [of b] next_id_covers [of _ "song_ids b" "mb_next_song_id b"]
  by (auto simp: queue_inv_def normalize_queue normalize_current normalize_next_song_id list_all_iff
      split: option.splits)

subsection \<open>Queue operations\<close>

lemma map_list_insert: "map f (list_insert i x xs) = list_insert i (f x) (map f xs)"
  by (simp add: list_insert_def take_map drop_map)

lemma map_list_remove: "map f (list_remove i xs) = list_remove i (map f xs)"
  by (simp add: list_remove_def take_map drop_map)

lemma mset_list_insert [simp]: "mset (list_insert i x xs) = add_mset x (mset xs)"
proof -
  have "mset (take i xs) + mset (drop i xs) = mset xs" by (metis append_take_drop_id mset_append)
  then show ?thesis by (simp add: list_insert_def)
qed

lemma mset_list_remove: "i < length xs \<Longrightarrow> mset xs = add_mset (xs ! i) (mset (list_remove i xs))"
proof -
  assume "i < length xs"
  then have "xs = take i xs @ xs ! i # drop (Suc i) xs" by (rule id_take_nth_drop)
  then have "mset xs = mset (take i xs @ xs ! i # drop (Suc i) xs)" by simp
  then show ?thesis by (simp add: list_remove_def)
qed

lemma list_insert_ne [simp]: "list_insert i x xs \<noteq> []"
  by (simp add: list_insert_def)

lemma reset_queue_inv [simp]: "queue_inv (reset_music_bot_playback_progress t b) = queue_inv b"
  by (cases "mb_current_song_id b") (simp_all add: queue_inv_def song_ids_def)

lemma position_ids: "position (\<lambda>s. mq_id s = i) q = position (\<lambda>j. j = i) (map mq_id q)"
  by (induction q) auto

lemma queue_inv_first:
  "queue_inv b \<Longrightarrow> mb_queue b = s # q \<Longrightarrow> queue_inv (b\<lparr>mb_current_song_id := Some (mq_id s), mb_state := st\<rparr>)"
  by (simp add: queue_inv_def song_ids_def split: option.splits)

text \<open>
  Property C9: an accepted insert keeps the queue invariant (each song names its predecessor, the
  current song is in the queue, the next id is above every id in use) and puts the new song at the
  end, or right behind the song named as its predecessor.
\<close>

theorem queue_insert_correct:
  assumes "insert_music_queue_entry now b e prev = (Inr (), b')"
  shows "queue_inv b'
         \<and> (\<exists>i. song_ids b' = list_insert i (mq_id e) (song_ids b)
               \<and> (if prev = 0 then i = length (song_ids b)
                  else 0 < i \<and> i \<le> length (song_ids b) \<and> song_ids b ! (i - 1) = prev))"
proof -
  obtain i where i: "(if prev = 0 then Some (length (mb_queue b))
      else map_option Suc (position (\<lambda>s. mq_id s = prev) (mb_queue b))) = Some i"
    using assms by (auto simp: insert_music_queue_entry_def split: option.splits)
  define b1 where "b1 = normalize_music_bot_queue now (b\<lparr>mb_queue := list_insert i e (mb_queue b)\<rparr>)"
  have inv1: "queue_inv b1" by (simp add: b1_def)
  obtain s q where q: "mb_queue b1 = s # q"
    by (cases "mb_queue b1") (simp_all add: b1_def normalize_queue)
  have "b' = snd (insert_music_queue_entry now b e prev)" by (simp add: assms)
  also have "\<dots> = (if mb_queue b = []
      then reset_music_bot_playback_progress now
             (b1\<lparr>mb_current_song_id := Some (mq_id s), mb_state := Playing\<rparr>)
      else b1)"
    unfolding insert_music_queue_entry_def i by (simp add: Let_def q flip: b1_def)
  finally have b': "b' = \<dots>" .
  have ids1: "song_ids b1 = list_insert i (mq_id e) (song_ids b)"
    by (simp add: b1_def song_ids_def normalize_queue map_list_insert)
  then have ids: "song_ids b' = list_insert i (mq_id e) (song_ids b)"
    by (simp add: b' song_ids_def)
  have "queue_inv b'" by (simp add: b' inv1 queue_inv_first [OF inv1 q])
  moreover have "if prev = 0 then i = length (song_ids b)
      else 0 < i \<and> i \<le> length (song_ids b) \<and> song_ids b ! (i - 1) = prev"
    using i position_Some [of "\<lambda>s. mq_id s = prev" "mb_queue b"]
    by (auto simp: song_ids_def split: if_splits)
  ultimately show ?thesis using ids by blast
qed

definition demo_song :: "u32 \<Rightarrow> music_queue_entry" where
  "demo_song i =
     \<lparr>mq_id = i, mq_previous_song_id = 0, mq_url = ''u'', mq_url_loader = ''web'',
      mq_invoker_database_id = 1, mq_loaded = True, mq_metadata = [], mq_title = [],
      mq_description = [], mq_thumbnail = [], mq_length_seconds = 60, mq_seekable = True,
      mq_live_stream = False\<rparr>"

definition demo_bot :: "u32 list \<Rightarrow> music_bot" where
  "demo_bot ids =
     (snd (hd seed_music_bots))\<lparr>mb_queue := relink_songs 0 (map demo_song ids),
        mb_current_song_id := (case ids of [] \<Rightarrow> None | i # _ \<Rightarrow> Some i), mb_next_song_id := 10\<rparr>"

lemma demo_bot_songs [simp]:
  "song_ids (demo_bot ids) = ids"
  "mb_queue (demo_bot ids) = relink_songs 0 (map demo_song ids)"
  by (simp_all add: demo_bot_def song_ids_def comp_def demo_song_def)

lemma demo_song_id [simp]: "mq_id (demo_song i) = i"
  by (simp add: demo_song_def)

theorem queue_insert_correct_witness:
  "\<exists>b'. insert_music_queue_entry 5 (demo_bot [1, 2]) (demo_song 3) 1 = (Inr (), b')
        \<and> queue_inv b' \<and> song_ids b' = [1, 3, 2]"
proof -
  have "fst (insert_music_queue_entry 5 (demo_bot [1, 2]) (demo_song 3) 1) = Inr ()"
    by (simp add: insert_music_queue_entry_def Let_def)
  then obtain b' where ok: "insert_music_queue_entry 5 (demo_bot [1, 2]) (demo_song 3) 1 = (Inr (), b')"
    by (cases "insert_music_queue_entry 5 (demo_bot [1, 2]) (demo_song 3) 1") auto
  from queue_insert_correct [OF ok] obtain i where "queue_inv b'"
    and i: "song_ids b' = list_insert i 3 [1, 2]" "0 < i" "i \<le> 2" "[1, 2] ! (i - 1) = (1 :: u32)"
    by auto
  moreover have "i = 1" using i by (cases "i = 2") auto
  ultimately show ?thesis using ok by (auto simp: list_insert_def)
qed

lemma list_remove_position:
  "position (\<lambda>s. mq_id s = i) q = Some n \<Longrightarrow>
   map mq_id (list_remove n q) = remove1 i (map mq_id q)"
proof (induction q arbitrary: n)
  case (Cons s q)
  then show ?case by (auto simp: list_remove_def split: if_splits)
qed simp

text \<open>
  An accepted removal keeps the queue invariant and takes exactly the first song of that
  id out of the queue.
\<close>

theorem queue_remove_correct:
  assumes "remove_music_queue_entry now b i = (Inr e, b')"
  shows "queue_inv b' \<and> mq_id e = i \<and> song_ids b' = remove1 i (song_ids b)"
proof -
  obtain n where n: "position (\<lambda>s. mq_id s = i) (mb_queue b) = Some n"
    using assms by (auto simp: remove_music_queue_entry_def split: option.splits)
  have ids: "map mq_id (list_remove n (mb_queue b)) = remove1 i (song_ids b)"
    using list_remove_position [OF n] by (simp add: song_ids_def)
  have e: "e = mb_queue b ! n" and inv: "queue_inv b'"
    and q: "song_ids b' = map mq_id (list_remove n (mb_queue b))"
    using assms n by (auto simp: remove_music_queue_entry_def Let_def song_ids_def normalize_queue)
  show ?thesis using position_Some [OF n] e inv q ids by simp
qed

text \<open>
  Reordering a song behind a song that exists keeps the invariant and the songs of the
  queue. Reordering it behind an id that is not in the queue answers that the song was not found
  and has already taken the song out: it is lost.
\<close>

theorem queue_reorder_cases:
  assumes "i \<in> set (song_ids b)"
    and "reorder_music_queue_entry now b i prev = (res, b')"
  shows "(prev = 0 \<or> prev \<in> set (remove1 i (song_ids b)) \<longrightarrow>
            res = Inr () \<and> queue_inv b' \<and> mset (song_ids b') = mset (song_ids b))
         \<and> (prev \<noteq> 0 \<and> prev \<notin> set (remove1 i (song_ids b)) \<longrightarrow>
            res = Inl song_not_found \<and> song_ids b' = remove1 i (song_ids b))"
proof -
  have "position (\<lambda>s. mq_id s = i) (mb_queue b) \<noteq> None" using assms(1) by (auto simp: song_ids_def)
  then obtain n where n: "position (\<lambda>s. mq_id s = i) (mb_queue b) = Some n" by blast
  let ?q = "list_remove n (mb_queue b)" and ?e = "mb_queue b ! n"
  have rm: "map mq_id ?q = remove1 i (song_ids b)"
    using list_remove_position [OF n] by (simp add: song_ids_def)
  have e: "mq_id ?e = i" using position_Some [OF n] by simp
  have perm: "add_mset i (mset (map mq_id ?q)) = mset (song_ids b)"
    using assms(1) by (simp add: rm)
  have found: "position (\<lambda>s. mq_id s = prev) ?q = None \<longleftrightarrow> prev \<notin> set (remove1 i (song_ids b))"
    unfolding rm [symmetric] by auto
  show ?thesis
  proof (cases "prev \<noteq> 0 \<and> prev \<notin> set (remove1 i (song_ids b))")
    case True
    then have "(res, b') = (Inl song_not_found, b\<lparr>mb_queue := ?q\<rparr>)"
      using assms(2) n found by (simp add: reorder_music_queue_entry_def Let_def del: position_None)
    then show ?thesis using True rm by (simp add: song_ids_def)
  next
    case False
    then have "(if prev = 0 then Some 0
        else map_option Suc (position (\<lambda>s. mq_id s = prev) ?q)) \<noteq> None"
      using found by (auto simp del: position_None)
    then obtain k where "(if prev = 0 then Some 0
        else map_option Suc (position (\<lambda>s. mq_id s = prev) ?q)) = Some k" by blast
    then have "(res, b') = (Inr (), normalize_music_bot_queue now
        (b\<lparr>mb_queue := list_insert (min k (length ?q)) ?e ?q\<rparr>))"
      using assms(2) n by (auto simp: reorder_music_queue_entry_def Let_def split: if_splits)
    moreover have "mset (list_insert (min k (length ?q)) (mq_id ?e) (map mq_id ?q)) = mset (song_ids b)"
      using perm e by simp
    ultimately show ?thesis using False by (simp add: song_ids_def normalize_queue map_list_insert)
  qed
qed

theorem queue_reorder_cases_witness:
  "\<exists>b'. reorder_music_queue_entry 5 (demo_bot [1, 2, 3]) 2 9 = (Inl song_not_found, b')
        \<and> song_ids b' = [1, 3]"
proof -
  let ?r = "reorder_music_queue_entry 5 (demo_bot [1, 2, 3]) 2 9"
  have ids: "song_ids (demo_bot [1, 2, 3]) = [1, 2, 3]" by code_simp
  then have mem: "2 \<in> set (song_ids (demo_bot [1, 2, 3]))" by simp
  show ?thesis
    using queue_reorder_cases [OF mem, of 5 9 "fst ?r" "snd ?r"] by (auto simp: ids prod_eq_iff)
qed

end
