(* ===== verification/Channel_Handlers.thy ===== *)
theory Channel_Handlers
  imports Permissions Channel_Tree Music_Queue
begin

text \<open>
  The channel commands, \<open>runtime/handlers/channel.rs\<close>, and the removal of empty temporary channels,
  \<open>runtime/normalization_and_helpers.rs\<close>. A handler takes the request, the session and the runtime and
  returns the response with the runtime (and the session, when the code changes it) as they are
  when it returns, also when it returns an error.

  \<open>channeledit\<close>, \<open>channelmove\<close> and \<open>channellist\<close> call the ancestor walk and are \<open>None\<close> when it does
  not end.
\<close>

subsection \<open>Arguments\<close>

definition arg :: "command_request \<Rightarrow> string \<Rightarrow> string option" where
  "arg request name = bt_get (named_args request) name"

definition arg_u32 :: "command_request \<Rightarrow> string \<Rightarrow> u32 option" where
  "arg_u32 request name = Option.bind (arg request name) parse_word"

definition arg_given :: "command_request \<Rightarrow> string \<Rightarrow> bool" where
  "arg_given request name = bt_contains_key (named_args request) name"

text \<open>\<open>get(a).or_else(|| get(b)).and_then(parse)\<close>.\<close>

definition arg2_u32 :: "command_request \<Rightarrow> string \<Rightarrow> string \<Rightarrow> u32 option" where
  "arg2_u32 request a b = Option.bind (or_else (arg request a) (arg request b)) parse_word"

text \<open>The two checks every channel command starts with: an actor, then a selected server.\<close>

definition require_server :: "query_session \<Rightarrow> query_response + u32" where
  "require_server session =
     (if \<not> session_has_permission_actor session then Inl (response_error 521 ''login required'')
      else case qs_selected_virtual_server_id session of
             None \<Rightarrow> Inl (response_error 522 ''virtual server selection required'')
           | Some server_id \<Rightarrow> Inr server_id)"

lemma require_server_error: "require_server session = Inl e \<Longrightarrow> error_id e \<noteq> 0"
  by (auto simp: require_server_def response_defs split: if_splits option.splits)

definition put_channels :: "u32 \<Rightarrow> channel list \<Rightarrow> baseline_runtime \<Rightarrow> baseline_runtime" where
  "put_channels server_id channels r =
     upd_store (\<lambda>s. s\<lparr>st_channels := bt_update server_id (\<lambda>_. channels) (st_channels s)\<rparr>) r"

definition save_channel :: "u32 \<Rightarrow> channel \<Rightarrow> runtime_effect list" where
  "save_channel server_id c = [DbSaveChannel RuntimeDb server_id c, DbSaveChannel StoreDb server_id c]"

subsection \<open>Rows\<close>

definition apply_channel_kind_rows :: "row \<Rightarrow> channel_kind \<Rightarrow> row" where
  "apply_channel_kind_rows row kind =
     bt_insert ''channel_flag_semi_permanent'' (flag_string (kind = SemiPermanent))
       (bt_insert ''channel_flag_permanent'' (flag_string (kind = Permanent)) row)"

definition channel_info_row :: "baseline_runtime \<Rightarrow> u32 \<Rightarrow> channel \<Rightarrow> row" where
  "channel_info_row r server_id c =
     (let base = insert_fields
            [(''cid'', word_to_string (ch_id c)),
             (''pid'', word_to_string (ch_parent_id c)),
             (''channel_order'', word_to_string (ch_order c)),
             (''channel_name'', ch_name c),
             (''channel_topic'', ch_topic c),
             (''channel_description'', ch_description c),
             (''channel_password'', ch_password c),
             (''channel_codec'', word_to_string (ch_codec c)),
             (''channel_codec_quality'', word_to_string (ch_codec_quality c)),
             (''channel_maxclients'', int_to_string (ch_maxclients c)),
             (''channel_maxfamilyclients'', int_to_string (ch_maxfamilyclients c))] [];
          kinds = apply_channel_kind_rows base (ch_kind c);
          power = (\<lambda>n. int_to_string (permission_power c n))
      in insert_fields
           [(''channel_flag_default'',
             flag_string (default_channel_id_for_server r server_id = Some (ch_id c))),
            (''channel_flag_password'', flag_string (ch_flag_password c \<or> ch_password c \<noteq> [])),
            (''channel_flag_maxclients_unlimited'', flag_string (ch_maxclients c < 0)),
            (''channel_flag_maxfamilyclients_unlimited'', flag_string (ch_maxfamilyclients c < 0)),
            (''cpid'', word_to_string (ch_parent_id c)),
            (''channel_needed_talk_power'', int_to_string (needed_talk_power c)),
            (''i_channel_needed_join_power'', power ''i_channel_needed_join_power''),
            (''i_channel_needed_subscribe_power'', power ''i_channel_needed_subscribe_power''),
            (''i_channel_needed_description_view_power'',
             power ''i_channel_needed_description_view_power''),
            (''i_channel_needed_modify_power'', power ''i_channel_needed_modify_power''),
            (''i_channel_needed_delete_power'', power ''i_channel_needed_delete_power''),
            (''channel_icon_id'', power ''i_icon_id''),
            (''total_clients'', word_to_string (client_count_in_channel r server_id (ch_id c)))] kinds)"

definition handle_channelinfo :: "command_request \<Rightarrow> query_session \<Rightarrow> baseline_runtime \<Rightarrow> query_response" where
  "handle_channelinfo request session r =
     (case require_server session of
        Inl e \<Rightarrow> e
      | Inr server_id \<Rightarrow>
        (case arg_u32 request ''cid'' of
           None \<Rightarrow> response_error 512 ''cid is required''
         | Some channel_id \<Rightarrow>
           (case channel_by_id r server_id channel_id of
              None \<Rightarrow> response_error 768 ''channel not found''
            | Some c \<Rightarrow> response_ok_row (channel_info_row r server_id c))))"

subsection \<open>Creating\<close>

definition needed_power_args :: "(string \<times> string) list" where
  "needed_power_args =
     [(''i_channel_needed_join_power'', ''i_channel_needed_join_power''),
      (''channel_needed_join_power'', ''i_channel_needed_join_power''),
      (''i_channel_needed_subscribe_power'', ''i_channel_needed_subscribe_power''),
      (''channel_needed_subscribe_power'', ''i_channel_needed_subscribe_power''),
      (''i_channel_needed_description_view_power'', ''i_channel_needed_description_view_power''),
      (''channel_needed_description_view_power'', ''i_channel_needed_description_view_power''),
      (''i_channel_needed_modify_power'', ''i_channel_needed_modify_power''),
      (''channel_needed_modify_power'', ''i_channel_needed_modify_power''),
      (''i_channel_needed_delete_power'', ''i_channel_needed_delete_power''),
      (''channel_needed_delete_power'', ''i_channel_needed_delete_power''),
      (''channel_icon_id'', ''i_icon_id''),
      (''i_icon_id'', ''i_icon_id'')]"

definition apply_power_args :: "command_request \<Rightarrow> channel \<Rightarrow> channel" where
  "apply_power_args request c =
     (let talked =
            (case Option.bind
                    (or_else (arg request ''channel_needed_talk_power'')
                       (arg request ''i_channel_needed_talk_power''))
                    (parse_int 64) of
               None \<Rightarrow> c | Some v \<Rightarrow> set_needed_talk_power v c)
      in fold (\<lambda>(arg_key, perm_name) c.
                 case Option.bind (arg request arg_key) (parse_int 64) of
                   None \<Rightarrow> c | Some v \<Rightarrow> set_permission_power perm_name v c)
           needed_power_args talked)"

definition limit_arg :: "command_request \<Rightarrow> string \<Rightarrow> string \<Rightarrow> int" where
  "limit_arg request name unlimited_flag =
     (if named_flag request unlimited_flag \<and> \<not> arg_given request name then -1
      else unwrap_or (-1) (Option.bind (arg request name) (parse_int 32)))"

definition new_channel :: "command_request \<Rightarrow> u32 \<Rightarrow> u32 \<Rightarrow> channel_kind \<Rightarrow> string \<Rightarrow> bool \<Rightarrow> channel" where
  "new_channel request channel_id parent_id kind name make_default =
     (let password = unwrap_or [] (arg request ''channel_password'') in
      apply_power_args request
        \<lparr>ch_id = channel_id, ch_parent_id = parent_id, ch_order = 0, ch_kind = kind, ch_name = name,
         ch_topic = unwrap_or [] (arg request ''channel_topic''),
         ch_description = unwrap_or [] (arg request ''channel_description''),
         ch_password = password,
         ch_codec = unwrap_or 4 (arg_u32 request ''channel_codec''),
         ch_codec_quality = unwrap_or 6 (arg_u32 request ''channel_codec_quality''),
         ch_maxclients =
           limit_arg request ''channel_maxclients'' ''channel_flag_maxclients_unlimited'',
         ch_maxfamilyclients =
           limit_arg request ''channel_maxfamilyclients'' ''channel_flag_maxfamilyclients_unlimited'',
         ch_flag_default = make_default,
         ch_flag_password = (password \<noteq> [] \<or> named_flag request ''channel_flag_password''),
         ch_permissions = []\<rparr>)"

definition create_permission :: "channel_kind \<Rightarrow> string" where
  "create_permission kind =
     (case kind of
        Temporary \<Rightarrow> ''b_channel_create_temporary''
      | SemiPermanent \<Rightarrow> ''b_channel_create_semi_permanent''
      | Permanent \<Rightarrow> ''b_channel_create_permanent'')"

definition next_channel_id :: "baseline_runtime \<Rightarrow> channel list \<Rightarrow> u32" where
  "next_channel_id r channels =
     max (sat_add (unwrap_or 0
            (iter_max (map ch_id (concat (bt_values (st_channels (rt_store r))))))) 1)
         (sat_add (unwrap_or 0 (iter_max (map ch_id channels))) 1)"

definition create_checks ::
    "command_request \<Rightarrow> perm_map \<Rightarrow> channel_kind \<Rightarrow> u32 \<Rightarrow> u32 option \<Rightarrow> perm_check" where
  "create_checks request perms kind parent_id requested_order =
     (let need = (\<lambda>n. check_required_permission perms [n] n) in
      first_failed
        [need (create_permission kind),
         check_when (parent_id \<noteq> 0) (need ''b_channel_create_child''),
         check_when (arg_given request ''channel_topic'') (need ''b_channel_create_with_topic''),
         check_when (arg_given request ''channel_description'')
           (need ''b_channel_create_with_description''),
         check_when (requested_order \<noteq> None) (need ''b_channel_create_with_sortorder'')])"

definition create_commit ::
    "command_request \<Rightarrow> u32 \<Rightarrow> u32 \<Rightarrow> channel_kind \<Rightarrow> string \<Rightarrow> bool \<Rightarrow> channel list \<Rightarrow> u32 list \<Rightarrow>
     nat \<Rightarrow> baseline_runtime \<Rightarrow> query_response \<times> baseline_runtime" where
  "create_commit request server_id parent_id kind channel_name make_default channels sibling_ids
     insert_index r =
     (let channel_id = next_channel_id r channels;
          cleared = (if make_default then map (ch_flag_default_update (\<lambda>_. False)) channels
                     else channels);
          pushed = cleared
            @ [new_channel request channel_id parent_id kind channel_name make_default];
          linked = relink_sibling_orders pushed parent_id
                     (insert_at insert_index channel_id sibling_ids);
          saved = concat (map (save_channel server_id)
            (filter (\<lambda>c. ch_parent_id c = parent_id \<or> make_default) linked))
      in (response_ok_row (bt_insert ''cid'' (word_to_string channel_id) []),
          emit saved (put_channels server_id linked r)))"

definition handle_channelcreate ::
    "command_request \<Rightarrow> query_session \<Rightarrow> baseline_runtime \<Rightarrow> query_response \<times> baseline_runtime" where
  "handle_channelcreate request session r =
     (case require_server session of
        Inl e \<Rightarrow> (e, r)
      | Inr server_id \<Rightarrow>
     (case arg request ''channel_name'' of
        None \<Rightarrow> (response_error 512 ''channel_name is required'', r)
      | Some channel_name \<Rightarrow>
     (let parent_id = unwrap_or 0 (arg2_u32 request ''cpid'' ''pid'');
          requested_order = arg2_u32 request ''order'' ''channel_order'';
          make_default = named_flag request ''channel_flag_default'';
          kind = (if make_default then Permanent else channel_kind_from_request_flags request) in
      case query_actor_effective_permissions r session of
        Inl e \<Rightarrow> (e, r)
      | Inr (_, actor_permissions) \<Rightarrow>
     (case create_checks request actor_permissions kind parent_id requested_order of
        Inl p \<Rightarrow> (insufficient_permission_response r p, r)
      | Inr _ \<Rightarrow>
     (case server_channels r server_id of
        None \<Rightarrow> (response_error 768 ''virtual server channels not found'', r)
      | Some channels \<Rightarrow>
      if parent_id \<noteq> 0 \<and> \<not> list_ex (\<lambda>c. ch_id c = parent_id) channels
      then (response_error 768 ''parent channel not found'', r)
      else
        let sibling_ids = ordered_sibling_ids channels parent_id None in
        case resolve_insert_index sibling_ids requested_order of
          None \<Rightarrow> (response_error 768 ''sort order anchor not found'', r)
        | Some insert_index \<Rightarrow>
            create_commit request server_id parent_id kind channel_name make_default channels
              sibling_ids insert_index r)))))"

subsection \<open>Deleting\<close>

definition delete_permission :: "channel_kind \<Rightarrow> string" where
  "delete_permission kind =
     (case kind of
        Permanent \<Rightarrow> ''b_channel_delete_permanent''
      | SemiPermanent \<Rightarrow> ''b_channel_delete_semi_permanent''
      | Temporary \<Rightarrow> ''b_channel_delete_temporary'')"

definition delete_checks :: "perm_map \<Rightarrow> channel \<Rightarrow> u32 \<Rightarrow> u32 \<Rightarrow> perm_check" where
  "delete_checks perms target force client_count =
     first_failed
       [check_required_permission perms
          [delete_permission (ch_kind target), ''b_channel_delete_permanent'']
          (delete_permission (ch_kind target)),
        check_when (force = 1 \<and> 0 < client_count)
          (check_required_permission perms [''b_channel_delete_flag_force'']
             ''b_channel_delete_flag_force''),
        check_channel_delete_power_allowed perms (ch_permissions target)]"

definition bots_in_channels :: "in_memory_store \<Rightarrow> u32 \<Rightarrow> u32 list \<Rightarrow> (u32 \<times> u64) list" where
  "bots_in_channels s server_id to_delete =
     List.map_filter
       (\<lambda>(bot_id, b).
          Option.bind (mb_linked_client_id b) (\<lambda>clid.
          Option.bind (map_option oc_channel_id (bt_get (st_online_clients s) clid)) (\<lambda>cid.
            if mb_server_id b = server_id \<and> cid \<in> set to_delete then Some (bot_id, clid) else None)))
       (st_music_bots s)"

definition drop_bots :: "(u32 \<times> u64) list \<Rightarrow> in_memory_store \<Rightarrow> in_memory_store" where
  "drop_bots bots s =
     fold (\<lambda>(bot_id, clid) s.
             s\<lparr>st_music_bots := bt_remove bot_id (st_music_bots s),
               st_online_clients := bt_remove clid (st_online_clients s)\<rparr>) bots s"

definition reassign_clients :: "u32 \<Rightarrow> u32 list \<Rightarrow> u32 \<Rightarrow> in_memory_store \<Rightarrow> in_memory_store" where
  "reassign_clients server_id to_delete default_cid s =
     s\<lparr>st_online_clients :=
         bt_map_values
           (\<lambda>c. if oc_server_id c = server_id \<and> oc_channel_id c \<in> set to_delete
                then c\<lparr>oc_channel_id := default_cid\<rparr> else c)
           (st_online_clients s)\<rparr>"

definition forget_channels :: "u32 \<Rightarrow> u32 list \<Rightarrow> in_memory_store \<Rightarrow> in_memory_store" where
  "forget_channels server_id to_delete s =
     s\<lparr>st_channel_group_assignments :=
         filter (\<lambda>a. cga_channel_id a \<notin> set to_delete) (st_channel_group_assignments s),
       st_channel_client_permissions :=
         filter (\<lambda>t. ccp_channel_id t \<notin> set to_delete) (st_channel_client_permissions s),
       st_conversation_messages :=
         bt_update server_id (filter (\<lambda>m. cm_conversation_id m \<notin> set to_delete))
           (st_conversation_messages s)\<rparr>"

definition delete_channels ::
    "(music_bot \<Rightarrow> row) \<Rightarrow> u32 \<Rightarrow> u32 list \<Rightarrow> channel \<Rightarrow> u32 \<Rightarrow> channel list \<Rightarrow>
     baseline_runtime \<Rightarrow> baseline_runtime" where
  "delete_channels extra server_id to_delete target default_cid channels r =
     (let kept = filter (\<lambda>c. ch_id c \<notin> set to_delete) channels;
          linked = relink_sibling_orders kept (ch_parent_id target)
                     (ordered_sibling_ids kept (ch_parent_id target) None);
          r1 = emit (concat (map (\<lambda>i. [DbDeleteChannel RuntimeDb server_id i,
                                       DbDeleteChannel StoreDb server_id i]) to_delete))
                 (put_channels server_id linked r);
          bots = bots_in_channels (rt_store r1) server_id to_delete;
          r2 = (if ch_kind target = Temporary then upd_store (drop_bots bots) r1 else r1);
          r3 = upd_store (reassign_clients server_id to_delete default_cid) r2;
          r4 = (if ch_kind target \<noteq> Temporary
                then fold (\<lambda>(bot_id, _). sync_music_bot_client_state extra bot_id) bots r3
                else r3)
      in upd_store (forget_channels server_id to_delete) r4)"

definition handle_channeldelete ::
    "(music_bot \<Rightarrow> row) \<Rightarrow> command_request \<Rightarrow> query_session \<Rightarrow> baseline_runtime \<Rightarrow>
     query_response \<times> query_session \<times> baseline_runtime" where
  "handle_channeldelete extra request session r =
     (case require_server session of
        Inl e \<Rightarrow> (e, session, r)
      | Inr server_id \<Rightarrow>
     (case arg_u32 request ''cid'' of
        None \<Rightarrow> (response_error 512 ''cid is required'', session, r)
      | Some channel_id \<Rightarrow>
     (let force = unwrap_or 1 (arg_u32 request ''force'');
          channel_client_count = client_count_in_channel r server_id channel_id in
      case query_actor_effective_permissions r session of
        Inl e \<Rightarrow> (e, session, r)
      | Inr (_, actor_permissions) \<Rightarrow>
     (case channel_by_id r server_id channel_id of
        None \<Rightarrow> (response_error 768 ''channel not found'', session, r)
      | Some target \<Rightarrow>
     (case delete_checks actor_permissions target force channel_client_count of
        Inl p \<Rightarrow> (insufficient_permission_response r p, session, r)
      | Inr _ \<Rightarrow>
      (let default_cid = unwrap_or 1 (default_channel_id_for_server r server_id) in
      case server_channels r server_id of
        None \<Rightarrow> (response_error 768 ''virtual server channels not found'', session, r)
      | Some channels \<Rightarrow>
          if channel_id = 1 \<or> ch_flag_default target
          then (response_error 770 ''default channel cannot be deleted in baseline'', session, r)
          else if list_ex (\<lambda>c. ch_parent_id c = channel_id) channels \<and> force = 0
          then (response_error 770 ''channel has child channels'', session, r)
          else if 0 < channel_client_count \<and> force = 0
          then (response_error 770 ''channel is not empty'', session, r)
          else
            let to_delete = (if force = 1 then delete_closure channels [channel_id] else [channel_id])
            in (response_ok,
                (case qs_current_channel_id session of
                   Some cid \<Rightarrow> if cid \<in> set to_delete
                               then session\<lparr>qs_current_channel_id := Some default_cid\<rparr> else session
                 | None \<Rightarrow> session),
                delete_channels extra server_id to_delete target default_cid channels r)))))))"

subsection \<open>Editing and moving\<close>

text \<open>The placement both commands share: find the position, move, relink the new and the old siblings.\<close>

definition place_channel :: "channel list \<Rightarrow> u32 \<Rightarrow> u32 \<Rightarrow> u32 \<Rightarrow> nat \<Rightarrow> channel list" where
  "place_channel channels channel_id previous_parent_id parent_id insert_index =
     (let sibling_ids = ordered_sibling_ids channels parent_id (Some channel_id);
          moved = set_parent channels channel_id parent_id;
          linked = relink_sibling_orders moved parent_id
                     (insert_at insert_index channel_id sibling_ids)
      in if previous_parent_id \<noteq> parent_id
         then relink_sibling_orders linked previous_parent_id
                (ordered_sibling_ids linked previous_parent_id (Some channel_id))
         else linked)"

definition handle_channelmove ::
    "command_request \<Rightarrow> query_session \<Rightarrow> baseline_runtime \<Rightarrow> (query_response \<times> baseline_runtime) option" where
  "handle_channelmove request session r =
     (case require_server session of
        Inl e \<Rightarrow> Some (e, r)
      | Inr server_id \<Rightarrow>
     (case arg_u32 request ''cid'' of
        None \<Rightarrow> Some (response_error 512 ''cid is required'', r)
      | Some channel_id \<Rightarrow>
     (case arg2_u32 request ''cpid'' ''pid'' of
        None \<Rightarrow> Some (response_error 512 ''cpid is required'', r)
      | Some parent_id \<Rightarrow>
     (case server_channels r server_id of
        None \<Rightarrow> Some (response_error 768 ''virtual server channels not found'', r)
      | Some channels \<Rightarrow>
     (case List.find (\<lambda>c. ch_id c = channel_id) channels of
        None \<Rightarrow> Some (response_error 768 ''channel not found'', r)
      | Some c \<Rightarrow>
      if parent_id \<noteq> 0 \<and> \<not> list_ex (\<lambda>c. ch_id c = parent_id) channels
      then Some (response_error 768 ''parent channel not found'', r)
      else Option.bind
        (if channel_id = parent_id then Some True
         else channel_is_descendant channels parent_id channel_id)
        (\<lambda>below_itself.
           if below_itself then Some (response_error 770 ''channel cannot be moved below itself'', r)
           else
             case resolve_insert_index (ordered_sibling_ids channels parent_id (Some channel_id))
                    (arg2_u32 request ''order'' ''channel_order'') of
               None \<Rightarrow> Some (response_error 768 ''sort order anchor not found'', r)
             | Some insert_index \<Rightarrow>
                 let linked = place_channel channels channel_id (ch_parent_id c) parent_id insert_index;
                     saved = concat (map (save_channel server_id)
                       (filter (\<lambda>d. ch_parent_id d = parent_id \<or> ch_parent_id d = ch_parent_id c) linked))
                 in Some (response_ok, emit saved (put_channels server_id linked r))))))))"

text \<open>\<open>if let Some(v) = .. { set }\<close>.\<close>

definition edit_value :: "'a option \<Rightarrow> ('a \<Rightarrow> channel \<Rightarrow> channel) \<Rightarrow> channel \<Rightarrow> channel" where
  "edit_value v setter c = (case v of None \<Rightarrow> c | Some x \<Rightarrow> setter x c)"

definition edit_password :: "command_request \<Rightarrow> channel \<Rightarrow> channel" where
  "edit_password request c =
     edit_value (arg request ''channel_flag_password'')
       (\<lambda>f c. if \<not> runtime_bool_flag f \<and> \<not> arg_given request ''channel_password''
              then c\<lparr>ch_flag_password := False, ch_password := []\<rparr>
              else c\<lparr>ch_flag_password := runtime_bool_flag f\<rparr>)
       (edit_value (arg request ''channel_password'')
          (\<lambda>p c. c\<lparr>ch_password := p, ch_flag_password := (p \<noteq> [])\<rparr>) c)"

definition edit_unlimited ::
    "command_request \<Rightarrow> string \<Rightarrow> string \<Rightarrow> (channel \<Rightarrow> channel) \<Rightarrow> channel \<Rightarrow> channel" where
  "edit_unlimited request flag name setter c =
     (if named_flag request flag \<and> \<not> arg_given request name then setter c else c)"

definition edit_limits :: "command_request \<Rightarrow> channel \<Rightarrow> channel" where
  "edit_limits request c =
     edit_unlimited request ''channel_flag_maxfamilyclients_unlimited'' ''channel_maxfamilyclients''
       (ch_maxfamilyclients_update (\<lambda>_. -1))
     (edit_value (Option.bind (arg request ''channel_maxfamilyclients'') (parse_int 32))
       (\<lambda>v. ch_maxfamilyclients_update (\<lambda>_. v))
     (edit_unlimited request ''channel_flag_maxclients_unlimited'' ''channel_maxclients''
       (ch_maxclients_update (\<lambda>_. -1))
     (edit_value (Option.bind (arg request ''channel_maxclients'') (parse_int 32))
       (\<lambda>v. ch_maxclients_update (\<lambda>_. v))
     (edit_value (arg_u32 request ''channel_codec_quality'')
       (\<lambda>v. ch_codec_quality_update (\<lambda>_. v))
     (edit_value (arg_u32 request ''channel_codec'') (\<lambda>v. ch_codec_update (\<lambda>_. v)) c)))))"

definition edit_kind :: "command_request \<Rightarrow> bool \<Rightarrow> channel \<Rightarrow> channel" where
  "edit_kind request make_default c =
     (if make_default then c\<lparr>ch_kind := Permanent\<rparr>
      else if arg_given request ''channel_flag_semi_permanent''
              \<or> arg_given request ''channel_flag_permanent''
              \<or> arg_given request ''channel_flag_temporary''
      then c\<lparr>ch_kind :=
             (if named_flag request ''channel_flag_temporary'' then Temporary
              else channel_kind_from_flags (named_flag request ''channel_flag_permanent'')
                     (named_flag request ''channel_flag_semi_permanent''))\<rparr>
      else c)"

definition edit_channel :: "command_request \<Rightarrow> bool \<Rightarrow> channel \<Rightarrow> channel" where
  "edit_channel request make_default c =
     edit_kind request make_default
       (apply_power_args request
         (edit_limits request
           (edit_password request
             (edit_value (arg request ''channel_description'') (\<lambda>v. ch_description_update (\<lambda>_. v))
               (edit_value (arg request ''channel_topic'') (\<lambda>v. ch_topic_update (\<lambda>_. v))
                 (edit_value (arg request ''channel_name'') (\<lambda>v. ch_name_update (\<lambda>_. v)) c))))))"

definition edit_checks :: "command_request \<Rightarrow> perm_map \<Rightarrow> perm_map \<Rightarrow> perm_check" where
  "edit_checks request perms target_permissions =
     first_failed
       [check_channel_modify_power_allowed perms target_permissions,
        check_when (arg_given request ''channel_name'')
          (check_required_permission perms [''b_channel_modify_name''] ''b_channel_modify_name''),
        check_when (arg_given request ''channel_topic'')
          (check_required_permission perms [''b_channel_modify_topic''] ''b_channel_modify_topic''),
        check_when (arg_given request ''channel_description'')
          (check_required_permission perms [''b_channel_modify_description'']
             ''b_channel_modify_description'')]"

text \<open>
  The placement inside \<open>channeledit\<close>: an error response, or the channels with the placement applied;
  a sort anchor that is not found leaves them as they are.
\<close>

definition edit_placement ::
    "command_request \<Rightarrow> u32 \<Rightarrow> channel list \<Rightarrow> (query_response + channel list) option" where
  "edit_placement request channel_id channels =
     (let requested_cpid = arg2_u32 request ''cpid'' ''pid'';
          requested_order = arg2_u32 request ''channel_order'' ''order'' in
      if requested_cpid = None \<and> requested_order = None then Some (Inr channels)
      else case List.find (\<lambda>c. ch_id c = channel_id) channels of
             None \<Rightarrow> Some (Inr channels)
           | Some c \<Rightarrow>
               let target_parent_id = unwrap_or (ch_parent_id c) requested_cpid in
               if target_parent_id \<noteq> 0 \<and> \<not> list_ex (\<lambda>c. ch_id c = target_parent_id) channels
               then Some (Inl (response_error 768 ''parent channel not found''))
               else Option.bind
                 (if channel_id = target_parent_id then Some True
                  else channel_is_descendant channels target_parent_id channel_id)
                 (\<lambda>below_itself.
                    if below_itself
                    then Some (Inl (response_error 770 ''channel cannot be moved below itself''))
                    else case resolve_insert_index
                                (ordered_sibling_ids channels target_parent_id (Some channel_id))
                                requested_order of
                           None \<Rightarrow> Some (Inr channels)
                         | Some insert_index \<Rightarrow>
                             Some (Inr (place_channel channels channel_id (ch_parent_id c)
                                          target_parent_id insert_index))))"

definition handle_channeledit ::
    "command_request \<Rightarrow> query_session \<Rightarrow> baseline_runtime \<Rightarrow> (query_response \<times> baseline_runtime) option" where
  "handle_channeledit request session r =
     (case require_server session of
        Inl e \<Rightarrow> Some (e, r)
      | Inr server_id \<Rightarrow>
     (case arg_u32 request ''cid'' of
        None \<Rightarrow> Some (response_error 512 ''cid is required'', r)
      | Some channel_id \<Rightarrow>
     (case query_actor_effective_permissions r session of
        Inl e \<Rightarrow> Some (e, r)
      | Inr (_, actor_permissions) \<Rightarrow>
     (case server_channels r server_id of
        None \<Rightarrow> Some (response_error 768 ''channel not found'', r)
      | Some channels \<Rightarrow>
     (case List.find (\<lambda>c. ch_id c = channel_id) channels of
        None \<Rightarrow> Some (response_error 768 ''channel not found'', r)
      | Some c \<Rightarrow>
     (case edit_checks request actor_permissions (ch_permissions c) of
        Inl p \<Rightarrow> Some (insufficient_permission_response r p, r)
      | Inr _ \<Rightarrow>
      (let make_default = named_flag request ''channel_flag_default'';
           channels1 = (if make_default
                        then map (\<lambda>c. c\<lparr>ch_flag_default := (ch_id c = channel_id)\<rparr>) channels
                        else channels) in
       Option.bind (edit_placement request channel_id channels1)
         (\<lambda>placed. case placed of
              Inl e \<Rightarrow> Some (e, put_channels server_id channels1 r)
            | Inr channels2 \<Rightarrow>
                let edited = update_first (\<lambda>c. ch_id c = channel_id)
                               (edit_channel request make_default) channels2
                in Some (response_ok,
                         emit (concat (map (save_channel server_id) edited))
                           (put_channels server_id edited r))))))))))"

subsection \<open>Listing\<close>

definition family_client_count_in_channel :: "baseline_runtime \<Rightarrow> u32 \<Rightarrow> u32 \<Rightarrow> u32 option" where
  "family_client_count_in_channel r server_id channel_id =
     (case server_channels r server_id of
        None \<Rightarrow> Some 0
      | Some channels \<Rightarrow>
          map_option (\<lambda>n. of_nat n)
            (fold (\<lambda>c acc. Option.bind acc (\<lambda>n.
                if oc_server_id c \<noteq> server_id then Some n
                else if oc_channel_id c = channel_id then Some (Suc n)
                else map_option (\<lambda>b. if b then Suc n else n)
                       (channel_is_descendant channels (oc_channel_id c) channel_id)))
              (bt_values (st_online_clients (rt_store r))) (Some (0 :: nat))))"

definition channel_list_row ::
    "command_request \<Rightarrow> baseline_runtime \<Rightarrow> u32 \<Rightarrow> u32 option \<Rightarrow> channel \<Rightarrow> row option" where
  "channel_list_row request r server_id default_cid c =
     (let base = bt_insert ''total_clients''
                   (word_to_string (client_count_in_channel r server_id (ch_id c)))
                 (apply_channel_kind_rows
                   (insert_fields
                     [(''cid'', word_to_string (ch_id c)),
                      (''pid'', word_to_string (ch_parent_id c)),
                      (''channel_order'', word_to_string (ch_order c)),
                      (''channel_name'', ch_name c),
                      (''channel_topic'', ch_topic c)] []) (ch_kind c));
          flagged =
            (if ''flags'' \<in> set (flags request)
             then insert_fields
               [(''channel_flag_default'', flag_string (default_cid = Some (ch_id c))),
                (''channel_flag_password'', flag_string (ch_flag_password c \<or> ch_password c \<noteq> []))] base
             else base);
          voiced =
            (if ''voice'' \<in> set (flags request)
             then insert_fields
               [(''channel_codec'', word_to_string (ch_codec c)),
                (''channel_codec_quality'', word_to_string (ch_codec_quality c)),
                (''channel_needed_talk_power'', int_to_string (needed_talk_power c))] flagged
             else flagged)
      in if ''limits'' \<in> set (flags request)
         then map_option (\<lambda>n. insert_fields
                [(''total_clients_family'', word_to_string n),
                 (''channel_maxclients'', int_to_string (ch_maxclients c)),
                 (''channel_maxfamilyclients'', int_to_string (ch_maxfamilyclients c))] voiced)
                (family_client_count_in_channel r server_id (ch_id c))
         else Some voiced)"

definition handle_channellist ::
    "command_request \<Rightarrow> query_session \<Rightarrow> baseline_runtime \<Rightarrow> query_response option" where
  "handle_channellist request session r =
     (case qs_selected_virtual_server_id session of
        None \<Rightarrow> Some (response_error 522 ''virtual server selection required'')
      | Some server_id \<Rightarrow>
          map_option response_ok_rows
            (those (map (channel_list_row request r server_id
                           (default_channel_id_for_server r server_id))
                      (unwrap_or [] (server_channels r server_id)))))"

fun str_contains :: "string \<Rightarrow> string \<Rightarrow> bool" where
  "str_contains pat [] = (pat = [])"
| "str_contains pat (c # cs) = (starts_with pat (c # cs) \<or> str_contains pat cs)"

definition trim_percent :: "string \<Rightarrow> string" where
  "trim_percent s =
     rev (dropWhile (\<lambda>c. c = CHR ''%'') (rev (dropWhile (\<lambda>c. c = CHR ''%'') s)))"

definition handle_channelfind :: "command_request \<Rightarrow> query_session \<Rightarrow> baseline_runtime \<Rightarrow> query_response" where
  "handle_channelfind request session r =
     (case require_server session of
        Inl e \<Rightarrow> e
      | Inr server_id \<Rightarrow>
        (case arg request ''pattern'' of
           None \<Rightarrow> response_error 512 ''pattern is required''
         | Some pattern \<Rightarrow>
             let normalized_pattern = to_ascii_lowercase (trim_percent pattern);
                 found =
                   map (\<lambda>c. bt_insert ''channel_name'' (ch_name c)
                              (bt_insert ''cid'' (word_to_string (ch_id c)) []))
                     (filter (\<lambda>c. str_contains normalized_pattern (to_ascii_lowercase (ch_name c)))
                        (unwrap_or [] (server_channels r server_id)))
             in if found = [] then response_error 0x501 ''database empty result set''
                else response_ok_rows found))"

subsection \<open>Subscriptions\<close>

definition requested_cids :: "command_request \<Rightarrow> u32 list" where
  "requested_cids request =
     (if option_groups request \<noteq> []
      then List.map_filter (\<lambda>g. Option.bind (bt_get g ''cid'') parse_word) (option_groups request)
      else case arg_u32 request ''cid'' of None \<Rightarrow> [] | Some cid \<Rightarrow> [cid])"

definition sync_session_subscribed_channels ::
    "u32 \<Rightarrow> query_session \<Rightarrow> baseline_runtime \<Rightarrow> baseline_runtime" where
  "sync_session_subscribed_channels server_id session r =
     upd_store (\<lambda>s. s\<lparr>st_online_clients :=
       bt_update (qs_client_id session)
         (\<lambda>c. if oc_server_id c = server_id
              then c\<lparr>oc_extra_properties :=
                     bt_insert ''subscribed_channels''
                       (join_with '','' (map word_to_string (qs_subscribed_channels session)))
                       (oc_extra_properties c)\<rparr>
              else c)
         (st_online_clients s)\<rparr>) r"

definition subscribe_denied ::
    "baseline_runtime \<Rightarrow> u32 \<Rightarrow> u64 \<Rightarrow> query_session \<Rightarrow> u32 \<Rightarrow> query_response option" where
  "subscribe_denied r server_id dbid session cid =
     (case effective_permissions_for_client_in_channel_context r server_id cid dbid of
        None \<Rightarrow> None
      | Some perms \<Rightarrow>
          if permission_value_or_default perms [''b_channel_ignore_subscribe_power''] \<le> 0
             \<and> permission_power_max_or_default perms [''i_channel_subscribe_power'']
               < permission_value_or_default perms [''i_channel_needed_subscribe_power'']
          then Some (insufficient_permission_response r ''i_channel_subscribe_power'')
          else case bt_get perms ''i_client_max_channel_subscriptions'' of
                 None \<Rightarrow> None
               | Some max_subs \<Rightarrow>
                   if 0 \<le> pa_value max_subs \<and> cid \<notin> set (qs_subscribed_channels session)
                      \<and> pa_value max_subs \<le> int (length (qs_subscribed_channels session))
                   then Some (insufficient_permission_response r ''i_client_max_channel_subscriptions'')
                   else None)"

fun subscribe_all ::
    "baseline_runtime \<Rightarrow> u32 \<Rightarrow> u64 \<Rightarrow> u32 list \<Rightarrow> query_session \<Rightarrow> query_response option \<times> query_session" where
  "subscribe_all r server_id dbid [] session = (None, session)"
| "subscribe_all r server_id dbid (cid # cids) session =
     (if \<not> channel_exists r server_id cid then (Some (response_error 768 ''channel not found''), session)
      else case subscribe_denied r server_id dbid session cid of
             Some e \<Rightarrow> (Some e, session)
           | None \<Rightarrow>
               subscribe_all r server_id dbid cids
                 (session\<lparr>qs_subscribed_channels := insort_insert cid (qs_subscribed_channels session)\<rparr>))"

definition handle_channelsubscribe ::
    "command_request \<Rightarrow> query_session \<Rightarrow> baseline_runtime \<Rightarrow> query_response \<times> query_session \<times> baseline_runtime" where
  "handle_channelsubscribe request session r =
     (case require_server session of
        Inl e \<Rightarrow> (e, session, r)
      | Inr server_id \<Rightarrow>
          if requested_cids request = [] then (response_error 512 ''cid is required'', session, r)
          else case query_actor_effective_permissions r session of
                 Inl e \<Rightarrow> (e, session, r)
               | Inr (actor, _) \<Rightarrow>
                 (case subscribe_all r server_id (ac_client_database_id actor)
                         (requested_cids request) session of
                    (Some e, session') \<Rightarrow> (e, session', r)
                  | (None, session') \<Rightarrow>
                      (response_ok, session', sync_session_subscribed_channels server_id session' r)))"

fun unsubscribe_all ::
    "baseline_runtime \<Rightarrow> u32 \<Rightarrow> u32 list \<Rightarrow> query_session \<Rightarrow> query_response option \<times> query_session" where
  "unsubscribe_all r server_id [] session = (None, session)"
| "unsubscribe_all r server_id (cid # cids) session =
     (if \<not> channel_exists r server_id cid then (Some (response_error 768 ''channel not found''), session)
      else unsubscribe_all r server_id cids
             (session\<lparr>qs_subscribed_channels := removeAll cid (qs_subscribed_channels session)\<rparr>))"

definition handle_channelunsubscribe ::
    "command_request \<Rightarrow> query_session \<Rightarrow> baseline_runtime \<Rightarrow> query_response \<times> query_session \<times> baseline_runtime" where
  "handle_channelunsubscribe request session r =
     (case require_server session of
        Inl e \<Rightarrow> (e, session, r)
      | Inr server_id \<Rightarrow>
          if requested_cids request = [] then (response_error 512 ''cid is required'', session, r)
          else case unsubscribe_all r server_id (requested_cids request) session of
                 (Some e, session') \<Rightarrow> (e, session', r)
               | (None, session') \<Rightarrow>
                   (response_ok, session', sync_session_subscribed_channels server_id session' r))"

definition may_subscribe :: "baseline_runtime \<Rightarrow> u32 \<Rightarrow> u64 \<Rightarrow> u32 \<Rightarrow> bool" where
  "may_subscribe r server_id dbid cid =
     (case effective_permissions_for_client_in_channel_context r server_id cid dbid of
        None \<Rightarrow> True
      | Some perms \<Rightarrow>
          0 < permission_value_or_default perms [''b_channel_ignore_subscribe_power'']
          \<or> permission_value_or_default perms [''i_channel_needed_subscribe_power'']
            \<le> permission_power_max_or_default perms [''i_channel_subscribe_power''])"

definition handle_channelsubscribeall ::
    "query_session \<Rightarrow> baseline_runtime \<Rightarrow> query_response \<times> query_session \<times> baseline_runtime" where
  "handle_channelsubscribeall session r =
     (case require_server session of
        Inl e \<Rightarrow> (e, session, r)
      | Inr server_id \<Rightarrow>
        (case query_actor_effective_permissions r session of
           Inl e \<Rightarrow> (e, session, r)
         | Inr (actor, _) \<Rightarrow>
             let allowed = filter (may_subscribe r server_id (ac_client_database_id actor))
                             (map ch_id (unwrap_or [] (server_channels r server_id)));
                 session' = session\<lparr>qs_subscribed_channels :=
                              fold insort_insert allowed (qs_subscribed_channels session)\<rparr>
             in (response_ok, session', sync_session_subscribed_channels server_id session' r)))"

definition handle_channelunsubscribeall ::
    "query_session \<Rightarrow> baseline_runtime \<Rightarrow> query_response \<times> query_session \<times> baseline_runtime" where
  "handle_channelunsubscribeall session r =
     (case require_server session of
        Inl e \<Rightarrow> (e, session, r)
      | Inr server_id \<Rightarrow>
          let session' = session\<lparr>qs_subscribed_channels := []\<rparr>
          in (response_ok, session', sync_session_subscribed_channels server_id session' r))"

subsection \<open>Empty temporary channels\<close>

definition snapshot_channel :: "baseline_runtime \<Rightarrow> u32 \<Rightarrow> u32 \<Rightarrow> channel_snapshot option" where
  "snapshot_channel r server_id channel_id =
     map_option
       (\<lambda>c. (snapshot_from_channel c (client_count_in_channel r server_id (ch_id c)))
              \<lparr>cs_flag_default := (default_channel_id_for_server r server_id = Some (ch_id c)
                                   \<or> ch_flag_default c),
               cs_flag_password := (ch_flag_password c \<or> ch_password c \<noteq> [])\<rparr>)
       (channel_by_id r server_id channel_id)"

definition remove_channel_without_session_reassign ::
    "u32 \<Rightarrow> u32 \<Rightarrow> baseline_runtime \<Rightarrow> (unit option) \<times> baseline_runtime" where
  "remove_channel_without_session_reassign server_id channel_id r =
     (case server_channels r server_id of
        None \<Rightarrow> (None, r)
      | Some channels \<Rightarrow>
        (case position (\<lambda>c. ch_id c = channel_id) channels of
           None \<Rightarrow> (None, r)
         | Some channel_index \<Rightarrow>
             let parent_id = ch_parent_id (channels ! channel_index);
                 kept = list_remove channel_index channels;
                 linked = relink_sibling_orders kept parent_id (ordered_sibling_ids kept parent_id None)
             in (Some (),
                 upd_store
                   (\<lambda>s. s\<lparr>st_channel_group_assignments :=
                            filter (\<lambda>a. cga_channel_id a \<noteq> channel_id) (st_channel_group_assignments s),
                          st_channel_client_permissions :=
                            filter (\<lambda>t. ccp_channel_id t \<noteq> channel_id) (st_channel_client_permissions s),
                          st_conversation_messages :=
                            bt_update server_id (filter (\<lambda>m. cm_conversation_id m \<noteq> channel_id))
                              (st_conversation_messages s)\<rparr>)
                   (emit [DbDeleteChannel RuntimeDb server_id channel_id]
                      (put_channels server_id linked r)))))"

definition remove_bot_client :: "u32 \<Rightarrow> u64 \<Rightarrow> baseline_runtime \<Rightarrow> baseline_runtime" where
  "remove_bot_client server_id client_id r =
     upd_store
       (\<lambda>s. s\<lparr>st_music_bots :=
                (case music_bot_id_by_client r server_id client_id of
                   None \<Rightarrow> st_music_bots s
                 | Some bot_id \<Rightarrow> bt_remove bot_id (st_music_bots s)),
              st_online_clients := bt_remove client_id (st_online_clients s)\<rparr>) r"

definition remove_bots ::
    "u32 \<Rightarrow> u64 list \<Rightarrow> baseline_runtime \<Rightarrow> online_client_snapshot option \<times> baseline_runtime" where
  "remove_bots server_id client_ids r =
     fold (\<lambda>client_id (removed, r).
             (or_else removed (online_client_snapshot r server_id client_id),
              remove_bot_client server_id client_id r))
       client_ids (None, r)"

definition cleanup_temporary_channel ::
    "u32 \<Rightarrow> u32 \<Rightarrow> baseline_runtime \<Rightarrow> temporary_channel_cleanup option \<times> baseline_runtime" where
  "cleanup_temporary_channel server_id channel_id r =
     (case snapshot_channel r server_id channel_id of
        None \<Rightarrow> (None, r)
      | Some snapshot \<Rightarrow>
          if cs_kind snapshot \<noteq> Temporary then (None, r)
          else
            let clients_in_channel =
                  map oc_id (filter (\<lambda>c. oc_server_id c = server_id \<and> oc_channel_id c = channel_id)
                    (bt_values (st_online_clients (rt_store r))));
                all_are_music_bots =
                  clients_in_channel \<noteq> []
                  \<and> list_all (\<lambda>cid. case online_client_snapshot r server_id cid of
                                     None \<Rightarrow> False | Some s \<Rightarrow> os_client_type_exact s = 4)
                      clients_in_channel;
                (removed_client, r1) =
                  (if all_are_music_bots
                   then (case remove_bots server_id clients_in_channel r of
                           (removed, r') \<Rightarrow> (removed, emit [PersistState] r'))
                   else (None, r));
                (removed_channel, r2) =
                  (if client_count_in_channel r1 server_id channel_id = 0
                      \<and> (case server_channels r1 server_id of
                           None \<Rightarrow> False
                         | Some channels \<Rightarrow> \<not> list_ex (\<lambda>c. ch_parent_id c = channel_id) channels)
                   then (case remove_channel_without_session_reassign server_id channel_id r1 of
                           (done, r') \<Rightarrow> (map_option (\<lambda>_. snapshot) done, r'))
                   else (None, r1))
            in if removed_client = None \<and> removed_channel = None then (None, r2)
               else (Some \<lparr>tcc_removed_client = removed_client, tcc_removed_channel = removed_channel\<rparr>, r2))"

fun cleanup_loop ::
    "u32 \<Rightarrow> u32 list \<Rightarrow> u32 list \<Rightarrow> baseline_runtime \<Rightarrow>
     temporary_channel_cleanup list \<times> baseline_runtime" where
  "cleanup_loop server_id seen [] r = ([], r)"
| "cleanup_loop server_id seen (cid # cids) r =
     (if cid \<in> set seen then cleanup_loop server_id seen cids r
      else case cleanup_temporary_channel server_id cid r of
             (cleanup, r1) \<Rightarrow>
               (case cleanup_loop server_id (insort_insert cid seen) cids r1 of
                  (cleanups, r2) \<Rightarrow>
                    ((case cleanup of None \<Rightarrow> cleanups | Some c \<Rightarrow> c # cleanups), r2)))"

definition cleanup_temporary_channels ::
    "u32 \<Rightarrow> u32 list \<Rightarrow> baseline_runtime \<Rightarrow> temporary_channel_cleanup list \<times> baseline_runtime" where
  "cleanup_temporary_channels server_id channel_ids r = cleanup_loop server_id [] channel_ids r"

end
