(* ===== verification/Channel_Safety.thy ===== *)
theory Channel_Safety
  imports Handler_Contract Channel_Handlers
begin

text \<open>
  What the channel commands guarantee: the channel tree stays a tree and every command returns; a
  failed command changes nothing (with one exception); new ids are fresh; a forced delete leaves no
  orphan, no client and no reference behind.
\<close>

subsection \<open>Failed commands change nothing\<close>

lemma create_commit_ok [simp]: "error_id (fst (create_commit rq sid p k n d cs sibs i r)) = 0"
  by (simp add: create_commit_def Let_def)

lemma create_unchanged: "fails_unchanged r (handle_channelcreate request session r)"
  unfolding handle_channelcreate_def
  by (intro fails_unchanged_branches) (rule fails_unchanged_ok, simp)

lemma delete_unchanged: "fails_unchanged (session, r) (handle_channeldelete extra request session r)"
  unfolding handle_channeldelete_def
  by (intro fails_unchanged_branches) (rule fails_unchanged_ok, simp)

lemma move_atomic:
  "handle_channelmove request session r = Some (resp, r') \<Longrightarrow> error_id resp \<noteq> 0 \<Longrightarrow> r' = r"
  by (auto simp: handle_channelmove_def Let_def bind_eq_Some_conv
      split: sum.splits option.splits if_splits)

interpretation create:
  atomic_command "\<lambda>(request, session) r. handle_channelcreate request session r"
  using create_unchanged by unfold_locales (auto simp: fails_unchanged_def)

interpretation delete:
  atomic_command "\<lambda>(extra, request) (session, r). handle_channeldelete extra request session r"
  using delete_unchanged by unfold_locales (auto simp: fails_unchanged_def)

subsection \<open>The tree invariant\<close>

definition tree_inv :: "channel list \<Rightarrow> bool" where
  "tree_inv cs = (tree_ok cs \<and> no_orphans cs)"

abbreviation links :: "channel list \<Rightarrow> (u32 \<times> u32) list" where
  "links cs \<equiv> map (\<lambda>c. (ch_id c, ch_parent_id c)) cs"

lemma tree_ok_links: "links cs = links ds \<Longrightarrow> tree_ok cs \<Longrightarrow> tree_ok ds"
proof (rule tree_okI)
  assume l: "links cs = links ds" and ok: "tree_ok cs"
  have ids: "map ch_id cs = map ch_id ds" using arg_cong [OF l, of "map fst"] by (simp add: comp_def)
  show "distinct (map ch_id ds)" "0 \<notin> set (map ch_id ds)"
    using ok unfolding tree_ok_def ids by auto
  fix i
  show "reaches_root ds i"
    using reaches_root_cong [of cs ds i] find_cong_map [OF l] reaches_root_any [OF ok] by blast
qed

lemma no_orphans_links: "no_orphans cs \<longleftrightarrow> (\<forall>(i, p) \<in> set (links cs). p = 0 \<or> p \<in> set (map fst (links cs)))"
  by (auto simp: no_orphans_def)

lemma tree_inv_links: "links cs = links ds \<Longrightarrow> tree_inv cs \<Longrightarrow> tree_inv ds"
proof -
  assume l: "links cs = links ds" and inv: "tree_inv cs"
  have "no_orphans cs = no_orphans ds" unfolding no_orphans_links l by (rule refl)
  then show ?thesis using inv tree_ok_links [OF l] by (simp add: tree_inv_def)
qed

lemma links_relink [simp]: "links (relink_sibling_orders cs p ids) = links cs"
  by (simp add: relink_sibling_orders_def)

lemma tree_inv_relink [simp]: "tree_inv (relink_sibling_orders cs p ids) \<longleftrightarrow> tree_inv cs"
  using tree_inv_links [OF links_relink] tree_inv_links [OF links_relink [symmetric]] by blast

lemma parent_of_snoc:
  "parent_of (cs @ [c]) i =
     (if i \<in> set (map ch_id cs) then parent_of cs i else if i = ch_id c then ch_parent_id c else 0)"
proof (induction cs)
  case (Cons d cs)
  then show ?case by (auto simp: parent_of_def)
qed (simp add: parent_of_def)

lemma parent_of_missing: "i \<notin> set (map ch_id cs) \<Longrightarrow> parent_of cs i = 0"
  by (induction cs) (auto simp: parent_of_def)

lemma parent_of_known:
  assumes "no_orphans cs"
  shows "parent_of cs i = 0 \<or> parent_of cs i \<in> set (map ch_id cs)"
proof (cases "List.find (\<lambda>c. ch_id c = i) cs")
  case None
  then show ?thesis by (simp add: parent_of_def)
next
  case (Some c)
  then have "c \<in> set cs" using find_SomeD by fast
  then show ?thesis using assms Some by (simp add: parent_of_def no_orphans_def)
qed

lemma tree_inv_snoc:
  assumes "tree_inv cs" and "ch_id c \<notin> set (map ch_id cs)" and "ch_id c \<noteq> 0"
    and "ch_parent_id c = 0 \<or> ch_parent_id c \<in> set (map ch_id cs)"
  shows "tree_inv (cs @ [c])"
proof -
  have ok: "tree_ok cs" and no: "no_orphans cs" using assms(1) by (simp_all add: tree_inv_def)
  have old: "reaches_root (cs @ [c]) i" if "reaches_root cs i" "i = 0 \<or> i \<in> set (map ch_id cs)" for i
    using that
  proof (induction rule: reaches_root.induct)
    case root
    show ?case by (rule reaches_root.root)
  next
    case (up i)
    show ?case
    proof (cases "i = 0")
      case False
      then have "parent_of (cs @ [c]) i = parent_of cs i" using up.prems by (simp add: parent_of_snoc)
      then show ?thesis using up.IH parent_of_known [OF no, of i] by (metis reaches_root.up)
    qed (simp add: reaches_root.root)
  qed
  have known: "reaches_root (cs @ [c]) i" if "i = 0 \<or> i \<in> set (map ch_id cs)" for i
    using old [OF reaches_root_any [OF ok] that] .
  have new: "reaches_root (cs @ [c]) (ch_id c)"
    using known [OF assms(4)] assms(2) by (metis parent_of_snoc reaches_root.up)
  have "tree_ok (cs @ [c])"
    using ok assms(2,3) known new by (auto simp: tree_ok_def)
  moreover have "no_orphans (cs @ [c])" using no assms(4) by (auto simp: no_orphans_def)
  ultimately show ?thesis by (simp add: tree_inv_def)
qed

lemma no_orphans_set_parent:
  "no_orphans cs \<Longrightarrow> p = 0 \<or> p \<in> set (map ch_id cs) \<Longrightarrow> no_orphans (set_parent cs cid p)"
proof -
  assume no: "no_orphans cs" and p: "p = 0 \<or> p \<in> set (map ch_id cs)"
  have "d \<in> set (set_parent cs cid p) \<Longrightarrow> d \<in> set cs \<or> ch_parent_id d = p" for d
    unfolding set_parent_def by (induction cs) (auto split: if_splits)
  then show ?thesis using no p unfolding no_orphans_def set_parent_ids by fastforce
qed

lemma tree_inv_move:
  assumes "tree_inv cs" and "cid \<in> set (map ch_id cs)" and "p = 0 \<or> p \<in> set (map ch_id cs)"
    and "channel_is_descendant cs p cid = Some False"
  shows "tree_inv (set_parent cs cid p)"
  using move_tree [of cs cid p] no_orphans_set_parent [OF _ assms(3)] assms
  by (simp add: tree_inv_def)

subsection \<open>Every command keeps the trees\<close>

definition channels_ok :: "baseline_runtime \<Rightarrow> bool" where
  "channels_ok r =
     (bt_inv (st_channels (rt_store r)) \<and> list_all tree_inv (bt_values (st_channels (rt_store r))))"

text \<open>No channel has the last id, so the allocator does not saturate.\<close>

definition ids_left :: "baseline_runtime \<Rightarrow> bool" where
  "ids_left r = (\<forall>c \<in> set (concat (bt_values (st_channels (rt_store r)))). ch_id c \<noteq> -1)"

lemma channels_ok_get: "channels_ok r \<Longrightarrow> server_channels r sid = Some cs \<Longrightarrow> tree_inv cs"
  by (auto simp: channels_ok_def server_channels_def intro: list_all_values_get)

lemma bt_values_update: "v \<in> set (bt_values (bt_update k (\<lambda>_. x) m)) \<Longrightarrow> v \<in> set (bt_values m) \<or> v = x"
  by (auto simp: bt_update_def bt_values_def split: if_splits)

lemma channels_ok_put: "channels_ok r \<Longrightarrow> tree_inv cs \<Longrightarrow> channels_ok (put_channels sid cs r)"
  by (auto simp: channels_ok_def put_channels_def list_all_iff bt_inv_update dest!: bt_values_update)

lemma channels_ok_emit [simp]: "channels_ok (emit es r) = channels_ok r"
  by (simp add: channels_ok_def)

lemma channels_ok_store:
  "(\<And>s. st_channels (f s) = st_channels s) \<Longrightarrow> channels_ok (upd_store f r) = channels_ok r"
  by (simp add: channels_ok_def)

lemma links_same: "(\<And>c. ch_id (f c) = ch_id c \<and> ch_parent_id (f c) = ch_parent_id c) \<Longrightarrow> links (map f cs) = links cs"
  by simp

lemma set_permission_power_link [simp]:
  "ch_id (set_permission_power n v c) = ch_id c"
  "ch_parent_id (set_permission_power n v c) = ch_parent_id c"
  by (simp_all add: set_permission_power_def)

lemma fold_keeps: "(\<And>x c. g (f x c) = g c) \<Longrightarrow> g (fold f xs c) = g c"
  by (induction xs arbitrary: c) simp_all

lemma apply_power_args_keeps:
  assumes "\<And>n v c. g (set_permission_power n v c) = g c"
  shows "g (apply_power_args request c) = g c"
  unfolding apply_power_args_def Let_def
  by (rule trans [OF fold_keeps]) (auto simp: assms set_needed_talk_power_def split: option.splits)

lemma apply_power_args_link [simp]:
  "ch_id (apply_power_args request c) = ch_id c"
  "ch_parent_id (apply_power_args request c) = ch_parent_id c"
  by (rule apply_power_args_keeps, simp)+

lemma edit_value_keeps: "(\<And>x c. g (f x c) = g c) \<Longrightarrow> g (edit_value v f c) = g c"
  by (simp add: edit_value_def split: option.splits)

lemma edit_channel_link [simp]:
  "ch_id (edit_channel request d c) = ch_id c"
  "ch_parent_id (edit_channel request d c) = ch_parent_id c"
  by (simp_all add: edit_channel_def edit_kind_def edit_limits_def edit_password_def edit_unlimited_def
      edit_value_keeps [of ch_id] edit_value_keeps [of ch_parent_id])

lemma new_channel_link [simp]:
  "ch_id (new_channel request cid p k n d) = cid"
  "ch_parent_id (new_channel request cid p k n d) = p"
  by (simp_all add: new_channel_def Let_def)

lemma next_channel_id_fresh:
  assumes "ids_left r" and "c \<in> set (concat (bt_values (st_channels (rt_store r))))"
  shows "ch_id c < next_channel_id r cs"
proof -
  let ?ids = "map ch_id (concat (bt_values (st_channels (rt_store r))))"
  obtain m where m: "iter_max ?ids = Some m" "ch_id c \<le> m" using iter_max_ge [of "ch_id c" ?ids] assms(2) by auto
  have "m \<in> set ?ids" using m(1) by (rule iter_max_in)
  then have "m \<noteq> -1" using assms(1) by (auto simp: ids_left_def)
  then have "m < sat_add m 1" by (rule sat_add_one_greater)
  then show ?thesis using m by (auto simp: next_channel_id_def less_max_iff_disj intro: le_less_trans)
qed

lemma next_channel_id_nonzero: "next_channel_id r cs \<noteq> 0"
proof -
  have "(1 :: u32) \<le> sat_add a 1" for a :: u32
    by (simp add: word_le_nat_alt unat_sat_add)
  then have "1 \<le> next_channel_id r cs" by (auto simp: next_channel_id_def le_max_iff_disj)
  then show ?thesis by auto
qed

lemma create_commit_tree:
  assumes "channels_ok r" and "ids_left r" and "server_channels r sid = Some cs"
    and "p = 0 \<or> list_ex (\<lambda>c. ch_id c = p) cs"
  shows "channels_ok (snd (create_commit request sid p k n d cs sibs i r))"
proof -
  let ?cid = "next_channel_id r cs"
  let ?cs = "if d then map (ch_flag_default_update (\<lambda>_. False)) cs else cs"
  have "tree_inv cs" using assms(1,3) by (rule channels_ok_get)
  then have inv: "tree_inv ?cs" by (rule tree_inv_links [rotated]) simp
  have mem: "c \<in> set (concat (bt_values (st_channels (rt_store r))))" if "c \<in> set cs" for c
    using that assms(3) bt_get_in_values by (fastforce simp: server_channels_def)
  have "?cid \<notin> ch_id ` set cs"
    using next_channel_id_fresh [OF assms(2) mem, of _ cs] by (metis imageE less_irrefl)
  then have "?cid \<notin> set (map ch_id ?cs)" by (simp add: image_image)
  moreover have "p = 0 \<or> p \<in> set (map ch_id ?cs)" using assms(4) by (auto simp: list_ex_iff image_image)
  ultimately have "tree_inv (?cs @ [new_channel request ?cid p k n d])"
    using inv next_channel_id_nonzero by (intro tree_inv_snoc) simp_all
  then show ?thesis
    using channels_ok_put [OF assms(1)] by (simp add: create_commit_def Let_def)
qed

lemma create_keeps_trees:
  assumes "channels_ok r" and "ids_left r"
  shows "after channels_ok (handle_channelcreate request session r)"
  unfolding handle_channelcreate_def
  by (intro after_branches after_pair assms)
    (auto simp: after_def intro!: create_commit_tree [OF assms])

lemma place_channel_tree:
  assumes "tree_inv cs" and "cid \<in> set (map ch_id cs)" and "p = 0 \<or> list_ex (\<lambda>c. ch_id c = p) cs"
    and "(if cid = p then Some True else channel_is_descendant cs p cid) = Some False"
  shows "tree_inv (place_channel cs cid q p i)"
proof -
  have "p = 0 \<or> p \<in> set (map ch_id cs)" using assms(3) by (auto simp: list_ex_iff)
  then have "tree_inv (set_parent cs cid p)"
    using assms by (intro tree_inv_move) (auto split: if_splits)
  then show ?thesis by (simp add: place_channel_def Let_def)
qed

lemma descendant_not_None: "tree_inv cs \<Longrightarrow> channel_is_descendant cs p cid \<noteq> None"
  using descendant_returns [OF reaches_root_any] by (simp add: tree_inv_def)

lemma find_in_ids: "List.find (\<lambda>c. ch_id c = cid) cs = Some c \<Longrightarrow> cid \<in> set (map ch_id cs)"
  by (auto dest!: find_SomeD)

lemma move_keeps_trees:
  assumes "channels_ok r"
  shows "returns_in channels_ok (handle_channelmove request session r)"
  unfolding handle_channelmove_def
proof (intro returns_in_branches returns_in_Some returns_in_bind assms)
  fix sid cid p cs c
  assume s: "server_channels r sid = Some cs" and f: "List.find (\<lambda>c. ch_id c = cid) cs = Some c"
    and "\<not> (p \<noteq> 0 \<and> \<not> list_ex (\<lambda>c. ch_id c = p) cs)"
  then have p: "p = 0 \<or> list_ex (\<lambda>c. ch_id c = p) cs" by blast
  have inv: "tree_inv cs" using assms s by (rule channels_ok_get)
  show "(if cid = p then Some True else channel_is_descendant cs p cid) \<noteq> None"
    using descendant_not_None [OF inv] by (simp add: ex_bool_eq)
  fix below i
  assume "(if cid = p then Some True else channel_is_descendant cs p cid) = Some below" and "\<not> below"
  then have "tree_inv (place_channel cs cid (ch_parent_id c) p i)"
    using place_channel_tree [OF inv find_in_ids [OF f] p] by simp
  then show "channels_ok (emit saved (put_channels sid (place_channel cs cid (ch_parent_id c) p i) r))" for saved
    using channels_ok_put [OF assms] by simp
qed

lemma edit_placement_tree:
  assumes "tree_inv cs" and "cid \<in> set (map ch_id cs)"
  shows "\<exists>x. edit_placement request cid cs = Some x \<and> (\<forall>ds. x = Inr ds \<longrightarrow> tree_inv ds)"
proof (cases "List.find (\<lambda>c. ch_id c = cid) cs")
  case None
  then show ?thesis using assms(1) by (simp add: edit_placement_def Let_def)
next
  case (Some c)
  let ?cpid = "arg2_u32 request ''cpid'' ''pid''"
    and ?ord = "arg2_u32 request ''channel_order'' ''order''"
  define p where "p = unwrap_or (ch_parent_id c) ?cpid"
  let ?m = "if cid = p then Some True else channel_is_descendant cs p cid"
  have "?m \<noteq> None" using descendant_not_None [OF assms(1)] by (simp add: ex_bool_eq)
  then obtain below where m: "?m = Some below" by blast
  have eq: "edit_placement request cid cs =
     (if ?cpid = None \<and> ?ord = None then Some (Inr cs)
      else if p \<noteq> 0 \<and> \<not> list_ex (\<lambda>c. ch_id c = p) cs
      then Some (Inl (response_error 768 ''parent channel not found''))
      else if below then Some (Inl (response_error 770 ''channel cannot be moved below itself''))
      else case resolve_insert_index (ordered_sibling_ids cs p (Some cid)) ?ord of
             None \<Rightarrow> Some (Inr cs)
           | Some i \<Rightarrow> Some (Inr (place_channel cs cid (ch_parent_id c) p i)))"
    unfolding edit_placement_def Let_def Some option.case p_def [symmetric] m bind.simps by simp
  have "tree_inv (place_channel cs cid (ch_parent_id c) p i)"
    if "\<not> (p \<noteq> 0 \<and> \<not> list_ex (\<lambda>c. ch_id c = p) cs)" "\<not> below" for i
    using that m by (intro place_channel_tree [OF assms]) auto
  then show ?thesis unfolding eq using assms(1) by (auto split: option.splits)
qed

lemma links_update_first:
  "(\<And>c. ch_id (f c) = ch_id c \<and> ch_parent_id (f c) = ch_parent_id c) \<Longrightarrow> links (update_first P f cs) = links cs"
  by (simp add: update_first_map)

lemma edit_keeps_trees:
  assumes "channels_ok r"
  shows "returns_in channels_ok (handle_channeledit request session r)"
  unfolding handle_channeledit_def
proof (intro returns_in_sum returns_in_option returns_in_prod returns_in_Let returns_in_Some assms)
  fix sid cid and cs :: "channel list" and c
  let ?d = "named_flag request ''channel_flag_default''"
  let ?cs = "if ?d then map (\<lambda>c. c\<lparr>ch_flag_default := (ch_id c = cid)\<rparr>) cs else cs"
  assume s: "server_channels r sid = Some cs" and f: "List.find (\<lambda>c. ch_id c = cid) cs = Some c"
  have "tree_inv cs" using assms s by (rule channels_ok_get)
  then have inv: "tree_inv ?cs" by (rule tree_inv_links [rotated]) simp
  have "cid \<in> set (map ch_id ?cs)" using find_in_ids [OF f] by (simp add: image_image)
  then obtain x where x: "edit_placement request cid ?cs = Some x" "\<And>ds. x = Inr ds \<Longrightarrow> tree_inv ds"
    using edit_placement_tree [OF inv] by blast
  have "tree_inv (update_first (\<lambda>c. ch_id c = cid) (edit_channel request ?d) ds)" if "x = Inr ds" for ds
    using x(2) [OF that] by (rule tree_inv_links [rotated]) (simp add: links_update_first)
  then show "returns_in channels_ok
      (Option.bind (edit_placement request cid ?cs)
        (\<lambda>placed. case placed of
            Inl e \<Rightarrow> Some (e, put_channels sid ?cs r)
          | Inr channels2 \<Rightarrow>
              let edited = update_first (\<lambda>c. ch_id c = cid) (edit_channel request ?d) channels2
              in Some (response_ok, emit (concat (map (save_channel sid) edited)) (put_channels sid edited r))))"
    using x(1) inv channels_ok_put [OF assms]
    by (cases x) (simp_all add: returns_in_def Let_def)
qed

lemma tree_inv_filter_closure:
  "tree_inv cs \<Longrightarrow> tree_inv (filter (\<lambda>c. ch_id c \<notin> set (delete_closure cs td)) cs)"
  by (simp add: tree_inv_def tree_ok_filter closure_removal_no_orphans)

lemma tree_inv_filter_childless:
  "tree_inv cs \<Longrightarrow> \<not> list_ex (\<lambda>c. ch_parent_id c = cid) cs \<Longrightarrow> tree_inv (filter (\<lambda>c. ch_id c \<noteq> cid) cs)"
  by (auto simp: tree_inv_def tree_ok_filter no_orphans_def list_ex_iff)

lemma sync_properties_channels:
  "st_channels (rt_store (snd (sync_music_bot_client_properties extra b r))) = st_channels (rt_store r)"
  by (simp add: sync_music_bot_client_properties_def split: option.splits)

lemma sync_channels [simp]:
  "st_channels (rt_store (sync_music_bot_client_state extra b r)) = st_channels (rt_store r)"
  by (simp add: sync_music_bot_client_state_def sync_properties_channels Let_def split: option.splits)

lemma drop_bots_channels [simp]: "st_channels (drop_bots bots s) = st_channels s"
  unfolding drop_bots_def by (rule fold_keeps) auto

lemma delete_channels_st:
  "st_channels (rt_store (delete_channels extra sid td target dc cs r)) =
     bt_update sid
       (\<lambda>_. relink_sibling_orders (filter (\<lambda>c. ch_id c \<notin> set td) cs) (ch_parent_id target)
              (ordered_sibling_ids (filter (\<lambda>c. ch_id c \<notin> set td) cs) (ch_parent_id target) None))
       (st_channels (rt_store r))"
proof -
  have sync: "st_channels (rt_store (fold (\<lambda>(b, _). sync_music_bot_client_state extra b) bots r))
      = st_channels (rt_store r)" for bots :: "(u32 \<times> u64) list" and r
    by (rule fold_keeps [where g = "\<lambda>r. st_channels (rt_store r)"]) auto
  show ?thesis
    by (simp add: delete_channels_def Let_def sync forget_channels_def reassign_clients_def put_channels_def)
qed

lemma delete_channels_ok:
  assumes "channels_ok r" and "tree_inv (filter (\<lambda>c. ch_id c \<notin> set td) cs)"
  shows "channels_ok (delete_channels extra sid td target dc cs r)"
proof -
  let ?k = "filter (\<lambda>c. ch_id c \<notin> set td) cs"
  have "channels_ok (put_channels sid (relink_sibling_orders ?k (ch_parent_id target)
      (ordered_sibling_ids ?k (ch_parent_id target) None)) r)"
    using assms by (intro channels_ok_put) simp_all
  then show ?thesis by (simp add: channels_ok_def delete_channels_st put_channels_def)
qed

definition force_flag_ok :: "command_request \<Rightarrow> bool" where
  "force_flag_ok request = (unwrap_or 1 (arg_u32 request ''force'') \<in> {0, 1})"

lemma delete_keeps_trees:
  assumes ok: "channels_ok r" and force: "force_flag_ok request"
  shows "after (\<lambda>(_, r). channels_ok r) (handle_channeldelete extra request session r)"
  unfolding handle_channeldelete_def
proof (intro after_branches after_pair)
  fix sid cid target and cs :: "channel list"
  let ?force = "unwrap_or 1 (arg_u32 request ''force'')"
  let ?td = "if ?force = 1 then delete_closure cs [cid] else [cid]"
  assume "server_channels r sid = Some cs"
    and nochild: "\<not> (list_ex (\<lambda>c. ch_parent_id c = cid) cs \<and> ?force = 0)"
  then have inv: "tree_inv cs" using ok channels_ok_get by blast
  have "tree_inv (filter (\<lambda>c. ch_id c \<notin> set ?td) cs)"
  proof (cases "?force = 1")
    case True
    then show ?thesis using tree_inv_filter_closure [OF inv] by simp
  next
    case False
    then have "\<not> list_ex (\<lambda>c. ch_parent_id c = cid) cs" using force nochild by (simp add: force_flag_ok_def)
    then show ?thesis using False tree_inv_filter_childless [OF inv] by simp
  qed
  then show "case (session', delete_channels extra sid ?td target dc cs r) of (_, r) \<Rightarrow> channels_ok r"
    for session' dc using delete_channels_ok [OF ok] by simp
qed (simp_all add: ok)

lemma list_remove_filter:
  "distinct (map ch_id cs) \<Longrightarrow> position (\<lambda>c. ch_id c = cid) cs = Some n \<Longrightarrow>
   list_remove n cs = filter (\<lambda>c. ch_id c \<noteq> cid) cs"
proof (induction cs arbitrary: n)
  case (Cons c cs)
  show ?case
  proof (cases "ch_id c = cid")
    case True
    then have "\<forall>d \<in> set cs. ch_id d \<noteq> cid" using Cons.prems(1)
      by (metis distinct.simps(2) imageI list.set_map list.simps(9))
    then have "filter (\<lambda>c. ch_id c \<noteq> cid) cs = cs" by (intro filter_True) simp
    then show ?thesis using True Cons.prems by (simp add: list_remove_def)
  next
    case False
    then show ?thesis using Cons by (auto simp: list_remove_def)
  qed
qed simp

lemma remove_channel_keeps:
  assumes ok: "channels_ok r" and s: "server_channels r sid = Some cs"
    and childless: "\<not> list_ex (\<lambda>c. ch_parent_id c = cid) cs"
  shows "channels_ok (snd (remove_channel_without_session_reassign sid cid r))"
proof (cases "position (\<lambda>c. ch_id c = cid) cs")
  case None
  then show ?thesis using ok s by (simp add: remove_channel_without_session_reassign_def del: position_None)
next
  case (Some n)
  have inv: "tree_inv cs" using ok s by (rule channels_ok_get)
  then have "list_remove n cs = filter (\<lambda>c. ch_id c \<noteq> cid) cs"
    using Some by (intro list_remove_filter) (simp_all add: tree_inv_def tree_ok_def)
  then have "tree_inv (list_remove n cs)" using tree_inv_filter_childless [OF inv childless] by simp
  then show ?thesis
    using ok s Some
    by (simp add: remove_channel_without_session_reassign_def Let_def channels_ok_store channels_ok_put
        del: position_None)
qed

lemma remove_bots_channels: "st_channels (rt_store (snd (remove_bots sid cids r))) = st_channels (rt_store r)"
proof -
  have "st_channels (rt_store (snd (fold (\<lambda>client_id (removed, r).
            (or_else removed (online_client_snapshot r sid client_id), remove_bot_client sid client_id r))
          cids x))) = st_channels (rt_store (snd x))" for x
    by (rule fold_keeps [where g = "\<lambda>x. st_channels (rt_store (snd x))"])
      (auto simp: remove_bot_client_def)
  then show ?thesis by (simp add: remove_bots_def)
qed

lemma cleanup_keeps_trees:
  assumes "channels_ok r"
  shows "channels_ok (snd (cleanup_temporary_channel sid cid r))"
proof -
  have "channels_ok (emit [PersistState] (snd (remove_bots sid cids r)))" for cids
    using assms by (simp add: channels_ok_def remove_bots_channels)
  then show ?thesis
    using assms remove_channel_keeps [of _ sid _ cid]
    by (auto simp: cleanup_temporary_channel_def Let_def case_prod_beta split: option.splits)
qed

subsection \<open>Reachable states\<close>

text \<open>
  The channel commands as steps of the server: create while ids are left, delete with a force flag of
  0 or 1, edit, move, and the removal of an empty temporary channel, for any request and session.
\<close>

inductive channel_step :: "baseline_runtime \<Rightarrow> baseline_runtime \<Rightarrow> bool" where
  create: "ids_left r \<Longrightarrow> handle_channelcreate request session r = (resp, r') \<Longrightarrow> channel_step r r'"
| delete: "force_flag_ok request \<Longrightarrow>
    handle_channeldelete extra request session r = (resp, session', r') \<Longrightarrow> channel_step r r'"
| edit: "handle_channeledit request session r = Some (resp, r') \<Longrightarrow> channel_step r r'"
| move: "handle_channelmove request session r = Some (resp, r') \<Longrightarrow> channel_step r r'"
| cleanup: "cleanup_temporary_channel sid cid r = (gone, r') \<Longrightarrow> channel_step r r'"

interpretation edit_cmd:
  invariant_command channels_ok "\<lambda>_ _. True" "\<lambda>(request, session) r. handle_channeledit request session r"
  by unfold_locales (auto intro: edit_keeps_trees)

interpretation move_cmd:
  invariant_command channels_ok "\<lambda>_ _. True" "\<lambda>(request, session) r. handle_channelmove request session r"
  by unfold_locales (auto intro: move_keeps_trees)

interpretation create_cmd:
  invariant_command channels_ok "\<lambda>_. ids_left"
    "\<lambda>(request, session) r. Some (handle_channelcreate request session r)"
  using create_keeps_trees by unfold_locales (auto simp: returns_in_def after_def)

interpretation delete_cmd:
  invariant_command channels_ok "\<lambda>(_, request, _) _. force_flag_ok request"
    "\<lambda>(extra, request, session) r.
       Some (fst (handle_channeldelete extra request session r),
             snd (snd (handle_channeldelete extra request session r)))"
  using delete_keeps_trees by unfold_locales (fastforce simp: returns_in_def after_def case_prod_beta)

lemma channel_step_ok: "channel_step r r' \<Longrightarrow> channels_ok r \<Longrightarrow> channels_ok r'"
proof (induction rule: channel_step.induct)
  case (create r request session resp r')
  then show ?case using create_cmd.keeps_inv [of r "(request, session)" resp r'] by simp
next
  case (delete request extra session r resp session' r')
  then show ?case using delete_cmd.keeps_inv [of r "(extra, request, session)" resp r'] by simp
next
  case (edit request session r resp r')
  then show ?case using edit_cmd.keeps_inv [of r "(request, session)" resp r'] by simp
next
  case (move request session r resp r')
  then show ?case using move_cmd.keeps_inv [of r "(request, session)" resp r'] by simp
next
  case (cleanup sid cid r gone r')
  then show ?case using cleanup_keeps_trees [of r sid cid] by simp
qed


lemma demo_channels_ok: "channels_ok (seeded_runtime demo_store)"
proof -
  let ?cs = "[seed_channel 1 0 ''Default Channel'' ''Default Channel has no topic'' True,
        seed_channel 2 1 ''Music Lounge'' ''Music bot staging area'' False]"
  have st: "st_channels (rt_store (seeded_runtime demo_store)) = [(1, ?cs)]"
    by (simp add: seeded_runtime_def demo_store_def seed_store_def seed_channels_def empty_runtime_def)
  have "parent_of ?cs 1 = 0" "parent_of ?cs 2 = 0" by (simp_all add: parent_of_def seed_channel_def)
  then have "reaches_root ?cs 1" "reaches_root ?cs 2"
    using reaches_root.root [of ?cs] reaches_root.up [of ?cs 1] reaches_root.up [of ?cs 2] by simp_all
  then have "tree_inv ?cs" by (simp add: tree_inv_def tree_ok_def no_orphans_def seed_channel_def)
  then show ?thesis by (simp add: channels_ok_def st bt_values_def bt_inv_def)
qed

definition demo_request :: "string \<Rightarrow> (string \<times> string) list \<Rightarrow> command_request" where
  "demo_request cmd args =
     \<lparr>command = cmd, positional_args = [], named_args = bt_collect args, option_groups = [], flags = []\<rparr>"

definition create_demo :: baseline_runtime where
  "create_demo =
     snd (handle_channelcreate
       (demo_request ''channelcreate'' [(''channel_name'', ''Lobby''), (''cpid'', ''2'')])
       admin_session (seeded_runtime demo_store))"


subsection \<open>A force flag of two\<close>

text \<open>The walk returns only if the chain of parents ends or meets the channel looked for.\<close>

lemma descendant_loop_ends:
  assumes "descendant_loop cs cid i = Some b"
  shows "reaches_root cs i \<or> ancestor_or_self cs cid i"
proof (rule descendant_loop.raw_induct
    [of "\<lambda>cs cid i b. reaches_root cs i \<or> ancestor_or_self cs cid i", OF _ assms])
  fix loop :: "channel list \<Rightarrow> u32 \<Rightarrow> u32 \<Rightarrow> bool option" and cs cid i b
  assume IH: "\<And>cs cid i b. loop cs cid i = Some b \<Longrightarrow> reaches_root cs i \<or> ancestor_or_self cs cid i"
    and body: "(if i = 0 then Some False else if i = cid then Some True else loop cs cid (parent_of cs i)) = Some b"
  show "reaches_root cs i \<or> ancestor_or_self cs cid i"
  proof (cases "i = 0 \<or> i = cid")
    case True
    then show ?thesis using reaches_root.root ancestor_or_self.self by metis
  next
    case False
    then have "reaches_root cs (parent_of cs i) \<or> ancestor_or_self cs cid (parent_of cs i)"
      using body by (intro IH) simp
    then show ?thesis using False reaches_root.up ancestor_or_self.up by metis
  qed
qed

lemma reaches_root_closed:
  "reaches_root cs i \<Longrightarrow> (\<And>j. j \<in> S \<Longrightarrow> j \<noteq> 0 \<and> parent_of cs j \<in> S) \<Longrightarrow> i \<notin> S"
  by (induction rule: reaches_root.induct) blast+

lemma ancestor_closed:
  "ancestor_or_self cs a i \<Longrightarrow> (\<And>j. j \<in> S \<Longrightarrow> j \<noteq> 0 \<and> parent_of cs j \<in> S) \<Longrightarrow> i \<in> S \<Longrightarrow> a \<in> S"
  by (induction rule: ancestor_or_self.induct) blast+

lemma descendant_loop_cycle:
  assumes "\<And>j. j \<in> S \<Longrightarrow> j \<noteq> 0 \<and> parent_of cs j \<in> S" and "i \<in> S" and "cid \<notin> S"
  shows "channel_is_descendant cs i cid = None"
proof (cases "descendant_loop cs cid i")
  case (Some b)
  then have "reaches_root cs i \<or> ancestor_or_self cs cid i" by (rule descendant_loop_ends)
  then have False
    using reaches_root_closed [of cs i S] ancestor_closed [of cs cid i S] assms by blast
  then show ?thesis ..
qed (simp add: channel_is_descendant_def)

definition nested_demo :: baseline_runtime where
  "nested_demo = seeded_runtime (demo_store\<lparr>st_channels :=
     [(1, [seed_channel 1 0 ''Default Channel'' [] True,
           (seed_channel 3 0 ''Inner'' [] False)\<lparr>ch_parent_id := 4\<rparr>,
           seed_channel 4 1 ''Outer'' [] False])]\<rparr>)"

definition orphaned_demo :: baseline_runtime where
  "orphaned_demo = snd (snd (handle_channeldelete (\<lambda>_. [])
     (demo_request ''channeldelete'' [(''cid'', ''4''), (''force'', ''2'')]) admin_session nested_demo))"

definition cyclic_demo :: baseline_runtime where
  "cyclic_demo = snd (handle_channelcreate
     (demo_request ''channelcreate'' [(''channel_name'', ''Again''), (''cpid'', ''3'')])
     admin_session orphaned_demo)"

lemma cyclic_links:
  "map_option links (server_channels orphaned_demo 1) = Some [(1, 0), (3, 4)]"
  "map_option links (server_channels cyclic_demo 1) = Some [(1, 0), (3, 4), (4, 3)]"
  by code_simp+

lemma nested_channels_ok: "channels_ok nested_demo"
proof -
  let ?cs = "[seed_channel 1 0 ''Default Channel'' [] True,
           (seed_channel 3 0 ''Inner'' [] False)\<lparr>ch_parent_id := 4\<rparr>, seed_channel 4 1 ''Outer'' [] False]"
  have st: "st_channels (rt_store nested_demo) = [(1, ?cs)]"
    by (simp add: nested_demo_def seeded_runtime_def)
  have p: "parent_of ?cs 1 = 0" "parent_of ?cs 3 = 4" "parent_of ?cs 4 = 0"
    by (simp_all add: parent_of_def seed_channel_def)
  have "reaches_root ?cs 1" "reaches_root ?cs 4"
    using p reaches_root.root [of ?cs] reaches_root.up [of ?cs 1] reaches_root.up [of ?cs 4] by simp_all
  moreover have "reaches_root ?cs 3" using p(2) calculation(2) reaches_root.up [of ?cs 3] by simp
  ultimately have "tree_inv ?cs" by (simp add: tree_inv_def tree_ok_def no_orphans_def seed_channel_def)
  then show ?thesis by (simp add: channels_ok_def st bt_values_def bt_inv_def)
qed

text \<open>
  The force flag is only compared with 0 and 1. From a proper tree, \<open>channeldelete\<close> with
  \<open>force=2\<close> removes a channel and leaves its child with a parent that no longer exists; creating a
  channel below that child reuses the id, the two channels become each other's parent, and a
  \<open>channelmove\<close> of another channel below them does not return.
\<close>

theorem force_two_makes_move_hang:
  "channels_ok nested_demo
   \<and> map_option links (server_channels orphaned_demo 1) = Some [(1, 0), (3, 4)]
   \<and> map_option links (server_channels cyclic_demo 1) = Some [(1, 0), (3, 4), (4, 3)]
   \<and> handle_channelmove (demo_request ''channelmove'' [(''cid'', ''1''), (''cpid'', ''3'')])
       admin_session cyclic_demo = None"
proof -
  let ?rq = "demo_request ''channelmove'' [(''cid'', ''1''), (''cpid'', ''3'')]"
  obtain cs where s: "server_channels cyclic_demo 1 = Some cs" and l: "links cs = [(1, 0), (3, 4), (4, 3)]"
    using cyclic_links(2) by auto
  have eq: "parent_of cs j = parent_of [demo_channel 1 0, demo_channel 3 4, demo_channel 4 3] j" for j
    using l by (intro find_cong_map) simp
  have par: "parent_of cs 3 = 4" "parent_of cs 4 = 3"
    unfolding eq by (simp_all add: parent_of_def)
  have loop: "channel_is_descendant cs 3 1 = None"
    by (rule descendant_loop_cycle [of "{3, 4}"]) (auto simp: par)
  have args: "require_server admin_session = Inr 1" "arg_u32 ?rq ''cid'' = Some 1"
    "arg2_u32 ?rq ''cpid'' ''pid'' = Some 3"
    by code_simp+
  obtain c d e where cs: "cs = [c, d, e]" "ch_id c = 1" "ch_id d = 3" using l by (auto simp: map_eq_Cons_conv)
  have "handle_channelmove ?rq admin_session cyclic_demo = None"
    unfolding handle_channelmove_def args sum.case option.case s using loop cs by simp
  then show ?thesis using nested_channels_ok cyclic_links by blast
qed

text \<open>
  Property C6: a \<open>channelcreate\<close>, \<open>channeldelete\<close> or \<open>channelmove\<close> that returns an error has changed
  neither the runtime nor the session.
\<close>

theorem failed_channel_commands_unchanged:
  "(error_id (fst (handle_channelcreate request session r)) \<noteq> 0 \<longrightarrow>
      snd (handle_channelcreate request session r) = r)
   \<and> (error_id (fst (handle_channeldelete extra request session r)) \<noteq> 0 \<longrightarrow>
      snd (handle_channeldelete extra request session r) = (session, r))
   \<and> (\<forall>resp r'. handle_channelmove request session r = Some (resp, r') \<longrightarrow> error_id resp \<noteq> 0 \<longrightarrow> r' = r)"
  using create.unchanged [of "(request, session)" r] delete.unchanged [of "(extra, request)" "(session, r)"]
    move_atomic [of request session r] by auto

theorem failed_channel_commands_unchanged_witness:
  "error_id (fst (handle_channelcreate (demo_request ''channelcreate'' []) admin_session nested_demo)) = 512
   \<and> snd (handle_channelcreate (demo_request ''channelcreate'' []) admin_session nested_demo) = nested_demo
   \<and> error_id (fst (handle_channeldelete (\<lambda>_. []) (demo_request ''channelcreate'' [])
       admin_session nested_demo)) = 512"
proof -
  have e: "error_id (fst (handle_channelcreate (demo_request ''channelcreate'' []) admin_session nested_demo)) = 512"
    "error_id (fst (handle_channeldelete (\<lambda>_. []) (demo_request ''channelcreate'' []) admin_session nested_demo)) = 512"
    by code_simp+
  then show ?thesis
    using failed_channel_commands_unchanged [of "demo_request ''channelcreate'' []" admin_session nested_demo]
    by simp
qed

text \<open>
  \<open>channeledit\<close> is not atomic. A request that makes a channel the default channel and
  names a parent that does not exist answers that the parent was not found, and the default channel
  has been changed.
\<close>

theorem failed_edit_changes_default:
  "\<exists>resp r'. handle_channeledit
       (demo_request ''channeledit''
          [(''cid'', ''4''), (''channel_flag_default'', ''1''), (''cpid'', ''99'')]) admin_session nested_demo
       = Some (resp, r')
     \<and> resp = response_error 768 ''parent channel not found''
     \<and> default_channel_id_for_server nested_demo 1 = Some 1
     \<and> default_channel_id_for_server r' 1 = Some 4"
proof -
  let ?e = "handle_channeledit (demo_request ''channeledit''
          [(''cid'', ''4''), (''channel_flag_default'', ''1''), (''cpid'', ''99'')]) admin_session nested_demo"
  have m: "map_option (\<lambda>(resp, r'). (resp, default_channel_id_for_server r' 1)) ?e
      = Some (response_error 768 ''parent channel not found'', Some 4)" by code_simp
  have "default_channel_id_for_server nested_demo 1 = Some 1" by code_simp
  with m show ?thesis by auto
qed

end
