(* ===== verification/Channel_Effects.thy ===== *)
theory Channel_Effects
  imports Channel_Safety
begin

text \<open>
  What the commands that change the channel tree do when they succeed: where \<open>channelcreate\<close> puts the
  new channel, and what a forced \<open>channeldelete\<close> leaves behind.
\<close>

subsection \<open>Creating a channel\<close>

text \<open>A successful \<open>channelcreate\<close> went through every guard and ended in the commit.\<close>

abbreviation requested_parent :: "command_request \<Rightarrow> u32" where
  "requested_parent request \<equiv> unwrap_or 0 (arg2_u32 request ''cpid'' ''pid'')"

definition create_success ::
    "command_request \<Rightarrow> baseline_runtime \<Rightarrow> query_response \<times> baseline_runtime \<Rightarrow> bool" where
  "create_success request r res =
     (\<exists>sid cs k n d i. server_channels r sid = Some cs
        \<and> (requested_parent request = 0 \<or> list_ex (\<lambda>c. ch_id c = requested_parent request) cs)
        \<and> resolve_insert_index (ordered_sibling_ids cs (requested_parent request) None)
            (arg2_u32 request ''order'' ''channel_order'') = Some i
        \<and> res = create_commit request sid (requested_parent request) k n d cs
            (ordered_sibling_ids cs (requested_parent request) None) i r)"

lemma create_successI:
  "server_channels r sid = Some cs \<Longrightarrow>
   \<not> (requested_parent request \<noteq> 0 \<and> \<not> list_ex (\<lambda>c. ch_id c = requested_parent request) cs) \<Longrightarrow>
   resolve_insert_index (ordered_sibling_ids cs (requested_parent request) None)
     (arg2_u32 request ''order'' ''channel_order'') = Some i \<Longrightarrow>
   create_success request r (create_commit request sid (requested_parent request) k n d cs
     (ordered_sibling_ids cs (requested_parent request) None) i r)"
  unfolding create_success_def by blast

lemma create_ok_then: "ok_then (create_success request r) (handle_channelcreate request session r)"
  unfolding handle_channelcreate_def
  by (intro ok_then_branches; (rule ok_then_error, simp add: require_server_error actor_permissions_error)?)
    (rule ok_then_I, rule create_successI, assumption+)

lemma resolve_insert_index_le: "resolve_insert_index ids ord = Some i \<Longrightarrow> i \<le> length ids"
  by (auto simp: resolve_insert_index_def split: option.splits if_splits dest: position_Some)

lemma set_insert_at: "set (insert_at i x xs) = insert x (set xs)"
proof -
  have "set (take i xs) \<union> set (drop i xs) = set xs"
    by (metis append_take_drop_id set_append)
  then show ?thesis by (auto simp: insert_at_def)
qed

lemma distinct_insert_at: "distinct (insert_at i x xs) \<longleftrightarrow> distinct (x # xs)"
proof -
  have "mset (insert_at i x xs) = mset (x # xs)"
    by (simp add: insert_at_def) (metis append_take_drop_id mset_append)
  then show ?thesis by (metis mset_eq_imp_distinct_iff)
qed

lemma created_order:
  assumes "distinct (map ch_id (cs @ [c]))" and "0 \<notin> set (map ch_id (cs @ [c]))" and "ch_parent_id c = p"
    and old: "set ids = ch_id ` set (filter (\<lambda>c. ch_parent_id c = p) cs)" and "distinct ids"
  shows "ordered_sibling_ids (relink_sibling_orders (cs @ [c]) p (insert_at i (ch_id c) ids)) p None
         = insert_at i (ch_id c) ids"
proof (rule relink_list_inverse [THEN conjunct1])
  show "distinct (insert_at i (ch_id c) ids)"
    using assms(1,5) old by (auto simp: distinct_insert_at)
  show "0 \<notin> set (insert_at i (ch_id c) ids)"
    using assms(2) old by (auto simp: set_insert_at)
qed (use assms in \<open>auto simp: set_insert_at\<close>)

lemma server_channels_put:
  "server_channels r sid = Some cs \<Longrightarrow> server_channels (put_channels sid cs' r) sid = Some cs'"
  by (simp add: server_channels_def put_channels_def bt_get_update)

lemma server_channels_emit [simp]: "server_channels (emit es r) sid = server_channels r sid"
  by (simp add: server_channels_def)

lemma create_commit_effect:
  assumes ok: "channels_ok r" and left: "ids_left r" and s: "server_channels r sid = Some cs"
    and "create_commit request sid p k n d cs (ordered_sibling_ids cs p None) i r = (resp, r')"
  shows "\<exists>cs' cid. server_channels r' sid = Some cs' \<and> rows resp = [[(''cid'', word_to_string cid)]]
         \<and> (\<forall>c \<in> set (concat (bt_values (st_channels (rt_store r)))). ch_id c \<noteq> cid)
         \<and> links cs' = links cs @ [(cid, p)]
         \<and> ordered_sibling_ids cs' p None = insert_at i cid (ordered_sibling_ids cs p None)"
proof -
  let ?cid = "next_channel_id r cs"
  let ?new = "new_channel request ?cid p k n d"
  let ?cs = "if d then map (ch_flag_default_update (\<lambda>_. False)) cs else cs"
  let ?cs' = "relink_sibling_orders (?cs @ [?new]) p (insert_at i ?cid (ordered_sibling_ids cs p None))"
  have inv: "tree_inv cs" using ok s by (rule channels_ok_get)
  have mem: "c \<in> set (concat (bt_values (st_channels (rt_store r))))" if "c \<in> set cs" for c
    using that s bt_get_in_values by (fastforce simp: server_channels_def)
  have fresh: "ch_id c \<noteq> ?cid" if "c \<in> set (concat (bt_values (st_channels (rt_store r))))" for c
    using next_channel_id_fresh [OF left that, of cs] by simp
  have ids: "map ch_id ?cs = map ch_id cs" by (simp add: comp_def)
  have new: "?cid \<notin> set (map ch_id cs)" using fresh mem by fastforce
  have "ordered_sibling_ids (relink_sibling_orders (?cs @ [?new]) p
      (insert_at i (ch_id ?new) (ordered_sibling_ids cs p None))) p None
    = insert_at i (ch_id ?new) (ordered_sibling_ids cs p None)"
  proof (rule created_order)
    show "distinct (map ch_id (?cs @ [?new]))"
      using inv new by (simp add: ids tree_inv_def tree_ok_def del: set_map)
    show "0 \<notin> set (map ch_id (?cs @ [?new]))"
      using inv next_channel_id_nonzero [of r cs]
      by (simp add: ids tree_inv_def tree_ok_def del: set_map)
    show "set (ordered_sibling_ids cs p None) = ch_id ` set (filter (\<lambda>c. ch_parent_id c = p) ?cs)"
      by (cases d) (force simp: image_iff)+
  qed simp_all
  moreover have "links ?cs' = links cs @ [(?cid, p)]" by (simp add: comp_def)
  moreover have "server_channels r' sid = Some ?cs'" "rows resp = [[(''cid'', word_to_string ?cid)]]"
    using assms(4) s by (auto simp: create_commit_def Let_def server_channels_put response_defs)
  ultimately show ?thesis using fresh unfolding new_channel_link by blast
qed



subsection \<open>A forced delete\<close>

text \<open>Where the clients are: server and channel of every online client.\<close>

definition client_places :: "baseline_runtime \<Rightarrow> (u32 \<times> u32) list" where
  "client_places r =
     map (\<lambda>c. (oc_server_id c, oc_channel_id c)) (bt_values (st_online_clients (rt_store r)))"

lemma client_places_emit [simp]: "client_places (emit es r) = client_places r"
  by (simp add: client_places_def)

lemma bt_values_update_keeps:
  "(\<And>c. g (f c) = g c) \<Longrightarrow> map g (bt_values (bt_update k f m)) = map g (bt_values m)"
  by (auto simp: bt_update_def bt_values_def)

lemma sync_properties_places:
  "client_places (snd (sync_music_bot_client_properties extra bot_id r)) = client_places r"
  by (simp add: client_places_def sync_music_bot_client_properties_def bt_values_update_keeps
      split: option.splits)

lemma sync_state_places:
  "client_places (sync_music_bot_client_state extra bot_id r) = client_places r"
  by (simp add: sync_music_bot_client_state_def sync_properties_places Let_def split: option.splits)

lemma fold_sync_places:
  "client_places (fold (\<lambda>(bot_id, _). sync_music_bot_client_state extra bot_id) bots r) = client_places r"
  by (rule fold_keeps [where g = client_places]) (simp add: case_prod_beta sync_state_places)

lemma reassigned_places:
  assumes "(sid, ch) \<in> set (client_places (upd_store (reassign_clients sid td dc) r))" and "dc \<notin> set td"
  shows "ch \<notin> set td"
proof -
  define f where "f = (\<lambda>c :: online_client. if oc_server_id c = sid \<and> oc_channel_id c \<in> set td
                           then c\<lparr>oc_channel_id := dc\<rparr> else c)"
  have "bt_values (st_online_clients (rt_store (upd_store (reassign_clients sid td dc) r)))
      = map f (bt_values (st_online_clients (rt_store r)))"
    by (simp add: reassign_clients_def bt_map_values_def bt_values_def f_def)
  then obtain c where "sid = oc_server_id (f c)" and "ch = oc_channel_id (f c)"
    using assms(1) by (auto simp: client_places_def)
  then show ?thesis
    using assms(2) by (cases "oc_server_id c = sid \<and> oc_channel_id c \<in> set td") (auto simp: f_def)
qed

text \<open>A successful delete with \<open>force=1\<close> ended in \<open>delete_channels\<close> on the whole subtree.\<close>

definition delete_success ::
    "(music_bot \<Rightarrow> row) \<Rightarrow> u32 \<Rightarrow> u32 \<Rightarrow> query_session \<Rightarrow> baseline_runtime \<Rightarrow>
     query_response \<times> query_session \<times> baseline_runtime \<Rightarrow> bool" where
  "delete_success extra sid cid session r res =
     (\<exists>cs target. server_channels r sid = Some cs \<and> channel_by_id r sid cid = Some target
        \<and> snd (snd res) = delete_channels extra sid (delete_closure cs [cid]) target
            (unwrap_or 1 (default_channel_id_for_server r sid)) cs r
        \<and> fst (snd res) =
            (case qs_current_channel_id session of
               Some c \<Rightarrow> if c \<in> set (delete_closure cs [cid])
                         then session\<lparr>qs_current_channel_id :=
                                Some (unwrap_or 1 (default_channel_id_for_server r sid))\<rparr> else session
             | None \<Rightarrow> session))"

lemma delete_ok_then:
  assumes sid: "qs_selected_virtual_server_id session = Some sid" and cid: "arg_u32 request ''cid'' = Some cid"
    and force: "unwrap_or 1 (arg_u32 request ''force'') = 1"
  shows "ok_then (delete_success extra sid cid session r) (handle_channeldelete extra request session r)"
proof -
  have sid': "s = sid" if "require_server session = Inr s" for s
    using that sid by (auto simp: require_server_def split: if_splits)
  show ?thesis
    unfolding handle_channeldelete_def cid option.case force
    by (intro ok_then_branches;
        (rule ok_then_error, fastforce simp: require_server_error actor_permissions_error)?)
      (rule ok_then_I, drule sid', hypsubst, simp add: delete_success_def)
qed

lemma delete_channels_places:
  assumes "(sid, ch) \<in> set (client_places (delete_channels extra sid td target dc cs r))" and "dc \<notin> set td"
  shows "ch \<notin> set td"
proof -
  have "client_places (upd_store (forget_channels sid td) r') = client_places r'" for r'
    by (simp add: client_places_def forget_channels_def)
  then have "\<exists>r'. client_places (delete_channels extra sid td target dc cs r)
      = client_places (upd_store (reassign_clients sid td dc) r')"
    unfolding delete_channels_def Let_def by (auto simp: fold_sync_places)
  then show ?thesis using assms reassigned_places by metis
qed

lemma delete_channels_forgets:
  "\<forall>a \<in> set (st_channel_group_assignments (rt_store (delete_channels extra sid td target dc cs r))).
     cga_channel_id a \<notin> set td"
  "\<forall>t \<in> set (st_channel_client_permissions (rt_store (delete_channels extra sid td target dc cs r))).
     ccp_channel_id t \<notin> set td"
  by (simp_all add: delete_channels_def Let_def forget_channels_def)


definition crowded_demo :: baseline_runtime where
  "crowded_demo =
     upd_store (\<lambda>s. s\<lparr>st_online_clients :=
                        bt_update 10 (\<lambda>c. c\<lparr>oc_channel_id := 3\<rparr>) (st_online_clients s)\<rparr>) nested_demo"


subsection \<open>A default channel inside the deleted subtree\<close>

text \<open>
  The guard against deleting the default channel looks at the named channel only. When the default
  channel is below it, a forced delete removes the default channel too, and the clients are moved to
  the channel that was just removed.
\<close>

definition nested_home_demo :: baseline_runtime where
  "nested_home_demo =
     upd_store (\<lambda>s. s\<lparr>st_channels := bt_map_values (map (\<lambda>c. c\<lparr>ch_flag_default := (ch_id c = 3)\<rparr>)) (st_channels s)\<rparr>)
       crowded_demo"

theorem forced_delete_loses_default_channel:
  "let (resp, session', r') = handle_channeldelete (\<lambda>_. [])
         (demo_request ''channeldelete'' [(''cid'', ''4'')]) admin_session nested_home_demo
   in default_channel_id_for_server nested_home_demo 1 = Some 3 \<and> error_id resp = 0
      \<and> map_option oc_channel_id (bt_get (st_online_clients (rt_store r')) 10) = Some 3
      \<and> \<not> channel_exists r' 1 3"
  by code_simp

end
