(* ===== verification/Normalization.thy ===== *)
theory Normalization
  imports Permissions
begin

text \<open>
  The allocators and the normalisation passes of \<open>runtime/normalization_and_helpers.rs\<close> with the seeds
  of \<open>runtime/catalog_and_utils.rs\<close>. The passes run when a state file is loaded and after every
  command that deletes a group; they make the references between the tables of the store consistent.
\<close>

subsection \<open>Allocators\<close>

text \<open>The loop of \<open>allocate_query_client_id\<close> saturates at the last id: \<open>None\<close> is not returning.\<close>

partial_function (option) allocate_loop :: "(u64, online_client) btree \<Rightarrow> u64 \<Rightarrow> u64 option" where
  "allocate_loop online next_id =
     (if bt_contains_key online next_id then allocate_loop online (sat_add next_id 1) else Some next_id)"

definition allocate_query_client_id :: "baseline_runtime \<Rightarrow> (u64 \<times> baseline_runtime) option" where
  "allocate_query_client_id r =
     map_option
       (\<lambda>next_id. (next_id, upd_store (st_next_query_client_id_update (\<lambda>_. sat_add next_id 1)) r))
       (allocate_loop (st_online_clients (rt_store r)) (st_next_query_client_id (rt_store r)))"

definition allocate_client_database_id :: "baseline_runtime \<Rightarrow> u64 \<times> baseline_runtime" where
  "allocate_client_database_id r =
     (let next_id = st_next_client_database_id (rt_store r)
      in (next_id, upd_store (st_next_client_database_id_update (\<lambda>_. sat_add next_id 1)) r))"

definition next_client_database_seed :: "(string, query_account) btree \<Rightarrow> u64" where
  "next_client_database_seed query_accounts =
     unwrap_or 100 (map_option (\<lambda>v. sat_add v 1)
       (iter_max (List.map_filter qa_client_database_id (bt_values query_accounts))))"

definition next_token_id_seed :: "(u32, privilege_token) btree \<Rightarrow> u32" where
  "next_token_id_seed tokens =
     unwrap_or 1 (map_option (\<lambda>v. sat_add v 1) (iter_max (bt_keys tokens)))"

definition next_token_action_id_seed :: "(u32, privilege_token) btree \<Rightarrow> u32" where
  "next_token_action_id_seed tokens =
     unwrap_or 1 (map_option (\<lambda>v. sat_add v 1)
       (iter_max (concat (map (\<lambda>t. map ta_id (tk_actions t)) (bt_values tokens)))))"

definition next_token_id :: "baseline_runtime \<Rightarrow> u32 \<times> baseline_runtime" where
  "next_token_id r =
     (let token_id = max (st_next_token_id (rt_store r)) (next_token_id_seed (st_tokens (rt_store r)))
      in (token_id, upd_store (st_next_token_id_update (\<lambda>_. sat_add token_id 1)) r))"

definition next_token_action_id :: "baseline_runtime \<Rightarrow> u32 \<times> baseline_runtime" where
  "next_token_action_id r =
     (let action_id = max (st_next_token_action_id (rt_store r))
                          (next_token_action_id_seed (st_tokens (rt_store r)))
      in (action_id, upd_store (st_next_token_action_id_update (\<lambda>_. sat_add action_id 1)) r))"

definition next_conversation_timestamp_seed ::
    "(u32, conversation_message list) btree \<Rightarrow> (u32, private_message list) btree \<Rightarrow> u64" where
  "next_conversation_timestamp_seed conversations privates =
     unwrap_or 1 (map_option (\<lambda>v. sat_add v 1)
       (iter_max (concat (map (map cm_timestamp) (bt_values conversations))
                  @ concat (map (map pm_timestamp) (bt_values privates)))))"

definition next_conversation_timestamp :: "u64 \<Rightarrow> baseline_runtime \<Rightarrow> u64 \<times> baseline_runtime" where
  "next_conversation_timestamp now_millis r =
     (let timestamp = max now_millis (st_next_conversation_timestamp (rt_store r))
      in (timestamp, upd_store (st_next_conversation_timestamp_update (\<lambda>_. sat_add timestamp 1)) r))"

definition next_server_group_id :: "baseline_runtime \<Rightarrow> u32" where
  "next_server_group_id r =
     unwrap_or 1 (map_option (\<lambda>v. sat_add v 1) (iter_max (bt_keys (st_server_groups (rt_store r)))))"

definition next_channel_group_id :: "baseline_runtime \<Rightarrow> u32" where
  "next_channel_group_id r =
     unwrap_or 1 (map_option (\<lambda>v. sat_add v 1) (iter_max (bt_keys (st_channel_groups (rt_store r)))))"

definition append_server_log :: "u64 \<Rightarrow> u32 \<Rightarrow> u32 \<Rightarrow> string \<Rightarrow> string \<Rightarrow> baseline_runtime \<Rightarrow> baseline_runtime" where
  "append_server_log now server_id level log_channel text r =
     (let log_id = max (st_next_log_id (rt_store r)) 1
      in upd_store (\<lambda>s. s\<lparr>st_next_log_id := sat_add log_id 1,
                          st_server_logs := st_server_logs s
                            @ [\<lparr>sl_id = log_id, sl_server_id = server_id, sl_timestamp = now,
                                 sl_level = max 1 (min 4 level), sl_channel = log_channel,
                                 sl_message = text\<rparr>]\<rparr>) r)"

subsection \<open>Groups in use\<close>

definition server_group_in_use :: "baseline_runtime \<Rightarrow> u32 \<Rightarrow> bool" where
  "server_group_in_use r group_id =
     (list_ex (\<lambda>a. group_id \<in> set (qa_server_groups a)) (bt_values (st_query_accounts (rt_store r)))
      \<or> list_ex (\<lambda>c. group_id \<in> set (oc_server_groups c)) (bt_values (st_online_clients (rt_store r))))"

definition server_group_ids_by_auto_type :: "baseline_runtime \<Rightarrow> int \<Rightarrow> u32 list" where
  "server_group_ids_by_auto_type r auto_update_type =
     List.map_filter
       (\<lambda>(group_id, g).
          map_option (\<lambda>_. group_id)
            (opt_filter (\<lambda>a. pa_value a = auto_update_type)
               (bt_get (sg_permissions g) ''i_group_auto_update_type'')))
       (st_server_groups (rt_store r))"

definition channel_group_in_use :: "baseline_runtime \<Rightarrow> u32 \<Rightarrow> bool" where
  "channel_group_in_use r group_id =
     list_ex (\<lambda>a. cga_channel_group_id a = group_id) (st_channel_group_assignments (rt_store r))"

definition default_server_groups_for_login_with_availability :: "string \<Rightarrow> bool \<Rightarrow> bool \<Rightarrow> u32 list" where
  "default_server_groups_for_login_with_availability login_name has_admin_group has_guest_group =
     (if login_name = ''serveradmin'' \<and> has_admin_group then [6]
      else if has_guest_group then [7]
      else if has_admin_group then [6]
      else [])"

definition default_server_groups_for_new_query_account :: "baseline_runtime \<Rightarrow> u32 list" where
  "default_server_groups_for_new_query_account r =
     default_server_groups_for_login_with_availability ''query-account''
       (bt_contains_key (st_server_groups (rt_store r)) 6)
       (bt_contains_key (st_server_groups (rt_store r)) 7)"

subsection \<open>Normalisation passes\<close>

text \<open>\<open>sort_unstable\<close> followed by \<open>dedup\<close>.\<close>

definition sort_dedup :: "'a::linorder list \<Rightarrow> 'a list" where
  "sort_dedup xs = remdups_adj (sort xs)"

definition normalize_account_groups :: "u32 list \<Rightarrow> bool \<Rightarrow> bool \<Rightarrow> query_account \<Rightarrow> query_account" where
  "normalize_account_groups valid_group_ids has_admin_group has_guest_group account =
     (let kept = filter (\<lambda>g. g \<in> set valid_group_ids) (qa_server_groups account);
          groups = (if kept = []
                    then default_server_groups_for_login_with_availability (qa_login_name account)
                           has_admin_group has_guest_group
                    else kept)
      in account\<lparr>qa_server_groups := sort_dedup groups\<rparr>)"

definition normalize_query_account_groups :: "baseline_runtime \<Rightarrow> baseline_runtime" where
  "normalize_query_account_groups r =
     upd_store
       (\<lambda>s. s\<lparr>st_query_accounts :=
                bt_map_values
                  (normalize_account_groups (bt_keys (st_server_groups s))
                     (bt_contains_key (st_server_groups s) 6) (bt_contains_key (st_server_groups s) 7))
                  (st_query_accounts s)\<rparr>) r"

definition normalize_client_groups :: "u32 list \<Rightarrow> online_client \<Rightarrow> online_client" where
  "normalize_client_groups valid_group_ids c =
     c\<lparr>oc_server_groups := sort_dedup (filter (\<lambda>g. g \<in> set valid_group_ids) (oc_server_groups c))\<rparr>"

definition normalize_online_client_groups :: "baseline_runtime \<Rightarrow> baseline_runtime" where
  "normalize_online_client_groups r =
     upd_store
       (\<lambda>s. s\<lparr>st_online_clients :=
                bt_map_values (normalize_client_groups (bt_keys (st_server_groups s)))
                  (st_online_clients s)\<rparr>) r"

definition all_channel_ids :: "in_memory_store \<Rightarrow> u32 list" where
  "all_channel_ids s = map ch_id (concat (bt_values (st_channels s)))"

definition assignment_valid :: "baseline_runtime \<Rightarrow> channel_group_assignment \<Rightarrow> bool" where
  "assignment_valid r a =
     (bt_contains_key (st_channel_groups (rt_store r)) (cga_channel_group_id a)
      \<and> cga_channel_id a \<in> set (all_channel_ids (rt_store r))
      \<and> cga_client_database_id a \<in> set (known_client_database_ids r))"

definition assignments_by_key ::
    "channel_group_assignment list \<Rightarrow> (u32 \<times> u64, u32) btree" where
  "assignments_by_key as =
     bt_collect (map (\<lambda>a. ((cga_channel_id a, cga_client_database_id a), cga_channel_group_id a)) as)"

definition normalize_channel_group_assignments :: "baseline_runtime \<Rightarrow> baseline_runtime" where
  "normalize_channel_group_assignments r =
     upd_store
       (\<lambda>s. s\<lparr>st_channel_group_assignments :=
                map (\<lambda>((channel_id, client_database_id), channel_group_id).
                       \<lparr>cga_channel_id = channel_id, cga_client_database_id = client_database_id,
                        cga_channel_group_id = channel_group_id\<rparr>)
                  (assignments_by_key
                     (filter (assignment_valid r) (st_channel_group_assignments s)))\<rparr>) r"

definition merge_client_target ::
    "client_permission_target \<Rightarrow> (u64, client_permission_target) btree \<Rightarrow>
     (u64, client_permission_target) btree" where
  "merge_client_target target normalized =
     (let entry = unwrap_or
            \<lparr>cpt_server_id = 0, cpt_client_database_id = cpt_client_database_id target,
             cpt_client_unique_identifier = [], cpt_client_nickname = [], cpt_permissions = []\<rparr>
            (bt_get normalized (cpt_client_database_id target))
      in bt_insert (cpt_client_database_id target)
           (entry\<lparr>cpt_client_unique_identifier :=
                     (if cpt_client_unique_identifier entry = [] then cpt_client_unique_identifier target
                      else cpt_client_unique_identifier entry),
                  cpt_client_nickname :=
                     (if cpt_client_nickname entry = [] then cpt_client_nickname target
                      else cpt_client_nickname entry),
                  cpt_permissions := bt_extend (cpt_permissions entry) (cpt_permissions target)\<rparr>)
           normalized)"

definition normalize_client_permissions :: "baseline_runtime \<Rightarrow> baseline_runtime" where
  "normalize_client_permissions r =
     upd_store
       (\<lambda>s. s\<lparr>st_client_permissions :=
                bt_values
                  (foldl (\<lambda>normalized target.
                            if cpt_permissions target = [] then normalized
                            else merge_client_target target normalized)
                     [] (st_client_permissions s))\<rparr>) r"

definition channel_client_target_valid :: "baseline_runtime \<Rightarrow> channel_client_permission_target \<Rightarrow> bool" where
  "channel_client_target_valid r t =
     (ccp_channel_id t \<in> set (all_channel_ids (rt_store r))
      \<and> ccp_client_database_id t \<in> set (known_client_database_ids r)
      \<and> ccp_permissions t \<noteq> [])"

definition merge_channel_client_target ::
    "channel_client_permission_target \<Rightarrow> (u32 \<times> u64, perm_map) btree \<Rightarrow> (u32 \<times> u64, perm_map) btree" where
  "merge_channel_client_target t normalized =
     (let k = (ccp_channel_id t, ccp_client_database_id t)
      in bt_insert k (bt_extend (unwrap_or [] (bt_get normalized k)) (ccp_permissions t)) normalized)"

definition normalize_channel_client_permissions :: "baseline_runtime \<Rightarrow> baseline_runtime" where
  "normalize_channel_client_permissions r =
     upd_store
       (\<lambda>s. s\<lparr>st_channel_client_permissions :=
                map (\<lambda>((channel_id, client_database_id), permissions).
                       \<lparr>ccp_channel_id = channel_id, ccp_client_database_id = client_database_id,
                        ccp_permissions = permissions\<rparr>)
                  (foldl (\<lambda>normalized t. merge_channel_client_target t normalized) []
                     (filter (channel_client_target_valid r) (st_channel_client_permissions s)))\<rparr>) r"

subsection \<open>The client id allocator\<close>

lemma allocate_loop_Some:
  assumes "allocate_loop m n = Some i"
  shows "n \<le> i \<and> \<not> bt_contains_key m i \<and> (\<forall>j. n \<le> j \<and> j < i \<longrightarrow> bt_contains_key m j)"
proof (rule allocate_loop.raw_induct
    [of "\<lambda>m n i. n \<le> i \<and> \<not> bt_contains_key m i \<and> (\<forall>j. n \<le> j \<and> j < i \<longrightarrow> bt_contains_key m j)", OF _ assms])
  fix loop :: "(u64, online_client) btree \<Rightarrow> u64 \<Rightarrow> u64 option" and m n i
  assume IH: "\<And>m n i. loop m n = Some i \<Longrightarrow>
      n \<le> i \<and> \<not> bt_contains_key m i \<and> (\<forall>j. n \<le> j \<and> j < i \<longrightarrow> bt_contains_key m j)"
    and body: "(if bt_contains_key m n then loop m (sat_add n 1) else Some n) = Some i"
  show "n \<le> i \<and> \<not> bt_contains_key m i \<and> (\<forall>j. n \<le> j \<and> j < i \<longrightarrow> bt_contains_key m j)"
  proof (cases "bt_contains_key m n")
    case True
    then have r: "sat_add n 1 \<le> i" "\<not> bt_contains_key m i"
      "\<forall>j. sat_add n 1 \<le> j \<and> j < i \<longrightarrow> bt_contains_key m j" using IH body by auto
    have "j = n \<or> sat_add n 1 \<le> j" if "n \<le> j" for j
      using that unat_sat_add [of n 1] by (auto simp: word_le_nat_alt word_unat_eq_iff)
    then show ?thesis using r True order_trans [OF sat_add_le r(1)] by blast
  qed (use body in auto)
qed

lemma allocate_loop_returns:
  "n \<le> j \<Longrightarrow> \<not> bt_contains_key m j \<Longrightarrow> allocate_loop m n \<noteq> None"
proof (induction "unat j - unat n" arbitrary: n rule: less_induct)
  case less
  show ?case
  proof (cases "bt_contains_key m n")
    case True
    then have "n < j" using less.prems by (metis order_le_less)
    moreover have "unat j < 2 ^ 64" using unsigned_less [of j] by simp
    then have "unat (sat_add n 1) = unat n + 1"
      using \<open>n < j\<close> by (simp add: unat_sat_add word_less_nat_alt)
    ultimately have "allocate_loop m (sat_add n 1) \<noteq> None"
      using less.prems by (intro less.hyps) (simp_all add: word_less_nat_alt word_le_nat_alt)
    then show ?thesis using True by (subst allocate_loop.simps) simp
  qed (subst allocate_loop.simps, simp)
qed

text \<open>
  The loop that allocates the id of a query client returns exactly when some id from the
  counter on is free, and then returns the first such id, which no online client has; the counter
  moves behind it.
\<close>

theorem allocate_query_client_id_correct:
  "(allocate_query_client_id r \<noteq> None
    \<longleftrightarrow> (\<exists>j \<ge> st_next_query_client_id (rt_store r). \<not> bt_contains_key (st_online_clients (rt_store r)) j))
   \<and> (\<forall>i r'. allocate_query_client_id r = Some (i, r') \<longrightarrow>
        st_next_query_client_id (rt_store r) \<le> i
        \<and> \<not> bt_contains_key (st_online_clients (rt_store r)) i
        \<and> (\<forall>j. st_next_query_client_id (rt_store r) \<le> j \<and> j < i \<longrightarrow>
              bt_contains_key (st_online_clients (rt_store r)) j)
        \<and> st_online_clients (rt_store r') = st_online_clients (rt_store r)
        \<and> st_next_query_client_id (rt_store r') = sat_add i 1)"
proof -
  let ?m = "st_online_clients (rt_store r)" and ?n = "st_next_query_client_id (rt_store r)"
  have "allocate_loop ?m ?n \<noteq> None \<longleftrightarrow> (\<exists>j \<ge> ?n. \<not> bt_contains_key ?m j)"
    using allocate_loop_Some [of ?m ?n] allocate_loop_returns [of ?n _ ?m] by blast
  moreover have "st_online_clients (st_next_query_client_id_update f s) = st_online_clients s" for f s by simp
  ultimately show ?thesis
    using allocate_loop_Some [of ?m ?n] by (auto simp: allocate_query_client_id_def)
qed

definition two_clients_demo :: baseline_runtime where
  "two_clients_demo = empty_runtime\<lparr>rt_store := empty_store\<lparr>
     st_online_clients := [(1, seed_online_client_10 0), (2, seed_online_client_11 0)]\<rparr>\<rparr>"

subsection \<open>The passes make the tables consistent\<close>

text \<open>The four passes in the order in which \<open>load_persisted_state\<close> runs them.\<close>

definition normalize_store :: "baseline_runtime \<Rightarrow> baseline_runtime" where
  "normalize_store r =
     normalize_channel_client_permissions
       (normalize_channel_group_assignments
          (normalize_client_permissions (normalize_query_account_groups r)))"

lemma sorted_remdups_adj: "sorted xs \<Longrightarrow> sorted (remdups_adj xs) \<and> distinct (remdups_adj xs)"
  by (induction xs rule: remdups_adj.induct) (auto simp: less_le)

lemma sort_dedup_props [simp]:
  "set (sort_dedup xs) = set xs" "sorted (sort_dedup xs)" "distinct (sort_dedup xs)"
  by (simp_all add: sort_dedup_def sorted_remdups_adj)

lemma sort_dedup_Nil [simp]: "sort_dedup xs = [] \<longleftrightarrow> xs = []"
  using sort_dedup_props(1) [of xs] by (metis set_empty)

lemma bt_map_values_same: "(\<And>v. v \<in> set (bt_values m) \<Longrightarrow> f v = v) \<Longrightarrow> bt_map_values f m = m"
  unfolding bt_map_values_def by (rule map_idI) (force simp: bt_values_def)

lemma sort_dedup_same: "sorted xs \<Longrightarrow> distinct xs \<Longrightarrow> sort_dedup xs = xs"
  by (simp add: sort_dedup_def sorted_sort_id remdups_adj_distinct)

text \<open>Rebuilding an ordered map from its own entries, with any step that inserts a fresh key.\<close>

lemma foldl_rebuild:
  assumes "bt_inv (acc @ map (\<lambda>x. (key x, val x)) xs)"
    and "\<And>acc x. x \<in> set xs \<Longrightarrow> bt_get acc (key x) = None \<Longrightarrow> f acc x = bt_insert (key x) (val x) acc"
  shows "foldl f acc xs = acc @ map (\<lambda>x. (key x, val x)) xs"
  using assms
proof (induction xs arbitrary: acc)
  case (Cons x xs)
  have lt: "\<forall>p \<in> set acc. fst p < key x" using Cons.prems(1) by (auto simp: bt_inv_def sorted_wrt_append)
  then have "bt_get acc (key x) = None" by (auto simp: bt_get_def map_of_eq_None_iff)
  then have "f acc x = acc @ [(key x, val x)]" using Cons.prems(2) bt_insert_above [OF lt] by simp
  then show ?case using Cons.IH [of "acc @ [(key x, val x)]"] Cons.prems by simp
qed simp

text \<open>What each pass establishes about its table.\<close>

definition accounts_normal :: "baseline_runtime \<Rightarrow> bool" where
  "accounts_normal r =
     (\<forall>a \<in> set (bt_values (st_query_accounts (rt_store r))).
        set (qa_server_groups a) \<subseteq> set (bt_keys (st_server_groups (rt_store r)))
        \<and> sorted (qa_server_groups a) \<and> distinct (qa_server_groups a)
        \<and> (qa_server_groups a = [] \<longrightarrow>
             default_server_groups_for_login_with_availability (qa_login_name a)
               (bt_contains_key (st_server_groups (rt_store r)) 6)
               (bt_contains_key (st_server_groups (rt_store r)) 7) = []))"

definition client_targets_normal :: "client_permission_target list \<Rightarrow> bool" where
  "client_targets_normal ts =
     (bt_inv (map (\<lambda>t. (cpt_client_database_id t, t)) ts)
      \<and> (\<forall>t \<in> set ts. cpt_server_id t = 0 \<and> cpt_permissions t \<noteq> [] \<and> bt_inv (cpt_permissions t)))"

definition assignments_normal :: "baseline_runtime \<Rightarrow> bool" where
  "assignments_normal r =
     (bt_inv (map (\<lambda>a. ((cga_channel_id a, cga_client_database_id a), cga_channel_group_id a))
               (st_channel_group_assignments (rt_store r)))
      \<and> (\<forall>a \<in> set (st_channel_group_assignments (rt_store r)). assignment_valid r a))"

definition channel_clients_normal :: "baseline_runtime \<Rightarrow> bool" where
  "channel_clients_normal r =
     (bt_inv (map (\<lambda>t. ((ccp_channel_id t, ccp_client_database_id t), ccp_permissions t))
               (st_channel_client_permissions (rt_store r)))
      \<and> (\<forall>t \<in> set (st_channel_client_permissions (rt_store r)).
           channel_client_target_valid r t \<and> bt_inv (ccp_permissions t)))"

lemma default_groups_exist:
  "set (default_server_groups_for_login_with_availability n
          (bt_contains_key gs 6) (bt_contains_key gs 7)) \<subseteq> set (bt_keys gs)"
  by (auto simp: default_server_groups_for_login_with_availability_def bt_contains_key_def bt_keys_iff)

lemma accounts_normalized: "accounts_normal (normalize_query_account_groups r)"
proof -
  let ?gs = "st_server_groups (rt_store r)"
  have "set (qa_server_groups (normalize_account_groups (bt_keys ?gs) (bt_contains_key ?gs 6)
          (bt_contains_key ?gs 7) a)) \<subseteq> set (bt_keys ?gs)" for a
    using default_groups_exist [of "qa_login_name a" ?gs]
    by (auto simp: normalize_account_groups_def Let_def)
  then show ?thesis
    by (auto simp: accounts_normal_def normalize_query_account_groups_def bt_map_values_def bt_values_def
        normalize_account_groups_def Let_def)
qed

lemma accounts_normal_fixed:
  assumes "accounts_normal r" shows "normalize_query_account_groups r = r"
proof -
  let ?gs = "st_server_groups (rt_store r)"
  let ?f = "normalize_account_groups (bt_keys ?gs) (bt_contains_key ?gs 6) (bt_contains_key ?gs 7)"
  have "?f a = a" if "a \<in> set (bt_values (st_query_accounts (rt_store r)))" for a
  proof -
    have a: "set (qa_server_groups a) \<subseteq> set (bt_keys ?gs)" "sorted (qa_server_groups a)"
      "distinct (qa_server_groups a)" using assms that by (auto simp: accounts_normal_def)
    then have "filter (\<lambda>g. g \<in> set (bt_keys ?gs)) (qa_server_groups a) = qa_server_groups a"
      by (intro filter_True) auto
    then show ?thesis using a assms that
      by (auto simp: normalize_account_groups_def Let_def sort_dedup_same accounts_normal_def)
  qed
  then have "bt_map_values ?f (st_query_accounts (rt_store r)) = st_query_accounts (rt_store r)"
    by (rule bt_map_values_same)
  then show ?thesis by (simp add: normalize_query_account_groups_def upd_store_def)
qed

lemma bt_extend_Nil_sorted: "bt_inv m \<Longrightarrow> bt_extend [] m = m"
  using bt_extend_sorted [of "[]" m] by simp

lemma set_bt_insert_subset: "set (bt_insert k v m) \<subseteq> insert (k, v) (set m)"
  by (induction m) (auto split: if_splits)

lemma bt_insert_ball: "(\<forall>p \<in> set m. P p) \<Longrightarrow> P (k, v) \<Longrightarrow> \<forall>p \<in> set (bt_insert k v m). P p"
  using set_bt_insert_subset [of k v m] by blast

lemma bt_get_mem: "bt_get m k = Some v \<Longrightarrow> (k, v) \<in> set m"
  by (simp add: bt_get_def map_of_SomeD)

lemma bt_insert_ne [simp]: "bt_insert k v m \<noteq> []"
  by (cases m) (auto split: if_splits)

lemma bt_extend_ne: "ps \<noteq> [] \<Longrightarrow> bt_extend m ps \<noteq> []"
  by (induction ps rule: rev_induct) (simp_all add: bt_extend_def)

text \<open>An entry of the map under construction is filed under its own key.\<close>

definition target_entry :: "u64 \<times> client_permission_target \<Rightarrow> bool" where
  "target_entry p =
     (fst p = cpt_client_database_id (snd p) \<and> cpt_server_id (snd p) = 0
      \<and> cpt_permissions (snd p) \<noteq> [] \<and> bt_inv (cpt_permissions (snd p)))"

lemma merge_client_target_keeps:
  assumes "bt_inv m" and "\<forall>p \<in> set m. target_entry p" and "cpt_permissions t \<noteq> []"
  shows "bt_inv (merge_client_target t m) \<and> (\<forall>p \<in> set (merge_client_target t m). target_entry p)"
proof -
  let ?e = "unwrap_or \<lparr>cpt_server_id = 0, cpt_client_database_id = cpt_client_database_id t,
             cpt_client_unique_identifier = [], cpt_client_nickname = [], cpt_permissions = []\<rparr>
            (bt_get m (cpt_client_database_id t))"
  have "cpt_client_database_id ?e = cpt_client_database_id t \<and> cpt_server_id ?e = 0 \<and> bt_inv (cpt_permissions ?e)"
    using assms(2) by (cases "bt_get m (cpt_client_database_id t)") (auto simp: target_entry_def dest!: bt_get_mem)
  then show ?thesis
    using assms unfolding merge_client_target_def Let_def
    by (intro conjI bt_inv_insert bt_insert_ball) (simp_all add: target_entry_def bt_inv_extend bt_extend_ne)
qed

abbreviation client_target_fold ::
    "(u64, client_permission_target) btree \<Rightarrow> client_permission_target list \<Rightarrow>
     (u64, client_permission_target) btree" where
  "client_target_fold \<equiv>
     foldl (\<lambda>normalized target. if cpt_permissions target = [] then normalized
                                else merge_client_target target normalized)"

lemma client_target_fold_keeps:
  "bt_inv m \<Longrightarrow> \<forall>p \<in> set m. target_entry p \<Longrightarrow>
   bt_inv (client_target_fold m ts) \<and> (\<forall>p \<in> set (client_target_fold m ts). target_entry p)"
proof (induction ts arbitrary: m)
  case (Cons t ts)
  show ?case
  proof (cases "cpt_permissions t = []")
    case False
    then have "bt_inv (merge_client_target t m)" "\<forall>p \<in> set (merge_client_target t m). target_entry p"
      using merge_client_target_keeps [of m t] Cons.prems by blast+
    then show ?thesis using Cons.IH [of "merge_client_target t m"] False by simp
  qed (use Cons in simp)
qed simp

lemma client_targets_normalized:
  "client_targets_normal (st_client_permissions (rt_store (normalize_client_permissions r)))"
proof -
  let ?m = "client_target_fold [] (st_client_permissions (rt_store r))"
  have m: "bt_inv ?m" "\<forall>p \<in> set ?m. target_entry p"
    using client_target_fold_keeps [of "[]" "st_client_permissions (rt_store r)"] by simp_all
  have "map (\<lambda>t. (cpt_client_database_id t, t)) (bt_values ?m) = map (\<lambda>p. p) ?m"
    unfolding bt_values_def map_map using m(2) by (intro map_cong) (auto simp: target_entry_def)
  then show ?thesis
    using m by (auto simp: client_targets_normal_def normalize_client_permissions_def target_entry_def bt_values_def)
qed

lemma client_targets_fixed:
  assumes "client_targets_normal (st_client_permissions (rt_store r))"
  shows "normalize_client_permissions r = r"
proof -
  let ?ts = "st_client_permissions (rt_store r)"
  have "client_target_fold [] ?ts = [] @ map (\<lambda>t. (cpt_client_database_id t, t)) ?ts"
  proof (rule foldl_rebuild)
    show "bt_inv ([] @ map (\<lambda>t. (cpt_client_database_id t, t)) ?ts)"
      using assms by (simp add: client_targets_normal_def)
    fix acc :: "(u64, client_permission_target) btree" and t
    assume t: "t \<in> set ?ts" "bt_get acc (cpt_client_database_id t) = None"
    then have p: "cpt_permissions t \<noteq> []" "cpt_server_id t = 0" "bt_extend [] (cpt_permissions t) = cpt_permissions t"
      using assms by (auto simp: client_targets_normal_def bt_extend_Nil_sorted)
    then show "(if cpt_permissions t = [] then acc else merge_client_target t acc)
        = bt_insert (cpt_client_database_id t) t acc"
      using t(2) by (cases t) (simp add: merge_client_target_def)
  qed
  then have "bt_values (client_target_fold [] ?ts) = ?ts" by (simp add: bt_values_def comp_def)
  then show ?thesis by (simp add: normalize_client_permissions_def upd_store_def)
qed

lemma set_bt_extend_subset: "set (bt_extend m ps) \<subseteq> set m \<union> set ps"
proof (induction ps arbitrary: m)
  case (Cons q ps)
  then show ?case using set_bt_insert_subset [of "fst q" "snd q" m] by (fastforce simp: bt_extend_def)
qed (simp add: bt_extend_def)

lemma known_ids_assignments [simp]:
  "known_client_database_ids (upd_store (\<lambda>s. s\<lparr>st_channel_group_assignments := f s\<rparr>) r) = known_client_database_ids r"
  "known_client_database_ids (upd_store (\<lambda>s. s\<lparr>st_channel_client_permissions := g s\<rparr>) r) = known_client_database_ids r"
  by (simp_all add: known_client_database_ids_def)

lemma assignments_normalized: "assignments_normal (normalize_channel_group_assignments r)"
proof -
  let ?as = "filter (assignment_valid r) (st_channel_group_assignments (rt_store r))"
  let ?m = "assignments_by_key ?as"
  let ?mk = "\<lambda>((channel_id, client_database_id), channel_group_id).
      \<lparr>cga_channel_id = channel_id, cga_client_database_id = client_database_id,
       cga_channel_group_id = channel_group_id\<rparr>"
  have st: "st_channel_group_assignments (rt_store (normalize_channel_group_assignments r)) = map ?mk ?m"
    by (simp add: normalize_channel_group_assignments_def)
  have valid: "assignment_valid (normalize_channel_group_assignments r) a = assignment_valid r a" for a
    by (simp add: assignment_valid_def normalize_channel_group_assignments_def all_channel_ids_def)
  have "map (\<lambda>a. ((cga_channel_id a, cga_client_database_id a), cga_channel_group_id a)) (map ?mk ?m)
      = map (\<lambda>p. p) ?m" unfolding map_map by (intro map_cong) auto
  then have inv: "bt_inv (map (\<lambda>a. ((cga_channel_id a, cga_client_database_id a), cga_channel_group_id a)) (map ?mk ?m))"
    by (simp add: assignments_by_key_def)
  have "set ?m \<subseteq> set (map (\<lambda>a. ((cga_channel_id a, cga_client_database_id a), cga_channel_group_id a)) ?as)"
    unfolding assignments_by_key_def bt_collect_def by (rule order_trans [OF set_bt_extend_subset]) simp
  then have "assignment_valid r a" if "a \<in> set (map ?mk ?m)" for a
    using that by (fastforce simp: assignment_valid_def)
  then show ?thesis using inv unfolding assignments_normal_def st valid by blast
qed

lemma assignments_fixed:
  assumes "assignments_normal r" shows "normalize_channel_group_assignments r = r"
proof -
  let ?as = "st_channel_group_assignments (rt_store r)"
  have "filter (assignment_valid r) ?as = ?as" using assms by (simp add: assignments_normal_def)
  moreover have "assignments_by_key ?as = map (\<lambda>a. ((cga_channel_id a, cga_client_database_id a), cga_channel_group_id a)) ?as"
    using assms by (simp add: assignments_by_key_def assignments_normal_def bt_collect_def bt_extend_Nil_sorted)
  moreover have "map (\<lambda>a. \<lparr>cga_channel_id = cga_channel_id a, cga_client_database_id = cga_client_database_id a,
      cga_channel_group_id = cga_channel_group_id a\<rparr>) ?as = ?as" by (rule map_idI) simp
  ultimately show ?thesis
    by (simp add: normalize_channel_group_assignments_def upd_store_def comp_def)
qed

text \<open>The same for the permissions of a client in a channel.\<close>

definition channel_client_entry :: "baseline_runtime \<Rightarrow> (u32 \<times> u64) \<times> perm_map \<Rightarrow> bool" where
  "channel_client_entry r p =
     (fst (fst p) \<in> set (all_channel_ids (rt_store r)) \<and> snd (fst p) \<in> set (known_client_database_ids r)
      \<and> snd p \<noteq> [] \<and> bt_inv (snd p))"

lemma channel_client_fold_keeps:
  "bt_inv m \<Longrightarrow> \<forall>p \<in> set m. channel_client_entry r p \<Longrightarrow> \<forall>t \<in> set ts. channel_client_target_valid r t \<Longrightarrow>
   bt_inv (foldl (\<lambda>normalized t. merge_channel_client_target t normalized) m ts)
   \<and> (\<forall>p \<in> set (foldl (\<lambda>normalized t. merge_channel_client_target t normalized) m ts). channel_client_entry r p)"
proof (induction ts arbitrary: m)
  case (Cons t ts)
  let ?k = "(ccp_channel_id t, ccp_client_database_id t)"
  have "bt_inv (unwrap_or [] (bt_get m ?k))"
    using Cons.prems(2) by (cases "bt_get m ?k") (auto simp: channel_client_entry_def dest!: bt_get_mem)
  then have "bt_inv (merge_channel_client_target t m)
      \<and> (\<forall>p \<in> set (merge_channel_client_target t m). channel_client_entry r p)"
    using Cons.prems unfolding merge_channel_client_target_def Let_def
    by (intro conjI bt_inv_insert bt_insert_ball)
      (simp_all add: channel_client_entry_def channel_client_target_valid_def bt_inv_extend bt_extend_ne)
  then have "bt_inv (merge_channel_client_target t m)"
    "\<forall>p \<in> set (merge_channel_client_target t m). channel_client_entry r p" by blast+
  then show ?case using Cons.IH [of "merge_channel_client_target t m"] Cons.prems(3) by simp
qed simp

lemma channel_clients_normalized: "channel_clients_normal (normalize_channel_client_permissions r)"
proof -
  let ?ts = "filter (channel_client_target_valid r) (st_channel_client_permissions (rt_store r))"
  let ?m = "foldl (\<lambda>normalized t. merge_channel_client_target t normalized) [] ?ts"
  let ?mk = "\<lambda>((channel_id, client_database_id), permissions).
      \<lparr>ccp_channel_id = channel_id, ccp_client_database_id = client_database_id, ccp_permissions = permissions\<rparr>"
  have m: "bt_inv ?m" "\<forall>p \<in> set ?m. channel_client_entry r p"
    using channel_client_fold_keeps [of "[]" r ?ts] by simp_all
  have st: "st_channel_client_permissions (rt_store (normalize_channel_client_permissions r)) = map ?mk ?m"
    by (simp add: normalize_channel_client_permissions_def)
  have valid: "channel_client_target_valid (normalize_channel_client_permissions r) t = channel_client_target_valid r t" for t
    by (simp add: channel_client_target_valid_def normalize_channel_client_permissions_def all_channel_ids_def)
  have "map (\<lambda>t. ((ccp_channel_id t, ccp_client_database_id t), ccp_permissions t)) (map ?mk ?m)
      = map (\<lambda>p. p) ?m" unfolding map_map by (intro map_cong) auto
  then have "bt_inv (map (\<lambda>t. ((ccp_channel_id t, ccp_client_database_id t), ccp_permissions t)) (map ?mk ?m))"
    using m(1) by simp
  moreover have "channel_client_target_valid r t \<and> bt_inv (ccp_permissions t)" if "t \<in> set (map ?mk ?m)" for t
    using that m(2) by (fastforce simp: channel_client_entry_def channel_client_target_valid_def)
  ultimately show ?thesis unfolding channel_clients_normal_def st valid by blast
qed

lemma channel_clients_fixed:
  assumes "channel_clients_normal r" shows "normalize_channel_client_permissions r = r"
proof -
  let ?ts = "st_channel_client_permissions (rt_store r)"
  have "foldl (\<lambda>normalized t. merge_channel_client_target t normalized) [] ?ts
      = [] @ map (\<lambda>t. ((ccp_channel_id t, ccp_client_database_id t), ccp_permissions t)) ?ts"
  proof (rule foldl_rebuild)
    fix acc :: "(u32 \<times> u64, perm_map) btree" and t
    assume "t \<in> set ?ts" "bt_get acc (ccp_channel_id t, ccp_client_database_id t) = None"
    then show "merge_channel_client_target t acc
        = bt_insert (ccp_channel_id t, ccp_client_database_id t) (ccp_permissions t) acc"
      using assms
      by (simp add: merge_channel_client_target_def channel_clients_normal_def bt_extend_Nil_sorted)
  qed (use assms in \<open>simp add: channel_clients_normal_def\<close>)
  moreover have "filter (channel_client_target_valid r) ?ts = ?ts"
    using assms by (simp add: channel_clients_normal_def)
  moreover have "map (\<lambda>t. \<lparr>ccp_channel_id = ccp_channel_id t, ccp_client_database_id = ccp_client_database_id t,
      ccp_permissions = ccp_permissions t\<rparr>) ?ts = ?ts" by (rule map_idI) simp
  ultimately show ?thesis
    by (simp add: normalize_channel_client_permissions_def upd_store_def comp_def)
qed

text \<open>Each pass writes its own table, and the tables it reads are written by earlier passes only.\<close>

lemma pass_frames:
  "accounts_normal (normalize_client_permissions r) = accounts_normal r"
  "accounts_normal (normalize_channel_group_assignments r) = accounts_normal r"
  "accounts_normal (normalize_channel_client_permissions r) = accounts_normal r"
  "st_client_permissions (rt_store (normalize_channel_group_assignments r)) = st_client_permissions (rt_store r)"
  "st_client_permissions (rt_store (normalize_channel_client_permissions r)) = st_client_permissions (rt_store r)"
  "assignments_normal (normalize_channel_client_permissions r) = assignments_normal r"
  by (simp_all add: accounts_normal_def assignments_normal_def assignment_valid_def all_channel_ids_def
      normalize_client_permissions_def normalize_channel_group_assignments_def
      normalize_channel_client_permissions_def)

text \<open>
  Property C13: the four passes that run when a state is loaded make the store consistent, whatever was in
  the file: accounts list existing server groups, in order and once each; channel group assignments
  and channel client permissions name an existing channel, an existing group and a known client, with
  one entry for each channel and client; no empty permission set is kept. Running them again changes
  nothing.
\<close>

theorem normalize_store_correct:
  "accounts_normal (normalize_store r) \<and> client_targets_normal (st_client_permissions (rt_store (normalize_store r)))
   \<and> assignments_normal (normalize_store r) \<and> channel_clients_normal (normalize_store r)
   \<and> normalize_store (normalize_store r) = normalize_store r"
proof -
  have n: "accounts_normal (normalize_store r)"
    "client_targets_normal (st_client_permissions (rt_store (normalize_store r)))"
    "assignments_normal (normalize_store r)" "channel_clients_normal (normalize_store r)"
    unfolding normalize_store_def
    by (simp_all add: pass_frames accounts_normalized client_targets_normalized assignments_normalized
        channel_clients_normalized)
  then have "normalize_store (normalize_store r) = normalize_store r"
    by (simp add: normalize_store_def [of "normalize_store r"] accounts_normal_fixed client_targets_fixed
        assignments_fixed channel_clients_fixed)
  with n show ?thesis by blast
qed

subsection \<open>The server of a client permission\<close>

text \<open>
  A client's own permissions are stored and looked up for one virtual server. The pass over them files
  every entry under server 0, so that after a state has been loaded the lookup finds none of them on
  any server: the second tier of the evaluation is empty for every client that is not a query account.
\<close>

theorem normalize_forgets_permission_server:
  assumes "server_id \<noteq> 0"
  shows "client_permission_target (normalize_store r) server_id client_database_id = None"
proof -
  have "client_targets_normal (st_client_permissions (rt_store (normalize_store r)))"
    unfolding normalize_store_def by (simp add: pass_frames client_targets_normalized)
  then have "\<forall>t \<in> set (st_client_permissions (rt_store (normalize_store r))). cpt_server_id t = 0"
    by (simp add: client_targets_normal_def)
  then show ?thesis using assms by (auto simp: client_permission_target_def find_NoneD)
qed

theorem normalize_forgets_permission_server_witness:
  "client_permission_target (empty_runtime\<lparr>rt_store := empty_store\<lparr>st_client_permissions :=
       [\<lparr>cpt_server_id = 1, cpt_client_database_id = 40, cpt_client_unique_identifier = ''u'',
         cpt_client_nickname = ''n'', cpt_permissions = [(''i_client_talk_power'', perm 75)]\<rparr>]\<rparr>\<rparr>) 1 40 \<noteq> None
   \<and> client_permission_target (normalize_store (empty_runtime\<lparr>rt_store := empty_store\<lparr>st_client_permissions :=
       [\<lparr>cpt_server_id = 1, cpt_client_database_id = 40, cpt_client_unique_identifier = ''u'',
         cpt_client_nickname = ''n'', cpt_permissions = [(''i_client_talk_power'', perm 75)]\<rparr>]\<rparr>\<rparr>)) 1 40 = None"
  using normalize_forgets_permission_server [of 1] by (simp add: client_permission_target_def)

end
