(* ===== verification/Tokens.thy ===== *)
theory Tokens
  imports Normalization Handler_Contract Channel_Handlers
begin

text \<open>
  Privilege tokens: \<open>runtime/handlers/token.rs\<close> with \<open>resolve_token_id\<close>, \<open>token_action_groups\<close> and
  \<open>parse_token_action_mutations\<close> of \<open>runtime/normalization_and_helpers.rs\<close>,
  \<open>persist_web_client_server_groups\<close> of \<open>runtime/web.rs\<close> and \<open>ensure_initial_admin_token\<close> of
  \<open>runtime/permissions/server_groups.rs\<close>. The clock is an argument, in seconds.
\<close>

subsection \<open>Token values\<close>

definition hex_char :: "nat \<Rightarrow> char" where
  "hex_char d = (if d < 10 then char_of (48 + d) else char_of (87 + d))"

fun nat_to_hex :: "nat \<Rightarrow> string" where
  "nat_to_hex n = (if n < 16 then [hex_char n] else nat_to_hex (n div 16) @ [hex_char (n mod 16)])"

declare nat_to_hex.simps [simp del]

text \<open>The format \<open>{:0wx}\<close>.\<close>

definition hex_padded :: "nat \<Rightarrow> nat \<Rightarrow> string" where
  "hex_padded w n = replicate (w - length (nat_to_hex n)) (CHR ''0'') @ nat_to_hex n"

definition token_value_for :: "u32 \<Rightarrow> u64 \<Rightarrow> string" where
  "token_value_for token_id created_at =
     ''compat'' @ hex_padded 8 (unat token_id) @ hex_padded 16 (unat created_at)"

subsection \<open>Reading a request\<close>

text \<open>An optional argument that has to be a number when it is given.\<close>

definition optional_number :: "command_request \<Rightarrow> string \<Rightarrow> string \<Rightarrow> query_response + 'a::len word option" where
  "optional_number request key err =
     (case arg request key of
        None \<Rightarrow> Inr None
      | Some v \<Rightarrow> (case parse_word v of
                     None \<Rightarrow> Inl (response_error 512 err)
                   | Some n \<Rightarrow> Inr (Some n)))"

definition expiry_of :: "u64 \<Rightarrow> u64 option" where
  "expiry_of n = (if n \<noteq> 0 then Some n else None)"

definition resolve_token_id :: "baseline_runtime \<Rightarrow> command_request \<Rightarrow> u32 \<Rightarrow> query_response + u32" where
  "resolve_token_id r request server_id =
     (let not_found = response_error 768 ''token not found'' in
      case arg request ''token_id'' of
        Some v \<Rightarrow>
          (case parse_word v of
             None \<Rightarrow> Inl (response_error 512 ''token_id must be an integer'')
           | Some token_id \<Rightarrow>
               (case bt_get (st_tokens (rt_store r)) token_id of
                  None \<Rightarrow> Inl not_found
                | Some t \<Rightarrow>
                    if tk_server_id t \<noteq> server_id then Inl not_found
                    else if (case arg request ''token'' of None \<Rightarrow> False | Some tv \<Rightarrow> tk_token t \<noteq> tv)
                    then Inl not_found else Inr token_id))
      | None \<Rightarrow>
          (case arg request ''token'' of
             None \<Rightarrow> Inl (response_error 512 ''token_id or token is required'')
           | Some tv \<Rightarrow>
               (case bt_find_key (\<lambda>t. tk_server_id t = server_id \<and> tk_token t = tv) (st_tokens (rt_store r)) of
                  None \<Rightarrow> Inl not_found
                | Some token_id \<Rightarrow> Inr token_id)))"

definition token_action_groups :: "command_request \<Rightarrow> row list" where
  "token_action_groups request =
     filter (\<lambda>g. g \<noteq> [])
       (map (filter (\<lambda>(k, _). starts_with ''action_'' k)) (option_groups request))"

text \<open>The arguments \<open>tokentype\<close>, \<open>tokenid1\<close> and \<open>tokenid2\<close> of the older syntax.\<close>

definition legacy_number :: "command_request \<Rightarrow> string \<Rightarrow> string \<Rightarrow> string \<Rightarrow> query_response + u32 option" where
  "legacy_number request key key' err =
     (case or_else (arg request key) (arg request key') of
        None \<Rightarrow> Inr None
      | Some v \<Rightarrow> (case parse_word v of
                     None \<Rightarrow> Inl (response_error 512 err)
                   | Some n \<Rightarrow> Inr (Some n)))"

definition legacy_action :: "command_request \<Rightarrow> query_response + token_action_mutation list" where
  "legacy_action request =
     (case legacy_number request ''tokentype'' ''token_type'' ''tokentype must be an integer'' of
        Inl e \<Rightarrow> Inl e
      | Inr token_type \<Rightarrow>
     (case legacy_number request ''tokenid1'' ''token_id1'' ''tokenid1 must be an integer'' of
        Inl e \<Rightarrow> Inl e
      | Inr None \<Rightarrow> Inl (response_error 512 ''tokenid1 is required'')
      | Inr (Some action_id1) \<Rightarrow>
     (case legacy_number request ''tokenid2'' ''token_id2'' ''tokenid2 must be an integer'' of
        Inl e \<Rightarrow> Inl e
      | Inr action_id2 \<Rightarrow>
          Inr [AddAction (if unwrap_or 0 token_type = 1 then 1 else 2) action_id1
                 (unwrap_or 0 action_id2) []])))"

definition group_number :: "row \<Rightarrow> string \<Rightarrow> string \<Rightarrow> query_response + u32 option" where
  "group_number g key err =
     (case bt_get g key of
        None \<Rightarrow> Inr None
      | Some v \<Rightarrow> (case parse_word v of
                     None \<Rightarrow> Inl (response_error 512 err)
                   | Some n \<Rightarrow> Inr (Some n)))"

definition has_action_body :: "row \<Rightarrow> bool" where
  "has_action_body g =
     (bt_contains_key g ''action_type'' \<or> bt_contains_key g ''action_id1''
      \<or> bt_contains_key g ''action_id2'' \<or> bt_contains_key g ''action_text'')"

definition parse_token_action :: "row \<Rightarrow> query_response + token_action_mutation" where
  "parse_token_action g =
     (case group_number g ''action_id'' ''action_id must be an integer'' of
        Inl e \<Rightarrow> Inl e
      | Inr action_id \<Rightarrow>
      if \<not> has_action_body g
      then (case action_id of
              None \<Rightarrow> Inl (response_error 512 ''action_type or action_id is required'')
            | Some i \<Rightarrow> Inr (RemoveAction i))
      else
     (case Option.bind (bt_get g ''action_type'') parse_word of
        None \<Rightarrow> Inl (response_error 512 ''action_type must be an integer'')
      | Some action_type \<Rightarrow>
     (case group_number g ''action_id1'' ''action_id1 must be an integer'' of
        Inl e \<Rightarrow> Inl e
      | Inr action_id1 \<Rightarrow>
     (case group_number g ''action_id2'' ''action_id2 must be an integer'' of
        Inl e \<Rightarrow> Inl e
      | Inr action_id2 \<Rightarrow>
          let action_text = unwrap_or [] (bt_get g ''action_text'') in
          Inr (case action_id of
                 Some i \<Rightarrow> UpdateAction i action_type (unwrap_or 0 action_id1) (unwrap_or 0 action_id2) action_text
               | None \<Rightarrow> AddAction action_type (unwrap_or 0 action_id1) (unwrap_or 0 action_id2) action_text)))))"

definition parse_token_action_mutations :: "command_request \<Rightarrow> query_response + token_action_mutation list" where
  "parse_token_action_mutations request =
     (let groups = token_action_groups request;
          given = (\<lambda>k k'. or_else (arg request k) (arg request k') \<noteq> None) in
      if groups = [] \<and> (given ''tokentype'' ''token_type'' \<or> given ''tokenid1'' ''token_id1'')
      then legacy_action request
      else map_result parse_token_action groups)"

subsection \<open>Adding and deleting\<close>

fun allocate_action_ids :: "nat \<Rightarrow> baseline_runtime \<Rightarrow> u32 list \<times> baseline_runtime" where
  "allocate_action_ids 0 r = ([], r)"
| "allocate_action_ids (Suc n) r =
     (case next_token_action_id r of (i, r1) \<Rightarrow>
        (case allocate_action_ids n r1 of (ids, r2) \<Rightarrow> (i # ids, r2)))"

definition is_add :: "token_action_mutation \<Rightarrow> bool" where
  "is_add m = (case m of AddAction _ _ _ _ \<Rightarrow> True | _ \<Rightarrow> False)"

definition action_of :: "u32 \<Rightarrow> token_action_mutation \<Rightarrow> token_action" where
  "action_of i m =
     (case m of AddAction t a b text \<Rightarrow>
        \<lparr>ta_id = i, ta_action_type = t, ta_action_id1 = a, ta_action_id2 = b, ta_action_text = text\<rparr>
      | _ \<Rightarrow> \<lparr>ta_id = i, ta_action_type = 0, ta_action_id1 = 0, ta_action_id2 = 0, ta_action_text = []\<rparr>)"

definition token_rows :: "string \<Rightarrow> u32 \<Rightarrow> u32 list \<Rightarrow> row list" where
  "token_rows token_value token_id action_ids =
     (let token_fields = (\<lambda>row. bt_insert ''token_id'' (word_to_string token_id)
                                   (bt_insert ''token'' token_value row));
          action_row = (\<lambda>i. bt_insert ''action_id'' (word_to_string i) [])
      in (case action_ids of
            [] \<Rightarrow> [token_fields []]
          | i # ids \<Rightarrow> token_fields (action_row i) # map action_row ids))"

definition session_owner :: "query_session \<Rightarrow> permission_actor_context \<Rightarrow> string" where
  "session_owner session actor =
     unwrap_or (''cldbid:'' @ word_to_string (ac_client_database_id actor)) (qs_authenticated_login session)"

definition add_token ::
    "u64 \<Rightarrow> command_request \<Rightarrow> u32 \<Rightarrow> string \<Rightarrow> u32 \<Rightarrow> u64 option \<Rightarrow> token_action_mutation list \<Rightarrow>
     baseline_runtime \<Rightarrow> query_response \<times> baseline_runtime" where
  "add_token now request server_id owner_login max_uses expired_at mutations r =
     (case next_token_id r of (token_id, r1) \<Rightarrow>
      (case allocate_action_ids (length mutations) r1 of (action_ids, r2) \<Rightarrow>
         let token_value = token_value_for token_id now;
             t = \<lparr>tk_id = token_id, tk_server_id = server_id, tk_token = token_value,
                  tk_description =
                    unwrap_or [] (or_else (arg request ''token_description'') (arg request ''tokendescription'')),
                  tk_max_uses = max_uses, tk_uses = 0, tk_created_at = now, tk_owner_login = owner_login,
                  tk_expired_at = expired_at, tk_actions = map2 action_of action_ids mutations\<rparr>
         in (response_ok_rows (token_rows token_value token_id action_ids),
             upd_store (st_tokens_update (bt_insert token_id t)) r2)))"

definition handle_tokenadd ::
    "u64 \<Rightarrow> command_request \<Rightarrow> query_session \<Rightarrow> baseline_runtime \<Rightarrow> query_response \<times> baseline_runtime" where
  "handle_tokenadd now request session r =
     (case require_server session of
        Inl e \<Rightarrow> (e, r)
      | Inr server_id \<Rightarrow>
     (case query_actor_effective_permissions r session of
        Inl e \<Rightarrow> (e, r)
      | Inr (actor, actor_permissions) \<Rightarrow>
     (case check_required_permission actor_permissions
             [''b_virtualserver_token_add'', ''b_virtualserver_token_limit'',
              ''b_virtualserver_token_edit_all''] ''b_virtualserver_token_add'' of
        Inl p \<Rightarrow> (insufficient_permission_response r p, r)
      | Inr _ \<Rightarrow>
     (case optional_number request ''token_max_uses'' ''token_max_uses must be an integer'' of
        Inl e \<Rightarrow> (e, r)
      | Inr max_uses \<Rightarrow>
     (case optional_number request ''token_expired'' ''token_expired must be an integer'' of
        Inl e \<Rightarrow> (e, r)
      | Inr expired \<Rightarrow>
     (case parse_token_action_mutations request of
        Inl e \<Rightarrow> (e, r)
      | Inr mutations \<Rightarrow>
          if list_ex (\<lambda>m. \<not> is_add m) mutations
          then (response_error 512 ''tokenadd only supports new actions'', r)
          else add_token now request server_id (session_owner session actor) (unwrap_or 0 max_uses)
                 (Option.bind expired expiry_of) mutations r))))))"

definition handle_tokendelete ::
    "command_request \<Rightarrow> query_session \<Rightarrow> baseline_runtime \<Rightarrow> query_response \<times> baseline_runtime" where
  "handle_tokendelete request session r =
     (case require_server session of
        Inl e \<Rightarrow> (e, r)
      | Inr server_id \<Rightarrow>
     (case query_actor_effective_permissions r session of
        Inl e \<Rightarrow> (e, r)
      | Inr (_, actor_permissions) \<Rightarrow>
     (case check_required_permission actor_permissions [''b_virtualserver_token_delete_all'']
             ''b_virtualserver_token_delete_all'' of
        Inl p \<Rightarrow> (insufficient_permission_response r p, r)
      | Inr _ \<Rightarrow>
     (case resolve_token_id r request server_id of
        Inl e \<Rightarrow> (e, r)
      | Inr token_id \<Rightarrow> (response_ok_rows [], upd_store (st_tokens_update (bt_remove token_id)) r)))))"

subsection \<open>Editing\<close>

text \<open>The loop over the mutations: what it has changed stays when a later mutation fails.\<close>

fun apply_mutations ::
    "token_action_mutation list \<Rightarrow> u32 list \<Rightarrow> row list \<Rightarrow> token_action list \<Rightarrow>
     (query_response + row list) \<times> token_action list" where
  "apply_mutations [] ids rs actions = (Inr rs, actions)"
| "apply_mutations (AddAction t a b text # ms) ids rs actions =
     (let i = (case ids of [] \<Rightarrow> 0 | i # _ \<Rightarrow> i)
      in apply_mutations ms (tl ids) (rs @ [bt_insert ''action_id'' (word_to_string i) []])
           (actions @ [action_of i (AddAction t a b text)]))"
| "apply_mutations (UpdateAction i t a b text # ms) ids rs actions =
     (if list_ex (\<lambda>x. ta_id x = i) actions
      then apply_mutations ms ids rs
             (update_first (\<lambda>x. ta_id x = i)
                (\<lambda>x. x\<lparr>ta_action_type := t, ta_action_id1 := a, ta_action_id2 := b, ta_action_text := text\<rparr>)
                actions)
      else (Inl (response_error 768 ''token action not found''), actions))"
| "apply_mutations (RemoveAction i # ms) ids rs actions =
     (case position (\<lambda>x. ta_id x = i) actions of
        None \<Rightarrow> (Inl (response_error 768 ''token action not found''), actions)
      | Some n \<Rightarrow> apply_mutations ms ids rs (list_remove n actions))"

definition edit_token_fields ::
    "command_request \<Rightarrow> u32 option \<Rightarrow> u64 option option \<Rightarrow> privilege_token \<Rightarrow> privilege_token" where
  "edit_token_fields request max_uses expired_at t =
     t\<lparr>tk_description :=
         unwrap_or (tk_description t)
           (or_else (arg request ''token_description'') (arg request ''tokendescription'')),
       tk_max_uses := unwrap_or (tk_max_uses t) max_uses,
       tk_expired_at := unwrap_or (tk_expired_at t) expired_at\<rparr>"

definition edit_token ::
    "command_request \<Rightarrow> u32 \<Rightarrow> u32 option \<Rightarrow> u64 option option \<Rightarrow> token_action_mutation list \<Rightarrow>
     baseline_runtime \<Rightarrow> query_response \<times> baseline_runtime" where
  "edit_token request token_id max_uses expired_at mutations r =
     (case allocate_action_ids (length (filter is_add mutations)) r of (action_ids, r1) \<Rightarrow>
      (case bt_get (st_tokens (rt_store r1)) token_id of
         None \<Rightarrow> (response_error 768 ''token not found'', r1)
       | Some t \<Rightarrow>
           (case apply_mutations mutations action_ids [] (tk_actions t) of (res, actions) \<Rightarrow>
              ((case res of Inl e \<Rightarrow> e | Inr rs \<Rightarrow> response_ok_rows rs),
               upd_store
                 (st_tokens_update
                    (bt_update token_id
                       (\<lambda>t. (edit_token_fields request max_uses expired_at t)\<lparr>tk_actions := actions\<rparr>)))
                 r1))))"

definition handle_tokenedit ::
    "command_request \<Rightarrow> query_session \<Rightarrow> baseline_runtime \<Rightarrow> query_response \<times> baseline_runtime" where
  "handle_tokenedit request session r =
     (case require_server session of
        Inl e \<Rightarrow> (e, r)
      | Inr server_id \<Rightarrow>
     (case query_actor_effective_permissions r session of
        Inl e \<Rightarrow> (e, r)
      | Inr (_, actor_permissions) \<Rightarrow>
     (case check_required_permission actor_permissions [''b_virtualserver_token_edit_all'']
             ''b_virtualserver_token_edit_all'' of
        Inl p \<Rightarrow> (insufficient_permission_response r p, r)
      | Inr _ \<Rightarrow>
     (case resolve_token_id r request server_id of
        Inl e \<Rightarrow> (e, r)
      | Inr token_id \<Rightarrow>
     (case optional_number request ''token_max_uses'' ''token_max_uses must be an integer'' of
        Inl e \<Rightarrow> (e, r)
      | Inr max_uses \<Rightarrow>
     (case optional_number request ''token_expired'' ''token_expired must be an integer'' of
        Inl e \<Rightarrow> (e, r)
      | Inr expired \<Rightarrow>
     (case parse_token_action_mutations request of
        Inl e \<Rightarrow> (e, r)
      | Inr mutations \<Rightarrow>
          edit_token request token_id max_uses (map_option expiry_of expired) mutations r)))))))"

subsection \<open>Listing\<close>

definition token_action_row :: "token_action \<Rightarrow> row" where
  "token_action_row a =
     insert_fields
       [(''action_id'', word_to_string (ta_id a)), (''action_type'', word_to_string (ta_action_type a)),
        (''action_id1'', word_to_string (ta_action_id1 a)), (''action_id2'', word_to_string (ta_action_id2 a)),
        (''action_text'', ta_action_text a)] []"

definition handle_tokenactionlist :: "command_request \<Rightarrow> query_session \<Rightarrow> baseline_runtime \<Rightarrow> query_response" where
  "handle_tokenactionlist request session r =
     (case require_server session of
        Inl e \<Rightarrow> e
      | Inr server_id \<Rightarrow>
     (case query_actor_effective_permissions r session of
        Inl e \<Rightarrow> e
      | Inr (actor, actor_permissions) \<Rightarrow>
     (case resolve_token_id r request server_id of
        Inl e \<Rightarrow> e
      | Inr token_id \<Rightarrow>
     (case bt_get (st_tokens (rt_store r)) token_id of
        None \<Rightarrow> response_error 768 ''token not found''
      | Some t \<Rightarrow>
          (case check_when (tk_owner_login t \<noteq> session_owner session actor)
                  (check_required_permission actor_permissions [''b_virtualserver_token_list_all'']
                     ''b_virtualserver_token_list_all'') of
             Inl p \<Rightarrow> insufficient_permission_response r p
           | Inr _ \<Rightarrow> response_ok_rows (map token_action_row (tk_actions t)))))))"

definition token_list_row :: "nat \<Rightarrow> privilege_token \<Rightarrow> row" where
  "token_list_row token_count t =
     (case (case tk_actions t of
              [] \<Rightarrow> (''0'', ''0'', ''0'')
            | a # _ \<Rightarrow> (if ta_action_type a = 1 then ''1'' else ''0'',
                        word_to_string (ta_action_id1 a), word_to_string (ta_action_id2 a))) of
        (token_type, id1, id2) \<Rightarrow>
          insert_fields
            [(''token_count'', nat_to_string token_count), (''token_created'', word_to_string (tk_created_at t)),
             (''token_description'', tk_description t), (''description'', tk_description t),
             (''token_expired'', word_to_string (unwrap_or 0 (tk_expired_at t))),
             (''token_id'', word_to_string (tk_id t)), (''token_max_uses'', word_to_string (tk_max_uses t)),
             (''token'', tk_token t), (''token_type'', token_type), (''type'', token_type),
             (''token_id1'', id1), (''id1'', id1), (''token_id2'', id2), (''id2'', id2)] [])"

definition handle_tokenlist :: "command_request \<Rightarrow> query_session \<Rightarrow> baseline_runtime \<Rightarrow> query_response" where
  "handle_tokenlist request session r =
     (case require_server session of
        Inl e \<Rightarrow> e
      | Inr server_id \<Rightarrow>
     (case query_actor_effective_permissions r session of
        Inl e \<Rightarrow> e
      | Inr (actor, actor_permissions) \<Rightarrow>
     (case optional_number request ''offset'' ''offset must be an integer'' of
        Inl e \<Rightarrow> e
      | Inr (offset :: u64 option) \<Rightarrow>
     (case optional_number request ''limit'' ''limit must be an integer'' of
        Inl e \<Rightarrow> e
      | Inr (limit :: u64 option) \<Rightarrow>
          let list_all_tokens = (check_required_permission actor_permissions
                  [''b_virtualserver_token_list_all''] ''b_virtualserver_token_list_all'' = Inr ());
              own_only = (''own-only'' \<in> set (flags request) \<or> \<not> list_all_tokens);
              tokens = filter (\<lambda>t. tk_server_id t = server_id
                                   \<and> (\<not> own_only \<or> tk_owner_login t = session_owner session actor))
                         (bt_values (st_tokens (rt_store r)))
          in response_ok_rows
               (map (token_list_row (length tokens))
                  (take (unat (unwrap_or (-1) limit)) (drop (unat (unwrap_or 0 offset)) tokens)))))))"

definition handle_privilegekeylist :: "command_request \<Rightarrow> query_session \<Rightarrow> baseline_runtime \<Rightarrow> query_response" where
  "handle_privilegekeylist request session r = handle_tokenlist request session r"

subsection \<open>Using a token\<close>

text \<open>The groups the actions grant: server groups, and channel groups with their channel.\<close>

fun token_grants :: "baseline_runtime \<Rightarrow> token_action list \<Rightarrow> query_response + u32 list \<times> (u32 \<times> u32) list" where
  "token_grants r [] = Inr ([], [])"
| "token_grants r (a # as) =
     (let rest = token_grants r as in
      if ta_action_type a = 0 \<or> ta_action_type a = 2
      then if \<not> bt_contains_key (st_server_groups (rt_store r)) (ta_action_id1 a)
           then Inl (response_error 4864 ''Invalid group id'')
           else (case rest of Inl e \<Rightarrow> Inl e | Inr (sgs, cgs) \<Rightarrow> Inr (ta_action_id1 a # sgs, cgs))
      else if ta_action_type a = 1
      then if ta_action_id1 a \<noteq> 0 \<and> ta_action_id2 a \<noteq> 0
           then if \<not> bt_contains_key (st_channel_groups (rt_store r)) (ta_action_id1 a)
                then Inl (response_error 4864 ''Invalid group id'')
                else (case rest of
                        Inl e \<Rightarrow> Inl e
                      | Inr (sgs, cgs) \<Rightarrow> Inr (sgs, (ta_action_id1 a, ta_action_id2 a) # cgs))
           else rest
      else Inl (response_error 512
             (''token action type '' @ word_to_string (ta_action_type a) @ '' not supported in baseline'')))"

definition add_groups :: "u32 list \<Rightarrow> u32 list \<Rightarrow> u32 list" where
  "add_groups new groups =
     sort_dedup (foldl (\<lambda>acc g. if g \<in> set acc then acc else acc @ [g]) groups new)"

definition persist_web_client_server_groups :: "u64 \<Rightarrow> u32 list \<Rightarrow> baseline_runtime \<Rightarrow> baseline_runtime" where
  "persist_web_client_server_groups database_id server_groups r =
     emit [PersistState]
       (upd_store
          (\<lambda>s. s\<lparr>st_custom_client_properties :=
                   bt_insert (0, database_id)
                     (bt_insert ''server_groups'' (join_with '','' (map word_to_string server_groups))
                        (unwrap_or [] (bt_get (st_custom_client_properties s) (0, database_id))))
                     (st_custom_client_properties s)\<rparr>) r)"

definition grant_server_groups ::
    "query_session \<Rightarrow> u32 \<Rightarrow> u32 list \<Rightarrow> baseline_runtime \<Rightarrow> query_response + u64 option \<times> baseline_runtime" where
  "grant_server_groups session server_id groups r =
     (case qs_authenticated_login session of
        Some login_name \<Rightarrow>
          (case bt_get (st_query_accounts (rt_store r)) login_name of
             None \<Rightarrow> Inl (response_error 768 ''query account not found'')
           | Some account \<Rightarrow>
               Inr (qa_client_database_id account,
                    upd_store
                      (st_query_accounts_update
                         (bt_update login_name (qa_server_groups_update (add_groups groups)))) r))
      | None \<Rightarrow>
          (case qs_actor_client_database_id_override session of
             None \<Rightarrow> Inr (None, r)
           | Some dbid \<Rightarrow>
               (case bt_find_key (\<lambda>c. oc_server_id c = server_id \<and> oc_database_id c = dbid)
                       (st_online_clients (rt_store r)) of
                  None \<Rightarrow> Inl (response_error 768 ''client not found'')
                | Some client_id \<Rightarrow>
                    let r1 = upd_store
                               (st_online_clients_update
                                  (bt_update client_id (oc_server_groups_update (add_groups groups)))) r;
                        updated = unwrap_or []
                          (map_option oc_server_groups (bt_get (st_online_clients (rt_store r1)) client_id))
                    in Inr (Some dbid, persist_web_client_server_groups dbid updated r1))))"

definition set_channel_group ::
    "u64 \<Rightarrow> u32 \<times> u32 \<Rightarrow> channel_group_assignment list \<Rightarrow> channel_group_assignment list" where
  "set_channel_group client_database_id = (\<lambda>(cgid, cid) as.
     let hit = (\<lambda>a. cga_channel_id a = cid \<and> cga_client_database_id a = client_database_id) in
     if list_ex hit as then update_first hit (cga_channel_group_id_update (\<lambda>_. cgid)) as
     else as @ [\<lparr>cga_channel_id = cid, cga_client_database_id = client_database_id,
                 cga_channel_group_id = cgid\<rparr>])"

definition grant_channel_groups :: "u64 option \<Rightarrow> (u32 \<times> u32) list \<Rightarrow> baseline_runtime \<Rightarrow> baseline_runtime" where
  "grant_channel_groups resolved channel_groups r =
     (case resolved of
        None \<Rightarrow> r
      | Some dbid \<Rightarrow>
          normalize_channel_group_assignments
            (upd_store
               (st_channel_group_assignments_update
                  (\<lambda>as. foldl (\<lambda>as g. set_channel_group dbid g as) as channel_groups)) r))"

definition consume_token :: "u32 \<Rightarrow> baseline_runtime \<Rightarrow> baseline_runtime" where
  "consume_token token_id r =
     emit [PersistState]
       (case bt_get (st_tokens (rt_store r)) token_id of
          None \<Rightarrow> r
        | Some t \<Rightarrow>
            let used = t\<lparr>tk_uses := sat_add (tk_uses t) 1\<rparr>;
                r1 = emit [DbSaveToken used]
                       (upd_store (st_tokens_update (bt_update token_id (\<lambda>_. used))) r)
            in if tk_max_uses used \<noteq> 0 \<and> tk_max_uses used \<le> tk_uses used
               then upd_store (st_tokens_update (bt_remove token_id)) r1 else r1)"

definition token_by_value :: "baseline_runtime \<Rightarrow> u32 \<Rightarrow> string \<Rightarrow> u32 option" where
  "token_by_value r server_id token_value =
     bt_find_key (\<lambda>t. tk_server_id t = server_id \<and> tk_token t = token_value) (st_tokens (rt_store r))"

definition handle_tokenuse ::
    "u64 \<Rightarrow> command_request \<Rightarrow> query_session \<Rightarrow> baseline_runtime \<Rightarrow> query_response \<times> baseline_runtime" where
  "handle_tokenuse now request session r =
     (case require_server session of
        Inl e \<Rightarrow> (e, r)
      | Inr server_id \<Rightarrow>
     (case or_else (arg request ''token'')
             (case positional_args request of [] \<Rightarrow> None | v # _ \<Rightarrow> Some v) of
        None \<Rightarrow> (response_error 512 ''token is required'', r)
      | Some token_value \<Rightarrow>
     (case token_by_value r server_id token_value of
        None \<Rightarrow> (response_error 768 ''token not found'', r)
      | Some token_id \<Rightarrow>
     (case bt_get (st_tokens (rt_store r)) token_id of
        None \<Rightarrow> (response_error 768 ''token not found'', r)
      | Some t \<Rightarrow>
      if (case tk_expired_at t of None \<Rightarrow> False | Some timestamp \<Rightarrow> timestamp \<le> now)
      then (response_error 768 ''token expired'', r)
      else if tk_max_uses t \<noteq> 0 \<and> tk_max_uses t \<le> tk_uses t
      then (response_error 768 ''token exhausted'', r)
      else
     (case token_grants r (tk_actions t) of
        Inl e \<Rightarrow> (e, r)
      | Inr (server_groups, channel_groups) \<Rightarrow>
     (case grant_server_groups session server_id server_groups r of
        Inl e \<Rightarrow> (e, r)
      | Inr (resolved, r1) \<Rightarrow>
          (response_ok, consume_token token_id (grant_channel_groups resolved channel_groups r1))))))))"

subsection \<open>The first administrator\<close>

definition admin_token :: "string \<Rightarrow> u32 \<Rightarrow> u32 \<Rightarrow> u64 \<Rightarrow> u32 \<Rightarrow> u32 \<Rightarrow> privilege_token" where
  "admin_token description token_id server_id now action_id_1 action_id_2 =
     \<lparr>tk_id = token_id, tk_server_id = server_id, tk_token = token_value_for token_id now,
      tk_description = description, tk_max_uses = 1, tk_uses = 0, tk_created_at = now,
      tk_owner_login = ''serveradmin'', tk_expired_at = None,
      tk_actions =
        [\<lparr>ta_id = action_id_1, ta_action_type = 2, ta_action_id1 = 9, ta_action_id2 = 0, ta_action_text = []\<rparr>,
         \<lparr>ta_id = action_id_2, ta_action_type = 2, ta_action_id1 = 6, ta_action_id2 = 0, ta_action_text = []\<rparr>]\<rparr>"

definition create_admin_token :: "string \<Rightarrow> u64 \<Rightarrow> u32 \<Rightarrow> baseline_runtime \<Rightarrow> string \<times> baseline_runtime" where
  "create_admin_token description now server_id r =
     (case next_token_id r of (token_id, r1) \<Rightarrow>
      (case next_token_action_id r1 of (action_id_1, r2) \<Rightarrow>
      (case next_token_action_id r2 of (action_id_2, r3) \<Rightarrow>
         let t = admin_token description token_id server_id now action_id_1 action_id_2
         in (tk_token t,
             emit [DbSaveToken t, PersistState] (upd_store (st_tokens_update (bt_insert token_id t)) r3)))))"

definition ensure_initial_admin_token :: "u64 \<Rightarrow> u32 \<Rightarrow> baseline_runtime \<Rightarrow> (string \<times> bool) \<times> baseline_runtime" where
  "ensure_initial_admin_token now server_id r =
     (case List.find
             (\<lambda>t. tk_server_id t = server_id \<and> (tk_max_uses t = 0 \<or> tk_uses t < tk_max_uses t)
                  \<and> list_ex (\<lambda>a. ta_action_type a = 2 \<and> (ta_action_id1 a = 6 \<or> ta_action_id1 a = 9))
                      (tk_actions t))
             (bt_values (st_tokens (rt_store r))) of
        Some existing \<Rightarrow> ((tk_token existing, False), r)
      | None \<Rightarrow>
          (case create_admin_token ''Initial Server Admin Privilege Key'' now server_id r of
             (token_value, r') \<Rightarrow> ((token_value, True), r')))"

subsection \<open>Token values are unique\<close>

definition hex_digit :: "char \<Rightarrow> nat" where
  "hex_digit c = (if of_char c < (58 :: nat) then of_char c - 48 else of_char c - 87)"

definition hex_value :: "string \<Rightarrow> nat" where
  "hex_value s = foldl (\<lambda>n c. 16 * n + hex_digit c) 0 s"

lemma hex_digit_char: "d < 16 \<Longrightarrow> hex_digit (hex_char d) = d"
  by (auto simp: hex_digit_def hex_char_def)

lemma hex_value_nat_to_hex: "hex_value (nat_to_hex n) = n"
proof (induction n rule: nat_to_hex.induct)
  case (1 n)
  then show ?case
    by (subst nat_to_hex.simps) (simp add: hex_value_def hex_digit_char)
qed

lemma hex_value_padded [simp]: "hex_value (hex_padded w n) = n"
proof -
  have zeros: "foldl (\<lambda>n c. 16 * n + hex_digit c) 0 (replicate k (CHR ''0'')) = 0" for k
    by (induction k) (simp_all add: hex_digit_def)
  show ?thesis
    using hex_value_nat_to_hex [of n] unfolding hex_value_def hex_padded_def foldl_append zeros .
qed

lemma length_nat_to_hex: "n < 16 ^ Suc w \<Longrightarrow> length (nat_to_hex n) \<le> Suc w"
proof (induction w arbitrary: n)
  case 0
  then show ?case by (subst nat_to_hex.simps) simp
next
  case (Suc w)
  then have "n div 16 < 16 ^ Suc w" by (simp add: less_mult_imp_div_less)
  then show ?case using Suc.IH [of "n div 16"] by (subst nat_to_hex.simps) simp
qed

lemma length_hex_padded: "n < 16 ^ w \<Longrightarrow> 0 < w \<Longrightarrow> length (hex_padded w n) = w"
  using length_nat_to_hex [of n "w - 1"] by (simp add: hex_padded_def)

lemma token_value_inj:
  assumes "token_value_for i t = token_value_for j u" shows "i = j \<and> t = u"
proof -
  have w: "unat (x :: u32) < 16 ^ 8" "unat (y :: u64) < 16 ^ 16" for x y
    using unsigned_less [of x] unsigned_less [of y] by simp_all
  have "length (hex_padded 8 (unat i)) = length (hex_padded 8 (unat j))"
    using w(1) by (simp add: length_hex_padded)
  then have "hex_padded 8 (unat i) = hex_padded 8 (unat j)" "hex_padded 16 (unat t) = hex_padded 16 (unat u)"
    using assms by (simp_all add: token_value_for_def)
  then have "unat i = unat j" "unat t = unat u" by (metis hex_value_padded)+
  then show ?thesis by (simp add: word_unat_eq_iff)
qed

subsection \<open>What a redemption does to the tokens\<close>

lemma grant_frames [simp]:
  "st_tokens (rt_store (grant_channel_groups resolved cgs r)) = st_tokens (rt_store r)"
  "st_tokens (rt_store (persist_web_client_server_groups dbid gs r)) = st_tokens (rt_store r)"
  by (simp_all add: grant_channel_groups_def normalize_channel_group_assignments_def
      persist_web_client_server_groups_def split: option.split)

lemma grant_server_groups_tokens:
  "grant_server_groups session sid gs r = Inr (resolved, r') \<Longrightarrow> st_tokens (rt_store r') = st_tokens (rt_store r)"
  by (auto simp: grant_server_groups_def Let_def split: option.splits)

lemma grant_server_groups_error: "grant_server_groups session sid gs r = Inl e \<Longrightarrow> error_id e \<noteq> 0"
  by (auto simp: grant_server_groups_def Let_def split: option.splits)

lemma token_grants_error: "token_grants r as = Inl e \<Longrightarrow> error_id e \<noteq> 0"
  by (induction as arbitrary: e) (auto simp: Let_def split: if_splits sum.splits)

definition consumed :: "privilege_token \<Rightarrow> privilege_token option" where
  "consumed t =
     (let uses = sat_add (tk_uses t) 1
      in if tk_max_uses t \<noteq> 0 \<and> tk_max_uses t \<le> uses then None else Some (t\<lparr>tk_uses := uses\<rparr>))"

lemma consume_token_get:
  assumes "bt_get (st_tokens (rt_store r)) i = Some t"
  shows "bt_get (st_tokens (rt_store (consume_token i r))) = (bt_get (st_tokens (rt_store r)))(i := consumed t)"
  using assms by (auto simp: consume_token_def consumed_def Let_def bt_get_remove bt_get_update fun_eq_iff)

definition used_token :: "command_request \<Rightarrow> query_session \<Rightarrow> baseline_runtime \<Rightarrow> u32 option" where
  "used_token request session r =
     (case require_server session of
        Inl _ \<Rightarrow> None
      | Inr server_id \<Rightarrow>
          Option.bind (or_else (arg request ''token'')
                         (case positional_args request of [] \<Rightarrow> None | v # _ \<Rightarrow> Some v))
            (token_by_value r server_id))"

text \<open>A redemption that succeeds found a token that is neither expired nor used up, and consumes it.\<close>

definition redeemed ::
    "u64 \<Rightarrow> command_request \<Rightarrow> query_session \<Rightarrow> baseline_runtime \<Rightarrow> query_response \<times> baseline_runtime \<Rightarrow> bool" where
  "redeemed now request session r res =
     (\<exists>i t. used_token request session r = Some i \<and> bt_get (st_tokens (rt_store r)) i = Some t
        \<and> (\<forall>e. tk_expired_at t = Some e \<longrightarrow> now < e) \<and> (tk_max_uses t \<noteq> 0 \<longrightarrow> tk_uses t < tk_max_uses t)
        \<and> bt_get (st_tokens (rt_store (snd res))) = (bt_get (st_tokens (rt_store r)))(i := consumed t))"

lemma redeemedI:
  assumes "used_token request session r = Some i" and "bt_get (st_tokens (rt_store r)) i = Some t"
    and "\<not> (case tk_expired_at t of None \<Rightarrow> False | Some timestamp \<Rightarrow> timestamp \<le> now)"
    and "\<not> (tk_max_uses t \<noteq> 0 \<and> tk_max_uses t \<le> tk_uses t)" and "st_tokens (rt_store r1) = st_tokens (rt_store r)"
  shows "redeemed now request session r (resp, consume_token i r1)"
proof -
  have "bt_get (st_tokens (rt_store (consume_token i r1))) = (bt_get (st_tokens (rt_store r)))(i := consumed t)"
    using consume_token_get [of r1 i t] assms(2,5) by simp
  moreover have "\<forall>e. tk_expired_at t = Some e \<longrightarrow> now < e" using assms(3) by (auto simp: not_le)
  ultimately show ?thesis using assms(1,2,4) unfolding redeemed_def by (auto simp: not_le)
qed

lemma tokenuse_ok_then: "ok_then (redeemed now request session r) (handle_tokenuse now request session r)"
proof -
  have used: "used_token request session r = Some i"
    if "require_server session = Inr sid" "or_else (arg request ''token'')
             (case positional_args request of [] \<Rightarrow> None | v # _ \<Rightarrow> Some v) = Some v"
      "token_by_value r sid v = Some i" for sid v i
    using that by (simp add: used_token_def)
  show ?thesis
    unfolding handle_tokenuse_def
    by (intro ok_then_branches; (rule ok_then_error,
          fastforce simp: require_server_error token_grants_error grant_server_groups_error)?)
      (rule ok_then_I, rule redeemedI, rule used; (assumption | simp add: grant_server_groups_tokens))
qed

lemma tokenuse_unchanged: "fails_unchanged r (handle_tokenuse now request session r)"
  unfolding handle_tokenuse_def
  by (intro fails_unchanged_branches fails_unchanged_same) (rule fails_unchanged_ok, simp)

interpretation token_use: atomic_command
  "\<lambda>(now, request, session) r. handle_tokenuse now request session r"
  using tokenuse_unchanged by unfold_locales (auto simp: fails_unchanged_def)

fun redemptions :: "u32 \<Rightarrow> (u64 \<times> command_request \<times> query_session) list \<Rightarrow> baseline_runtime \<Rightarrow> nat" where
  "redemptions i [] r = 0"
| "redemptions i ((now, request, session) # qs) r =
     (case handle_tokenuse now request session r of (resp, r') \<Rightarrow>
        (if error_id resp = 0 \<and> used_token request session r = Some i then 1 else 0) + redemptions i qs r')"

definition uses_left :: "baseline_runtime \<Rightarrow> u32 \<Rightarrow> nat option" where
  "uses_left r i =
     (case bt_get (st_tokens (rt_store r)) i of
        None \<Rightarrow> Some 0
      | Some t \<Rightarrow> if tk_max_uses t = 0 then None else Some (unat (tk_max_uses t) - unat (tk_uses t)))"

lemma consumed_left:
  assumes "tk_max_uses t \<noteq> 0" and "tk_uses t < tk_max_uses t"
  shows "(case consumed t of None \<Rightarrow> Some 0
          | Some t' \<Rightarrow> if tk_max_uses t' = 0 then None else Some (unat (tk_max_uses t') - unat (tk_uses t')))
         = Some (unat (tk_max_uses t) - unat (tk_uses t) - 1)"
proof -
  have "unat (tk_uses t) < unat (tk_max_uses t)" using assms(2) by (simp add: word_less_nat_alt)
  moreover have "unat (tk_max_uses t) < 2 ^ 32" using unsigned_less [of "tk_max_uses t"] by simp
  ultimately have "unat (sat_add (tk_uses t) 1) = unat (tk_uses t) + 1" by (simp add: unat_sat_add)
  then show ?thesis using assms by (auto simp: consumed_def Let_def word_le_nat_alt)
qed

lemma redemptions_bound: "uses_left r i = Some n \<Longrightarrow> redemptions i qs r \<le> n"
proof (induction qs arbitrary: r n)
  case (Cons q qs)
  obtain now request session where q: "q = (now, request, session)" by (cases q)
  obtain resp r' where h: "handle_tokenuse now request session r = (resp, r')"
    by (cases "handle_tokenuse now request session r")
  show ?case
  proof (cases "error_id resp = 0")
    case False
    then have "r' = r" using token_use.unchanged [of "(now, request, session)" r] h by simp
    then show ?thesis using Cons h q False by simp
  next
    case True
    then have "redeemed now request session r (resp, r')"
      using tokenuse_ok_then [of now request session r] h by (simp add: ok_then_def)
    then obtain j t where j: "used_token request session r = Some j" "bt_get (st_tokens (rt_store r)) j = Some t"
      "tk_max_uses t \<noteq> 0 \<longrightarrow> tk_uses t < tk_max_uses t"
      "bt_get (st_tokens (rt_store r')) = (bt_get (st_tokens (rt_store r)))(j := consumed t)"
      by (auto simp: redeemed_def)
    show ?thesis
    proof (cases "j = i")
      case False
      then have "uses_left r' i = Some n" using Cons.prems j(4) by (simp add: uses_left_def)
      then show ?thesis using Cons.IH [of r' n] h q True j(1) False by simp
    next
      case eq: True
      then have m: "tk_max_uses t \<noteq> 0" and n: "n = unat (tk_max_uses t) - unat (tk_uses t)"
        using Cons.prems j(2) by (auto simp: uses_left_def split: if_splits)
      then have "uses_left r' i = Some (n - 1)"
        using consumed_left [of t] j(3,4) eq by (simp add: uses_left_def)
      moreover have "0 < n" using n m j(3) by (simp add: word_less_nat_alt)
      ultimately show ?thesis using Cons.IH [of r' "n - 1"] h q by auto
    qed
  qed
qed simp

text \<open>
  Property C14: a token with a limit is never redeemed more often than the limit: in every sequence of
  \<open>tokenuse\<close> commands, from whatever sessions and at whatever times, the number of successful
  redemptions of the token is at most the limit less the uses already counted.
\<close>

theorem token_redemptions_bounded:
  assumes "bt_get (st_tokens (rt_store r)) i = Some t" and "tk_max_uses t \<noteq> 0"
  shows "redemptions i qs r \<le> unat (tk_max_uses t) - unat (tk_uses t)"
  using assms by (intro redemptions_bound) (simp add: uses_left_def)

text \<open>A small server: one administrator account, one group to be granted, one token for one use.\<close>

definition token_account :: query_account where
  "token_account =
     \<lparr>qa_login_name = ''ops'', qa_password = [], qa_server_id = None, qa_client_database_id = Some 5,
      qa_server_groups = [7], qa_permissions = []\<rparr>"

definition token_demo :: baseline_runtime where
  "token_demo = empty_runtime\<lparr>rt_store := empty_store\<lparr>
     st_query_accounts := [(''ops'', token_account)],
     st_server_groups :=
       [(6, \<lparr>sg_id = 6, sg_name = ''Admin'', sg_group_type = 1, sg_icon_id = 0, sg_save_db = True,
             sg_permissions = []\<rparr>)],
     st_tokens := [(3, admin_token ''t'' 3 1 1700000000 1 2\<lparr>tk_actions :=
        [\<lparr>ta_id = 1, ta_action_type = 2, ta_action_id1 = 6, ta_action_id2 = 0, ta_action_text = []\<rparr>]\<rparr>)]\<rparr>\<rparr>"

definition token_session :: query_session where
  "token_session = default_session\<lparr>qs_authenticated_login := Some ''ops'', qs_selected_virtual_server_id := Some 1\<rparr>"

definition use_request :: command_request where
  "use_request = \<lparr>command = ''tokenuse'', positional_args = [],
     named_args = [(''token'', token_value_for 3 1700000000)], option_groups = [], flags = []\<rparr>"

theorem token_redemptions_bounded_witness:
  "redemptions 3 [(1700000001, use_request, token_session), (1700000002, use_request, token_session)]
     token_demo = 1
   \<and> (\<forall>qs. redemptions 3 qs token_demo \<le> 1)"
proof -
  have one: "redemptions 3 [(1700000001, use_request, token_session), (1700000002, use_request, token_session)]
     token_demo = 1" by code_simp
  have "map_option (\<lambda>t. (tk_max_uses t, tk_uses t)) (bt_get (st_tokens (rt_store token_demo)) 3) = Some (1, 0)"
    by code_simp
  then obtain t where t: "bt_get (st_tokens (rt_store token_demo)) 3 = Some t" "tk_max_uses t = 1" "tk_uses t = 0"
    by auto
  then show ?thesis using token_redemptions_bounded [OF t(1)] one by auto
qed

subsection \<open>What a redemption grants\<close>

lemma set_add_groups [simp]: "set (add_groups new groups) = set groups \<union> set new"
proof -
  have "set (foldl (\<lambda>acc g. if g \<in> set acc then acc else acc @ [g]) groups new) = set groups \<union> set new"
    by (induction new arbitrary: groups) auto
  then show ?thesis by (simp add: add_groups_def)
qed

lemma token_grants_groups:
  "token_grants r as = Inr (sgs, cgs) \<Longrightarrow>
   sgs = map ta_action_id1 (filter (\<lambda>a. ta_action_type a = 0 \<or> ta_action_type a = 2) as)
   \<and> (\<forall>g \<in> set sgs. bt_contains_key (st_server_groups (rt_store r)) g)"
  by (induction as arbitrary: sgs cgs) (auto simp: Let_def split: if_splits sum.splits)

lemma grant_frames_accounts [simp]:
  "st_query_accounts (rt_store (grant_channel_groups resolved cgs r)) = st_query_accounts (rt_store r)"
  "st_query_accounts (rt_store (consume_token i r)) = st_query_accounts (rt_store r)"
  "st_server_groups (rt_store (grant_channel_groups resolved cgs r)) = st_server_groups (rt_store r)"
  "st_server_groups (rt_store (consume_token i r)) = st_server_groups (rt_store r)"
  by (simp_all add: grant_channel_groups_def normalize_channel_group_assignments_def consume_token_def Let_def
      split: option.split)

definition granted :: "command_request \<Rightarrow> query_session \<Rightarrow> string \<Rightarrow> baseline_runtime \<Rightarrow>
    query_response \<times> baseline_runtime \<Rightarrow> bool" where
  "granted request session login r res =
     (\<exists>i t. used_token request session r = Some i \<and> bt_get (st_tokens (rt_store r)) i = Some t
        \<and> (\<forall>l. map_option (\<lambda>a. set (qa_server_groups a)) (bt_get (st_query_accounts (rt_store (snd res))) l)
              = map_option
                  (\<lambda>a. set (qa_server_groups a)
                       \<union> (if l = login
                          then {ta_action_id1 x |x. x \<in> set (tk_actions t) \<and> ta_action_type x \<in> {0, 2}}
                          else {}))
                  (bt_get (st_query_accounts (rt_store r)) l))
        \<and> st_server_groups (rt_store (snd res)) = st_server_groups (rt_store r))"

lemma grantedI:
  assumes "used_token request session r = Some i" and "bt_get (st_tokens (rt_store r)) i = Some t"
    and "token_grants r (tk_actions t) = Inr (sgs, cgs)"
    and "grant_server_groups session sid sgs r = Inr (resolved, r1)" and "qs_authenticated_login session = Some login"
  shows "granted request session login r (resp, consume_token i (grant_channel_groups resolved cgs r1))"
proof -
  have "r1 = upd_store (st_query_accounts_update
             (bt_update login (qa_server_groups_update (add_groups sgs)))) r"
    using assms(4,5) by (auto simp: grant_server_groups_def split: option.splits)
  moreover have "set sgs = {ta_action_id1 x |x. x \<in> set (tk_actions t) \<and> ta_action_type x \<in> {0, 2}}"
    using token_grants_groups [OF assms(3)] by auto
  ultimately show ?thesis
    using assms(1,2) by (auto simp: granted_def bt_get_update option.map_comp comp_def split: option.splits)
qed

lemma tokenuse_granted:
  assumes "qs_authenticated_login session = Some login"
  shows "ok_then (granted request session login r) (handle_tokenuse now request session r)"
proof -
  have used: "used_token request session r = Some i"
    if "require_server session = Inr sid" "or_else (arg request ''token'')
             (case positional_args request of [] \<Rightarrow> None | v # _ \<Rightarrow> Some v) = Some v"
      "token_by_value r sid v = Some i" for sid v i
    using that by (simp add: used_token_def)
  show ?thesis
    unfolding handle_tokenuse_def
    by (intro ok_then_branches; (rule ok_then_error,
          fastforce simp: require_server_error token_grants_error grant_server_groups_error)?)
      (rule ok_then_I, rule grantedI [OF _ _ _ _ assms], rule used; (assumption | simp))
qed

text \<open>
  A successful redemption by a query account adds to that account exactly the server groups
  the token's actions name, removes none, and changes the groups of no other account.
\<close>

theorem tokenuse_grants_exactly:
  assumes "handle_tokenuse now request session r = (resp, r')" and "error_id resp = 0"
    and "qs_authenticated_login session = Some login"
  shows "\<exists>i t. used_token request session r = Some i \<and> bt_get (st_tokens (rt_store r)) i = Some t
         \<and> (\<forall>l. map_option (\<lambda>a. set (qa_server_groups a)) (bt_get (st_query_accounts (rt_store r')) l)
              = map_option
                  (\<lambda>a. set (qa_server_groups a)
                       \<union> (if l = login
                          then {ta_action_id1 x |x. x \<in> set (tk_actions t) \<and> ta_action_type x \<in> {0, 2}}
                          else {}))
                  (bt_get (st_query_accounts (rt_store r)) l))"
  using tokenuse_granted [OF assms(3), of request r now] assms(1,2)
  by (auto simp: ok_then_def granted_def)

subsection \<open>Every reachable token table\<close>

definition tokens_ok :: "baseline_runtime \<Rightarrow> bool" where
  "tokens_ok r =
     (\<forall>i t. bt_get (st_tokens (rt_store r)) i = Some t \<longrightarrow>
        tk_id t = i \<and> (\<exists>created. tk_token t = token_value_for i created))"

lemma tokens_ok_cong: "st_tokens (rt_store r') = st_tokens (rt_store r) \<Longrightarrow> tokens_ok r' = tokens_ok r"
  by (simp add: tokens_ok_def)

lemma next_ids_tokens [simp]:
  "st_tokens (rt_store (snd (next_token_id r))) = st_tokens (rt_store r)"
  "st_tokens (rt_store (snd (next_token_action_id r))) = st_tokens (rt_store r)"
  by (simp_all add: next_token_id_def next_token_action_id_def Let_def)

lemma allocate_action_ids_tokens [simp]:
  "st_tokens (rt_store (snd (allocate_action_ids n r))) = st_tokens (rt_store r)"
  by (induction n arbitrary: r) (simp_all add: case_prod_beta)

lemma add_token_ok: "tokens_ok r \<Longrightarrow> after tokens_ok (add_token now request sid owner m e muts r)"
  by (auto simp: after_def add_token_def Let_def case_prod_beta tokens_ok_def bt_get_insert)

lemma create_admin_token_ok: "tokens_ok r \<Longrightarrow> tokens_ok (snd (create_admin_token d now sid r))"
  by (auto simp: create_admin_token_def Let_def case_prod_beta tokens_ok_def bt_get_insert admin_token_def)

lemma edit_token_ok: "tokens_ok r \<Longrightarrow> after tokens_ok (edit_token request i m e muts r)"
  by (auto simp: after_def edit_token_def case_prod_beta tokens_ok_def bt_get_update edit_token_fields_def
      split: option.split)

lemma consumed_same: "consumed t = Some t' \<Longrightarrow> tk_id t' = tk_id t \<and> tk_token t' = tk_token t"
  by (auto simp: consumed_def Let_def split: if_splits)

lemma tokenuse_ok: "tokens_ok r \<Longrightarrow> tokens_ok (snd (handle_tokenuse now request session r))"
proof (cases "error_id (fst (handle_tokenuse now request session r)) = 0")
  case True
  then have "redeemed now request session r (handle_tokenuse now request session r)"
    using tokenuse_ok_then [of now request session r] by (simp add: ok_then_def)
  moreover assume "tokens_ok r"
  ultimately show ?thesis
    by (auto simp: redeemed_def tokens_ok_def dest!: consumed_same split: if_splits)
next
  case False
  then show "tokens_ok r \<Longrightarrow> ?thesis" using token_use.unchanged [of "(now, request, session)" r] by simp
qed

lemma tokenadd_ok: "tokens_ok r \<Longrightarrow> after tokens_ok (handle_tokenadd now request session r)"
  unfolding handle_tokenadd_def
  by (intro after_branches add_token_ok) (auto intro: after_pair)

lemma tokenedit_ok: "tokens_ok r \<Longrightarrow> after tokens_ok (handle_tokenedit request session r)"
  unfolding handle_tokenedit_def
  by (intro after_branches edit_token_ok) (auto intro: after_pair)

lemma tokendelete_ok: "tokens_ok r \<Longrightarrow> after tokens_ok (handle_tokendelete request session r)"
  unfolding handle_tokendelete_def
  by (intro after_branches after_pair) (auto simp: tokens_ok_def bt_get_remove)

interpretation token_add_cmd: invariant_command tokens_ok "\<lambda>_ _. True"
  "\<lambda>(now, request, session) r. Some (handle_tokenadd now request session r)"
  using tokenadd_ok by unfold_locales (auto simp: returns_in_def after_def)

interpretation token_edit_cmd: invariant_command tokens_ok "\<lambda>_ _. True"
  "\<lambda>(request, session) r. Some (handle_tokenedit request session r)"
  using tokenedit_ok by unfold_locales (auto simp: returns_in_def after_def)

interpretation token_delete_cmd: invariant_command tokens_ok "\<lambda>_ _. True"
  "\<lambda>(request, session) r. Some (handle_tokendelete request session r)"
  using tokendelete_ok by unfold_locales (auto simp: returns_in_def after_def)

inductive token_step :: "baseline_runtime \<Rightarrow> baseline_runtime \<Rightarrow> bool" where
  add: "handle_tokenadd now request session r = (resp, r') \<Longrightarrow> token_step r r'"
| delete: "handle_tokendelete request session r = (resp, r') \<Longrightarrow> token_step r r'"
| edit: "handle_tokenedit request session r = (resp, r') \<Longrightarrow> token_step r r'"
| use: "handle_tokenuse now request session r = (resp, r') \<Longrightarrow> token_step r r'"
| initial: "ensure_initial_admin_token now server_id r = (res, r') \<Longrightarrow> token_step r r'"

lemma token_step_ok: "token_step r r' \<Longrightarrow> tokens_ok r \<Longrightarrow> tokens_ok r'"
proof (induction rule: token_step.induct)
  case (add now request session r resp r')
  then show ?case using token_add_cmd.keeps_inv [of r "(now, request, session)" resp r'] by simp
next
  case (delete request session r resp r')
  then show ?case using token_delete_cmd.keeps_inv [of r "(request, session)" resp r'] by simp
next
  case (edit request session r resp r')
  then show ?case using token_edit_cmd.keeps_inv [of r "(request, session)" resp r'] by simp
next
  case (use now request session r resp r')
  then show ?case using tokenuse_ok [of r now request session] by simp
next
  case (initial now server_id r res r')
  then show ?case
    using create_admin_token_ok [of r "''Initial Server Admin Privilege Key''" now server_id]
    by (auto simp: ensure_initial_admin_token_def case_prod_beta split: option.splits)
qed

text \<open>
  After any sequence of token commands, starting from a table of generated tokens, every
  token is filed under its own id and no two tokens have the same value, so that the value a client
  presents names at most one token.
\<close>

theorem reachable_tokens_distinct:
  assumes "tokens_ok r" and "token_step\<^sup>*\<^sup>* r r'"
    and "bt_get (st_tokens (rt_store r')) i = Some t" and "bt_get (st_tokens (rt_store r')) j = Some u"
    and "tk_token t = tk_token u"
  shows "i = j \<and> tk_id t = i"
proof -
  have "tokens_ok r'" using assms(2,1) by induction (auto intro: token_step_ok)
  then have "tk_id t = i" "\<exists>c. tk_token t = token_value_for i c" "\<exists>c. tk_token u = token_value_for j c"
    using assms(3,4) by (auto simp: tokens_ok_def)
  then show ?thesis using assms(5) token_value_inj by metis
qed

definition two_tokens_demo :: baseline_runtime where
  "two_tokens_demo = empty_runtime\<lparr>rt_store := empty_store\<lparr>
     st_tokens := [(3, admin_token ''a'' 3 1 1700000000 1 2), (4, admin_token ''b'' 4 1 1700000000 3 4)]\<rparr>\<rparr>"

theorem reachable_tokens_distinct_witness:
  "token_step two_tokens_demo two_tokens_demo
   \<and> bt_get (st_tokens (rt_store two_tokens_demo)) 3 = Some (admin_token ''a'' 3 1 1700000000 1 2)
   \<and> bt_get (st_tokens (rt_store two_tokens_demo)) 4 = Some (admin_token ''b'' 4 1 1700000000 3 4)
   \<and> tk_token (admin_token ''a'' 3 1 1700000000 1 2) \<noteq> tk_token (admin_token ''b'' 4 1 1700000000 3 4)"
proof -
  have ok: "tokens_ok two_tokens_demo"
    by (auto simp: tokens_ok_def two_tokens_demo_def bt_get_def admin_token_def split: if_splits)
  have step: "token_step two_tokens_demo two_tokens_demo"
    by (rule token_step.delete [of use_request default_session])
      (simp add: handle_tokendelete_def require_server_def session_has_permission_actor_def default_session_def)
  have get: "bt_get (st_tokens (rt_store two_tokens_demo)) 3 = Some (admin_token ''a'' 3 1 1700000000 1 2)"
    "bt_get (st_tokens (rt_store two_tokens_demo)) 4 = Some (admin_token ''b'' 4 1 1700000000 3 4)"
    by (simp_all add: two_tokens_demo_def bt_get_def)
  then show ?thesis
    using reachable_tokens_distinct [OF ok r_into_rtranclp [of token_step, OF step] get] step by auto
qed

subsection \<open>A failing edit\<close>

text \<open>
  \<open>tokenedit\<close> is not atomic: a request that raises the limit of a token and removes an action that does
  not exist answers that the action was not found, and the limit has been raised.
\<close>

definition edit_request :: command_request where
  "edit_request = \<lparr>command = ''tokenedit'', positional_args = [],
     named_args = [(''action_id'', ''9''), (''token_id'', ''3''), (''token_max_uses'', ''50'')],
     option_groups = [[(''action_id'', ''9''), (''token_id'', ''3''), (''token_max_uses'', ''50'')]], flags = []\<rparr>"

definition token_admin_demo :: baseline_runtime where
  "token_admin_demo = upd_store (\<lambda>s. s\<lparr>st_query_accounts :=
     [(''ops'', token_account\<lparr>qa_permissions := [(''b_virtualserver_token_edit_all'', perm 1)]\<rparr>)]\<rparr>) token_demo"

theorem failed_tokenedit_changes_limit:
  "let (resp, r') = handle_tokenedit edit_request token_session token_admin_demo
   in resp = response_error 768 ''token action not found''
      \<and> map_option tk_max_uses (bt_get (st_tokens (rt_store token_admin_demo)) 3) = Some 1
      \<and> map_option tk_max_uses (bt_get (st_tokens (rt_store r')) 3) = Some 50"
  by code_simp

end
