(* ===== verification/Server_Groups.thy ===== *)
theory Server_Groups
  imports Tokens
begin

text \<open>
  Server groups: \<open>runtime/permissions/server_groups.rs\<close> and the group membership functions of
  \<open>runtime/permissions/web.rs\<close>. The permission groups of the
  specification files are an argument of the reset.
\<close>

subsection \<open>Rows\<close>

definition build_web_group_row ::
    "string \<Rightarrow> u32 \<Rightarrow> string \<Rightarrow> u32 \<Rightarrow> int \<Rightarrow> bool \<Rightarrow> int \<Rightarrow> int \<Rightarrow> int \<Rightarrow> row" where
  "build_web_group_row id_key i name group_type icon_id save_db add_power remove_power modify_power =
     insert_fields
       [(id_key, word_to_string i), (''name'', name), (''type'', word_to_string group_type),
        (''iconid'', int_to_string icon_id), (''savedb'', flag_string save_db), (''sortid'', ''0''),
        (''namemode'', ''0''), (''n_member_addp'', int_to_string add_power),
        (''n_member_removep'', int_to_string remove_power), (''n_modifyp'', int_to_string modify_power)] []"

definition web_server_group_rows :: "baseline_runtime \<Rightarrow> row list" where
  "web_server_group_rows r =
     map (\<lambda>g. build_web_group_row ''sgid'' (sg_id g) (sg_name g) (sg_group_type g) (sg_icon_id g) (sg_save_db g)
            (permission_value_or_default (sg_permissions g)
               [''i_server_group_needed_member_add_power'', ''i_group_needed_member_add_power''])
            (permission_value_or_default (sg_permissions g)
               [''i_server_group_needed_member_remove_power'', ''i_group_needed_member_remove_power''])
            (permission_value_or_default (sg_permissions g)
               [''i_server_group_needed_modify_power'', ''i_group_needed_modify_power'']))
       (bt_values (st_server_groups (rt_store r)))"

definition web_server_groups_by_client_rows :: "baseline_runtime \<Rightarrow> u32 \<Rightarrow> u64 \<Rightarrow> row list option" where
  "web_server_groups_by_client_rows r server_id client_database_id =
     map_option
       (\<lambda>group_ids.
          List.map_filter
            (\<lambda>g. map_option
                   (\<lambda>x. insert_fields
                          [(''name'', sg_name x), (''sgid'', word_to_string (sg_id x)),
                           (''cldbid'', word_to_string client_database_id)] [])
                   (bt_get (st_server_groups (rt_store r)) g))
            (bs_collect group_ids))
       (or_else (map_option qa_server_groups (query_account_by_cldbid r client_database_id))
          (map_option oc_server_groups (online_client_by_cldbid r server_id client_database_id)))"

text \<open>The members of a group, by database id; an online client replaces the account of the same id.\<close>

definition member_rows ::
    "baseline_runtime \<Rightarrow> u32 \<Rightarrow> (u64 \<Rightarrow> string \<Rightarrow> string \<Rightarrow> row) \<Rightarrow> (u64, row) btree" where
  "member_rows r group_id mk =
     bt_extend
       (bt_collect
          (List.map_filter
             (\<lambda>a. if group_id \<in> set (qa_server_groups a)
                  then map_option (\<lambda>i. (i, mk i (qa_login_name a) (''query-account-'' @ word_to_string i)))
                         (qa_client_database_id a)
                  else None)
             (bt_values (st_query_accounts (rt_store r)))))
       (map (\<lambda>c. (oc_database_id c, mk (oc_database_id c) (oc_nickname c) (oc_unique_identifier c)))
          (filter (\<lambda>c. group_id \<in> set (oc_server_groups c)) (bt_values (st_online_clients (rt_store r)))))"

definition web_server_group_client_rows :: "baseline_runtime \<Rightarrow> u32 \<Rightarrow> row list option" where
  "web_server_group_client_rows r group_id =
     (if \<not> bt_contains_key (st_server_groups (rt_store r)) group_id then None
      else
        let members = member_rows r group_id
              (\<lambda>i name uid. insert_fields
                 [(''sgid'', word_to_string group_id), (''cldbid'', word_to_string i),
                  (''client_nickname'', name), (''client_unique_identifier'', uid)] [])
        in Some (if members = [] then [bt_insert ''sgid'' (word_to_string group_id) []]
                 else bt_values members))"

definition login_required :: query_response where
  "login_required = response_error 521 ''login required''"

definition handle_servergrouplist :: "query_session \<Rightarrow> baseline_runtime \<Rightarrow> query_response" where
  "handle_servergrouplist session r =
     (if \<not> session_has_permission_actor session then login_required
      else response_ok_rows (web_server_group_rows r))"

definition arg_u64 :: "command_request \<Rightarrow> string \<Rightarrow> u64 option" where
  "arg_u64 request k = Option.bind (arg request k) parse_word"

definition handle_servergroupsbyclientid :: "command_request \<Rightarrow> query_session \<Rightarrow> baseline_runtime \<Rightarrow> query_response" where
  "handle_servergroupsbyclientid request session r =
     (if \<not> session_has_permission_actor session then login_required
      else case arg_u64 request ''cldbid'' of
             None \<Rightarrow> response_error 512 ''cldbid is required''
           | Some dbid \<Rightarrow>
               (case query_permission_actor_context r session of
                  Inl e \<Rightarrow> e
                | Inr actor \<Rightarrow>
                    (case web_server_groups_by_client_rows r (ac_server_id actor) dbid of
                       None \<Rightarrow> response_error 768 ''client not found''
                     | Some rs \<Rightarrow> response_ok_rows rs)))"

definition handle_servergroupclientlist :: "command_request \<Rightarrow> query_session \<Rightarrow> baseline_runtime \<Rightarrow> query_response" where
  "handle_servergroupclientlist request session r =
     (if \<not> session_has_permission_actor session then login_required
      else case arg_u32 request ''sgid'' of
             None \<Rightarrow> response_error 512 ''sgid is required''
           | Some group_id \<Rightarrow>
               if \<not> bt_contains_key (st_server_groups (rt_store r)) group_id
               then response_error 768 ''server group not found''
               else response_ok_rows
                      (bt_values
                         (member_rows r group_id
                            (\<lambda>i name uid. insert_fields
                               ((''cldbid'', word_to_string i)
                                # (if ''names'' \<in> set (flags request)
                                   then [(''name'', name), (''client_nickname'', name),
                                         (''client_unique_identifier'', uid)] else [])) []))))"

subsection \<open>Membership\<close>

datatype web_server_group_mutation_error = InvalidClient | InvalidGroup | PermissionDenied u32

definition add_member :: "u32 \<Rightarrow> u32 list \<Rightarrow> u32 list" where
  "add_member group_id groups = (if group_id \<in> set groups then groups else sort (groups @ [group_id]))"

definition remove_account_member :: "bool \<Rightarrow> bool \<Rightarrow> u32 \<Rightarrow> query_account \<Rightarrow> query_account" where
  "remove_account_member has_admin_group has_guest_group group_id a =
     (let kept = filter (\<lambda>g. g \<noteq> group_id) (qa_server_groups a)
      in a\<lparr>qa_server_groups :=
             sort_dedup (if kept = []
                         then default_server_groups_for_login_with_availability (qa_login_name a)
                                has_admin_group has_guest_group
                         else kept)\<rparr>)"

definition remove_client_member :: "u32 \<Rightarrow> u32 list \<Rightarrow> u32 list" where
  "remove_client_member group_id groups =
     (let kept = filter (\<lambda>g. g \<noteq> group_id) groups in sort_dedup (if kept = [] then [8] else kept))"

definition update_account :: "u64 \<Rightarrow> (query_account \<Rightarrow> query_account) \<Rightarrow> baseline_runtime \<Rightarrow> baseline_runtime option" where
  "update_account dbid f r =
     map_option (\<lambda>login. upd_store (st_query_accounts_update (bt_update login f)) r)
       (bt_find_key (\<lambda>a. qa_client_database_id a = Some dbid) (st_query_accounts (rt_store r)))"

definition update_client_groups ::
    "u32 \<Rightarrow> u64 \<Rightarrow> (u32 list \<Rightarrow> u32 list) \<Rightarrow> baseline_runtime \<Rightarrow> baseline_runtime option" where
  "update_client_groups server_id dbid f r =
     map_option
       (\<lambda>client_id.
          let r1 = upd_store (st_online_clients_update (bt_update client_id (oc_server_groups_update f))) r
          in persist_web_client_server_groups dbid
               (unwrap_or [] (map_option oc_server_groups (bt_get (st_online_clients (rt_store r1)) client_id))) r1)
       (bt_find_key (\<lambda>c. oc_server_id c = server_id \<and> oc_database_id c = dbid) (st_online_clients (rt_store r)))"

definition change_membership :: "u32 \<Rightarrow> u64 \<Rightarrow> u32 \<Rightarrow> bool \<Rightarrow> baseline_runtime \<Rightarrow> baseline_runtime option" where
  "change_membership server_id dbid group_id add_group r =
     (let has_admin_group = bt_contains_key (st_server_groups (rt_store r)) 6;
          has_guest_group = bt_contains_key (st_server_groups (rt_store r)) 7
      in or_else
           (map_option (emit [PersistState])
              (update_account dbid
                 (if add_group then qa_server_groups_update (add_member group_id)
                  else remove_account_member has_admin_group has_guest_group group_id) r))
           (update_client_groups server_id dbid
              (if add_group then add_member group_id else remove_client_member group_id) r))"

definition web_change_server_group_client ::
    "u32 \<Rightarrow> u32 \<Rightarrow> u64 \<Rightarrow> u32 \<Rightarrow> u64 \<Rightarrow> bool \<Rightarrow> baseline_runtime \<Rightarrow>
     (web_server_group_mutation_error + unit) \<times> baseline_runtime" where
  "web_change_server_group_client server_id actor_channel_id actor_dbid group_id dbid add_group r =
     (case bt_get (st_server_groups (rt_store r)) group_id of
        None \<Rightarrow> (Inl InvalidGroup, r)
      | Some g \<Rightarrow>
     (case effective_permissions_for_client r server_id actor_channel_id actor_dbid of
        None \<Rightarrow> (Inl InvalidClient, r)
      | Some actor_permissions \<Rightarrow>
     (case check_server_group_membership_change actor_permissions (sg_permissions g) (actor_dbid = dbid) add_group of
        Inl p \<Rightarrow> (Inl (PermissionDenied (permission_id_for_name r p)), r)
      | Inr _ \<Rightarrow>
     (case change_membership server_id dbid group_id add_group r of
        None \<Rightarrow> (Inl InvalidClient, r)
      | Some r' \<Rightarrow> (Inr (), r')))))"

definition web_add_server_group_client ::
    "u32 \<Rightarrow> u32 \<Rightarrow> u64 \<Rightarrow> u32 \<Rightarrow> u64 \<Rightarrow> baseline_runtime \<Rightarrow>
     (web_server_group_mutation_error + unit) \<times> baseline_runtime" where
  "web_add_server_group_client server_id actor_channel_id actor_dbid group_id dbid r =
     web_change_server_group_client server_id actor_channel_id actor_dbid group_id dbid True r"

definition web_del_server_group_client ::
    "u32 \<Rightarrow> u32 \<Rightarrow> u64 \<Rightarrow> u32 \<Rightarrow> u64 \<Rightarrow> baseline_runtime \<Rightarrow>
     (web_server_group_mutation_error + unit) \<times> baseline_runtime" where
  "web_del_server_group_client server_id actor_channel_id actor_dbid group_id dbid r =
     web_change_server_group_client server_id actor_channel_id actor_dbid group_id dbid False r"

definition mutation_response :: "web_server_group_mutation_error + unit \<Rightarrow> query_response" where
  "mutation_response res =
     (case res of
        Inr _ \<Rightarrow> response_ok
      | Inl InvalidGroup \<Rightarrow> response_error 768 ''server group not found''
      | Inl InvalidClient \<Rightarrow> response_error 768 ''client not found''
      | Inl (PermissionDenied i) \<Rightarrow>
          response_error_with_fields 0xA08 ''insufficient client permissions''
            [(''failed_permid'', word_to_string i)])"

text \<open>The two commands differ in the membership function they call.\<close>

definition membership_command ::
    "(u32 \<Rightarrow> u32 \<Rightarrow> u64 \<Rightarrow> u32 \<Rightarrow> u64 \<Rightarrow> baseline_runtime \<Rightarrow>
      (web_server_group_mutation_error + unit) \<times> baseline_runtime) \<Rightarrow>
     command_request \<Rightarrow> query_session \<Rightarrow> baseline_runtime \<Rightarrow> query_response \<times> baseline_runtime" where
  "membership_command change request session r =
     (if \<not> session_has_permission_actor session then (login_required, r)
      else case arg_u32 request ''sgid'' of
             None \<Rightarrow> (response_error 512 ''sgid is required'', r)
           | Some group_id \<Rightarrow>
     (case arg_u64 request ''cldbid'' of
        None \<Rightarrow> (response_error 512 ''cldbid is required'', r)
      | Some dbid \<Rightarrow>
     (case query_actor_effective_permissions r session of
        Inl e \<Rightarrow> (e, r)
      | Inr (actor, _) \<Rightarrow>
          (case change (ac_server_id actor) (ac_channel_id actor) (ac_client_database_id actor) group_id dbid r of
             (res, r') \<Rightarrow> (mutation_response res, r')))))"

definition handle_servergroupaddclient ::
    "command_request \<Rightarrow> query_session \<Rightarrow> baseline_runtime \<Rightarrow> query_response \<times> baseline_runtime" where
  "handle_servergroupaddclient request session r = membership_command web_add_server_group_client request session r"

definition handle_servergroupdelclient ::
    "command_request \<Rightarrow> query_session \<Rightarrow> baseline_runtime \<Rightarrow> query_response \<times> baseline_runtime" where
  "handle_servergroupdelclient request session r = membership_command web_del_server_group_client request session r"

subsection \<open>Groups\<close>

definition new_server_group :: "u32 \<Rightarrow> string \<Rightarrow> u32 \<Rightarrow> server_group" where
  "new_server_group i name group_type =
     \<lparr>sg_id = i, sg_name = name, sg_group_type = group_type, sg_icon_id = 0, sg_save_db = True,
      sg_permissions = []\<rparr>"

definition sgid_row :: "u32 \<Rightarrow> row" where
  "sgid_row i = bt_insert ''sgid'' (word_to_string i) []"

definition handle_servergroupadd ::
    "command_request \<Rightarrow> query_session \<Rightarrow> baseline_runtime \<Rightarrow> query_response \<times> baseline_runtime" where
  "handle_servergroupadd request session r =
     (case require_server session of
        Inl e \<Rightarrow> (e, r)
      | Inr _ \<Rightarrow>
     (case query_actor_effective_permissions r session of
        Inl e \<Rightarrow> (e, r)
      | Inr (_, actor_permissions) \<Rightarrow>
     (case check_required_permission actor_permissions [''b_virtualserver_servergroup_create'']
             ''b_virtualserver_servergroup_create'' of
        Inl p \<Rightarrow> (insufficient_permission_response r p, r)
      | Inr _ \<Rightarrow>
     (case arg request ''name'' of
        None \<Rightarrow> (response_error 512 ''name is required'', r)
      | Some group_name \<Rightarrow>
     (case optional_number request ''type'' ''type must be an integer'' of
        Inl e \<Rightarrow> (e, r)
      | Inr group_type \<Rightarrow>
          let group_id = next_server_group_id r;
              new_group = new_server_group group_id group_name (unwrap_or 1 group_type)
          in (response_ok_row (sgid_row group_id),
              upd_store (st_server_groups_update (bt_insert group_id new_group))
                (emit [DbSaveServerGroup 0 new_group] r)))))))"

definition delete_server_group :: "u32 \<Rightarrow> baseline_runtime \<Rightarrow> baseline_runtime" where
  "delete_server_group group_id r =
     normalize_online_client_groups
       (normalize_query_account_groups
          (upd_store
             (\<lambda>s. s\<lparr>st_server_groups := bt_remove group_id (st_server_groups s),
                     st_query_accounts :=
                       bt_map_values (qa_server_groups_update (filter (\<lambda>g. g \<noteq> group_id)))
                         (st_query_accounts s)\<rparr>) r))"

definition handle_servergroupdel ::
    "command_request \<Rightarrow> query_session \<Rightarrow> baseline_runtime \<Rightarrow> query_response \<times> baseline_runtime" where
  "handle_servergroupdel request session r =
     (case require_server session of
        Inl e \<Rightarrow> (e, r)
      | Inr _ \<Rightarrow>
     (case query_actor_effective_permissions r session of
        Inl e \<Rightarrow> (e, r)
      | Inr (_, actor_permissions) \<Rightarrow>
     (case check_required_permission actor_permissions [''b_virtualserver_servergroup_delete'']
             ''b_virtualserver_servergroup_delete'' of
        Inl p \<Rightarrow> (insufficient_permission_response r p, r)
      | Inr _ \<Rightarrow>
     (case arg_u32 request ''sgid'' of
        None \<Rightarrow> (response_error 512 ''sgid is required'', r)
      | Some group_id \<Rightarrow>
          let force = unwrap_or False (Option.bind (arg request ''force'') parse_query_bool)
          in if \<not> bt_contains_key (st_server_groups (rt_store r)) group_id
             then (response_error 768 ''server group not found'', r)
             else if server_group_in_use r group_id \<and> \<not> force
             then (response_error 512 ''server group has assigned clients; set force=1 to delete'', r)
             else (response_ok, delete_server_group group_id r)))))"

abbreviation server_group_modify_names :: "string list" where
  "server_group_modify_names \<equiv> [''i_server_group_needed_modify_power'', ''i_group_needed_modify_power'']"

text \<open>
  \<open>servergroupaddperm\<close> and \<open>servergroupdelperm\<close> differ in what they parse and in what they do with the
  permission map.
\<close>

definition edit_server_group_permissions ::
    "(query_response + (perm_map \<Rightarrow> perm_map)) \<Rightarrow> command_request \<Rightarrow> query_session \<Rightarrow> baseline_runtime \<Rightarrow>
     query_response \<times> baseline_runtime" where
  "edit_server_group_permissions parsed request session r =
     (if \<not> session_has_permission_actor session then (login_required, r)
      else case arg_u32 request ''sgid'' of
             None \<Rightarrow> (response_error 512 ''sgid is required'', r)
           | Some group_id \<Rightarrow>
     (case parsed of
        Inl e \<Rightarrow> (e, r)
      | Inr change \<Rightarrow>
     (case query_actor_effective_permissions r session of
        Inl e \<Rightarrow> (e, r)
      | Inr (_, actor_permissions) \<Rightarrow>
     (case bt_get (st_server_groups (rt_store r)) group_id of
        None \<Rightarrow> (response_error 768 ''server group not found'', r)
      | Some g \<Rightarrow>
     (case check_permission_edit_allowed actor_permissions (sg_permissions g) server_group_modify_names of
        Inl p \<Rightarrow> (insufficient_permission_response r p, r)
      | Inr _ \<Rightarrow>
          let g' = sg_permissions_update change g
          in (response_ok,
              emit [DbSaveServerGroup 0 g']
                (upd_store (st_server_groups_update (bt_update group_id (\<lambda>_. g'))) r)))))))"

definition insert_assignments :: "(string \<times> perm_assignment) list \<Rightarrow> perm_map \<Rightarrow> perm_map" where
  "insert_assignments parsed perms = bt_extend perms parsed"

definition remove_names :: "string list \<Rightarrow> perm_map \<Rightarrow> perm_map" where
  "remove_names names perms = fold bt_remove names perms"

definition handle_servergroupaddperm ::
    "command_request \<Rightarrow> query_session \<Rightarrow> baseline_runtime \<Rightarrow> query_response \<times> baseline_runtime" where
  "handle_servergroupaddperm request session r =
     edit_server_group_permissions
       (map_sum id insert_assignments (parse_permission_assignments r request [''sgid''])) request session r"

definition handle_servergroupdelperm ::
    "command_request \<Rightarrow> query_session \<Rightarrow> baseline_runtime \<Rightarrow> query_response \<times> baseline_runtime" where
  "handle_servergroupdelperm request session r =
     edit_server_group_permissions
       (map_sum id remove_names (parse_requested_permission_names r request [''sgid''])) request session r"

text \<open>The \<open>auto\<close> commands change every group of an update type, and save none of them.\<close>

definition edit_auto_groups ::
    "(query_response + (perm_map \<Rightarrow> perm_map)) \<Rightarrow> command_request \<Rightarrow> query_session \<Rightarrow> baseline_runtime \<Rightarrow>
     query_response \<times> baseline_runtime" where
  "edit_auto_groups parsed request session r =
     (if \<not> session_has_permission_actor session then (login_required, r)
      else case Option.bind (arg request ''sgtype'') (parse_int 64) of
             None \<Rightarrow> (response_error 512 ''sgtype is required'', r)
           | Some sgtype \<Rightarrow>
     (case parsed of
        Inl e \<Rightarrow> (e, r)
      | Inr change \<Rightarrow>
     (case query_actor_effective_permissions r session of
        Inl e \<Rightarrow> (e, r)
      | Inr (_, actor_permissions) \<Rightarrow>
     (case check_required_permission actor_permissions [''b_permission_modify_power_ignore'']
             ''b_permission_modify_power_ignore'' of
        Inl p \<Rightarrow> (insufficient_permission_response r p, r)
      | Inr _ \<Rightarrow>
          (response_ok,
           upd_store
             (st_server_groups_update
                (fold (\<lambda>i. bt_update i (sg_permissions_update change)) (server_group_ids_by_auto_type r sgtype)))
             r)))))"

definition handle_servergroupautoaddperm ::
    "command_request \<Rightarrow> query_session \<Rightarrow> baseline_runtime \<Rightarrow> query_response \<times> baseline_runtime" where
  "handle_servergroupautoaddperm request session r =
     edit_auto_groups
       (map_sum id insert_assignments (parse_permission_assignments r request [''sgtype''])) request session r"

definition handle_servergroupautodelperm ::
    "command_request \<Rightarrow> query_session \<Rightarrow> baseline_runtime \<Rightarrow> query_response \<times> baseline_runtime" where
  "handle_servergroupautodelperm request session r =
     edit_auto_groups
       (map_sum id remove_names (parse_requested_permission_names r request [''sgtype''])) request session r"

definition copy_target_check :: "baseline_runtime \<Rightarrow> perm_map \<Rightarrow> u32 \<Rightarrow> query_response + unit" where
  "copy_target_check r actor_permissions target_group_id =
     (if target_group_id = 0 then Inr ()
      else case bt_get (st_server_groups (rt_store r)) target_group_id of
             None \<Rightarrow> Inl (response_error 768 ''server group not found'')
           | Some t \<Rightarrow>
               map_sum (insufficient_permission_response r) id
                 (check_group_modify_allowed actor_permissions (sg_permissions t) server_group_modify_names))"

definition copy_server_group ::
    "command_request \<Rightarrow> server_group \<Rightarrow> u32 \<Rightarrow> baseline_runtime \<Rightarrow> query_response \<times> baseline_runtime" where
  "copy_server_group request source_group target_group_id r =
     (if target_group_id = 0
      then case arg request ''name'' of
             None \<Rightarrow> (response_error 512 ''name is required when tsgid=0'', r)
           | Some group_name \<Rightarrow>
               let new_group_id = next_server_group_id r;
                   group_type = unwrap_or (sg_group_type source_group) (arg_u32 request ''type'')
               in (response_ok_row (sgid_row new_group_id),
                   upd_store
                     (st_server_groups_update
                        (bt_insert new_group_id
                           (source_group\<lparr>sg_id := new_group_id, sg_name := group_name,
                                          sg_group_type := group_type\<rparr>))) r)
      else (response_ok_row (sgid_row target_group_id),
            upd_store
              (st_server_groups_update
                 (bt_update target_group_id
                    (\<lambda>t. t\<lparr>sg_icon_id := sg_icon_id source_group, sg_save_db := sg_save_db source_group,
                           sg_permissions := sg_permissions source_group\<rparr>))) r))"

definition handle_servergroupcopy ::
    "command_request \<Rightarrow> query_session \<Rightarrow> baseline_runtime \<Rightarrow> query_response \<times> baseline_runtime" where
  "handle_servergroupcopy request session r =
     (case require_server session of
        Inl e \<Rightarrow> (e, r)
      | Inr _ \<Rightarrow>
     (case arg_u32 request ''ssgid'' of
        None \<Rightarrow> (response_error 512 ''ssgid is required'', r)
      | Some source_group_id \<Rightarrow>
     (case arg_u32 request ''tsgid'' of
        None \<Rightarrow> (response_error 512 ''tsgid is required'', r)
      | Some target_group_id \<Rightarrow>
     (case query_actor_effective_permissions r session of
        Inl e \<Rightarrow> (e, r)
      | Inr (_, actor_permissions) \<Rightarrow>
     (case check_required_permission actor_permissions [''b_virtualserver_servergroup_create'']
             ''b_virtualserver_servergroup_create'' of
        Inl p \<Rightarrow> (insufficient_permission_response r p, r)
      | Inr _ \<Rightarrow>
     (case bt_get (st_server_groups (rt_store r)) source_group_id of
        None \<Rightarrow> (response_error 768 ''server group not found'', r)
      | Some source_group \<Rightarrow>
     (case check_group_modify_allowed actor_permissions (sg_permissions source_group)
             server_group_modify_names of
        Inl p \<Rightarrow> (insufficient_permission_response r p, r)
      | Inr _ \<Rightarrow>
     (case copy_target_check r actor_permissions target_group_id of
        Inl e \<Rightarrow> (e, r)
      | Inr _ \<Rightarrow> copy_server_group request source_group target_group_id r))))))))"

definition handle_servergrouprename ::
    "command_request \<Rightarrow> query_session \<Rightarrow> baseline_runtime \<Rightarrow> query_response \<times> baseline_runtime" where
  "handle_servergrouprename request session r =
     (if \<not> session_has_permission_actor session then (login_required, r)
      else case arg_u32 request ''sgid'' of
             None \<Rightarrow> (response_error 512 ''sgid is required'', r)
           | Some group_id \<Rightarrow>
     (case query_actor_effective_permissions r session of
        Inl e \<Rightarrow> (e, r)
      | Inr (_, actor_permissions) \<Rightarrow>
     (case bt_get (st_server_groups (rt_store r)) group_id of
        None \<Rightarrow> (response_error 768 ''server group not found'', r)
      | Some g \<Rightarrow>
     (case check_group_modify_allowed actor_permissions (sg_permissions g) server_group_modify_names of
        Inl p \<Rightarrow> (insufficient_permission_response r p, r)
      | Inr _ \<Rightarrow>
     (case arg request ''name'' of
        None \<Rightarrow> (response_error 512 ''name is required'', r)
      | Some group_name \<Rightarrow>
          (response_ok,
           upd_store (st_server_groups_update (bt_update group_id (sg_name_update (\<lambda>_. group_name)))) r))))))"

definition permission_list_rows :: "baseline_runtime \<Rightarrow> bool \<Rightarrow> perm_map \<Rightarrow> row list" where
  "permission_list_rows r include_permsid perms =
     map (\<lambda>(n, a). render_permission_row r n a include_permsid)
       (sort_key (\<lambda>(n, _). (permission_id_for_name r n, n)) perms)"

definition handle_servergrouppermlist :: "command_request \<Rightarrow> query_session \<Rightarrow> baseline_runtime \<Rightarrow> query_response" where
  "handle_servergrouppermlist request session r =
     (if \<not> session_has_permission_actor session then login_required
      else case arg_u32 request ''sgid'' of
             None \<Rightarrow> response_error 512 ''sgid is required''
           | Some group_id \<Rightarrow>
               (case bt_get (st_server_groups (rt_store r)) group_id of
                  None \<Rightarrow> response_error 768 ''server group not found''
                | Some g \<Rightarrow>
                    response_ok_rows
                      (permission_list_rows r (''permsid'' \<in> set (flags request)) (sg_permissions g))))"

subsection \<open>Reset\<close>

definition or_insert :: "'k::linorder \<Rightarrow> 'v \<Rightarrow> ('k, 'v) btree \<Rightarrow> ('k, 'v) btree" where
  "or_insert k v m = (if bt_contains_key m k then m else bt_insert k v m)"

definition ensure_web_server_group_assignment_permission_basis :: "baseline_runtime \<Rightarrow> baseline_runtime" where
  "ensure_web_server_group_assignment_permission_basis r =
     (let groups = st_server_groups (rt_store r);
          target = (if bt_contains_key groups 8 then Some 8
                    else bt_find_key (\<lambda>g. sg_name g = ''Normal'') groups);
          basis = \<lparr>pa_value = 100, pa_negated = False, pa_skipped = False\<rparr>
      in case target of
           None \<Rightarrow> r
         | Some group_id \<Rightarrow>
             upd_store
               (st_server_groups_update
                  (bt_update group_id
                     (sg_permissions_update
                        (or_insert ''i_server_group_member_remove_power'' basis
                         \<circ> or_insert ''i_server_group_member_add_power'' basis)))) r)"

record permission_definition =
  pd_name :: string
  pd_value :: int
  pd_granted_by :: int
  pd_skipped :: int
  pd_negated :: int

record permission_group_spec =
  pg_name :: string
  pg_target :: int
  pg_target_name :: string
  pg_property_name :: "string option"
  pg_permissions :: "permission_definition list"

definition build_permission_map :: "permission_group_spec option \<Rightarrow> perm_map" where
  "build_permission_map spec =
     (case spec of
        None \<Rightarrow> []
      | Some g \<Rightarrow>
          bt_collect
            (map (\<lambda>p. (pd_name p, \<lparr>pa_value = pd_value p, pa_negated = pd_negated p \<noteq> 0,
                                   pa_skipped = pd_skipped p \<noteq> 0\<rparr>)) (pg_permissions g)))"

definition build_named_permission_map :: "permission_group_spec list \<Rightarrow> string \<Rightarrow> string \<Rightarrow> perm_map" where
  "build_named_permission_map specs group_name target_name =
     build_permission_map (List.find (\<lambda>g. pg_name g = group_name \<and> pg_target_name g = target_name) specs)"

definition seeded_from_specs :: "u64 \<Rightarrow> permission_group_spec list \<Rightarrow> in_memory_store" where
  "seeded_from_specs now specs =
     seed_store now
       (build_named_permission_map specs ''Admin Server Query'' ''QUERY'')
       (build_named_permission_map specs ''Guest Server Query'' ''QUERY'')
       (build_named_permission_map specs ''Server Admin'' ''SERVER'')
       (build_named_permission_map specs ''Channel Admin'' ''CHANNEL'')
       (build_named_permission_map specs ''Operator'' ''CHANNEL'')
       (build_named_permission_map specs ''Guest'' ''CHANNEL'')"

definition reset_account :: "query_account \<Rightarrow> query_account" where
  "reset_account a = a\<lparr>qa_server_groups := [7], qa_permissions := []\<rparr>"

definition serveradmin_account :: query_account where
  "serveradmin_account =
     \<lparr>qa_login_name = ''serveradmin'', qa_password = ''serveradmin'', qa_server_id = Some 1,
      qa_client_database_id = Some 1, qa_server_groups = [6], qa_permissions = []\<rparr>"

definition reset_store :: "u32 \<Rightarrow> in_memory_store \<Rightarrow> in_memory_store \<Rightarrow> in_memory_store" where
  "reset_store server_id seeded s =
     s\<lparr>st_server_groups := st_server_groups seeded,
       st_channel_groups := st_channel_groups seeded,
       st_channel_group_assignments := st_channel_group_assignments seeded,
       st_client_permissions := [], st_channel_client_permissions := [],
       st_channels := bt_update server_id (map (ch_permissions_update (\<lambda>_. []))) (st_channels s),
       st_query_accounts :=
         map (\<lambda>(login, a). (login, if login \<noteq> ''serveradmin'' then reset_account a else a))
           (bt_insert ''serveradmin'' serveradmin_account (st_query_accounts s)),
       st_online_clients :=
         bt_map_values (\<lambda>c. if oc_server_id c = server_id then c\<lparr>oc_server_groups := [8]\<rparr> else c)
           (st_online_clients s),
       st_custom_client_properties :=
         bt_retain (\<lambda>(sid, _) _. sid \<noteq> 0) (st_custom_client_properties s)\<rparr>"

definition save_groups_effects :: "u32 \<Rightarrow> in_memory_store \<Rightarrow> runtime_effect list" where
  "save_groups_effects server_id s =
     [DbClearAllPermissionsAndGroups] @ map (DbSaveServerGroup 0) (bt_values (st_server_groups s))
     @ map (DbSaveChannelGroup 0) (bt_values (st_channel_groups s))
     @ map (DbSaveAssignment server_id) (st_channel_group_assignments s)"

definition reset_permissions_and_generate_admin_token ::
    "u64 \<Rightarrow> permission_group_spec list \<Rightarrow> u32 \<Rightarrow> baseline_runtime \<Rightarrow> string \<times> baseline_runtime" where
  "reset_permissions_and_generate_admin_token now specs server_id r =
     (let r1 = ensure_web_server_group_assignment_permission_basis
                 (upd_store (reset_store server_id (seeded_from_specs now specs)) r);
          r2 = emit (save_groups_effects server_id (rt_store r1)) r1
      in create_admin_token ''Emergency PermReset Server Admin Token'' now server_id r2)"

definition handle_permreset ::
    "u64 \<Rightarrow> permission_group_spec list \<Rightarrow> query_session \<Rightarrow> baseline_runtime \<Rightarrow> query_response \<times> baseline_runtime" where
  "handle_permreset now specs session r =
     (if \<not> session_has_permission_actor session then (login_required, r)
      else
        let server_id = unwrap_or 1 (qs_selected_virtual_server_id session);
            allowed = (if qs_authenticated_login session = Some ''serveradmin'' then Inr ()
                       else case query_actor_effective_permissions r session of
                              Inl e \<Rightarrow> Inl e
                            | Inr (_, actor_permissions) \<Rightarrow>
                                map_sum (insufficient_permission_response r) id
                                  (check_required_permission actor_permissions
                                     [''b_virtualserver_permission_reset'', ''b_permission_modify_power_ignore'']
                                     ''b_virtualserver_permission_reset''))
        in case allowed of
             Inl e \<Rightarrow> (e, r)
           | Inr _ \<Rightarrow>
               (case reset_permissions_and_generate_admin_token now specs server_id r of
                  (token, r') \<Rightarrow> (response_ok_rows [bt_insert ''token'' token []], r')))"

subsection \<open>Who belongs to which group\<close>

text \<open>The server groups of a database id as the commands see them: the account's, else the online client's.\<close>

definition groups_held :: "baseline_runtime \<Rightarrow> u32 \<Rightarrow> u64 \<Rightarrow> u32 list option" where
  "groups_held r server_id dbid =
     or_else (map_option qa_server_groups (query_account_by_cldbid r dbid))
       (map_option oc_server_groups (online_client_by_cldbid r server_id dbid))"

lemma bt_find_key_Cons:
  "bt_find_key P ((k, v) # m) = (if P v then Some k else bt_find_key P m)"
  by (simp add: bt_find_key_def)

lemma bt_find_key_Some: "bt_find_key P m = Some k \<Longrightarrow> \<exists>v. (k, v) \<in> set m \<and> P v"
  by (induction m) (auto simp: bt_find_key_def split: if_splits)

lemma bt_find_key_in: "bt_find_key P m = Some k \<Longrightarrow> k \<in> fst ` set m"
  by (induction m) (auto simp: bt_find_key_def split: if_splits)

lemma bt_update_Cons:
  "bt_update k f ((k', v) # m) = (k', if k' = k then f v else v) # bt_update k f m"
  by (simp add: bt_update_def)

lemma bt_update_absent: "k \<notin> fst ` set m \<Longrightarrow> bt_update k f m = m"
  by (induction m) (auto simp: bt_update_def)

lemma bt_values_Cons [simp]: "bt_values ((k, v) # m) = v # bt_values m"
  by (simp add: bt_values_def)

lemma bt_inv_ConsE: "bt_inv ((k, v) # m) \<Longrightarrow> bt_inv m \<and> k \<notin> fst ` set m"
  by (auto simp: bt_inv_def)

lemma find_update_hit:
  assumes keep: "\<And>v. P (f v) = P v"
  shows "bt_inv m \<Longrightarrow> bt_find_key P m = Some k \<Longrightarrow>
    List.find P (bt_values (bt_update k f m)) = map_option f (List.find P (bt_values m))"
proof (induction m)
  case (Cons a m)
  obtain k' v where a: "a = (k', v)" by force
  have inv: "bt_inv m" "k' \<notin> fst ` set m" using bt_inv_ConsE [of k' v m] Cons.prems(1) a by simp_all
  show ?case
  proof (cases "P v")
    case True
    then show ?thesis using Cons.prems(2) a by (simp add: bt_find_key_Cons bt_update_Cons keep)
  next
    case False
    then have found: "bt_find_key P m = Some k" using Cons.prems(2) a by (simp add: bt_find_key_Cons)
    then have "k' \<noteq> k" using bt_find_key_in inv(2) by metis
    then show ?thesis using Cons.IH [OF inv(1) found] False a by (simp add: bt_update_Cons)
  qed
qed (simp add: bt_find_key_def)

lemma find_update_miss:
  assumes other: "\<And>v. P v \<Longrightarrow> \<not> Q v" and keep: "\<And>v. Q (f v) = Q v"
  shows "bt_inv m \<Longrightarrow> bt_find_key P m = Some k \<Longrightarrow>
    List.find Q (bt_values (bt_update k f m)) = List.find Q (bt_values m)"
proof (induction m)
  case (Cons a m)
  obtain k' v where a: "a = (k', v)" by force
  have inv: "bt_inv m" "k' \<notin> fst ` set m" using bt_inv_ConsE [of k' v m] Cons.prems(1) a by simp_all
  show ?case
  proof (cases "P v")
    case True
    then have "k' = k" using Cons.prems(2) a by (simp add: bt_find_key_Cons)
    then show ?thesis using a True inv(2) by (simp add: bt_update_Cons bt_update_absent other keep)
  next
    case False
    then have found: "bt_find_key P m = Some k" using Cons.prems(2) a by (simp add: bt_find_key_Cons)
    then have "k' \<noteq> k" using bt_find_key_in inv(2) by metis
    then show ?thesis using Cons.IH [OF inv(1) found] a by (simp add: bt_update_Cons)
  qed
qed (simp add: bt_find_key_def)

lemma bt_find_key_iff: "bt_find_key P m = None \<longleftrightarrow> List.find P (bt_values m) = None"
  by (induction m) (auto simp: bt_find_key_def bt_values_def)

definition tables_ok :: "baseline_runtime \<Rightarrow> bool" where
  "tables_ok r = (bt_inv (st_query_accounts (rt_store r)) \<and> bt_inv (st_online_clients (rt_store r)))"

text \<open>What a membership change leaves in the target's group list.\<close>

definition membership_effect :: "bool \<Rightarrow> u32 \<Rightarrow> u32 set \<Rightarrow> u32 set \<Rightarrow> bool" where
  "membership_effect add_group group_id old new =
     (if add_group then new = insert group_id old
      else old - {group_id} \<noteq> {} \<longrightarrow> new = old - {group_id})"

lemma set_add_member [simp]: "set (add_member g gs) = insert g (set gs)"
  by (auto simp: add_member_def)

lemma account_effect:
  "membership_effect add_group g (set (qa_server_groups a))
     (set (qa_server_groups ((if add_group then qa_server_groups_update (add_member g)
        else remove_account_member x y g) a)))"
  by (auto simp: membership_effect_def remove_account_member_def Let_def filter_empty_conv)

lemma client_effect:
  "membership_effect add_group g (set gs)
     (set ((if add_group then add_member g else remove_client_member g) gs))"
  by (auto simp: membership_effect_def remove_client_member_def Let_def filter_empty_conv)


definition only_target_changed ::
    "bool \<Rightarrow> u32 \<Rightarrow> u64 \<Rightarrow> u32 \<Rightarrow> baseline_runtime \<Rightarrow> baseline_runtime \<Rightarrow> bool" where
  "only_target_changed add_group server_id dbid group_id r r' =
     ((\<exists>old new. groups_held r server_id dbid = Some old \<and> groups_held r' server_id dbid = Some new
        \<and> membership_effect add_group group_id (set old) (set new))
      \<and> (\<forall>sid d. d \<noteq> dbid \<longrightarrow> groups_held r' sid d = groups_held r sid d)
      \<and> st_server_groups (rt_store r') = st_server_groups (rt_store r))"

lemma account_change:
  assumes "bt_inv (st_query_accounts (rt_store r))"
    and "update_account dbid f r = Some r'"
    and id: "\<And>a. qa_client_database_id (f a) = qa_client_database_id a"
    and eff: "\<And>a. membership_effect add_group g (set (qa_server_groups a)) (set (qa_server_groups (f a)))"
  shows "only_target_changed add_group sid dbid g r (emit es r')"
proof -
  let ?m = "st_query_accounts (rt_store r)"
  obtain k where k: "bt_find_key (\<lambda>a. qa_client_database_id a = Some dbid) ?m = Some k"
    and r': "r' = upd_store (st_query_accounts_update (bt_update k f)) r"
    using assms(2) by (auto simp: update_account_def)
  have hit: "query_account_by_cldbid (emit es r') dbid = map_option f (query_account_by_cldbid r dbid)"
    using find_update_hit [of "\<lambda>a. qa_client_database_id a = Some dbid" f, OF _ assms(1) k]
    by (simp add: query_account_by_cldbid_def r' id)
  have miss: "query_account_by_cldbid (emit es r') d = query_account_by_cldbid r d" if "d \<noteq> dbid" for d
    using find_update_miss [of "\<lambda>a. qa_client_database_id a = Some dbid"
        "\<lambda>a. qa_client_database_id a = Some d" f, OF _ _ assms(1) k] that
    by (simp add: query_account_by_cldbid_def r' id)
  obtain a where "query_account_by_cldbid r dbid = Some a"
    using k by (cases "query_account_by_cldbid r dbid")
      (auto simp: query_account_by_cldbid_def simp flip: bt_find_key_iff)
  then show ?thesis
    using hit miss eff [of a]
    by (auto simp: only_target_changed_def groups_held_def or_else_def online_client_by_cldbid_def r')
qed

lemma client_change:
  assumes "bt_inv (st_online_clients (rt_store r))"
    and "update_client_groups sid dbid f r = Some r'"
    and none: "query_account_by_cldbid r dbid = None"
    and eff: "\<And>gs. membership_effect add_group g (set gs) (set (f gs))"
  shows "only_target_changed add_group sid dbid g r r'"
proof -
  let ?m = "st_online_clients (rt_store r)"
  let ?P = "\<lambda>c. oc_server_id c = sid \<and> oc_database_id c = dbid"
  obtain k where k: "bt_find_key ?P ?m = Some k"
    and clients: "st_online_clients (rt_store r') = bt_update k (oc_server_groups_update f) ?m"
    and accounts: "st_query_accounts (rt_store r') = st_query_accounts (rt_store r)"
    and groups: "st_server_groups (rt_store r') = st_server_groups (rt_store r)"
    using assms(2) by (auto simp: update_client_groups_def Let_def persist_web_client_server_groups_def)
  have same: "query_account_by_cldbid r' d = query_account_by_cldbid r d" for d
    by (simp add: query_account_by_cldbid_def accounts)
  have hit: "online_client_by_cldbid r' sid dbid
      = map_option (oc_server_groups_update f) (online_client_by_cldbid r sid dbid)"
    using find_update_hit [of ?P "oc_server_groups_update f", OF _ assms(1) k]
    by (simp add: online_client_by_cldbid_def clients)
  have miss: "online_client_by_cldbid r' s d = online_client_by_cldbid r s d" if "d \<noteq> dbid" for s d
    using find_update_miss [of ?P "\<lambda>c. oc_server_id c = s \<and> oc_database_id c = d"
        "oc_server_groups_update f", OF _ _ assms(1) k] that
    by (simp add: online_client_by_cldbid_def clients)
  obtain c where "online_client_by_cldbid r sid dbid = Some c"
    using k by (cases "online_client_by_cldbid r sid dbid")
      (auto simp: online_client_by_cldbid_def simp flip: bt_find_key_iff)
  then show ?thesis
    using hit miss eff [of "oc_server_groups c"] same none groups
    by (auto simp: only_target_changed_def groups_held_def or_else_def)
qed

lemma change_membership_effect:
  assumes "tables_ok r" and "change_membership sid dbid g add_group r = Some r'"
  shows "only_target_changed add_group sid dbid g r r'"
proof -
  define x y where "x = bt_contains_key (st_server_groups (rt_store r)) 6"
    and "y = bt_contains_key (st_server_groups (rt_store r)) 7"
  define f where "f = (if add_group then qa_server_groups_update (add_member g) else remove_account_member x y g)"
  define h where "h = (if add_group then add_member g else remove_client_member g)"
  have f: "qa_client_database_id (f a) = qa_client_database_id a" for a
    by (simp add: f_def remove_account_member_def Let_def)
  have change: "or_else (map_option (emit [PersistState]) (update_account dbid f r))
      (update_client_groups sid dbid h r) = Some r'"
    using assms(2) unfolding change_membership_def Let_def f_def h_def x_def y_def .
  show ?thesis
  proof (cases "update_account dbid f r")
    case None
    then have "query_account_by_cldbid r dbid = None"
      by (simp add: update_account_def query_account_by_cldbid_def bt_find_key_iff)
    then show ?thesis
      using client_change [of r sid dbid h r' add_group g] assms(1) change None client_effect [of add_group g]
      by (simp add: tables_ok_def or_else_def h_def)
  next
    case (Some r1)
    then show ?thesis
      using account_change [of r dbid f r1 add_group g sid "[PersistState]"] assms(1) change f
        account_effect [of add_group g _ x y]
      by (simp add: tables_ok_def or_else_def f_def)
  qed
qed


text \<open>The powers that decide a membership change.\<close>

definition membership_powers :: "bool \<Rightarrow> bool \<Rightarrow> string list \<times> string list" where
  "membership_powers add_group self_target =
     (case (add_group, self_target) of
        (True, True) \<Rightarrow> ([''i_server_group_self_add_power'', ''i_group_member_add_power''],
          [''i_server_group_needed_member_add_power'', ''i_group_needed_member_add_power''])
      | (True, False) \<Rightarrow> ([''i_server_group_member_add_power'', ''i_group_member_add_power''],
          [''i_server_group_needed_member_add_power'', ''i_group_needed_member_add_power''])
      | (False, True) \<Rightarrow> ([''i_server_group_self_remove_power'', ''i_group_member_remove_power''],
          [''i_server_group_needed_member_remove_power'', ''i_group_needed_member_remove_power''])
      | (False, False) \<Rightarrow> ([''i_server_group_member_remove_power'', ''i_group_member_remove_power''],
          [''i_server_group_needed_member_remove_power'', ''i_group_needed_member_remove_power'']))"

lemma membership_check_iff:
  "check_server_group_membership_change actor target self_target add_group = Inr u \<longleftrightarrow>
   permission_power_max_or_default target (snd (membership_powers add_group self_target))
   \<le> permission_power_max_or_default actor (fst (membership_powers add_group self_target))"
  by (cases add_group; cases self_target)
    (auto simp: check_server_group_membership_change_def membership_powers_def check_power_def)

lemma membership_check_denied:
  "check_server_group_membership_change actor target self_target add_group = Inl p \<Longrightarrow>
   \<not> permission_power_max_or_default target (snd (membership_powers add_group self_target))
   \<le> permission_power_max_or_default actor (fst (membership_powers add_group self_target))"
  using membership_check_iff [of actor target self_target add_group] by fastforce

lemma mutation_response_ok [simp]: "error_id (mutation_response res) = 0 \<longleftrightarrow> (\<exists>u. res = Inr u)"
  by (auto simp: mutation_response_def response_defs split: sum.split web_server_group_mutation_error.split)

definition membership_authorized ::
    "bool \<Rightarrow> command_request \<Rightarrow> query_session \<Rightarrow> baseline_runtime \<Rightarrow> query_response \<times> baseline_runtime \<Rightarrow> bool" where
  "membership_authorized add_group request session r res =
     (\<exists>actor actor_permissions group_id dbid g.
        query_permission_actor_context r session = Inr actor
        \<and> effective_permissions_for_client r (ac_server_id actor) (ac_channel_id actor)
            (ac_client_database_id actor) = Some actor_permissions
        \<and> arg_u32 request ''sgid'' = Some group_id \<and> arg_u64 request ''cldbid'' = Some dbid
        \<and> bt_get (st_server_groups (rt_store r)) group_id = Some g
        \<and> (let powers = membership_powers add_group (ac_client_database_id actor = dbid)
           in permission_power_max_or_default (sg_permissions g) (snd powers)
              \<le> permission_power_max_or_default actor_permissions (fst powers))
        \<and> only_target_changed add_group (ac_server_id actor) dbid group_id r (snd res))"

lemma membership_command_ok:
  assumes "tables_ok r"
    and "error_id (fst (membership_command
       (\<lambda>sid cid d g t r. web_change_server_group_client sid cid d g t add_group r) request session r)) = 0"
  shows "membership_authorized add_group request session r
    (membership_command (\<lambda>sid cid d g t r. web_change_server_group_client sid cid d g t add_group r) request session r)"
  using assms(2)
  by (auto simp: membership_command_def login_required_def web_change_server_group_client_def
      query_actor_effective_permissions_def membership_authorized_def membership_check_iff Let_def
      dest: actor_context_error membership_check_denied
      split: if_splits option.splits sum.splits prod.splits
      intro: change_membership_effect [OF assms(1)])



definition groups_demo :: baseline_runtime where
  "groups_demo = empty_runtime\<lparr>rt_store := empty_store\<lparr>
     st_query_accounts :=
       [(''ops'', token_account\<lparr>qa_permissions := [(''i_group_member_add_power'', perm 75)]\<rparr>)],
     st_server_groups :=
       [(8, new_server_group 8 ''Normal'' 1),
        (9, (new_server_group 9 ''Server Admin'' 1)\<lparr>sg_permissions :=
             [(''i_group_needed_member_add_power'', perm 75)]\<rparr>)],
     st_online_clients := [(10, seed_online_client_10 1000)]\<rparr>\<rparr>"

definition member_request :: "string \<Rightarrow> string \<Rightarrow> string \<Rightarrow> command_request" where
  "member_request name g dbid = \<lparr>command = name, positional_args = [],
     named_args = [(''cldbid'', dbid), (''sgid'', g)],
     option_groups = [[(''cldbid'', dbid), (''sgid'', g)]], flags = []\<rparr>"


subsection \<open>Deleting a group\<close>

text \<open>What a deletion leaves: the group nowhere, every other group, account and client in place.\<close>

definition group_deleted :: "u32 \<Rightarrow> baseline_runtime \<Rightarrow> baseline_runtime \<Rightarrow> bool" where
  "group_deleted group_id r r' =
     (bt_get (st_server_groups (rt_store r')) = (bt_get (st_server_groups (rt_store r)))(group_id := None)
      \<and> bt_keys (st_query_accounts (rt_store r')) = bt_keys (st_query_accounts (rt_store r))
      \<and> bt_keys (st_online_clients (rt_store r')) = bt_keys (st_online_clients (rt_store r))
      \<and> (\<forall>login a. bt_get (st_query_accounts (rt_store r')) login = Some a \<longrightarrow>
           group_id \<notin> set (qa_server_groups a)
           \<and> set (qa_server_groups a) \<subseteq> set (bt_keys (st_server_groups (rt_store r')))
           \<and> (\<exists>b. bt_get (st_query_accounts (rt_store r)) login = Some b
                \<and> (let kept = set (qa_server_groups b) \<inter> set (bt_keys (st_server_groups (rt_store r')))
                   in kept \<noteq> {} \<longrightarrow> set (qa_server_groups a) = kept)))
      \<and> (\<forall>i c. bt_get (st_online_clients (rt_store r')) i = Some c \<longrightarrow>
           group_id \<notin> set (oc_server_groups c)
           \<and> (\<exists>b. bt_get (st_online_clients (rt_store r)) i = Some b
                \<and> set (oc_server_groups c)
                    = set (oc_server_groups b) \<inter> set (bt_keys (st_server_groups (rt_store r'))))))"

lemma bt_keys_remove_notin: "k \<notin> set (bt_keys (bt_remove k m))"
  by (auto simp: bt_keys_def bt_remove_def)

lemma delete_server_group_effect: "group_deleted group_id r (delete_server_group group_id r)"
proof -
  define m where "m = bt_remove group_id (st_server_groups (rt_store r))"
  have gone: "group_id \<notin> set (bt_keys m)" by (simp add: m_def bt_keys_remove_notin)
  have store:
    "st_server_groups (rt_store (delete_server_group group_id r)) = m"
    "st_query_accounts (rt_store (delete_server_group group_id r))
       = bt_map_values (normalize_account_groups (bt_keys m) (bt_contains_key m 6) (bt_contains_key m 7))
           (bt_map_values (qa_server_groups_update (filter (\<lambda>g. g \<noteq> group_id))) (st_query_accounts (rt_store r)))"
    "st_online_clients (rt_store (delete_server_group group_id r))
       = bt_map_values (normalize_client_groups (bt_keys m)) (st_online_clients (rt_store r))"
    by (simp_all add: delete_server_group_def normalize_online_client_groups_def
        normalize_query_account_groups_def m_def)
  have account: "set (qa_server_groups (normalize_account_groups (bt_keys m) (bt_contains_key m 6)
        (bt_contains_key m 7) (qa_server_groups_update (filter (\<lambda>g. g \<noteq> group_id)) b)))
      = (let kept = set (qa_server_groups b) \<inter> set (bt_keys m)
         in if kept = {} then set (default_server_groups_for_login_with_availability (qa_login_name b)
              (bt_contains_key m 6) (bt_contains_key m 7)) else kept)" for b
    using gone by (auto simp: normalize_account_groups_def Let_def filter_empty_conv)
  define f where "f = (\<lambda>b. normalize_account_groups (bt_keys m) (bt_contains_key m 6) (bt_contains_key m 7)
      (qa_server_groups_update (filter (\<lambda>g. g \<noteq> group_id)) b))"
  have f: "set (qa_server_groups (f b)) \<subseteq> set (bt_keys m)"
    "set (qa_server_groups b) \<inter> set (bt_keys m) \<noteq> {} \<Longrightarrow>
     set (qa_server_groups (f b)) = set (qa_server_groups b) \<inter> set (bt_keys m)" for b
    using account [of b] default_groups_exist [of "qa_login_name b" m] by (auto simp: f_def Let_def)
  have accounts: "bt_get (st_query_accounts (rt_store (delete_server_group group_id r))) login
      = map_option f (bt_get (st_query_accounts (rt_store r)) login)" for login
    by (simp add: store(2) bt_get_map_values f_def option.map_comp comp_def)
  define h where "h = normalize_client_groups (bt_keys m)"
  have h: "set (oc_server_groups (h c)) = set (oc_server_groups c) \<inter> set (bt_keys m)" for c
    by (auto simp: h_def normalize_client_groups_def)
  have clients: "bt_get (st_online_clients (rt_store (delete_server_group group_id r))) i
      = map_option h (bt_get (st_online_clients (rt_store r)) i)" for i
    by (simp add: store(3) bt_get_map_values h_def)
  have keys: "bt_keys (st_query_accounts (rt_store (delete_server_group group_id r)))
      = bt_keys (st_query_accounts (rt_store r))"
    "bt_keys (st_online_clients (rt_store (delete_server_group group_id r)))
      = bt_keys (st_online_clients (rt_store r))"
    by (simp_all add: store)
  show ?thesis
    unfolding group_deleted_def keys accounts clients store(1) Let_def
    using f h gone by (auto simp: m_def bt_get_remove)
qed

text \<open>
  A successful \<open>servergroupdel\<close> removes the group and only the group: no query account
  and no online client lists it afterwards, every account keeps exactly the valid groups it had (an
  account left with none falls back to the defaults that exist), every online client too; and
  without \<open>force\<close> it succeeds only when nobody was in the group.
\<close>

theorem servergroupdel_complete:
  assumes "handle_servergroupdel request session r = (resp, r')" and "error_id resp = 0"
  shows "\<exists>group_id. arg_u32 request ''sgid'' = Some group_id \<and> group_deleted group_id r r'
    \<and> (server_group_in_use r group_id \<longrightarrow> Option.bind (arg request ''force'') parse_query_bool = Some True)"
proof -
  define P where "P = (\<lambda>res :: query_response \<times> baseline_runtime.
    \<exists>group_id. arg_u32 request ''sgid'' = Some group_id \<and> group_deleted group_id r (snd res)
      \<and> (server_group_in_use r group_id \<longrightarrow> Option.bind (arg request ''force'') parse_query_bool = Some True))"
  have "ok_then P (handle_servergroupdel request session r)"
    unfolding handle_servergroupdel_def
    by (intro ok_then_branches; (rule ok_then_error, fastforce dest: require_server_error actor_permissions_error)?)
      (rule ok_then_I, auto simp: P_def delete_server_group_effect unwrap_or_def split: option.splits)
  then show ?thesis using assms by (simp add: ok_then_def P_def)
qed


definition delete_demo :: baseline_runtime where
  "delete_demo = empty_runtime\<lparr>rt_store := empty_store\<lparr>
     st_query_accounts :=
       [(''ops'', token_account\<lparr>qa_permissions := [(''b_virtualserver_servergroup_delete'', perm 1)],
                                qa_server_groups := [7, 9]\<rparr>)],
     st_server_groups :=
       [(7, new_server_group 7 ''Guest Server Query'' 1), (9, new_server_group 9 ''Server Admin'' 1)],
     st_online_clients := [(10, seed_online_client_10 1000)]\<rparr>\<rparr>"

definition delete_request :: "string \<Rightarrow> command_request" where
  "delete_request force = \<lparr>command = ''servergroupdel'', positional_args = [],
     named_args = [(''force'', force), (''sgid'', ''9'')],
     option_groups = [[(''force'', force), (''sgid'', ''9'')]], flags = []\<rparr>"

subsection \<open>Recovering a server\<close>

text \<open>The groups, accounts and clients a permission reset leaves behind.\<close>

definition permissions_reset :: "u32 \<Rightarrow> baseline_runtime \<Rightarrow> bool" where
  "permissions_reset server_id r =
     ((\<forall>login a. bt_get (st_query_accounts (rt_store r)) login = Some a \<longrightarrow>
         qa_server_groups a = (if login = ''serveradmin'' then [6] else [7]) \<and> qa_permissions a = [])
      \<and> bt_get (st_query_accounts (rt_store r)) ''serveradmin'' = Some serveradmin_account
      \<and> (\<forall>i c. bt_get (st_online_clients (rt_store r)) i = Some c \<and> oc_server_id c = server_id \<longrightarrow>
           oc_server_groups c = [8])
      \<and> set (bt_keys (st_server_groups (rt_store r))) = {6, 7, 8, 9}
      \<and> st_client_permissions (rt_store r) = [] \<and> st_channel_client_permissions (rt_store r) = [])"

lemma bt_get_map_snd: "bt_get (map (\<lambda>(k, v). (k, f k v)) m) j = map_option (f j) (bt_get m j)"
  by (induction m) (auto simp: bt_get_def)

lemma reset_accounts:
  "bt_get (st_query_accounts (reset_store sid seeded s)) login =
     map_option (\<lambda>a. if login \<noteq> ''serveradmin'' then reset_account a else a)
       (((bt_get (st_query_accounts s))(''serveradmin'' \<mapsto> serveradmin_account)) login)"
  using bt_get_map_snd [of "\<lambda>login a. if login \<noteq> ''serveradmin'' then reset_account a else a"]
  by (simp add: reset_store_def bt_get_insert)

lemma basis_frame [simp]:
  "st_query_accounts (rt_store (ensure_web_server_group_assignment_permission_basis r)) = st_query_accounts (rt_store r)"
  "st_online_clients (rt_store (ensure_web_server_group_assignment_permission_basis r)) = st_online_clients (rt_store r)"
  "bt_keys (st_server_groups (rt_store (ensure_web_server_group_assignment_permission_basis r)))
     = bt_keys (st_server_groups (rt_store r))"
  "st_client_permissions (rt_store (ensure_web_server_group_assignment_permission_basis r))
     = st_client_permissions (rt_store r)"
  "st_channel_client_permissions (rt_store (ensure_web_server_group_assignment_permission_basis r))
     = st_channel_client_permissions (rt_store r)"
  "st_tokens (rt_store (ensure_web_server_group_assignment_permission_basis r)) = st_tokens (rt_store r)"
  by (simp_all add: ensure_web_server_group_assignment_permission_basis_def Let_def split: option.split)

lemma reset_frame:
  "st_tokens (reset_store sid seeded s) = st_tokens s"
  "st_server_groups (reset_store sid seeded s) = st_server_groups seeded"
  "st_client_permissions (reset_store sid seeded s) = []"
  "st_channel_client_permissions (reset_store sid seeded s) = []"
  "st_online_clients (reset_store sid seeded s) =
     bt_map_values (\<lambda>c. if oc_server_id c = sid then c\<lparr>oc_server_groups := [8]\<rparr> else c) (st_online_clients s)"
  by (simp_all add: reset_store_def)


lemma seeded_group_keys: "set (bt_keys (st_server_groups (seeded_from_specs now specs))) = {6, 7, 8, 9}"
  by (auto simp: seeded_from_specs_def seed_store_def seed_server_groups_def bt_keys_def)

lemma reset_result:
  defines "r' \<equiv> \<lambda>now specs sid r. rt_store (snd (reset_permissions_and_generate_admin_token now specs sid r))"
    and "s' \<equiv> \<lambda>now specs sid r. reset_store sid (seeded_from_specs now specs) (rt_store r)"
  shows "st_query_accounts (r' now specs sid r) = st_query_accounts (s' now specs sid r)"
    and "st_online_clients (r' now specs sid r) = st_online_clients (s' now specs sid r)"
    and "bt_keys (st_server_groups (r' now specs sid r)) = bt_keys (st_server_groups (s' now specs sid r))"
    and "st_client_permissions (r' now specs sid r) = []"
    and "st_channel_client_permissions (r' now specs sid r) = []"
  by (simp_all add: r'_def s'_def reset_permissions_and_generate_admin_token_def Let_def create_admin_token_def
      case_prod_beta next_token_id_def next_token_action_id_def reset_frame)

lemma reset_permissions_reset:
  "permissions_reset sid (snd (reset_permissions_and_generate_admin_token now specs sid r))"
proof -
  define f where "f = (\<lambda>c :: online_client. if oc_server_id c = sid then oc_server_groups_update (\<lambda>_. [8]) c else c)"
  have f: "oc_server_id (f c) = sid \<Longrightarrow> oc_server_groups (f c) = [8]" for c
    by (simp add: f_def split: if_splits)
  have clients: "bt_get (st_online_clients (reset_store sid x s)) i = map_option f (bt_get (st_online_clients s) i)"
    for x s i by (simp add: reset_frame bt_get_map_values f_def)
  show ?thesis
    unfolding permissions_reset_def reset_result reset_accounts clients
    using f by (auto simp: reset_frame seeded_group_keys reset_account_def serveradmin_account_def split: if_splits)
qed

definition admin_key :: "u64 \<Rightarrow> u32 \<Rightarrow> string \<Rightarrow> baseline_runtime \<Rightarrow> bool" where
  "admin_key now sid token r =
     (\<exists>t. token_by_value r sid token = Some (tk_id t) \<and> bt_get (st_tokens (rt_store r)) (tk_id t) = Some t
        \<and> tk_token t = token \<and> tk_uses t = 0 \<and> tk_max_uses t = 1 \<and> tk_expired_at t = None
        \<and> map (\<lambda>a. (ta_action_type a, ta_action_id1 a)) (tk_actions t) = [(2, 9), (2, 6)])"

lemma create_admin_token_key:
  assumes "tokens_ok r" and "bt_inv (st_tokens (rt_store r))"
  shows "admin_key now sid (fst (create_admin_token d now sid r)) (snd (create_admin_token d now sid r))"
proof -
  let ?r' = "snd (create_admin_token d now sid r)" and ?v = "fst (create_admin_token d now sid r)"
  obtain i x y where r': "st_tokens (rt_store ?r') = bt_insert i (admin_token d i sid now x y) (st_tokens (rt_store r))"
    and v: "?v = token_value_for i now"
    by (auto simp: create_admin_token_def Let_def case_prod_beta admin_token_def)
  let ?t = "admin_token d i sid now x y"
  have get: "bt_get (st_tokens (rt_store ?r')) i = Some ?t" by (simp add: r' bt_get_insert)
  have inv: "bt_inv (st_tokens (rt_store ?r'))" using assms(2) by (simp add: r' bt_inv_insert)
  have ok: "tokens_ok ?r'" using create_admin_token_ok [OF assms(1)] .
  have "token_by_value ?r' sid ?v \<noteq> None"
  proof
    assume "token_by_value ?r' sid ?v = None"
    then have "\<not> (tk_server_id ?t = sid \<and> tk_token ?t = ?v)"
      using bt_get_in_values [OF get] unfolding token_by_value_def bt_find_key_iff find_None_iff by blast
    then show False by (simp add: v admin_token_def)
  qed
  then obtain k where k: "token_by_value ?r' sid ?v = Some k" by blast
  then obtain u where "(k, u) \<in> set (st_tokens (rt_store ?r'))" "tk_token u = ?v"
    unfolding token_by_value_def by (auto dest!: bt_find_key_Some)
  then have "k = i"
    using bt_get_of_mem [OF inv] ok token_value_inj v by (fastforce simp: tokens_ok_def)
  then show ?thesis using get k by (auto simp: admin_key_def v admin_token_def intro!: exI [of _ ?t])
qed



definition reset_specs :: "permission_group_spec list" where
  "reset_specs =
     [\<lparr>pg_name = ''Server Admin'', pg_target = 0, pg_target_name = ''SERVER'', pg_property_name = None,
       pg_permissions = [\<lparr>pd_name = ''i_group_needed_member_add_power'', pd_value = 75, pd_granted_by = 75,
                          pd_skipped = 0, pd_negated = 0\<rparr>]\<rparr>]"


subsection \<open>The power of an ordinary client\<close>

text \<open>
  \<open>ensure_web_server_group_assignment_permission_basis\<close> runs at every start and reset and gives the
  group every client starts in an add power of 100. The specification files ask for a power of 75 to
  join \<open>Server Admin\<close>, so one ordinary client can make another one an administrator.
\<close>

definition ordinary_demo :: baseline_runtime where
  "ordinary_demo = ensure_web_server_group_assignment_permission_basis
     (empty_runtime\<lparr>rt_store := empty_store\<lparr>
        st_server_groups :=
          [(8, new_server_group 8 ''Normal'' 1),
           (9, (new_server_group 9 ''Server Admin'' 1)\<lparr>sg_permissions :=
                build_named_permission_map reset_specs ''Server Admin'' ''SERVER''\<rparr>)],
        st_online_clients := [(10, seed_online_client_10 1000), (11, seed_online_client_11 1000)]\<rparr>\<rparr>)"

definition ordinary_session :: query_session where
  "ordinary_session = default_session\<lparr>qs_actor_client_database_id_override := Some 40,
     qs_selected_virtual_server_id := Some 1, qs_current_channel_id := Some 1\<rparr>"

theorem ordinary_client_appoints_admin:
  "let res = handle_servergroupaddclient (member_request ''servergroupaddclient'' ''9'' ''41'')
               ordinary_session ordinary_demo
   in fst res = response_ok \<and> groups_held ordinary_demo 1 40 = Some [8]
      \<and> groups_held ordinary_demo 1 41 = Some [8] \<and> groups_held (snd res) 1 41 = Some [8, 9]"
  by code_simp

subsection \<open>Group ids are used again\<close>

text \<open>
  Deleting the group with the highest id frees its id, and the groups an offline client has stored
  under its custom properties are not touched: the next group that is created gets the old id, and the
  client's old membership with it.
\<close>

definition reuse_demo :: baseline_runtime where
  "reuse_demo = empty_runtime\<lparr>rt_store := empty_store\<lparr>
     st_server_groups := [(8, new_server_group 8 ''Normal'' 1), (9, new_server_group 9 ''Moderators'' 1)],
     st_custom_client_properties := [((0, 77), [(''server_groups'', ''8,9'')])]\<rparr>\<rparr>"

theorem deleted_group_id_is_reused:
  "let r' = delete_server_group 9 reuse_demo
   in next_server_group_id reuse_demo = 10 \<and> next_server_group_id r' = 9
      \<and> st_custom_client_properties (rt_store r') = [((0, 77), [(''server_groups'', ''8,9'')])]"
  by code_simp

end
