(* ===== verification/Channel_Groups.thy ===== *)
theory Channel_Groups
  imports Server_Groups
begin

text \<open>
  Channel groups: \<open>runtime/permissions/channel_groups.rs\<close> and the channel group rows of
  \<open>runtime/permissions/web.rs\<close>; and the contract that editing the permissions of a group has for
  both kinds of groups.
\<close>

subsection \<open>Rows\<close>

definition web_channel_group_rows :: "baseline_runtime \<Rightarrow> row list" where
  "web_channel_group_rows r =
     map (\<lambda>g. build_web_group_row ''cgid'' (cg_id g) (cg_name g) (cg_group_type g) (cg_icon_id g) (cg_save_db g)
            (permission_value_or_default (cg_permissions g)
               [''i_channel_group_needed_member_add_power'', ''i_group_needed_member_add_power''])
            (permission_value_or_default (cg_permissions g)
               [''i_channel_group_needed_member_remove_power'', ''i_group_needed_member_remove_power''])
            (permission_value_or_default (cg_permissions g)
               [''i_channel_group_needed_modify_power'', ''i_group_needed_modify_power'']))
       (bt_values (st_channel_groups (rt_store r)))"

definition handle_channelgrouplist :: "query_session \<Rightarrow> baseline_runtime \<Rightarrow> query_response" where
  "handle_channelgrouplist session r =
     (case require_server session of
        Inl e \<Rightarrow> e
      | Inr _ \<Rightarrow> response_ok_rows (web_channel_group_rows r))"

definition handle_channelgrouppermlist :: "command_request \<Rightarrow> query_session \<Rightarrow> baseline_runtime \<Rightarrow> query_response" where
  "handle_channelgrouppermlist request session r =
     (if \<not> session_has_permission_actor session then login_required
      else case arg_u32 request ''cgid'' of
             None \<Rightarrow> response_error 512 ''cgid is required''
           | Some group_id \<Rightarrow>
               (case bt_get (st_channel_groups (rt_store r)) group_id of
                  None \<Rightarrow> response_error 768 ''channel group not found''
                | Some g \<Rightarrow>
                    response_ok_rows
                      (permission_list_rows r (''permsid'' \<in> set (flags request)) (cg_permissions g))))"

definition is_none_or :: "'a option \<Rightarrow> ('a \<Rightarrow> bool) \<Rightarrow> bool" where
  "is_none_or x P = (case x of None \<Rightarrow> True | Some v \<Rightarrow> P v)"

definition assignment_row :: "channel_group_assignment \<Rightarrow> row" where
  "assignment_row a =
     insert_fields
       [(''cid'', word_to_string (cga_channel_id a)), (''cldbid'', word_to_string (cga_client_database_id a)),
        (''cgid'', word_to_string (cga_channel_group_id a))] []"

definition handle_channelgroupclientlist :: "command_request \<Rightarrow> query_session \<Rightarrow> baseline_runtime \<Rightarrow> query_response" where
  "handle_channelgroupclientlist request session r =
     (case require_server session of
        Inl e \<Rightarrow> e
      | Inr server_id \<Rightarrow>
     (case server_channels r server_id of
        None \<Rightarrow> response_error 768 ''virtual server channels not found''
      | Some channels \<Rightarrow>
          let valid_channel_ids = map ch_id channels;
              channel_id_filter = arg_u32 request ''cid'';
              client_database_id_filter = arg_u64 request ''cldbid'';
              group_id_filter = arg_u32 request ''cgid''
          in if \<not> is_none_or channel_id_filter (\<lambda>c. c \<in> set valid_channel_ids)
             then response_error 768 ''channel not found''
             else if \<not> is_none_or group_id_filter (bt_contains_key (st_channel_groups (rt_store r)))
             then response_error 768 ''channel group not found''
             else response_ok_rows
                    (map assignment_row
                       (filter
                          (\<lambda>a. cga_channel_id a \<in> set valid_channel_ids
                             \<and> is_none_or channel_id_filter (\<lambda>c. cga_channel_id a = c)
                             \<and> is_none_or client_database_id_filter (\<lambda>d. cga_client_database_id a = d)
                             \<and> is_none_or group_id_filter (\<lambda>g. cga_channel_group_id a = g))
                          (st_channel_group_assignments (rt_store r))))))"

subsection \<open>Groups\<close>

definition new_channel_group :: "u32 \<Rightarrow> string \<Rightarrow> u32 \<Rightarrow> channel_group" where
  "new_channel_group i name group_type =
     \<lparr>cg_id = i, cg_name = name, cg_group_type = group_type, cg_icon_id = 0, cg_save_db = True,
      cg_permissions = []\<rparr>"

definition cgid_row :: "u32 \<Rightarrow> row" where
  "cgid_row i = bt_insert ''cgid'' (word_to_string i) []"

definition handle_channelgroupadd ::
    "command_request \<Rightarrow> query_session \<Rightarrow> baseline_runtime \<Rightarrow> query_response \<times> baseline_runtime" where
  "handle_channelgroupadd request session r =
     (case require_server session of
        Inl e \<Rightarrow> (e, r)
      | Inr _ \<Rightarrow>
     (case query_actor_effective_permissions r session of
        Inl e \<Rightarrow> (e, r)
      | Inr (_, actor_permissions) \<Rightarrow>
     (case check_required_permission actor_permissions [''b_virtualserver_channelgroup_create'']
             ''b_virtualserver_channelgroup_create'' of
        Inl p \<Rightarrow> (insufficient_permission_response r p, r)
      | Inr _ \<Rightarrow>
     (case arg request ''name'' of
        None \<Rightarrow> (response_error 512 ''name is required'', r)
      | Some group_name \<Rightarrow>
     (case optional_number request ''type'' ''type must be an integer'' of
        Inl e \<Rightarrow> (e, r)
      | Inr group_type \<Rightarrow>
          let group_id = next_channel_group_id r;
              new_group = new_channel_group group_id group_name (unwrap_or 1 group_type)
          in (response_ok_row (cgid_row group_id),
              upd_store (st_channel_groups_update (bt_insert group_id new_group))
                (emit [DbSaveChannelGroup 0 new_group] r)))))))"

abbreviation channel_group_modify_names :: "string list" where
  "channel_group_modify_names \<equiv> [''i_channel_group_needed_modify_power'', ''i_group_needed_modify_power'']"

definition edit_channel_group_permissions ::
    "(query_response + (perm_map \<Rightarrow> perm_map)) \<Rightarrow> command_request \<Rightarrow> query_session \<Rightarrow> baseline_runtime \<Rightarrow>
     query_response \<times> baseline_runtime" where
  "edit_channel_group_permissions parsed request session r =
     (if \<not> session_has_permission_actor session then (login_required, r)
      else case arg_u32 request ''cgid'' of
             None \<Rightarrow> (response_error 512 ''cgid is required'', r)
           | Some group_id \<Rightarrow>
     (case parsed of
        Inl e \<Rightarrow> (e, r)
      | Inr change \<Rightarrow>
     (case query_actor_effective_permissions r session of
        Inl e \<Rightarrow> (e, r)
      | Inr (_, actor_permissions) \<Rightarrow>
     (case bt_get (st_channel_groups (rt_store r)) group_id of
        None \<Rightarrow> (response_error 768 ''channel group not found'', r)
      | Some g \<Rightarrow>
     (case check_permission_edit_allowed actor_permissions (cg_permissions g) channel_group_modify_names of
        Inl p \<Rightarrow> (insufficient_permission_response r p, r)
      | Inr _ \<Rightarrow>
          let g' = cg_permissions_update change g
          in (response_ok,
              emit [DbSaveChannelGroup 0 g']
                (upd_store (st_channel_groups_update (bt_update group_id (\<lambda>_. g'))) r)))))))"

definition handle_channelgroupaddperm ::
    "command_request \<Rightarrow> query_session \<Rightarrow> baseline_runtime \<Rightarrow> query_response \<times> baseline_runtime" where
  "handle_channelgroupaddperm request session r =
     edit_channel_group_permissions
       (map_sum id insert_assignments (parse_permission_assignments r request [''cgid''])) request session r"

definition handle_channelgroupdelperm ::
    "command_request \<Rightarrow> query_session \<Rightarrow> baseline_runtime \<Rightarrow> query_response \<times> baseline_runtime" where
  "handle_channelgroupdelperm request session r =
     edit_channel_group_permissions
       (map_sum id remove_names (parse_requested_permission_names r request [''cgid''])) request session r"

definition channel_copy_target_check :: "baseline_runtime \<Rightarrow> perm_map \<Rightarrow> u32 \<Rightarrow> query_response + unit" where
  "channel_copy_target_check r actor_permissions target_group_id =
     (if target_group_id = 0 then Inr ()
      else case bt_get (st_channel_groups (rt_store r)) target_group_id of
             None \<Rightarrow> Inl (response_error 768 ''channel group not found'')
           | Some t \<Rightarrow>
               map_sum (insufficient_permission_response r) id
                 (check_group_modify_allowed actor_permissions (cg_permissions t) channel_group_modify_names))"

definition copy_channel_group ::
    "command_request \<Rightarrow> channel_group \<Rightarrow> u32 \<Rightarrow> baseline_runtime \<Rightarrow> query_response \<times> baseline_runtime" where
  "copy_channel_group request source_group target_group_id r =
     (if target_group_id = 0
      then case arg request ''name'' of
             None \<Rightarrow> (response_error 512 ''name is required when tcgid=0'', r)
           | Some group_name \<Rightarrow>
               let new_group_id = next_channel_group_id r;
                   group_type = unwrap_or (cg_group_type source_group) (arg_u32 request ''type'')
               in (response_ok_row (cgid_row new_group_id),
                   upd_store
                     (st_channel_groups_update
                        (bt_insert new_group_id
                           (source_group\<lparr>cg_id := new_group_id, cg_name := group_name,
                                          cg_group_type := group_type\<rparr>))) r)
      else (response_ok_row (cgid_row target_group_id),
            upd_store
              (st_channel_groups_update
                 (bt_update target_group_id
                    (\<lambda>t. t\<lparr>cg_icon_id := cg_icon_id source_group, cg_save_db := cg_save_db source_group,
                           cg_permissions := cg_permissions source_group\<rparr>))) r))"

definition handle_channelgroupcopy ::
    "command_request \<Rightarrow> query_session \<Rightarrow> baseline_runtime \<Rightarrow> query_response \<times> baseline_runtime" where
  "handle_channelgroupcopy request session r =
     (case require_server session of
        Inl e \<Rightarrow> (e, r)
      | Inr _ \<Rightarrow>
     (case arg_u32 request ''scgid'' of
        None \<Rightarrow> (response_error 512 ''scgid is required'', r)
      | Some source_group_id \<Rightarrow>
     (case arg2_u32 request ''tcgid'' ''tsgid'' of
        None \<Rightarrow> (response_error 512 ''tcgid or tsgid is required'', r)
      | Some target_group_id \<Rightarrow>
     (case query_actor_effective_permissions r session of
        Inl e \<Rightarrow> (e, r)
      | Inr (_, actor_permissions) \<Rightarrow>
     (case check_required_permission actor_permissions [''b_virtualserver_channelgroup_create'']
             ''b_virtualserver_channelgroup_create'' of
        Inl p \<Rightarrow> (insufficient_permission_response r p, r)
      | Inr _ \<Rightarrow>
     (case bt_get (st_channel_groups (rt_store r)) source_group_id of
        None \<Rightarrow> (response_error 768 ''channel group not found'', r)
      | Some source_group \<Rightarrow>
     (case check_group_modify_allowed actor_permissions (cg_permissions source_group)
             channel_group_modify_names of
        Inl p \<Rightarrow> (insufficient_permission_response r p, r)
      | Inr _ \<Rightarrow>
     (case channel_copy_target_check r actor_permissions target_group_id of
        Inl e \<Rightarrow> (e, r)
      | Inr _ \<Rightarrow> copy_channel_group request source_group target_group_id r))))))))"

definition delete_channel_group :: "u32 \<Rightarrow> baseline_runtime \<Rightarrow> baseline_runtime" where
  "delete_channel_group group_id r =
     normalize_channel_group_assignments
       (upd_store
          (\<lambda>s. s\<lparr>st_channel_groups := bt_remove group_id (st_channel_groups s),
                  st_channel_group_assignments :=
                    filter (\<lambda>a. cga_channel_group_id a \<noteq> group_id) (st_channel_group_assignments s)\<rparr>) r)"

definition handle_channelgroupdel ::
    "command_request \<Rightarrow> query_session \<Rightarrow> baseline_runtime \<Rightarrow> query_response \<times> baseline_runtime" where
  "handle_channelgroupdel request session r =
     (case require_server session of
        Inl e \<Rightarrow> (e, r)
      | Inr _ \<Rightarrow>
     (case query_actor_effective_permissions r session of
        Inl e \<Rightarrow> (e, r)
      | Inr (_, actor_permissions) \<Rightarrow>
     (case check_required_permission actor_permissions [''b_virtualserver_channelgroup_delete'']
             ''b_virtualserver_channelgroup_delete'' of
        Inl p \<Rightarrow> (insufficient_permission_response r p, r)
      | Inr _ \<Rightarrow>
     (case arg_u32 request ''cgid'' of
        None \<Rightarrow> (response_error 512 ''cgid is required'', r)
      | Some group_id \<Rightarrow>
          let force = unwrap_or False (Option.bind (arg request ''force'') parse_query_bool)
          in if \<not> bt_contains_key (st_channel_groups (rt_store r)) group_id
             then (response_error 768 ''channel group not found'', r)
             else if channel_group_in_use r group_id \<and> \<not> force
             then (response_error 512 ''channel group has assigned clients; set force=1 to delete'', r)
             else (response_ok, delete_channel_group group_id r)))))"

definition handle_channelgrouprename ::
    "command_request \<Rightarrow> query_session \<Rightarrow> baseline_runtime \<Rightarrow> query_response \<times> baseline_runtime" where
  "handle_channelgrouprename request session r =
     (if \<not> session_has_permission_actor session then (login_required, r)
      else case arg_u32 request ''cgid'' of
             None \<Rightarrow> (response_error 512 ''cgid is required'', r)
           | Some group_id \<Rightarrow>
     (case query_actor_effective_permissions r session of
        Inl e \<Rightarrow> (e, r)
      | Inr (_, actor_permissions) \<Rightarrow>
     (case bt_get (st_channel_groups (rt_store r)) group_id of
        None \<Rightarrow> (response_error 768 ''channel group not found'', r)
      | Some g \<Rightarrow>
     (case check_group_modify_allowed actor_permissions (cg_permissions g) channel_group_modify_names of
        Inl p \<Rightarrow> (insufficient_permission_response r p, r)
      | Inr _ \<Rightarrow>
     (case arg request ''name'' of
        None \<Rightarrow> (response_error 512 ''name is required'', r)
      | Some group_name \<Rightarrow>
          (response_ok,
           upd_store (st_channel_groups_update (bt_update group_id (cg_name_update (\<lambda>_. group_name)))) r))))))"

subsection \<open>Assignments\<close>

definition assignment_of :: "channel_group_assignment list \<Rightarrow> u32 \<Rightarrow> u64 \<Rightarrow> u32 option" where
  "assignment_of as channel_id dbid =
     map_option cga_channel_group_id
       (List.find (\<lambda>a. cga_channel_id a = channel_id \<and> cga_client_database_id a = dbid) as)"

text \<open>Leaving the group a client has in the channel needs its remove power.\<close>

definition leave_check :: "baseline_runtime \<Rightarrow> perm_map \<Rightarrow> u32 option \<Rightarrow> query_response + unit" where
  "leave_check r actor_permissions current_group_id =
     (case current_group_id of
        None \<Rightarrow> Inr ()
      | Some existing \<Rightarrow>
          (case bt_get (st_channel_groups (rt_store r)) existing of
             None \<Rightarrow> Inl (response_error 768 ''channel group not found'')
           | Some g \<Rightarrow>
               map_sum (insufficient_permission_response r) id
                 (check_channel_group_membership_change actor_permissions (cg_permissions g) False)))"

definition assign_channel_group :: "u32 \<Rightarrow> u64 \<Rightarrow> u32 \<Rightarrow> baseline_runtime \<Rightarrow> baseline_runtime" where
  "assign_channel_group channel_id dbid group_id r =
     normalize_channel_group_assignments
       (upd_store (st_channel_group_assignments_update (set_channel_group dbid (group_id, channel_id))) r)"

definition handle_setclientchannelgroup ::
    "command_request \<Rightarrow> query_session \<Rightarrow> baseline_runtime \<Rightarrow> query_response \<times> baseline_runtime" where
  "handle_setclientchannelgroup request session r =
     (case require_server session of
        Inl e \<Rightarrow> (e, r)
      | Inr server_id \<Rightarrow>
     (case arg_u32 request ''cgid'' of
        None \<Rightarrow> (response_error 512 ''cgid is required'', r)
      | Some group_id \<Rightarrow>
     (case arg_u32 request ''cid'' of
        None \<Rightarrow> (response_error 512 ''cid is required'', r)
      | Some channel_id \<Rightarrow>
     (case arg_u64 request ''cldbid'' of
        None \<Rightarrow> (response_error 512 ''cldbid is required'', r)
      | Some dbid \<Rightarrow>
     (case query_actor_effective_permissions r session of
        Inl e \<Rightarrow> (e, r)
      | Inr (_, actor_permissions) \<Rightarrow>
     (case bt_get (st_channel_groups (rt_store r)) group_id of
        None \<Rightarrow> (response_error 768 ''channel group not found'', r)
      | Some g \<Rightarrow>
     (case server_channels r server_id of
        None \<Rightarrow> (response_error 768 ''virtual server channels not found'', r)
      | Some channels \<Rightarrow>
          if channel_id \<notin> set (map ch_id channels) then (response_error 768 ''channel not found'', r)
          else if \<not> client_database_id_exists r dbid then (response_error 768 ''client not found'', r)
          else
            let current = assignment_of (st_channel_group_assignments (rt_store r)) channel_id dbid
            in if current = Some group_id then (response_ok, r)
               else case leave_check r actor_permissions current of
                      Inl e \<Rightarrow> (e, r)
                    | Inr _ \<Rightarrow>
                        (case check_channel_group_membership_change actor_permissions (cg_permissions g) True of
                           Inl p \<Rightarrow> (insufficient_permission_response r p, r)
                         | Inr _ \<Rightarrow> (response_ok, assign_channel_group channel_id dbid group_id r)))))))))"

subsection \<open>Assigning a group in a channel\<close>

abbreviation assignment_key :: "channel_group_assignment \<Rightarrow> (u32 \<times> u64) \<times> u32" where
  "assignment_key a \<equiv> ((cga_channel_id a, cga_client_database_id a), cga_channel_group_id a)"

lemma assignment_of_map: "assignment_of as c d = map_of (map assignment_key as) (c, d)"
  by (induction as) (auto simp: assignment_of_def)

lemma assignment_of_normalized:
  assumes valid: "\<forall>a \<in> set (st_channel_group_assignments (rt_store r)). assignment_valid r a"
    and distinct: "distinct (map fst (map assignment_key (st_channel_group_assignments (rt_store r))))"
  shows "assignment_of (st_channel_group_assignments (rt_store (normalize_channel_group_assignments r))) c d
       = assignment_of (st_channel_group_assignments (rt_store r)) c d"
proof -
  let ?as = "st_channel_group_assignments (rt_store r)"
  define m where "m = assignments_by_key ?as"
  have "map_of (map assignment_key (map (\<lambda>((channel_id, client_database_id), channel_group_id).
           \<lparr>cga_channel_id = channel_id, cga_client_database_id = client_database_id,
            cga_channel_group_id = channel_group_id\<rparr>) m)) = map_of m"
    by (simp add: comp_def case_prod_beta)
  moreover have "map_of m = map_of (map assignment_key ?as)"
    using bt_get_extend [of "[]" "map assignment_key ?as"] map_of_rev_distinct [OF distinct]
    by (simp add: m_def assignments_by_key_def bt_collect_def bt_get_def [abs_def])
  moreover have "filter (assignment_valid r) ?as = ?as" using valid by simp
  ultimately show ?thesis
    unfolding assignment_of_map by (simp add: normalize_channel_group_assignments_def m_def)
qed

lemma set_channel_group_get:
  "assignment_of (set_channel_group dbid (gid, cid) as) c d
     = (if c = cid \<and> d = dbid then Some gid else assignment_of as c d)"
proof -
  let ?hit = "\<lambda>a. cga_channel_id a = cid \<and> cga_client_database_id a = dbid"
  let ?f = "cga_channel_group_id_update (\<lambda>_. gid)"
  have upd: "list_ex ?hit as \<Longrightarrow> assignment_of (update_first ?hit ?f as) c d
      = (if c = cid \<and> d = dbid then Some gid else assignment_of as c d)" for as
    by (induction as) (auto simp: assignment_of_def)
  have "\<not> list_ex ?hit as \<Longrightarrow> assignment_of as cid dbid = None"
    by (auto simp: assignment_of_def find_None_iff list_ex_iff)
  then show ?thesis
    using upd [of as] by (auto simp: set_channel_group_def Let_def assignment_of_map map_add_def split: option.split)
qed

lemma set_channel_group_distinct:
  assumes "distinct (map fst (map assignment_key as))"
  shows "distinct (map fst (map assignment_key (set_channel_group dbid (gid, cid) as)))"
proof -
  let ?hit = "\<lambda>a. cga_channel_id a = cid \<and> cga_client_database_id a = dbid"
  have "map (fst \<circ> assignment_key) (update_first ?hit (cga_channel_group_id_update (\<lambda>_. gid)) as)
      = map (fst \<circ> assignment_key) as"
    by (induction as) auto
  moreover have "(cid, dbid) \<notin> set (map (fst \<circ> assignment_key) as)" if "\<not> list_ex ?hit as"
    using that by (auto simp: list_ex_iff)
  ultimately show ?thesis using assms by (auto simp: set_channel_group_def Let_def)
qed

lemma set_channel_group_set:
  "a \<in> set (set_channel_group dbid (gid, cid) as) \<Longrightarrow>
   a \<in> set as \<or> (cga_channel_id a = cid \<and> cga_client_database_id a = dbid \<and> cga_channel_group_id a = gid)"
proof -
  let ?hit = "\<lambda>a. cga_channel_id a = cid \<and> cga_client_database_id a = dbid"
  have "a \<in> set (update_first ?hit (cga_channel_group_id_update (\<lambda>_. gid)) as) \<Longrightarrow>
     a \<in> set as \<or> (?hit a \<and> cga_channel_group_id a = gid)"
    by (induction as) (auto split: if_splits)
  then show "a \<in> set (set_channel_group dbid (gid, cid) as) \<Longrightarrow> ?thesis"
    by (auto simp: set_channel_group_def Let_def split: if_splits)
qed

lemma exists_known: "client_database_id_exists r d \<Longrightarrow> d \<in> set (known_client_database_ids r)"
  by (auto simp: client_database_id_exists_def known_client_database_ids_def query_account_by_cldbid_def
      set_map_filter_iff bt_contains_key_def bt_keys_iff dest!: find_SomeD)


lemma assign_channel_group_effect:
  assumes "assignments_normal r" and "bt_contains_key (st_channel_groups (rt_store r)) gid"
    and "cid \<in> set (all_channel_ids (rt_store r))" and "client_database_id_exists r dbid"
  shows "assignments_normal (assign_channel_group cid dbid gid r)"
    and "assignment_of (st_channel_group_assignments (rt_store (assign_channel_group cid dbid gid r))) c d
       = (if c = cid \<and> d = dbid then Some gid
          else assignment_of (st_channel_group_assignments (rt_store r)) c d)"
    and "st_channel_groups (rt_store (assign_channel_group cid dbid gid r)) = st_channel_groups (rt_store r)"
proof -
  let ?as = "st_channel_group_assignments (rt_store r)"
  define r1 where "r1 = upd_store (st_channel_group_assignments_update (set_channel_group dbid (gid, cid))) r"
  have as: "st_channel_group_assignments (rt_store r1) = set_channel_group dbid (gid, cid) ?as"
    by (simp add: r1_def)
  have same: "assignment_valid r1 = assignment_valid r"
    by (rule ext) (simp add: assignment_valid_def r1_def all_channel_ids_def known_client_database_ids_def)
  have valid: "\<forall>a \<in> set (st_channel_group_assignments (rt_store r1)). assignment_valid r1 a"
  proof
    fix a assume "a \<in> set (st_channel_group_assignments (rt_store r1))"
    then show "assignment_valid r1 a"
      using set_channel_group_set [of a dbid gid cid ?as] assms exists_known [OF assms(4)]
      unfolding as same by (auto simp: assignments_normal_def assignment_valid_def)
  qed
  have "distinct (map fst (map assignment_key ?as))"
    using assms(1) bt_inv_distinct unfolding assignments_normal_def by blast
  then have distinct: "distinct (map fst (map assignment_key (st_channel_group_assignments (rt_store r1))))"
    unfolding as by (rule set_channel_group_distinct)
  show "assignments_normal (assign_channel_group cid dbid gid r)"
    by (simp add: assign_channel_group_def assignments_normalized)
  show "assignment_of (st_channel_group_assignments (rt_store (assign_channel_group cid dbid gid r))) c d
       = (if c = cid \<and> d = dbid then Some gid else assignment_of ?as c d)"
    using assignment_of_normalized [OF valid distinct, of c d] set_channel_group_get [of dbid gid cid ?as c d]
    by (simp add: assign_channel_group_def r1_def)
  show "st_channel_groups (rt_store (assign_channel_group cid dbid gid r)) = st_channel_groups (rt_store r)"
    by (simp add: assign_channel_group_def normalize_channel_group_assignments_def)
qed

definition group_assigned ::
    "command_request \<Rightarrow> query_session \<Rightarrow> baseline_runtime \<Rightarrow> query_response \<times> baseline_runtime \<Rightarrow> bool" where
  "group_assigned request session r res =
     (\<exists>gid cid dbid g actor actor_permissions.
        arg_u32 request ''cgid'' = Some gid \<and> arg_u32 request ''cid'' = Some cid
        \<and> arg_u64 request ''cldbid'' = Some dbid
        \<and> query_actor_effective_permissions r session = Inr (actor, actor_permissions)
        \<and> bt_get (st_channel_groups (rt_store r)) gid = Some g
        \<and> effective_channel_group (snd res) cid dbid = Some g
        \<and> (\<forall>c d. c \<noteq> cid \<or> d \<noteq> dbid \<longrightarrow>
             assignment_of (st_channel_group_assignments (rt_store (snd res))) c d
             = assignment_of (st_channel_group_assignments (rt_store r)) c d)
        \<and> assignments_normal (snd res)
        \<and> (assignment_of (st_channel_group_assignments (rt_store r)) cid dbid \<noteq> Some gid \<longrightarrow>
             check_channel_group_membership_change actor_permissions (cg_permissions g) True = Inr ()
             \<and> (\<forall>old h. assignment_of (st_channel_group_assignments (rt_store r)) cid dbid = Some old
                   \<and> bt_get (st_channel_groups (rt_store r)) old = Some h \<longrightarrow>
                   check_channel_group_membership_change actor_permissions (cg_permissions h) False = Inr ())))"

lemma effective_of_assignment:
  "assignment_of (st_channel_group_assignments (rt_store r)) cid dbid = Some gid \<Longrightarrow>
   effective_channel_group r cid dbid = bt_get (st_channel_groups (rt_store r)) gid"
  by (auto simp: assignment_of_def effective_channel_group_def)

lemma channel_id_listed:
  "server_channels r sid = Some channels \<Longrightarrow> cid \<in> set (map ch_id channels) \<Longrightarrow>
   cid \<in> set (all_channel_ids (rt_store r))"
  by (auto simp: server_channels_def all_channel_ids_def dest: bt_get_in_values)

lemma map_sum_Inl: "map_sum f g x = Inl e \<longleftrightarrow> (\<exists>p. x = Inl p \<and> e = f p)"
  by (cases x) auto

lemma leave_check_error: "leave_check r p cur = Inl e \<Longrightarrow> error_id e \<noteq> 0"
  by (cases cur) (auto simp: leave_check_def map_sum_Inl split: option.splits)

lemma leave_checkD:
  "leave_check r p (Some old) = Inr u \<Longrightarrow> bt_get (st_channel_groups (rt_store r)) old = Some h \<Longrightarrow>
   check_channel_group_membership_change p (cg_permissions h) False = Inr ()"
  by (cases "check_channel_group_membership_change p (cg_permissions h) False") (auto simp: leave_check_def)

lemma group_kept:
  assumes "arg_u32 request ''cgid'' = Some gid" "arg_u32 request ''cid'' = Some cid" "arg_u64 request ''cldbid'' = Some dbid"
    "query_actor_effective_permissions r session = Inr (actor, p)"
    "bt_get (st_channel_groups (rt_store r)) gid = Some g" "assignments_normal r"
    "assignment_of (st_channel_group_assignments (rt_store r)) cid dbid = Some gid"
  shows "group_assigned request session r (response_ok, r)"
  using assms effective_of_assignment [OF assms(7)] by (simp add: group_assigned_def)

lemma group_changed:
  assumes "arg_u32 request ''cgid'' = Some gid" "arg_u32 request ''cid'' = Some cid" "arg_u64 request ''cldbid'' = Some dbid"
    "query_actor_effective_permissions r session = Inr (actor, p)"
    "bt_get (st_channel_groups (rt_store r)) gid = Some g" "assignments_normal r"
    "server_channels r sid = Some channels" "cid \<in> set (map ch_id channels)" "client_database_id_exists r dbid"
    "leave_check r p (assignment_of (st_channel_group_assignments (rt_store r)) cid dbid) = Inr u"
    "check_channel_group_membership_change p (cg_permissions g) True = Inr v"
  shows "group_assigned request session r (response_ok, assign_channel_group cid dbid gid r)"
proof -
  let ?r' = "assign_channel_group cid dbid gid r"
  have pre: "bt_contains_key (st_channel_groups (rt_store r)) gid" "cid \<in> set (all_channel_ids (rt_store r))"
    using assms(5,7,8) channel_id_listed by (auto simp: bt_contains_key_def)
  note eff = assign_channel_group_effect [OF assms(6) pre assms(9)]
  have "effective_channel_group ?r' cid dbid = Some g"
    using effective_of_assignment [of ?r' cid dbid gid] eff(2) [of cid dbid] eff(3) assms(5) by simp
  moreover have "\<forall>c d. c \<noteq> cid \<or> d \<noteq> dbid \<longrightarrow>
      assignment_of (st_channel_group_assignments (rt_store ?r')) c d
      = assignment_of (st_channel_group_assignments (rt_store r)) c d"
    using eff(2) by auto
  moreover have "check_channel_group_membership_change p (cg_permissions h) False = Inr ()"
    if "assignment_of (st_channel_group_assignments (rt_store r)) cid dbid = Some old"
      "bt_get (st_channel_groups (rt_store r)) old = Some h" for old h
    using leave_checkD [of r p old u h] assms(10) that by simp
  moreover have "check_channel_group_membership_change p (cg_permissions g) True = Inr ()"
    using assms(11) by (simp add: old.unit.exhaust)
  ultimately show ?thesis
    unfolding group_assigned_def
    using assms(1-5) eff(1) by auto
qed

lemma setclientchannelgroup_ok:
  assumes "assignments_normal r"
  shows "ok_then (group_assigned request session r) (handle_setclientchannelgroup request session r)"
  unfolding handle_setclientchannelgroup_def
  by (intro ok_then_branches;
      (rule ok_then_error, fastforce dest: require_server_error actor_permissions_error leave_check_error)?)
    (rule ok_then_I, rule group_kept group_changed, assumption+; (use assms in blast)?)+


text \<open>
  After a successful \<open>setclientchannelgroup\<close> the client has exactly the requested group
  in the channel, no other pair of a channel and a client has changed, the assignments are still
  keyed and valid; and unless the client had the group already, the actor has the power to add to the
  new group and to remove from the old one.
\<close>

theorem setclientchannelgroup_correct:
  assumes "assignments_normal r" and "handle_setclientchannelgroup request session r = (resp, r')"
    and "error_id resp = 0"
  shows "group_assigned request session r (resp, r')"
  using setclientchannelgroup_ok [OF assms(1), of request session] assms(2,3) by (simp add: ok_then_def)

definition assign_demo :: baseline_runtime where
  "assign_demo = empty_runtime\<lparr>rt_store := empty_store\<lparr>
     st_query_accounts :=
       [(''ops'', token_account\<lparr>qa_permissions := [(''i_group_member_add_power'', perm 75)]\<rparr>)],
     st_server_groups := [(7, new_server_group 7 ''Guest Server Query'' 1)],
     st_channel_groups :=
       [(8, (new_channel_group 8 ''Channel Admin'' 1)\<lparr>cg_permissions :=
             [(''i_channel_group_needed_member_add_power'', perm 60)]\<rparr>)],
     st_channels := seed_channels,
     st_online_clients := [(10, seed_online_client_10 1000)]\<rparr>\<rparr>"

definition assign_request :: command_request where
  "assign_request = \<lparr>command = ''setclientchannelgroup'', positional_args = [],
     named_args = [(''cgid'', ''8''), (''cid'', ''2''), (''cldbid'', ''40'')], option_groups = [], flags = []\<rparr>"

theorem setclientchannelgroup_correct_witness:
  "group_assigned assign_request token_session assign_demo
     (handle_setclientchannelgroup assign_request token_session assign_demo)
   \<and> st_channel_group_assignments
       (rt_store (snd (handle_setclientchannelgroup assign_request token_session assign_demo)))
     = [\<lparr>cga_channel_id = 2, cga_client_database_id = 40, cga_channel_group_id = 8\<rparr>]"
proof -
  have normal: "assignments_normal assign_demo"
    by (simp add: assignments_normal_def assign_demo_def empty_store_def)
  have run: "error_id (fst (handle_setclientchannelgroup assign_request token_session assign_demo)) = 0"
    and res: "st_channel_group_assignments
       (rt_store (snd (handle_setclientchannelgroup assign_request token_session assign_demo)))
     = [\<lparr>cga_channel_id = 2, cga_client_database_id = 40, cga_channel_group_id = 8\<rparr>]"
    by code_simp+
  have "group_assigned assign_request token_session assign_demo
     (fst (handle_setclientchannelgroup assign_request token_session assign_demo),
      snd (handle_setclientchannelgroup assign_request token_session assign_demo))"
    by (rule setclientchannelgroup_correct [OF normal _ run]) simp
  then show ?thesis using res by simp
qed

subsection \<open>Editing the permissions of a group\<close>

text \<open>
  What a client of either kind of group may rely on: an edit that succeeds was allowed by the
  modify power the group needs, and changes the permissions of this group only, by the change that
  was asked for.
\<close>

definition edit_contract ::
    "(baseline_runtime \<Rightarrow> (u32, 'g) btree) \<Rightarrow> ('g \<Rightarrow> perm_map) \<Rightarrow> string \<Rightarrow> string list \<Rightarrow>
     (query_response + (perm_map \<Rightarrow> perm_map)) \<Rightarrow> command_request \<Rightarrow> query_session \<Rightarrow> baseline_runtime \<Rightarrow>
     query_response \<times> baseline_runtime \<Rightarrow> bool" where
  "edit_contract groups perms id_arg needed parsed request session r res =
     (\<exists>change group_id g actor actor_permissions.
        parsed = Inr change \<and> arg_u32 request id_arg = Some group_id
        \<and> query_actor_effective_permissions r session = Inr (actor, actor_permissions)
        \<and> bt_get (groups r) group_id = Some g
        \<and> check_permission_edit_allowed actor_permissions (perms g) needed = Inr ()
        \<and> map_option perms (bt_get (groups (snd res)) group_id) = Some (change (perms g))
        \<and> (\<forall>i. i \<noteq> group_id \<longrightarrow> bt_get (groups (snd res)) i = bt_get (groups r) i))"

lemma map_result_error:
  "map_result f xs = Inl e \<Longrightarrow> \<exists>x \<in> set xs. f x = Inl e"
  by (induction xs) (auto split: sum.splits)

lemma parse_assignments_error: "parse_permission_assignments r request keys = Inl e \<Longrightarrow> error_id e \<noteq> 0"
  by (auto simp: parse_permission_assignments_def parse_one_assignment_def split: sum.splits if_splits option.splits
      dest!: map_result_error)

lemma parse_names_error: "parse_requested_permission_names r request keys = Inl e \<Longrightarrow> error_id e \<noteq> 0"
  by (auto simp: parse_requested_permission_names_def split: sum.splits if_splits option.splits
      dest!: map_result_error)


definition permissions_added ::
    "(baseline_runtime \<Rightarrow> (u32, 'g) btree) \<Rightarrow> ('g \<Rightarrow> perm_map) \<Rightarrow> string \<Rightarrow> string list \<Rightarrow>
     command_request \<Rightarrow> query_session \<Rightarrow> baseline_runtime \<Rightarrow> baseline_runtime \<Rightarrow> bool" where
  "permissions_added groups perms id_arg needed request session r r' =
     (\<exists>parsed group_id g g' actor p.
        parse_permission_assignments r request [id_arg] = Inr parsed
        \<and> arg_u32 request id_arg = Some group_id
        \<and> bt_get (groups r) group_id = Some g
        \<and> bt_get (groups r') group_id = Some g'
        \<and> bt_get (perms g') = bt_get (perms g) ++ map_of (rev parsed)
        \<and> query_actor_effective_permissions r session = Inr (actor, p)
        \<and> permission_power_max_or_default (perms g) needed
           \<le> permission_power_max_or_default p
               [''i_group_modify_power'', ''i_server_group_modify_power'', ''i_channel_group_modify_power''])"

locale group_editor =
  fixes groups :: "baseline_runtime \<Rightarrow> (u32, 'g) btree" and perms :: "'g \<Rightarrow> perm_map"
    and id_arg :: string and needed :: "string list"
    and edit :: "(query_response + (perm_map \<Rightarrow> perm_map)) \<Rightarrow> command_request \<Rightarrow> query_session \<Rightarrow>
      baseline_runtime \<Rightarrow> query_response \<times> baseline_runtime"
  assumes contract: "(\<And>e. parsed = Inl e \<Longrightarrow> error_id e \<noteq> 0) \<Longrightarrow>
    error_id (fst (edit parsed request session r)) = 0 \<Longrightarrow>
    edit_contract groups perms id_arg needed parsed request session r (edit parsed request session r)"
begin

lemma adds:
  assumes "error_id (fst (edit (map_sum id insert_assignments (parse_permission_assignments r request [id_arg]))
      request session r)) = 0"
  shows "permissions_added groups perms id_arg needed request session r
    (snd (edit (map_sum id insert_assignments (parse_permission_assignments r request [id_arg])) request session r))"
proof -
  have "\<And>e. map_sum id insert_assignments (parse_permission_assignments r request [id_arg]) = Inl e \<Longrightarrow> error_id e \<noteq> 0"
    using parse_assignments_error by (auto simp: map_sum_Inl)
  from contract [OF this assms] show ?thesis
    by (cases "parse_permission_assignments r request [id_arg]")
      (auto simp: edit_contract_def permissions_added_def insert_assignments_def bt_get_extend
        check_permission_edit_allowed_def check_group_modify_allowed_def check_power_def split: if_splits)
qed

lemma removed:
  assumes "error_id (fst (edit (map_sum id remove_names src) request session r)) = 0"
    and "\<And>e. src = Inl e \<Longrightarrow> error_id e \<noteq> 0"
  shows "\<exists>names group_id g g'. src = Inr names \<and> arg_u32 request id_arg = Some group_id
    \<and> bt_get (groups r) group_id = Some g
    \<and> bt_get (groups (snd (edit (map_sum id remove_names src) request session r))) group_id = Some g'
    \<and> (\<forall>n. bt_get (perms g') n = (if n \<in> set names then None else bt_get (perms g) n))"
proof -
  have gone: "bt_get (remove_names names m) n = (if n \<in> set names then None else bt_get m n)" for names m n
    by (induction names arbitrary: m) (auto simp: remove_names_def bt_get_remove)
  have "\<And>e. map_sum id remove_names src = Inl e \<Longrightarrow> error_id e \<noteq> 0"
    using assms(2) by (auto simp: map_sum_Inl)
  from contract [OF this assms(1)] show ?thesis
    by (cases src) (auto simp: edit_contract_def gone)
qed

end

lemma server_group_edit:
  assumes "\<And>e. parsed = Inl e \<Longrightarrow> error_id e \<noteq> 0"
  shows "ok_then (edit_contract (st_server_groups \<circ> rt_store) sg_permissions ''sgid'' server_group_modify_names
      parsed request session r) (edit_server_group_permissions parsed request session r)"
  unfolding edit_server_group_permissions_def
  by (intro ok_then_branches;
      (rule ok_then_error, fastforce simp: login_required_def dest: actor_permissions_error assms)?)
    (rule ok_then_I, auto simp: edit_contract_def bt_get_update)

lemma channel_group_edit:
  assumes "\<And>e. parsed = Inl e \<Longrightarrow> error_id e \<noteq> 0"
  shows "ok_then (edit_contract (st_channel_groups \<circ> rt_store) cg_permissions ''cgid'' channel_group_modify_names
      parsed request session r) (edit_channel_group_permissions parsed request session r)"
  unfolding edit_channel_group_permissions_def
  by (intro ok_then_branches;
      (rule ok_then_error, fastforce simp: login_required_def dest: actor_permissions_error assms)?)
    (rule ok_then_I, auto simp: edit_contract_def bt_get_update)

interpretation server_edit: group_editor "st_server_groups \<circ> rt_store" sg_permissions "''sgid''"
  server_group_modify_names edit_server_group_permissions
  using server_group_edit by unfold_locales (auto simp: ok_then_def)

interpretation channel_edit: group_editor "st_channel_groups \<circ> rt_store" cg_permissions "''cgid''"
  channel_group_modify_names edit_channel_group_permissions
  using channel_group_edit by unfold_locales (auto simp: ok_then_def)

text \<open>
  A successful \<open>servergroupaddperm\<close> or \<open>channelgroupaddperm\<close> was sent by an actor whose
  modify power reaches the power the group needs, and afterwards the permissions of the group are the
  old ones overridden by the assignments of the request, later assignments of a name winning.
\<close>

theorem group_addperm_correct:
  "(error_id (fst (handle_servergroupaddperm request session r)) = 0 \<longrightarrow>
      permissions_added (st_server_groups \<circ> rt_store) sg_permissions ''sgid'' server_group_modify_names
        request session r (snd (handle_servergroupaddperm request session r)))
   \<and> (error_id (fst (handle_channelgroupaddperm request session r)) = 0 \<longrightarrow>
      permissions_added (st_channel_groups \<circ> rt_store) cg_permissions ''cgid'' channel_group_modify_names
        request session r (snd (handle_channelgroupaddperm request session r)))"
  using server_edit.adds [of r request session] channel_edit.adds [of r request session]
  by (simp add: handle_servergroupaddperm_def handle_channelgroupaddperm_def)

definition addperm_demo :: baseline_runtime where
  "addperm_demo = empty_runtime\<lparr>rt_store := empty_store\<lparr>
     st_query_accounts :=
       [(''ops'', token_account\<lparr>qa_permissions :=
           [(''b_permission_modify_power_ignore'', perm 1), (''i_group_modify_power'', perm 75)]\<rparr>)],
     st_channel_groups :=
       [(8, (new_channel_group 8 ''Channel Admin'' 1)\<lparr>cg_permissions :=
             [(''i_channel_group_needed_modify_power'', perm 75)]\<rparr>)]\<rparr>\<rparr>"

definition addperm_request :: command_request where
  "addperm_request =
     (let args = [(''cgid'', ''8''), (''permnegated'', ''0''), (''permsid'', ''i_icon_id''), (''permskip'', ''0''),
                  (''permvalue'', ''300'')]
      in \<lparr>command = ''channelgroupaddperm'', positional_args = [], named_args = args, option_groups = [args],
          flags = []\<rparr>)"

theorem group_addperm_correct_witness:
  "permissions_added (st_channel_groups \<circ> rt_store) cg_permissions ''cgid'' channel_group_modify_names
     addperm_request token_session addperm_demo
     (snd (handle_channelgroupaddperm addperm_request token_session addperm_demo))"
proof -
  have "error_id (fst (handle_channelgroupaddperm addperm_request token_session addperm_demo)) = 0" by code_simp
  then show ?thesis using group_addperm_correct [of addperm_request token_session addperm_demo] by blast
qed

end
