(* ===== verification/Entity_Permissions.thy ===== *)
theory Entity_Permissions
  imports Channel_Groups Music_Queue
begin

text \<open>
  The permissions of clients, of channels, of clients in channels and of playlists:
  \<open>runtime/permissions/entity_permissions.rs\<close> and \<open>ensure_client_permission_target_mut\<close> of
  \<open>runtime/permissions/web.rs\<close>. A command that can panic returns \<open>None\<close> where it does.
\<close>

subsection \<open>Shared steps\<close>

text \<open>A chain of \<open>let Some(..) else { return response }\<close>: the first response ends it.\<close>

definition and_then :: "'e + 'a \<Rightarrow> ('a \<Rightarrow> 'e + 'b) \<Rightarrow> 'e + 'b" where
  "and_then x f = (case x of Inl e \<Rightarrow> Inl e | Inr v \<Rightarrow> f v)"

definition required :: "query_response \<Rightarrow> 'a option \<Rightarrow> query_response + 'a" where
  "required e x = (case x of None \<Rightarrow> Inl e | Some v \<Rightarrow> Inr v)"

definition require_actor :: "query_session \<Rightarrow> query_response + unit" where
  "require_actor session = (if session_has_permission_actor session then Inr () else Inl login_required)"

definition cldbid_arg :: "command_request \<Rightarrow> query_response + u64" where
  "cldbid_arg request = required (response_error 512 ''cldbid is required'') (arg_u64 request ''cldbid'')"

definition existing_client :: "baseline_runtime \<Rightarrow> command_request \<Rightarrow> query_response + u64" where
  "existing_client r request =
     and_then (cldbid_arg request)
       (\<lambda>dbid. if client_database_id_exists r dbid then Inr dbid
               else Inl (response_error 768 ''client not found''))"

definition cid_arg :: "command_request \<Rightarrow> query_response + u32" where
  "cid_arg request = required (response_error 512 ''cid is required'') (arg_u32 request ''cid'')"

definition checked :: "baseline_runtime \<Rightarrow> perm_check \<Rightarrow> query_response + unit" where
  "checked r c = map_sum (insufficient_permission_response r) id c"

definition row_with :: "(string \<times> string) list \<Rightarrow> row \<Rightarrow> row" where
  "row_with subject r = insert_fields subject r"

subsection \<open>Permissions of a client\<close>

abbreviation client_modify_names :: "string list" where
  "client_modify_names \<equiv> [''i_client_needed_permission_modify_power'', ''i_group_needed_modify_power'']"

definition target_of :: "u64 \<Rightarrow> client_permission_target \<Rightarrow> bool" where
  "target_of dbid t = (cpt_client_database_id t = dbid)"

definition fill_identity :: "identity option \<Rightarrow> client_permission_target \<Rightarrow> client_permission_target" where
  "fill_identity resolved t =
     (case resolved of
        None \<Rightarrow> t
      | Some (uid, _, nickname) \<Rightarrow>
          let t1 = (if cpt_client_unique_identifier t = [] then t\<lparr>cpt_client_unique_identifier := uid\<rparr> else t)
          in if cpt_client_nickname t1 = [] then t1\<lparr>cpt_client_nickname := nickname\<rparr> else t1)"

definition ensure_client_permission_target_mut :: "u32 \<Rightarrow> u64 \<Rightarrow> baseline_runtime \<Rightarrow> baseline_runtime" where
  "ensure_client_permission_target_mut server_id dbid r =
     (let resolved = lookup_client_identity_by_dbid r server_id dbid;
          fresh = \<lparr>cpt_server_id = server_id, cpt_client_database_id = dbid,
                   cpt_client_unique_identifier = [], cpt_client_nickname = [], cpt_permissions = []\<rparr>
      in upd_store
           (st_client_permissions_update
              (\<lambda>ts. update_first (target_of dbid) (fill_identity resolved)
                      (if list_ex (target_of dbid) ts then ts else ts @ [fresh]))) r)"

text \<open>
  What \<open>clientaddperm\<close> and \<open>clientdelperm\<close> do before they change anything: the arguments, the
  parsed permissions, the actor, and the power over the client.
\<close>

definition client_edit_guard ::
    "(query_response + 'p) \<Rightarrow> command_request \<Rightarrow> query_session \<Rightarrow> baseline_runtime \<Rightarrow>
     query_response + u64 \<times> 'p \<times> permission_actor_context" where
  "client_edit_guard parsed request session r =
     and_then (require_actor session) (\<lambda>_.
     and_then (cldbid_arg request) (\<lambda>dbid.
     and_then parsed (\<lambda>p.
     and_then (query_actor_effective_permissions r session) (\<lambda>(actor, actor_permissions).
       if \<not> client_database_id_exists r dbid then Inl (response_error 768 ''client not found'')
       else
     and_then (required (response_error 768 ''client not found'')
                (effective_permissions_for_client r (ac_server_id actor) (ac_channel_id actor) dbid))
       (\<lambda>target_permissions.
     and_then (checked r (check_permission_edit_allowed actor_permissions target_permissions client_modify_names))
       (\<lambda>_. Inr (dbid, p, actor)))))))"

definition set_client_permissions ::
    "u32 \<Rightarrow> u64 \<Rightarrow> (perm_map \<Rightarrow> perm_map) \<Rightarrow> baseline_runtime \<Rightarrow> baseline_runtime option" where
  "set_client_permissions server_id dbid change r =
     (case update_account dbid (qa_permissions_update change) r of
        Some r' \<Rightarrow> Some r'
      | None \<Rightarrow>
          let r1 = ensure_client_permission_target_mut server_id dbid r;
              hit = (\<lambda>t. cpt_client_database_id t = dbid \<and> cpt_server_id t = server_id)
          in case List.find hit (st_client_permissions (rt_store r1)) of
               None \<Rightarrow> None
             | Some t \<Rightarrow>
                 let t' = cpt_permissions_update change t
                 in Some (emit [DbSaveClientPermissionTarget t']
                            (upd_store (st_client_permissions_update (update_first hit (\<lambda>_. t'))) r1)))"

definition handle_clientaddperm ::
    "command_request \<Rightarrow> query_session \<Rightarrow> baseline_runtime \<Rightarrow> (query_response \<times> baseline_runtime) option" where
  "handle_clientaddperm request session r =
     (case client_edit_guard (parse_permission_assignments r request [''cldbid'']) request session r of
        Inl e \<Rightarrow> Some (e, r)
      | Inr (dbid, parsed, actor) \<Rightarrow>
          map_option (\<lambda>r'. (response_ok, r'))
            (set_client_permissions (ac_server_id actor) dbid (insert_assignments parsed) r))"

definition drop_client_permissions :: "u64 \<Rightarrow> string list \<Rightarrow> baseline_runtime \<Rightarrow> baseline_runtime" where
  "drop_client_permissions dbid names r =
     (case update_account dbid (qa_permissions_update (remove_names names)) r of
        Some r' \<Rightarrow> r'
      | None \<Rightarrow>
          (case List.find (target_of dbid) (st_client_permissions (rt_store r)) of
             None \<Rightarrow> r
           | Some t \<Rightarrow>
               let t' = cpt_permissions_update (remove_names names) t;
                   r1 = emit [DbSaveClientPermissionTarget t']
                          (upd_store (st_client_permissions_update (update_first (target_of dbid) (\<lambda>_. t'))) r)
               in if cpt_permissions t' = []
                  then upd_store (st_client_permissions_update (filter (\<lambda>t. \<not> target_of dbid t))) r1
                  else r1))"

definition handle_clientdelperm ::
    "command_request \<Rightarrow> query_session \<Rightarrow> baseline_runtime \<Rightarrow> query_response \<times> baseline_runtime" where
  "handle_clientdelperm request session r =
     (case client_edit_guard (parse_requested_permission_names r request [''cldbid'']) request session r of
        Inl e \<Rightarrow> (e, r)
      | Inr (dbid, names, _) \<Rightarrow> (response_ok, drop_client_permissions dbid names r))"

definition handle_clientpermlist :: "command_request \<Rightarrow> query_session \<Rightarrow> baseline_runtime \<Rightarrow> query_response" where
  "handle_clientpermlist request session r =
     (if \<not> session_has_permission_actor session then login_required
      else case qs_selected_virtual_server_id session of
             None \<Rightarrow> response_error 1024 ''virtualserver is not selected''
           | Some server_id \<Rightarrow>
     (case arg_u64 request ''cldbid'' of
        None \<Rightarrow> response_error 512 ''cldbid is required''
      | Some dbid \<Rightarrow>
     (case or_else (map_option qa_permissions (query_account_by_cldbid r dbid))
             (map_option cpt_permissions (client_permission_target r server_id dbid)) of
        None \<Rightarrow> if client_database_id_exists r dbid then response_ok_rows []
                else response_error 768 ''client not found''
      | Some permissions \<Rightarrow>
          response_ok_rows
            (map (\<lambda>(n, a). row_with [(''cldbid'', word_to_string dbid)]
                              (render_permission_row r n a (''permsid'' \<in> set (flags request))))
               permissions))))"

subsection \<open>Permissions of a client in a channel\<close>

definition channel_client_args ::
    "baseline_runtime \<Rightarrow> command_request \<Rightarrow> query_session \<Rightarrow> query_response + u32 \<times> u64" where
  "channel_client_args r request session =
     and_then (require_server session) (\<lambda>server_id.
     and_then (cid_arg request) (\<lambda>channel_id.
       if \<not> channel_exists r server_id channel_id then Inl (response_error 768 ''channel not found'')
       else
     and_then (existing_client r request) (\<lambda>dbid. Inr (channel_id, dbid))))"

definition channel_client_edit_guard ::
    "(query_response + 'p) \<Rightarrow> command_request \<Rightarrow> query_session \<Rightarrow> baseline_runtime \<Rightarrow>
     query_response + u32 \<times> u64 \<times> 'p" where
  "channel_client_edit_guard parsed request session r =
     and_then (channel_client_args r request session) (\<lambda>(channel_id, dbid).
     and_then parsed (\<lambda>p.
     and_then (query_actor_effective_permissions r session) (\<lambda>(actor, actor_permissions).
     and_then (required (response_error 768 ''client not found'')
                (effective_permissions_for_client r (ac_server_id actor) channel_id dbid))
       (\<lambda>target_permissions.
     and_then (checked r (check_permission_edit_allowed actor_permissions target_permissions client_modify_names))
       (\<lambda>_. Inr (channel_id, dbid, p))))))"

definition channel_client_hit :: "u32 \<Rightarrow> u64 \<Rightarrow> channel_client_permission_target \<Rightarrow> bool" where
  "channel_client_hit channel_id dbid t = (ccp_channel_id t = channel_id \<and> ccp_client_database_id t = dbid)"

definition set_channel_client_permissions ::
    "u32 \<Rightarrow> u64 \<Rightarrow> (perm_map \<Rightarrow> perm_map) \<Rightarrow> baseline_runtime \<Rightarrow> baseline_runtime" where
  "set_channel_client_permissions channel_id dbid change r =
     (let hit = channel_client_hit channel_id dbid;
          ts = st_channel_client_permissions (rt_store r);
          fresh = \<lparr>ccp_channel_id = channel_id, ccp_client_database_id = dbid, ccp_permissions = []\<rparr>;
          t' = ccp_permissions_update change (unwrap_or fresh (List.find hit ts))
      in emit [DbSaveChannelClientPermissionTarget t']
           (upd_store
              (st_channel_client_permissions_update
                 (\<lambda>ts. if list_ex hit ts then update_first hit (\<lambda>_. t') ts else ts @ [t'])) r))"

definition handle_channelclientaddperm ::
    "command_request \<Rightarrow> query_session \<Rightarrow> baseline_runtime \<Rightarrow> query_response \<times> baseline_runtime" where
  "handle_channelclientaddperm request session r =
     (case channel_client_edit_guard (parse_permission_assignments r request [''cid'', ''cldbid''])
             request session r of
        Inl e \<Rightarrow> (e, r)
      | Inr (channel_id, dbid, parsed) \<Rightarrow>
          (response_ok, set_channel_client_permissions channel_id dbid (insert_assignments parsed) r))"

definition drop_channel_client_permissions ::
    "u32 \<Rightarrow> u64 \<Rightarrow> string list \<Rightarrow> baseline_runtime \<Rightarrow> baseline_runtime" where
  "drop_channel_client_permissions channel_id dbid names r =
     (let ts = st_channel_client_permissions (rt_store r)
      in case position (channel_client_hit channel_id dbid) ts of
           None \<Rightarrow> r
         | Some i \<Rightarrow>
             let t' = ccp_permissions_update (remove_names names) (ts ! i)
             in emit [DbSaveChannelClientPermissionTarget t']
                  (upd_store
                     (st_channel_client_permissions_update
                        (\<lambda>ts. if ccp_permissions t' = [] then list_remove i ts else ts[i := t'])) r))"

definition handle_channelclientdelperm ::
    "command_request \<Rightarrow> query_session \<Rightarrow> baseline_runtime \<Rightarrow> query_response \<times> baseline_runtime" where
  "handle_channelclientdelperm request session r =
     (case channel_client_edit_guard (parse_requested_permission_names r request [''cid'', ''cldbid''])
             request session r of
        Inl e \<Rightarrow> (e, r)
      | Inr (channel_id, dbid, names) \<Rightarrow>
          (response_ok, drop_channel_client_permissions channel_id dbid names r))"

definition handle_channelclientpermlist :: "command_request \<Rightarrow> query_session \<Rightarrow> baseline_runtime \<Rightarrow> query_response" where
  "handle_channelclientpermlist request session r =
     (case channel_client_args r request session of
        Inl e \<Rightarrow> e
      | Inr (channel_id, dbid) \<Rightarrow>
          (case List.find (channel_client_hit channel_id dbid) (st_channel_client_permissions (rt_store r)) of
             None \<Rightarrow> response_ok_rows []
           | Some t \<Rightarrow>
               response_ok_rows
                 (map (row_with [(''cid'', word_to_string channel_id), (''cldbid'', word_to_string dbid)])
                    (permission_list_rows r (''permsid'' \<in> set (flags request)) (ccp_permissions t)))))"

subsection \<open>Permissions of a channel\<close>

abbreviation channel_modify_names :: "string list" where
  "channel_modify_names \<equiv> [''i_channel_needed_permission_modify_power'', ''i_group_needed_modify_power'']"

definition channel_edit_guard ::
    "(query_response + (perm_map \<Rightarrow> perm_map)) \<Rightarrow> command_request \<Rightarrow> query_session \<Rightarrow> baseline_runtime \<Rightarrow>
     query_response + u32 \<times> channel list \<times> channel \<times> permission_actor_context" where
  "channel_edit_guard parsed request session r =
     and_then (require_server session) (\<lambda>server_id.
     and_then (cid_arg request) (\<lambda>channel_id.
     and_then parsed (\<lambda>change.
     and_then (query_actor_effective_permissions r session) (\<lambda>(actor, actor_permissions).
     and_then (required (response_error 768 ''channel not found'') (channel_by_id r server_id channel_id)) (\<lambda>c.
     and_then (checked r (check_permission_edit_allowed actor_permissions (ch_permissions c) channel_modify_names))
       (\<lambda>_. let c' = ch_permissions_update change c
            in Inr (server_id, update_first (\<lambda>d. ch_id d = channel_id) (\<lambda>_. c')
                                 (unwrap_or [] (server_channels r server_id)), c', actor)))))))"

definition edit_channel_permissions ::
    "(query_response + (perm_map \<Rightarrow> perm_map)) \<Rightarrow> command_request \<Rightarrow> query_session \<Rightarrow> baseline_runtime \<Rightarrow>
     query_response \<times> baseline_runtime" where
  "edit_channel_permissions parsed request session r =
     (case channel_edit_guard parsed request session r of
        Inl e \<Rightarrow> (e, r)
      | Inr (server_id, channels, c, actor) \<Rightarrow>
          (response_ok, emit [DbSaveChannel RuntimeDb (ac_server_id actor) c] (put_channels server_id channels r)))"

definition handle_channeladdperm ::
    "command_request \<Rightarrow> query_session \<Rightarrow> baseline_runtime \<Rightarrow> query_response \<times> baseline_runtime" where
  "handle_channeladdperm request session r =
     edit_channel_permissions
       (map_sum id insert_assignments (parse_permission_assignments r request [''cid''])) request session r"

definition handle_channeldelperm ::
    "command_request \<Rightarrow> query_session \<Rightarrow> baseline_runtime \<Rightarrow> query_response \<times> baseline_runtime" where
  "handle_channeldelperm request session r =
     edit_channel_permissions
       (map_sum id remove_names (parse_requested_permission_names r request [''cid''])) request session r"

definition handle_channelpermlist :: "command_request \<Rightarrow> query_session \<Rightarrow> baseline_runtime \<Rightarrow> query_response" where
  "handle_channelpermlist request session r =
     (case and_then (require_server session) (\<lambda>server_id.
           and_then (cid_arg request) (\<lambda>channel_id.
           and_then (required (response_error 768 ''channel not found'') (channel_by_id r server_id channel_id))
             (\<lambda>c. Inr (channel_id, c)))) of
        Inl e \<Rightarrow> e
      | Inr (channel_id, c) \<Rightarrow>
          response_ok_rows
            (map (row_with [(''cid'', word_to_string channel_id)])
               (permission_list_rows r (''permsid'' \<in> set (flags request)) (ch_permissions c))))"

subsection \<open>Permissions of a playlist\<close>

definition music_bot_id_by_playlist_id :: "baseline_runtime \<Rightarrow> u32 \<Rightarrow> u32 \<Rightarrow> u32 option" where
  "music_bot_id_by_playlist_id r server_id playlist_id =
     map_option mb_id
       (List.find (\<lambda>b. mb_server_id b = server_id \<and> mb_playlist_id b = playlist_id)
          (bt_values (st_music_bots (rt_store r))))"

definition playlist_arg :: "command_request \<Rightarrow> query_session \<Rightarrow> query_response + u32 \<times> u32" where
  "playlist_arg request session =
     and_then (require_server session) (\<lambda>server_id.
     and_then (required (response_error 512 ''playlist_id is required'') (arg_u32 request ''playlist_id''))
       (\<lambda>playlist_id. Inr (server_id, playlist_id)))"

abbreviation playlist_not_found :: query_response where
  "playlist_not_found \<equiv> response_error 768 ''playlist not found''"

definition playlist_bot_id :: "baseline_runtime \<Rightarrow> u32 \<Rightarrow> u32 \<Rightarrow> query_response + u32" where
  "playlist_bot_id r server_id playlist_id =
     required playlist_not_found (music_bot_id_by_playlist_id r server_id playlist_id)"

definition playlist_bot :: "baseline_runtime \<Rightarrow> u32 \<Rightarrow> query_response + music_bot" where
  "playlist_bot r bot_id = required playlist_not_found (bt_get (st_music_bots (rt_store r)) bot_id)"

text \<open>The two shapes of playlist commands: with and without a client.\<close>

definition playlist_target ::
    "baseline_runtime \<Rightarrow> command_request \<Rightarrow> query_session \<Rightarrow> query_response + u32 \<times> u32" where
  "playlist_target r request session =
     and_then (playlist_arg request session) (\<lambda>(server_id, playlist_id).
     and_then (playlist_bot_id r server_id playlist_id) (\<lambda>bot_id. Inr (playlist_id, bot_id)))"

definition playlist_client_target ::
    "baseline_runtime \<Rightarrow> command_request \<Rightarrow> query_session \<Rightarrow> query_response + u32 \<times> u64 \<times> u32" where
  "playlist_client_target r request session =
     and_then (playlist_arg request session) (\<lambda>(server_id, playlist_id).
     and_then (existing_client r request) (\<lambda>dbid.
     and_then (playlist_bot_id r server_id playlist_id) (\<lambda>bot_id. Inr (playlist_id, dbid, bot_id))))"

definition playlist_list_guard ::
    "baseline_runtime \<Rightarrow> query_session \<Rightarrow> u32 \<Rightarrow> query_response + music_bot" where
  "playlist_list_guard r session bot_id =
     and_then (query_actor_effective_permissions r session) (\<lambda>(_, actor_permissions).
     and_then (playlist_bot r bot_id) (\<lambda>b.
     and_then (ensure_playlist_permission_list_allowed r actor_permissions (mb_permissions b)) (\<lambda>_. Inr b)))"

definition playlist_edit_guard ::
    "baseline_runtime \<Rightarrow> query_session \<Rightarrow> u32 \<Rightarrow> query_response + music_bot" where
  "playlist_edit_guard r session bot_id =
     and_then (query_actor_effective_permissions r session) (\<lambda>(_, actor_permissions).
     and_then (playlist_bot r bot_id) (\<lambda>b.
     and_then (ensure_playlist_permission_modify_allowed r actor_permissions (mb_permissions b)) (\<lambda>_. Inr b)))"

definition rows_or_subject :: "(string \<times> string) list \<Rightarrow> row list \<Rightarrow> query_response" where
  "rows_or_subject subject rs =
     response_ok_rows (if rs = [] then [row_with subject []] else map (row_with subject) rs)"

definition handle_playlistpermlist :: "command_request \<Rightarrow> query_session \<Rightarrow> baseline_runtime \<Rightarrow> query_response" where
  "handle_playlistpermlist request session r =
     (case and_then (playlist_target r request session) (\<lambda>(playlist_id, bot_id).
           and_then (playlist_list_guard r session bot_id) (\<lambda>b. Inr (playlist_id, b))) of
        Inl e \<Rightarrow> e
      | Inr (playlist_id, b) \<Rightarrow>
          rows_or_subject [(''playlist_id'', word_to_string playlist_id)]
            (permission_list_rows r (''permsid'' \<in> set (flags request)) (mb_permissions b)))"

definition handle_playlistclientlist :: "command_request \<Rightarrow> query_session \<Rightarrow> baseline_runtime \<Rightarrow> query_response" where
  "handle_playlistclientlist request session r =
     (case and_then (playlist_target r request session) (\<lambda>(playlist_id, bot_id).
           and_then (playlist_list_guard r session bot_id) (\<lambda>b. Inr (playlist_id, b))) of
        Inl e \<Rightarrow> e
      | Inr (playlist_id, b) \<Rightarrow>
          rows_or_subject [(''playlist_id'', word_to_string playlist_id)]
            (map (\<lambda>t. bt_insert ''cldbid'' (word_to_string (pcp_client_database_id t)) [])
               (mb_client_permissions b)))"

definition handle_playlistclientpermlist ::
    "command_request \<Rightarrow> query_session \<Rightarrow> baseline_runtime \<Rightarrow> query_response" where
  "handle_playlistclientpermlist request session r =
     (case and_then (playlist_client_target r request session) (\<lambda>(playlist_id, dbid, bot_id).
           and_then (playlist_list_guard r session bot_id) (\<lambda>b. Inr (playlist_id, dbid, b))) of
        Inl e \<Rightarrow> e
      | Inr (playlist_id, dbid, b) \<Rightarrow>
          rows_or_subject
            [(''playlist_id'', word_to_string playlist_id), (''cldbid'', word_to_string dbid)]
            (case List.find (\<lambda>t. pcp_client_database_id t = dbid) (mb_client_permissions b) of
               None \<Rightarrow> []
             | Some t \<Rightarrow>
                 permission_list_rows r (''permsid'' \<in> set (flags request)) (pcp_permissions t)))"

definition put_bot :: "u64 \<Rightarrow> u32 \<Rightarrow> music_bot \<Rightarrow> baseline_runtime \<Rightarrow> baseline_runtime" where
  "put_bot now_millis bot_id b r =
     upd_store (st_music_bots_update (bt_update bot_id (\<lambda>_. normalize_music_bot_queue now_millis b))) r"

definition assignment_rows ::
    "baseline_runtime \<Rightarrow> command_request \<Rightarrow> (string \<times> string) list \<Rightarrow> (string \<times> perm_assignment) list \<Rightarrow> row list" where
  "assignment_rows r request subject parsed =
     map (\<lambda>(n, a). row_with subject (render_permission_row r n a (''permsid'' \<in> set (flags request)))) parsed"

definition handle_playlistaddperm ::
    "u64 \<Rightarrow> command_request \<Rightarrow> query_session \<Rightarrow> baseline_runtime \<Rightarrow> query_response \<times> baseline_runtime" where
  "handle_playlistaddperm now_millis request session r =
     (case and_then (playlist_target r request session) (\<lambda>(playlist_id, bot_id).
           and_then (parse_permission_assignments r request [''playlist_id'']) (\<lambda>parsed.
           and_then (playlist_edit_guard r session bot_id) (\<lambda>b. Inr (playlist_id, bot_id, parsed, b)))) of
        Inl e \<Rightarrow> (e, r)
      | Inr (playlist_id, bot_id, parsed, b) \<Rightarrow>
          let r' = put_bot now_millis bot_id (mb_permissions_update (insert_assignments parsed) b) r
          in (response_ok_rows
                (assignment_rows r' request [(''playlist_id'', word_to_string playlist_id)] parsed), r'))"

definition handle_playlistdelperm ::
    "u64 \<Rightarrow> command_request \<Rightarrow> query_session \<Rightarrow> baseline_runtime \<Rightarrow> query_response \<times> baseline_runtime" where
  "handle_playlistdelperm now_millis request session r =
     (case and_then (playlist_target r request session) (\<lambda>(playlist_id, bot_id).
           and_then (parse_requested_permission_names r request [''playlist_id'']) (\<lambda>names.
           and_then (playlist_edit_guard r session bot_id) (\<lambda>b. Inr (bot_id, names, b)))) of
        Inl e \<Rightarrow> (e, r)
      | Inr (bot_id, names, b) \<Rightarrow>
          (response_ok, put_bot now_millis bot_id (mb_permissions_update (remove_names names) b) r))"

definition set_playlist_client ::
    "u64 \<Rightarrow> (perm_map \<Rightarrow> perm_map) \<Rightarrow> playlist_client_permission_target list \<Rightarrow>
     playlist_client_permission_target list" where
  "set_playlist_client dbid change ts =
     (let hit = (\<lambda>t. pcp_client_database_id t = dbid)
      in update_first hit (pcp_permissions_update change)
           (if list_ex hit ts then ts
            else ts @ [\<lparr>pcp_client_database_id = dbid, pcp_permissions = []\<rparr>]))"

definition handle_playlistclientaddperm ::
    "u64 \<Rightarrow> command_request \<Rightarrow> query_session \<Rightarrow> baseline_runtime \<Rightarrow> query_response \<times> baseline_runtime" where
  "handle_playlistclientaddperm now_millis request session r =
     (case and_then (playlist_client_target r request session) (\<lambda>(playlist_id, dbid, bot_id).
           and_then (parse_permission_assignments r request [''playlist_id'', ''cldbid'']) (\<lambda>parsed.
           and_then (playlist_edit_guard r session bot_id) (\<lambda>b. Inr (playlist_id, dbid, bot_id, parsed, b)))) of
        Inl e \<Rightarrow> (e, r)
      | Inr (playlist_id, dbid, bot_id, parsed, b) \<Rightarrow>
          let r' = put_bot now_millis bot_id
                     (mb_client_permissions_update (set_playlist_client dbid (insert_assignments parsed)) b) r
          in (response_ok_rows
                (assignment_rows r' request
                   [(''playlist_id'', word_to_string playlist_id), (''cldbid'', word_to_string dbid)] parsed), r'))"

definition handle_playlistdelclientperm ::
    "u64 \<Rightarrow> command_request \<Rightarrow> query_session \<Rightarrow> baseline_runtime \<Rightarrow> query_response \<times> baseline_runtime" where
  "handle_playlistdelclientperm now_millis request session r =
     (case and_then (playlist_client_target r request session) (\<lambda>(playlist_id, dbid, bot_id).
           and_then (parse_requested_permission_names r request [''playlist_id'', ''cldbid'']) (\<lambda>names.
           and_then (playlist_edit_guard r session bot_id) (\<lambda>b. Inr (dbid, bot_id, names, b)))) of
        Inl e \<Rightarrow> (e, r)
      | Inr (dbid, bot_id, names, b) \<Rightarrow>
          (response_ok,
           put_bot now_millis bot_id
             (mb_client_permissions_update
                (update_first (\<lambda>t. pcp_client_database_id t = dbid)
                   (pcp_permissions_update (remove_names names))) b) r))"

subsection \<open>When \<open>clientaddperm\<close> panics\<close>

text \<open>The permissions of a client itself: those of its account, else its target on the server.\<close>

definition own_permissions :: "baseline_runtime \<Rightarrow> u32 \<Rightarrow> u64 \<Rightarrow> perm_map option" where
  "own_permissions r server_id dbid =
     or_else (map_option qa_permissions (query_account_by_cldbid r dbid))
       (map_option cpt_permissions (client_permission_target r server_id dbid))"

definition foreign_target :: "baseline_runtime \<Rightarrow> u32 \<Rightarrow> u64 \<Rightarrow> bool" where
  "foreign_target r server_id dbid =
     (query_account_by_cldbid r dbid = None
      \<and> list_ex (target_of dbid) (st_client_permissions (rt_store r))
      \<and> client_permission_target r server_id dbid = None)"

lemma find_update_first_keeps:
  assumes "\<And>x. Q (f x) = Q x" "\<And>x. g (f x) = g x"
  shows "map_option g (List.find Q (update_first P f xs)) = map_option g (List.find Q xs)"
  by (induction xs) (auto simp: assms)

lemma find_append: "List.find P (xs @ ys) = or_else (List.find P xs) (List.find P ys)"
  by (induction xs) auto

lemma find_update_first_put:
  "List.find P xs \<noteq> None \<Longrightarrow> P y \<Longrightarrow> List.find P (update_first P (\<lambda>_. y) xs) = Some y"
  by (induction xs) auto

lemma fill_identity_keeps [simp]:
  "cpt_client_database_id (fill_identity i t) = cpt_client_database_id t"
  "cpt_server_id (fill_identity i t) = cpt_server_id t"
  "cpt_permissions (fill_identity i t) = cpt_permissions t"
  by (auto simp: fill_identity_def Let_def split: option.split)

abbreviation target_hit :: "u32 \<Rightarrow> u64 \<Rightarrow> client_permission_target \<Rightarrow> bool" where
  "target_hit server_id dbid \<equiv> \<lambda>t. cpt_client_database_id t = dbid \<and> cpt_server_id t = server_id"

lemma target_alt:
  "client_permission_target r server_id dbid = List.find (target_hit server_id dbid) (st_client_permissions (rt_store r))"
  by (simp add: client_permission_target_def conj_commute)

lemma no_target:
  "\<not> list_ex (target_of dbid) (st_client_permissions (rt_store r)) \<Longrightarrow> client_permission_target r server_id dbid = None"
  by (auto simp: client_permission_target_def find_None_iff list_ex_iff target_of_def)

lemma ensured_target:
  fixes server_id dbid r
  defines "found \<equiv> map_option cpt_permissions
      (List.find (target_hit server_id dbid)
         (st_client_permissions (rt_store (ensure_client_permission_target_mut server_id dbid r))))"
  shows "found = (if list_ex (target_of dbid) (st_client_permissions (rt_store r))
      then map_option cpt_permissions (client_permission_target r server_id dbid) else Some [])"
proof -
  let ?ts = "st_client_permissions (rt_store r)"
  have none: "\<not> list_ex (target_of dbid) ?ts \<Longrightarrow> List.find (target_hit server_id dbid) ?ts = None"
    by (auto simp: find_None_iff list_ex_iff target_of_def)
  then show ?thesis
    by (auto simp: found_def ensure_client_permission_target_mut_def Let_def target_alt
        find_update_first_keeps find_append)
qed

lemma set_account_permissions:
  assumes inv: "bt_inv (st_query_accounts (rt_store r))"
    and some: "update_account dbid (qa_permissions_update (insert_assignments parsed)) r = Some r'"
  shows "\<not> foreign_target r sid dbid
    \<and> set_client_permissions sid dbid (insert_assignments parsed) r = Some r'
    \<and> (\<exists>perms. own_permissions r' sid dbid = Some perms
        \<and> bt_get perms = bt_get (unwrap_or [] (own_permissions r sid dbid)) ++ map_of (rev parsed))"
proof -
  define f :: "query_account \<Rightarrow> query_account" where "f = qa_permissions_update (insert_assignments parsed)"
  obtain k where k: "bt_find_key (\<lambda>a. qa_client_database_id a = Some dbid) (st_query_accounts (rt_store r)) = Some k"
    and r': "r' = upd_store (st_query_accounts_update (bt_update k f)) r"
    using some by (auto simp: update_account_def f_def)
  have hit: "query_account_by_cldbid r' dbid = map_option f (query_account_by_cldbid r dbid)"
    using find_update_hit [of "\<lambda>a. qa_client_database_id a = Some dbid" f, OF _ inv k]
    by (simp add: query_account_by_cldbid_def r' f_def)
  obtain a where a: "query_account_by_cldbid r dbid = Some a"
    using k by (cases "query_account_by_cldbid r dbid")
      (auto simp: query_account_by_cldbid_def simp flip: bt_find_key_iff)
  show ?thesis
    using hit a some
    by (simp add: foreign_target_def own_permissions_def set_client_permissions_def f_def
        insert_assignments_def bt_get_extend)
qed

lemma set_target_permissions:
  assumes none: "update_account dbid (qa_permissions_update (insert_assignments parsed)) r = None"
  shows "if foreign_target r sid dbid then set_client_permissions sid dbid (insert_assignments parsed) r = None
    else \<exists>r' perms. set_client_permissions sid dbid (insert_assignments parsed) r = Some r'
      \<and> own_permissions r' sid dbid = Some perms
      \<and> bt_get perms = bt_get (unwrap_or [] (own_permissions r sid dbid)) ++ map_of (rev parsed)"
proof -
  let ?r1 = "ensure_client_permission_target_mut sid dbid r"
  have no_account: "query_account_by_cldbid r dbid = None"
    using none by (simp add: update_account_def query_account_by_cldbid_def bt_find_key_iff)
  have accounts: "query_account_by_cldbid (emit es (upd_store (st_client_permissions_update h) ?r1)) dbid = None" for es h
    using no_account by (simp add: query_account_by_cldbid_def ensure_client_permission_target_mut_def Let_def)
  note ensured = ensured_target [where server_id = sid and dbid = dbid and r = r]
  show ?thesis
  proof (cases "List.find (target_hit sid dbid) (st_client_permissions (rt_store ?r1))")
    case None
    then have "foreign_target r sid dbid"
      using ensured no_account by (simp add: foreign_target_def split: if_splits)
    then show ?thesis using none None by (simp add: set_client_permissions_def Let_def)
  next
    case (Some t)
    have perms: "cpt_permissions t = unwrap_or [] (own_permissions r sid dbid)" and "\<not> foreign_target r sid dbid"
      using ensured no_account Some no_target [of dbid r sid]
      by (cases "list_ex (target_of dbid) (st_client_permissions (rt_store r))";
          cases "client_permission_target r sid dbid";
          simp add: own_permissions_def foreign_target_def)+
    have "target_hit sid dbid t" using find_SomeD [OF Some] by simp
    then show ?thesis
      using none \<open>\<not> foreign_target r sid dbid\<close> Some accounts perms
      by (simp add: set_client_permissions_def Let_def own_permissions_def target_alt
          find_update_first_put insert_assignments_def bt_get_extend)
  qed
qed

text \<open>
  Property C16: a \<open>clientaddperm\<close> that passes its checks either panics or grants exactly what was
  asked. It panics when the client has no account and its stored permissions belong to another
  server id: the entry is found by the client alone and then looked up, and unwrapped, by client and
  server. Otherwise it answers ok and the client's own permissions are the old ones overridden by the
  request.
\<close>

theorem clientaddperm_outcome:
  assumes "client_edit_guard (parse_permission_assignments r request [''cldbid'']) request session r
      = Inr (dbid, parsed, actor)"
    and "bt_inv (st_query_accounts (rt_store r))"
  shows "if foreign_target r (ac_server_id actor) dbid then handle_clientaddperm request session r = None
    else \<exists>r' perms. handle_clientaddperm request session r = Some (response_ok, r')
      \<and> own_permissions r' (ac_server_id actor) dbid = Some perms
      \<and> bt_get perms = bt_get (unwrap_or [] (own_permissions r (ac_server_id actor) dbid)) ++ map_of (rev parsed)"
proof -
  have run: "handle_clientaddperm request session r
      = map_option (\<lambda>r'. (response_ok, r'))
          (set_client_permissions (ac_server_id actor) dbid (insert_assignments parsed) r)"
    by (simp add: handle_clientaddperm_def assms(1))
  show ?thesis
    using set_account_permissions [OF assms(2)] set_target_permissions [of dbid parsed r]
    by (cases "update_account dbid (qa_permissions_update (insert_assignments parsed)) r")
      (fastforce simp: run split: if_splits)+
qed

definition client_target :: "u32 \<Rightarrow> client_permission_target" where
  "client_target server_id =
     \<lparr>cpt_server_id = server_id, cpt_client_database_id = 40, cpt_client_unique_identifier = ''uid'',
      cpt_client_nickname = ''ScP'', cpt_permissions = [(''i_icon_id'', perm 100)]\<rparr>"

definition clientperm_demo :: baseline_runtime where
  "clientperm_demo = empty_runtime\<lparr>rt_store := empty_store\<lparr>
     st_query_accounts :=
       [(''ops'', token_account\<lparr>qa_permissions :=
           [(''b_permission_modify_power_ignore'', perm 1), (''i_group_modify_power'', perm 75)]\<rparr>)],
     st_server_groups := [(7, new_server_group 7 ''Guest Server Query'' 1)],
     st_online_clients := [(10, seed_online_client_10 1000)],
     st_client_permissions := [client_target 1]\<rparr>\<rparr>"

definition clientaddperm_request :: command_request where
  "clientaddperm_request =
     (let args = [(''cldbid'', ''40''), (''permnegated'', ''0''), (''permsid'', ''i_client_talk_power''),
                  (''permskip'', ''0''), (''permvalue'', ''5'')]
      in \<lparr>command = ''clientaddperm'', positional_args = [], named_args = args, option_groups = [args],
          flags = []\<rparr>)"

theorem clientaddperm_outcome_witness:
  "\<exists>r' perms. handle_clientaddperm clientaddperm_request token_session clientperm_demo = Some (response_ok, r')
     \<and> own_permissions r' 1 40 = Some perms
     \<and> bt_get perms = bt_get [(''i_icon_id'', perm 100)] ++ map_of [(''i_client_talk_power'', perm 5)]"
proof -
  have guard: "client_edit_guard
      (parse_permission_assignments clientperm_demo clientaddperm_request [''cldbid'']) clientaddperm_request
      token_session clientperm_demo
    = Inr (40, [(''i_client_talk_power'', perm 5)],
        \<lparr>ac_server_id = 1, ac_channel_id = 1, ac_client_database_id = 5\<rparr>)"
    by code_simp
  have "bt_inv (st_query_accounts (rt_store clientperm_demo))" "\<not> foreign_target clientperm_demo 1 40"
    "own_permissions clientperm_demo 1 40 = Some [(''i_icon_id'', perm 100)]"
    by code_simp+
  then show ?thesis using clientaddperm_outcome [OF guard] by simp
qed

text \<open>
  Loading a store files every client's permissions under server id 0
  (\<open>normalize_client_permissions\<close>), so that after a restart \<open>clientaddperm\<close> panics for every client
  that had permissions, and the permissions are no longer found.
\<close>

theorem clientaddperm_panics_after_reload:
  "handle_clientaddperm clientaddperm_request token_session (normalize_store clientperm_demo) = None
   \<and> own_permissions clientperm_demo 1 40 = Some [(''i_icon_id'', perm 100)]
   \<and> own_permissions (normalize_store clientperm_demo) 1 40 = None"
  by code_simp

end
