(* ===== verification/Bans.thy ===== *)
theory Bans
  imports Entity_Permissions Anti_Flood
begin

text \<open>
  Bans and complaints: \<open>runtime/handlers/bans_and_complain.rs\<close>, the ban table and the removal of a
  client of \<open>runtime/client_and_ban_state.rs\<close>, the ban rows of \<open>runtime/web.rs\<close> and
  \<open>clear_client_media_broadcasts\<close> of \<open>runtime/handlers/webrtc_and_broadcast.rs\<close>. The clock is an
  argument, read once per command.
\<close>

subsection \<open>The ban table\<close>

definition ban_in_force :: "u64 \<Rightarrow> active_ban \<Rightarrow> bool" where
  "ban_in_force now ban =
     (ab_duration_seconds ban = 0
      \<or> now < sat_add (ab_created_at ban) (u64_from_u32 (ab_duration_seconds ban)))"

definition prune_expired_active_bans :: "u64 \<Rightarrow> baseline_runtime \<Rightarrow> baseline_runtime" where
  "prune_expired_active_bans now r =
     upd_store (st_active_bans_update (bt_retain (\<lambda>_. ban_in_force now))) r"

definition add_ban :: "u64 \<Rightarrow> (u32 \<Rightarrow> active_ban) \<Rightarrow> baseline_runtime \<Rightarrow> u32 \<times> baseline_runtime" where
  "add_ban now mk r =
     (let r1 = prune_expired_active_bans now r;
          ban_id = max (st_next_ban_id (rt_store r1)) 1
      in (ban_id,
          upd_store (\<lambda>s. s\<lparr>st_next_ban_id := sat_add ban_id 1,
                           st_active_bans := bt_insert ban_id (mk ban_id) (st_active_bans s)\<rparr>) r1))"

definition create_manual_active_ban ::
    "u64 \<Rightarrow> u32 \<Rightarrow> string \<Rightarrow> string \<Rightarrow> string \<Rightarrow> string \<Rightarrow> string \<Rightarrow> u32 \<Rightarrow> string \<Rightarrow> u64 \<Rightarrow> string \<Rightarrow>
     baseline_runtime \<Rightarrow> u32 \<times> baseline_runtime" where
  "create_manual_active_ban now server_id name uid hwid ip reason duration invoker_name invoker_dbid invoker_uid r =
     (case add_ban now
             (\<lambda>ban_id. \<lparr>ab_id = ban_id, ab_server_id = server_id, ab_name = name, ab_unique_identifier = uid,
                        ab_hardware_identifier = hwid, ab_ip = ip, ab_reason = reason, ab_created_at = now,
                        ab_duration_seconds = duration, ab_invoker_name = invoker_name,
                        ab_invoker_database_id = invoker_dbid, ab_invoker_unique_identifier = invoker_uid,
                        ab_triggers = []\<rparr>) r of
        (ban_id, r') \<Rightarrow> (ban_id, emit [PersistState] r'))"

definition register_active_ban ::
    "u64 \<Rightarrow> online_client_snapshot \<Rightarrow> u32 \<Rightarrow> string \<Rightarrow> baseline_runtime \<Rightarrow> u32 \<times> baseline_runtime" where
  "register_active_ban now target duration reason r =
     add_ban now
       (\<lambda>ban_id. \<lparr>ab_id = ban_id, ab_server_id = os_server_id target, ab_name = os_nickname target,
                  ab_unique_identifier = os_unique_identifier target, ab_hardware_identifier = [],
                  ab_ip = os_connection_ip target, ab_reason = reason, ab_created_at = now,
                  ab_duration_seconds = duration, ab_invoker_name = [], ab_invoker_database_id = 0,
                  ab_invoker_unique_identifier = [],
                  ab_triggers =
                    [\<lparr>bt_client_unique_identifier = os_unique_identifier target,
                      bt_client_nickname = os_nickname target, bt_client_hardware_identifier = [],
                      bt_connection_client_ip = os_connection_ip target, bt_timestamp = now\<rparr>]\<rparr>) r"

definition annotate_active_ban ::
    "u32 \<Rightarrow> string option \<Rightarrow> string option \<Rightarrow> string \<Rightarrow> u64 \<Rightarrow> string \<Rightarrow> baseline_runtime \<Rightarrow> baseline_runtime" where
  "annotate_active_ban ban_id last_nickname connection_ip invoker_name invoker_dbid invoker_uid r =
     emit [PersistState]
       (upd_store
          (st_active_bans_update
             (bt_update ban_id
                (\<lambda>b. b\<lparr>ab_name := unwrap_or (ab_name b) (opt_filter (\<lambda>v. v \<noteq> []) last_nickname),
                        ab_ip := unwrap_or (ab_ip b) (opt_filter (\<lambda>v. v \<noteq> []) connection_ip),
                        ab_invoker_name := invoker_name, ab_invoker_database_id := invoker_dbid,
                        ab_invoker_unique_identifier := invoker_uid\<rparr>))) r)"

definition edit_ban :: "row \<Rightarrow> active_ban \<Rightarrow> active_ban" where
  "edit_ban row b =
     b\<lparr>ab_name := unwrap_or (ab_name b) (bt_get row ''name''),
       ab_unique_identifier := unwrap_or (ab_unique_identifier b) (bt_get row ''uid''),
       ab_hardware_identifier := unwrap_or (ab_hardware_identifier b) (bt_get row ''hwid''),
       ab_ip := unwrap_or (ab_ip b) (bt_get row ''ip''),
       ab_reason := unwrap_or (ab_reason b) (or_else (bt_get row ''banreason'') (bt_get row ''reason'')),
       ab_duration_seconds := unwrap_or (ab_duration_seconds b) (Option.bind (bt_get row ''time'') parse_word)\<rparr>"

text \<open>A ban that a server filter lets through.\<close>

definition visible_ban :: "baseline_runtime \<Rightarrow> u32 \<Rightarrow> u32 option \<Rightarrow> active_ban option" where
  "visible_ban r ban_id server_filter =
     opt_filter (\<lambda>b. is_none_or server_filter (\<lambda>sid. ab_server_id b = sid))
       (bt_get (st_active_bans (rt_store r)) ban_id)"

definition update_active_ban ::
    "u64 \<Rightarrow> u32 \<Rightarrow> u32 option \<Rightarrow> row \<Rightarrow> baseline_runtime \<Rightarrow> bool \<times> baseline_runtime" where
  "update_active_ban now ban_id server_filter row r =
     (let r1 = prune_expired_active_bans now r
      in case visible_ban r1 ban_id server_filter of
           None \<Rightarrow> (False, r1)
         | Some _ \<Rightarrow>
             (True, emit [PersistState]
                      (upd_store (st_active_bans_update (bt_update ban_id (edit_ban row))) r1)))"

definition remove_active_ban :: "u64 \<Rightarrow> u32 \<Rightarrow> u32 option \<Rightarrow> baseline_runtime \<Rightarrow> bool \<times> baseline_runtime" where
  "remove_active_ban now ban_id server_filter r =
     (let r1 = prune_expired_active_bans now r
      in case visible_ban r1 ban_id server_filter of
           None \<Rightarrow> (False, r1)
         | Some _ \<Rightarrow>
             (True, emit [PersistState] (upd_store (st_active_bans_update (bt_remove ban_id)) r1)))"

definition ban_matches :: "u32 \<Rightarrow> string \<Rightarrow> string \<Rightarrow> active_ban \<Rightarrow> bool" where
  "ban_matches server_id uid ip b =
     (ab_server_id b = server_id
      \<and> (ab_unique_identifier b \<noteq> [] \<and> ab_unique_identifier b = uid \<or> ab_ip b \<noteq> [] \<and> ab_ip b = ip))"

definition web_ban_reason_for_client ::
    "u64 \<Rightarrow> u32 \<Rightarrow> u64 \<Rightarrow> string \<Rightarrow> string \<Rightarrow> baseline_runtime \<Rightarrow> string option \<times> baseline_runtime" where
  "web_ban_reason_for_client now server_id dbid uid ip r =
     (let r1 = prune_expired_active_bans now r
      in case List.find (ban_matches server_id uid ip) (bt_values (st_active_bans (rt_store r1))) of
           None \<Rightarrow> (None, r1)
         | Some b \<Rightarrow>
             (Some (unwrap_or [] (map_option ab_reason (bt_get (st_active_bans (rt_store r1)) (ab_id b)))),
              upd_store
                (st_active_bans_update
                   (bt_update (ab_id b)
                      (\<lambda>b. ab_triggers_update
                              (\<lambda>ts. ts @ [\<lparr>bt_client_unique_identifier = uid, bt_client_nickname = ab_name b,
                                           bt_client_hardware_identifier = ab_hardware_identifier b,
                                           bt_connection_client_ip = ip, bt_timestamp = now\<rparr>]) b))) r1))"

definition web_ban_rows :: "u64 \<Rightarrow> u32 option \<Rightarrow> baseline_runtime \<Rightarrow> row list \<times> baseline_runtime" where
  "web_ban_rows now server_filter r =
     (let r1 = prune_expired_active_bans now r
      in (map (\<lambda>b. insert_fields
                      [(''sid'', word_to_string (ab_server_id b)), (''banid'', word_to_string (ab_id b)),
                       (''ip'', ab_ip b), (''name'', ab_name b), (''uid'', ab_unique_identifier b),
                       (''hwid'', ab_hardware_identifier b), (''created'', word_to_string (ab_created_at b)),
                       (''duration'', word_to_string (ab_duration_seconds b)),
                       (''invokername'', ab_invoker_name b),
                       (''invokercldbid'', word_to_string (ab_invoker_database_id b)),
                       (''invokeruid'', ab_invoker_unique_identifier b), (''reason'', ab_reason b),
                       (''enforcements'', nat_to_string (length (ab_triggers b)))] [])
            (filter (\<lambda>b. is_none_or server_filter (\<lambda>sid. ab_server_id b = sid))
               (bt_values (st_active_bans (rt_store r1)))), r1))"

definition web_ban_trigger_rows ::
    "u64 \<Rightarrow> u32 \<Rightarrow> u32 option \<Rightarrow> baseline_runtime \<Rightarrow> row list \<times> baseline_runtime" where
  "web_ban_trigger_rows now ban_id server_filter r =
     (let r1 = prune_expired_active_bans now r
      in (case visible_ban r1 ban_id server_filter of
            None \<Rightarrow> []
          | Some b \<Rightarrow>
              map (\<lambda>t. insert_fields
                         [(''client_unique_identifier'', bt_client_unique_identifier t),
                          (''client_nickname'', bt_client_nickname t),
                          (''client_hardware_identifier'', bt_client_hardware_identifier t),
                          (''connection_client_ip'', bt_connection_client_ip t),
                          (''timestamp'', word_to_string (bt_timestamp t))] [])
                (ab_triggers b), r1))"

subsection \<open>Removing a client\<close>

definition clear_client_media_broadcasts :: "u32 \<Rightarrow> u64 \<Rightarrow> baseline_runtime \<Rightarrow> baseline_runtime" where
  "clear_client_media_broadcasts server_id client_id r =
     (let broadcasts = st_active_broadcasts (rt_store r);
          affected = bs_collect
            (List.map_filter
               (\<lambda>((sid, bid, kind), b).
                  if sid = server_id \<and> bid = client_id \<and> (kind = 0 \<or> kind = 1) then Some (amb_channel_id b)
                  else None) broadcasts);
          left = map (\<lambda>((sid, bid, kind), b).
                        ((sid, bid, kind),
                         if sid = server_id then amb_joined_client_ids_update (filter (\<lambda>i. i \<noteq> client_id)) b else b))
                   (bt_retain (\<lambda>(sid, bid, kind) _. \<not> (sid = server_id \<and> bid = client_id)) broadcasts)
      in emit ([RtcUnassignBroadcaster client_id, RtcUnassignViewerSlot client_id]
               @ map (\<lambda>c. BroadcastEvent server_id (VideoBroadcastChanged server_id c)) affected)
           (upd_store (st_active_broadcasts_update (\<lambda>_. left)) r))"

definition linked_bot_ids :: "baseline_runtime \<Rightarrow> u64 \<Rightarrow> u32 list" where
  "linked_bot_ids r client_id =
     List.map_filter (\<lambda>(bot_id, b). if mb_linked_client_id b = Some client_id then Some bot_id else None)
       (st_music_bots (rt_store r))"

definition cleanup_notifications :: "u32 \<Rightarrow> temporary_channel_cleanup \<Rightarrow> runtime_effect list" where
  "cleanup_notifications server_id cleanup =
     (case tcc_removed_client cleanup of
        None \<Rightarrow> []
      | Some c \<Rightarrow>
          [BroadcastEvent server_id
             (ClientLeftView
                \<lparr>sp_client_id = os_id c, sp_login_name = os_nickname c,
                 sp_unique_identifier = os_unique_identifier c, sp_client_type = os_client_type_exact c,
                 sp_server_id = os_server_id c, sp_channel_id = os_channel_id c\<rparr>
                None 5 ''temporary channel cleanup'' 0 ''Server'' [] None)])
     @ (case tcc_removed_channel cleanup of
          None \<Rightarrow> []
        | Some c \<Rightarrow> [BroadcastEvent server_id (ChannelDeleted server_id c 0 ''Server'')])"

definition cleanup_after_client :: "online_client \<Rightarrow> baseline_runtime \<Rightarrow> baseline_runtime" where
  "cleanup_after_client c r =
     (case cleanup_temporary_channel (oc_server_id c) (oc_channel_id c) r of
        (None, r') \<Rightarrow> r'
      | (Some cleanup, r') \<Rightarrow>
          (emit (cleanup_notifications (oc_server_id c) cleanup) r')
            \<lparr>rt_pending_temp_cleanups := rt_pending_temp_cleanups r' @ [cleanup]\<rparr>)"

definition left_notification :: "u32 \<Rightarrow> string \<Rightarrow> online_client \<Rightarrow> runtime_effect" where
  "left_notification reason_id reason_message c =
     BroadcastEvent (oc_server_id c)
       (ClientLeftView
          \<lparr>sp_client_id = oc_id c, sp_login_name = oc_nickname c, sp_unique_identifier = oc_unique_identifier c,
           sp_client_type =
             unwrap_or (oc_client_type c)
               (Option.bind (bt_get (oc_extra_properties c) ''client_type_exact'') parse_word),
           sp_server_id = oc_server_id c, sp_channel_id = oc_channel_id c\<rparr>
          None reason_id reason_message 0 [] [] None)"

text \<open>The two removals differ in the notification that the client has left.\<close>

definition remove_client :: "(online_client \<Rightarrow> runtime_effect list) \<Rightarrow> u64 \<Rightarrow> baseline_runtime \<Rightarrow> baseline_runtime" where
  "remove_client notify client_id r =
     (let bots = linked_bot_ids r client_id;
          r1 = upd_store (st_music_bots_update (fold bt_remove bots)) r;
          r2 = (case bt_get (st_online_clients (rt_store r1)) client_id of
                  None \<Rightarrow> r1
                | Some c \<Rightarrow>
                    cleanup_after_client c
                      (emit (notify c)
                         (clear_client_media_broadcasts (oc_server_id c) (oc_id c)
                            (upd_store (st_online_clients_update (bt_remove client_id)) r1))))
      in if bots \<noteq> [] then emit [PersistState] r2 else r2)"

definition remove_session_client_without_left_event :: "u64 \<Rightarrow> baseline_runtime \<Rightarrow> baseline_runtime" where
  "remove_session_client_without_left_event client_id r = remove_client (\<lambda>_. []) client_id r"

definition remove_session_client :: "u64 \<Rightarrow> u32 \<Rightarrow> string \<Rightarrow> baseline_runtime \<Rightarrow> baseline_runtime" where
  "remove_session_client client_id reason_id reason_message r =
     remove_client (\<lambda>c. [left_notification reason_id reason_message c]) client_id r"

subsection \<open>Ban commands\<close>

definition target_client_snapshot_and_permissions ::
    "baseline_runtime \<Rightarrow> u32 \<Rightarrow> u64 \<Rightarrow> query_response + online_client_snapshot \<times> perm_map" where
  "target_client_snapshot_and_permissions r server_id target_client_id =
     (case online_client_snapshot r server_id target_client_id of
        None \<Rightarrow> Inl (response_error 768 ''target client not found'')
      | Some snapshot \<Rightarrow>
          (case effective_permissions_for_client r server_id (os_channel_id snapshot) (os_database_id snapshot) of
             None \<Rightarrow> Inl (response_error 768 ''target client not found'')
           | Some target_permissions \<Rightarrow> Inr (snapshot, target_permissions)))"

definition check_target_client_power ::
    "baseline_runtime \<Rightarrow> perm_map \<Rightarrow> perm_map \<Rightarrow> string list \<Rightarrow> string list \<Rightarrow> string \<Rightarrow> query_response option" where
  "check_target_client_power r actor_permissions target_permissions actor_power_names needed_power_names failed =
     (if permission_value_or_default actor_permissions actor_power_names
         < permission_value_or_default target_permissions needed_power_names
      then Some (insufficient_permission_response r failed) else None)"

definition arg_or_empty :: "command_request \<Rightarrow> string \<Rightarrow> string" where
  "arg_or_empty request k = unwrap_or [] (arg request k)"

definition ban_time_check :: "baseline_runtime \<Rightarrow> perm_map \<Rightarrow> u32 \<Rightarrow> query_response option" where
  "ban_time_check r actor_permissions requested =
     (let max_ban_time = permission_value_or_default actor_permissions [''i_client_ban_max_bantime'']
      in if 0 < max_ban_time \<and> max_ban_time < uint requested
         then Some (insufficient_permission_response r ''i_client_ban_max_bantime'') else None)"

definition banid_row :: "u32 \<Rightarrow> query_response" where
  "banid_row ban_id = response_ok_row (bt_insert ''banid'' (word_to_string ban_id) [])"

definition handle_banclient ::
    "u64 \<Rightarrow> command_request \<Rightarrow> query_session \<Rightarrow> baseline_runtime \<Rightarrow> query_response \<times> baseline_runtime" where
  "handle_banclient now request session r =
     (case require_server session of
        Inl e \<Rightarrow> (e, r)
      | Inr server_id \<Rightarrow>
     (case arg_u64 request ''clid'' of
        None \<Rightarrow> (response_error 512 ''clid is required'', r)
      | Some target_client_id \<Rightarrow>
          let requested_ban_time = unwrap_or 0 (arg_u32 request ''time'');
              ban_reason = arg_or_empty request ''banreason''
          in if 40 < length ban_reason then (response_error 512 ''banreason is too long'', r)
             else
     (case query_actor_effective_permissions r session of
        Inl e \<Rightarrow> (e, r)
      | Inr (_, actor_permissions) \<Rightarrow>
     (case target_client_snapshot_and_permissions r server_id target_client_id of
        Inl e \<Rightarrow> (e, r)
      | Inr (target_snapshot, target_permissions) \<Rightarrow>
     (case check_target_client_power r actor_permissions target_permissions [''i_client_ban_power'']
             [''i_client_needed_ban_power''] ''i_client_ban_power'' of
        Some e \<Rightarrow> (e, r)
      | None \<Rightarrow>
     (case ban_time_check r actor_permissions requested_ban_time of
        Some e \<Rightarrow> (e, r)
      | None \<Rightarrow>
          (case register_active_ban now target_snapshot requested_ban_time ban_reason r of
             (ban_id, r1) \<Rightarrow>
               (banid_row ban_id, remove_session_client_without_left_event (os_id target_snapshot) r1))))))))"

definition ban_list_row :: "active_ban \<Rightarrow> row" where
  "ban_list_row b =
     insert_fields
       [(''banid'', word_to_string (ab_id b)), (''ip'', ab_ip b), (''name'', ab_name b),
        (''uid'', ab_unique_identifier b), (''hwid'', ab_hardware_identifier b),
        (''invokercldbid'', word_to_string (ab_invoker_database_id b)),
        (''invokeruid'', ab_invoker_unique_identifier b), (''invokername'', ab_invoker_name b),
        (''created'', word_to_string (ab_created_at b)), (''duration'', word_to_string (ab_duration_seconds b)),
        (''banreason'', ab_reason b), (''reason'', ab_reason b), (''enforcements'', ''0'')] []"

text \<open>\<open>banlist\<close>, \<open>bandel\<close> and \<open>bandelall\<close> hide why the actor could not be evaluated.\<close>

definition ban_permission :: "baseline_runtime \<Rightarrow> query_session \<Rightarrow> string \<Rightarrow> query_response option" where
  "ban_permission r session name =
     (case query_actor_effective_permissions r session of
        Inl _ \<Rightarrow> Some (response_error 512 ''insufficient permissions'')
      | Inr (_, actor_permissions) \<Rightarrow>
          (case check_required_permission actor_permissions [name] name of
             Inl p \<Rightarrow> Some (insufficient_permission_response r p)
           | Inr _ \<Rightarrow> None))"

definition handle_banlist :: "u64 \<Rightarrow> query_session \<Rightarrow> baseline_runtime \<Rightarrow> query_response \<times> baseline_runtime" where
  "handle_banlist now session r =
     (case require_server session of
        Inl e \<Rightarrow> (e, r)
      | Inr server_id \<Rightarrow>
     (case ban_permission r session ''b_client_ban_list'' of
        Some e \<Rightarrow> (e, r)
      | None \<Rightarrow>
          let r1 = prune_expired_active_bans now r
          in (response_ok_rows
                (map ban_list_row
                   (filter (\<lambda>b. ab_server_id b = server_id) (bt_values (st_active_bans (rt_store r1))))), r1)))"

definition handle_banadd ::
    "u64 \<Rightarrow> command_request \<Rightarrow> query_session \<Rightarrow> baseline_runtime \<Rightarrow> query_response \<times> baseline_runtime" where
  "handle_banadd now request session r =
     (case require_server session of
        Inl e \<Rightarrow> (e, r)
      | Inr server_id \<Rightarrow>
          let ip = arg_or_empty request ''ip'';
              name = arg_or_empty request ''name'';
              uid = arg_or_empty request ''uid'';
              hwid = arg_or_empty request ''hwid'';
              requested_ban_time = unwrap_or 0 (arg_u32 request ''time'');
              ban_reason = arg_or_empty request ''banreason''
          in if ip = [] \<and> name = [] \<and> uid = [] \<and> hwid = []
             then (response_error 512 ''missing target definition'', r)
             else if 40 < length ban_reason then (response_error 512 ''banreason is too long'', r)
             else
     (case query_actor_effective_permissions r session of
        Inl e \<Rightarrow> (e, r)
      | Inr (actor, actor_permissions) \<Rightarrow>
     (case check_required_permission actor_permissions [''b_client_ban_create''] ''b_client_ban_create'' of
        Inl p \<Rightarrow> (insufficient_permission_response r p, r)
      | Inr _ \<Rightarrow>
     (case ban_time_check r actor_permissions requested_ban_time of
        Some e \<Rightarrow> (e, r)
      | None \<Rightarrow>
          let (invoker_uid, invoker_name) =
                (case lookup_client_identity_by_dbid r server_id (ac_client_database_id actor) of
                   None \<Rightarrow> (''Unknown'', ''ServerQuery'')
                 | Some (uid, _, name) \<Rightarrow> (uid, name))
          in case create_manual_active_ban now server_id name uid hwid ip ban_reason requested_ban_time
                    invoker_name (ac_client_database_id actor) invoker_uid r of
               (ban_id, r') \<Rightarrow> (banid_row ban_id, r')))))"

definition handle_bandel ::
    "u64 \<Rightarrow> command_request \<Rightarrow> query_session \<Rightarrow> baseline_runtime \<Rightarrow> query_response \<times> baseline_runtime" where
  "handle_bandel now request session r =
     (case require_server session of
        Inl e \<Rightarrow> (e, r)
      | Inr server_id \<Rightarrow>
     (case arg_u32 request ''banid'' of
        None \<Rightarrow> (response_error 512 ''banid is required'', r)
      | Some ban_id \<Rightarrow>
     (case ban_permission r session ''b_client_ban_delete'' of
        Some e \<Rightarrow> (e, r)
      | None \<Rightarrow>
          (case remove_active_ban now ban_id (Some server_id) r of
             (removed, r') \<Rightarrow>
               (if removed then response_ok else response_error 1281 ''invalid ban id'', r')))))"

definition handle_bandelall :: "u64 \<Rightarrow> query_session \<Rightarrow> baseline_runtime \<Rightarrow> query_response \<times> baseline_runtime" where
  "handle_bandelall now session r =
     (case require_server session of
        Inl e \<Rightarrow> (e, r)
      | Inr server_id \<Rightarrow>
     (case ban_permission r session ''b_client_ban_delete'' of
        Some e \<Rightarrow> (e, r)
      | None \<Rightarrow>
          let ban_ids = map ab_id (filter (\<lambda>b. ab_server_id b = server_id) (bt_values (st_active_bans (rt_store r))))
          in (response_ok, fold (\<lambda>i r. snd (remove_active_ban now i (Some server_id) r)) ban_ids r)))"

abbreviation empty_result :: query_response where
  "empty_result \<equiv> response_error 0x501 ''database empty result set''"

definition trigger_rows_or_ban ::
    "u64 \<Rightarrow> u32 \<Rightarrow> u32 \<Rightarrow> baseline_runtime \<Rightarrow> row list \<times> baseline_runtime" where
  "trigger_rows_or_ban now server_id ban_id r =
     (case web_ban_trigger_rows now ban_id (Some server_id) r of
        (rs, r1) \<Rightarrow>
          (if rs \<noteq> [] then rs
           else case opt_filter (\<lambda>b. ab_server_id b = server_id) (bt_get (st_active_bans (rt_store r1)) ban_id) of
                  None \<Rightarrow> []
                | Some b \<Rightarrow>
                    [insert_fields
                       [(''banid'', word_to_string (ab_id b)),
                        (''client_unique_identifier'', ab_unique_identifier b), (''client_nickname'', ab_name b),
                        (''client_hardware_identifier'', ab_hardware_identifier b),
                        (''connection_client_ip'', ab_ip b), (''timestamp'', word_to_string (ab_created_at b))] []],
           r1))"

definition handle_bantriggerlist ::
    "u64 \<Rightarrow> command_request \<Rightarrow> query_session \<Rightarrow> baseline_runtime \<Rightarrow> query_response \<times> baseline_runtime" where
  "handle_bantriggerlist now request session r =
     (case require_server session of
        Inl e \<Rightarrow> (e, r)
      | Inr server_id \<Rightarrow>
     (case query_actor_effective_permissions r session of
        Inl e \<Rightarrow> (e, r)
      | Inr (_, actor_permissions) \<Rightarrow>
     (case check_required_permission actor_permissions [''b_client_ban_trigger_list'', ''b_client_ban_list'']
             ''b_client_ban_list'' of
        Inl p \<Rightarrow> (insufficient_permission_response r p, r)
      | Inr _ \<Rightarrow>
          let targets = (case arg_u32 request ''banid'' of
                           Some i \<Rightarrow> [i]
                         | None \<Rightarrow> map ab_id (filter (\<lambda>b. ab_server_id b = server_id)
                                                 (bt_values (st_active_bans (rt_store r)))));
              (rs, r') = fold (\<lambda>i (rs, r). case trigger_rows_or_ban now server_id i r of
                                             (new, r') \<Rightarrow> (rs @ new, r')) targets ([], r)
          in (if rs = [] then empty_result else response_ok_rows rs, r'))))"

subsection \<open>Complaints\<close>

definition query_session_unique_identifier :: "baseline_runtime \<Rightarrow> query_session \<Rightarrow> string" where
  "query_session_unique_identifier r session =
     (case qs_authenticated_login session of
        Some login \<Rightarrow> stable_query_client_unique_identifier login
      | None \<Rightarrow>
          (case (qs_selected_virtual_server_id session, qs_actor_client_database_id_override session) of
             (Some server_id, Some dbid) \<Rightarrow>
               (case lookup_client_identity_by_dbid r server_id dbid of
                  Some (uid, _, _) \<Rightarrow> uid
                | None \<Rightarrow> ''compat-query-'' @ word_to_string (qs_client_id session))
           | _ \<Rightarrow> ''compat-query-'' @ word_to_string (qs_client_id session)))"

definition query_session_participant :: "baseline_runtime \<Rightarrow> query_session \<Rightarrow> conversation_participant" where
  "query_session_participant r session =
     \<lparr>cp_database_id = query_session_database_id r session,
      cp_unique_identifier = query_session_unique_identifier r session,
      cp_nickname = unwrap_or ''Query'' (qs_authenticated_login session)\<rparr>"

definition server_property :: "baseline_runtime \<Rightarrow> u32 \<Rightarrow> string \<Rightarrow> string option" where
  "server_property r server_id name =
     bt_get (st_instance_properties (rt_store r)) (''vs:'' @ word_to_string server_id @ '':'' @ name)"

definition autoban_count :: "baseline_runtime \<Rightarrow> u32 \<Rightarrow> nat" where
  "autoban_count r server_id =
     unwrap_or 5 (Option.bind (server_property r server_id ''virtualserver_complain_autoban_count'') (parse_uint 64))"

definition autoban_time :: "baseline_runtime \<Rightarrow> u32 \<Rightarrow> u32" where
  "autoban_time r server_id =
     unwrap_or 1200 (Option.bind (server_property r server_id ''virtualserver_complain_autoban_time'') parse_word)"

definition complaint_about :: "u32 \<Rightarrow> u64 \<Rightarrow> client_complaint \<Rightarrow> bool" where
  "complaint_about server_id dbid c = (cc_server_id c = server_id \<and> cc_target_database_id c = dbid)"

definition autoban :: "u64 \<Rightarrow> u32 \<Rightarrow> u64 \<Rightarrow> string \<Rightarrow> string \<Rightarrow> baseline_runtime \<Rightarrow> baseline_runtime" where
  "autoban now server_id dbid target_uid target_name r =
     (let r1 = upd_store (st_complaints_update (filter (\<lambda>c. \<not> complaint_about server_id dbid c))) r;
          online_target = online_client_by_cldbid r1 server_id dbid;
          target_ip = unwrap_or [] (map_option oc_connection_ip online_target);
          r2 = snd (create_manual_active_ban now server_id target_name target_uid [] target_ip
                      ''Too many complaints'' (autoban_time r server_id) ''Server'' 0 ''Server'' r1)
      in case online_target of
           None \<Rightarrow> r2
         | Some c \<Rightarrow> remove_session_client (oc_id c) 6 ''Too many complaints'' r2)"

definition file_complaint :: "u64 \<Rightarrow> client_complaint \<Rightarrow> string \<Rightarrow> baseline_runtime \<Rightarrow> baseline_runtime" where
  "file_complaint now c target_uid r =
     (let r1 = upd_store (st_complaints_update (\<lambda>cs. cs @ [c])) r;
          server_id = cc_server_id c;
          dbid = cc_target_database_id c;
          threshold = autoban_count r1 server_id
      in if 0 < threshold
            \<and> threshold \<le> length (filter (complaint_about server_id dbid) (st_complaints (rt_store r1)))
         then autoban now server_id dbid target_uid (cc_target_name c) r1 else r1)"

definition handle_complainadd ::
    "u64 \<Rightarrow> command_request \<Rightarrow> query_session \<Rightarrow> baseline_runtime \<Rightarrow> query_response \<times> baseline_runtime" where
  "handle_complainadd now request session r =
     (if \<not> session_has_permission_actor session then (login_required, r)
      else
        let server_id = unwrap_or 1 (qs_selected_virtual_server_id session) in
      case arg_u64 request ''tcldbid'' of
        None \<Rightarrow> (response_error 512 ''tcldbid is required'', r)
      | Some dbid \<Rightarrow>
     (case opt_filter (\<lambda>m. m \<noteq> []) (map_option trim (arg request ''message'')) of
        None \<Rightarrow> (response_error 512 ''message is required'', r)
      | Some text \<Rightarrow>
     (case query_actor_effective_permissions r session of
        Inl e \<Rightarrow> (e, r)
      | Inr (actor, actor_permissions) \<Rightarrow>
          if dbid = ac_client_database_id actor then (response_error 512 ''cannot complain about yourself'', r)
          else
     (case lookup_client_identity_by_dbid r server_id dbid of
        None \<Rightarrow> (response_error 768 ''target client not found'', r)
      | Some (target_uid, _, target_name) \<Rightarrow>
          let default_cid = unwrap_or 1 (default_channel_id_for_server r server_id);
              target_permissions = unwrap_or [] (effective_permissions_for_client r server_id default_cid dbid)
          in
     (case check_target_client_power r actor_permissions target_permissions [''i_client_complain_power'']
             [''i_client_needed_complain_power''] ''i_client_complain_power'' of
        Some e \<Rightarrow> (e, r)
      | None \<Rightarrow>
          if list_ex (\<lambda>c. complaint_about server_id dbid c
                          \<and> cc_from_database_id c = ac_client_database_id actor)
               (st_complaints (rt_store r))
          then (response_error 2051 ''complaint already exists'', r)
          else
            (response_ok,
             file_complaint now
               \<lparr>cc_server_id = server_id, cc_target_database_id = dbid, cc_target_name = target_name,
                cc_from_database_id = ac_client_database_id actor,
                cc_from_name = cp_nickname (query_session_participant r session),
                cc_message = text, cc_timestamp = now\<rparr> target_uid r))))))"

definition handle_complainlist :: "command_request \<Rightarrow> query_session \<Rightarrow> baseline_runtime \<Rightarrow> query_response" where
  "handle_complainlist request session r =
     (if \<not> session_has_permission_actor session then login_required
      else
        let server_id = unwrap_or 1 (qs_selected_virtual_server_id session) in
      case query_actor_effective_permissions r session of
        Inl e \<Rightarrow> e
      | Inr (_, actor_permissions) \<Rightarrow>
     (case check_required_permission actor_permissions [''b_client_complain_list''] ''b_client_complain_list'' of
        Inl p \<Rightarrow> insufficient_permission_response r p
      | Inr _ \<Rightarrow>
     (case optional_number request ''tcldbid'' ''tcldbid must be an integer'' of
        Inl e \<Rightarrow> e
      | Inr filter_dbid \<Rightarrow>
          let rs = map (\<lambda>c. insert_fields
                              [(''tcldbid'', word_to_string (cc_target_database_id c)), (''tname'', cc_target_name c),
                               (''fcldbid'', word_to_string (cc_from_database_id c)), (''fname'', cc_from_name c),
                               (''message'', cc_message c), (''timestamp'', word_to_string (cc_timestamp c))] [])
                     (filter (\<lambda>c. cc_server_id c = server_id
                                  \<and> is_none_or filter_dbid (\<lambda>i. cc_target_database_id c = i))
                        (st_complaints (rt_store r)))
          in if rs = [] then empty_result else response_ok_rows rs)))"

definition drop_complaints ::
    "(client_complaint \<Rightarrow> bool) \<Rightarrow> baseline_runtime \<Rightarrow> query_response \<times> baseline_runtime" where
  "drop_complaints P r =
     (let r' = upd_store (st_complaints_update (filter (\<lambda>c. \<not> P c))) r
      in (if length (st_complaints (rt_store r')) = length (st_complaints (rt_store r)) then empty_result
          else response_ok, r'))"

definition handle_complaindel ::
    "command_request \<Rightarrow> query_session \<Rightarrow> baseline_runtime \<Rightarrow> query_response \<times> baseline_runtime" where
  "handle_complaindel request session r =
     (if \<not> session_has_permission_actor session then (login_required, r)
      else
        let server_id = unwrap_or 1 (qs_selected_virtual_server_id session) in
      case arg_u64 request ''tcldbid'' of
        None \<Rightarrow> (response_error 512 ''tcldbid is required'', r)
      | Some tcldbid \<Rightarrow>
     (case arg_u64 request ''fcldbid'' of
        None \<Rightarrow> (response_error 512 ''fcldbid is required'', r)
      | Some fcldbid \<Rightarrow>
     (case query_actor_effective_permissions r session of
        Inl e \<Rightarrow> (e, r)
      | Inr (actor, actor_permissions) \<Rightarrow>
     (case (if fcldbid = ac_client_database_id actor
            then check_required_permission actor_permissions
                   [''b_client_complain_delete_own'', ''b_client_complain_delete''] ''b_client_complain_delete_own''
            else check_required_permission actor_permissions [''b_client_complain_delete'']
                   ''b_client_complain_delete'') of
        Inl p \<Rightarrow> (insufficient_permission_response r p, r)
      | Inr _ \<Rightarrow>
          drop_complaints (\<lambda>c. complaint_about server_id tcldbid c \<and> cc_from_database_id c = fcldbid) r))))"

definition handle_complaindelall ::
    "command_request \<Rightarrow> query_session \<Rightarrow> baseline_runtime \<Rightarrow> query_response \<times> baseline_runtime" where
  "handle_complaindelall request session r =
     (if \<not> session_has_permission_actor session then (login_required, r)
      else
        let server_id = unwrap_or 1 (qs_selected_virtual_server_id session) in
      case arg_u64 request ''tcldbid'' of
        None \<Rightarrow> (response_error 512 ''tcldbid is required'', r)
      | Some tcldbid \<Rightarrow>
     (case query_actor_effective_permissions r session of
        Inl e \<Rightarrow> (e, r)
      | Inr (_, actor_permissions) \<Rightarrow>
     (case check_required_permission actor_permissions [''b_client_complain_delete'']
             ''b_client_complain_delete'' of
        Inl p \<Rightarrow> (insufficient_permission_response r p, r)
      | Inr _ \<Rightarrow> drop_complaints (complaint_about server_id tcldbid) r)))"

subsection \<open>Frames\<close>

lemma remove_bots_bans: "st_active_bans (rt_store (snd (remove_bots sid cids r))) = st_active_bans (rt_store r)"
  unfolding remove_bots_def
  by (induction cids rule: rev_induct) (auto simp: remove_bot_client_def case_prod_beta)

lemma remove_bots_gone:
  "bt_get (st_online_clients (rt_store r)) i = None \<Longrightarrow>
   bt_get (st_online_clients (rt_store (snd (remove_bots sid cids r)))) i = None"
  unfolding remove_bots_def
  by (induction cids arbitrary: r rule: rev_induct)
    (auto simp: remove_bot_client_def case_prod_beta bt_get_remove)

lemma remove_channel_frame:
  "st_active_bans (rt_store (snd (remove_channel_without_session_reassign sid cid r))) = st_active_bans (rt_store r)"
  "st_online_clients (rt_store (snd (remove_channel_without_session_reassign sid cid r))) = st_online_clients (rt_store r)"
  by (auto simp: remove_channel_without_session_reassign_def Let_def put_channels_def split: option.split)

lemma cleanup_frame:
  "st_active_bans (rt_store (snd (cleanup_temporary_channel sid cid r))) = st_active_bans (rt_store r)"
  by (auto simp: cleanup_temporary_channel_def Let_def case_prod_beta remove_bots_bans remove_channel_frame
      split: option.split)

lemma cleanup_gone:
  "bt_get (st_online_clients (rt_store r)) i = None \<Longrightarrow>
   bt_get (st_online_clients (rt_store (snd (cleanup_temporary_channel sid cid r)))) i = None"
  by (auto simp: cleanup_temporary_channel_def Let_def case_prod_beta remove_bots_gone remove_channel_frame
      split: option.split)

lemma remove_client_frame:
  "st_active_bans (rt_store (remove_client notify i r)) = st_active_bans (rt_store r)"
  "bt_get (st_online_clients (rt_store (remove_client notify i r))) i = None"
proof -
  have after: "st_active_bans (rt_store (cleanup_after_client c s)) = st_active_bans (rt_store s)"
    "bt_get (st_online_clients (rt_store s)) i = None \<Longrightarrow>
     bt_get (st_online_clients (rt_store (cleanup_after_client c s))) i = None" for c s
    using cleanup_frame [of "oc_server_id c" "oc_channel_id c" s]
      cleanup_gone [of s i "oc_server_id c" "oc_channel_id c"]
    by (auto simp: cleanup_after_client_def emit_def split: prod.split option.split)
  show "st_active_bans (rt_store (remove_client notify i r)) = st_active_bans (rt_store r)"
    by (auto simp: remove_client_def Let_def after(1) clear_client_media_broadcasts_def split: option.split)
  show "bt_get (st_online_clients (rt_store (remove_client notify i r))) i = None"
    by (auto simp: remove_client_def Let_def clear_client_media_broadcasts_def bt_get_remove split: option.split
        intro!: after(2))
qed

subsection \<open>Bans\<close>

text \<open>A client with this identifier and address is refused at a time.\<close>

definition refused :: "u64 \<Rightarrow> u32 \<Rightarrow> string \<Rightarrow> string \<Rightarrow> baseline_runtime \<Rightarrow> bool" where
  "refused now server_id uid ip r = (\<forall>dbid. fst (web_ban_reason_for_client now server_id dbid uid ip r) \<noteq> None)"

lemma refused_by_ban:
  assumes "bt_get (st_active_bans (rt_store r)) k = Some b" "ban_matches server_id uid ip b" "ban_in_force now b"
  shows "refused now server_id uid ip r"
proof -
  have "b \<in> set (bt_values (bt_retain (\<lambda>_. ban_in_force now) (st_active_bans (rt_store r))))"
    using bt_get_mem [OF assms(1)] assms(3) by (force simp: bt_values_def bt_retain_def)
  then have "List.find (ban_matches server_id uid ip)
      (bt_values (bt_retain (\<lambda>_. ban_in_force now) (st_active_bans (rt_store r)))) \<noteq> None"
    using assms(2) by (auto simp: find_None_iff)
  then show ?thesis
    by (auto simp: refused_def web_ban_reason_for_client_def Let_def prune_expired_active_bans_def split: option.split)
qed

lemma add_ban_get:
  "bt_get (st_active_bans (rt_store (snd (add_ban now mk r)))) (fst (add_ban now mk r)) = Some (mk (fst (add_ban now mk r)))"
  by (simp add: add_ban_def Let_def bt_get_insert)

definition time_left :: "u64 \<Rightarrow> u32 \<Rightarrow> u64 \<Rightarrow> bool" where
  "time_left created duration now = (duration = 0 \<or> now < sat_add created (u64_from_u32 duration))"

definition client_banned ::
    "u64 \<Rightarrow> command_request \<Rightarrow> query_session \<Rightarrow> baseline_runtime \<Rightarrow> query_response \<times> baseline_runtime \<Rightarrow> bool" where
  "client_banned now request session r res =
     (\<exists>server_id client_id target target_permissions actor actor_permissions.
        require_server session = Inr server_id \<and> arg_u64 request ''clid'' = Some client_id
        \<and> target_client_snapshot_and_permissions r server_id client_id = Inr (target, target_permissions)
        \<and> query_actor_effective_permissions r session = Inr (actor, actor_permissions)
        \<and> permission_value_or_default target_permissions [''i_client_needed_ban_power'']
           \<le> permission_value_or_default actor_permissions [''i_client_ban_power'']
        \<and> bt_get (st_online_clients (rt_store (snd res))) (os_id target) = None
        \<and> (\<forall>later. time_left now (unwrap_or 0 (arg_u32 request ''time'')) later \<longrightarrow>
             (os_unique_identifier target \<noteq> [] \<longrightarrow>
                (\<forall>ip. refused later server_id (os_unique_identifier target) ip (snd res)))
             \<and> (os_connection_ip target \<noteq> [] \<longrightarrow>
                (\<forall>uid. refused later server_id uid (os_connection_ip target) (snd res)))))"

lemma snapshot_server: "online_client_snapshot r sid i = Some s \<Longrightarrow> os_server_id s = sid"
  by (auto simp: online_client_snapshot_def opt_filter_def split: option.splits if_splits)

lemma client_bannedI:
  assumes "require_server session = Inr server_id" "arg_u64 request ''clid'' = Some client_id"
    "target_client_snapshot_and_permissions r server_id client_id = Inr (target, tp)"
    "query_actor_effective_permissions r session = Inr (actor, p)"
    "check_target_client_power r p tp [''i_client_ban_power''] [''i_client_needed_ban_power''] ''i_client_ban_power'' = None"
    "register_active_ban now target (unwrap_or 0 (arg_u32 request ''time'')) reason r = (ban_id, r1)"
  shows "client_banned now request session r
    (resp, remove_session_client_without_left_event (os_id target) r1)"
proof -
  let ?d = "unwrap_or 0 (arg_u32 request ''time'')" and ?r' = "remove_session_client_without_left_event (os_id target) r1"
  have sid: "os_server_id target = server_id"
    using assms(3) snapshot_server by (auto simp: target_client_snapshot_and_permissions_def split: option.splits)
  obtain b where b: "bt_get (st_active_bans (rt_store ?r')) ban_id = Some b"
    "ab_server_id b = server_id" "ab_unique_identifier b = os_unique_identifier target"
    "ab_ip b = os_connection_ip target" "ab_created_at b = now" "ab_duration_seconds b = ?d"
    using add_ban_get assms(6) sid unfolding register_active_ban_def
    by (metis (no_types, lifting) active_ban.select_convs fst_conv snd_conv remove_client_frame(1)
        remove_session_client_without_left_event_def)
  have gone: "bt_get (st_online_clients (rt_store ?r')) (os_id target) = None"
    by (simp add: remove_session_client_without_left_event_def remove_client_frame)
  have "refused later server_id uid ip ?r'"
    if "time_left now ?d later" "uid = os_unique_identifier target \<and> uid \<noteq> [] \<or> ip = os_connection_ip target \<and> ip \<noteq> []"
    for later uid ip
    using refused_by_ban [OF b(1), of server_id uid ip later] that b
    by (auto simp: ban_matches_def ban_in_force_def time_left_def)
  then show ?thesis
    unfolding client_banned_def
    using assms(1-5) gone by (auto simp: check_target_client_power_def split: if_splits)
qed

lemma target_errors:
  "target_client_snapshot_and_permissions r sid i = Inl e \<Longrightarrow> error_id e \<noteq> 0"
  "check_target_client_power r p tp xs ys n = Some e \<Longrightarrow> error_id e \<noteq> 0"
  "ban_time_check r p d = Some e \<Longrightarrow> error_id e \<noteq> 0"
  by (auto simp: target_client_snapshot_and_permissions_def check_target_client_power_def ban_time_check_def Let_def
      split: option.splits if_splits)

lemma banclient_ok: "ok_then (client_banned now request session r) (handle_banclient now request session r)"
  unfolding handle_banclient_def
  by (intro ok_then_branches;
      (rule ok_then_error, fastforce dest: require_server_error actor_permissions_error target_errors)?)
    (clarify, rule ok_then_I, rule client_bannedI, assumption+)

text \<open>
  Property C17: a successful \<open>banclient\<close> was sent by an actor with the ban power the target needs; the
  target is no longer online, and from then on until the ban runs out, forever when its time is 0, the
  ban check refuses every client of the server with the target's unique identifier and every client
  with the target's address.
\<close>

theorem banclient_correct:
  assumes "handle_banclient now request session r = (resp, r')" and "error_id resp = 0"
  shows "client_banned now request session r (resp, r')"
  using banclient_ok [of now request session r] assms by (simp add: ok_then_def)

definition ban_demo :: baseline_runtime where
  "ban_demo = empty_runtime\<lparr>rt_store := empty_store\<lparr>
     st_query_accounts :=
       [(''ops'', token_account\<lparr>qa_permissions :=
           [(''b_client_ban_delete'', perm 1), (''i_client_ban_max_bantime'', perm 3600),
            (''i_client_ban_power'', perm 75)]\<rparr>)],
     st_server_groups := [(7, new_server_group 7 ''Guest Server Query'' 1)],
     st_online_clients := [(10, seed_online_client_10 1000), (11, seed_online_client_11 1000)]\<rparr>\<rparr>"

definition ban_request :: "string \<Rightarrow> command_request" where
  "ban_request time = \<lparr>command = ''banclient'', positional_args = [],
     named_args = [(''banreason'', ''spam''), (''clid'', ''10''), (''time'', time)], option_groups = [], flags = []\<rparr>"

theorem banclient_correct_witness:
  "client_banned 5000 (ban_request ''600'') token_session ban_demo
     (handle_banclient 5000 (ban_request ''600'') token_session ban_demo)
   \<and> error_id (fst (handle_banclient 5000 (ban_request ''7200'') token_session ban_demo)) = 0xA08"
proof -
  have run: "error_id (fst (handle_banclient 5000 (ban_request ''600'') token_session ban_demo)) = 0"
    and long: "error_id (fst (handle_banclient 5000 (ban_request ''7200'') token_session ban_demo)) = 0xA08"
    by code_simp+
  have "client_banned 5000 (ban_request ''600'') token_session ban_demo
     (fst (handle_banclient 5000 (ban_request ''600'') token_session ban_demo),
      snd (handle_banclient 5000 (ban_request ''600'') token_session ban_demo))"
    by (rule banclient_correct [OF _ run]) simp
  then show ?thesis using long by simp
qed

subsection \<open>Complaints\<close>

lemma remove_bots_complaints: "st_complaints (rt_store (snd (remove_bots sid cids r))) = st_complaints (rt_store r)"
  unfolding remove_bots_def
  by (induction cids rule: rev_induct) (auto simp: remove_bot_client_def case_prod_beta)

lemma remove_client_complaints: "st_complaints (rt_store (remove_client notify i r)) = st_complaints (rt_store r)"
proof -
  have "st_complaints (rt_store (snd (remove_channel_without_session_reassign sid cid s))) = st_complaints (rt_store s)"
    for sid cid s
    by (auto simp: remove_channel_without_session_reassign_def Let_def put_channels_def split: option.split)
  then have "st_complaints (rt_store (snd (cleanup_temporary_channel sid cid s))) = st_complaints (rt_store s)" for sid cid s
    by (auto simp: cleanup_temporary_channel_def Let_def case_prod_beta remove_bots_complaints split: option.split)
  then have "st_complaints (rt_store (cleanup_after_client c s)) = st_complaints (rt_store s)" for c s
    by (auto simp: cleanup_after_client_def emit_def split: prod.split option.split) (metis snd_conv)+
  then show ?thesis
    by (auto simp: remove_client_def Let_def clear_client_media_broadcasts_def split: option.split)
qed

lemma create_ban_frame:
  "st_complaints (rt_store (snd (create_manual_active_ban now sid n u h ip re d iname idb iuid r))) = st_complaints (rt_store r)"
  by (simp add: create_manual_active_ban_def add_ban_def Let_def prune_expired_active_bans_def)

lemma autoban_effect:
  "st_complaints (rt_store (autoban now sid dbid uid name r))
     = filter (\<lambda>c. \<not> complaint_about sid dbid c) (st_complaints (rt_store r))"
  "uid \<noteq> [] \<Longrightarrow> time_left now (autoban_time r sid) later \<Longrightarrow> refused later sid uid ip (autoban now sid dbid uid name r)"
  "online_client_by_cldbid r sid dbid = Some c \<Longrightarrow>
   bt_get (st_online_clients (rt_store (autoban now sid dbid uid name r))) (oc_id c) = None"
proof -
  let ?r1 = "upd_store (st_complaints_update (filter (\<lambda>c. \<not> complaint_about sid dbid c))) r"
  have online: "online_client_by_cldbid ?r1 sid dbid = online_client_by_cldbid r sid dbid"
    by (simp add: online_client_by_cldbid_def)
  show "st_complaints (rt_store (autoban now sid dbid uid name r))
     = filter (\<lambda>c. \<not> complaint_about sid dbid c) (st_complaints (rt_store r))"
    by (simp add: autoban_def Let_def create_ban_frame remove_session_client_def remove_client_complaints split: option.split)
  show "bt_get (st_online_clients (rt_store (autoban now sid dbid uid name r))) (oc_id c) = None"
    if "online_client_by_cldbid r sid dbid = Some c" for c
    using that online by (simp add: autoban_def Let_def remove_session_client_def remove_client_frame)
  show "refused later sid uid ip (autoban now sid dbid uid name r)"
    if "uid \<noteq> []" "time_left now (autoban_time r sid) later"
  proof -
    define ip0 where "ip0 = unwrap_or [] (map_option oc_connection_ip (online_client_by_cldbid r sid dbid))"
    define res where "res = create_manual_active_ban now sid name uid [] ip0 ''Too many complaints''
      (autoban_time r sid) ''Server'' 0 ''Server'' ?r1"
    obtain b where b: "bt_get (st_active_bans (rt_store (snd res))) (fst res) = Some b"
      "ab_server_id b = sid" "ab_unique_identifier b = uid" "ab_created_at b = now"
      "ab_duration_seconds b = autoban_time r sid"
      by (auto simp: res_def create_manual_active_ban_def add_ban_get case_prod_beta)
    have "st_active_bans (rt_store (autoban now sid dbid uid name r)) = st_active_bans (rt_store (snd res))"
      by (simp add: autoban_def Let_def online res_def ip0_def remove_session_client_def remove_client_frame split: option.split)
    then show ?thesis
      using refused_by_ban [of "autoban now sid dbid uid name r" "fst res" b sid uid ip later] b that
      by (auto simp: ban_matches_def ban_in_force_def time_left_def)
  qed
qed


definition complaint_filed ::
    "u64 \<Rightarrow> command_request \<Rightarrow> query_session \<Rightarrow> baseline_runtime \<Rightarrow> query_response \<times> baseline_runtime \<Rightarrow> bool" where
  "complaint_filed now request session r res =
     (\<exists>dbid uid i name actor p.
        let sid = unwrap_or 1 (qs_selected_virtual_server_id session);
            about = complaint_about sid dbid;
            old = st_complaints (rt_store r);
            new = st_complaints (rt_store (snd res));
            threshold = autoban_count r sid
        in arg_u64 request ''tcldbid'' = Some dbid
           \<and> query_actor_effective_permissions r session = Inr (actor, p)
           \<and> lookup_client_identity_by_dbid r sid dbid = Some (uid, i, name)
           \<and> dbid \<noteq> ac_client_database_id actor
           \<and> \<not> list_ex (\<lambda>c. about c \<and> cc_from_database_id c = ac_client_database_id actor) old
           \<and> filter (\<lambda>c. \<not> about c) new = filter (\<lambda>c. \<not> about c) old
           \<and> (if 0 < threshold \<and> threshold \<le> Suc (length (filter about old))
              then filter about new = []
                   \<and> (\<forall>later ip. uid \<noteq> [] \<and> time_left now (autoban_time r sid) later \<longrightarrow>
                        refused later sid uid ip (snd res))
                   \<and> (\<forall>c. online_client_by_cldbid r sid dbid = Some c \<longrightarrow>
                        bt_get (st_online_clients (rt_store (snd res))) (oc_id c) = None)
              else length (filter about new) = Suc (length (filter about old)) \<and> length new = Suc (length old)))"

lemma property_frame:
  "autoban_count (upd_store (st_complaints_update f) r) sid = autoban_count r sid"
  "autoban_time (upd_store (st_complaints_update f) r) sid = autoban_time r sid"
  "online_client_by_cldbid (upd_store (st_complaints_update f) r) sid dbid = online_client_by_cldbid r sid dbid"
  by (simp_all add: autoban_count_def autoban_time_def server_property_def online_client_by_cldbid_def)

lemma complaint_filedI:
  assumes "arg_u64 request ''tcldbid'' = Some dbid"
    "query_actor_effective_permissions r session = Inr (actor, p)"
    "dbid \<noteq> ac_client_database_id actor"
    "lookup_client_identity_by_dbid r (unwrap_or 1 (qs_selected_virtual_server_id session)) dbid = Some (uid, i, name)"
    "\<not> list_ex (\<lambda>c. complaint_about (unwrap_or 1 (qs_selected_virtual_server_id session)) dbid c
         \<and> cc_from_database_id c = ac_client_database_id actor) (st_complaints (rt_store r))"
    and c: "cc_server_id c = unwrap_or 1 (qs_selected_virtual_server_id session)" "cc_target_database_id c = dbid"
  shows "complaint_filed now request session r (response_ok, file_complaint now c uid r)"
proof -
  let ?sid = "unwrap_or 1 (qs_selected_virtual_server_id session)"
  let ?r1 = "upd_store (st_complaints_update (\<lambda>cs. cs @ [c])) r"
  have about: "complaint_about ?sid dbid c" using c by (simp add: complaint_about_def)
  show ?thesis
  proof (cases "0 < autoban_count r ?sid
      \<and> autoban_count r ?sid \<le> Suc (length (filter (complaint_about ?sid dbid) (st_complaints (rt_store r))))")
    case True
    then have "file_complaint now c uid r = autoban now ?sid dbid uid (cc_target_name c) ?r1"
      using about c by (simp add: file_complaint_def Let_def property_frame)
    then show ?thesis
      using assms(1-5) True about autoban_effect [where now = now and sid = ?sid and dbid = dbid and uid = uid
          and name = "cc_target_name c" and r = ?r1]
      by (auto simp: complaint_filed_def Let_def property_frame)
  next
    case False
    then have "file_complaint now c uid r = ?r1"
      using about c by (auto simp: file_complaint_def Let_def property_frame)
    then show ?thesis using assms(1-5) False about by (auto simp: complaint_filed_def Let_def)
  qed
qed

lemma complainadd_ok: "ok_then (complaint_filed now request session r) (handle_complainadd now request session r)"
  unfolding handle_complainadd_def
  by (intro ok_then_branches;
      (rule ok_then_error, fastforce simp: login_required_def dest: actor_permissions_error target_errors)?)
    (hypsubst+, rule ok_then_I, rule complaint_filedI, assumption+, simp_all)

text \<open>
  A successful \<open>complainadd\<close> is the actor's first complaint about this other client. It
  adds one complaint, unless the complaints about the client then reach the server's limit: in this
  case the complaints about the client are cleared, the client is no longer online and its unique
  identifier is banned for the configured time. The complaints about everybody else stay as they were.
\<close>

theorem complainadd_correct:
  assumes "handle_complainadd now request session r = (resp, r')" and "error_id resp = 0"
  shows "complaint_filed now request session r (resp, r')"
  using complainadd_ok [of now request session r] assms by (simp add: ok_then_def)

definition complain_demo :: baseline_runtime where
  "complain_demo = upd_store (\<lambda>s. s\<lparr>
     st_instance_properties := [(''vs:1:virtualserver_complain_autoban_count'', ''2'')],
     st_complaints := [\<lparr>cc_server_id = 1, cc_target_database_id = 40, cc_target_name = ''ScP'',
       cc_from_database_id = 41, cc_from_name = ''Rabe85'', cc_message = ''noise'', cc_timestamp = 900\<rparr>]\<rparr>) ban_demo"

definition complain_request :: command_request where
  "complain_request = \<lparr>command = ''complainadd'', positional_args = [],
     named_args = [(''message'', ''noise''), (''tcldbid'', ''40'')], option_groups = [], flags = []\<rparr>"

theorem complainadd_correct_witness:
  "complaint_filed 5000 complain_request token_session complain_demo
     (handle_complainadd 5000 complain_request token_session complain_demo)
   \<and> st_complaints (rt_store (snd (handle_complainadd 5000 complain_request token_session complain_demo))) = []"
proof -
  have run: "error_id (fst (handle_complainadd 5000 complain_request token_session complain_demo)) = 0"
    and none: "st_complaints (rt_store (snd (handle_complainadd 5000 complain_request token_session complain_demo))) = []"
    by code_simp+
  have "complaint_filed 5000 complain_request token_session complain_demo
     (fst (handle_complainadd 5000 complain_request token_session complain_demo),
      snd (handle_complainadd 5000 complain_request token_session complain_demo))"
    by (rule complainadd_correct [OF _ run]) simp
  then show ?thesis using none by simp
qed

end
