(* ===== verification/Query_Accounts.thy ===== *)
theory Query_Accounts
  imports Bans
begin

text \<open>
  The query accounts, \<open>runtime/handlers/query_accounts.rs\<close>: listing, creating, renaming, changing the
  password and deleting. Each of the last four asks for one of two permissions: the one for every
  account, or the one for the accounts of the actor's own identity.
\<close>

subsection \<open>Permissions\<close>

definition own_or_any_permission :: "perm_map \<Rightarrow> bool \<Rightarrow> string \<Rightarrow> string \<Rightarrow> perm_check" where
  "own_or_any_permission actor_permissions own any_name own_name =
     (if own then check_required_permission actor_permissions [any_name, own_name] own_name
      else check_required_permission actor_permissions [any_name] any_name)"

definition generated_password :: "string \<Rightarrow> string" where
  "generated_password login_name = ''generated-'' @ login_name"

subsection \<open>Listing\<close>

definition query_account_row :: "query_session \<Rightarrow> int \<Rightarrow> query_account \<Rightarrow> row" where
  "query_account_row session requested_server_id account =
     insert_fields
       [(''client_bounded_server'', word_to_string (unwrap_or 0 (qa_server_id account))),
        (''client_login_name'', qa_login_name account),
        (''client_unique_identifier'', query_account_unique_identifier account),
        (''flag_all'', flag_string (requested_server_id < 0)),
        (''flag_own'',
         flag_string
           (qs_authenticated_login session = Some (qa_login_name account)
            \<or> (case qs_actor_client_database_id_override session of
                   None \<Rightarrow> False
                 | Some d \<Rightarrow> qa_client_database_id account = Some d))),
        (''server_id'', int_to_string requested_server_id)] []"

definition handle_querylist :: "command_request \<Rightarrow> query_session \<Rightarrow> baseline_runtime \<Rightarrow> query_response" where
  "handle_querylist request session r =
     (if \<not> session_has_permission_actor session then response_error 521 ''login required''
      else
        case (case arg request ''server_id'' of None \<Rightarrow> Some (-1) | Some v \<Rightarrow> parse_int 32 v) of
          None \<Rightarrow> response_error 512 ''server_id must be an integer''
        | Some requested_server_id \<Rightarrow>
            response_ok_rows
              (map (query_account_row session requested_server_id)
                 (filter (\<lambda>a. requested_server_id < 0
                              \<or> qa_server_id a = Some (word_of_int requested_server_id))
                    (bt_values (st_query_accounts (rt_store r))))))"

subsection \<open>Creating\<close>

definition new_query_account ::
    "string \<Rightarrow> string \<Rightarrow> u32 option \<Rightarrow> u64 \<Rightarrow> u32 list \<Rightarrow> query_account" where
  "new_query_account login_name password server_id dbid groups =
     \<lparr>qa_login_name = login_name, qa_password = password, qa_server_id = server_id,
      qa_client_database_id = Some dbid, qa_server_groups = groups, qa_permissions = []\<rparr>"

definition query_client_record :: "u64 \<Rightarrow> u64 \<Rightarrow> string \<Rightarrow> client" where
  "query_client_record now dbid login_name =
     \<lparr>cl_database_id = dbid, cl_unique_identifier = login_name, cl_nickname = login_name,
      cl_description = [], cl_created_at = now, cl_last_connected_at = now, cl_total_connections = 1,
      cl_month_bytes_uploaded = 0, cl_month_bytes_downloaded = 0, cl_total_bytes_uploaded = 0,
      cl_total_bytes_downloaded = 0, cl_client_flag_avatar = []\<rparr>"

definition store_query_account ::
    "u64 \<Rightarrow> string \<Rightarrow> string \<Rightarrow> u32 option \<Rightarrow> u64 \<Rightarrow> baseline_runtime \<Rightarrow> baseline_runtime" where
  "store_query_account now login_name password server_id dbid r =
     (let account = new_query_account login_name password server_id dbid
                      (default_server_groups_for_new_query_account r);
          record = query_client_record now dbid login_name
      in upd_store (st_clients_update (or_insert dbid record))
           (emit [DbSaveClient record]
             (upd_store (st_query_accounts_update (bt_insert login_name account)) r)))"

definition handle_querycreate ::
    "u64 \<Rightarrow> command_request \<Rightarrow> query_session \<Rightarrow> baseline_runtime \<Rightarrow> query_response \<times> baseline_runtime" where
  "handle_querycreate now request session r =
     (if \<not> session_has_permission_actor session then (response_error 521 ''login required'', r)
      else
     (case query_actor_effective_permissions r session of
        Inl e \<Rightarrow> (e, r)
      | Inr (actor, perms) \<Rightarrow>
     (case arg request ''client_login_name'' of
        None \<Rightarrow> (response_error 512 ''client_login_name is required'', r)
      | Some login_name \<Rightarrow>
      if bt_contains_key (st_query_accounts (rt_store r)) login_name
      then (response_error 769 ''query account already exists'', r)
      else
        let password = unwrap_or (generated_password login_name) (arg request ''client_login_password'');
            server_id = arg_u32 request ''server_id''
        in case (case arg_u64 request ''cldbid'' of
                   Some d \<Rightarrow> (d, r)
                 | None \<Rightarrow> allocate_client_database_id r) of
             (dbid, r1) \<Rightarrow>
               (case own_or_any_permission perms (dbid = ac_client_database_id actor)
                       ''b_client_query_create'' ''b_client_query_create_own'' of
                  Inl p \<Rightarrow> (insufficient_permission_response r1 p, r1)
                | Inr _ \<Rightarrow>
                    (response_ok_row
                       ((case server_id of
                           None \<Rightarrow> id
                         | Some s \<Rightarrow> bt_insert ''client_bounded_server'' (word_to_string s))
                        (insert_fields
                          [(''client_login_name'', login_name), (''client_login_password'', password),
                           (''cldbid'', word_to_string dbid)] [])),
                     store_query_account now login_name password server_id dbid r1)))))"

subsection \<open>Renaming\<close>

definition rename_account :: "string \<Rightarrow> string \<Rightarrow> query_account \<Rightarrow> baseline_runtime \<Rightarrow> baseline_runtime" where
  "rename_account login_name new_login_name account r =
     (let r1 = upd_store
            (st_query_accounts_update
              (\<lambda>m. bt_insert new_login_name (account\<lparr>qa_login_name := new_login_name\<rparr>)
                     (bt_remove login_name m))) r
      in case bt_get (rt_session_snapshots r1) login_name of
           None \<Rightarrow> r1
         | Some snapshot \<Rightarrow>
             r1\<lparr>rt_session_snapshots :=
               bt_insert new_login_name snapshot (bt_remove login_name (rt_session_snapshots r1))\<rparr>)"

definition handle_queryrename ::
    "command_request \<Rightarrow> query_session \<Rightarrow> baseline_runtime \<Rightarrow>
     query_response \<times> query_session \<times> baseline_runtime" where
  "handle_queryrename request session r =
     (if \<not> session_has_permission_actor session then (response_error 521 ''login required'', session, r)
      else
     (case query_actor_effective_permissions r session of
        Inl e \<Rightarrow> (e, session, r)
      | Inr (actor, perms) \<Rightarrow>
     (case arg request ''client_login_name'' of
        None \<Rightarrow> (response_error 512 ''client_login_name is required'', session, r)
      | Some login_name \<Rightarrow>
     (case arg request ''client_new_login_name'' of
        None \<Rightarrow> (response_error 512 ''client_new_login_name is required'', session, r)
      | Some new_login_name \<Rightarrow>
      if bt_contains_key (st_query_accounts (rt_store r)) new_login_name
      then (response_error 769 ''target query account already exists'', session, r)
      else
     (case bt_get (st_query_accounts (rt_store r)) login_name of
        None \<Rightarrow> (response_error 768 ''query account not found'', session, r)
      | Some account \<Rightarrow>
     (case own_or_any_permission perms (qa_client_database_id account = Some (ac_client_database_id actor))
             ''b_client_query_rename'' ''b_client_query_rename_own'' of
        Inl p \<Rightarrow> (insufficient_permission_response r p, session, r)
      | Inr _ \<Rightarrow>
          let row = bt_insert ''client_login_name'' new_login_name [];
              r' = rename_account login_name new_login_name account r
          in if qs_authenticated_login session = Some login_name
             then (response_ok_row (bt_insert ''renamed_current_login'' ''1'' row),
                   session\<lparr>qs_authenticated_login := Some new_login_name\<rparr>, r')
             else (response_ok_row row, session, r')))))))"

subsection \<open>Changing the password\<close>

definition handle_querychangepassword ::
    "command_request \<Rightarrow> query_session \<Rightarrow> baseline_runtime \<Rightarrow> query_response \<times> baseline_runtime" where
  "handle_querychangepassword request session r =
     (if \<not> session_has_permission_actor session then (response_error 521 ''login required'', r)
      else
     (case query_actor_effective_permissions r session of
        Inl e \<Rightarrow> (e, r)
      | Inr (actor, perms) \<Rightarrow>
     (case arg request ''client_login_name'' of
        None \<Rightarrow> (response_error 512 ''client_login_name is required'', r)
      | Some login_name \<Rightarrow>
     (case bt_get (st_query_accounts (rt_store r)) login_name of
        None \<Rightarrow> (response_error 768 ''query account not found'', r)
      | Some account \<Rightarrow>
     (case own_or_any_permission perms (qa_client_database_id account = Some (ac_client_database_id actor))
             ''b_client_query_change_password'' ''b_client_query_change_own_password'' of
        Inl p \<Rightarrow> (insufficient_permission_response r p, r)
      | Inr _ \<Rightarrow>
          let next_secret = unwrap_or (generated_password login_name) (arg request ''client_login_password'')
          in (response_ok_row
                (insert_fields [(''client_login_name'', login_name), (''client_login_password'', next_secret)] []),
              upd_store
                (st_query_accounts_update
                  (bt_update login_name (qa_password_update (\<lambda>_. next_secret)))) r))))))"

subsection \<open>Deleting\<close>

definition forget_identity :: "u64 option \<Rightarrow> in_memory_store \<Rightarrow> in_memory_store" where
  "forget_identity client_database_id s =
     (case client_database_id of
        None \<Rightarrow> s
      | Some d \<Rightarrow>
          s\<lparr>st_channel_group_assignments :=
               filter (\<lambda>a. cga_client_database_id a \<noteq> d) (st_channel_group_assignments s),
            st_channel_client_permissions :=
               filter (\<lambda>t. ccp_client_database_id t \<noteq> d) (st_channel_client_permissions s)\<rparr>)"

definition delete_account :: "string \<Rightarrow> query_account \<Rightarrow> baseline_runtime \<Rightarrow> baseline_runtime" where
  "delete_account login_name account r =
     upd_store (forget_identity (qa_client_database_id account))
       (upd_store (st_query_accounts_update (bt_remove login_name))
         (r\<lparr>rt_session_snapshots := bt_remove login_name (rt_session_snapshots r)\<rparr>))"

definition handle_querydelete ::
    "command_request \<Rightarrow> query_session \<Rightarrow> baseline_runtime \<Rightarrow> query_response \<times> baseline_runtime" where
  "handle_querydelete request session r =
     (if \<not> session_has_permission_actor session then (response_error 521 ''login required'', r)
      else
     (case query_actor_effective_permissions r session of
        Inl e \<Rightarrow> (e, r)
      | Inr (actor, perms) \<Rightarrow>
     (case arg request ''client_login_name'' of
        None \<Rightarrow> (response_error 512 ''client_login_name is required'', r)
      | Some login_name \<Rightarrow>
     (case bt_get (st_query_accounts (rt_store r)) login_name of
        None \<Rightarrow> (response_error 768 ''query account not found'', r)
      | Some account \<Rightarrow>
     (case own_or_any_permission perms (qa_client_database_id account = Some (ac_client_database_id actor))
             ''b_client_query_delete'' ''b_client_query_delete_own'' of
        Inl p \<Rightarrow> (insufficient_permission_response r p, r)
      | Inr _ \<Rightarrow> (response_ok, delete_account login_name account r))))))"

subsection \<open>Who may change an account\<close>

definition holds_permission :: "perm_map \<Rightarrow> string \<Rightarrow> bool" where
  "holds_permission perms name = (case bt_get perms name of None \<Rightarrow> False | Some a \<Rightarrow> 1 \<le> pa_value a)"

lemma required_granted: "check_required_permission perms names failed = Inr u \<longleftrightarrow> list_ex (holds_permission perms) names"
  using required_permission_iff [of perms names failed]
  by (auto simp: holds_permission_def list_ex_iff split: option.splits)

lemma own_or_any_granted:
  "own_or_any_permission perms own any_name own_name = Inr u
     \<longleftrightarrow> holds_permission perms any_name \<or> own \<and> holds_permission perms own_name"
  by (auto simp: own_or_any_permission_def required_granted)

abbreviation accounts :: "baseline_runtime \<Rightarrow> (string, query_account) btree" where
  "accounts r \<equiv> st_query_accounts (rt_store r)"

definition own_account :: "permission_actor_context \<Rightarrow> query_account \<Rightarrow> bool" where
  "own_account actor a = (qa_client_database_id a = Some (ac_client_database_id actor))"

text \<open>\<open>may_change any own\<close>: the session's actor has the permission for every account, or the account is
  its own and it has the permission for its own.\<close>

definition may_change :: "string \<Rightarrow> string \<Rightarrow> query_session \<Rightarrow> baseline_runtime \<Rightarrow> query_account \<Rightarrow> bool" where
  "may_change any_name own_name session r a =
     (case query_actor_effective_permissions r session of
        Inl _ \<Rightarrow> False
      | Inr (actor, perms) \<Rightarrow>
          holds_permission perms any_name \<or> own_account actor a \<and> holds_permission perms own_name)"

text \<open>Accounts are filed under their login name.\<close>

definition accounts_ok :: "baseline_runtime \<Rightarrow> bool" where
  "accounts_ok r = (bt_inv (accounts r) \<and> (\<forall>k a. bt_get (accounts r) k = Some a \<longrightarrow> qa_login_name a = k))"

locale account_command =
  fixes any_name own_name :: string
    and run :: "command_request \<Rightarrow> query_session \<Rightarrow> baseline_runtime \<Rightarrow> query_response \<times> baseline_runtime"
  assumes authorized: "bt_get (accounts r) k = Some a \<Longrightarrow>
      bt_get (accounts (snd (run request session r))) k \<noteq> Some a \<Longrightarrow> may_change any_name own_name session r a"
    and filed: "accounts_ok r \<Longrightarrow> accounts_ok (snd (run request session r))"
begin

lemma foreign_kept:
  assumes "query_actor_effective_permissions r session = Inr (actor, perms)"
    and "\<not> holds_permission perms any_name" and "\<not> own_account actor a" and "bt_get (accounts r) k = Some a"
  shows "bt_get (accounts (snd (run request session r))) k = Some a"
  using authorized [OF assms(4)] assms by (fastforce simp: may_change_def)

lemma anonymous_kept:
  assumes "query_actor_effective_permissions r session = Inl e" and "bt_get (accounts r) k = Some a"
  shows "bt_get (accounts (snd (run request session r))) k = Some a"
  using authorized [OF assms(2)] assms(1) by (fastforce simp: may_change_def)

end

lemma accounts_ok_insert:
  "accounts_ok r \<Longrightarrow> qa_login_name a = k \<Longrightarrow> st_query_accounts (rt_store r') = bt_insert k a (accounts r)
    \<Longrightarrow> accounts_ok r'"
  by (auto simp: accounts_ok_def bt_get_insert split: if_splits)

lemma create_accounts [simp]:
  "accounts (store_query_account now login_name password server_id dbid r)
   = bt_insert login_name
       (new_query_account login_name password server_id dbid (default_server_groups_for_new_query_account r))
       (accounts r)"
  by (simp add: store_query_account_def Let_def)

lemma rename_accounts [simp]:
  "accounts (rename_account login_name new_login_name account r)
   = bt_insert new_login_name (account\<lparr>qa_login_name := new_login_name\<rparr>) (bt_remove login_name (accounts r))"
  by (simp add: rename_account_def Let_def split: option.splits)

lemma delete_accounts [simp]:
  "accounts (delete_account login_name account r) = bt_remove login_name (accounts r)"
  by (simp add: delete_account_def forget_identity_def split: option.splits)

lemma allocate_accounts [simp]: "accounts (snd (allocate_client_database_id r)) = accounts r"
  by (simp add: allocate_client_database_id_def Let_def)

text \<open>What each command does to the table: nothing, or the one change of its last branch.\<close>

lemma querycreate_after:
  assumes "P (accounts r)"
    and "\<And>k a. bt_get (accounts r) k = None \<Longrightarrow> qa_login_name a = k \<Longrightarrow> P (bt_insert k a (accounts r))"
  shows "after (\<lambda>s. P (accounts s)) (handle_querycreate now request session r)"
  unfolding handle_querycreate_def
  by (intro after_branches after_pair)
    (auto simp: bt_contains_key_def new_query_account_def allocate_client_database_id_def Let_def
      intro: assms split: option.splits)

lemma queryrename_after:
  assumes "P (accounts r)"
    and "\<And>k k' a. bt_get (accounts r) k = Some a \<Longrightarrow> bt_get (accounts r) k' = None \<Longrightarrow>
      may_change ''b_client_query_rename'' ''b_client_query_rename_own'' session r a \<Longrightarrow>
      P (bt_insert k' (a\<lparr>qa_login_name := k'\<rparr>) (bt_remove k (accounts r)))"
  shows "after (\<lambda>s. P (accounts (snd s))) (handle_queryrename request session r)"
  unfolding handle_queryrename_def
  by (intro after_branches after_pair)
    (auto simp: bt_contains_key_def own_or_any_granted may_change_def own_account_def intro: assms)

lemma querychangepassword_after:
  assumes "P (accounts r)"
    and "\<And>k a p. bt_get (accounts r) k = Some a \<Longrightarrow>
      may_change ''b_client_query_change_password'' ''b_client_query_change_own_password'' session r a \<Longrightarrow>
      P (bt_update k (qa_password_update (\<lambda>_. p)) (accounts r))"
  shows "after (\<lambda>s. P (accounts s)) (handle_querychangepassword request session r)"
  unfolding handle_querychangepassword_def
  by (intro after_branches after_pair)
    (auto simp: own_or_any_granted may_change_def own_account_def intro: assms)

lemma querydelete_after:
  assumes "P (accounts r)"
    and "\<And>k a. bt_get (accounts r) k = Some a \<Longrightarrow>
      may_change ''b_client_query_delete'' ''b_client_query_delete_own'' session r a \<Longrightarrow>
      P (bt_remove k (accounts r))"
  shows "after (\<lambda>s. P (accounts s)) (handle_querydelete request session r)"
  unfolding handle_querydelete_def
  by (intro after_branches after_pair)
    (auto simp: own_or_any_granted may_change_def own_account_def intro: assms)

definition drop_session ::
    "query_response \<times> query_session \<times> baseline_runtime \<Rightarrow> query_response \<times> baseline_runtime" where
  "drop_session res = (fst res, snd (snd res))"

definition filed :: "(string, query_account) btree \<Rightarrow> bool" where
  "filed m = (bt_inv m \<and> (\<forall>k a. bt_get m k = Some a \<longrightarrow> qa_login_name a = k))"

lemma accounts_ok_filed: "accounts_ok r = filed (accounts r)"
  by (simp add: accounts_ok_def filed_def)

lemma filed_changes:
  "filed m \<Longrightarrow> qa_login_name a = k \<Longrightarrow> filed (bt_insert k a m)"
  "filed m \<Longrightarrow> filed (bt_remove k m)"
  "filed m \<Longrightarrow> filed (bt_update k (qa_password_update f) m)"
  by (auto simp: filed_def btree_simps split: if_splits)

interpretation create_acc: account_command "''b_client_query_create''"
  "''b_client_query_create_own''" "handle_querycreate now" for now
proof unfold_locales
  fix r k a request session
  assume "bt_get (accounts r) k = Some a"
  then have "after (\<lambda>s. bt_get (accounts s) k = Some a \<or> may_change ''b_client_query_create'' ''b_client_query_create_own'' session r a) (handle_querycreate now request session r)"
    by (intro querycreate_after [where P = "\<lambda>m. bt_get m k = Some a \<or> may_change ''b_client_query_create'' ''b_client_query_create_own'' session r a"]) (auto simp: bt_get_insert)
  moreover assume "bt_get (accounts (snd (handle_querycreate now request session r))) k \<noteq> Some a"
  ultimately show "may_change ''b_client_query_create'' ''b_client_query_create_own'' session r a" by (simp add: after_def)
next
  fix r request session
  assume "accounts_ok r"
  then have "after (\<lambda>s. filed (accounts s)) (handle_querycreate now request session r)"
    by (intro querycreate_after [where P = filed]) (auto simp: accounts_ok_filed intro: filed_changes)
  then show "accounts_ok (snd (handle_querycreate now request session r))" by (simp add: after_def accounts_ok_filed)
qed

interpretation rename_acc: account_command "''b_client_query_rename''"
  "''b_client_query_rename_own''" "\<lambda>request session r. drop_session (handle_queryrename request session r)"
proof unfold_locales
  fix r k a request session
  assume "bt_get (accounts r) k = Some a"
  then have "after (\<lambda>s. bt_get (accounts (snd s)) k = Some a \<or> may_change ''b_client_query_rename'' ''b_client_query_rename_own'' session r a) (handle_queryrename request session r)"
    by (intro queryrename_after [where P = "\<lambda>m. bt_get m k = Some a \<or> may_change ''b_client_query_rename'' ''b_client_query_rename_own'' session r a"]) (auto simp: bt_get_insert bt_get_remove)
  moreover assume "bt_get (accounts (snd (drop_session (handle_queryrename request session r)))) k \<noteq> Some a"
  ultimately show "may_change ''b_client_query_rename'' ''b_client_query_rename_own'' session r a" by (simp add: after_def drop_session_def)
next
  fix r request session
  assume "accounts_ok r"
  then have "after (\<lambda>s. filed (accounts (snd s))) (handle_queryrename request session r)"
    by (intro queryrename_after [where P = filed]) (auto simp: accounts_ok_filed intro: filed_changes)
  then show "accounts_ok (snd (drop_session (handle_queryrename request session r)))" by (simp add: after_def accounts_ok_filed drop_session_def)
qed

interpretation password_acc: account_command "''b_client_query_change_password''"
  "''b_client_query_change_own_password''" handle_querychangepassword
proof unfold_locales
  fix r k a request session
  assume "bt_get (accounts r) k = Some a"
  then have "after (\<lambda>s. bt_get (accounts s) k = Some a \<or> may_change ''b_client_query_change_password'' ''b_client_query_change_own_password'' session r a) (handle_querychangepassword request session r)"
    by (intro querychangepassword_after [where P = "\<lambda>m. bt_get m k = Some a \<or> may_change ''b_client_query_change_password'' ''b_client_query_change_own_password'' session r a"]) (auto simp: bt_get_update)
  moreover assume "bt_get (accounts (snd (handle_querychangepassword request session r))) k \<noteq> Some a"
  ultimately show "may_change ''b_client_query_change_password'' ''b_client_query_change_own_password'' session r a" by (simp add: after_def)
next
  fix r request session
  assume "accounts_ok r"
  then have "after (\<lambda>s. filed (accounts s)) (handle_querychangepassword request session r)"
    by (intro querychangepassword_after [where P = filed]) (auto simp: accounts_ok_filed intro: filed_changes)
  then show "accounts_ok (snd (handle_querychangepassword request session r))" by (simp add: after_def accounts_ok_filed)
qed

interpretation delete_acc: account_command "''b_client_query_delete''"
  "''b_client_query_delete_own''" handle_querydelete
proof unfold_locales
  fix r k a request session
  assume "bt_get (accounts r) k = Some a"
  then have "after (\<lambda>s. bt_get (accounts s) k = Some a \<or> may_change ''b_client_query_delete'' ''b_client_query_delete_own'' session r a) (handle_querydelete request session r)"
    by (intro querydelete_after [where P = "\<lambda>m. bt_get m k = Some a \<or> may_change ''b_client_query_delete'' ''b_client_query_delete_own'' session r a"]) (auto simp: bt_get_remove)
  moreover assume "bt_get (accounts (snd (handle_querydelete request session r))) k \<noteq> Some a"
  ultimately show "may_change ''b_client_query_delete'' ''b_client_query_delete_own'' session r a" by (simp add: after_def)
next
  fix r request session
  assume "accounts_ok r"
  then have "after (\<lambda>s. filed (accounts s)) (handle_querydelete request session r)"
    by (intro querydelete_after [where P = filed]) (auto simp: accounts_ok_filed intro: filed_changes)
  then show "accounts_ok (snd (handle_querydelete request session r))" by (simp add: after_def accounts_ok_filed)
qed

lemma querycreate_keeps:
  assumes "bt_get (accounts r) k = Some a"
  shows "bt_get (accounts (snd (handle_querycreate now request session r))) k = Some a"
proof -
  have "after (\<lambda>s. bt_get (accounts s) k = Some a) (handle_querycreate now request session r)"
    using assms by (intro querycreate_after [where P = "\<lambda>m. bt_get m k = Some a"]) (auto simp: bt_get_insert)
  then show ?thesis by (simp add: after_def)
qed

inductive account_step :: "query_session \<Rightarrow> baseline_runtime \<Rightarrow> baseline_runtime \<Rightarrow> bool" where
  create: "handle_querycreate now request session r = (resp, r') \<Longrightarrow> account_step session r r'"
| rename: "handle_queryrename request session r = (resp, session', r') \<Longrightarrow> account_step session r r'"
| password: "handle_querychangepassword request session r = (resp, r') \<Longrightarrow> account_step session r r'"
| delete: "handle_querydelete request session r = (resp, r') \<Longrightarrow> account_step session r r'"

lemma account_step_ok: "account_step session r r' \<Longrightarrow> accounts_ok r \<Longrightarrow> accounts_ok r'"
proof (induction rule: account_step.induct)
  case (create now request session r resp r')
  then show ?case using create_acc.filed [of r now request session] by simp
next
  case (rename request session r resp session' r')
  then show ?case using rename_acc.filed [of r request session] by (simp add: drop_session_def)
next
  case (password request session r resp r')
  then show ?case using password_acc.filed [of r request session] by simp
next
  case (delete request session r resp r')
  then show ?case using delete_acc.filed [of r request session] by simp
qed

text \<open>
  Property C25: whatever sequence of query account commands the sessions send, the account table stays
  ordered and every account is filed under its own login name, the name a login is checked against.
\<close>

theorem reachable_accounts_filed:
  assumes "accounts_ok r" and "(\<lambda>r r'. \<exists>session. account_step session r r')\<^sup>*\<^sup>* r r'"
    and "bt_get (accounts r') k = Some a"
  shows "bt_inv (accounts r') \<and> qa_login_name a = k"
proof -
  have "accounts_ok r'" using assms(2,1) by induction (auto intro: account_step_ok)
  then show ?thesis using assms(3) by (simp add: accounts_ok_def)
qed

text \<open>
  Property C18: an actor that has none of the three permissions for every account cannot rename, delete or
  change the password of an account that is not its own, with any of the query account commands,
  and creating an account never changes an existing one.
\<close>

theorem foreign_accounts_untouched:
  assumes "account_step session r r'"
    and "query_actor_effective_permissions r session = Inr (actor, perms)"
    and "\<not> holds_permission perms ''b_client_query_rename''" and "\<not> holds_permission perms ''b_client_query_change_password''"
    and "\<not> holds_permission perms ''b_client_query_delete''"
    and "bt_get (accounts r) k = Some a" and "\<not> own_account actor a"
  shows "bt_get (accounts r') k = Some a"
  using assms
proof (induction rule: account_step.induct)
  case (create now request session r resp r')
  then show ?case using querycreate_keeps [of r k a now request session] by simp
next
  case (rename request session r resp session' r')
  then show ?case using rename_acc.foreign_kept [of r session actor perms a k request] by (simp add: drop_session_def)
next
  case (password request session r resp r')
  then show ?case using password_acc.foreign_kept [of r session actor perms a k request] by simp
next
  case (delete request session r resp r')
  then show ?case using delete_acc.foreign_kept [of r session actor perms a k request] by simp
qed

definition account_demo :: baseline_runtime where
  "account_demo = empty_runtime\<lparr>rt_store := empty_store\<lparr>
     st_query_accounts :=
       [(''ops'', token_account\<lparr>qa_permissions :=
           [(''b_client_query_change_own_password'', perm 1), (''b_client_query_create_own'', perm 1)]\<rparr>),
        (''serveradmin'', token_account\<lparr>qa_login_name := ''serveradmin'', qa_password := ''secret'',
           qa_client_database_id := Some 1, qa_permissions := [(''b_client_query_create'', perm 1)]\<rparr>)],
     st_server_groups := [(7, new_server_group 7 ''Guest Server Query'' 1)]\<rparr>\<rparr>"

definition account_request :: "string \<Rightarrow> (string \<times> string) list \<Rightarrow> command_request" where
  "account_request name args =
     \<lparr>command = name, positional_args = [], named_args = args, option_groups = [args], flags = []\<rparr>"

definition password_request :: "string \<Rightarrow> string \<Rightarrow> command_request" where
  "password_request login password =
     account_request ''querychangepassword'' [(''client_login_name'', login), (''client_login_password'', password)]"

theorem reachable_accounts_filed_witness:
  "let r' = snd (handle_querychangepassword (password_request ''ops'' ''new'') token_session account_demo)
   in map_option qa_password (bt_get (accounts r') ''ops'') = Some ''new'' \<and> bt_inv (accounts r')"
proof -
  let ?res = "handle_querychangepassword (password_request ''ops'' ''new'') token_session account_demo"
  have pw: "map_option qa_password (bt_get (accounts (snd ?res)) ''ops'') = Some ''new''" by code_simp
  then obtain a where a: "bt_get (accounts (snd ?res)) ''ops'' = Some a" by auto
  have "accounts_ok account_demo"
    by (simp add: accounts_ok_def account_demo_def bt_inv_def bt_get_def token_account_def)
  moreover have "account_step token_session account_demo (snd ?res)"
    by (rule account_step.password [of _ _ _ "fst ?res"]) simp
  ultimately have "bt_inv (accounts (snd ?res))"
    using reachable_accounts_filed [OF _ r_into_rtranclp a] by blast
  with pw show ?thesis by (simp add: Let_def)
qed

theorem foreign_accounts_untouched_witness:
  "bt_get (accounts (snd (handle_querychangepassword (password_request ''serveradmin'' ''mine'')
     token_session account_demo))) ''serveradmin'' = bt_get (accounts account_demo) ''serveradmin''"
proof -
  let ?res = "handle_querychangepassword (password_request ''serveradmin'' ''mine'') token_session account_demo"
  have step: "account_step token_session account_demo (snd ?res)"
    by (rule account_step.password [of _ _ _ "fst ?res"]) simp
  have actor: "query_actor_effective_permissions account_demo token_session
      = Inr (\<lparr>ac_server_id = 1, ac_channel_id = 1, ac_client_database_id = 5\<rparr>,
             [(''b_client_query_change_own_password'', perm 1), (''b_client_query_create_own'', perm 1)])"
    by code_simp
  have admin: "bt_get (accounts account_demo) ''serveradmin'' = Some (token_account\<lparr>qa_login_name := ''serveradmin'',
      qa_password := ''secret'', qa_client_database_id := Some 1, qa_permissions := [(''b_client_query_create'', perm 1)]\<rparr>)"
    by (simp add: account_demo_def bt_get_def)
  show ?thesis
    unfolding admin
    by (rule foreign_accounts_untouched [OF step actor _ _ _ admin])
      (simp_all add: holds_permission_def bt_get_def own_account_def token_account_def)
qed

text \<open>
  An account of one's own identity shares the database id of the account it is made with, and the
  permissions of an identity are those of the first account with its id. An account whose name comes
  first therefore replaces the permissions of the one it was made with: after \<open>serveradmin\<close> has created
  \<open>backup\<close> for itself, it may no longer create accounts.
\<close>

definition own_create_request :: command_request where
  "own_create_request = account_request ''querycreate'' [(''cldbid'', ''1''), (''client_login_name'', ''backup'')]"

definition account_admin_session :: query_session where
  "account_admin_session = token_session\<lparr>qs_authenticated_login := Some ''serveradmin''\<rparr>"

theorem own_account_replaces_permissions:
  "let res = handle_querycreate 1700000000 own_create_request account_admin_session account_demo
   in error_id (fst res) = 0
      \<and> error_id (fst (handle_querycreate 1700000001
            (account_request ''querycreate'' [(''client_login_name'', ''next'')]) account_admin_session account_demo)) = 0
      \<and> error_id (fst (handle_querycreate 1700000001
            (account_request ''querycreate'' [(''client_login_name'', ''next'')]) account_admin_session (snd res))) \<noteq> 0"
  by code_simp

end
