(* ===== verification/Messages.thy ===== *)
theory Messages
  imports Query_Accounts "HOL-Library.Sublist"
begin

text \<open>
  Messages: \<open>runtime/handlers/messaging_and_chat.rs\<close>, the recording of messages in \<open>runtime/events.rs\<close>, the
  message targets and the deletion of conversation messages in \<open>runtime/client_and_ban_state.rs\<close>, and the
  conversation histories of \<open>runtime/web.rs\<close>. Times are milliseconds for conversations and seconds for
  offline messages, both arguments.

  A text message may be a command for a music bot; \<open>try_handle_musicbot_chat_command\<close> is the argument
  \<open>chat_command\<close>.
\<close>

subsection \<open>Recording\<close>

record message_target =
  tm_target_mode :: u32
  tm_server_id :: u32
  tm_channel_id :: "u32 option"
  tm_target_client_id :: "u64 option"
  tm_message :: string

text \<open>\<open>entry(k).or_default().push(v)\<close>.\<close>

definition push_entry :: "'k::linorder \<Rightarrow> 'v \<Rightarrow> ('k, 'v list) btree \<Rightarrow> ('k, 'v list) btree" where
  "push_entry k v m = bt_insert k (unwrap_or [] (bt_get m k) @ [v]) m"

definition record_text_message ::
    "u64 \<Rightarrow> message_target \<Rightarrow> u64 \<Rightarrow> string \<Rightarrow> string \<Rightarrow> baseline_runtime \<Rightarrow> u64 \<times> baseline_runtime" where
  "record_text_message now_millis target sender_dbid sender_uid sender_name r =
     (case next_conversation_timestamp now_millis r of
        (timestamp, r1) \<Rightarrow>
          (case (if tm_target_mode target = 2 then tm_channel_id target
                 else if tm_target_mode target = 3 then Some 0 else None) of
             None \<Rightarrow> (timestamp, r1)
           | Some conversation_id \<Rightarrow>
               (timestamp,
                upd_store
                  (st_conversation_messages_update
                    (push_entry (tm_server_id target)
                      \<lparr>cm_conversation_id = conversation_id, cm_timestamp = timestamp,
                       cm_sender_database_id = sender_dbid, cm_sender_unique_id = sender_uid,
                       cm_sender_name = sender_name, cm_message = tm_message target\<rparr>)) r1)))"

definition record_private_message ::
    "u64 \<Rightarrow> u32 \<Rightarrow> conversation_participant \<Rightarrow> conversation_participant \<Rightarrow> string \<Rightarrow> baseline_runtime \<Rightarrow>
     u64 \<times> baseline_runtime" where
  "record_private_message now_millis server_id sender target text r =
     (case next_conversation_timestamp now_millis r of
        (timestamp, r1) \<Rightarrow>
          (timestamp,
           upd_store
             (st_private_messages_update
               (push_entry server_id
                 \<lparr>pm_timestamp = timestamp, pm_sender_database_id = cp_database_id sender,
                  pm_sender_unique_id = cp_unique_identifier sender, pm_sender_name = cp_nickname sender,
                  pm_target_database_id = cp_database_id target,
                  pm_target_unique_id = cp_unique_identifier target, pm_target_name = cp_nickname target,
                  pm_message = text\<rparr>)) r1))"

definition record_private_text_message ::
    "u64 \<Rightarrow> u32 \<Rightarrow> u64 \<Rightarrow> string \<Rightarrow> string \<Rightarrow> u64 \<Rightarrow> string \<Rightarrow> string \<Rightarrow> string \<Rightarrow> baseline_runtime \<Rightarrow>
     u64 \<times> baseline_runtime" where
  "record_private_text_message now_millis server_id sender_dbid sender_uid sender_name target_dbid target_uid
       target_name text r =
     record_private_message now_millis server_id
       \<lparr>cp_database_id = sender_dbid, cp_unique_identifier = sender_uid, cp_nickname = sender_name\<rparr>
       \<lparr>cp_database_id = target_dbid, cp_unique_identifier = target_uid, cp_nickname = target_name\<rparr> text r"

subsection \<open>Targets\<close>

definition resolve_text_message_target ::
    "baseline_runtime \<Rightarrow> u32 \<Rightarrow> u32 option \<Rightarrow> u32 \<Rightarrow> u32 option \<Rightarrow> u64 option \<Rightarrow> string \<Rightarrow>
     u32 \<times> string + message_target" where
  "resolve_text_message_target r server_id current_channel_id target_mode requested_channel_id
       target_client_id text =
     (if target_mode = 1 then
        (case target_client_id of
           None \<Rightarrow> Inl (512, ''target is required for private text messages'')
         | Some clid \<Rightarrow>
             Inr \<lparr>tm_target_mode = target_mode, tm_server_id = server_id, tm_channel_id = None,
                  tm_target_client_id = Some clid, tm_message = text\<rparr>)
      else if target_mode = 2 then
        (case or_else requested_channel_id current_channel_id of
           None \<Rightarrow> Inl (768, ''channel target not available'')
         | Some channel_id \<Rightarrow>
             if snapshot_channel r server_id channel_id = None then Inl (768, ''target channel not found'')
             else Inr \<lparr>tm_target_mode = target_mode, tm_server_id = server_id,
                       tm_channel_id = Some channel_id, tm_target_client_id = None, tm_message = text\<rparr>)
      else if target_mode = 3 then
        Inr \<lparr>tm_target_mode = target_mode, tm_server_id = server_id, tm_channel_id = None,
             tm_target_client_id = None, tm_message = text\<rparr>
      else Inl (512, ''unsupported targetmode''))"

definition text_message_target ::
    "command_request \<Rightarrow> query_session \<Rightarrow> baseline_runtime \<Rightarrow> u32 \<times> string + message_target" where
  "text_message_target request session r =
     (if \<not> session_has_permission_actor session then Inl (521, ''login required'')
      else
     (case qs_selected_virtual_server_id session of
        None \<Rightarrow> Inl (522, ''virtual server selection required'')
      | Some server_id \<Rightarrow>
     (case arg_u32 request ''targetmode'' of
        None \<Rightarrow> Inl (512, ''targetmode is required'')
      | Some target_mode \<Rightarrow>
     (case arg request ''msg'' of
        None \<Rightarrow> Inl (512, ''msg is required'')
      | Some text \<Rightarrow>
          resolve_text_message_target r server_id (qs_current_channel_id session) target_mode
            (arg_u32 request ''cid'') (arg_u64 request ''target'') text))))"

definition online_client_identity :: "baseline_runtime \<Rightarrow> u32 \<Rightarrow> u64 \<Rightarrow> identity option" where
  "online_client_identity r server_id client_id =
     (case bt_get (st_online_clients (rt_store r)) client_id of
        None \<Rightarrow> None
      | Some c \<Rightarrow>
          if oc_server_id c = server_id
          then Some (oc_unique_identifier c, oc_database_id c, oc_nickname c) else None)"

type_synonym chat_command =
  "u32 \<Rightarrow> u64 \<Rightarrow> u32 \<Rightarrow> u64 option \<Rightarrow> string \<Rightarrow> baseline_runtime \<Rightarrow> baseline_runtime"

definition handle_sendtextmessage ::
    "chat_command \<Rightarrow> u64 \<Rightarrow> command_request \<Rightarrow> query_session \<Rightarrow> baseline_runtime \<Rightarrow>
     query_response \<times> baseline_runtime" where
  "handle_sendtextmessage chat_command now_millis request session r =
     (case text_message_target request session r of
        Inl (error, text) \<Rightarrow> (response_error error text, r)
      | Inr target \<Rightarrow>
          let sender = query_session_participant r session;
              finish = (\<lambda>r'. (response_ok,
                          chat_command (tm_server_id target) (qs_client_id session) (tm_target_mode target)
                            (tm_target_client_id target) (tm_message target) r'))
          in if tm_target_mode target = 1 then
               (case tm_target_client_id target of
                  None \<Rightarrow> (response_error 512 ''target is required for private text messages'', r)
                | Some clid \<Rightarrow>
               (case online_client_identity r (tm_server_id target) clid of
                  None \<Rightarrow> (response_error 768 ''target client not found'', r)
                | Some (target_uid, target_dbid, target_name) \<Rightarrow>
                    finish (snd (record_private_message now_millis (tm_server_id target) sender
                      \<lparr>cp_database_id = target_dbid, cp_unique_identifier = target_uid,
                       cp_nickname = target_name\<rparr> (tm_message target) r))))
             else
               finish (snd (record_text_message now_millis target (cp_database_id sender)
                 (cp_unique_identifier sender) (cp_nickname sender) r)))"

subsection \<open>Offline messages\<close>

definition no_actor :: "query_session \<Rightarrow> bool" where
  "no_actor session =
     (\<not> session_has_permission_actor session \<and> qs_actor_client_database_id_override session = None)"

text \<open>\<open>get(k).map(trim).filter(non empty)\<close>.\<close>

definition arg_text :: "command_request \<Rightarrow> string \<Rightarrow> string option" where
  "arg_text request k =
     (case arg request k of None \<Rightarrow> None | Some s \<Rightarrow> if trim s = [] then None else Some (trim s))"

definition handle_messageadd ::
    "u64 \<Rightarrow> command_request \<Rightarrow> query_session \<Rightarrow> baseline_runtime \<Rightarrow> query_response \<times> baseline_runtime" where
  "handle_messageadd now request session r =
     (if no_actor session then (response_error 521 ''login required'', r)
      else
        let server_id = unwrap_or 1 (qs_selected_virtual_server_id session) in
     (case query_actor_effective_permissions r session of
        Inl e \<Rightarrow> (e, r)
      | Inr (actor, perms) \<Rightarrow>
     (case check_required_permission perms [''b_client_offline_textmessage_send'']
             ''b_client_offline_textmessage_send'' of
        Inl p \<Rightarrow> (insufficient_permission_response r p, r)
      | Inr _ \<Rightarrow>
     (case arg_text request ''cluid'' of
        None \<Rightarrow> (response_error 512 ''cluid is required'', r)
      | Some cluid \<Rightarrow>
     (case arg_text request ''subject'' of
        None \<Rightarrow> (response_error 512 ''subject is required'', r)
      | Some subject \<Rightarrow>
     (case arg_text request ''message'' of
        None \<Rightarrow> (response_error 512 ''message is required'', r)
      | Some text \<Rightarrow>
          let (recipient_uid, recipient_dbid) =
                (case lookup_client_identity_by_uid r server_id cluid of
                   Some (uid, dbid, _) \<Rightarrow> (uid, dbid)
                 | None \<Rightarrow> (cluid, 0));
              sender = query_session_participant r session;
              msgid = max (st_next_offline_message_id (rt_store r)) 1
          in (response_ok_row (bt_insert ''msgid'' (word_to_string msgid) []),
              upd_store
                (\<lambda>s. s\<lparr>st_next_offline_message_id := sat_add msgid 1,
                        st_offline_messages := bt_insert msgid
                          \<lparr>om_id = msgid, om_server_id = server_id,
                           om_sender_database_id = ac_client_database_id actor,
                           om_sender_unique_identifier = cp_unique_identifier sender,
                           om_sender_nickname = cp_nickname sender,
                           om_recipient_database_id = recipient_dbid,
                           om_recipient_unique_identifier = recipient_uid, om_subject = subject,
                           om_message = text, om_timestamp = now, om_flag_read = False\<rparr>
                          (st_offline_messages s)\<rparr>) r)))))))"

definition addressed_to :: "conversation_participant \<Rightarrow> offline_message \<Rightarrow> bool" where
  "addressed_to participant msg =
     (om_recipient_unique_identifier msg = cp_unique_identifier participant
      \<or> (cp_database_id participant \<noteq> 0 \<and> om_recipient_database_id msg = cp_database_id participant))"

definition message_row :: "offline_message \<Rightarrow> row" where
  "message_row msg =
     insert_fields
       [(''msgid'', word_to_string (om_id msg)), (''cluid'', om_sender_unique_identifier msg),
        (''subject'', om_subject msg), (''timestamp'', word_to_string (om_timestamp msg)),
        (''flag_read'', flag_string (om_flag_read msg))] []"

definition handle_messagelist :: "query_session \<Rightarrow> baseline_runtime \<Rightarrow> query_response" where
  "handle_messagelist session r =
     (if no_actor session then response_error 521 ''login required''
      else
        let server_id = unwrap_or 1 (qs_selected_virtual_server_id session);
            participant = query_session_participant r session;
            rs = map message_row
                   (filter (\<lambda>msg. om_server_id msg = server_id \<and> addressed_to participant msg)
                     (bt_values (st_offline_messages (rt_store r))))
        in if rs = [] then empty_result else response_ok_rows rs)"

definition message_admin :: "query_session \<Rightarrow> baseline_runtime \<Rightarrow> bool" where
  "message_admin session r =
     (case query_actor_effective_permissions r session of
        Inl _ \<Rightarrow> False
      | Inr (_, perms) \<Rightarrow> 0 < permission_value_or_default perms [''b_permission_modify_power_ignore''])"

definition message_visible :: "query_session \<Rightarrow> baseline_runtime \<Rightarrow> offline_message \<Rightarrow> bool" where
  "message_visible session r msg =
     (om_server_id msg = unwrap_or 1 (qs_selected_virtual_server_id session)
      \<and> (message_admin session r \<or> addressed_to (query_session_participant r session) msg))"

definition set_flag_read :: "u64 \<Rightarrow> bool \<Rightarrow> baseline_runtime \<Rightarrow> baseline_runtime" where
  "set_flag_read msgid flag r =
     upd_store (st_offline_messages_update (bt_update msgid (om_flag_read_update (\<lambda>_. flag)))) r"

definition handle_messageget ::
    "command_request \<Rightarrow> query_session \<Rightarrow> baseline_runtime \<Rightarrow> query_response \<times> baseline_runtime" where
  "handle_messageget request session r =
     (if no_actor session then (response_error 521 ''login required'', r)
      else
     (case arg_u64 request ''msgid'' of
        None \<Rightarrow> (response_error 512 ''msgid is required'', r)
      | Some msgid \<Rightarrow>
     (case bt_get (st_offline_messages (rt_store r)) msgid of
        None \<Rightarrow> (empty_result, r)
      | Some msg \<Rightarrow>
          if \<not> message_visible session r msg then (empty_result, r)
          else
            (response_ok_row
               (insert_fields
                 [(''msgid'', word_to_string (om_id msg)), (''cluid'', om_sender_unique_identifier msg),
                  (''subject'', om_subject msg), (''message'', om_message msg),
                  (''timestamp'', word_to_string (om_timestamp msg)), (''flag_read'', ''1'')] []),
             set_flag_read msgid True r))))"

definition handle_messageupdateflag ::
    "command_request \<Rightarrow> query_session \<Rightarrow> baseline_runtime \<Rightarrow> query_response \<times> baseline_runtime" where
  "handle_messageupdateflag request session r =
     (if no_actor session then (response_error 521 ''login required'', r)
      else
     (case arg_u64 request ''msgid'' of
        None \<Rightarrow> (response_error 512 ''msgid is required'', r)
      | Some msgid \<Rightarrow>
     (case arg request ''flag'' of
        None \<Rightarrow> (response_error 512 ''flag is required'', r)
      | Some flag_str \<Rightarrow>
     (case parse_query_bool flag_str of
        None \<Rightarrow> (response_error 512 ''flag must be 0 or 1'', r)
      | Some flag_read \<Rightarrow>
     (case bt_get (st_offline_messages (rt_store r)) msgid of
        None \<Rightarrow> (empty_result, r)
      | Some msg \<Rightarrow>
          if \<not> message_visible session r msg then (empty_result, r)
          else (response_ok, set_flag_read msgid flag_read r))))))"

definition handle_messagedel ::
    "command_request \<Rightarrow> query_session \<Rightarrow> baseline_runtime \<Rightarrow> query_response \<times> baseline_runtime" where
  "handle_messagedel request session r =
     (if no_actor session then (response_error 521 ''login required'', r)
      else
     (case arg_u64 request ''msgid'' of
        None \<Rightarrow> (response_error 512 ''msgid is required'', r)
      | Some msgid \<Rightarrow>
          let can_delete = (case bt_get (st_offline_messages (rt_store r)) msgid of
                              None \<Rightarrow> False
                            | Some msg \<Rightarrow> message_visible session r msg)
          in if \<not> can_delete then (empty_result, r)
             else (response_ok, upd_store (st_offline_messages_update (bt_remove msgid)) r)))"

subsection \<open>Conversations\<close>

definition web_conversation_index_rows :: "baseline_runtime \<Rightarrow> u32 \<Rightarrow> u32 list \<Rightarrow> row list" where
  "web_conversation_index_rows r server_id conversation_ids =
     map (\<lambda>i. insert_fields
                [(''cid'', word_to_string i),
                 (''timestamp'', word_to_string (latest_conversation_timestamp r server_id i))] [])
       (filter (conversation_id_exists r server_id) conversation_ids)"

definition in_period :: "u64 option \<Rightarrow> u64 option \<Rightarrow> u64 \<Rightarrow> bool" where
  "in_period timestamp_begin timestamp_end t =
     ((case timestamp_begin of None \<Rightarrow> True | Some b \<Rightarrow> b \<le> t)
      \<and> (case timestamp_end of None \<Rightarrow> True | Some e \<Rightarrow> t \<le> e))"

definition above :: "u64 \<Rightarrow> u64 option \<Rightarrow> u64 option" where
  "above bound timestamp = (case timestamp of None \<Rightarrow> None | Some t \<Rightarrow> if bound < t then Some t else None)"

text \<open>\<open>split_off(len - limit)\<close> when there are more.\<close>

definition last_messages :: "nat option \<Rightarrow> 'a list \<Rightarrow> 'a list" where
  "last_messages message_count messages =
     (case message_count of
        None \<Rightarrow> messages
      | Some limit \<Rightarrow>
          if limit < length messages then drop (length messages - limit) messages else messages)"

definition conversation_row :: "u32 \<Rightarrow> conversation_message \<Rightarrow> row" where
  "conversation_row conversation_id msg =
     insert_fields
       [(''cid'', word_to_string conversation_id), (''timestamp'', word_to_string (cm_timestamp msg)),
        (''sender_database_id'', word_to_string (cm_sender_database_id msg)),
        (''sender_unique_id'', cm_sender_unique_id msg), (''sender_name'', cm_sender_name msg),
        (''msg'', cm_message msg)] []"

definition selected_messages ::
    "baseline_runtime \<Rightarrow> u32 \<Rightarrow> u32 \<Rightarrow> u64 option \<Rightarrow> u64 option \<Rightarrow> nat option \<Rightarrow> conversation_message list" where
  "selected_messages r server_id conversation_id timestamp_begin timestamp_end message_count =
     last_messages message_count
       (sort_key cm_timestamp
         (filter (\<lambda>m. in_period (above 0 timestamp_begin) (above 1 timestamp_end) (cm_timestamp m))
           (conversation_messages r server_id conversation_id)))"

definition web_conversation_history_rows ::
    "baseline_runtime \<Rightarrow> u32 \<Rightarrow> u32 \<Rightarrow> u64 option \<Rightarrow> u64 option \<Rightarrow> nat option \<Rightarrow> row list option" where
  "web_conversation_history_rows r server_id conversation_id timestamp_begin timestamp_end message_count =
     (if \<not> conversation_id_exists r server_id conversation_id then None
      else Some (map (conversation_row conversation_id)
        (selected_messages r server_id conversation_id timestamp_begin timestamp_end message_count)))"

definition conversation_partner ::
    "baseline_runtime \<Rightarrow> u32 \<Rightarrow> string option \<Rightarrow> u64 option \<Rightarrow> conversation_participant option" where
  "conversation_partner r server_id partner_uid partner_dbid =
     (case (case partner_uid of None \<Rightarrow> None | Some u \<Rightarrow> if u = [] then None else Some u) of
        Some uid \<Rightarrow>
          (case lookup_client_identity_by_uid r server_id uid of
             Some (_, dbid, nickname) \<Rightarrow>
               Some \<lparr>cp_database_id = dbid, cp_unique_identifier = uid, cp_nickname = nickname\<rparr>
           | None \<Rightarrow>
               if looks_like_blackteaspeak_unique_id uid
               then Some \<lparr>cp_database_id = stable_web_client_database_id uid, cp_unique_identifier = uid,
                          cp_nickname = uid\<rparr>
               else None)
      | None \<Rightarrow>
          (case partner_dbid of
             None \<Rightarrow> None
           | Some dbid \<Rightarrow>
               (case unwrap_or ([], dbid, []) (lookup_client_identity_by_dbid r server_id dbid) of
                  (uid, _, nickname) \<Rightarrow>
                    Some \<lparr>cp_database_id = dbid, cp_unique_identifier = uid, cp_nickname = nickname\<rparr>)))"

definition private_row :: "u64 \<Rightarrow> u64 \<Rightarrow> private_message \<Rightarrow> row" where
  "private_row requester_dbid partner_dbid msg =
     insert_fields
       [(''cluid'', if pm_sender_database_id msg = requester_dbid then pm_target_unique_id msg
                    else pm_sender_unique_id msg),
        (''cldbid'', word_to_string partner_dbid), (''timestamp'', word_to_string (pm_timestamp msg)),
        (''sender_database_id'', word_to_string (pm_sender_database_id msg)),
        (''sender_unique_id'', pm_sender_unique_id msg), (''sender_name'', pm_sender_name msg),
        (''msg'', pm_message msg)] []"

definition web_private_conversation_history_rows ::
    "baseline_runtime \<Rightarrow> u32 \<Rightarrow> u64 \<Rightarrow> string option \<Rightarrow> u64 option \<Rightarrow> u64 option \<Rightarrow> u64 option \<Rightarrow>
     nat option \<Rightarrow> row list option" where
  "web_private_conversation_history_rows r server_id requester_dbid partner_uid partner_dbid timestamp_begin
       timestamp_end message_count =
     map_option
       (\<lambda>partner.
          map (private_row requester_dbid (cp_database_id partner))
            (last_messages message_count
              (sort_key pm_timestamp
                (filter (\<lambda>m. in_period (above 0 timestamp_begin) (above 1 timestamp_end) (pm_timestamp m))
                  (private_conversation_messages r server_id requester_dbid (cp_database_id partner))))))
       (conversation_partner r server_id partner_uid partner_dbid)"

definition fetch_ids :: "command_request \<Rightarrow> u32 \<Rightarrow> baseline_runtime \<Rightarrow> u32 list" where
  "fetch_ids request server_id r =
     (if option_groups request \<noteq> [] then
        List.map_filter (\<lambda>g. Option.bind (bt_get g ''cid'') parse_word) (option_groups request)
      else case arg_u32 request ''cid'' of
             Some cid \<Rightarrow> [cid]
           | None \<Rightarrow> 0 # map ch_id (unwrap_or [] (server_channels r server_id)))"

definition handle_conversationfetch ::
    "command_request \<Rightarrow> query_session \<Rightarrow> baseline_runtime \<Rightarrow> query_response" where
  "handle_conversationfetch request session r =
     (if no_actor session then response_error 521 ''login required''
      else
     (case qs_selected_virtual_server_id session of
        None \<Rightarrow> response_error 522 ''virtual server selection required''
      | Some server_id \<Rightarrow>
          let rs = web_conversation_index_rows r server_id (fetch_ids request server_id r)
          in if rs = [] then empty_result else response_ok_rows rs))"

definition handle_conversationhistory ::
    "command_request \<Rightarrow> query_session \<Rightarrow> baseline_runtime \<Rightarrow> query_response" where
  "handle_conversationhistory request session r =
     (if no_actor session then response_error 521 ''login required''
      else
     (case qs_selected_virtual_server_id session of
        None \<Rightarrow> response_error 522 ''virtual server selection required''
      | Some server_id \<Rightarrow>
          let timestamp_begin = Option.bind (or_else (arg request ''timestamp_begin'') (arg request ''begin_timestamp''))
                                  parse_word;
              timestamp_end = Option.bind (or_else (arg request ''timestamp_end'') (arg request ''end_timestamp''))
                                parse_word;
              message_count = Option.bind
                (or_else (or_else (arg request ''message_count'') (arg request ''count'')) (arg request ''limit''))
                (parse_uint 64);
              partner_uid = arg request ''cluid'';
              partner_dbid = arg_u64 request ''cldbid'';
              rs = unwrap_or []
                (if partner_uid \<noteq> None \<or> partner_dbid \<noteq> None then
                   web_private_conversation_history_rows r server_id
                     (cp_database_id (query_session_participant r session)) partner_uid partner_dbid
                     timestamp_begin timestamp_end message_count
                 else
                   web_conversation_history_rows r server_id (unwrap_or 0 (arg_u32 request ''cid''))
                     timestamp_begin timestamp_end message_count)
          in if rs = [] then empty_result else response_ok_rows rs))"

text \<open>\<open>retain\<close> with a counter: the first \<open>max_delete\<close> messages that match go.\<close>

fun delete_matching :: "('a \<Rightarrow> bool) \<Rightarrow> nat \<Rightarrow> nat \<Rightarrow> 'a list \<Rightarrow> nat \<times> 'a list" where
  "delete_matching matches max_delete deleted [] = (deleted, [])"
| "delete_matching matches max_delete deleted (m # ms) =
     (if matches m \<and> deleted < max_delete
      then delete_matching matches max_delete (Suc deleted) ms
      else case delete_matching matches max_delete deleted ms of (n, kept) \<Rightarrow> (n, m # kept))"

definition delete_match :: "u32 \<Rightarrow> u64 option \<Rightarrow> u64 option \<Rightarrow> u64 option \<Rightarrow> conversation_message \<Rightarrow> bool" where
  "delete_match conversation_id timestamp_begin timestamp_end sender_dbid m =
     (cm_conversation_id m = conversation_id
      \<and> in_period (above 0 timestamp_begin) (above 0 timestamp_end) (cm_timestamp m)
      \<and> (case sender_dbid of None \<Rightarrow> True | Some d \<Rightarrow> cm_sender_database_id m = d))"

definition delete_conversation_messages ::
    "u32 \<Rightarrow> u32 \<Rightarrow> u64 option \<Rightarrow> u64 option \<Rightarrow> nat option \<Rightarrow> u64 option \<Rightarrow> baseline_runtime \<Rightarrow>
     nat \<times> baseline_runtime" where
  "delete_conversation_messages server_id conversation_id timestamp_begin timestamp_end limit sender_dbid r =
     (case bt_get (st_conversation_messages (rt_store r)) server_id of
        None \<Rightarrow> (0, r)
      | Some messages \<Rightarrow>
          (case delete_matching (delete_match conversation_id timestamp_begin timestamp_end sender_dbid)
                  (unwrap_or (2 ^ 64 - 1) limit) 0 messages of
             (deleted, kept) \<Rightarrow>
               (deleted, upd_store (st_conversation_messages_update (bt_update server_id (\<lambda>_. kept))) r)))"

definition handle_conversationmessagedelete ::
    "command_request \<Rightarrow> query_session \<Rightarrow> baseline_runtime \<Rightarrow> query_response \<times> baseline_runtime" where
  "handle_conversationmessagedelete request session r =
     (case require_server session of
        Inl e \<Rightarrow> (e, r)
      | Inr server_id \<Rightarrow>
          let cid = unwrap_or 0 (arg_u32 request ''cid'');
              timestamp_begin = unwrap_or 0 (arg_u64 request ''timestamp_begin'');
              timestamp_end = unwrap_or (-1) (arg_u64 request ''timestamp_end'');
              limit = unwrap_or 100 (Option.bind (arg request ''limit'') (parse_uint 64));
              cldbid = arg_u64 request ''cldbid''
          in case delete_conversation_messages server_id cid (Some timestamp_begin) (Some timestamp_end)
                    (Some limit) cldbid r of
               (deleted, r') \<Rightarrow>
                 (response_ok_row
                    (insert_fields
                      [(''cid'', word_to_string cid), (''timestamp_begin'', word_to_string timestamp_begin),
                       (''timestamp_end'', word_to_string timestamp_end),
                       (''cldbid'', word_to_string (unwrap_or 0 cldbid)), (''limit'', nat_to_string limit),
                       (''deleted'', nat_to_string deleted)] []), r'))"

subsection \<open>Offline messages are private\<close>

abbreviation mailbox :: "baseline_runtime \<Rightarrow> (u64, offline_message) btree" where
  "mailbox r \<equiv> st_offline_messages (rt_store r)"

text \<open>A command on the mailbox touches only messages its session may see.\<close>

locale mailbox_command =
  fixes run :: "command_request \<Rightarrow> query_session \<Rightarrow> baseline_runtime \<Rightarrow> query_response \<times> baseline_runtime"
  assumes touched: "bt_get (mailbox r) i = Some m \<Longrightarrow>
      bt_get (mailbox (snd (run request session r))) i \<noteq> Some m \<Longrightarrow> message_visible session r m"
    and silent: "bt_get (mailbox r) i = Some m \<Longrightarrow> arg_u64 request ''msgid'' = Some i \<Longrightarrow>
      error_id (fst (run request session r)) = 0 \<Longrightarrow> message_visible session r m"
begin

lemma hidden_kept:
  "bt_get (mailbox r) i = Some m \<Longrightarrow> \<not> message_visible session r m \<Longrightarrow>
   bt_get (mailbox (snd (run request session r))) i = Some m"
  using touched by blast

lemma hidden_refused:
  "bt_get (mailbox r) i = Some m \<Longrightarrow> \<not> message_visible session r m \<Longrightarrow> arg_u64 request ''msgid'' = Some i \<Longrightarrow>
   error_id (fst (run request session r)) \<noteq> 0"
  using silent by blast

end

interpretation get_cmd: mailbox_command handle_messageget
  by unfold_locales
    (auto simp: handle_messageget_def set_flag_read_def bt_get_update split: if_splits option.splits)

interpretation flag_cmd: mailbox_command handle_messageupdateflag
  by unfold_locales
    (auto simp: handle_messageupdateflag_def set_flag_read_def bt_get_update split: if_splits option.splits)

interpretation del_cmd: mailbox_command handle_messagedel
  by unfold_locales
    (auto simp: handle_messagedel_def Let_def bt_get_remove split: if_splits option.splits)

lemma messagelist_visible:
  "\<forall>row \<in> set (rows (handle_messagelist session r)).
     \<exists>m \<in> set (bt_values (mailbox r)). message_visible session r m \<and> row = message_row m"
  by (auto simp: handle_messagelist_def Let_def message_visible_def response_defs)

text \<open>
  Property C22: an offline message that is addressed to somebody else is out of reach of a session without
  administrator rights: \<open>messagelist\<close> shows only messages the session may see, and \<open>messageget\<close>, \<open>messageupdateflag\<close> and \<open>messagedel\<close> leave it as it is
  and answer an error when they name it.
\<close>

theorem offline_messages_private:
  assumes "bt_get (mailbox r) i = Some m" and "\<not> message_visible session r m"
  shows "(\<forall>run \<in> {handle_messageget, handle_messageupdateflag, handle_messagedel}.
      bt_get (mailbox (snd (run request session r))) i = Some m
      \<and> (arg_u64 request ''msgid'' = Some i \<longrightarrow> error_id (fst (run request session r)) \<noteq> 0))
    \<and> (\<forall>row \<in> set (rows (handle_messagelist session r)).
         \<exists>m' \<in> set (bt_values (mailbox r)). message_visible session r m' \<and> row = message_row m')"
  using messagelist_visible [of session r] get_cmd.hidden_kept [OF assms] get_cmd.hidden_refused [OF assms]
    flag_cmd.hidden_kept [OF assms] flag_cmd.hidden_refused [OF assms]
    del_cmd.hidden_kept [OF assms] del_cmd.hidden_refused [OF assms]
  by blast

subsection \<open>Conversations are ordered\<close>

definition conversations_ok :: "baseline_runtime \<Rightarrow> bool" where
  "conversations_ok r =
     (bt_inv (st_conversation_messages (rt_store r))
      \<and> (\<forall>server_id ms. bt_get (st_conversation_messages (rt_store r)) server_id = Some ms \<longrightarrow>
            sorted_wrt (<) (map cm_timestamp ms)
            \<and> (\<forall>m \<in> set ms. cm_timestamp m < st_next_conversation_timestamp (rt_store r))))"

lemma push_entry_get:
  "bt_get (push_entry k v m) j = (if j = k then Some (unwrap_or [] (bt_get m k) @ [v]) else bt_get m j)"
  by (simp add: push_entry_def bt_get_insert)

lemma push_entry_inv: "bt_inv m \<Longrightarrow> bt_inv (push_entry k v m)"
  by (simp add: push_entry_def bt_inv_insert)

lemma next_timestamp_ok:
  assumes "conversations_ok r" and "next_conversation_timestamp now_millis r = (t, r')"
    and "max now_millis (st_next_conversation_timestamp (rt_store r)) \<noteq> -1"
  shows "conversations_ok r' \<and> t < st_next_conversation_timestamp (rt_store r')
    \<and> (\<forall>server_id ms. bt_get (st_conversation_messages (rt_store r')) server_id = Some ms
          \<longrightarrow> (\<forall>m \<in> set ms. cm_timestamp m < t))"
proof -
  have t: "t = max now_millis (st_next_conversation_timestamp (rt_store r))"
    and r': "r' = upd_store (st_next_conversation_timestamp_update (\<lambda>_. sat_add t 1)) r"
    using assms(2) by (auto simp: next_conversation_timestamp_def Let_def)
  have "t < sat_add t 1" using assms(3) unfolding t by (rule sat_add_one_greater)
  moreover have "\<forall>m \<in> set ms. cm_timestamp m < t"
    if "bt_get (st_conversation_messages (rt_store r)) server_id = Some ms" for server_id ms
    using assms(1) that t by (fastforce simp: conversations_ok_def less_max_iff_disj)
  ultimately show ?thesis
    using assms(1) r' by (fastforce simp: conversations_ok_def)
qed

lemma conversations_ok_push:
  assumes "conversations_ok r" and "cm_timestamp msg < st_next_conversation_timestamp (rt_store r)"
    and "\<And>ms m. bt_get (st_conversation_messages (rt_store r)) server_id = Some ms \<Longrightarrow> m \<in> set ms
      \<Longrightarrow> cm_timestamp m < cm_timestamp msg"
  shows "conversations_ok (upd_store (st_conversation_messages_update (push_entry server_id msg)) r)"
  using assms
  by (cases "bt_get (st_conversation_messages (rt_store r)) server_id")
    (auto simp: conversations_ok_def push_entry_get push_entry_inv sorted_wrt_append split: if_splits)

lemma record_text_ok:
  assumes "conversations_ok r" and "max now_millis (st_next_conversation_timestamp (rt_store r)) \<noteq> -1"
  shows "conversations_ok (snd (record_text_message now_millis target dbid uid name r))"
proof -
  obtain t r1 where step: "next_conversation_timestamp now_millis r = (t, r1)" by fastforce
  show ?thesis
    using next_timestamp_ok [OF assms(1) step assms(2)]
    by (auto simp: record_text_message_def step intro!: conversations_ok_push split: option.splits)
qed

lemma record_private_ok:
  assumes "conversations_ok r" and "max now_millis (st_next_conversation_timestamp (rt_store r)) \<noteq> -1"
  shows "conversations_ok (snd (record_private_message now_millis server_id sender target text r))"
proof -
  obtain t r1 where step: "next_conversation_timestamp now_millis r = (t, r1)" by fastforce
  show ?thesis
    using next_timestamp_ok [OF assms(1) step assms(2)]
    by (simp add: record_private_message_def step conversations_ok_def)
qed

text \<open>The counting deletion removes the first messages that match, up to the limit, and no others.\<close>

lemma delete_matching_spec:
  "delete_matching P n d ms = (d', kept) \<Longrightarrow> d \<le> n \<Longrightarrow>
   d' = min n (d + length (filter P ms)) \<and> filter P kept = drop (n - d) (filter P ms)
   \<and> filter (\<lambda>m. \<not> P m) kept = filter (\<lambda>m. \<not> P m) ms \<and> subseq kept ms"
proof (induction ms arbitrary: d d' kept)
  case (Cons m ms)
  show ?case
  proof (cases "P m \<and> d < n")
    case True
    then show ?thesis using Cons.IH [of "Suc d" d' kept] Cons.prems
      by (auto simp: Suc_diff_Suc drop_Cons' intro: subseq_Cons')
  next
    case False
    obtain e ks where rec: "delete_matching P n d ms = (e, ks)" by fastforce
    show ?thesis using Cons.IH [OF rec] Cons.prems False rec by (auto simp: drop_Cons')
  qed
qed simp

lemma sorted_wrt_subseq: "subseq xs ys \<Longrightarrow> sorted_wrt R ys \<Longrightarrow> sorted_wrt R xs"
  by (induction rule: list_emb.induct) (auto dest: list_emb_set)

lemma delete_conversation_ok:
  assumes "conversations_ok r"
  shows "conversations_ok (snd (delete_conversation_messages server_id cid b e limit dbid r))"
proof (cases "bt_get (st_conversation_messages (rt_store r)) server_id")
  case (Some ms)
  obtain d kept where del: "delete_matching (delete_match cid b e dbid) (unwrap_or (2 ^ 64 - 1) limit) 0 ms = (d, kept)"
    by fastforce
  then have "subseq kept ms" using delete_matching_spec [OF del] by simp
  then have "sorted_wrt (<) (map cm_timestamp kept)" "set kept \<subseteq> set ms"
    using assms Some list_emb_set [of "(=)" kept ms]
    by (auto simp: conversations_ok_def intro: sorted_wrt_subseq [OF subseq_map])
  then show ?thesis
    using assms Some del
    by (auto simp: delete_conversation_messages_def conversations_ok_def bt_get_update btree_simps
        split: if_splits)
qed (simp add: delete_conversation_messages_def assms)

text \<open>The steps on the conversations, before the clock and the counter reach the last \<open>u64\<close>.\<close>

inductive conversation_step :: "baseline_runtime \<Rightarrow> baseline_runtime \<Rightarrow> bool" where
  said: "max now_millis (st_next_conversation_timestamp (rt_store r)) \<noteq> -1 \<Longrightarrow>
    record_text_message now_millis target dbid uid name r = (t, r') \<Longrightarrow> conversation_step r r'"
| told: "max now_millis (st_next_conversation_timestamp (rt_store r)) \<noteq> -1 \<Longrightarrow>
    record_private_message now_millis server_id sender receiver txt r = (t, r') \<Longrightarrow> conversation_step r r'"
| removed: "delete_conversation_messages server_id cid b e limit sender_dbid r = (n, r') \<Longrightarrow> conversation_step r r'"

lemma conversation_step_ok: "conversation_step r r' \<Longrightarrow> conversations_ok r \<Longrightarrow> conversations_ok r'"
  by (induction rule: conversation_step.induct)
    (metis record_text_ok snd_conv, metis record_private_ok snd_conv, metis delete_conversation_ok snd_conv)

text \<open>
  Property C24: along every sequence of recorded and deleted messages the conversations of a server stay
  in the order of their timestamps, which are pairwise different, so that a history request for the
  last \<open>n\<close> messages answers exactly the last \<open>n\<close> of the conversation in the order they were sent.
\<close>

theorem reachable_history_latest:
  assumes "conversations_ok r" and "conversation_step\<^sup>*\<^sup>* r r'"
  shows "sorted_wrt (<) (map cm_timestamp (conversation_messages r' server_id cid))
    \<and> selected_messages r' server_id cid None None (Some n)
       = drop (length (conversation_messages r' server_id cid) - n) (conversation_messages r' server_id cid)"
proof -
  have "conversations_ok r'" using assms(2,1) by induction (auto intro: conversation_step_ok)
  then have sorted: "sorted_wrt (<) (map cm_timestamp (conversation_messages r' server_id cid))"
    by (auto simp: conversations_ok_def conversation_messages_def sorted_wrt_map sorted_wrt_filter split: option.splits)
  then have "sort_key cm_timestamp (conversation_messages r' server_id cid) = conversation_messages r' server_id cid"
    by (intro sort_key_id_if_sorted) (simp add: strict_sorted_imp_sorted)
  then show ?thesis
    using sorted by (simp add: selected_messages_def last_messages_def in_period_def above_def)
qed

text \<open>
  \<open>conversationmessagedelete\<close> removes the first \<open>limit\<close> messages of the conversation that lie in
  the period and come from the sender, reports how many these were, and keeps every other message.
\<close>

theorem conversationmessagedelete_exact:
  assumes "bt_get (st_conversation_messages (rt_store r)) server_id = Some ms"
    and "delete_conversation_messages server_id cid b e (Some limit) dbid r = (n, r')"
  shows "\<exists>kept. bt_get (st_conversation_messages (rt_store r')) server_id = Some kept
    \<and> n = min limit (length (filter (delete_match cid b e dbid) ms))
    \<and> filter (delete_match cid b e dbid) kept = drop limit (filter (delete_match cid b e dbid) ms)
    \<and> filter (\<lambda>m. \<not> delete_match cid b e dbid m) kept = filter (\<lambda>m. \<not> delete_match cid b e dbid m) ms
    \<and> subseq kept ms"
proof -
  obtain d kept where del: "delete_matching (delete_match cid b e dbid) limit 0 ms = (d, kept)" by fastforce
  show ?thesis
    using assms delete_matching_spec [OF del] del
    by (auto simp: delete_conversation_messages_def bt_get_update)
qed

lemma messageadd_stores:
  assumes "handle_messageadd now request session r = (resp, r')" and "error_id resp = 0"
    and "arg_text request ''message'' = Some txt" and "arg_text request ''cluid'' = Some cluid"
  obtains msg where "bt_get (mailbox r') (max (st_next_offline_message_id (rt_store r)) 1) = Some msg"
    "om_server_id msg = unwrap_or 1 (qs_selected_virtual_server_id session)" "om_message msg = txt"
    "om_recipient_unique_identifier msg
      = (case lookup_client_identity_by_uid r (unwrap_or 1 (qs_selected_virtual_server_id session)) cluid of
           None \<Rightarrow> cluid | Some (uid, _, _) \<Rightarrow> uid)"
    "rows resp = [bt_insert ''msgid'' (word_to_string (max (st_next_offline_message_id (rt_store r)) 1)) []]"
proof -
  have "ok_then (\<lambda>(resp, r'). \<exists>msg.
      bt_get (mailbox r') (max (st_next_offline_message_id (rt_store r)) 1) = Some msg
      \<and> om_server_id msg = unwrap_or 1 (qs_selected_virtual_server_id session) \<and> om_message msg = txt
      \<and> om_recipient_unique_identifier msg
        = (case lookup_client_identity_by_uid r (unwrap_or 1 (qs_selected_virtual_server_id session)) cluid of
             None \<Rightarrow> cluid | Some (uid, _, _) \<Rightarrow> uid)
      \<and> rows resp = [bt_insert ''msgid'' (word_to_string (max (st_next_offline_message_id (rt_store r)) 1)) []])
    (handle_messageadd now request session r)"
    unfolding handle_messageadd_def using assms(3,4)
    by (intro ok_then_branches)
      (auto simp: ok_then_def bt_get_insert response_defs insufficient_permission_response_def
        dest: actor_permissions_error split: option.splits)
  then show ?thesis using assms(1,2) that by (auto simp: ok_then_def)
qed

text \<open>
  Property C23: an offline message arrives. After a successful \<open>messageadd\<close> a session of the recipient on the
  same server reads it with \<open>messageget\<close> under the id the sender was told, with the text that was sent.
\<close>

theorem offline_message_delivered:
  assumes "handle_messageadd now request session r = (resp, r')" and "error_id resp = 0"
    and "arg_text request ''message'' = Some txt" and "arg_text request ''cluid'' = Some cluid"
    and "\<not> no_actor receiver"
    and "unwrap_or 1 (qs_selected_virtual_server_id receiver) = unwrap_or 1 (qs_selected_virtual_server_id session)"
    and "cp_unique_identifier (query_session_participant r' receiver)
      = (case lookup_client_identity_by_uid r (unwrap_or 1 (qs_selected_virtual_server_id session)) cluid of
           None \<Rightarrow> cluid | Some (uid, _, _) \<Rightarrow> uid)"
  shows "\<exists>i. rows resp = [bt_insert ''msgid'' (word_to_string i) []]
    \<and> (arg_u64 get ''msgid'' = Some i \<longrightarrow>
        (\<exists>row. rows (fst (handle_messageget get receiver r')) = [row] \<and> bt_get row ''message'' = Some txt))"
proof -
  obtain msg where msg: "bt_get (mailbox r') (max (st_next_offline_message_id (rt_store r)) 1) = Some msg"
    "om_server_id msg = unwrap_or 1 (qs_selected_virtual_server_id receiver)" "om_message msg = txt"
    "om_recipient_unique_identifier msg = cp_unique_identifier (query_session_participant r' receiver)"
    "rows resp = [bt_insert ''msgid'' (word_to_string (max (st_next_offline_message_id (rt_store r)) 1)) []]"
    using messageadd_stores [OF assms(1-4)] assms(6,7) by metis
  then have "message_visible receiver r' msg" by (simp add: message_visible_def addressed_to_def)
  then have "arg_u64 get ''msgid'' = Some (max (st_next_offline_message_id (rt_store r)) 1) \<Longrightarrow>
      \<exists>row. rows (fst (handle_messageget get receiver r')) = [row] \<and> bt_get row ''message'' = Some txt"
    using msg(1,3) assms(5)
    by (simp add: handle_messageget_def response_defs insert_fields_def bt_get_def)
  with msg(5) show ?thesis by blast
qed

subsection \<open>Examples\<close>

definition mail_demo :: baseline_runtime where
  "mail_demo = empty_runtime\<lparr>rt_store := empty_store\<lparr>
     st_query_accounts :=
       [(''ops'', token_account\<lparr>qa_permissions := [(''b_client_offline_textmessage_send'', perm 1)]\<rparr>)],
     st_server_groups := [(8, new_server_group 8 ''Normal'' 1)],
     st_online_clients := [(10, seed_online_client_10 1000), (11, seed_online_client_11 1000),
        (12, (seed_online_client_11 1000)\<lparr>oc_id := 12, oc_database_id := 42,
                oc_unique_identifier := ''uid-42'', oc_nickname := ''Eve''\<rparr>)]\<rparr>\<rparr>"

definition client_session :: "u64 \<Rightarrow> query_session" where
  "client_session dbid = ordinary_session\<lparr>qs_actor_client_database_id_override := Some dbid\<rparr>"

definition mail_request :: command_request where
  "mail_request = account_request ''messageadd''
     [(''cluid'', ''compat-seed-user-40''), (''message'', ''see you''), (''subject'', ''hello'')]"

definition read_request :: command_request where
  "read_request = account_request ''messageget'' [(''msgid'', ''1'')]"

theorem offline_message_delivered_witness:
  "let res = handle_messageadd 1700000000 mail_request token_session mail_demo
   in \<exists>row. rows (fst (handle_messageget read_request (client_session 40) (snd res))) = [row]
        \<and> bt_get row ''message'' = Some ''see you''"
proof -
  let ?res = "handle_messageadd 1700000000 mail_request token_session mail_demo"
  have ok: "error_id (fst ?res) = 0" "rows (fst ?res) = [bt_insert ''msgid'' (word_to_string (1 :: u64)) []]"
    "arg_text mail_request ''message'' = Some ''see you''" "arg_text mail_request ''cluid'' = Some ''compat-seed-user-40''"
    "\<not> no_actor (client_session 40)"
    "unwrap_or 1 (qs_selected_virtual_server_id (client_session 40))
      = unwrap_or 1 (qs_selected_virtual_server_id token_session)"
    "cp_unique_identifier (query_session_participant (snd ?res) (client_session 40)) =
      (case lookup_client_identity_by_uid mail_demo (unwrap_or 1 (qs_selected_virtual_server_id token_session))
         ''compat-seed-user-40'' of None \<Rightarrow> ''compat-seed-user-40'' | Some (uid, _, _) \<Rightarrow> uid)"
    "arg_u64 read_request ''msgid'' = Some 1"
    by code_simp+
  obtain i where i: "rows (fst ?res) = [bt_insert ''msgid'' (word_to_string i) []]"
    "arg_u64 read_request ''msgid'' = Some i \<longrightarrow>
      (\<exists>row. rows (fst (handle_messageget read_request (client_session 40) (snd ?res))) = [row]
        \<and> bt_get row ''message'' = Some ''see you'')"
    using offline_message_delivered [of 1700000000 mail_request token_session mail_demo "fst ?res" "snd ?res"
        "''see you''" "''compat-seed-user-40''" "client_session 40" read_request] ok by auto
  then have "word_to_string i = word_to_string (1 :: u64)" using ok(2) by simp
  then have "(parse_word (word_to_string i) :: u64 option) = parse_word (word_to_string (1 :: u64))" by (rule arg_cong)
  then have "i = 1" unfolding parse_word_to_string by simp
  then show ?thesis using i ok by (simp add: Let_def)
qed

text \<open>
  The database id of a session is that of its query login, and 0 without one. The private messages of all
  clients without a query login are therefore filed under the same id 0: what client 40 writes to
  client 41 is answered to client 42 when it asks for its own conversation with 41.
\<close>

definition whisper_request :: command_request where
  "whisper_request = account_request ''sendtextmessage''
     [(''msg'', ''secret''), (''target'', ''11''), (''targetmode'', ''1'')]"

definition spy_request :: command_request where
  "spy_request = account_request ''conversationhistory'' [(''cldbid'', ''41'')]"

theorem private_messages_shared_without_login:
  "map (\<lambda>row. bt_get row ''msg'')
     (rows (handle_conversationhistory spy_request (client_session 42)
       (snd (handle_sendtextmessage (\<lambda>_ _ _ _ _ r. r) 1700000000000 whisper_request (client_session 40) mail_demo))))
   = [Some ''secret'']"
  by code_simp

definition stored_demo :: baseline_runtime where
  "stored_demo = snd (handle_messageadd 1700000000 mail_request token_session mail_demo)"

theorem offline_messages_private_witness:
  "bt_get (mailbox (snd (handle_messagedel read_request (client_session 41) stored_demo))) 1
     = bt_get (mailbox stored_demo) 1
   \<and> error_id (fst (handle_messagedel read_request (client_session 41) stored_demo)) \<noteq> 0"
proof -
  have "case bt_get (mailbox stored_demo) 1 of None \<Rightarrow> False
      | Some m \<Rightarrow> \<not> message_visible (client_session 41) stored_demo m" by code_simp
  then obtain m where m: "bt_get (mailbox stored_demo) 1 = Some m"
    "\<not> message_visible (client_session 41) stored_demo m" by (auto split: option.splits)
  have "arg_u64 read_request ''msgid'' = Some 1" by code_simp
  then show ?thesis using offline_messages_private [OF m, of read_request] m by simp
qed

definition talk :: "string \<Rightarrow> message_target" where
  "talk txt = \<lparr>tm_target_mode = 3, tm_server_id = 1, tm_channel_id = None, tm_target_client_id = None,
                tm_message = txt\<rparr>"

definition talk_demo :: baseline_runtime where
  "talk_demo = snd (record_text_message 2000 (talk ''two'') 40 ''uid'' ''ScP''
     (snd (record_text_message 2000 (talk ''one'') 40 ''uid'' ''ScP'' empty_runtime)))"

lemma talk_demo_reachable: "conversation_step\<^sup>*\<^sup>* empty_runtime talk_demo"
proof -
  let ?r = "snd (record_text_message 2000 (talk ''one'') 40 ''uid'' ''ScP'' empty_runtime)"
  have "max 2000 (st_next_conversation_timestamp (rt_store empty_runtime)) \<noteq> -1"
    "max 2000 (st_next_conversation_timestamp (rt_store ?r)) \<noteq> -1" by code_simp+
  then have "conversation_step empty_runtime ?r" "conversation_step ?r talk_demo"
    unfolding talk_demo_def by (metis conversation_step.said prod.collapse)+
  then show ?thesis by (meson converse_rtranclp_into_rtranclp rtranclp.rtrancl_refl)
qed

theorem reachable_history_latest_witness:
  "map cm_message (selected_messages talk_demo 1 0 None None (Some 1)) = [''two'']
   \<and> sorted_wrt (<) (map cm_timestamp (conversation_messages talk_demo 1 0))"
proof -
  have "conversations_ok empty_runtime" by (simp add: conversations_ok_def empty_runtime_def empty_store_def)
  note latest = reachable_history_latest [OF this talk_demo_reachable, of 1 0 1]
  have "map cm_message (drop (length (conversation_messages talk_demo 1 0) - 1) (conversation_messages talk_demo 1 0))
      = [''two'']" by code_simp
  with latest show ?thesis by simp
qed

end
