(* ===== verification/Sessions.thy ===== *)
theory Sessions
  imports Messages
begin

text \<open>
  Sessions: \<open>runtime/handlers/session_and_instance.rs\<close> (login, logout, server selection, instance settings,
  global messages and the instance reports), the session snapshots of \<open>runtime/persistence.rs\<close>,
  \<open>sync_session_client\<close> and \<open>restore_notification_subscriptions\<close> of \<open>runtime/session_and_identity.rs\<close>, and
  \<open>is_command_implemented\<close> of \<open>runtime/dispatch.rs\<close>. The command catalogue and the build version the program
  reads from its specification files are arguments.
\<close>

subsection \<open>Snapshots\<close>

definition restore_notification_subscriptions ::
    "baseline_runtime \<Rightarrow> string \<Rightarrow> u32 \<Rightarrow> notification_subscription list" where
  "restore_notification_subscriptions r login_name server_id =
     (case bt_get (rt_session_snapshots r) login_name of
        None \<Rightarrow> []
      | Some snapshot \<Rightarrow>
          List.map_filter
            (\<lambda>(event, channel_id).
               map_option
                 (\<lambda>kind. \<lparr>ns_event = kind,
                          ns_channel_id =
                            (if kind = EvChannel \<or> kind = EvTextChannel then
                               (case channel_id of
                                  None \<Rightarrow> None
                                | Some c \<Rightarrow> if channel_exists r server_id c then Some c else None)
                             else None)\<rparr>)
                 (notification_event_parse event))
            (pss_notification_subscriptions snapshot))"

definition sync_session_snapshot :: "query_session \<Rightarrow> baseline_runtime \<Rightarrow> baseline_runtime" where
  "sync_session_snapshot session r =
     (case qs_authenticated_login session of
        None \<Rightarrow> r
      | Some login_name \<Rightarrow>
          r\<lparr>rt_session_snapshots := bt_insert login_name
              \<lparr>pss_selected_virtual_server_id = qs_selected_virtual_server_id session,
               pss_current_channel_id = qs_current_channel_id session,
               pss_virtual_mode = qs_virtual_mode session,
               pss_notification_subscriptions =
                 map (\<lambda>s. (notification_event_as_str (ns_event s), ns_channel_id s))
                   (qs_notification_subscriptions session)\<rparr>
              (rt_session_snapshots r)\<rparr>)"

definition keep_if :: "('a \<Rightarrow> bool) \<Rightarrow> 'a option \<Rightarrow> 'a option" where
  "keep_if p x = (case x of None \<Rightarrow> None | Some v \<Rightarrow> if p v then Some v else None)"

definition restore_session_from_snapshot ::
    "baseline_runtime \<Rightarrow> string \<Rightarrow> u32 option \<Rightarrow> query_session \<Rightarrow> query_session" where
  "restore_session_from_snapshot r login_name fallback_server_id session =
     (let snapshot = bt_get (rt_session_snapshots r) login_name;
          known = bt_contains_key (st_virtual_servers (rt_store r));
          selected = or_else (keep_if known (Option.bind snapshot pss_selected_virtual_server_id))
                       (keep_if known fallback_server_id)
      in session
           \<lparr>qs_selected_virtual_server_id := selected,
            qs_current_channel_id :=
              Option.bind selected
                (\<lambda>server_id. or_else
                   (keep_if (channel_exists r server_id) (Option.bind snapshot pss_current_channel_id))
                   (default_channel_id_for_server r server_id)),
            qs_virtual_mode := unwrap_or False (map_option pss_virtual_mode snapshot),
            qs_notification_subscriptions :=
              (case selected of
                 None \<Rightarrow> []
               | Some server_id \<Rightarrow> restore_notification_subscriptions r login_name server_id)\<rparr>)"

subsection \<open>Login and selection\<close>

text \<open>\<open>slice::get\<close>.\<close>

definition nth_opt :: "'a list \<Rightarrow> nat \<Rightarrow> 'a option" where
  "nth_opt xs i = (if i < length xs then Some (xs ! i) else None)"

definition handle_login ::
    "command_request \<Rightarrow> baseline_runtime \<Rightarrow> query_session \<Rightarrow> query_response \<times> query_session" where
  "handle_login request r session =
     (case (or_else (arg request ''client_login_name'') (nth_opt (positional_args request) 0),
            or_else (arg request ''client_login_password'') (nth_opt (positional_args request) 1)) of
        (Some username, Some password) \<Rightarrow>
          (case bt_get (st_query_accounts (rt_store r)) username of
             None \<Rightarrow> (response_error 520 ''authentication failed'', session)
           | Some account \<Rightarrow>
               if qa_password account = password then
                 (response_ok,
                  restore_session_from_snapshot r (qa_login_name account) (qa_server_id account)
                    ((reset_client_state session)\<lparr>qs_authenticated_login := Some (qa_login_name account)\<rparr>))
               else (response_error 520 ''authentication failed'', session))
      | _ \<Rightarrow> (response_error 512 ''missing login credentials'', session))"

definition handle_logout :: "query_session \<Rightarrow> query_response \<times> query_session" where
  "handle_logout session =
     (response_ok,
      (reset_client_state session)
        \<lparr>qs_authenticated_login := None, qs_selected_virtual_server_id := None,
         qs_current_channel_id := None, qs_virtual_mode := False, qs_notification_subscriptions := []\<rparr>)"

definition handle_quit :: query_response where
  "handle_quit = response_ok"

definition handle_use ::
    "command_request \<Rightarrow> baseline_runtime \<Rightarrow> query_session \<Rightarrow> query_response \<times> query_session" where
  "handle_use request r session =
     (if \<not> session_has_permission_actor session then (response_error 521 ''login required'', session)
      else
        let by_port = (\<lambda>port :: u16. map_option vs_id
              (List.find (\<lambda>s. vs_port s = port) (bt_values (st_virtual_servers (rt_store r)))));
            sid = or_else (arg_u32 request ''sid'')
                    (or_else (Option.bind (nth_opt (positional_args request) 0) parse_word)
                      (Option.bind (Option.bind (arg request ''port'') parse_word) by_port))
        in case Option.bind sid
                  (\<lambda>i. map_option (\<lambda>s. (i, vs_status s)) (bt_get (st_virtual_servers (rt_store r)) i)) of
             None \<Rightarrow> (response_error 768 ''virtual server not found'', session)
           | Some (server_id, status) \<Rightarrow>
               if status = ''offline'' \<and> ''virtual'' \<notin> set (flags request)
               then (response_error 1033 ''server is not running'', session)
               else (response_ok,
                     session\<lparr>qs_selected_virtual_server_id := Some server_id,
                             qs_current_channel_id := default_channel_id_for_server r server_id,
                             qs_virtual_mode := (''virtual'' \<in> set (flags request))\<rparr>))"

definition handle_whoami :: "query_session \<Rightarrow> baseline_runtime \<Rightarrow> query_response" where
  "handle_whoami session r =
     (let account = Option.bind (qs_authenticated_login session) (bt_get (st_query_accounts (rt_store r)));
          base = insert_fields
            [(''client_login_name'', unwrap_or ''anonymous'' (qs_authenticated_login session)),
             (''clid'', word_to_string (qs_client_id session)),
             (''virtualserver_id'',
              unwrap_or ''0'' (map_option word_to_string (qs_selected_virtual_server_id session)))] [];
          with_channel = (case qs_current_channel_id session of
                            None \<Rightarrow> base
                          | Some c \<Rightarrow> bt_insert ''client_channel_id'' (word_to_string c) base);
          with_mode = insert_fields
            [(''virtual'', flag_string (qs_virtual_mode session)),
             (''notify_subscription_count'',
              nat_to_string (length (qs_notification_subscriptions session)))] with_channel;
          with_permissions = (case account of
             None \<Rightarrow> bt_insert ''permission_count'' ''0'' with_mode
           | Some a \<Rightarrow>
               (let counted = bt_insert ''permission_count''
                      (nat_to_string (length (effective_permissions_for_account r a))) with_mode
                in if qa_server_groups a = [] then counted
                   else bt_insert ''client_servergroups''
                          (join_with '','' (map word_to_string (qa_server_groups a))) counted))
      in response_ok_row
           (case Option.bind account qa_client_database_id of
              None \<Rightarrow> with_permissions
            | Some d \<Rightarrow> bt_insert ''client_database_id'' (word_to_string d) with_permissions))"

subsection \<open>The client of a session\<close>

text \<open>
  The result is \<open>None\<close> when allocating an id does not return.
\<close>

definition session_client_data ::
    "query_session \<Rightarrow> baseline_runtime \<Rightarrow> (u64 \<times> string \<times> u32 list \<times> u32 \<times> string \<times> string) option" where
  "session_client_data session r =
     (if qs_is_desktop_client session then
        Some (unwrap_or (qs_client_id session + 1000) (qs_actor_client_database_id_override session),
              ''desktop-'' @ word_to_string (qs_client_id session), [8], 0, ''desktop'',
              ''BlackTeaSpeak Desktop'')
      else
        Option.bind (qs_authenticated_login session)
          (\<lambda>login. map_option
             (\<lambda>account. (unwrap_or (qs_client_id session + 1000) (qa_client_database_id account),
                         query_account_unique_identifier account, qa_server_groups account, 1,
                         ''compat-rust'', ''BlackTeaSpeak Compat Query''))
             (bt_get (st_query_accounts (rt_store r)) login)))"

definition put_client :: "u64 \<Rightarrow> online_client \<Rightarrow> baseline_runtime \<Rightarrow> baseline_runtime" where
  "put_client client_id c r = upd_store (st_online_clients_update (bt_insert client_id c)) r"

definition refresh_client :: "u64 \<Rightarrow> query_session \<Rightarrow> u32 \<Rightarrow> u32 \<Rightarrow> online_client \<Rightarrow> online_client" where
  "refresh_client now session server_id channel_id c =
     c\<lparr>oc_nickname := effective_nickname session, oc_last_seen_at := now,
       oc_away := qs_client_away session, oc_away_message := qs_client_away_message session,
       oc_input_muted := qs_client_input_muted session, oc_output_muted := qs_client_output_muted session,
       oc_server_id := server_id, oc_channel_id := channel_id,
       oc_whisper_targets := (if qs_whisper_targets session \<noteq> None then qs_whisper_targets session
                              else oc_whisper_targets c)\<rparr>"

definition register_session_client ::
    "u64 \<Rightarrow> query_session \<Rightarrow> u32 \<Rightarrow> u32 \<Rightarrow> baseline_runtime \<Rightarrow> baseline_runtime" where
  "register_session_client now session server_id channel_id r =
     (case session_client_data session r of
        None \<Rightarrow> r
      | Some (dbid, uid, groups, client_type, platform, version) \<Rightarrow>
          let existing = bt_get (st_online_clients (rt_store r)) (qs_client_id session)
          in put_client (qs_client_id session)
               \<lparr>oc_id = qs_client_id session, oc_database_id = dbid, oc_unique_identifier = uid,
                oc_nickname = effective_nickname session, oc_away = qs_client_away session,
                oc_away_message = qs_client_away_message session,
                oc_input_muted = qs_client_input_muted session,
                oc_output_muted = qs_client_output_muted session, oc_server_id = server_id,
                oc_channel_id = channel_id, oc_client_type = client_type, oc_version = version,
                oc_platform = platform, oc_country = ''ZZ'',
                oc_connection_ip = (if qs_connection_ip session = [] then ''127.0.0.1''
                                    else qs_connection_ip session),
                oc_server_groups = groups,
                oc_connected_at = unwrap_or now (map_option oc_connected_at existing),
                oc_last_seen_at = now, oc_whisper_targets = qs_whisper_targets session,
                oc_extra_properties = unwrap_or [] (map_option oc_extra_properties existing)\<rparr> r)"

definition drop_client :: "u64 \<Rightarrow> baseline_runtime \<Rightarrow> baseline_runtime" where
  "drop_client client_id r = upd_store (st_online_clients_update (bt_remove client_id)) r"

definition sync_session_client ::
    "u64 \<Rightarrow> query_session \<Rightarrow> string \<Rightarrow> baseline_runtime \<Rightarrow> (query_session \<times> baseline_runtime) option" where
  "sync_session_client now session command_name r =
     (if command_name = ''quit''
         \<or> (qs_authenticated_login session = None \<and> \<not> qs_is_desktop_client session
             \<and> qs_actor_client_database_id_override session = None)
      then Some (session, if qs_client_id session \<noteq> 0 then drop_client (qs_client_id session) r else r)
      else
     (case qs_selected_virtual_server_id session of
        None \<Rightarrow> Some (session, drop_client (qs_client_id session) r)
      | Some server_id \<Rightarrow>
          Option.bind
            (if qs_client_id session = 0
             then map_option (\<lambda>(i, r'). (session\<lparr>qs_client_id := i\<rparr>, r')) (allocate_query_client_id r)
             else Some (session, r))
            (\<lambda>(session', r').
               let channel_id = unwrap_or 1 (or_else (qs_current_channel_id session')
                                               (default_channel_id_for_server r' server_id))
               in case (if qs_authenticated_login session' = None
                           \<and> (qs_is_desktop_client session'
                               \<or> qs_actor_client_database_id_override session' \<noteq> None)
                        then bt_get (st_online_clients (rt_store r')) (qs_client_id session') else None) of
                    Some existing \<Rightarrow>
                      Some (session', put_client (qs_client_id session')
                              (refresh_client now session' server_id channel_id existing) r')
                  | None \<Rightarrow>
                      Some (session', register_session_client now session' server_id channel_id r'))))"

subsection \<open>Instance reports and settings\<close>

definition server_running :: "virtual_server \<Rightarrow> bool" where
  "server_running s = (vs_status s \<noteq> ''offline'')"

definition handle_hostinfo :: "u64 \<Rightarrow> query_session \<Rightarrow> baseline_runtime \<Rightarrow> query_response" where
  "handle_hostinfo now session r =
     (if \<not> session_has_permission_actor session then response_error 521 ''login required''
      else
        let servers = filter server_running (bt_values (st_virtual_servers (rt_store r)));
            count = nat_to_string (length servers)
        in response_ok_row (insert_fields
          [(''instance_uptime'', ''0''), (''host_timestamp_utc'', word_to_string now),
           (''virtualservers_running_total'', count), (''virtualservers_online_total'', count),
           (''virtualservers_total_maxclients'', word_to_string (sum_list (map vs_max_clients servers))),
           (''virtualservers_total_clients_online'',
            nat_to_string (length (filter (\<lambda>c. oc_client_type c = 0)
              (bt_values (st_online_clients (rt_store r)))))),
           (''virtualservers_total_channels_online'',
            nat_to_string (sum_list (map (length \<circ> snd)
              (filter (\<lambda>(sid, _). case bt_get (st_virtual_servers (rt_store r)) sid of
                                      None \<Rightarrow> False | Some s \<Rightarrow> server_running s)
                (st_channels (rt_store r)))))),
           (''connection_packets_sent_total'', ''0''), (''connection_packets_received_total'', ''0''),
           (''connection_bytes_sent_total'', ''0''), (''connection_bytes_received_total'', ''0''),
           (''connection_filetransfer_bandwidth_sent'', ''0''),
           (''connection_filetransfer_bandwidth_received'', ''0'')] []))"

fun min_server :: "virtual_server list \<Rightarrow> virtual_server option" where
  "min_server [] = None"
| "min_server (s # ss) =
     (case min_server ss of None \<Rightarrow> Some s | Some t \<Rightarrow> if vs_id t < vs_id s then Some t else Some s)"

definition handle_instanceinfo :: "query_session \<Rightarrow> baseline_runtime \<Rightarrow> query_response" where
  "handle_instanceinfo session r =
     (if \<not> session_has_permission_actor session then response_error 521 ''login required''
      else
        let groups = st_server_groups (rt_store r);
            default_server_port = unwrap_or 9987
              (map_option vs_port (min_server (bt_values (st_virtual_servers (rt_store r)))));
            base = insert_fields
              [(''serverinstance_database_version'', ''11''),
               (''serverinstance_filetransfer_port'', ''30303''),
               (''serverinstance_max_download_total_bandwidth'', ''18446744073709551615''),
               (''serverinstance_max_upload_total_bandwidth'', ''18446744073709551615''),
               (''serverinstance_serverquery_flood_commands'', ''10''),
               (''serverinstance_serverquery_flood_time'', ''3''),
               (''serverinstance_serverquery_ban_time'', ''600''),
               (''serverinstance_serverquery_max_connections_per_ip'', ''2''),
               (''serverinstance_template_guest_serverquery_group'',
                if bt_contains_key groups 7 then ''7'' else ''0''),
               (''serverinstance_template_admin_serverquery_group'',
                if bt_contains_key groups 6 then ''6'' else ''0''),
               (''serverinstance_template_serveradmin_group'',
                word_to_string (unwrap_or 0 (map_option sg_id
                  (List.find (\<lambda>g. sg_name g = ''Server Admin'') (bt_values groups))))),
               (''serverinstance_default_virtualserver_port'', word_to_string default_server_port),
               (''serverinstance_query_port'', ''10101''), (''serverinstance_permissions_version'', ''19''),
               (''serverinstance_pending_connections_per_ip'', ''0'')] []
        in response_ok_row (bt_extend base (st_instance_properties (rt_store r))))"

definition build_feature_rows :: "row list" where
  "build_feature_rows =
     map (\<lambda>name. insert_fields [(''name'', name), (''support'', ''1''), (''version'', ''1'')] [])
       [''error-bulks'', ''advanced-channel-chat'', ''whisper-echo'', ''video'', ''screen-sharing'', ''music-bots'', ''playlists'', ''token-actions'', ''query-management'', ''web-rtc'', ''query-notifications'', ''channel-tree-updates'', ''permission-catalog'']"

definition handle_listfeaturesupport :: query_response where
  "handle_listfeaturesupport = response_ok_rows build_feature_rows"

definition handle_bindinglist :: "command_request \<Rightarrow> query_session \<Rightarrow> query_response" where
  "handle_bindinglist request session =
     (if \<not> session_has_permission_actor session then response_error 521 ''login required''
      else if unwrap_or ''voice'' (arg request ''subsystem'') \<notin> set [''voice'', ''query'', ''filetransfer'']
      then response_error 512 ''unsupported subsystem''
      else response_ok_rows (map (\<lambda>ip. bt_insert ''ip'' ip []) [''0.0.0.0'', ''0::0'']))"

definition property_catalog :: "(string \<times> nat \<times> string) list" where
  "property_catalog =
    [(''virtualserver_id'', 256, ''SERVER''),
     (''virtualserver_unique_identifier'', 392, ''SERVER''),
     (''virtualserver_name'', 408, ''SERVER''),
     (''virtualserver_port'', 408, ''SERVER''),
     (''virtualserver_clientsonline'', 128, ''SERVER''),
     (''virtualserver_queryclientsonline'', 128, ''SERVER''),
     (''virtualserver_antiflood_points_tick_reduce'', 256, ''SERVER''),
     (''virtualserver_antiflood_points_needed_command_block'', 256, ''SERVER''),
     (''virtualserver_antiflood_points_needed_ip_block'', 256, ''SERVER''),
     (''virtualserver_antiflood_ban_time'', 256, ''SERVER''),
     (''cid'', 256, ''CHANNEL''),
     (''pid'', 256, ''CHANNEL''),
     (''channel_name'', 408, ''CHANNEL''),
     (''channel_topic'', 408, ''CHANNEL''),
     (''channel_description'', 408, ''CHANNEL''),
     (''clid'', 256, ''CLIENT''),
     (''client_database_id'', 256, ''CLIENT''),
     (''client_nickname'', 408, ''CLIENT''),
     (''client_unique_identifier'', 392, ''CLIENT''),
     (''client_platform'', 256, ''CLIENT''),
     (''serverinstance_database_version'', 256, ''INSTANCE''),
     (''serverinstance_filetransfer_port'', 408, ''INSTANCE''),
     (''serverinstance_template_guest_serverquery_group'', 256, ''INSTANCE''),
     (''serverinstance_template_admin_serverquery_group'', 256, ''INSTANCE''),
     (''serverinstance_template_serveradmin_group'', 256, ''INSTANCE''),
     (''sgid'', 256, ''GROUP''),
     (''name'', 408, ''GROUP''),
     (''type'', 256, ''GROUP''),
     (''iconid'', 408, ''GROUP''),
     (''connection_packets_sent_total'', 128, ''CONNECTION''),
     (''connection_packets_received_total'', 128, ''CONNECTION''),
     (''connection_bytes_sent_total'', 128, ''CONNECTION''),
     (''connection_bytes_received_total'', 128, ''CONNECTION''),
     (''connection_connected_time'', 128, ''CONNECTION'')]"

definition handle_propertylist :: "command_request \<Rightarrow> query_response" where
  "handle_propertylist request =
     (let fl = flags request;
          include_all = (fl = [] \<or> ''all'' \<in> set fl);
          wanted = (\<lambda>(name, bits, kind). include_all
            \<or> (''server'' \<in> set fl \<and> kind = ''SERVER'') \<or> (''channel'' \<in> set fl \<and> kind = ''CHANNEL'')
            \<or> (''client'' \<in> set fl \<and> kind = ''CLIENT'') \<or> (''instance'' \<in> set fl \<and> kind = ''INSTANCE'')
            \<or> (''group'' \<in> set fl \<and> kind = ''GROUP'') \<or> (''connection'' \<in> set fl \<and> kind = ''CONNECTION''))
      in response_ok_rows
           (map (\<lambda>(name, bits, kind). insert_fields
                   [(''flags'', nat_to_string bits), (''name'', name), (''type'', kind)] [])
             (filter wanted property_catalog)))"

record build_version =
  bv_build_name :: string
  bv_build_version :: string
  bv_build_index :: int

definition handle_version :: "build_version \<Rightarrow> query_response" where
  "handle_version v =
     response_ok_row (insert_fields
       [(''version'', bv_build_version v), (''build'', int_to_string (bv_build_index v)),
        (''platform'', ''compat-rust''), (''build_name'', bv_build_name v)] [])"

definition handle_instanceedit ::
    "u64 \<Rightarrow> command_request \<Rightarrow> query_session \<Rightarrow> baseline_runtime \<Rightarrow> query_response \<times> baseline_runtime" where
  "handle_instanceedit now request session r =
     (if \<not> session_has_permission_actor session then (response_error 521 ''login required'', r)
      else
     (case query_actor_effective_permissions r session of
        Inl e \<Rightarrow> (e, r)
      | Inr (actor, perms) \<Rightarrow>
     (case check_required_permission perms
             [''b_serverinstance_modify_settings'', ''b_serverinstance_modify_templates'']
             ''b_serverinstance_modify_settings'' of
        Inl p \<Rightarrow> (insufficient_permission_response r p, r)
      | Inr _ \<Rightarrow>
          let edits = filter (\<lambda>(k, _). starts_with ''serverinstance_'' k) (named_args request)
          in if edits = []
             then (response_error 512 ''at least one serverinstance property is required'', r)
             else (response_ok,
                   append_server_log now 0 4 ''ServerLibPriv'' ''instance settings updated''
                     (upd_store (st_instance_properties_update (\<lambda>m. bt_extend m edits)) r)))))"

definition handle_gm ::
    "u64 \<Rightarrow> u64 \<Rightarrow> command_request \<Rightarrow> query_session \<Rightarrow> baseline_runtime \<Rightarrow> query_response \<times> baseline_runtime" where
  "handle_gm now now_millis request session r =
     (if \<not> session_has_permission_actor session then (response_error 521 ''login required'', r)
      else
     (case query_actor_effective_permissions r session of
        Inl e \<Rightarrow> (e, r)
      | Inr (actor, perms) \<Rightarrow>
     (case check_required_permission perms [''b_serverinstance_textmessage_send'']
             ''b_serverinstance_textmessage_send'' of
        Inl p \<Rightarrow> (insufficient_permission_response r p, r)
      | Inr _ \<Rightarrow>
     (case keep_if (\<lambda>s. trim s \<noteq> []) (arg request ''msg'') of
        None \<Rightarrow> (response_error 512 ''msg is required'', r)
      | Some msg \<Rightarrow>
          let sender = query_session_participant r session;
              server_ids = map vs_id (filter server_running (bt_values (st_virtual_servers (rt_store r))));
              r' = fold (\<lambda>sid r. snd (record_text_message now_millis
                     \<lparr>tm_target_mode = 3, tm_server_id = sid, tm_channel_id = None,
                      tm_target_client_id = None, tm_message = msg\<rparr>
                     (cp_database_id sender) (cp_unique_identifier sender) (cp_nickname sender) r))
                     server_ids r
          in (response_ok, append_server_log now 0 4 ''Query'' (''global message sent: '' @ msg) r')))))"

subsection \<open>Help\<close>

record command_spec =
  cs_name :: string
  cs_category :: string
  cs_usage :: "string list"
  cs_permissions :: "string list"
  cs_description :: string

definition normalize_text :: "string \<Rightarrow> string" where
  "normalize_text value = join_with '' '' (split_whitespace value)"

definition implemented_commands :: "string list" where
  "implemented_commands = [
    ''help'', ''login'', ''logout'', ''quit'', ''servernotifyregister'', ''servernotifyunregister'',
    ''sendtextmessage'', ''querylist'', ''clientfind'', ''clientgetids'', ''clientgetdbidfromuid'',
    ''clientgetnamefromdbid'', ''clientgetnamefromuid'', ''clientgetuidfromclid'', ''clientlist'',
    ''clientinfo'', ''clientupdate'', ''clientedit'', ''clientgetvariables'', ''custominfo'',
    ''customsearch'', ''customset'', ''clientcustomset'', ''customdelete'', ''clientcustomdelete'',
    ''clientdblist'', ''clientdbinfo'', ''clientdbedit'', ''clientdbdelete'', ''clientdbfind'',
    ''channelfind'', ''messageadd'', ''messagedel'', ''messageget'', ''messagelist'',
    ''messageupdateflag'', ''complainadd'', ''complaindel'', ''complaindelall'', ''complainlist'',
    ''serveredit'', ''servercreate'', ''serverdelete'', ''serverstart'', ''serverstop'',
    ''serverprocessstop'', ''serversnapshotcreate'', ''serversnapshotdeploy'', ''instanceedit'', ''gm'',
    ''logadd'', ''logview'', ''logquery'', ''bantriggerlist'', ''conversationfetch'',
    ''conversationhistory'', ''conversationmessagedelete'', ''servertemppasswordadd'',
    ''servertemppassworddel'', ''servertemppasswordlist'', ''clientpoke'', ''clientkick'',
    ''clientaddperm'', ''clientdelperm'', ''clientpermlist'', ''banclient'', ''banlist'', ''banadd'',
    ''bandel'', ''bandelall'', ''clientmove'', ''permoverview'', ''permreset'', ''channelclientaddperm'',
    ''channelclientdelperm'', ''channelclientpermlist'', ''channeladdperm'', ''channeldelperm'',
    ''channelinfo'', ''channelpermlist'', ''permfind'', ''permget'', ''permidgetbyname'',
    ''permissionlist'', ''channelcreate'', ''channeldelete'', ''channeledit'', ''channelmove'',
    ''channelsubscribe'', ''channelunsubscribe'', ''channelsubscribeall'', ''channelunsubscribeall'',
    ''channelgroupadd'', ''channelgroupaddperm'', ''channelgroupclientlist'', ''channelgroupcopy'',
    ''channelgroupdel'', ''channelgroupdelperm'', ''channelgrouplist'', ''channelgrouppermlist'',
    ''channelgrouprename'', ''servergroupadd'', ''servergroupaddclient'', ''servergroupaddperm'',
    ''servergroupautoaddperm'', ''servergroupautodelperm'', ''servergroupdel'',
    ''servergroupclientlist'', ''servergroupcopy'', ''servergroupdelclient'', ''servergroupdelperm'',
    ''servergrouplist'', ''servergrouppermlist'', ''servergrouprename'', ''servergroupsbyclientid'',
    ''privilegekeyadd'', ''privilegekeydelete'', ''tokenadd'', ''tokendelete'', ''tokenedit'',
    ''tokenactionlist'', ''tokenlist'', ''tokenuse'', ''privilegekeylist'', ''privilegekeyuse'',
    ''setclientchannelgroup'', ''use'', ''serverrequestconnectioninfo'', ''serverconnectioninfo'',
    ''serveridgetbyport'', ''hostinfo'', ''instanceinfo'', ''listfeaturesupport'', ''featurelist'',
    ''bindinglist'', ''propertylist'', ''serverlist'', ''version'', ''whoami'', ''serverinfo'',
    ''servergetvariables'', ''channellist'', ''musicbotlist'', ''musicbotplayeraction'',
    ''musicbotcreate'', ''musicbotdelete'', ''musicbotqueueadd'', ''musicbotqueuelist'',
    ''musicbotqueueremove'', ''musicbotqueuereorder'', ''musicbotplayerinfo'',
    ''musicbotsetsubscription'', ''musicbotplaylistassign'', ''playlistcreate'', ''playlistdelete'',
    ''playlistaddperm'', ''playlistdelperm'', ''playlistclientaddperm'', ''playlistdelclientperm'',
    ''playlistclientdelperm'', ''playlistclientlist'', ''playlistclientpermlist'', ''playlistedit'',
    ''playlistlist'', ''playlistinfo'', ''playlistpermlist'', ''playlistsetsubscription'',
    ''playlistsonglist'', ''playlistsongadd'', ''playlistsongremove'', ''playlistsongreorder'',
    ''playlistsongsetcurrent'', ''apikeyadd'', ''apikeylist'', ''apikeydel'', ''ftgetfilelist'',
    ''ftlist'', ''ftstop'', ''ftdeletefile'', ''ftdelete'', ''ftinitupload'', ''ftinitdownload'',
    ''ftcreatedir'', ''ftrenamefile'', ''ftgetfileinfo'', ''querycreate'', ''queryrename'',
    ''querychangepassword'', ''querydelete'', ''clientsetserverquerylogin'', ''tsdnsadd'', ''tsdnsdel'',
    ''tsdnslist'', ''tsdnsresolve'', ''handshakebegin'', ''handshakeidentityproof'',
    ''handshakeindentityproof'', ''rtcsessiondescribe'', ''rtcsessionreset'', ''rtcicecandidate'',
    ''broadcastvideo'', ''broadcastaudio'', ''broadcastvideojoin'', ''broadcastaudiojoin'',
    ''broadcastleave'', ''broadcastlist'', ''whispersessioninitialize'', ''whispersessionreset'']"

definition is_command_implemented :: "string \<Rightarrow> bool" where
  "is_command_implemented name = (name \<in> set implemented_commands)"

definition bool_to_string :: "bool \<Rightarrow> string" where
  "bool_to_string b = (if b then ''true'' else ''false'')"

definition handle_help ::
    "(string, command_spec) btree \<Rightarrow> command_spec list \<Rightarrow> command_request \<Rightarrow> query_response" where
  "handle_help commands essential_commands request =
     (case nth_opt (positional_args request) 0 of
        Some command_name \<Rightarrow>
          (case bt_get commands command_name of
             None \<Rightarrow> response_error 768 (''command '' @ command_name @ '' not found'')
           | Some c \<Rightarrow>
               let base = insert_fields
                     [(''command'', cs_name c), (''category'', cs_category c),
                      (''description'', normalize_text (cs_description c)),
                      (''implemented'', bool_to_string (is_command_implemented (cs_name c)))] [];
                   with_usage = (if cs_usage c = [] then base
                     else bt_insert ''usage'' (normalize_text (join_with '' | '' (cs_usage c))) base)
               in response_ok_row
                    (if cs_permissions c = [] then with_usage
                     else bt_insert ''permissions'' (join_with '','' (cs_permissions c)) with_usage))
      | None \<Rightarrow>
          response_ok_rows
            (map (\<lambda>c. insert_fields
                    [(''command'', cs_name c), (''category'', cs_category c),
                     (''implemented'', bool_to_string (is_command_implemented (cs_name c)))] [])
               essential_commands))"

subsection \<open>Passwords\<close>

lemma changepassword_stores:
  assumes "handle_querychangepassword request session r = (resp, r')" and "error_id resp = 0"
    and "arg request ''client_login_name'' = Some login" and "arg request ''client_login_password'' = Some pw"
  shows "\<exists>a. bt_get (accounts r) login = Some a
    \<and> accounts r' = bt_update login (qa_password_update (\<lambda>_. pw)) (accounts r)"
proof -
  have "ok_then (\<lambda>(resp, r'). \<exists>a. bt_get (accounts r) login = Some a
      \<and> accounts r' = bt_update login (qa_password_update (\<lambda>_. pw)) (accounts r))
    (handle_querychangepassword request session r)"
    unfolding handle_querychangepassword_def using assms(3,4)
    by (intro ok_then_branches)
      (auto simp: ok_then_def unwrap_or_def dest: actor_permissions_error)
  then show ?thesis using assms(1,2) by (simp add: ok_then_def)
qed

text \<open>
  Property C19: a successful \<open>querychangepassword\<close> takes effect at once: from then on a login with that name
  succeeds exactly with the new password, and a refused login leaves the session as it was.
\<close>

theorem password_change_takes_effect:
  assumes "handle_querychangepassword request session r = (resp, r')" and "error_id resp = 0"
    and "arg request ''client_login_name'' = Some login" and "arg request ''client_login_password'' = Some pw"
    and "accounts_ok r"
    and "arg attempt ''client_login_name'' = Some login" and "arg attempt ''client_login_password'' = Some pw'"
  shows "(error_id (fst (handle_login attempt r' s)) = 0 \<longleftrightarrow> pw' = pw)
    \<and> (if pw' = pw then qs_authenticated_login (snd (handle_login attempt r' s)) = Some login
       else snd (handle_login attempt r' s) = s)"
proof -
  obtain a where "bt_get (accounts r) login = Some a"
    and r': "accounts r' = bt_update login (qa_password_update (\<lambda>_. pw)) (accounts r)"
    using changepassword_stores [OF assms(1-4)] by blast
  moreover have "qa_login_name a = login" using assms(5) calculation(1) by (simp add: accounts_ok_def)
  ultimately show ?thesis
    using assms(6,7)
    by (simp add: handle_login_def or_else_def bt_get_update restore_session_from_snapshot_def Let_def)
qed

subsection \<open>Snapshots are restored\<close>

definition subscription_valid :: "baseline_runtime \<Rightarrow> u32 \<Rightarrow> notification_subscription \<Rightarrow> bool" where
  "subscription_valid r server_id s =
     (case ns_channel_id s of
        None \<Rightarrow> True
      | Some c \<Rightarrow> (ns_event s = EvChannel \<or> ns_event s = EvTextChannel) \<and> channel_exists r server_id c)"

lemma event_parse_as_str [simp]: "notification_event_parse (notification_event_as_str k) = Some k"
  by (cases k) simp_all

lemma subscriptions_restored:
  assumes "bt_get (rt_session_snapshots r) login = Some snapshot"
    and "pss_notification_subscriptions snapshot
      = map (\<lambda>s. (notification_event_as_str (ns_event s), ns_channel_id s)) subs"
    and "list_all (subscription_valid r server_id) subs"
  shows "restore_notification_subscriptions r login server_id = subs"
proof -
  have "List.map_filter
          (\<lambda>(event, channel_id). map_option (\<lambda>kind. \<lparr>ns_event = kind, ns_channel_id =
             (if kind = EvChannel \<or> kind = EvTextChannel then
                (case channel_id of None \<Rightarrow> None
                 | Some c \<Rightarrow> if channel_exists r server_id c then Some c else None) else None)\<rparr>)
             (notification_event_parse event))
          (map (\<lambda>s. (notification_event_as_str (ns_event s), ns_channel_id s)) subs) = subs"
    using assms(3)
    by (induction subs)
      (auto simp: map_filter_simps subscription_valid_def simp del: notification_event_parse.simps
        split: option.splits if_splits)
  then show ?thesis by (simp add: restore_notification_subscriptions_def assms(1,2))
qed

text \<open>
  Property C20: logging in again brings a session back to where it was. When the snapshot of a session is
  taken and the server, the channel and the subscribed channels still exist, the next login with that
  account restores the selected server, the channel, the virtual mode and the subscriptions.
\<close>

theorem session_snapshot_roundtrip:
  assumes "bt_get (accounts r) login = Some a" and "qa_login_name a = login"
    and "qs_authenticated_login s = Some login"
    and "qs_selected_virtual_server_id s = Some server_id"
    and "bt_contains_key (st_virtual_servers (rt_store r)) server_id"
    and "qs_current_channel_id s = Some channel_id" and "channel_exists r server_id channel_id"
    and "list_all (subscription_valid r server_id) (qs_notification_subscriptions s)"
    and "arg attempt ''client_login_name'' = Some login"
    and "arg attempt ''client_login_password'' = Some (qa_password a)"
  shows "let s' = snd (handle_login attempt (sync_session_snapshot s r) s0)
    in qs_authenticated_login s' = Some login
       \<and> qs_selected_virtual_server_id s' = qs_selected_virtual_server_id s
       \<and> qs_current_channel_id s' = qs_current_channel_id s \<and> qs_virtual_mode s' = qs_virtual_mode s
       \<and> qs_notification_subscriptions s' = qs_notification_subscriptions s"
proof -
  let ?r = "sync_session_snapshot s r"
  have store: "rt_store ?r = rt_store r" by (simp add: sync_session_snapshot_def split: option.splits)
  then have exists: "channel_exists ?r = channel_exists r" and valid: "subscription_valid ?r = subscription_valid r"
    by (auto simp: fun_eq_iff channel_exists_def server_channels_def subscription_valid_def split: option.splits)
  have snap: "bt_get (rt_session_snapshots ?r) login =
      Some \<lparr>pss_selected_virtual_server_id = Some server_id, pss_current_channel_id = Some channel_id,
            pss_virtual_mode = qs_virtual_mode s,
            pss_notification_subscriptions =
              map (\<lambda>s. (notification_event_as_str (ns_event s), ns_channel_id s)) (qs_notification_subscriptions s)\<rparr>"
    using assms(3,4,6) by (simp add: sync_session_snapshot_def bt_get_insert)
  have subs: "restore_notification_subscriptions ?r login server_id = qs_notification_subscriptions s"
    using assms(8) valid by (intro subscriptions_restored [OF snap]) simp_all
  show ?thesis
    using assms snap subs exists
    by (simp add: handle_login_def or_else_def store restore_session_from_snapshot_def keep_if_def unwrap_or_def)
qed

subsection \<open>The client of a session is the session\<close>

lemma allocated_client_id:
  assumes "st_next_query_client_id (rt_store r) \<le> j" and "\<not> bt_contains_key (st_online_clients (rt_store r)) j"
  obtains i r' where "allocate_query_client_id r = Some (i, r')"
    "bt_get (st_online_clients (rt_store r)) i = None"
    "r' = upd_store (st_next_query_client_id_update (\<lambda>_. sat_add i 1)) r"
proof -
  obtain i where i: "allocate_loop (st_online_clients (rt_store r)) (st_next_query_client_id (rt_store r)) = Some i"
    using allocate_loop_returns [OF assms] by blast
  then have "bt_get (st_online_clients (rt_store r)) i = None"
    using allocate_loop_Some [OF i] by (simp add: bt_contains_key_def)
  with i that show ?thesis by (simp add: allocate_query_client_id_def)
qed

lemma register_session_client_get:
  assumes "session_client_data session r = Some (dbid, uid, groups, ctype, platform, version)"
  obtains c where
    "st_online_clients (rt_store (register_session_client now session server_id channel_id r))
      = bt_insert (qs_client_id session) c (st_online_clients (rt_store r))"
    "oc_id c = qs_client_id session" "oc_server_id c = server_id" "oc_channel_id c = channel_id" "oc_database_id c = dbid"
    "oc_server_groups c = groups" "oc_nickname c = effective_nickname session"
  using assms that by (simp add: register_session_client_def put_client_def Let_def)

definition session_presence_ok ::
    "query_session \<Rightarrow> query_account \<Rightarrow> u32 \<Rightarrow> baseline_runtime \<Rightarrow> query_session \<times> baseline_runtime \<Rightarrow> bool" where
  "session_presence_ok session a server_id r res =
     (case res of (session', r') \<Rightarrow>
        (\<exists>c. bt_get (st_online_clients (rt_store r')) (qs_client_id session') = Some c
           \<and> oc_id c = qs_client_id session' \<and> oc_server_id c = server_id
           \<and> oc_channel_id c = unwrap_or 1 (or_else (qs_current_channel_id session) (default_channel_id_for_server r server_id))
           \<and> oc_server_groups c = qa_server_groups a \<and> oc_nickname c = effective_nickname session)
        \<and> (\<forall>i. i \<noteq> qs_client_id session' \<longrightarrow>
              bt_get (st_online_clients (rt_store r')) i = bt_get (st_online_clients (rt_store r)) i)
        \<and> (if qs_client_id session = 0 then bt_get (st_online_clients (rt_store r)) (qs_client_id session') = None
           else session' = session))"


subsection \<open>Examples\<close>

definition login_demo :: baseline_runtime where
  "login_demo = account_demo\<lparr>rt_store := (rt_store account_demo)
     \<lparr>st_virtual_servers := seed_virtual_servers,
      st_channels := [(1, [demo_channel 1 0, demo_channel 2 0])],
      st_online_clients := [(1, seed_online_client_10 1000)]\<rparr>\<rparr>"

definition login_request :: "string \<Rightarrow> string \<Rightarrow> command_request" where
  "login_request name pw =
     account_request ''login'' [(''client_login_name'', name), (''client_login_password'', pw)]"

definition working_session :: query_session where
  "working_session = token_session\<lparr>qs_current_channel_id := Some 2, qs_virtual_mode := True,
     qs_notification_subscriptions :=
       [\<lparr>ns_event = EvTextChannel, ns_channel_id = Some 2\<rparr>, \<lparr>ns_event = EvServer, ns_channel_id = None\<rparr>]\<rparr>"

theorem password_change_takes_effect_witness:
  "let r' = snd (handle_querychangepassword (password_request ''ops'' ''new'') token_session account_demo)
   in error_id (fst (handle_login (login_request ''ops'' ''new'') r' default_session)) = 0
      \<and> error_id (fst (handle_login (login_request ''ops'' ''old'') r' default_session)) \<noteq> 0"
proof -
  let ?res = "handle_querychangepassword (password_request ''ops'' ''new'') token_session account_demo"
  have run: "?res = (fst ?res, snd ?res)" "error_id (fst ?res) = 0"
    "arg (password_request ''ops'' ''new'') ''client_login_name'' = Some ''ops''"
    "arg (password_request ''ops'' ''new'') ''client_login_password'' = Some ''new''"
    by (simp, code_simp+)
  have ok: "accounts_ok account_demo"
    by (simp add: accounts_ok_def account_demo_def bt_inv_def bt_get_def token_account_def)
  have args: "arg (login_request ''ops'' pw) ''client_login_name'' = Some ''ops''"
    "arg (login_request ''ops'' pw) ''client_login_password'' = Some pw" for pw
    by (simp_all add: arg_def login_request_def account_request_def bt_get_def)
  show ?thesis
    using password_change_takes_effect [OF run ok args, of "''new''" default_session]
      password_change_takes_effect [OF run ok args, of "''old''" default_session]
    by (simp add: Let_def)
qed

theorem session_snapshot_roundtrip_witness:
  "let s' = snd (handle_login (login_request ''ops'' []) (sync_session_snapshot working_session login_demo) default_session)
   in qs_current_channel_id s' = Some 2 \<and> qs_virtual_mode s'
      \<and> qs_notification_subscriptions s' = qs_notification_subscriptions working_session"
proof -
  have acc: "bt_get (accounts login_demo) ''ops'' = Some (token_account\<lparr>qa_permissions :=
           [(''b_client_query_change_own_password'', perm 1), (''b_client_query_create_own'', perm 1)]\<rparr>)"
    by (simp add: login_demo_def account_demo_def bt_get_def)
  have srv: "bt_contains_key (st_virtual_servers (rt_store login_demo)) 1" "channel_exists login_demo 1 2"
    "list_all (subscription_valid login_demo 1) (qs_notification_subscriptions working_session)"
    by code_simp+
  show ?thesis
    using session_snapshot_roundtrip [OF acc _ _ _ srv(1) _ srv(2,3), of "login_request ''ops'' []" default_session]
    by (simp add: working_session_def token_session_def token_account_def login_request_def account_request_def
        arg_def bt_get_def Let_def)
qed


end
