(* ===== verification/Logs_Api_Keys.thy ===== *)
theory Logs_Api_Keys
  imports Sessions
begin

text \<open>
  The server log and the API keys, \<open>runtime/handlers/logs_and_apikeys.rs\<close>. An API key is a JSON object in
  the instance properties; the JSON library is a pair of arguments, \<open>render_json\<close> for \<open>Value::to_string\<close> and
  \<open>parse_json\<close> for \<open>serde_json::from_str\<close>, whose result is the lookup function of the parsed value.
\<close>

subsection \<open>The log\<close>

definition log_instance :: "command_request \<Rightarrow> query_session \<Rightarrow> bool" where
  "log_instance request session =
     (''instance'' \<in> set (flags request)
      \<or> (case arg request ''instance'' of None \<Rightarrow> False | Some v \<Rightarrow> runtime_bool_flag v)
      \<or> qs_selected_virtual_server_id session = None)"

definition log_permissions :: "bool \<Rightarrow> string \<Rightarrow> string list" where
  "log_permissions is_instance action =
     (if is_instance then [''b_serverinstance_log_'' @ action, ''b_virtualserver_log_'' @ action]
      else [''b_virtualserver_log_'' @ action, ''b_serverinstance_log_'' @ action])"

definition log_target :: "command_request \<Rightarrow> query_session \<Rightarrow> u32" where
  "log_target request session =
     (if log_instance request session then 0 else unwrap_or 1 (qs_selected_virtual_server_id session))"

definition log_level :: "command_request \<Rightarrow> query_response + u32" where
  "log_level request =
     (case arg request ''loglevel'' of
        None \<Rightarrow> Inr 4
      | Some level_str \<Rightarrow>
          (case parse_word level_str of
             None \<Rightarrow> Inl (response_error 512 ''loglevel must be numeric (1..4)'')
           | Some parsed \<Rightarrow>
               if \<not> (1 \<le> parsed \<and> parsed \<le> 4)
               then Inl (response_error 512 ''loglevel must be between 1 and 4'') else Inr parsed))"

definition handle_logadd ::
    "u64 \<Rightarrow> command_request \<Rightarrow> query_session \<Rightarrow> baseline_runtime \<Rightarrow> query_response \<times> baseline_runtime" where
  "handle_logadd now request session r =
     (if no_actor session then (response_error 521 ''login required'', r)
      else
     (case log_level request of
        Inl e \<Rightarrow> (e, r)
      | Inr loglevel \<Rightarrow>
     (case keep_if (\<lambda>s. trim s \<noteq> []) (or_else (arg request ''logmsg'') (arg request ''msg'')) of
        None \<Rightarrow> (response_error 512 ''logmsg is required'', r)
      | Some logmsg \<Rightarrow>
     (case query_actor_effective_permissions r session of
        Inl e \<Rightarrow> (e, r)
      | Inr (actor, perms) \<Rightarrow>
          let required = log_permissions (log_instance request session) ''add''
          in case check_required_permission perms required (required ! 0) of
               Inl p \<Rightarrow> (insufficient_permission_response r p, r)
             | Inr _ \<Rightarrow>
                 (response_ok,
                  append_server_log now (log_target request session) loglevel ''Query'' logmsg r)))))"

definition level_name :: "u32 \<Rightarrow> string" where
  "level_name level =
     (if level = 1 then ''ERROR'' else if level = 2 then ''WARNING'' else if level = 3 then ''DEBUG'' else ''INFO'')"

definition log_row :: "nat \<Rightarrow> server_log_entry \<Rightarrow> row" where
  "log_row file_size entry =
     insert_fields
       [(''last_pos'', ''0''), (''file_size'', nat_to_string file_size),
        (''l'', word_to_string (sl_timestamp entry) @ ''|'' @ level_name (sl_level entry) @ ''|''
                @ sl_channel entry @ ''|'' @ word_to_string (sl_server_id entry) @ ''|'' @ sl_message entry),
        (''timestamp'', word_to_string (sl_timestamp entry)), (''loglevel'', word_to_string (sl_level entry)),
        (''channel'', sl_channel entry), (''sid'', word_to_string (sl_server_id entry)),
        (''msg'', sl_message entry)] []"

definition log_limit :: "command_request \<Rightarrow> nat" where
  "log_limit request =
     max 1 (min 500 (unwrap_or 100
       (Option.bind (or_else (arg request ''lines'') (arg request ''limit'')) (parse_uint 64))))"

definition log_matching :: "command_request \<Rightarrow> query_session \<Rightarrow> baseline_runtime \<Rightarrow> server_log_entry list" where
  "log_matching request session r =
     (let matching = filter (\<lambda>e. sl_server_id e = log_target request session) (st_server_logs (rt_store r));
          reversed = (case arg request ''reverse'' of None \<Rightarrow> False | Some v \<Rightarrow> runtime_bool_flag v)
      in take (log_limit request) (if reversed then rev matching else matching))"

definition handle_logview :: "command_request \<Rightarrow> query_session \<Rightarrow> baseline_runtime \<Rightarrow> query_response" where
  "handle_logview request session r =
     (if no_actor session then response_error 521 ''login required''
      else
     (case query_actor_effective_permissions r session of
        Inl e \<Rightarrow> e
      | Inr (actor, perms) \<Rightarrow>
          let required = log_permissions (log_instance request session) ''view''
          in case check_required_permission perms required (required ! 0) of
               Inl p \<Rightarrow> insufficient_permission_response r p
             | Inr _ \<Rightarrow>
                 let matching = log_matching request session r
                 in if matching = [] then empty_result
                    else response_ok_rows
                      (map (log_row (sum_list (map (\<lambda>e. length (sl_message e) + 32) matching))) matching)))"

subsection \<open>API keys\<close>

datatype json_scalar = JNum u64 | JStr string

definition as_u64 :: "json_scalar option \<Rightarrow> u64 option" where
  "as_u64 v = (case v of Some (JNum n) \<Rightarrow> Some n | _ \<Rightarrow> None)"

definition as_str :: "json_scalar option \<Rightarrow> string option" where
  "as_str v = (case v of Some (JStr s) \<Rightarrow> Some s | _ \<Rightarrow> None)"

type_synonym json_renderer = "(string \<times> json_scalar) list \<Rightarrow> string"
type_synonym json_parser = "string \<Rightarrow> (string \<Rightarrow> json_scalar option) option"

definition apikey_name :: "u64 \<Rightarrow> string" where
  "apikey_name i = ''apikey:item:'' @ word_to_string i"

definition next_apikey_id :: "baseline_runtime \<Rightarrow> u64" where
  "next_apikey_id r =
     unwrap_or 1 (Option.bind (bt_get (st_instance_properties (rt_store r)) ''apikey:next_id'') parse_word)"

definition apikey_entry :: "u64 \<Rightarrow> u32 \<Rightarrow> u64 \<Rightarrow> string \<Rightarrow> u64 \<Rightarrow> u64 \<Rightarrow> (string \<times> json_scalar) list" where
  "apikey_entry i sid cldbid scope created_at expires_at =
     [(''id'', JNum i), (''sid'', JNum (u64_from_u32 sid)), (''cldbid'', JNum cldbid), (''scope'', JStr scope),
      (''time_created'', JNum created_at), (''time_expire'', JNum expires_at),
      (''apikey'', JStr (''BTEA-APIKEY-'' @ word_to_string i @ ''-'' @ word_to_string created_at @ ''-''
                          @ word_to_string cldbid))]"

definition store_apikey ::
    "json_renderer \<Rightarrow> u64 \<Rightarrow> u32 \<Rightarrow> u64 \<Rightarrow> string \<Rightarrow> u64 \<Rightarrow> u64 \<Rightarrow> baseline_runtime \<Rightarrow> baseline_runtime" where
  "store_apikey render_json i sid cldbid scope created_at expires_at r =
     upd_store
       (st_instance_properties_update
         (\<lambda>m. bt_insert (apikey_name i)
                (render_json (apikey_entry i sid cldbid scope created_at expires_at))
                (bt_insert ''apikey:next_id'' (word_to_string (i + 1)) m))) r"

definition handle_apikeyadd ::
    "json_renderer \<Rightarrow> u64 \<Rightarrow> command_request \<Rightarrow> query_session \<Rightarrow> baseline_runtime \<Rightarrow>
     query_response \<times> baseline_runtime" where
  "handle_apikeyadd render_json now request session r =
     (if \<not> session_has_permission_actor session then (response_error 521 ''login required'', r)
      else
     (case query_actor_effective_permissions r session of
        Inl e \<Rightarrow> (e, r)
      | Inr (actor, perms) \<Rightarrow>
          let scope = unwrap_or ''manage'' (arg request ''scope'')
          in if scope \<notin> set [''manage'', ''write'', ''read''] then (response_error 512 ''invalid scope'', r)
             else
               let lifetime_days = unwrap_or 14 (arg_u64 request ''lifetime'');
                   cldbid = unwrap_or (ac_client_database_id actor) (arg_u64 request ''cldbid'');
                   sid = unwrap_or 0 (qs_selected_virtual_server_id session);
                   next_id = next_apikey_id r;
                   expires_at = (if lifetime_days = 0 then 0
                                 else sat_add now (sat_mul lifetime_days 86400))
               in (response_ok_row (insert_fields
                     [(''apikey'', ''BTEA-APIKEY-'' @ word_to_string next_id @ ''-'' @ word_to_string now @ ''-''
                                   @ word_to_string cldbid),
                      (''id'', word_to_string next_id), (''sid'', word_to_string sid),
                      (''cldbid'', word_to_string cldbid), (''scope'', scope),
                      (''time_created'', word_to_string now), (''time_expire'', word_to_string expires_at)] []),
                   store_apikey render_json next_id sid cldbid scope now expires_at r)))"

definition apikey_row :: "(string \<Rightarrow> json_scalar option) \<Rightarrow> row" where
  "apikey_row parsed =
     insert_fields
       [(''id'', word_to_string (unwrap_or 0 (as_u64 (parsed ''id'')))),
        (''sid'', word_to_string (unwrap_or 0 (as_u64 (parsed ''sid'')))),
        (''cldbid'', word_to_string (unwrap_or 0 (as_u64 (parsed ''cldbid'')))),
        (''scope'', unwrap_or ''manage'' (as_str (parsed ''scope''))),
        (''time_created'', word_to_string (unwrap_or 0 (as_u64 (parsed ''time_created'')))),
        (''time_expire'', word_to_string (unwrap_or 0 (as_u64 (parsed ''time_expire''))))] []"

definition apikey_filter :: "command_request \<Rightarrow> permission_actor_context \<Rightarrow> u64 option" where
  "apikey_filter request actor =
     (case arg request ''cldbid'' of
        None \<Rightarrow> Some (ac_client_database_id actor)
      | Some v \<Rightarrow> if v = ''*'' then None else parse_word v)"

definition apikey_rows :: "json_parser \<Rightarrow> u64 option \<Rightarrow> (string, string) btree \<Rightarrow> row list" where
  "apikey_rows parse_json filter_cldbid properties =
     List.map_filter
       (\<lambda>(k, v).
          if \<not> starts_with ''apikey:item:'' k then None
          else case parse_json v of
                 None \<Rightarrow> None
               | Some parsed \<Rightarrow>
                   if (case filter_cldbid of
                         None \<Rightarrow> False
                       | Some expected \<Rightarrow> expected \<noteq> unwrap_or 0 (as_u64 (parsed ''cldbid'')))
                   then None else Some (apikey_row parsed)) properties"

definition handle_apikeylist ::
    "json_parser \<Rightarrow> command_request \<Rightarrow> query_session \<Rightarrow> baseline_runtime \<Rightarrow> query_response" where
  "handle_apikeylist parse_json request session r =
     (if \<not> session_has_permission_actor session then response_error 521 ''login required''
      else
     (case query_actor_effective_permissions r session of
        Inl e \<Rightarrow> e
      | Inr (actor, perms) \<Rightarrow>
          let rs = apikey_rows parse_json (apikey_filter request actor) (st_instance_properties (rt_store r))
          in if rs = [] then empty_result else response_ok_rows rs))"

definition handle_apikeydel ::
    "command_request \<Rightarrow> query_session \<Rightarrow> baseline_runtime \<Rightarrow> query_response \<times> baseline_runtime" where
  "handle_apikeydel request session r =
     (if \<not> session_has_permission_actor session then (response_error 521 ''login required'', r)
      else
     (case arg_u64 request ''id'' of
        None \<Rightarrow> (response_error 512 ''id is required'', r)
      | Some i \<Rightarrow>
          if \<not> bt_contains_key (st_instance_properties (rt_store r)) (apikey_name i) then (empty_result, r)
          else (response_ok, upd_store (st_instance_properties_update (bt_remove (apikey_name i))) r)))"

subsection \<open>What a log request shows\<close>

lemma logview_rows:
  "error_id (handle_logview request session r) = 0 \<Longrightarrow>
   rows (handle_logview request session r)
     = map (log_row (sum_list (map (\<lambda>e. length (sl_message e) + 32) (log_matching request session r))))
         (log_matching request session r)"
  by (auto simp: handle_logview_def Let_def response_defs insufficient_permission_response_def
      dest: actor_permissions_error split: if_splits sum.splits prod.splits)

text \<open>
  A successful \<open>logview\<close> answers between one and 500 rows, exactly the first or, with
  \<open>reverse\<close>, the last entries of the addressed log, each entry at most once.
\<close>

theorem logview_window:
  assumes "error_id (handle_logview request session r) = 0"
  shows "let shown = log_matching request session r;
             matching = filter (\<lambda>e. sl_server_id e = log_target request session) (st_server_logs (rt_store r))
    in length (rows (handle_logview request session r)) = length shown
       \<and> length shown = min (log_limit request) (length matching)
       \<and> 1 \<le> length shown \<and> length shown \<le> 500
       \<and> (shown = take (log_limit request) matching \<or> shown = take (log_limit request) (rev matching))"
proof -
  have "log_matching request session r \<noteq> []"
    using assms
    by (auto simp: handle_logview_def Let_def response_defs insufficient_permission_response_def
        dest: actor_permissions_error split: if_splits sum.splits prod.splits)
  moreover define ms where "ms = filter (\<lambda>e. sl_server_id e = log_target request session) (st_server_logs (rt_store r))"
  moreover have "1 \<le> log_limit request" "log_limit request \<le> 500" by (simp_all add: log_limit_def)
  moreover have "log_matching request session r = take (log_limit request) ms
      \<or> log_matching request session r = take (log_limit request) (rev ms)"
    by (simp add: log_matching_def Let_def ms_def)
  ultimately show ?thesis
    using logview_rows [OF assms] by (auto simp: Let_def Suc_le_eq min.commute)
qed

subsection \<open>API keys are listed, deleted and leaked\<close>

definition apikey_stored ::
    "json_renderer \<Rightarrow> u64 \<Rightarrow> command_request \<Rightarrow> query_session \<Rightarrow> baseline_runtime \<Rightarrow> baseline_runtime \<Rightarrow> bool" where
  "apikey_stored render_json now request session r r' =
     (case query_actor_effective_permissions r session of
        Inl _ \<Rightarrow> False
      | Inr (actor, perms) \<Rightarrow>
          \<exists>sid expires_at.
            r' = store_apikey render_json (next_apikey_id r) sid
                   (unwrap_or (ac_client_database_id actor) (arg_u64 request ''cldbid''))
                   (unwrap_or ''manage'' (arg request ''scope'')) now expires_at r)"

lemma apikeyadd_stores:
  assumes "handle_apikeyadd render_json now request session r = (resp, r')" and "error_id resp = 0"
  shows "apikey_stored render_json now request session r r'"
proof -
  have "ok_then (\<lambda>(resp, r'). apikey_stored render_json now request session r r')
      (handle_apikeyadd render_json now request session r)"
    unfolding handle_apikeyadd_def
    by (intro ok_then_branches)
      (auto simp: ok_then_def apikey_stored_def dest: actor_permissions_error)
  then show ?thesis using assms by (simp add: ok_then_def)
qed

lemma stored_apikey_get:
  "bt_get (st_instance_properties (rt_store (store_apikey render_json i sid cldbid scope t e r))) (apikey_name i)
     = Some (render_json (apikey_entry i sid cldbid scope t e))"
  by (simp add: store_apikey_def bt_get_insert)

text \<open>
  Every session that has logged in reads every API key of the instance. A key that
  \<open>apikeyadd\<close> has made for one client is part of the \<open>instanceinfo\<close> row of every session with an actor,
  whatever its permissions, since that row carries all instance properties.
\<close>

theorem apikeys_in_instanceinfo:
  assumes "handle_apikeyadd render_json now request session r = (resp, r')" and "error_id resp = 0"
    and "session_has_permission_actor spy" and "bt_inv (st_instance_properties (rt_store r))"
  shows "\<exists>row sid cldbid scope e. rows (handle_instanceinfo spy r') = [row]
    \<and> bt_get row (apikey_name (next_apikey_id r))
      = Some (render_json (apikey_entry (next_apikey_id r) sid cldbid scope now e))"
proof -
  obtain sid cldbid scope e where r': "r' = store_apikey render_json (next_apikey_id r) sid cldbid scope now e r"
    using apikeyadd_stores [OF assms(1,2)] by (auto simp: apikey_stored_def split: sum.splits)
  have inv: "bt_inv (st_instance_properties (rt_store r'))"
    using assms(4) by (simp add: r' store_apikey_def bt_inv_insert)
  have get: "map_of (rev (st_instance_properties (rt_store r'))) (apikey_name (next_apikey_id r))
      = Some (render_json (apikey_entry (next_apikey_id r) sid cldbid scope now e))"
    using stored_apikey_get [of render_json "next_apikey_id r" sid cldbid scope now e r]
      map_of_inject_set [of "rev (st_instance_properties (rt_store r'))" "st_instance_properties (rt_store r')"]
      bt_inv_distinct [OF inv]
    by (simp add: r' bt_get_def rev_map [symmetric])
  show ?thesis
    using assms(3) get
    by (intro exI [of _ "hd (rows (handle_instanceinfo spy r'))"] exI conjI)
      (auto simp: handle_instanceinfo_def Let_def response_defs bt_get_extend)
qed

text \<open>A key is listed to its owner until it is deleted, given a JSON library that reads what it wrote.\<close>

lemma map_filter_member: "x \<in> set xs \<Longrightarrow> f x = Some y \<Longrightarrow> y \<in> set (List.map_filter f xs)"
  by (force simp: List.map_filter_def)

lemma apikey_row_listed:
  assumes "bt_get m (apikey_name i) = Some (render_json (apikey_entry i sid cldbid scope t e))"
    and "parse_json (render_json (apikey_entry i sid cldbid scope t e)) = Some (map_of (apikey_entry i sid cldbid scope t e))"
    and "filter_cldbid = None \<or> filter_cldbid = Some cldbid"
  shows "apikey_row (map_of (apikey_entry i sid cldbid scope t e)) \<in> set (apikey_rows parse_json filter_cldbid m)"
proof -
  have mem: "(apikey_name i, render_json (apikey_entry i sid cldbid scope t e)) \<in> set m"
    using assms(1) by (auto simp: bt_get_def dest: map_of_SomeD)
  have "starts_with ''apikey:item:'' (apikey_name i)" by (auto simp: starts_with_iff apikey_name_def)
  moreover have "unwrap_or 0 (as_u64 (map_of (apikey_entry i sid cldbid scope t e) ''cldbid'')) = cldbid"
    by (simp add: apikey_entry_def as_u64_def unwrap_or_def)
  ultimately show ?thesis
    using assms(2,3) unfolding apikey_rows_def by (intro map_filter_member [OF mem]) auto
qed

lemma apikeydel_exact:
  assumes "handle_apikeydel request session r = (resp, r')" and "error_id resp = 0"
  shows "\<exists>i. arg_u64 request ''id'' = Some i
    \<and> bt_get (st_instance_properties (rt_store r'))
      = (bt_get (st_instance_properties (rt_store r)))(apikey_name i := None)"
  using assms by (auto simp: handle_apikeydel_def bt_get_remove split: if_splits option.splits)

subsection \<open>Examples\<close>

definition show_json :: json_renderer where
  "show_json fs = concat (map (\<lambda>(k, v). k @ ''='' @ (case v of JNum n \<Rightarrow> word_to_string n | JStr t \<Rightarrow> t) @ '';'') fs)"

definition log_demo :: baseline_runtime where
  "log_demo = login_demo\<lparr>rt_store := (rt_store login_demo)
     \<lparr>st_query_accounts := [(''ops'', token_account\<lparr>qa_permissions := [(''b_virtualserver_log_view'', perm 1)]\<rparr>)],
      st_server_logs := [\<lparr>sl_id = 1, sl_server_id = 1, sl_timestamp = 5, sl_level = 4, sl_channel = ''Query'',
                           sl_message = ''first''\<rparr>,
                         \<lparr>sl_id = 2, sl_server_id = 0, sl_timestamp = 6, sl_level = 4, sl_channel = ''Query'',
                           sl_message = ''other''\<rparr>,
                         \<lparr>sl_id = 3, sl_server_id = 1, sl_timestamp = 7, sl_level = 1, sl_channel = ''Query'',
                           sl_message = ''last''\<rparr>]\<rparr>\<rparr>"

definition key_request :: command_request where
  "key_request = account_request ''apikeyadd'' [(''scope'', ''manage'')]"

theorem apikeys_in_instanceinfo_witness:
  "\<exists>row sid cldbid scope e.
     rows (handle_instanceinfo (client_session 40) (snd (handle_apikeyadd show_json 1700000000 key_request token_session log_demo)))
       = [row]
     \<and> bt_get row ''apikey:item:1'' = Some (show_json (apikey_entry 1 sid cldbid scope 1700000000 e))"
proof -
  let ?res = "handle_apikeyadd show_json 1700000000 key_request token_session log_demo"
  have run: "?res = (fst ?res, snd ?res)" "error_id (fst ?res) = 0" by (simp, code_simp)
  have spy: "session_has_permission_actor (client_session 40)"
    by (simp add: session_has_permission_actor_def client_session_def)
  have i: "next_apikey_id log_demo = 1" "apikey_name 1 = ''apikey:item:1''" by code_simp+
  have "bt_inv (st_instance_properties (rt_store log_demo))" by code_simp
  note apikeys_in_instanceinfo [OF run spy this]
  then show ?thesis unfolding i .
qed

end
