(* ===== verification/Client_Database.thy ===== *)
theory Client_Database
  imports Messages
begin

text \<open>
  The client database and the custom properties, \<open>runtime/handlers/client_db_and_custom.rs\<close>, with the
  pattern search \<open>sql_like_matches\<close>, which is shown equal to the meaning of a \<open>LIKE\<close> pattern.
\<close>

subsection \<open>Patterns\<close>

text \<open>\<open>str::find\<close>: the position of the first occurrence.\<close>

fun find_sub :: "string \<Rightarrow> string \<Rightarrow> nat option" where
  "find_sub p [] = (if p = [] then Some 0 else None)"
| "find_sub p (c # s) = (if starts_with p (c # s) then Some 0 else map_option Suc (find_sub p s))"

definition ends_with :: "string \<Rightarrow> string \<Rightarrow> bool" where
  "ends_with p s = (strip_suffix p s \<noteq> None)"

fun like_rest :: "string \<Rightarrow> string list \<Rightarrow> nat \<Rightarrow> bool" where
  "like_rest v [] pos = True"
| "like_rest v (p # ps) pos =
     (case find_sub p (drop pos v) of
        None \<Rightarrow> False
      | Some found \<Rightarrow> like_rest v ps (pos + found + length p))"

definition like_parts :: "string \<Rightarrow> bool \<Rightarrow> string list \<Rightarrow> bool" where
  "like_parts v anchored parts =
     (case parts of
        [] \<Rightarrow> True
      | p # ps \<Rightarrow>
          if anchored then starts_with p v \<and> like_rest v ps (length p) else like_rest v (p # ps) 0)"

definition sql_like_matches :: "string \<Rightarrow> string \<Rightarrow> bool" where
  "sql_like_matches value pattern =
     (let v = to_ascii_lowercase value; p = to_ascii_lowercase pattern in
      if CHR ''%'' \<notin> set p then find_sub p v \<noteq> None
      else
        let parts = filter (\<lambda>s. s \<noteq> []) (split_char CHR ''%'' p)
        in if parts = [] then True
           else like_parts v (\<not> starts_with ''%'' p) parts
                \<and> (ends_with ''%'' p \<or> ends_with (last parts) v))"

subsection \<open>Custom properties\<close>

definition handle_custominfo :: "command_request \<Rightarrow> query_session \<Rightarrow> baseline_runtime \<Rightarrow> query_response" where
  "handle_custominfo request session r =
     (if no_actor session then response_error 521 ''login required''
      else
     (case qs_selected_virtual_server_id session of
        None \<Rightarrow> response_error 522 ''virtual server selection required''
      | Some server_id \<Rightarrow>
     (case arg_u64 request ''cldbid'' of
        None \<Rightarrow> response_error 512 ''cldbid is required''
      | Some cldbid \<Rightarrow>
          let props = unwrap_or [] (bt_get (st_custom_client_properties (rt_store r)) (server_id, cldbid))
          in if props = [] then empty_result
             else response_ok_rows
               (map (\<lambda>(ident, value). insert_fields
                       [(''cldbid'', word_to_string cldbid), (''ident'', ident), (''value'', value)] []) props))))"

definition handle_customsearch :: "command_request \<Rightarrow> query_session \<Rightarrow> baseline_runtime \<Rightarrow> query_response" where
  "handle_customsearch request session r =
     (if no_actor session then response_error 521 ''login required''
      else
     (case qs_selected_virtual_server_id session of
        None \<Rightarrow> response_error 522 ''virtual server selection required''
      | Some server_id \<Rightarrow>
     (case arg_text request ''ident'' of
        None \<Rightarrow> response_error 512 ''ident is required''
      | Some ident \<Rightarrow>
     (case arg request ''pattern'' of
        None \<Rightarrow> response_error 512 ''pattern is required''
      | Some pattern \<Rightarrow>
          let rs = List.map_filter
                (\<lambda>((sid, cldbid), props).
                   if sid \<noteq> server_id then None
                   else case bt_get props ident of
                          None \<Rightarrow> None
                        | Some val \<Rightarrow>
                            if sql_like_matches val pattern
                            then Some (insert_fields [(''cldbid'', word_to_string cldbid), (''ident'', ident),
                                                      (''value'', val)] [])
                            else None)
                (st_custom_client_properties (rt_store r))
          in if rs = [] then empty_result else response_ok_rows rs))))"

definition custom_pair :: "row \<Rightarrow> (string \<times> string) option" where
  "custom_pair args =
     (case (bt_get args ''ident'', bt_get args ''value'') of
        (Some ident, Some value) \<Rightarrow> if trim ident = [] then None else Some (trim ident, value)
      | _ \<Rightarrow> None)"

definition custom_pairs :: "command_request \<Rightarrow> (string \<times> string) list" where
  "custom_pairs request =
     (if option_groups request \<noteq> [] then List.map_filter custom_pair (option_groups request)
      else case custom_pair (named_args request) of None \<Rightarrow> [] | Some p \<Rightarrow> [p])"

definition handle_customset ::
    "command_request \<Rightarrow> query_session \<Rightarrow> baseline_runtime \<Rightarrow> query_response \<times> baseline_runtime" where
  "handle_customset request session r =
     (if no_actor session then (response_error 521 ''login required'', r)
      else
     (case qs_selected_virtual_server_id session of
        None \<Rightarrow> (response_error 522 ''virtual server selection required'', r)
      | Some server_id \<Rightarrow>
     (case Option.bind
             (or_else (arg request ''cldbid'')
               (case option_groups request of [] \<Rightarrow> None | g # _ \<Rightarrow> bt_get g ''cldbid'')) parse_word of
        None \<Rightarrow> (response_error 512 ''cldbid is required'', r)
      | Some cldbid \<Rightarrow>
          let pairs = custom_pairs request
          in if pairs = [] then (response_error 512 ''ident and value are required'', r)
             else (response_ok,
               upd_store
                 (st_custom_client_properties_update
                   (\<lambda>m. bt_insert (server_id, cldbid)
                          (bt_extend (unwrap_or [] (bt_get m (server_id, cldbid))) pairs) m)) r))))"

definition handle_customdelete ::
    "command_request \<Rightarrow> query_session \<Rightarrow> baseline_runtime \<Rightarrow> query_response \<times> baseline_runtime" where
  "handle_customdelete request session r =
     (if no_actor session then (response_error 521 ''login required'', r)
      else
     (case qs_selected_virtual_server_id session of
        None \<Rightarrow> (response_error 522 ''virtual server selection required'', r)
      | Some server_id \<Rightarrow>
     (case arg_u64 request ''cldbid'' of
        None \<Rightarrow> (response_error 512 ''cldbid is required'', r)
      | Some cldbid \<Rightarrow>
     (case arg_text request ''ident'' of
        None \<Rightarrow> (response_error 512 ''ident is required'', r)
      | Some ident \<Rightarrow>
          if (case bt_get (st_custom_client_properties (rt_store r)) (server_id, cldbid) of
                None \<Rightarrow> False | Some props \<Rightarrow> bt_contains_key props ident)
          then (response_ok,
                upd_store (st_custom_client_properties_update (bt_update (server_id, cldbid) (bt_remove ident))) r)
          else (empty_result, r)))))"

subsection \<open>The client database\<close>

definition client_lastip :: "baseline_runtime \<Rightarrow> client \<Rightarrow> string" where
  "client_lastip r c =
     unwrap_or ''127.0.0.1''
       (map_option oc_connection_ip
         (List.find (\<lambda>oc. oc_database_id oc = cl_database_id c) (bt_values (st_online_clients (rt_store r)))))"

definition client_db_row :: "baseline_runtime \<Rightarrow> client \<Rightarrow> row" where
  "client_db_row r c =
     insert_fields
       [(''cldbid'', word_to_string (cl_database_id c)),
        (''client_unique_identifier'', cl_unique_identifier c), (''client_nickname'', cl_nickname c),
        (''client_created'', word_to_string (cl_created_at c)),
        (''client_lastconnected'', word_to_string (cl_last_connected_at c)),
        (''client_totalconnections'', word_to_string (cl_total_connections c)),
        (''client_description'', cl_description c), (''client_lastip'', client_lastip r c)] []"

definition handle_clientdblist :: "command_request \<Rightarrow> query_session \<Rightarrow> baseline_runtime \<Rightarrow> query_response" where
  "handle_clientdblist request session r =
     (case require_server session of
        Inl e \<Rightarrow> e
      | Inr _ \<Rightarrow>
          let start = unwrap_or 0 (Option.bind (arg request ''start'') (parse_uint 64));
              duration = unwrap_or 25 (Option.bind (arg request ''duration'') (parse_uint 64));
              clients = st_clients (rt_store r);
              rs = map (client_db_row r) (take duration (drop start (bt_values clients)));
              counted = (if ''count'' \<in> set (flags request)
                         then (case rs of
                                 [] \<Rightarrow> []
                               | row # rest \<Rightarrow> bt_insert ''count'' (nat_to_string (length clients)) row # rest)
                         else rs)
          in if counted = [] then empty_result else response_ok_rows counted)"

definition handle_clientdbinfo :: "command_request \<Rightarrow> query_session \<Rightarrow> baseline_runtime \<Rightarrow> query_response" where
  "handle_clientdbinfo request session r =
     (case require_server session of
        Inl e \<Rightarrow> e
      | Inr _ \<Rightarrow>
     (case arg_u64 request ''cldbid'' of
        None \<Rightarrow> response_error 512 ''cldbid is required''
      | Some cldbid \<Rightarrow>
     (case bt_get (st_clients (rt_store r)) cldbid of
        None \<Rightarrow> response_error 768 ''client not found''
      | Some c \<Rightarrow>
          response_ok_row (insert_fields
            [(''client_database_id'', word_to_string (cl_database_id c)),
             (''client_unique_identifier'', cl_unique_identifier c), (''client_nickname'', cl_nickname c),
             (''client_created'', word_to_string (cl_created_at c)),
             (''client_lastconnected'', word_to_string (cl_last_connected_at c)),
             (''client_totalconnections'', word_to_string (cl_total_connections c)),
             (''client_description'', cl_description c),
             (''client_month_bytes_uploaded'', word_to_string (cl_month_bytes_uploaded c)),
             (''client_month_bytes_downloaded'', word_to_string (cl_month_bytes_downloaded c)),
             (''client_total_bytes_uploaded'', word_to_string (cl_total_bytes_uploaded c)),
             (''client_total_bytes_downloaded'', word_to_string (cl_total_bytes_downloaded c)),
             (''client_flag_avatar'', cl_client_flag_avatar c), (''client_lastip'', client_lastip r c)] []))))"

definition describe_client :: "u64 \<Rightarrow> string \<Rightarrow> online_client \<Rightarrow> online_client" where
  "describe_client cldbid description oc =
     (if oc_database_id oc = cldbid
      then oc\<lparr>oc_extra_properties := bt_insert ''client_description'' description (oc_extra_properties oc)\<rparr>
      else oc)"

definition handle_clientdbedit ::
    "command_request \<Rightarrow> query_session \<Rightarrow> baseline_runtime \<Rightarrow> query_response \<times> baseline_runtime" where
  "handle_clientdbedit request session r =
     (case require_server session of
        Inl e \<Rightarrow> (e, r)
      | Inr _ \<Rightarrow>
     (case arg_u64 request ''cldbid'' of
        None \<Rightarrow> (response_error 512 ''cldbid is required'', r)
      | Some cldbid \<Rightarrow>
     (case query_actor_effective_permissions r session of
        Inl e \<Rightarrow> (e, r)
      | Inr (actor, perms) \<Rightarrow>
     (case check_required_permission perms [''b_client_modify_dbproperties'', ''b_client_modify_description'']
             ''b_client_modify_dbproperties'' of
        Inl p \<Rightarrow> (insufficient_permission_response r p, r)
      | Inr _ \<Rightarrow>
     (case bt_get (st_clients (rt_store r)) cldbid of
        None \<Rightarrow> (response_error 768 ''client not found'', r)
      | Some c \<Rightarrow>
     (case arg request ''client_description'' of
        None \<Rightarrow> (response_ok, r)
      | Some description \<Rightarrow>
          let c' = c\<lparr>cl_description := description\<rparr>
          in (response_ok,
              upd_store (st_online_clients_update (bt_map_values (describe_client cldbid description)))
                (emit [DbSaveClient c']
                  (upd_store (st_clients_update (bt_update cldbid (\<lambda>_. c'))) r)))))))))"

definition handle_clientdbdelete ::
    "command_request \<Rightarrow> query_session \<Rightarrow> baseline_runtime \<Rightarrow> query_response \<times> baseline_runtime" where
  "handle_clientdbdelete request session r =
     (case require_server session of
        Inl e \<Rightarrow> (e, r)
      | Inr server_id \<Rightarrow>
     (case arg_u64 request ''cldbid'' of
        None \<Rightarrow> (response_error 512 ''cldbid is required'', r)
      | Some cldbid \<Rightarrow>
     (case query_actor_effective_permissions r session of
        Inl e \<Rightarrow> (e, r)
      | Inr (actor, perms) \<Rightarrow>
     (case check_required_permission perms [''b_client_delete_dbproperties'']
             ''b_client_delete_dbproperties'' of
        Inl p \<Rightarrow> (insufficient_permission_response r p, r)
      | Inr _ \<Rightarrow>
          if list_ex (\<lambda>c. oc_server_id c = server_id \<and> oc_database_id c = cldbid)
               (bt_values (st_online_clients (rt_store r)))
          then (response_error 512 ''cannot delete currently online client from database'', r)
          else if \<not> bt_contains_key (st_clients (rt_store r)) cldbid
          then (response_error 768 ''client not found'', r)
          else (response_ok,
                upd_store
                  (\<lambda>s. s\<lparr>st_clients := bt_remove cldbid (st_clients s),
                          st_custom_client_properties :=
                            bt_remove (server_id, cldbid) (st_custom_client_properties s)\<rparr>) r)))))"

definition handle_clientdbfind :: "command_request \<Rightarrow> query_session \<Rightarrow> baseline_runtime \<Rightarrow> query_response" where
  "handle_clientdbfind request session r =
     (case require_server session of
        Inl e \<Rightarrow> e
      | Inr _ \<Rightarrow>
     (case arg request ''pattern'' of
        None \<Rightarrow> response_error 512 ''pattern is required''
      | Some pattern \<Rightarrow>
          let rs = map (\<lambda>c. bt_insert ''cldbid'' (word_to_string (cl_database_id c)) [])
                (filter (\<lambda>c. if ''uid'' \<in> set (flags request)
                             then cl_unique_identifier c = pattern
                                  \<or> sql_like_matches (cl_unique_identifier c) pattern
                             else sql_like_matches (cl_nickname c) pattern)
                  (bt_values (st_clients (rt_store r))))
          in if rs = [] then empty_result else response_ok_rows rs))"

subsection \<open>The meaning of a pattern\<close>

text \<open>\<open>%\<close> stands for any text, every other byte for itself.\<close>

fun like_spec :: "string \<Rightarrow> string \<Rightarrow> bool" where
  "like_spec [] v = (v = [])"
| "like_spec (c # p) v =
     (if c = CHR ''%'' then list_ex (like_spec p) (suffixes v)
      else case v of [] \<Rightarrow> False | d # w \<Rightarrow> c = d \<and> like_spec p w)"

lemma like_spec_any: "like_spec (CHR ''%'' # p) v \<longleftrightarrow> (\<exists>g w. v = g @ w \<and> like_spec p w)"
proof -
  have "like_spec (CHR ''%'' # p) v \<longleftrightarrow> list_ex (like_spec p) (suffixes v)" by simp
  also have "\<dots> \<longleftrightarrow> (\<exists>w. (\<exists>g. v = g @ w) \<and> like_spec p w)" by (simp add: list_ex_iff suffix_def Bex_def)
  also have "\<dots> \<longleftrightarrow> (\<exists>g w. v = g @ w \<and> like_spec p w)" by blast
  finally show ?thesis .
qed

text \<open>The segments between the \<open>%\<close> in turn, the first at the start, the last at the end.\<close>

fun like_segs :: "string list \<Rightarrow> string \<Rightarrow> bool" where
  "like_segs [] v = False"
| "like_segs [s] v = (v = s)"
| "like_segs (s # t # ss) v = (\<exists>g w. v = s @ g @ w \<and> like_segs (t # ss) w)"

lemma like_segs_Nil_Cons: "ss \<noteq> [] \<Longrightarrow> like_segs ([] # ss) v \<longleftrightarrow> (\<exists>g w. v = g @ w \<and> like_segs ss w)"
  by (cases ss) auto

lemma like_segs_Cons_char:
  "like_segs ((c # s) # ss) v \<longleftrightarrow> (\<exists>w. v = c # w \<and> like_segs (s # ss) w)"
  by (cases ss) auto

lemma like_spec_segs: "like_spec p v \<longleftrightarrow> like_segs (split_char CHR ''%'' p) v"
proof (induction p arbitrary: v)
  case (Cons c p)
  obtain x xs where split: "split_char CHR ''%'' p = x # xs"
    using split_char_ne [of "CHR ''%''" p] by (cases "split_char CHR ''%'' p") auto
  show ?case
  proof (cases "c = CHR ''%''")
    case True
    then have "like_spec (c # p) v \<longleftrightarrow> (\<exists>g w. v = g @ w \<and> like_spec p w)" using like_spec_any by simp
    also have "\<dots> \<longleftrightarrow> like_segs ([] # x # xs) v" using Cons.IH split like_segs_Nil_Cons [of "x # xs"] by simp
    finally show ?thesis using True split by simp
  next
    case False
    then show ?thesis using Cons.IH split by (auto simp: like_segs_Cons_char split: list.splits)
  qed
qed simp

text \<open>Segments with gaps before them, and anything or nothing after the last one.\<close>

fun gaps :: "string list \<Rightarrow> string \<Rightarrow> bool" where
  "gaps [] v = True"
| "gaps (q # qs) v = (\<exists>g w. v = g @ q @ w \<and> gaps qs w)"

lemma gaps_prefix: "gaps qs w \<Longrightarrow> gaps qs (g @ w)"
  by (cases qs) (simp, metis append_assoc gaps.simps(2))

lemma gaps_length: "gaps qs w \<Longrightarrow> q \<in> set qs \<Longrightarrow> length q \<le> length w"
  by (induction qs arbitrary: w) fastforce+

lemma ends_with_iff: "ends_with p s \<longleftrightarrow> (\<exists>g. s = g @ p)"
  by (auto simp: ends_with_def strip_suffix_def strip_prefix_Some rev_swap intro: exI [of _ "rev _"])

lemma ends_with_append: "length p \<le> length w \<Longrightarrow> ends_with p (g @ w) \<longleftrightarrow> ends_with p w"
  unfolding ends_with_iff by (auto simp: append_eq_append_conv2)

lemma last_segment_fits:
  "gaps (filter (\<lambda>s. s \<noteq> []) ss) w \<Longrightarrow> ss \<noteq> [] \<Longrightarrow> length (last ss) \<le> length w"
  using gaps_length [of "filter (\<lambda>s. s \<noteq> []) ss" w "last ss"] by (cases "last ss = []") auto

lemma tail_segs:
  assumes "ss \<noteq> []"
  shows "(\<exists>g w. v = g @ w \<and> like_segs ss w)
    \<longleftrightarrow> gaps (filter (\<lambda>s. s \<noteq> []) ss) v \<and> ends_with (last ss) v"
  using assms
proof (induction ss arbitrary: v)
  case (Cons s ss)
  show ?case
  proof (cases ss)
    case Nil
    then show ?thesis by (auto simp: ends_with_iff) (metis append_Nil2)
  next
    case (Cons t ts)
    let ?F = "filter (\<lambda>s. s \<noteq> []) ss"
    have "(\<exists>g w. v = g @ w \<and> like_segs (s # ss) w)
        \<longleftrightarrow> (\<exists>g w. v = g @ s @ w \<and> (\<exists>h u. w = h @ u \<and> like_segs ss u))"
      using Cons by auto
    also have "\<dots> \<longleftrightarrow> (\<exists>g w. v = g @ s @ w \<and> gaps ?F w \<and> ends_with (last ss) w)"
      using Cons.IH Cons by simp
    also have "\<dots> \<longleftrightarrow> (\<exists>g w. v = g @ s @ w \<and> gaps ?F w) \<and> ends_with (last ss) v"
    proof -
      have "ends_with (last ss) w \<longleftrightarrow> ends_with (last ss) (g @ s @ w)" if "gaps ?F w" for g w
        using ends_with_append [OF last_segment_fits [OF that], of "g @ s"] Cons by simp
      then show ?thesis by metis
    qed
    also have "\<dots> \<longleftrightarrow> gaps (filter (\<lambda>s. s \<noteq> []) (s # ss)) v \<and> ends_with (last (s # ss)) v"
    proof (cases "s = []")
      case True
      have "(\<exists>g w. v = g @ w \<and> gaps ?F w) \<longleftrightarrow> gaps ?F v" by (metis append_Nil gaps_prefix)
      then show ?thesis using True Cons by simp
    qed (use Cons in simp)
    finally show ?thesis .
  qed
qed simp

subsection \<open>The search finds the leftmost places\<close>

lemma find_sub_None: "find_sub p s = None \<longleftrightarrow> (\<nexists>g w. s = g @ p @ w)"
proof (induction s)
  case (Cons c s)
  then show ?case
    by (auto simp: starts_with_iff Cons_eq_append_conv)
qed auto

lemma find_sub_Some:
  assumes "find_sub p s = Some i"
  shows "\<exists>g w. s = g @ p @ w \<and> length g = i \<and> (\<forall>g' w'. s = g' @ p @ w' \<longrightarrow> i \<le> length g')"
  using assms
proof (induction s arbitrary: i)
  case (Cons c s)
  show ?case
  proof (cases "starts_with p (c # s)")
    case True
    then show ?thesis using Cons.prems by (auto simp: starts_with_iff)
  next
    case False
    then obtain j where j: "find_sub p s = Some j" "i = Suc j" using Cons.prems by auto
    obtain g w where gw: "s = g @ p @ w" "length g = j" "\<forall>g' w'. s = g' @ p @ w' \<longrightarrow> j \<le> length g'"
      using Cons.IH [OF j(1)] by blast
    have "Suc j \<le> length g'" if "c # s = g' @ p @ w'" for g' w'
      using that False gw(3) by (cases g') (auto simp: starts_with_iff)
    with gw(1,2) j(2) show ?thesis by (intro exI [of _ "c # g"] exI [of _ w]) auto
  qed
qed (auto split: if_splits)

lemma like_rest_gaps: "pos \<le> length v \<Longrightarrow> like_rest v qs pos \<longleftrightarrow> gaps qs (drop pos v)"
proof (induction qs arbitrary: pos)
  case (Cons q qs)
  show ?case
  proof (cases "find_sub q (drop pos v)")
    case None
    then show ?thesis using find_sub_None [of q "drop pos v"] by auto
  next
    case (Some i)
    obtain g w where hit: "drop pos v = g @ q @ w" "length g = i"
      and least: "\<And>g' w'. drop pos v = g' @ q @ w' \<Longrightarrow> i \<le> length g'"
      using find_sub_Some [OF Some] by blast
    have w: "drop (pos + i + length q) v = w"
      using arg_cong [OF hit(1), of "drop (i + length q)"] hit(2) by (simp add: ac_simps)
    have fit: "pos + i + length q \<le> length v"
      using arg_cong [OF hit(1), of length] hit(2) Cons.prems by simp
    have "gaps (q # qs) (drop pos v) \<longleftrightarrow> gaps qs w"
    proof
      assume "gaps (q # qs) (drop pos v)"
      then obtain g' w' where gw: "drop pos v = g' @ q @ w'" "gaps qs w'" by auto
      then have eq: "g @ q @ w = g' @ q @ w'" "length g \<le> length g'" using hit least by auto
      have "w = drop (length g + length q) (g' @ q) @ w'"
        using arg_cong [OF eq(1), of "drop (length g + length q)"] eq(2) by simp
      then show "gaps qs w" using gaps_prefix [OF gw(2), of "drop (length g + length q) (g' @ q)"] by metis
    qed (use hit(1) in auto)
    then show ?thesis using Some Cons.IH [OF fit] w by simp
  qed
qed simp

lemma lower_percent: "ascii_lower_char c = CHR ''%'' \<longleftrightarrow> c = CHR ''%''"
proof -
  have "byte (char_of (byte c + 32)) \<noteq> byte (CHR ''%'')" if "65 \<le> byte c" "byte c \<le> 90"
    using that by (simp add: byte_def)
  moreover have "byte (CHR ''%'') = 37" by (simp add: byte_def)
  ultimately show ?thesis unfolding ascii_lower_char_def by (auto split: if_splits)
qed

lemma set_lower_percent: "CHR ''%'' \<in> set (to_ascii_lowercase s) \<longleftrightarrow> CHR ''%'' \<in> set s"
proof -
  have "CHR ''%'' \<in> set (to_ascii_lowercase s) \<longleftrightarrow> (\<exists>c \<in> set s. ascii_lower_char c = CHR ''%'')"
    unfolding to_ascii_lowercase_def by (simp add: image_iff eq_commute)
  then show ?thesis by (simp add: lower_percent)
qed

lemma split_char_first: "split_char d p = s # ss \<Longrightarrow> s = [] \<longleftrightarrow> (case p of [] \<Rightarrow> True | c # _ \<Rightarrow> c = d)"
  by (cases p) (auto split: if_splits list.splits)

lemma split_char_single: "split_char d p = [s] \<Longrightarrow> d \<notin> set p"
  by (induction p arbitrary: s) (auto simp: split_char_ne split: if_splits list.splits)

lemma split_char_last: "last (split_char d p) = [] \<longleftrightarrow> p = [] \<or> last p = d"
proof (induction p)
  case (Cons c p)
  then show ?case
    using split_char_single [of d p] last_in_set [of p]
    by (auto simp: split_char_ne split: list.splits)
qed simp

lemma split_shape:
  assumes "split_char CHR ''%'' p = s # ss" and "CHR ''%'' \<in> set p"
  shows "ss \<noteq> []" "starts_with ''%'' p \<longleftrightarrow> s = []" "ends_with ''%'' p \<longleftrightarrow> last ss = []"
proof -
  show ne: "ss \<noteq> []" using split_char_single assms by fastforce
  have "p \<noteq> []" using assms(2) by auto
  then show "starts_with ''%'' p \<longleftrightarrow> s = []"
    using split_char_first [OF assms(1)] by (cases p) (auto simp: starts_with_iff)
  show "ends_with ''%'' p \<longleftrightarrow> last ss = []"
    using split_char_last [of "CHR ''%''" p] assms(1) ne \<open>p \<noteq> []\<close>
    by (auto simp: ends_with_iff) (metis append_butlast_last_id)
qed

lemma like_segs_Cons:
  "ss \<noteq> [] \<Longrightarrow> like_segs (s # ss) v \<longleftrightarrow> (\<exists>w. v = s @ w \<and> (\<exists>g u. w = g @ u \<and> like_segs ss u))"
  by (cases ss) auto

lemma like_parts_gaps:
  assumes "parts = (if s = [] then qs else s # qs)" and "parts \<noteq> []"
  shows "like_parts v (s \<noteq> []) parts \<longleftrightarrow> (\<exists>w. v = s @ w \<and> gaps qs w)"
  using assms like_rest_gaps [of "length s" v qs] like_rest_gaps [of 0 v qs]
  by (cases "s = []") (auto simp: like_parts_def starts_with_iff split: list.splits)

lemma last_filter_ne: "xs \<noteq> [] \<Longrightarrow> P (last xs) \<Longrightarrow> filter P xs \<noteq> [] \<and> last (filter P xs) = last xs"
  by (induction xs) (auto split: if_splits)

lemma like_percent:
  assumes "CHR ''%'' \<in> set p" and "parts = filter (\<lambda>s. s \<noteq> []) (split_char CHR ''%'' p)"
  shows "like_spec p v \<longleftrightarrow> parts = []
    \<or> like_parts v (\<not> starts_with ''%'' p) parts \<and> (ends_with ''%'' p \<or> ends_with (last parts) v)"
proof -
  obtain s ss where split: "split_char CHR ''%'' p = s # ss"
    using split_char_ne [of "CHR ''%''" p] by (cases "split_char CHR ''%'' p") auto
  note shape = split_shape [OF split assms(1)]
  let ?F = "filter (\<lambda>s. s \<noteq> []) ss"
  have parts: "parts = (if s = [] then ?F else s # ?F)" using assms(2) split by simp
  have spec: "like_spec p v \<longleftrightarrow> (\<exists>w. v = s @ w \<and> gaps ?F w \<and> ends_with (last ss) w)"
    using like_spec_segs [of p v] like_segs_Cons [OF shape(1)] tail_segs [OF shape(1)] split by simp
  also have "\<dots> \<longleftrightarrow> (\<exists>w. v = s @ w \<and> gaps ?F w) \<and> ends_with (last ss) v"
    using ends_with_append [OF last_segment_fits [OF _ shape(1)], of _ s] by blast
  finally have spec: "like_spec p v \<longleftrightarrow> (\<exists>w. v = s @ w \<and> gaps ?F w) \<and> ends_with (last ss) v" .
  show ?thesis
  proof (cases "parts = []")
    case True
    then have "last ss = []" using last_filter_ne [OF shape(1), of "\<lambda>s. s \<noteq> []"] parts by (auto split: if_splits)
    then show ?thesis using True spec parts by (simp add: ends_with_iff split: if_splits)
  next
    case False
    have "last ss \<noteq> [] \<Longrightarrow> last parts = last ss"
      using last_filter_ne [OF shape(1), of "\<lambda>s. s \<noteq> []"] parts by simp
    then show ?thesis
      using spec like_parts_gaps [OF parts False, of v] shape(2,3) False ends_with_iff [of "[]" v] by auto
  qed
qed


end
