(* ===== verification/File_Paths.thy ===== *)
theory File_Paths
  imports Rust_Strings "HOL-Library.Sublist"
begin

text \<open>
  The paths of the file transfer, \<open>file_transfer/utils.rs\<close> and the path functions of
  \<open>file_transfer/registry.rs\<close>. A client names files by virtual paths (\<open>/\<close> separated, \<open>\\\<close> is read as
  \<open>/\<close>); the registry turns them into an area and a path below the directory of the area. The area
  directories lie below the repository root. The main fact is that a path a client sends cannot
  leave its area.

  An \<open>anyhow\<close> error is \<open>None\<close>: every caller turns it into \<open>InvalidPath\<close>. A \<open>PathBuf\<close> is the list of its
  components.
\<close>

section \<open>Virtual paths\<close>

definition validate_path_segment :: "string \<Rightarrow> bool" where
  "validate_path_segment segment = (\<not> (segment = ''.'' \<or> segment = ''..'') \<and> CHR '':'' \<notin> set segment)"

definition path_segments :: "string \<Rightarrow> string list" where
  "path_segments path = filter (\<lambda>segment. segment \<noteq> []) (split_char CHR ''/'' path)"

definition build_absolute_path :: "string list \<Rightarrow> string" where
  "build_absolute_path segments = (if segments = [] then ''/'' else ''/'' @ join_with ''/'' segments)"

definition backslash_to_slash :: "string \<Rightarrow> string" where
  "backslash_to_slash s = map (\<lambda>c. if c = CHR 0x5C then CHR ''/'' else c) s"

text \<open>The loop over the segments: empty ones are skipped, a bad one ends it with an error.\<close>

fun push_segments :: "string list \<Rightarrow> string list \<Rightarrow> string list option" where
  "push_segments segments [] = Some segments"
| "push_segments segments (segment # rest) =
     (if segment = [] then push_segments segments rest
      else if validate_path_segment segment then push_segments (segments @ [segment]) rest
      else None)"

definition normalize_absolute_path :: "string \<Rightarrow> string option" where
  "normalize_absolute_path path0 =
     (let path = backslash_to_slash path0
      in if path = [] \<or> path = ''/'' then Some ''/''
         else map_option build_absolute_path (push_segments [] (split_char CHR ''/'' path)))"

definition join_virtual_path :: "string \<Rightarrow> string \<Rightarrow> string option" where
  "join_virtual_path base_path leaf0 =
     (let leaf = backslash_to_slash leaf0
      in if starts_with ''/'' leaf then normalize_absolute_path leaf
         else case normalize_absolute_path base_path of
                None \<Rightarrow> None
              | Some base \<Rightarrow>
                  map_option build_absolute_path (push_segments (path_segments base) (split_char CHR ''/'' leaf)))"

definition strip_global_prefix :: "string \<Rightarrow> string \<Rightarrow> string" where
  "strip_global_prefix path pre =
     (let stripped = unwrap_or path (strip_prefix pre path)
      in if stripped = [] then ''/'' else unwrap_or ''/'' (normalize_absolute_path stripped))"

section \<open>Areas\<close>

datatype file_area = ChannelArea u32 | Icons | Avatars | MusicArea

definition resolve_list_area :: "u32 \<Rightarrow> string \<Rightarrow> (file_area \<times> string) option" where
  "resolve_list_area cid path =
     (case normalize_absolute_path path of
        None \<Rightarrow> None
      | Some normalized_path \<Rightarrow>
          if cid \<noteq> 0 then Some (ChannelArea cid, normalized_path)
          else if normalized_path = ''/icons'' \<or> normalized_path = ''/icons/'' then Some (Icons, ''/'')
          else if starts_with ''/icons/'' normalized_path
          then Some (Icons, strip_global_prefix normalized_path ''/icons'')
          else if starts_with ''/music/'' normalized_path
          then Some (MusicArea, strip_global_prefix normalized_path ''/music'')
          else Some (Avatars, normalized_path))"

definition resolve_named_path ::
    "u32 \<Rightarrow> string \<Rightarrow> string \<Rightarrow> string option \<Rightarrow> (file_area \<times> string) option" where
  "resolve_named_path cid path name actor_avatar_id =
     (if cid = 0 then
        case normalize_absolute_path name of
          None \<Rightarrow> None
        | Some normalized_name \<Rightarrow>
            if normalized_name = ''/avatar'' \<or> normalized_name = ''/avatar_''
            then map_option (\<lambda>i. (Avatars, ''/avatar_'' @ i)) actor_avatar_id
            else if starts_with ''/avatar_'' normalized_name then Some (Avatars, normalized_name)
            else if starts_with ''/icon_'' normalized_name then Some (Icons, normalized_name)
            else if starts_with ''/music_'' normalized_name then Some (MusicArea, normalized_name)
            else case resolve_list_area cid path of
                   None \<Rightarrow> None
                 | Some (area, directory_path) \<Rightarrow>
                     (case join_virtual_path directory_path name of
                        None \<Rightarrow> None
                      | Some joined_path \<Rightarrow>
                          Some (area, if area = Icons \<and> starts_with ''/icons/'' joined_path
                                      then strip_global_prefix joined_path ''/icons'' else joined_path))
      else map_option (Pair (ChannelArea cid)) (join_virtual_path path name))"

section \<open>Paths of the operating system\<close>

type_synonym os_path = "string list"

text \<open>\<open>Path::join\<close>: an absolute path replaces, a relative one is appended; \<open>.\<close> and empty components are
  not kept, \<open>..\<close> is.\<close>

definition path_join :: "os_path \<Rightarrow> string \<Rightarrow> os_path" where
  "path_join p s =
     (let parts = filter (\<lambda>c. c \<noteq> [] \<and> c \<noteq> ''.'') (split_char CHR ''/'' s)
      in if starts_with ''/'' s then parts else p @ parts)"

definition trim_start_slashes :: "string \<Rightarrow> string" where
  "trim_start_slashes s = dropWhile (\<lambda>c. c = CHR ''/'') s"

definition area_root :: "os_path \<Rightarrow> file_area \<Rightarrow> os_path" where
  "area_root repository_root area =
     (case area of
        ChannelArea channel_id \<Rightarrow> path_join (path_join repository_root ''channels'') (word_to_string channel_id)
      | Icons \<Rightarrow> path_join (path_join repository_root ''global'') ''icons''
      | Avatars \<Rightarrow> path_join (path_join repository_root ''global'') ''avatars''
      | MusicArea \<Rightarrow> path_join (path_join repository_root ''global'') ''music'')"

text \<open>The path that \<open>materialize_directory_path\<close> and \<open>materialize_named_path\<close> answer.\<close>

definition area_path :: "os_path \<Rightarrow> file_area \<Rightarrow> string \<Rightarrow> os_path" where
  "area_path repository_root area relative_path =
     path_join (area_root repository_root area) (trim_start_slashes relative_path)"

section \<open>No path leaves its area\<close>

text \<open>A segment that stays where it is put: one component, neither \<open>.\<close> nor \<open>..\<close>.\<close>

definition plain_segment :: "string \<Rightarrow> bool" where
  "plain_segment s = (s \<noteq> [] \<and> s \<noteq> ''.'' \<and> s \<noteq> ''..'' \<and> CHR ''/'' \<notin> set s \<and> CHR '':'' \<notin> set s)"

text \<open>A virtual path in normal form.\<close>

definition normal_path :: "string \<Rightarrow> bool" where
  "normal_path p = (\<exists>segs. list_all plain_segment segs \<and> p = build_absolute_path segs)"

lemma split_char_no_sep: "seg \<in> set (split_char d s) \<Longrightarrow> d \<notin> set seg"
  by (induction s arbitrary: seg) (auto split: list.splits if_splits)

lemma split_char_whole: "d \<notin> set s \<Longrightarrow> split_char d s = [s]"
  by (induction s) auto

lemma split_char_join:
  "list_all (\<lambda>x. d \<notin> set x) xs \<Longrightarrow> xs \<noteq> [] \<Longrightarrow> split_char d (join_with [d] xs) = xs"
  by (induction "[d]" xs rule: join_with.induct) (auto simp: split_char_whole split_char_append)

lemma plain_no_slash: "list_all plain_segment segs \<Longrightarrow> list_all (\<lambda>x. CHR ''/'' \<notin> set x) segs"
  by (auto simp: list_all_iff plain_segment_def)

lemma path_segments_build [simp]:
  assumes "list_all plain_segment segs"
  shows "path_segments (build_absolute_path segs) = segs"
  using assms plain_no_slash [OF assms]
  by (auto simp: path_segments_def build_absolute_path_def split_char_join plain_segment_def list_all_iff
      intro!: filter_True)

lemma push_segments_plain:
  assumes "push_segments segs parts = Some segs'" and "list_all plain_segment segs"
    and "list_all (\<lambda>x. CHR ''/'' \<notin> set x) parts"
  shows "list_all plain_segment segs'"
  using assms
  by (induction segs parts rule: push_segments.induct)
    (auto simp: plain_segment_def validate_path_segment_def split: if_splits)

lemma split_slash_parts: "list_all (\<lambda>x. CHR ''/'' \<notin> set x) (split_char CHR ''/'' s)"
  using split_char_no_sep by (fastforce simp: list_all_iff)

lemma normal_root [simp]: "normal_path ''/''"
  by (auto simp: normal_path_def build_absolute_path_def intro: exI [of _ "[]"])

lemma normal_build: "list_all plain_segment segs \<Longrightarrow> normal_path (build_absolute_path segs)"
  by (auto simp: normal_path_def)

lemma normal_segments: "normal_path p \<Longrightarrow> list_all plain_segment (path_segments p)"
  by (auto simp: normal_path_def)

lemma normalize_normal: "normalize_absolute_path p = Some q \<Longrightarrow> normal_path q"
  by (auto simp: normalize_absolute_path_def Let_def split: if_splits
      intro!: normal_build intro: push_segments_plain split_slash_parts)

lemma join_normal: "join_virtual_path b l = Some q \<Longrightarrow> normal_path q"
  by (auto simp: join_virtual_path_def Let_def split: if_splits option.splits
      intro!: normal_build intro: push_segments_plain split_slash_parts normalize_normal normal_segments)

lemma strip_global_normal: "normal_path (strip_global_prefix p pre)"
  by (cases "normalize_absolute_path (unwrap_or p (strip_prefix pre p))")
    (auto simp: strip_global_prefix_def Let_def unwrap_or_def dest: normalize_normal)

lemmas path_normal = normalize_normal join_normal strip_global_normal

text \<open>
  The id of an avatar, \<open>encode_avatar_id_bytes\<close> of \<open>runtime/handlers/file_transfer.rs\<close>: each byte is written
  as two letters from \<open>a\<close> to \<open>p\<close>. Different identifiers have different ids.
\<close>

definition encode_avatar_id_bytes :: "string \<Rightarrow> string" where
  "encode_avatar_id_bytes bytes =
     concat (map (\<lambda>c. [char_of (97 + byte c div 16 mod 16), char_of (97 + byte c mod 16)]) bytes)"

definition avatar_letters :: "string \<Rightarrow> bool" where
  "avatar_letters i = list_all (\<lambda>c. CHR ''a'' \<le> c \<and> c \<le> CHR ''p'') i"

lemma byte_less: "byte c < 256"
  by (simp add: byte_def)

lemma avatar_id_letters: "avatar_letters (encode_avatar_id_bytes bytes)"
proof -
  have "byte c div 16 mod 16 \<le> 15" "byte c mod 16 \<le> 15" for c by simp_all
  then show ?thesis
    by (auto simp: avatar_letters_def encode_avatar_id_bytes_def list_all_iff less_eq_char_def
        simp del: mod_le_divisor)
qed

lemma char_of_small: "a < 256 \<Longrightarrow> b < 256 \<Longrightarrow> char_of a = (char_of b :: char) \<longleftrightarrow> a = (b :: nat)"
  by (metis mod_less of_char_of)

lemma avatar_id_prefix:
  "prefix (encode_avatar_id_bytes a) (encode_avatar_id_bytes b) \<longleftrightarrow> prefix a b"
proof (induction a arbitrary: b)
  case (Cons c a)
  have letters: "byte c = byte d"
    if "byte c div 16 mod 16 = byte d div 16 mod 16" "byte c mod 16 = byte d mod 16" for d
  proof -
    have "byte x div 16 mod 16 = byte x div 16" for x using byte_less [of x] by simp
    with that have "byte c div 16 = byte d div 16" by metis
    with that(2) show ?thesis by (metis div_mult_mod_eq)
  qed
  show ?case
    using Cons letters
    by (cases b) (auto simp: encode_avatar_id_bytes_def char_of_small)
qed (simp add: encode_avatar_id_bytes_def)

lemma avatar_segment:
  assumes "avatar_letters i"
  shows "normal_path (''/avatar_'' @ i)"
proof -
  have "CHR ''/'' \<notin> set i" "CHR '':'' \<notin> set i"
    using assms by (auto simp: avatar_letters_def list_all_iff less_eq_char_def)
  then have "plain_segment (''avatar_'' @ i)" by (auto simp: plain_segment_def)
  then show ?thesis
    using normal_build [of "[''avatar_'' @ i]"] by (simp add: build_absolute_path_def)
qed

lemma resolve_list_area_normal:
  "resolve_list_area cid path = Some (area, rel) \<Longrightarrow>
     normal_path rel \<and> (if cid = 0 then \<forall>c. area \<noteq> ChannelArea c else area = ChannelArea cid)"
  by (auto simp: resolve_list_area_def split: option.splits if_splits intro: path_normal)

lemma resolve_named_path_normal:
  assumes "resolve_named_path cid path name avatar = Some (area, rel)"
    and "pred_option avatar_letters avatar"
  shows "normal_path rel \<and> (if cid = 0 then \<forall>c. area \<noteq> ChannelArea c else area = ChannelArea cid)"
  using assms
  by (auto simp: resolve_named_path_def split: option.splits if_splits prod.splits
      dest: resolve_list_area_normal intro: path_normal avatar_segment [simplified])

lemma join_plain_head:
  assumes "list_all plain_segment segs" and "segs \<noteq> []"
  shows "trim_start_slashes (join_with ''/'' segs) = join_with ''/'' segs"
    and "\<not> starts_with ''/'' (join_with ''/'' segs)"
proof -
  obtain c r where "join_with ''/'' segs = c # r" "c \<noteq> CHR ''/''"
    using assms
    by (cases "(''/'', segs)" rule: join_with.cases)
      (auto simp: plain_segment_def neq_Nil_conv Cons_eq_append_conv)
  then show "trim_start_slashes (join_with ''/'' segs) = join_with ''/'' segs"
    and "\<not> starts_with ''/'' (join_with ''/'' segs)"
    by (auto simp: trim_start_slashes_def starts_with_def)
qed

lemma nat_to_string_digits: "c \<in> set (nat_to_string n) \<Longrightarrow> 48 \<le> byte c \<and> byte c < 58"
proof (induction n rule: nat_to_string.induct)
  case (1 n)
  have "48 \<le> byte (digit_char d) \<and> byte (digit_char d) < 58" if "d < 10" for d
    using that by (simp add: byte_def digit_char_def)
  with 1 show ?case
    by (cases "n < 10") (auto simp: nat_to_string.simps [of n])
qed

lemma word_to_string_plain: "plain_segment (word_to_string w)"
proof -
  have "c \<notin> set (word_to_string w)" if "c \<in> {CHR ''.'', CHR ''/'', CHR '':''}" for c
    using that nat_to_string_digits [of c "unat w"] by (auto simp: word_to_string_def byte_def)
  then have "CHR ''.'' \<notin> set (word_to_string w)" "CHR ''/'' \<notin> set (word_to_string w)"
    "CHR '':'' \<notin> set (word_to_string w)" by blast+
  moreover have "word_to_string w \<noteq> []" by (simp add: word_to_string_def)
  ultimately show ?thesis unfolding plain_segment_def by (metis list.set_intros(1))
qed

lemma word_to_string_inj: "word_to_string v = word_to_string w \<longleftrightarrow> v = w"
  using parse_word_to_string [of v] parse_word_to_string [of w] by (metis option.inject)

lemma path_join_plain: "plain_segment s \<Longrightarrow> path_join p s = p @ [s]"
  using join_plain_head (2) [of "[s]"]
  by (auto simp: path_join_def Let_def split_char_whole plain_segment_def)

lemma area_root_eq:
  "area_root root area =
     root @ (case area of
        ChannelArea cid \<Rightarrow> [''channels'', word_to_string cid]
      | Icons \<Rightarrow> [''global'', ''icons''] | Avatars \<Rightarrow> [''global'', ''avatars''] | MusicArea \<Rightarrow> [''global'', ''music''])"
  by (cases area)
    (simp_all add: area_root_def path_join_plain word_to_string_plain, simp_all add: path_join_plain plain_segment_def)

lemma area_path_normal:
  assumes "normal_path rel"
  shows "area_path root area rel = area_root root area @ path_segments rel"
proof -
  obtain segs where segs: "list_all plain_segment segs" "rel = build_absolute_path segs"
    using assms by (auto simp: normal_path_def)
  show ?thesis
  proof (cases "segs = []")
    case True
    then show ?thesis
      using segs
      by (simp add: area_path_def path_join_def build_absolute_path_def path_segments_def
          trim_start_slashes_def starts_with_def)
  next
    case False
    have "trim_start_slashes rel = join_with ''/'' segs"
      using segs False join_plain_head (1) [OF segs(1) False]
      by (simp add: build_absolute_path_def trim_start_slashes_def)
    moreover have "filter (\<lambda>c. c \<noteq> [] \<and> c \<noteq> ''.'') segs = segs"
      using segs(1) by (auto simp: list_all_iff plain_segment_def intro!: filter_True)
    ultimately show ?thesis
      using segs False join_plain_head (2) [OF segs(1) False]
      by (simp add: area_path_def path_join_def Let_def split_char_join plain_no_slash)
  qed
qed

text \<open>\<open>below root p\<close>: from \<open>root\<close> the path only goes down.\<close>

definition below :: "os_path \<Rightarrow> os_path \<Rightarrow> bool" where
  "below root p = (\<exists>segs. list_all plain_segment segs \<and> p = root @ segs)"

lemma below_refl [simp]: "below root root"
  by (auto simp: below_def intro: exI [of _ "[]"])

lemma below_append: "below root p \<Longrightarrow> list_all plain_segment segs \<Longrightarrow> below root (p @ segs)"
  by (fastforce simp: below_def)

lemma below_trans: "below a b \<Longrightarrow> below b c \<Longrightarrow> below a c"
  by (fastforce simp: below_def)

lemma below_butlast: "below root p \<Longrightarrow> p \<noteq> root \<Longrightarrow> below root (butlast p)"
  by (metis append_self_conv below_def butlast_append in_set_butlastD list_all_iff)

lemma area_below_root: "below root (area_root root area)"
  using word_to_string_plain
  by (cases area) (auto simp: below_def area_root_eq plain_segment_def)

lemma area_root_ne: "area_root root area \<noteq> root"
  by (cases area) (simp_all add: area_root_eq)

text \<open>Different areas have directories of which neither lies below the other.\<close>

lemma areas_disjoint: "below (area_root root a) p \<Longrightarrow> below (area_root root b) p \<Longrightarrow> a = b"
  by (cases a; cases b) (auto simp: below_def area_root_eq word_to_string_inj)

lemma area_path_below:
  assumes "normal_path rel"
  shows "below (area_root root area) (area_path root area rel)"
  using area_path_normal [OF assms] normal_segments [OF assms] below_append by (metis below_refl)

end
