(* ===== verification/File_Registry.thy ===== *)
theory File_Registry
  imports File_Paths "HOL-Library.Multiset"
begin

text \<open>
  The file transfer registry, \<open>file_transfer/registry.rs\<close> and \<open>file_transfer/models.rs\<close>, with
  \<open>build_entry_info\<close> and \<open>map_io_error\<close> of \<open>file_transfer/utils.rs\<close>.

  The file system is a parameter: a record \<open>file_ops\<close> of the functions of \<open>std::fs\<close> the code calls, over a
  state of any type. What the theorems need of it is stated where it is needed. The encoder of the
  \<open>base64\<close> crate is the parameter \<open>encode\<close>, and \<open>str::to_lowercase\<close>, by which the entries of a directory
  are ordered, is the parameter \<open>lower\<close>. The \<open>HashMap\<close> of the pending transfers is the list of its entries
  in the order of iteration; the theorems hold for every such order. The calls of the notifiers are
  recorded in the order of the code. A lock is never poisoned: no code that holds one can panic.
\<close>

section \<open>The file system\<close>

datatype io_error_kind = IoNotFound | IoAlreadyExists | IoOther

record metadata =
  md_is_dir :: bool
  md_is_file :: bool
  md_len :: u64
  md_modified :: "u64 option"

record 'f file_ops =
  fo_metadata :: "os_path \<Rightarrow> 'f \<Rightarrow> io_error_kind + metadata"
  fo_open :: "os_path \<Rightarrow> 'f \<Rightarrow> io_error_kind + unit"
  fo_read_dir :: "os_path \<Rightarrow> 'f \<Rightarrow> io_error_kind + os_path list"
  fo_read :: "os_path \<Rightarrow> u64 \<Rightarrow> 'f \<Rightarrow> io_error_kind + string"
  fo_create_dir_all :: "os_path \<Rightarrow> 'f \<Rightarrow> (io_error_kind + unit) \<times> 'f"
  fo_remove_dir_all :: "os_path \<Rightarrow> 'f \<Rightarrow> (io_error_kind + unit) \<times> 'f"
  fo_remove_file :: "os_path \<Rightarrow> 'f \<Rightarrow> (io_error_kind + unit) \<times> 'f"
  fo_rename :: "os_path \<Rightarrow> os_path \<Rightarrow> 'f \<Rightarrow> (io_error_kind + unit) \<times> 'f"
  fo_create :: "os_path \<Rightarrow> 'f \<Rightarrow> (io_error_kind + unit) \<times> 'f"
  fo_set_len :: "os_path \<Rightarrow> u64 \<Rightarrow> 'f \<Rightarrow> (io_error_kind + unit) \<times> 'f"
  fo_write :: "os_path \<Rightarrow> u64 \<Rightarrow> string \<Rightarrow> 'f \<Rightarrow> (io_error_kind + unit) \<times> 'f"

definition path_exists :: "'f file_ops \<Rightarrow> os_path \<Rightarrow> 'f \<Rightarrow> bool" where
  "path_exists ops p f = (case fo_metadata ops p f of Inl _ \<Rightarrow> False | Inr _ \<Rightarrow> True)"

definition path_is_dir :: "'f file_ops \<Rightarrow> os_path \<Rightarrow> 'f \<Rightarrow> bool" where
  "path_is_dir ops p f = (case fo_metadata ops p f of Inl _ \<Rightarrow> False | Inr md \<Rightarrow> md_is_dir md)"

section \<open>Transfers\<close>

datatype ft_direction = Upload | Download

datatype ft_error = NotFound | AlreadyExists | InvalidPath | InvalidPayload | FtIo

record file_entry_info =
  fe_path :: string
  fe_name :: string
  fe_size :: u64
  fe_datetime :: u64
  fe_entry_type :: u32
  fe_empty :: bool

record pending_transfer =
  pt_server_transfer_id :: u64
  pt_direction :: ft_direction
  pt_file_path :: os_path
  pt_seek_position :: u64
  pt_size :: u64
  pt_notify_client_events :: bool
  pt_client_id :: "u64 option"
  pt_client_transfer_id :: "string option"

record prepared_transfer =
  pr_transfer_key :: string
  pr_server_transfer_id :: u64
  pr_direction :: ft_direction
  pr_port :: u16
  pr_ip :: "string option"
  pr_seek_position :: u64
  pr_size :: u64

record ft_progress =
  fp_file_bytes_transferred :: u64
  fp_file_current_offset :: u64
  fp_file_start_offset :: u64
  fp_file_total_size :: u64
  fp_network_bytes_received :: u64
  fp_network_bytes_send :: u64
  fp_network_current_speed :: u64
  fp_network_average_speed :: u64

datatype ft_event =
    Started u64 string
  | Progress u64 string ft_progress
  | Status u64 string u32 string

record ft_registry =
  rg_repository_root :: os_path
  rg_next_server_transfer_id :: u64
  rg_transfers :: "(string \<times> pending_transfer) list"
  rg_endpoint_ip :: "string option"
  rg_endpoint_port :: u16
  rg_events :: "ft_event list"

definition new_registry :: "os_path \<Rightarrow> ft_registry" where
  "new_registry workspace_root =
     \<lparr>rg_repository_root =
        path_join (path_join (path_join workspace_root ''BlackTeaSpeak-Server'') ''data'') ''file-repositories'',
      rg_next_server_transfer_id = 1, rg_transfers = [],
      rg_endpoint_ip = None, rg_endpoint_port = 30303, rg_events = []\<rparr>"

text \<open>The address of the listener, \<open>None\<close> when it is unspecified.\<close>

definition set_public_endpoint :: "string option \<Rightarrow> u16 \<Rightarrow> ft_registry \<Rightarrow> ft_registry" where
  "set_public_endpoint ip port g = g\<lparr>rg_endpoint_ip := ip, rg_endpoint_port := port\<rparr>"

definition should_emit_client_events :: "pending_transfer \<Rightarrow> bool" where
  "should_emit_client_events t =
     (pt_notify_client_events t
      \<or> (pt_direction t = Upload \<and> pt_client_id t \<noteq> None \<and> pt_client_transfer_id t \<noteq> None))"

definition emit_event :: "ft_event \<Rightarrow> ft_registry \<Rightarrow> ft_registry" where
  "emit_event event g = g\<lparr>rg_events := rg_events g @ [event]\<rparr>"

text \<open>The guard the three emitters share.\<close>

definition emit_for :: "pending_transfer \<Rightarrow> (u64 \<Rightarrow> string \<Rightarrow> ft_event) \<Rightarrow> ft_registry \<Rightarrow> ft_registry" where
  "emit_for t event g =
     (if \<not> should_emit_client_events t then g
      else case (pt_client_id t, pt_client_transfer_id t) of
             (Some client_id, Some client_transfer_id) \<Rightarrow> emit_event (event client_id client_transfer_id) g
           | _ \<Rightarrow> g)"

definition emit_started :: "pending_transfer \<Rightarrow> ft_registry \<Rightarrow> ft_registry" where
  "emit_started t = emit_for t Started"

definition emit_progress :: "pending_transfer \<Rightarrow> u64 \<Rightarrow> ft_registry \<Rightarrow> ft_registry" where
  "emit_progress t bytes_transferred =
     emit_for t (\<lambda>client_id client_transfer_id. Progress client_id client_transfer_id
       \<lparr>fp_file_bytes_transferred = bytes_transferred,
        fp_file_current_offset = sat_add (pt_seek_position t) bytes_transferred,
        fp_file_start_offset = pt_seek_position t,
        fp_file_total_size = sat_add (pt_seek_position t) (pt_size t),
        fp_network_bytes_received = bytes_transferred, fp_network_bytes_send = bytes_transferred,
        fp_network_current_speed = 0, fp_network_average_speed = 0\<rparr>)"

definition emit_status :: "pending_transfer \<Rightarrow> u32 \<Rightarrow> string \<Rightarrow> ft_registry \<Rightarrow> ft_registry" where
  "emit_status t status message =
     emit_for t (\<lambda>client_id client_transfer_id. Status client_id client_transfer_id status message)"

section \<open>Registering and taking a transfer\<close>

definition transfer_label :: "u64 \<Rightarrow> u64 \<Rightarrow> string" where
  "transfer_label server_transfer_id bytes =
     ''blackteaspeak-ft-'' @ word_to_string server_transfer_id @ ''-'' @ word_to_string bytes"

definition hm_insert :: "'k \<Rightarrow> 'v \<Rightarrow> ('k \<times> 'v) list \<Rightarrow> ('k \<times> 'v) list" where
  "hm_insert k v m = (k, v) # filter (\<lambda>e. fst e \<noteq> k) m"

definition register_transfer ::
    "(string \<Rightarrow> string) \<Rightarrow> pending_transfer \<Rightarrow> ft_registry \<Rightarrow> prepared_transfer \<times> ft_registry" where
  "register_transfer encode t g =
     (let transfer_key = encode (transfer_label (pt_server_transfer_id t) (pt_size t))
      in (\<lparr>pr_transfer_key = transfer_key, pr_server_transfer_id = pt_server_transfer_id t,
           pr_direction = pt_direction t, pr_port = rg_endpoint_port g, pr_ip = rg_endpoint_ip g,
           pr_seek_position = pt_seek_position t, pr_size = pt_size t\<rparr>,
          g\<lparr>rg_transfers := hm_insert transfer_key t (rg_transfers g)\<rparr>))"

text \<open>\<open>next_server_transfer_id.fetch_add(1)\<close> and the registration.\<close>

definition register_next ::
    "(string \<Rightarrow> string) \<Rightarrow> (u64 \<Rightarrow> pending_transfer) \<Rightarrow> ft_registry \<Rightarrow> prepared_transfer \<times> ft_registry" where
  "register_next encode transfer g =
     (let next = rg_next_server_transfer_id g
      in register_transfer encode (transfer next) (g\<lparr>rg_next_server_transfer_id := next + 1\<rparr>))"

definition take_transfer :: "string \<Rightarrow> ft_registry \<Rightarrow> pending_transfer option \<times> ft_registry" where
  "take_transfer transfer_key g =
     (map_of (rg_transfers g) transfer_key,
      g\<lparr>rg_transfers := filter (\<lambda>e. fst e \<noteq> transfer_key) (rg_transfers g)\<rparr>)"

definition match_key :: "string \<Rightarrow> string \<Rightarrow> (string \<times> nat) option" where
  "match_key buf key =
     (if starts_with key buf then Some (key, length key)
      else if starts_with ''ftkey='' buf \<and> starts_with key (drop 6 buf) then Some (key, 6 + length key)
      else None)"

definition take_transfer_matching_prefix ::
    "string \<Rightarrow> ft_registry \<Rightarrow> (string \<times> pending_transfer \<times> nat) option \<times> ft_registry" where
  "take_transfer_matching_prefix buf g =
     (case find_map (match_key buf) (map fst (rg_transfers g)) of
        None \<Rightarrow> (None, g)
      | Some (key, consumed) \<Rightarrow>
          (case take_transfer key g of
             (None, g') \<Rightarrow> (None, g')
           | (Some t, g') \<Rightarrow> (Some (key, t, consumed), g')))"

text \<open>The removal \<open>ftstop\<close> makes: the first transfer with the id.\<close>

definition stop_transfer :: "u64 \<Rightarrow> ft_registry \<Rightarrow> pending_transfer option \<times> ft_registry" where
  "stop_transfer serverftfid g =
     (case find_map (\<lambda>(k, t). if pt_server_transfer_id t = serverftfid then Some k else None) (rg_transfers g) of
        None \<Rightarrow> (None, g)
      | Some k \<Rightarrow> take_transfer k g)"

section \<open>Operations on files\<close>

definition map_io_error :: "io_error_kind \<Rightarrow> ft_error" where
  "map_io_error e = (case e of IoNotFound \<Rightarrow> NotFound | IoAlreadyExists \<Rightarrow> AlreadyExists | IoOther \<Rightarrow> FtIo)"

definition map_io :: "(io_error_kind + 'a) \<times> 'f \<Rightarrow> (ft_error + 'a) \<times> 'f" where
  "map_io res = (case res of (Inl e, f) \<Rightarrow> (Inl (map_io_error e), f) | (Inr x, f) \<Rightarrow> (Inr x, f))"

definition materialize_directory_path ::
    "'f file_ops \<Rightarrow> os_path \<Rightarrow> file_area \<Rightarrow> string \<Rightarrow> bool \<Rightarrow> 'f \<Rightarrow> (io_error_kind + os_path) \<times> 'f" where
  "materialize_directory_path ops root area relative_path create_if_missing f =
     (let full_path = area_path root area relative_path
      in if create_if_missing then
           case fo_create_dir_all ops full_path f of
             (Inl e, f') \<Rightarrow> (Inl e, f')
           | (Inr _, f') \<Rightarrow> (Inr full_path, f')
         else (Inr full_path, f))"

definition materialize_named_path ::
    "'f file_ops \<Rightarrow> os_path \<Rightarrow> file_area \<Rightarrow> string \<Rightarrow> bool \<Rightarrow> 'f \<Rightarrow> (io_error_kind + os_path) \<times> 'f" where
  "materialize_named_path ops repository_root area relative_path create_if_missing f =
     (let root = area_root repository_root area
      in if create_if_missing \<or> \<not> path_exists ops root f then
           case fo_create_dir_all ops root f of
             (Inl e, f') \<Rightarrow> (Inl e, f')
           | (Inr _, f') \<Rightarrow> (Inr (area_path repository_root area relative_path), f')
         else (Inr (area_path repository_root area relative_path), f))"

definition music_download_path ::
    "'f file_ops \<Rightarrow> string \<Rightarrow> ft_registry \<Rightarrow> 'f \<Rightarrow> (io_error_kind + os_path) \<times> 'f" where
  "music_download_path ops filename g f =
     materialize_named_path ops (rg_repository_root g) MusicArea filename True f"

definition file_name :: "os_path \<Rightarrow> string option" where
  "file_name p = (if p = [] \<or> last p = ''..'' then None else Some (last p))"

definition build_entry_info ::
    "'f file_ops \<Rightarrow> string \<Rightarrow> os_path \<Rightarrow> 'f \<Rightarrow> io_error_kind + file_entry_info" where
  "build_entry_info ops request_path full_path f =
     (case fo_metadata ops full_path f of
        Inl e \<Rightarrow> Inl e
      | Inr md \<Rightarrow>
          (case (if md_is_dir md then map_sum id (\<lambda>es. es = []) (fo_read_dir ops full_path f) else Inr False) of
             Inl e \<Rightarrow> Inl e
           | Inr no_entries \<Rightarrow>
               Inr \<lparr>fe_path = request_path, fe_name = unwrap_or [] (file_name full_path),
                    fe_size = (if md_is_dir md then 0 else md_len md),
                    fe_datetime = unwrap_or 0 (md_modified md),
                    fe_entry_type = (if md_is_dir md then 0 else 1), fe_empty = no_entries\<rparr>))"

definition sum_ok :: "'e + 'a \<Rightarrow> 'a option" where
  "sum_ok x = (case x of Inl _ \<Rightarrow> None | Inr v \<Rightarrow> Some v)"

text \<open>The entries are sorted by type and lower-case name; sorting is stable.\<close>

definition list_entries ::
    "(string \<Rightarrow> string) \<Rightarrow> 'f file_ops \<Rightarrow> u32 \<Rightarrow> string \<Rightarrow> ft_registry \<Rightarrow> 'f \<Rightarrow>
       (ft_error + file_entry_info list) \<times> 'f" where
  "list_entries lower ops cid path g f =
     (case resolve_list_area cid path of
        None \<Rightarrow> (Inl InvalidPath, f)
      | Some (area, relative_path) \<Rightarrow>
          (case map_io (materialize_directory_path ops (rg_repository_root g) area relative_path
                         (relative_path = ''/'') f) of
             (Inl e, f1) \<Rightarrow> (Inl e, f1)
           | (Inr directory_path, f1) \<Rightarrow>
               if \<not> path_exists ops directory_path f1 then (Inl NotFound, f1)
               else case fo_read_dir ops directory_path f1 of
                      Inl e \<Rightarrow> (Inl (map_io_error e), f1)
                    | Inr paths \<Rightarrow>
                        (Inr (sort_key fe_entry_type (sort_key (\<lambda>e. lower (fe_name e))
                          (List.map_filter (\<lambda>p. sum_ok (build_entry_info ops relative_path p f1)) paths))), f1)))"

text \<open>What the named operations begin with: the path, with the area directory made when it is missing
  (or when \<open>create\<close> asks for it at the root of the area).\<close>

definition named_path ::
    "'f file_ops \<Rightarrow> bool \<Rightarrow> u32 \<Rightarrow> string \<Rightarrow> string \<Rightarrow> string option \<Rightarrow> ft_registry \<Rightarrow> 'f \<Rightarrow>
       (ft_error + string \<times> os_path) \<times> 'f" where
  "named_path ops create cid path name actor_avatar_id g f =
     (case resolve_named_path cid path name actor_avatar_id of
        None \<Rightarrow> (Inl InvalidPath, f)
      | Some (area, relative_path) \<Rightarrow>
          (case map_io (materialize_named_path ops (rg_repository_root g) area relative_path
                         (create \<and> relative_path = ''/'') f) of
             (Inl e, f') \<Rightarrow> (Inl e, f')
           | (Inr p, f') \<Rightarrow> (Inr (relative_path, p), f')))"

definition stat_entry ::
    "'f file_ops \<Rightarrow> u32 \<Rightarrow> string \<Rightarrow> string option \<Rightarrow> ft_registry \<Rightarrow> 'f \<Rightarrow> (ft_error + file_entry_info) \<times> 'f" where
  "stat_entry ops cid name actor_avatar_id g f =
     (case named_path ops True cid ''/'' name actor_avatar_id g f of
        (Inl e, f1) \<Rightarrow> (Inl e, f1)
      | (Inr (relative_path, full_path), f1) \<Rightarrow>
          if \<not> path_exists ops full_path f1 then (Inl NotFound, f1)
          else (map_sum map_io_error id (build_entry_info ops relative_path full_path f1), f1))"

definition create_directory ::
    "'f file_ops \<Rightarrow> u32 \<Rightarrow> string \<Rightarrow> ft_registry \<Rightarrow> 'f \<Rightarrow> (ft_error + unit) \<times> 'f" where
  "create_directory ops cid dirname g f =
     (case named_path ops False cid ''/'' dirname None g f of
        (Inl e, f1) \<Rightarrow> (Inl e, f1)
      | (Inr (_, directory_path), f1) \<Rightarrow>
          if path_exists ops directory_path f1 then (Inl AlreadyExists, f1)
          else map_io (fo_create_dir_all ops directory_path f1))"

definition delete_entry ::
    "'f file_ops \<Rightarrow> u32 \<Rightarrow> string \<Rightarrow> string \<Rightarrow> string option \<Rightarrow> ft_registry \<Rightarrow> 'f \<Rightarrow> (ft_error + unit) \<times> 'f" where
  "delete_entry ops cid path name actor_avatar_id g f =
     (case named_path ops False cid path name actor_avatar_id g f of
        (Inl e, f1) \<Rightarrow> (Inl e, f1)
      | (Inr (_, full_path), f1) \<Rightarrow>
          if \<not> path_exists ops full_path f1 then (Inl NotFound, f1)
          else if path_is_dir ops full_path f1 then map_io (fo_remove_dir_all ops full_path f1)
          else map_io (fo_remove_file ops full_path f1))"

text \<open>Both paths are resolved before either area directory is made. \<open>parent\<close> is \<open>None\<close> for an empty path.\<close>

definition rename_entry ::
    "'f file_ops \<Rightarrow> u32 \<Rightarrow> string \<Rightarrow> u32 \<Rightarrow> string \<Rightarrow> ft_registry \<Rightarrow> 'f \<Rightarrow> (ft_error + unit) \<times> 'f" where
  "rename_entry ops source_cid oldname target_cid newname g f =
     (case resolve_named_path source_cid ''/'' oldname None of
        None \<Rightarrow> (Inl InvalidPath, f)
      | Some _ \<Rightarrow>
     (case resolve_named_path target_cid ''/'' newname None of
        None \<Rightarrow> (Inl InvalidPath, f)
      | Some _ \<Rightarrow>
     (case named_path ops False source_cid ''/'' oldname None g f of
        (Inl e, f1) \<Rightarrow> (Inl e, f1)
      | (Inr (_, source_path), f1) \<Rightarrow>
     (case named_path ops False target_cid ''/'' newname None g f1 of
        (Inl e, f2) \<Rightarrow> (Inl e, f2)
      | (Inr (_, target_path), f2) \<Rightarrow>
          if \<not> path_exists ops source_path f2 then (Inl NotFound, f2)
          else if path_exists ops target_path f2 then (Inl AlreadyExists, f2)
          else case (if target_path = [] then (Inr (), f2)
                     else map_io (fo_create_dir_all ops (butlast target_path) f2)) of
                 (Inl e, f3) \<Rightarrow> (Inl e, f3)
               | (Inr _, f3) \<Rightarrow> map_io (fo_rename ops source_path target_path f3)))))"

definition prepare_download ::
    "(string \<Rightarrow> string) \<Rightarrow> 'f file_ops \<Rightarrow> u32 \<Rightarrow> string \<Rightarrow> string \<Rightarrow> u64 \<Rightarrow> bool \<Rightarrow> u64 option \<Rightarrow> string option \<Rightarrow>
       string option \<Rightarrow> ft_registry \<Rightarrow> 'f \<Rightarrow> (ft_error + prepared_transfer) \<times> ft_registry \<times> 'f" where
  "prepare_download encode ops cid path name seek_position notify client_id client_transfer_id actor_avatar_id g f =
     (case named_path ops False cid path name actor_avatar_id g f of
        (Inl e, f1) \<Rightarrow> (Inl e, g, f1)
      | (Inr (_, p), f1) \<Rightarrow>
     (case fo_metadata ops p f1 of
        Inl e \<Rightarrow> (Inl (map_io_error e), g, f1)
      | Inr md \<Rightarrow>
          if \<not> md_is_file md then (Inl NotFound, g, f1)
          else if md_len md < seek_position then (Inl InvalidPayload, g, f1)
          else case register_next encode (\<lambda>i.
                      \<lparr>pt_server_transfer_id = i, pt_direction = Download, pt_file_path = p,
                       pt_seek_position = seek_position, pt_size = sat_sub (md_len md) seek_position,
                       pt_notify_client_events = notify, pt_client_id = client_id,
                       pt_client_transfer_id = client_transfer_id\<rparr>) g of
                 (prepared, g') \<Rightarrow> (Inr prepared, g', f1)))"

text \<open>The file is created and given its size at once; that this fails is ignored.\<close>

definition reserve_file :: "'f file_ops \<Rightarrow> os_path \<Rightarrow> u64 \<Rightarrow> 'f \<Rightarrow> 'f" where
  "reserve_file ops p bytes f =
     (case fo_create ops p f of
        (Inl _, f') \<Rightarrow> f'
      | (Inr _, f') \<Rightarrow> snd (fo_set_len ops p bytes f'))"

definition prepare_upload ::
    "(string \<Rightarrow> string) \<Rightarrow> 'f file_ops \<Rightarrow> u32 \<Rightarrow> string \<Rightarrow> string \<Rightarrow> u64 \<Rightarrow> bool \<Rightarrow> bool \<Rightarrow> u64 option \<Rightarrow> string option \<Rightarrow>
       string option \<Rightarrow> ft_registry \<Rightarrow> 'f \<Rightarrow> (ft_error + prepared_transfer) \<times> ft_registry \<times> 'f" where
  "prepare_upload encode ops cid path name bytes overwrite notify client_id client_transfer_id actor_avatar_id g f =
     (case named_path ops False cid path name actor_avatar_id g f of
        (Inl e, f1) \<Rightarrow> (Inl e, g, f1)
      | (Inr (_, p), f1) \<Rightarrow>
          if path_exists ops p f1 \<and> \<not> overwrite then (Inl AlreadyExists, g, f1)
          else case (if p = [] then (Inr (), f1) else map_io (fo_create_dir_all ops (butlast p) f1)) of
                 (Inl e, f2) \<Rightarrow> (Inl e, g, f2)
               | (Inr _, f2) \<Rightarrow>
                   (case register_next encode (\<lambda>i.
                           \<lparr>pt_server_transfer_id = i, pt_direction = Upload, pt_file_path = p,
                            pt_seek_position = 0, pt_size = bytes, pt_notify_client_events = notify,
                            pt_client_id = client_id, pt_client_transfer_id = client_transfer_id\<rparr>) g of
                      (prepared, g') \<Rightarrow> (Inr prepared, g', reserve_file ops p bytes f2)))"

section \<open>Files of a request\<close>

text \<open>
  The paths an operation for \<open>cid\<close> may touch: those below the directory of that channel, and for \<open>cid\<close> 0
  those below the three global directories.
\<close>

definition area_reach :: "u32 \<Rightarrow> os_path \<Rightarrow> os_path \<Rightarrow> bool" where
  "area_reach cid root p =
     (\<exists>area. (if cid = 0 then \<forall>c. area \<noteq> ChannelArea c else area = ChannelArea cid)
              \<and> below (area_root root area) p)"

text \<open>
  \<open>fs_keeps ops dirs files P\<close>: the property \<open>P\<close> of the file system survives making directories at paths in
  \<open>dirs\<close>, and every other change at paths in \<open>files\<close>.
\<close>

definition fs_keeps :: "'f file_ops \<Rightarrow> (os_path \<Rightarrow> bool) \<Rightarrow> (os_path \<Rightarrow> bool) \<Rightarrow> ('f \<Rightarrow> bool) \<Rightarrow> bool" where
  "fs_keeps ops dirs files P \<longleftrightarrow>
     (\<forall>p f. P f \<longrightarrow>
        (dirs p \<longrightarrow> P (snd (fo_create_dir_all ops p f)))
      \<and> (files p \<longrightarrow> P (snd (fo_remove_dir_all ops p f)) \<and> P (snd (fo_remove_file ops p f))
            \<and> P (snd (fo_create ops p f)) \<and> (\<forall>n. P (snd (fo_set_len ops p n f)))
            \<and> (\<forall>n bytes. P (snd (fo_write ops p n bytes f)))
            \<and> (\<forall>q. files q \<longrightarrow> P (snd (fo_rename ops p q f)))))"

lemma fs_keepsD:
  assumes "fs_keeps ops dirs files P" and "P f"
  shows "dirs p \<Longrightarrow> P (snd (fo_create_dir_all ops p f))"
    and "files p \<Longrightarrow> P (snd (fo_remove_dir_all ops p f))" and "files p \<Longrightarrow> P (snd (fo_remove_file ops p f))"
    and "files p \<Longrightarrow> P (snd (fo_create ops p f))" and "files p \<Longrightarrow> P (snd (fo_set_len ops p n f))"
    and "files p \<Longrightarrow> P (snd (fo_write ops p m bytes f))"
    and "files p \<Longrightarrow> files q \<Longrightarrow> P (snd (fo_rename ops p q f))"
  using assms unfolding fs_keeps_def by blast+

lemma fs_keeps_mono:
  "fs_keeps ops dirs files P \<Longrightarrow> (\<And>p. files' p \<Longrightarrow> files p) \<Longrightarrow> fs_keeps ops dirs files' P"
  unfolding fs_keeps_def by blast

lemma snd_map_io [simp]: "snd (map_io res) = snd res"
  by (auto simp: map_io_def split: prod.splits sum.splits)

lemma area_reach_below:
  assumes "area_reach cid root p"
  shows "below root p" and "below root (butlast p)"
proof -
  obtain area where area: "below (area_root root area) p" using assms by (auto simp: area_reach_def)
  show *: "below root p" using below_trans [OF area_below_root area] .
  have "p \<noteq> root" using area by (cases area) (auto simp: below_def area_root_eq)
  with * show "below root (butlast p)" by (rule below_butlast)
qed

lemma materialize_named_confined:
  assumes "fs_keeps ops (below root) files P" and "P f"
    and "materialize_named_path ops root area rel create f = (res, f')"
  shows "P f'" and "res = Inr p \<Longrightarrow> p = area_path root area rel"
  using assms(3) fs_keepsD(1) [OF assms(1) assms(2) area_below_root [of root area]] assms(2)
  by (auto simp: materialize_named_path_def Let_def split: prod.splits sum.splits if_splits)

lemma named_path_confined:
  assumes "named_path ops create cid path name avatar g f = (res, f')"
    and "fs_keeps ops (below (rg_repository_root g)) files P" and "P f"
    and "pred_option avatar_letters avatar"
  shows "P f'" and "res = Inr (rel, p) \<Longrightarrow> area_reach cid (rg_repository_root g) p"
proof -
  let ?root = "rg_repository_root g"
  have "P f' \<and> (res = Inr (rel, p) \<longrightarrow> area_reach cid ?root p)"
  proof (cases "resolve_named_path cid path name avatar")
    case None
    then show ?thesis using assms(1) assms(3) by (auto simp: named_path_def)
  next
    case (Some ar)
    then obtain area relp where ar: "resolve_named_path cid path name avatar = Some (area, relp)"
      by (cases ar) simp
    obtain m f1 where m: "materialize_named_path ops ?root area relp (create \<and> relp = ''/'') f = (m, f1)"
      by fastforce
    note mat = materialize_named_confined [OF assms(2) assms(3) m]
    note normal = resolve_named_path_normal [OF ar assms(4)]
    show ?thesis
      using assms(1) ar m mat normal area_path_below [of relp ?root area]
      by (cases m) (auto simp: named_path_def map_io_def area_reach_def intro!: exI [of _ area] split: if_splits)
  qed
  then show "P f'" and "res = Inr (rel, p) \<Longrightarrow> area_reach cid ?root p" by blast+
qed

lemma stat_entry_confined:
  assumes "fs_keeps ops (below (rg_repository_root g)) files P" and "P f"
    and "pred_option avatar_letters avatar"
  shows "P (snd (stat_entry ops cid name avatar g f))"
proof -
  obtain res f1 where n: "named_path ops True cid ''/'' name avatar g f = (res, f1)" by fastforce
  show ?thesis
    using named_path_confined (1) [OF n assms] n
    by (auto simp: stat_entry_def split: sum.splits)
qed

lemma create_directory_confined:
  assumes "fs_keeps ops (below (rg_repository_root g)) files P" and "P f"
  shows "P (snd (create_directory ops cid dirname g f))"
proof -
  obtain res f1 where n: "named_path ops False cid ''/'' dirname None g f = (res, f1)" by fastforce
  note np = named_path_confined [OF n assms, simplified]
  show ?thesis
    using np n fs_keepsD(1) [OF assms(1)] area_reach_below
    by (auto simp: create_directory_def split: sum.splits)
qed

lemma delete_entry_confined:
  assumes "fs_keeps ops (below (rg_repository_root g)) (area_reach cid (rg_repository_root g)) P" and "P f"
    and "pred_option avatar_letters avatar"
  shows "P (snd (delete_entry ops cid path name avatar g f))"
proof -
  obtain res f1 where n: "named_path ops False cid path name avatar g f = (res, f1)" by fastforce
  note np = named_path_confined [OF n assms]
  show ?thesis
    using np n fs_keepsD(2,3) [OF assms(1)] by (auto simp: delete_entry_def split: sum.splits)
qed

lemma create_parent_confined:
  assumes "fs_keeps ops (below root) files P" and "P f" and "area_reach cid root p"
  shows "P (snd (if p = [] then (Inr (), f) else map_io (fo_create_dir_all ops (butlast p) f)))"
  using fs_keepsD(1) [OF assms(1,2)] area_reach_below [OF assms(3)] assms(2) by auto

lemma rename_entry_confined:
  assumes "fs_keeps ops (below (rg_repository_root g)) files P" and "P f"
    and "\<And>p. area_reach source (rg_repository_root g) p \<or> area_reach target (rg_repository_root g) p \<Longrightarrow> files p"
  shows "P (snd (rename_entry ops source oldname target newname g f))"
proof -
  let ?root = "rg_repository_root g"
  obtain res1 f1 where n1: "named_path ops False source ''/'' oldname None g f = (res1, f1)" by fastforce
  obtain res2 f2 where n2: "named_path ops False target ''/'' newname None g f1 = (res2, f2)" by fastforce
  note np1 = named_path_confined [OF n1 assms(1,2), simplified]
  note np2 = named_path_confined [OF n2 assms(1) np1(1), simplified]
  have parent: "P f3" if "res2 = Inr (rel, tp)"
    "(if tp = [] then (Inr (), f2) else map_io (fo_create_dir_all ops (butlast tp) f2)) = (r, f3)" for rel tp r f3
    using create_parent_confined [OF assms(1) np2(1) np2(2) [OF that(1)]] that(2) by (metis snd_conv)
  show ?thesis
    unfolding rename_entry_def n1
    using np1 n2 np2 parent assms(2,3) fs_keepsD(7) [OF assms(1)]
    by (auto split: sum.splits option.splits prod.splits)
qed

lemma list_entries_confined:
  assumes "fs_keeps ops (below (rg_repository_root g)) files P" and "P f"
  shows "P (snd (list_entries lower ops cid path g f))"
proof (cases "resolve_list_area cid path")
  case None
  then show ?thesis using assms(2) by (simp add: list_entries_def)
next
  case (Some ar)
  then obtain area rel where ar: "resolve_list_area cid path = Some (area, rel)" by (cases ar) simp
  have "below (rg_repository_root g) (area_path (rg_repository_root g) area rel)"
    using resolve_list_area_normal [OF ar] area_path_below area_below_root below_trans by blast
  then show ?thesis
    using ar assms(2) fs_keepsD(1) [OF assms]
    by (auto simp: list_entries_def map_io_def materialize_directory_path_def Let_def
        split: sum.splits prod.splits if_splits) (metis snd_conv)+
qed

section \<open>Pending transfers\<close>

text \<open>
  What the code relies on of the encoder: padded base64 codes groups of three bytes by four letters,
  so that an encoding is at least as long as the text and less than twice as long with its padding, an encoding that begins another one is the
  encoding of a beginning, and the padding character is not among the first six letters of the
  encoding of a text of six bytes or more.
\<close>

definition base64_like :: "(string \<Rightarrow> string) \<Rightarrow> bool" where
  "base64_like encode \<longleftrightarrow>
     (\<forall>a b. prefix (encode a) (encode b) \<longrightarrow> prefix a b)
   \<and> (\<forall>a. length a \<le> length (encode a) \<and> length (encode a) \<le> 2 * length a + 4)
   \<and> (\<forall>a. 6 \<le> length a \<longrightarrow> CHR ''='' \<notin> set (take 6 (encode a)))"

abbreviation transfer_key :: "(string \<Rightarrow> string) \<Rightarrow> pending_transfer \<Rightarrow> string" where
  "transfer_key encode t \<equiv> encode (transfer_label (pt_server_transfer_id t) (pt_size t))"

text \<open>
  The registry invariant: every transfer is filed under its key, has an id that was given out, no id
  is there twice, and its file lies below the repository root.
\<close>

definition registry_ok :: "(string \<Rightarrow> string) \<Rightarrow> ft_registry \<Rightarrow> bool" where
  "registry_ok encode g \<longleftrightarrow>
     (\<forall>(k, t) \<in> set (rg_transfers g).
        k = transfer_key encode t \<and> pt_server_transfer_id t < rg_next_server_transfer_id g
        \<and> (\<exists>cid. area_reach cid (rg_repository_root g) (pt_file_path t)))
   \<and> distinct (map (pt_server_transfer_id \<circ> snd) (rg_transfers g))"

lemma transfer_label_prefix:
  assumes "prefix (transfer_label i n) (transfer_label j m)"
  shows "i = j"
proof -
  have no_dash: "CHR ''-'' \<notin> set (word_to_string w)" for w :: u64
    using nat_to_string_digits [of "CHR ''-''" "unat w"] by (auto simp: word_to_string_def byte_def)
  obtain r where "word_to_string j @ CHR ''-'' # word_to_string m
      = word_to_string i @ CHR ''-'' # word_to_string n @ r"
    using assms by (auto simp: transfer_label_def prefix_def)
  then have "word_to_string i = word_to_string j"
    using split_once_append [OF no_dash, of i "word_to_string n @ r"] split_once_append [OF no_dash, of j "word_to_string m"]
    by simp
  then show ?thesis by (simp add: word_to_string_inj)
qed

lemma transfer_label_long: "6 \<le> length (transfer_label i n)"
  by (simp add: transfer_label_def)

lemma keys_unambiguous:
  assumes "base64_like encode"
    and "prefix (transfer_key encode s) buf" and "prefix (transfer_key encode t) buf"
  shows "pt_server_transfer_id s = pt_server_transfer_id t"
proof -
  have "prefix (transfer_key encode s) (transfer_key encode t)
      \<or> prefix (transfer_key encode t) (transfer_key encode s)"
    using assms(2,3) prefix_same_cases by blast
  then show ?thesis using assms(1) transfer_label_prefix unfolding base64_like_def by metis
qed

text \<open>A key is never taken for the tag \<open>ftkey=\<close>.\<close>

lemma key_no_tag:
  assumes "base64_like encode"
  shows "\<not> (prefix (transfer_key encode t) buf \<and> prefix ''ftkey='' buf)"
proof
  assume both: "prefix (transfer_key encode t) buf \<and> prefix ''ftkey='' buf"
  let ?k = "transfer_key encode t"
  have len: "6 \<le> length ?k" and eq: "CHR ''='' \<notin> set (take 6 ?k)"
    using assms transfer_label_long unfolding base64_like_def by (meson order_trans)+
  obtain z where "buf = ?k @ z" using both by (auto simp: prefix_def)
  then have "take 6 buf = take 6 ?k" using len by simp
  moreover have "CHR ''='' \<in> set (take 6 buf)" using both by (auto simp: prefix_def)
  ultimately show False using eq by simp
qed

text \<open>The bytes a client may send for a key: the key, with or without the tag, and what follows.\<close>

definition presents :: "string \<Rightarrow> string \<Rightarrow> bool" where
  "presents key buf = (prefix key buf \<or> prefix (''ftkey='' @ key) buf)"

lemma starts_with_prefix: "starts_with p s \<longleftrightarrow> prefix p s"
  by (auto simp: starts_with_iff prefix_def)

lemma prefix_tag: "prefix (''ftkey='' @ key) buf \<longleftrightarrow> prefix ''ftkey='' buf \<and> prefix key (drop 6 buf)"
  by (auto simp: prefix_def)

lemma match_key_presents:
  "match_key buf key = (if presents key buf then Some (key, length key + (if prefix key buf then 0 else 6)) else None)"
  by (auto simp: match_key_def presents_def starts_with_prefix prefix_tag simp del: append_Cons)

lemma presents_cases:
  "presents k buf \<Longrightarrow> \<not> prefix ''ftkey='' buf \<Longrightarrow> prefix k buf"
  "presents k buf \<Longrightarrow> \<not> prefix k buf \<Longrightarrow> prefix k (drop 6 buf)"
  unfolding presents_def prefix_tag by simp_all

lemma presents_unambiguous:
  assumes "base64_like encode" and "presents (transfer_key encode s) buf" and "presents (transfer_key encode t) buf"
  shows "pt_server_transfer_id s = pt_server_transfer_id t"
proof (cases "prefix ''ftkey='' buf")
  case True
  then have "\<not> prefix (transfer_key encode u) buf" for u using key_no_tag [OF assms(1)] by blast
  then have "prefix (transfer_key encode s) (drop 6 buf)" "prefix (transfer_key encode t) (drop 6 buf)"
    using assms(2,3) by (auto intro: presents_cases(2))
  then show ?thesis by (rule keys_unambiguous [OF assms(1)])
next
  case False
  note p = presents_cases(1) [OF assms(2) this] presents_cases(1) [OF assms(3) this]
  show ?thesis by (rule keys_unambiguous [OF assms(1) p])
qed

lemma find_map_unique:
  assumes "x \<in> set xs" and "f x = Some y" and "\<And>z. z \<in> set xs \<Longrightarrow> f z \<noteq> None \<Longrightarrow> z = x"
  shows "find_map f xs = Some y"
  using assms(1,3)
proof (induction xs)
  case (Cons a xs)
  show ?case
  proof (cases "a = x")
    case False
    then have "f a = None" using Cons.prems(2) [of a] by (cases "f a") auto
    then show ?thesis using Cons False by simp
  qed (simp add: assms(2))
qed simp

lemma registry_entryD:
  assumes "registry_ok encode g" and "(k, t) \<in> set (rg_transfers g)"
  shows "k = transfer_key encode t" and "pt_server_transfer_id t < rg_next_server_transfer_id g"
    and "\<exists>cid. area_reach cid (rg_repository_root g) (pt_file_path t)"
  using assms by (auto simp: registry_ok_def)

lemma registry_id_unique:
  assumes "registry_ok encode g" and "(k, t) \<in> set (rg_transfers g)" and "(k', t') \<in> set (rg_transfers g)"
    and "pt_server_transfer_id t = pt_server_transfer_id t'"
  shows "(k, t) = (k', t')"
proof -
  have "inj_on (pt_server_transfer_id \<circ> snd) (set (rg_transfers g))"
    using assms(1) by (simp add: registry_ok_def distinct_map)
  from inj_onD [OF this _ assms(2,3)] assms(4) show ?thesis by simp
qed

lemma registry_map_of:
  assumes "base64_like encode" and "registry_ok encode g" and "(k, t) \<in> set (rg_transfers g)"
  shows "map_of (rg_transfers g) k = Some t"
proof -
  obtain t' where t': "map_of (rg_transfers g) k = Some t'" using weak_map_of_SomeI [OF assms(3)] by blast
  have "k = transfer_key encode t" "k = transfer_key encode t'"
    using registry_entryD(1) [OF assms(2)] assms(3) map_of_SomeD [OF t'] by blast+
  then have "pt_server_transfer_id t = pt_server_transfer_id t'"
    using keys_unambiguous [OF assms(1), of t k t'] by simp
  then show ?thesis using registry_id_unique [OF assms(2,3) map_of_SomeD [OF t']] t' by simp
qed

text \<open>Whatever the order of the table, the transfer whose key is presented is the one that is taken.\<close>

lemma take_presented:
  assumes "base64_like encode" and "registry_ok encode g" and "(k, t) \<in> set (rg_transfers g)" and "presents k buf"
  shows "take_transfer_matching_prefix buf g =
     (Some (k, t, length k + (if prefix k buf then 0 else 6)),
      g\<lparr>rg_transfers := filter (\<lambda>e. fst e \<noteq> k) (rg_transfers g)\<rparr>)"
proof -
  note entry = registry_entryD(1) [OF assms(2)]
  have "find_map (match_key buf) (map fst (rg_transfers g)) = Some (k, length k + (if prefix k buf then 0 else 6))"
  proof (rule find_map_unique)
    show "k \<in> set (map fst (rg_transfers g))" using assms(3) by force
    show "match_key buf k = Some (k, length k + (if prefix k buf then 0 else 6))"
      using assms(4) by (simp add: match_key_presents)
    fix z assume "z \<in> set (map fst (rg_transfers g))" "match_key buf z \<noteq> None"
    then obtain t' where t': "(z, t') \<in> set (rg_transfers g)" "presents z buf"
      by (auto simp: match_key_presents split: if_splits)
    then have "pt_server_transfer_id t = pt_server_transfer_id t'"
      using presents_unambiguous [OF assms(1)] entry [OF assms(3)] entry [OF t'(1)] assms(4) by metis
    then show "z = k" using registry_id_unique [OF assms(2,3) t'(1)] by simp
  qed
  then show ?thesis
    using registry_map_of [OF assms(1-3)] by (simp add: take_transfer_matching_prefix_def take_transfer_def)
qed

lemma take_absent:
  assumes "\<And>k t. (k, t) \<in> set (rg_transfers g) \<Longrightarrow> \<not> presents k buf"
  shows "take_transfer_matching_prefix buf g = (None, g)"
proof -
  have "find_map (match_key buf) ks = None" if "set ks \<subseteq> fst ` set (rg_transfers g)" for ks
    using that assms by (induction ks) (auto simp: match_key_presents)
  then show ?thesis by (simp add: take_transfer_matching_prefix_def)
qed

subsection \<open>Reachable registries\<close>

text \<open>
  The steps of the registry: an upload or a download is prepared, a transfer is taken by its key, by
  the bytes a client sends or by its id, and the table is iterated in another order. An id is left as
  long as the counter does not wrap.
\<close>

inductive registry_step ::
    "(string \<Rightarrow> string) \<Rightarrow> 'f file_ops \<Rightarrow> ft_registry \<times> 'f \<Rightarrow> ft_registry \<times> 'f \<Rightarrow> bool"
  for encode ops where
  upload: "prepare_upload encode ops cid path name bytes overwrite notify clid ctid avatar g f = (res, g', f') \<Longrightarrow>
     pred_option avatar_letters avatar \<Longrightarrow> rg_next_server_transfer_id g \<noteq> -1 \<Longrightarrow>
     registry_step encode ops (g, f) (g', f')"
| download: "prepare_download encode ops cid path name seek notify clid ctid avatar g f = (res, g', f') \<Longrightarrow>
     pred_option avatar_letters avatar \<Longrightarrow> rg_next_server_transfer_id g \<noteq> -1 \<Longrightarrow>
     registry_step encode ops (g, f) (g', f')"
| taken: "registry_step encode ops (g, f) (snd (take_transfer key g), f)"
| taken_raw: "registry_step encode ops (g, f) (snd (take_transfer_matching_prefix buf g), f)"
| stopped: "registry_step encode ops (g, f) (snd (stop_transfer i g), f)"
| reordered: "mset ts = mset (rg_transfers g) \<Longrightarrow> registry_step encode ops (g, f) (g\<lparr>rg_transfers := ts\<rparr>, f)"

lemma registry_ok_filter: "registry_ok encode g \<Longrightarrow> registry_ok encode (g\<lparr>rg_transfers := filter Q (rg_transfers g)\<rparr>)"
  by (auto simp: registry_ok_def distinct_map_filter)

lemma take_ok: "registry_ok encode g \<Longrightarrow> registry_ok encode (snd (take_transfer key g))"
  by (simp add: take_transfer_def registry_ok_filter)

lemma take_raw_ok: "registry_ok encode g \<Longrightarrow> registry_ok encode (snd (take_transfer_matching_prefix buf g))"
  using take_ok
  by (auto simp: take_transfer_matching_prefix_def split: option.splits prod.splits) (metis snd_conv)+

lemma stop_ok: "registry_ok encode g \<Longrightarrow> registry_ok encode (snd (stop_transfer i g))"
  using take_ok by (auto simp: stop_transfer_def split: option.splits)

lemma reorder_ok:
  assumes "registry_ok encode g" and "mset ts = mset (rg_transfers g)"
  shows "registry_ok encode (g\<lparr>rg_transfers := ts\<rparr>)"
proof -
  have "mset (map (pt_server_transfer_id \<circ> snd) ts) = mset (map (pt_server_transfer_id \<circ> snd) (rg_transfers g))"
    using assms(2) by (metis mset_map)
  then have "distinct (map (pt_server_transfer_id \<circ> snd) ts)"
    using assms(1) mset_eq_imp_distinct_iff unfolding registry_ok_def by blast
  then show ?thesis using assms mset_eq_setD [OF assms(2)] by (auto simp: registry_ok_def)
qed

lemma word_less_succ: "n \<noteq> -1 \<Longrightarrow> n < n + 1"
  for n :: "'a::len word"
proof -
  assume "n \<noteq> -1"
  then have "unat n \<noteq> unat (-1 :: 'a word)" by (simp add: word_unat_eq_iff)
  then have "unat n + 1 < 2 ^ LENGTH('a)"
    using unsigned_less [of n, where 'a = nat] unat_max_word [where 'a = 'a] by linarith
  then show ?thesis by (simp add: word_less_nat_alt unat_word_ariths)
qed

lemma register_next_ok:
  assumes "registry_ok encode g" and "rg_next_server_transfer_id g \<noteq> -1"
    and "\<And>i. pt_server_transfer_id (tr i) = i" and "area_reach cid (rg_repository_root g) (pt_file_path (tr (rg_next_server_transfer_id g)))"
  shows "registry_ok encode (snd (register_next encode tr g))"
proof -
  let ?n = "rg_next_server_transfer_id g"
  have less: "?n < ?n + 1" using assms(2) by (rule word_less_succ)
  have old: "pt_server_transfer_id t < ?n" if "(k, t) \<in> set (rg_transfers g)" for k t
    using registry_entryD(2) [OF assms(1) that] .
  show ?thesis
    using assms less old
    by (auto simp: registry_ok_def register_next_def register_transfer_def hm_insert_def Let_def distinct_map_filter
        intro: less_trans)
qed

text \<open>Preparing a transfer keeps the invariant, and on the file system it stays in the area.\<close>

lemma root_register_next [simp]: "rg_repository_root (snd (register_next encode tr g)) = rg_repository_root g"
  by (simp add: register_next_def register_transfer_def Let_def)

lemma register_next_result:
  assumes "register_next encode tr g = (p, g')"
  shows "rg_repository_root g' = rg_repository_root g"
    and "registry_ok encode g \<Longrightarrow> rg_next_server_transfer_id g \<noteq> -1 \<Longrightarrow> (\<And>i. pt_server_transfer_id (tr i) = i) \<Longrightarrow>
      area_reach cid (rg_repository_root g) (pt_file_path (tr (rg_next_server_transfer_id g))) \<Longrightarrow> registry_ok encode g'"
  using assms root_register_next [of encode tr g] register_next_ok [of encode g tr cid] by auto

lemma fs_keeps_any: "fs_keeps ops dirs files (\<lambda>_. True)"
  by (simp add: fs_keeps_def)

lemma prepare_download_confined:
  assumes "prepare_download encode ops cid path name seek notify clid ctid avatar g f = (res, g', f')"
    and "pred_option avatar_letters avatar"
  shows "fs_keeps ops (below (rg_repository_root g)) files P \<Longrightarrow> P f \<Longrightarrow> P f'"
    and "registry_ok encode g \<Longrightarrow> rg_next_server_transfer_id g \<noteq> -1 \<Longrightarrow> registry_ok encode g'"
    and "rg_repository_root g' = rg_repository_root g"
proof -
  obtain nres f1 where n: "named_path ops False cid path name avatar g f = (nres, f1)" by fastforce
  note np = named_path_confined [OF n _ _ assms(2)]
  show "P f'" if "fs_keeps ops (below (rg_repository_root g)) files P" "P f"
    using np(1) [OF that] assms(1) n by (auto simp: prepare_download_def split: sum.splits prod.splits if_splits)
  show "registry_ok encode g'" if "registry_ok encode g" "rg_next_server_transfer_id g \<noteq> -1"
    using assms(1) n np(2) [OF fs_keeps_any] that
    by (auto simp: prepare_download_def split: sum.splits prod.splits if_splits elim!: register_next_result(2))
  show "rg_repository_root g' = rg_repository_root g"
    using assms(1) n
    by (auto simp: prepare_download_def split: sum.splits prod.splits if_splits dest: register_next_result(1))
qed

lemma reserve_file_confined:
  "fs_keeps ops dirs files P \<Longrightarrow> P f \<Longrightarrow> files p \<Longrightarrow> P (reserve_file ops p bytes f)"
  using fs_keepsD(4,5) [of ops dirs files P]
  by (auto simp: reserve_file_def split: prod.splits sum.splits) (metis snd_conv)+

lemma prepare_upload_confined:
  assumes "prepare_upload encode ops cid path name bytes overwrite notify clid ctid avatar g f = (res, g', f')"
    and "pred_option avatar_letters avatar"
  shows "fs_keeps ops (below (rg_repository_root g)) (area_reach cid (rg_repository_root g)) P \<Longrightarrow> P f \<Longrightarrow> P f'"
    and "registry_ok encode g \<Longrightarrow> rg_next_server_transfer_id g \<noteq> -1 \<Longrightarrow> registry_ok encode g'"
    and "rg_repository_root g' = rg_repository_root g"
proof -
  obtain nres f1 where n: "named_path ops False cid path name avatar g f = (nres, f1)" by fastforce
  note np = named_path_confined [OF n _ _ assms(2)]
  show "P f'" if keep: "fs_keeps ops (below (rg_repository_root g)) (area_reach cid (rg_repository_root g)) P" "P f"
  proof -
    have parent: "P f2" if "nres = Inr (rel, p)"
      "(if p = [] then (Inr (), f1) else map_io (fo_create_dir_all ops (butlast p) f1)) = (r, f2)" for rel p r f2
      using create_parent_confined [OF keep(1) np(1) [OF keep] np(2) [OF keep that(1)]] that(2) by (metis snd_conv)
    then show ?thesis
      using np [OF keep] assms(1) n reserve_file_confined [OF keep(1)]
      by (auto simp: prepare_upload_def split: sum.splits prod.splits if_splits)
  qed
  show "registry_ok encode g'" if "registry_ok encode g" "rg_next_server_transfer_id g \<noteq> -1"
    using assms(1) n np(2) [OF fs_keeps_any] that
    by (auto simp: prepare_upload_def split: sum.splits prod.splits if_splits elim!: register_next_result(2))
  show "rg_repository_root g' = rg_repository_root g"
    using assms(1) n
    by (auto simp: prepare_upload_def split: sum.splits prod.splits if_splits dest: register_next_result(1))
qed

lemma registry_step_ok:
  assumes "registry_step encode ops x y" and "registry_ok encode (fst x)"
  shows "registry_ok encode (fst y)"
  using assms
  by cases (auto intro: take_ok take_raw_ok stop_ok reorder_ok prepare_download_confined(2) prepare_upload_confined(2))

lemma reachable_registry_ok:
  "(registry_step encode ops)\<^sup>*\<^sup>* x y \<Longrightarrow> registry_ok encode (fst x) \<Longrightarrow> registry_ok encode (fst y)"
  by (induction rule: rtranclp_induct) (auto intro: registry_step_ok)

lemma new_registry_ok: "registry_ok encode (new_registry root)"
  by (simp add: registry_ok_def new_registry_def)

text \<open>
  Property C30: a transfer key works exactly once. In every registry reached from the start, whatever the
  order in which its table is iterated, the bytes that begin with the key of a pending transfer (with
  or without the tag \<open>ftkey=\<close>) take that transfer and no other one, consume exactly the key, and take
  nothing when they are sent again.
\<close>

theorem transfer_key_redeemed_once:
  assumes "base64_like encode" and "(registry_step encode ops)\<^sup>*\<^sup>* (new_registry root, f0) (g, f)"
    and "(k, t) \<in> set (rg_transfers g)" and "buf = k @ rest \<or> buf = ''ftkey='' @ k @ rest"
  shows "\<exists>consumed g'. take_transfer_matching_prefix buf g = (Some (k, t, consumed), g')
    \<and> drop consumed buf = rest \<and> set (rg_transfers g') = set (rg_transfers g) - {(k, t)}
    \<and> take_transfer_matching_prefix buf g' = (None, g')"
proof -
  have ok: "registry_ok encode g" using reachable_registry_ok [OF assms(2)] new_registry_ok by simp
  have pres: "presents k buf" using assms(4) by (auto simp: presents_def)
  let ?g' = "g\<lparr>rg_transfers := filter (\<lambda>e. fst e \<noteq> k) (rg_transfers g)\<rparr>"
  have key: "k = transfer_key encode t" using registry_entryD(1) [OF ok assms(3)] .
  have others: "(k', t') = (k, t)" if "(k', t') \<in> set (rg_transfers g)" "presents k' buf" for k' t'
    using presents_unambiguous [OF assms(1), of t' buf t] registry_entryD(1) [OF ok that(1)] key that(2) pres
      registry_id_unique [OF ok that(1) assms(3)] by simp
  have absent: "take_transfer_matching_prefix buf ?g' = (None, ?g')"
    by (rule take_absent) (use others in fastforce)
  have "set (rg_transfers ?g') = set (rg_transfers g) - {(k, t)}"
  proof -
    have "fst e \<noteq> k \<longleftrightarrow> e \<noteq> (k, t)" if "e \<in> set (rg_transfers g)" for e
      using registry_map_of [OF assms(1) ok assms(3)] registry_map_of [OF assms(1) ok, of "fst e" "snd e"] that by auto
    then show ?thesis by auto
  qed
  moreover have "drop (length k + (if prefix k buf then 0 else 6)) buf = rest"
  proof (cases "buf = k @ rest")
    case False
    then have tag: "buf = ''ftkey='' @ k @ rest" using assms(4) by simp
    then have "\<not> prefix k buf" using key_no_tag [OF assms(1), of t buf] key by (auto simp: prefix_def)
    moreover have "length (''ftkey='' @ k) = length k + 6" by simp
    then have "drop (length k + 6) buf = rest" unfolding tag by (metis append_assoc append_eq_conv_conj)
    ultimately show ?thesis by simp
  qed simp
  ultimately show ?thesis using take_presented [OF assms(1) ok assms(3) pres] absent by (intro exI conjI)
qed

subsection \<open>An example\<close>

text \<open>The letters of avatar ids are an encoding of the kind the registry needs.\<close>

lemma avatar_encoding_base64_like: "base64_like encode_avatar_id_bytes"
proof -
  have "length (encode_avatar_id_bytes a) = 2 * length a" for a
    by (induction a) (auto simp: encode_avatar_id_bytes_def)
  moreover have "CHR ''='' \<notin> set (encode_avatar_id_bytes a)" for a
    using avatar_id_letters [of a] by (auto simp: avatar_letters_def list_all_iff less_eq_char_def)
  ultimately show ?thesis by (auto simp: base64_like_def avatar_id_prefix dest: in_set_takeD)
qed

text \<open>
  A file system in memory: the files with their contents. A directory is there as soon as a file lies
  below it, and nothing fails.
\<close>

type_synonym mem_fs = "(os_path \<times> string) list"

definition mem_put :: "os_path \<Rightarrow> string \<Rightarrow> mem_fs \<Rightarrow> mem_fs" where
  "mem_put p c f = (p, c) # filter (\<lambda>e. fst e \<noteq> p) f"

definition mem_metadata :: "os_path \<Rightarrow> mem_fs \<Rightarrow> io_error_kind + metadata" where
  "mem_metadata p f =
     (case map_of f p of
        Some c \<Rightarrow> Inr \<lparr>md_is_dir = False, md_is_file = True, md_len = of_nat (length c), md_modified = None\<rparr>
      | None \<Rightarrow>
          if list_ex (\<lambda>e. prefix p (fst e)) f
          then Inr \<lparr>md_is_dir = True, md_is_file = False, md_len = 0, md_modified = None\<rparr>
          else Inl IoNotFound)"

definition mem_write :: "os_path \<Rightarrow> u64 \<Rightarrow> string \<Rightarrow> mem_fs \<Rightarrow> mem_fs" where
  "mem_write p n b f =
     (case map_of f p of
        None \<Rightarrow> f
      | Some c \<Rightarrow> mem_put p (take (unat n) c @ b @ drop (unat n + length b) c) f)"

definition mem_ops :: "mem_fs file_ops" where
  "mem_ops =
     \<lparr>fo_metadata = mem_metadata,
      fo_open = \<lambda>p f. case map_of f p of None \<Rightarrow> Inl IoNotFound | Some _ \<Rightarrow> Inr (),
      fo_read_dir = \<lambda>p f. Inr (remdups (map (\<lambda>e. take (Suc (length p)) (fst e)) (filter (\<lambda>e. strict_prefix p (fst e)) f))),
      fo_read = \<lambda>p n f. case map_of f p of None \<Rightarrow> Inl IoNotFound | Some c \<Rightarrow> Inr (drop (unat n) c),
      fo_create_dir_all = \<lambda>_ f. (Inr (), f),
      fo_remove_dir_all = \<lambda>p f. (Inr (), filter (\<lambda>e. \<not> prefix p (fst e)) f),
      fo_remove_file = \<lambda>p f. (Inr (), filter (\<lambda>e. fst e \<noteq> p) f),
      fo_rename = \<lambda>p q f. (case map_of f p of
          None \<Rightarrow> (Inl IoNotFound, f)
        | Some c \<Rightarrow> (Inr (), mem_put q c (filter (\<lambda>e. fst e \<noteq> p) f))),
      fo_create = \<lambda>p f. (Inr (), mem_put p [] f),
      fo_set_len = \<lambda>p n f. (case map_of f p of
          None \<Rightarrow> (Inl IoNotFound, f)
        | Some c \<Rightarrow> (Inr (), mem_put p (take (unat n) c @ replicate (unat n - length c) (CHR 0x00)) f)),
      fo_write = \<lambda>p n b f. (Inr (), mem_write p n b f)\<rparr>"

lemma map_of_mem_put [simp]: "map_of (mem_put p c f) q = (if q = p then Some c else map_of f q)"
proof -
  have "map_of (filter (\<lambda>e. fst e \<noteq> p) f) q = (if q = p then None else map_of f q)"
    by (induction f) auto
  then show ?thesis by (simp add: mem_put_def)
qed

definition upload_demo :: "(ft_error + prepared_transfer) \<times> ft_registry \<times> mem_fs" where
  "upload_demo = prepare_upload encode_avatar_id_bytes mem_ops 5 ''/'' ''notes.txt'' 3 True False (Some 7) (Some ''1'')
     None (new_registry [''srv'']) []"

theorem transfer_key_redeemed_once_witness:
  "\<exists>k t consumed g'. pt_file_path t = [''srv'', ''BlackTeaSpeak-Server'', ''data'', ''file-repositories'',
        ''channels'', ''5'', ''notes.txt'']
     \<and> take_transfer_matching_prefix (''ftkey='' @ k @ ''abc'') (fst (snd upload_demo)) = (Some (k, t, consumed), g')
     \<and> drop consumed (''ftkey='' @ k @ ''abc'') = ''abc''"
proof -
  let ?g = "fst (snd upload_demo)" and ?start = "new_registry [''srv'']"
  have "rg_next_server_transfer_id ?start \<noteq> -1" by code_simp
  then have reach: "(registry_step encode_avatar_id_bytes mem_ops)\<^sup>*\<^sup>* (?start, []) (?g, snd (snd upload_demo))"
    by (intro r_into_rtranclp registry_step.upload [of _ _ 5 "''/''" "''notes.txt''" 3 True False "Some 7" "Some ''1''" None
          _ _ "fst upload_demo"]) (simp_all add: upload_demo_def prod_eq_iff)
  obtain k t where kt: "rg_transfers ?g = [(k, t)]"
    and path: "pt_file_path t = [''srv'', ''BlackTeaSpeak-Server'', ''data'', ''file-repositories'',
        ''channels'', ''5'', ''notes.txt'']"
  proof -
    have "length (rg_transfers ?g) = 1" "map (pt_file_path \<circ> snd) (rg_transfers ?g)
      = [[''srv'', ''BlackTeaSpeak-Server'', ''data'', ''file-repositories'', ''channels'', ''5'', ''notes.txt'']]"
      by code_simp+
    then show ?thesis using that by (cases "rg_transfers ?g") auto
  qed
  have "(k, t) \<in> set (rg_transfers ?g)" using kt by simp
  from transfer_key_redeemed_once [OF avatar_encoding_base64_like reach this disjI2 [OF refl], of "''abc''"]
  show ?thesis using path by blast
qed

end
