(* ===== verification/File_Server.thy ===== *)
theory File_Server
  imports File_Registry
begin

text \<open>
  The connections of the file transfer, \<open>file_transfer/server.rs\<close> and \<open>file_transfer/http.rs\<close>, with the
  decoding functions of \<open>file_transfer/utils.rs\<close>. A client sends the key of a transfer as plain bytes or
  as a parameter of an HTTP request inside TLS, and the bytes of an upload with it.

  A connection is the list of what arrives on it: blocks of bytes, or a read that fails; after the last
  one the connection is at its end. A read takes at most as many bytes as it asks for. What is written
  to the connection is the result of a handler; that a write fails is not modelled. An error, which ends
  the connection, is \<open>None\<close> or a \<open>False\<close> in the result, with the state as it is then.
\<close>

section \<open>Bytes and text\<close>

definition from_hex :: "char \<Rightarrow> nat option" where
  "from_hex c =
     (if 48 \<le> byte c \<and> byte c \<le> 57 then Some (byte c - 48)
      else if 97 \<le> byte c \<and> byte c \<le> 102 then Some (byte c - 97 + 10)
      else if 65 \<le> byte c \<and> byte c \<le> 70 then Some (byte c - 65 + 10)
      else None)"

text \<open>
  \<open>String::from_utf8_lossy\<close>: every maximal beginning of a character that is not one, is replaced by U+FFFD.
  \<open>utf8_first\<close> is the number of bytes of the first chunk and whether it is a character.
\<close>

definition continuation :: "char \<Rightarrow> bool" where
  "continuation c = (128 \<le> byte c \<and> byte c < 192)"

definition second_of_three :: "char \<Rightarrow> char \<Rightarrow> bool" where
  "second_of_three b c =
     (if byte b = 224 then 160 \<le> byte c \<and> byte c < 192
      else if byte b = 237 then 128 \<le> byte c \<and> byte c < 160
      else continuation c)"

definition second_of_four :: "char \<Rightarrow> char \<Rightarrow> bool" where
  "second_of_four b c =
     (if byte b = 240 then 144 \<le> byte c \<and> byte c < 192
      else if byte b = 244 then 128 \<le> byte c \<and> byte c < 144
      else continuation c)"

fun continues :: "nat \<Rightarrow> nat \<Rightarrow> string \<Rightarrow> nat \<times> bool" where
  "continues width n s =
     (if width \<le> n then (n, True)
      else case s of
             [] \<Rightarrow> (n, False)
           | c # s' \<Rightarrow> if continuation c then continues width (Suc n) s' else (n, False))"

declare continues.simps [simp del]

fun utf8_first :: "string \<Rightarrow> nat \<times> bool" where
  "utf8_first [] = (0, True)"
| "utf8_first (b # s) =
     (if byte b < 128 then (1, True)
      else if 194 \<le> byte b \<and> byte b \<le> 223 then continues 2 1 s
      else if 224 \<le> byte b \<and> byte b \<le> 239 then
        (case s of [] \<Rightarrow> (1, False) | c # s' \<Rightarrow> if second_of_three b c then continues 3 2 s' else (1, False))
      else if 240 \<le> byte b \<and> byte b \<le> 244 then
        (case s of [] \<Rightarrow> (1, False) | c # s' \<Rightarrow> if second_of_four b c then continues 4 2 s' else (1, False))
      else (1, False))"

lemma continues_ge: "n \<le> fst (continues width n s)"
proof (induction width n s rule: continues.induct)
  case (1 width n s)
  then show ?case
    by (subst continues.simps) (auto split: list.splits intro: Suc_leD)
qed

lemma utf8_first_pos: "s \<noteq> [] \<Longrightarrow> 0 < fst (utf8_first s)"
  by (cases s) (auto split: list.splits intro: less_le_trans [OF _ continues_ge])

function from_utf8_lossy :: "string \<Rightarrow> string" where
  "from_utf8_lossy s =
     (if s = [] then []
      else case utf8_first s of
             (n, valid) \<Rightarrow>
               (if valid then take n s else map char_of [0xEF, 0xBF, 0xBD :: nat]) @ from_utf8_lossy (drop n s))"
  by auto
termination
proof (relation "measure length")
  fix s n valid
  assume "s \<noteq> []" "(n, valid) = utf8_first s"
  then show "(drop n s, s) \<in> measure length" using utf8_first_pos [of s] by (cases "utf8_first s") auto
qed simp

declare from_utf8_lossy.simps [simp del]

text \<open>The bytes \<open>percent_decode\<close> collects; they are then read as text.\<close>

fun percent_bytes :: "string \<Rightarrow> string" where
  "percent_bytes (p # h # l # s) =
     (if p = CHR ''%'' then
        case (from_hex h, from_hex l) of
          (Some high, Some low) \<Rightarrow> char_of (high * 16 + low) # percent_bytes s
        | _ \<Rightarrow> p # percent_bytes (h # l # s)
      else p # percent_bytes (h # l # s))"
| "percent_bytes s = s"

definition percent_decode :: "string \<Rightarrow> string" where
  "percent_decode s = from_utf8_lossy (percent_bytes s)"

definition upper_hex_char :: "nat \<Rightarrow> char" where
  "upper_hex_char n = char_of (if n < 10 then 48 + n else 55 + n)"

definition attr_char :: "char \<Rightarrow> bool" where
  "attr_char c =
     ((65 \<le> byte c \<and> byte c \<le> 90) \<or> (97 \<le> byte c \<and> byte c \<le> 122) \<or> (48 \<le> byte c \<and> byte c \<le> 57)
      \<or> c \<in> set ''!#$&+-.^_`|~'')"

definition rfc5987_percent_encode :: "string \<Rightarrow> string" where
  "rfc5987_percent_encode value =
     concat (map (\<lambda>c. if attr_char c then [c]
                      else [CHR ''%'', upper_hex_char (byte c div 16), upper_hex_char (byte c mod 16)]) value)"

definition find_subslice :: "string \<Rightarrow> string \<Rightarrow> nat option" where
  "find_subslice haystack needle =
     (if needle = [] \<or> length haystack < length needle then None
      else position (\<lambda>i. take (length needle) (drop i haystack) = needle)
             [0..<length haystack - length needle + 1])"

section \<open>HTTP\<close>

definition crlf :: string where
  "crlf = map char_of [13, 10 :: nat]"

definition header_terminator :: string where
  "header_terminator = crlf @ crlf"

record parsed_http_request =
  hr_method :: string
  hr_target :: string
  hr_headers :: "(string, string) btree"
  hr_body :: string

text \<open>\<open>split\<close> at carriage return and line feed.\<close>

fun split_crlf :: "string \<Rightarrow> string list" where
  "split_crlf [] = [[]]"
| "split_crlf [c] = [[c]]"
| "split_crlf (c # d # s) =
     (if [c, d] = crlf then [] # split_crlf s
      else case split_crlf (d # s) of [] \<Rightarrow> [[c]] | x # xs \<Rightarrow> (c # x) # xs)"

definition insert_header :: "string \<Rightarrow> (string, string) btree \<Rightarrow> (string, string) btree" where
  "insert_header line headers =
     (case split_once CHR '':'' line of
        None \<Rightarrow> headers
      | Some (key, value) \<Rightarrow> bt_insert (to_ascii_lowercase (trim key)) (trim value) headers)"

text \<open>Method, target and headers of the head of a request.\<close>

definition parse_head :: "string \<Rightarrow> (string \<times> string \<times> (string, string) btree) option" where
  "parse_head head =
     (case filter (\<lambda>line. line \<noteq> []) (split_crlf (from_utf8_lossy head)) of
        [] \<Rightarrow> None
      | request_line # lines \<Rightarrow>
          (case split_whitespace request_line of
             method # target # _ \<Rightarrow> Some (method, target, fold insert_header lines [])
           | _ \<Rightarrow> None))"

datatype arrival = Data string | ReadFails

fun stream_bytes :: "arrival list \<Rightarrow> nat" where
  "stream_bytes [] = 0"
| "stream_bytes (ReadFails # s) = Suc (stream_bytes s)"
| "stream_bytes (Data b # s) = Suc (length b) + stream_bytes s"

text \<open>One read of at most \<open>n\<close> bytes: an error, or the bytes (none at the end).\<close>

fun read_stream :: "nat \<Rightarrow> arrival list \<Rightarrow> string option \<times> arrival list" where
  "read_stream n [] = (Some [], [])"
| "read_stream n (ReadFails # s) = (None, s)"
| "read_stream n (Data b # s) =
     (if length b \<le> n then (Some b, s) else (Some (take n b), Data (drop n b) # s))"

lemma read_stream_less:
  "read_stream n s = (Some b, s') \<Longrightarrow> b \<noteq> [] \<Longrightarrow> stream_bytes s' < stream_bytes s"
  by (cases "(n, s)" rule: read_stream.cases) (auto split: if_splits)

definition http_header_limit :: nat where
  "http_header_limit = 1024 * 1024"

text \<open>Read until the end of the head has arrived.\<close>

function read_head :: "string \<Rightarrow> arrival list \<Rightarrow> (string \<times> nat \<times> arrival list) option" where
  "read_head buffer s =
     (case read_stream 8192 s of
        (None, _) \<Rightarrow> None
      | (Some b, s') \<Rightarrow>
          if b = [] then None
          else let buffer' = buffer @ b
               in if http_header_limit < length buffer' then None
                  else case find_subslice buffer' header_terminator of
                         Some pos \<Rightarrow> Some (buffer', pos + length header_terminator, s')
                       | None \<Rightarrow> read_head buffer' s')"
  by auto
termination
  by (relation "measure (\<lambda>(_, s). stream_bytes s)") (auto dest!: sym [of "(_, _)"] intro: read_stream_less)

declare read_head.simps [simp del]

function read_body :: "nat \<Rightarrow> string \<Rightarrow> arrival list \<Rightarrow> (string \<times> arrival list) option" where
  "read_body wanted buffer s =
     (if wanted \<le> length buffer then Some (buffer, s)
      else case read_stream 8192 s of
             (None, _) \<Rightarrow> None
           | (Some b, s') \<Rightarrow> if b = [] then None else read_body wanted (buffer @ b) s')"
  by auto
termination
  by (relation "measure (\<lambda>(_, _, s). stream_bytes s)") (auto dest!: sym [of "(_, _)"] intro: read_stream_less)

declare read_body.simps [simp del]

text \<open>A content length with which the end of the request is no \<open>usize\<close> makes the thread panic.\<close>

definition read_http_request :: "arrival list \<Rightarrow> (parsed_http_request \<times> arrival list) option" where
  "read_http_request s =
     (case read_head [] s of
        None \<Rightarrow> None
      | Some (buffer, header_end, s1) \<Rightarrow>
     (case parse_head (take header_end buffer) of
        None \<Rightarrow> None
      | Some (method, target, headers) \<Rightarrow>
          let content_length = unwrap_or 0 (Option.bind (bt_get headers ''content-length'') (parse_uint 64))
          in if 2 ^ 64 \<le> header_end + content_length then None
             else case read_body (header_end + content_length) buffer s1 of
                    None \<Rightarrow> None
                  | Some (buffer', s2) \<Rightarrow>
                      Some (\<lparr>hr_method = method, hr_target = target, hr_headers = headers,
                             hr_body = take content_length (drop header_end buffer')\<rparr>, s2)))"

subsection \<open>Parameters and names\<close>

definition extract_query_parameter :: "string \<Rightarrow> string \<Rightarrow> string option" where
  "extract_query_parameter target key =
     (case split_once CHR ''?'' target of
        None \<Rightarrow> None
      | Some (_, query) \<Rightarrow>
          find_map (\<lambda>segment. case split_once CHR ''='' segment of
                      None \<Rightarrow> None
                    | Some (current_key, current_value) \<Rightarrow>
                        if current_key = key then Some (percent_decode current_value) else None)
            (split_char CHR ''&'' query))"

definition request_transfer_key :: "parsed_http_request \<Rightarrow> string option" where
  "request_transfer_key request =
     or_else (extract_query_parameter (hr_target request) ''transfer-key'')
       (bt_get (hr_headers request) ''transfer-key'')"

definition trim_char :: "char \<Rightarrow> string \<Rightarrow> string" where
  "trim_char d s = rev (dropWhile (\<lambda>c. c = d) (rev (dropWhile (\<lambda>c. c = d) s)))"

definition after_last_separator :: "string \<Rightarrow> string" where
  "after_last_separator s = rev (takeWhile (\<lambda>c. c \<noteq> CHR ''/'' \<and> c \<noteq> CHR 0x5C) (rev s))"

definition sanitize_download_name :: "string \<Rightarrow> string option" where
  "sanitize_download_name value =
     (let candidate = trim_char CHR ''.'' (trim (after_last_separator value));
          sanitized = filter (\<lambda>c. c \<notin> set crlf) candidate
      in if candidate = [] then None else if sanitized = [] then None else Some sanitized)"

definition requested_download_name :: "parsed_http_request \<Rightarrow> pending_transfer \<Rightarrow> string" where
  "requested_download_name request t =
     unwrap_or ''download''
       (or_else (Option.bind (extract_query_parameter (hr_target request) ''file-name'') sanitize_download_name)
         (Option.bind (file_name (pt_file_path t)) (\<lambda>n. sanitize_download_name (from_utf8_lossy n))))"

text \<open>\<open>Path::extension\<close>: what follows the last dot of the last component, when something precedes it.\<close>

definition path_extension :: "string \<Rightarrow> string option" where
  "path_extension name =
     (case file_name (path_join [] name) of
        None \<Rightarrow> None
      | Some n \<Rightarrow>
          (case split_once CHR ''.'' (rev n) of
             None \<Rightarrow> None
           | Some (after, before) \<Rightarrow> if before = [] then None else Some (rev after)))"

definition guess_content_type :: "string \<Rightarrow> string" where
  "guess_content_type name =
     unwrap_or ''application/octet-stream''
       (Option.bind (map_option to_ascii_lowercase (path_extension name))
         (map_of
           [(''txt'', ''text/plain; charset=utf-8''), (''log'', ''text/plain; charset=utf-8''),
            (''md'', ''text/markdown; charset=utf-8''), (''html'', ''text/html; charset=utf-8''),
            (''htm'', ''text/html; charset=utf-8''), (''css'', ''text/css; charset=utf-8''),
            (''js'', ''application/javascript; charset=utf-8''),
            (''mjs'', ''application/javascript; charset=utf-8''),
            (''json'', ''application/json; charset=utf-8''), (''svg'', ''image/svg+xml''),
            (''png'', ''image/png''), (''jpg'', ''image/jpeg''), (''jpeg'', ''image/jpeg''),
            (''gif'', ''image/gif''), (''webp'', ''image/webp''), (''ico'', ''image/x-icon''),
            (''pdf'', ''application/pdf''), (''zip'', ''application/zip''), (''mp3'', ''audio/mpeg''),
            (''ogg'', ''audio/ogg''), (''wav'', ''audio/wav''), (''flac'', ''audio/flac''),
            (''mp4'', ''video/mp4''), (''webm'', ''video/webm''), (''mov'', ''video/quicktime''),
            (''avi'', ''video/x-msvideo'')]))"

text \<open>One character of the name: the bytes after the first of a character yield nothing of their own.\<close>

definition fallback_char :: "char \<Rightarrow> string" where
  "fallback_char c =
     (if continuation c then []
      else if c \<in> {CHR 0x22, CHR 0x5C, CHR ''/''} \<or> c \<in> set crlf \<or> 128 \<le> byte c \<or> byte c < 32 \<or> byte c = 127
      then ''_'' else [c])"

definition ascii_fallback_file_name :: "string \<Rightarrow> string" where
  "ascii_fallback_file_name name =
     (let fallback = trim_char CHR ''.'' (trim (concat (map fallback_char name)))
      in if fallback = [] then ''download'' else fallback)"

definition content_disposition_attachment :: "string \<Rightarrow> string" where
  "content_disposition_attachment name =
     ''attachment; filename='' @ [CHR 0x22] @ ascii_fallback_file_name name @ [CHR 0x22]
       @ ''; filename*=UTF-8'' @ [CHR 0x27, CHR 0x27] @ rfc5987_percent_encode name"

subsection \<open>Responses\<close>

definition write_response_headers :: "nat \<Rightarrow> string \<Rightarrow> (string \<times> string) list \<Rightarrow> string" where
  "write_response_headers status reason extra_headers =
     ''HTTP/1.1 '' @ nat_to_string status @ '' '' @ reason @ crlf
     @ ''Connection: close'' @ crlf @ ''Access-Control-Allow-Origin: *'' @ crlf
     @ ''Access-Control-Allow-Headers: *'' @ crlf @ ''Access-Control-Expose-Headers: *'' @ crlf
     @ ''Access-Control-Allow-Methods: GET, POST, OPTIONS'' @ crlf
     @ concat (map (\<lambda>(key, value). key @ '': '' @ value @ crlf) extra_headers) @ crlf"

definition write_simple_response :: "nat \<Rightarrow> string \<Rightarrow> (string \<times> string) list \<Rightarrow> string \<Rightarrow> string" where
  "write_simple_response status reason extra_headers body =
     write_response_headers status reason
       ([(''Content-Type'', ''text/plain; charset=utf-8''), (''Content-Length'', nat_to_string (length body))]
        @ extra_headers) @ body"

text \<open>
  The response to a download and the number of bytes sent, or the error. \<open>encode\<close> is the base64 encoder.
\<close>

definition write_download_response ::
    "(string \<Rightarrow> string) \<Rightarrow> 'f file_ops \<Rightarrow> parsed_http_request \<Rightarrow> pending_transfer \<Rightarrow> 'f \<Rightarrow> string + string \<times> u64" where
  "write_download_response encode ops request t f =
     (case fo_open ops (pt_file_path t) f of
        Inl _ \<Rightarrow> Inl ''failed to open download file''
      | Inr _ \<Rightarrow>
     (case fo_metadata ops (pt_file_path t) f of
        Inl _ \<Rightarrow> Inl ''failed to stat download file''
      | Inr md \<Rightarrow>
          if \<not> md_is_file md then Inr (write_simple_response 404 ''Not Found'' [] ''file not found'', 0)
          else if md_len md < pt_seek_position t
          then Inr (write_simple_response 400 ''Bad Request'' [] ''invalid seek position'', 0)
          else case fo_read ops (pt_file_path t) (pt_seek_position t) f of
                 Inl _ \<Rightarrow> Inl ''failed to inspect media bytes''
               | Inr body \<Rightarrow>
                   let name = requested_download_name request t
                   in Inr (write_response_headers 200 ''OK''
                             [(''Content-Type'', guess_content_type name),
                              (''Content-Length'', word_to_string (sat_sub (md_len md) (pt_seek_position t))),
                              (''Content-Disposition'', content_disposition_attachment name),
                              (''X-media-bytes'', encode (take 10 body))] @ body,
                           of_nat (length body))))"

definition extract_upload_payload :: "string \<Rightarrow> string \<Rightarrow> string option" where
  "extract_upload_payload content_type body =
     (case find_map (\<lambda>segment. strip_prefix ''boundary='' (trim segment)) (split_char CHR '';'' content_type) of
        None \<Rightarrow> None
      | Some boundary0 \<Rightarrow>
          let boundary = trim_char CHR 0x22 boundary0
          in if \<not> starts_with (''--'' @ boundary) body then None
             else case find_subslice body header_terminator of
                    None \<Rightarrow> None
                  | Some pos \<Rightarrow>
                      let data_start = pos + length header_terminator
                      in map_option (\<lambda>n. take n (drop data_start body))
                           (find_subslice (drop data_start body) (crlf @ ''--'' @ boundary)))"

text \<open>The parent directory is made, the file created and the bytes written at its start.\<close>

definition create_parent :: "'f file_ops \<Rightarrow> os_path \<Rightarrow> 'f \<Rightarrow> (io_error_kind + unit) \<times> 'f" where
  "create_parent ops p f = (if p = [] then (Inr (), f) else fo_create_dir_all ops (butlast p) f)"

definition store_upload_payload ::
    "'f file_ops \<Rightarrow> parsed_http_request \<Rightarrow> pending_transfer \<Rightarrow> 'f \<Rightarrow> (string + u64) \<times> 'f" where
  "store_upload_payload ops request t f =
     (case extract_upload_payload (unwrap_or [] (bt_get (hr_headers request) ''content-type'')) (hr_body request) of
        None \<Rightarrow> (Inl ''invalid upload payload'', f)
      | Some payload \<Rightarrow>
     (case create_parent ops (pt_file_path t) f of
        (Inl _, f1) \<Rightarrow> (Inl ''failed to create upload target directory'', f1)
      | (Inr _, f1) \<Rightarrow>
     (case fo_create ops (pt_file_path t) f1 of
        (Inl _, f2) \<Rightarrow> (Inl ''failed to create upload file'', f2)
      | (Inr _, f2) \<Rightarrow>
     (case fo_write ops (pt_file_path t) 0 payload f2 of
        (Inl _, f3) \<Rightarrow> (Inl ''failed to write upload file'', f3)
      | (Inr _, f3) \<Rightarrow> (Inr (of_nat (length payload)), f3)))))"

subsection \<open>Names in headers\<close>

text \<open>A name written for the header is read back by \<open>percent_decode\<close>.\<close>

lemma from_hex_hex_char: "n < 16 \<Longrightarrow> from_hex (upper_hex_char n) = Some n"
  by (auto simp: from_hex_def upper_hex_char_def byte_def)

lemma percent_bytes_plain: "c \<noteq> CHR ''%'' \<Longrightarrow> percent_bytes (c # s) = c # percent_bytes s"
  by (cases s rule: percent_bytes.cases) (auto split: list.splits)

lemma percent_bytes_hex:
  "h < 16 \<Longrightarrow> l < 16 \<Longrightarrow>
     percent_bytes (CHR ''%'' # upper_hex_char h # upper_hex_char l # s) = char_of (h * 16 + l) # percent_bytes s"
  by (simp add: from_hex_hex_char)

lemma percent_bytes_encode: "percent_bytes (rfc5987_percent_encode v) = v"
proof (induction v)
  case (Cons c v)
  have "byte c div 16 < 16" "byte c mod 16 < 16" "byte c div 16 * 16 + byte c mod 16 = byte c"
    using byte_less [of c] by auto
  then have "char_of (byte c div 16 * 16 + byte c mod 16) = c" by (simp add: byte_def)
  moreover have "\<not> attr_char CHR ''%''" by code_simp
  then have "attr_char c \<Longrightarrow> c \<noteq> CHR ''%''" by auto
  ultimately show ?case
    using Cons byte_less [of c]
    by (cases "attr_char c")
      (simp_all add: rfc5987_percent_encode_def percent_bytes_plain percent_bytes_hex del: percent_bytes.simps)
qed (simp add: rfc5987_percent_encode_def)

text \<open>No name, whatever its bytes, ends the header line or the quotes it is written into.\<close>

lemma set_trim_start: "set (trim_start s) \<subseteq> set s"
  by (induction s rule: trim_start.induct) (subst trim_start.simps, auto dest: in_set_dropD)

lemma set_trim_end_rev: "set (trim_end_rev s) \<subseteq> set s"
  by (induction s rule: trim_end_rev.induct) (subst trim_end_rev.simps, auto dest: in_set_dropD)

lemma set_trim: "set (trim s) \<subseteq> set s"
  using set_trim_start [of s] set_trim_end_rev [of "rev (trim_start s)"] by (auto simp: trim_def)

lemma set_trim_char: "set (trim_char d s) \<subseteq> set s"
  by (auto simp: trim_char_def dest!: set_dropWhileD)

lemma fallback_safe:
  "c \<in> set (ascii_fallback_file_name name) \<Longrightarrow> 32 \<le> byte c \<and> byte c < 127 \<and> c \<notin> {CHR 0x22, CHR 0x5C, CHR ''/''}"
proof -
  assume c: "c \<in> set (ascii_fallback_file_name name)"
  have "32 \<le> byte c \<and> byte c < 127 \<and> c \<notin> {CHR 0x22, CHR 0x5C, CHR ''/''}"
    if "c \<in> set (concat (map fallback_char name))"
    using that by (auto simp: fallback_char_def byte_def split: if_splits)
  moreover have "32 \<le> byte c \<and> byte c < 127 \<and> c \<notin> {CHR 0x22, CHR 0x5C, CHR ''/''}" if "c \<in> set ''download''"
    using that by (auto simp: byte_def)
  ultimately show ?thesis
    using c set_trim_char [of "CHR ''.''"] set_trim
    by (auto simp: ascii_fallback_file_name_def Let_def split: if_splits dest!: set_trim_char [THEN subsetD] set_trim [THEN subsetD])
qed

lemma attr_char_range: "attr_char c \<Longrightarrow> 33 \<le> byte c \<and> byte c < 127"
  unfolding attr_char_def
proof (elim disjE)
  assume "c \<in> set ''!#$&+-.^_`|~''"
  moreover have "list_all (\<lambda>c. 33 \<le> byte c \<and> byte c < 127) ''!#$&+-.^_`|~''" by code_simp
  ultimately show ?thesis unfolding list_all_iff by blast
qed auto

lemma hex_char_range: "n < 16 \<Longrightarrow> 33 \<le> byte (upper_hex_char n) \<and> byte (upper_hex_char n) < 127"
  by (auto simp: upper_hex_char_def byte_def)

lemma encode_safe: "c \<in> set (rfc5987_percent_encode name) \<Longrightarrow> 33 \<le> byte c \<and> byte c < 127"
proof -
  assume "c \<in> set (rfc5987_percent_encode name)"
  then obtain d where "c \<in> set (if attr_char d then [d] else [CHR ''%'', upper_hex_char (byte d div 16), upper_hex_char (byte d mod 16)])"
    unfolding rfc5987_percent_encode_def set_concat set_map by blast
  moreover have "byte d div 16 < 16" "byte d mod 16 < 16" using byte_less [of d] by simp_all
  moreover have "33 \<le> byte CHR ''%'' \<and> byte CHR ''%'' < 127" by code_simp
  ultimately show ?thesis
    using attr_char_range [of d] hex_char_range by (cases "attr_char d") auto
qed

section \<open>Connections\<close>

definition ft_status_complete :: u32 where
  "ft_status_complete = 0x811"

definition emit_complete :: "pending_transfer \<Rightarrow> u64 \<Rightarrow> ft_registry \<Rightarrow> ft_registry" where
  "emit_complete t bytes_transferred g =
     emit_status t ft_status_complete ''ok'' (emit_progress t bytes_transferred g)"

text \<open>
  The part of \<open>handle_transfer_client\<close> inside TLS: the bytes written (\<open>None\<close> when the handler answers an error),
  the registry and the file system. A transfer is taken before the method is looked at.
\<close>

definition handle_http_transfer ::
    "(string \<Rightarrow> string) \<Rightarrow> 'f file_ops \<Rightarrow> arrival list \<Rightarrow> ft_registry \<Rightarrow> 'f \<Rightarrow> string option \<times> ft_registry \<times> 'f" where
  "handle_http_transfer encode ops s g f =
     (case read_http_request s of
        None \<Rightarrow> (None, g, f)
      | Some (request, _) \<Rightarrow>
          if to_ascii_lowercase (hr_method request) = ''options''
          then (Some (write_simple_response 204 ''No Content'' [] []), g, f)
          else
     (case request_transfer_key request of
        None \<Rightarrow> (None, g, f)
      | Some key \<Rightarrow>
     (case take_transfer key g of
        (None, g1) \<Rightarrow> (Some (write_simple_response 404 ''Not Found'' [] ''missing transfer''), g1, f)
      | (Some t, g1) \<Rightarrow>
          (case pt_direction t of
             Download \<Rightarrow>
               if hr_method request \<noteq> ''GET'' \<and> hr_method request \<noteq> ''POST''
               then (Some (write_simple_response 405 ''Method Not Allowed''
                      [(''Allow'', ''GET, POST, OPTIONS'')] []), g1, f)
               else (let g2 = emit_started t g1
                     in case write_download_response encode ops request t f of
                          Inl message \<Rightarrow> (None, emit_status t 1 message g2, f)
                        | Inr (out, n) \<Rightarrow> (Some out, emit_complete t n g2, f))
           | Upload \<Rightarrow>
               if hr_method request \<noteq> ''POST''
               then (Some (write_simple_response 405 ''Method Not Allowed'' [(''Allow'', ''POST, OPTIONS'')] []), g1, f)
               else (let g2 = emit_started t g1
                     in case store_upload_payload ops request t f of
                          (Inl message, f1) \<Rightarrow> (None, emit_status t 1 message g2, f1)
                        | (Inr n, f1) \<Rightarrow>
                            (Some (write_simple_response 200 ''OK'' [] ''ok''), emit_complete t n g2, f1))))))"

text \<open>Reading the key of a raw connection: the transfer, the bytes after the key and the rest of the stream.\<close>

function read_raw_key ::
    "string \<Rightarrow> arrival list \<Rightarrow> ft_registry \<Rightarrow> (pending_transfer \<times> string \<times> arrival list) option \<times> ft_registry" where
  "read_raw_key header_buf s g =
     (case read_stream 4096 s of
        (None, _) \<Rightarrow> (None, g)
      | (Some b, s') \<Rightarrow>
          if b = [] then (None, g)
          else let buf = header_buf @ b
               in case take_transfer_matching_prefix buf g of
                    (Some (_, t, consumed), g') \<Rightarrow> (Some (t, drop consumed buf, s'), g')
                  | (None, g') \<Rightarrow> if 1024 < length buf then (None, g') else read_raw_key buf s' g')"
  by auto
termination
  by (relation "measure (\<lambda>(_, s, _). stream_bytes s)") (auto dest!: sym [of "(_, _)"] intro: read_stream_less)

declare read_raw_key.simps [simp del]

definition drop_line_end :: "u64 \<Rightarrow> string \<Rightarrow> string" where
  "drop_line_end bytes payload =
     (if unat bytes < length payload then
        if starts_with crlf payload then drop 2 payload
        else if starts_with [CHR 0x0A] payload then drop 1 payload
        else payload
      else payload)"

text \<open>The loop that reads the rest of an upload and writes it behind what is there.\<close>

function receive_raw ::
    "'f file_ops \<Rightarrow> os_path \<Rightarrow> u64 \<Rightarrow> u64 \<Rightarrow> u64 \<Rightarrow> arrival list \<Rightarrow> 'f \<Rightarrow> u64 option \<times> 'f" where
  "receive_raw ops p seek bytes transferred s f =
     (if transferred < bytes then
        case read_stream (min (unat (bytes - transferred)) 4096) s of
          (None, _) \<Rightarrow> (None, f)
        | (Some b, s') \<Rightarrow>
            if b = [] then (Some transferred, f)
            else case fo_write ops p (seek + transferred) b f of
                   (Inl _, f') \<Rightarrow> (None, f')
                 | (Inr _, f') \<Rightarrow>
                     receive_raw ops p seek bytes (sat_add transferred (of_nat (length b))) s' f'
      else (Some transferred, f))"
  by auto
termination
  by (relation "measure (\<lambda>(_, _, _, _, _, s, _). stream_bytes s)")
    (auto dest!: sym [of "(_, _)"] intro: read_stream_less)

declare receive_raw.simps [simp del]

definition receive_upload ::
    "'f file_ops \<Rightarrow> pending_transfer \<Rightarrow> string \<Rightarrow> arrival list \<Rightarrow> 'f \<Rightarrow> u64 option \<times> 'f" where
  "receive_upload ops t rest s f =
     (let payload = drop_line_end (pt_size t) rest; p = pt_file_path t
      in case create_parent ops p f of
           (Inl _, f1) \<Rightarrow> (None, f1)
         | (Inr _, f1) \<Rightarrow>
      (case fo_create ops p f1 of
           (Inl _, f2) \<Rightarrow> (None, f2)
         | (Inr _, f2) \<Rightarrow>
             if payload = [] then receive_raw ops p (pt_seek_position t) (pt_size t) 0 s f2
             else let first = take (unat (pt_size t)) payload
                  in case fo_write ops p (pt_seek_position t) first f2 of
                       (Inl _, f3) \<Rightarrow> (None, f3)
                     | (Inr _, f3) \<Rightarrow>
                         receive_raw ops p (pt_seek_position t) (pt_size t) (of_nat (length first)) s f3))"

text \<open>The bytes written to the connection (\<open>None\<close> when the handler answers an error), registry and file system.\<close>

definition handle_raw_tcp_transfer ::
    "'f file_ops \<Rightarrow> arrival list \<Rightarrow> ft_registry \<Rightarrow> 'f \<Rightarrow> string option \<times> ft_registry \<times> 'f" where
  "handle_raw_tcp_transfer ops s g f =
     (case read_raw_key [] s g of
        (None, g1) \<Rightarrow> (None, g1, f)
      | (Some (t, rest, s1), g1) \<Rightarrow>
          let g2 = emit_started t g1
          in case pt_direction t of
               Download \<Rightarrow>
                 (case fo_open ops (pt_file_path t) f of
                    Inl _ \<Rightarrow> (None, g2, f)
                  | Inr _ \<Rightarrow>
                 (case fo_read ops (pt_file_path t) (pt_seek_position t) f of
                    Inl _ \<Rightarrow> (None, g2, f)
                  | Inr bytes \<Rightarrow> (Some bytes, emit_complete t (of_nat (length bytes)) g2, f)))
             | Upload \<Rightarrow>
                 (case receive_upload ops t rest s1 f of
                    (None, f1) \<Rightarrow> (None, g2, f1)
                  | (Some n, f1) \<Rightarrow> (Some [], emit_complete t n g2, f1)))"

text \<open>
  \<open>handle_transfer_client\<close>: a first byte other than 0x16, the TLS handshake, is a raw transfer. The TLS layer is
  the parameter \<open>decrypt\<close>, from what arrives to what it carries.
\<close>

definition handle_transfer_client ::
    "(string \<Rightarrow> string) \<Rightarrow> (arrival list \<Rightarrow> arrival list) \<Rightarrow> 'f file_ops \<Rightarrow> arrival list \<Rightarrow> ft_registry \<Rightarrow> 'f \<Rightarrow>
       string option \<times> ft_registry \<times> 'f" where
  "handle_transfer_client encode decrypt ops s g f =
     (case s of
        Data (c # _) # _ \<Rightarrow>
          if byte c \<noteq> 0x16 then handle_raw_tcp_transfer ops s g f
          else handle_http_transfer encode ops (decrypt s) g f
      | _ \<Rightarrow> handle_http_transfer encode ops (decrypt s) g f)"

section \<open>Connections stay in the repository\<close>

lemma registry_ok_emit [simp]:
  "registry_ok encode (emit_for t e g) = registry_ok encode g"
  "rg_repository_root (emit_for t e g) = rg_repository_root g"
  by (auto simp: registry_ok_def emit_for_def emit_event_def split: option.splits)

lemmas emit_kept = emit_started_def emit_progress_def emit_status_def emit_complete_def

lemma receive_raw_confined:
  "fs_keeps ops dirs files P \<Longrightarrow> files p \<Longrightarrow> P f \<Longrightarrow> P (snd (receive_raw ops p seek bytes transferred s f))"
proof (induction ops p seek bytes transferred s f rule: receive_raw.induct)
  case (1 ops p seek bytes transferred s f)
  have written: "P f'" if "fo_write ops p n b f = (res, f')" for n b res f'
    using fs_keepsD(6) [OF "1.prems"(1,3,2), of n b] that by simp
  show ?case
    using "1.IH" "1.prems" written
    by (subst receive_raw.simps) (auto split: prod.splits option.splits sum.splits)
qed

lemma create_parent_keeps:
  assumes "fs_keeps ops (below root) files P" and "P f" and "area_reach cid root p" and "create_parent ops p f = (res, f')"
  shows "P f'"
  using fs_keepsD(1) [OF assms(1,2) area_reach_below(2) [OF assms(3)]] assms(2,4)
  by (auto simp: create_parent_def split: if_splits)

lemma receive_upload_confined:
  assumes "fs_keeps ops (below root) files P" and "P f" and "area_reach cid root (pt_file_path t)"
    and "files (pt_file_path t)"
  shows "P (snd (receive_upload ops t rest s f))"
proof -
  note parent = create_parent_keeps [OF assms(1,2,3)]
  have create: "P f2" if "create_parent ops (pt_file_path t) f = (r, f1)" "fo_create ops (pt_file_path t) f1 = (r', f2)"
    for r r' f1 f2
    using fs_keepsD(4) [OF assms(1) parent [OF that(1)] assms(4)] that(2) by simp
  have first: "P f3" if "P f2" "fo_write ops (pt_file_path t) n b f2 = (r, f3)" for f2 f3 n b r
    using fs_keepsD(6) [OF assms(1) that(1) assms(4), of n b] that(2) by simp
  show ?thesis
    using parent create first receive_raw_confined [OF assms(1,4)]
    by (auto simp: receive_upload_def Let_def split: prod.splits sum.splits)
qed

lemma store_upload_confined:
  assumes "fs_keeps ops (below root) files P" and "P f" and "area_reach cid root (pt_file_path t)"
    and "files (pt_file_path t)"
  shows "P (snd (store_upload_payload ops request t f))"
proof -
  note parent = create_parent_keeps [OF assms(1,2,3)]
  have create: "P f2" if "create_parent ops (pt_file_path t) f = (r, f1)" "fo_create ops (pt_file_path t) f1 = (r', f2)"
    for r r' f1 f2
    using fs_keepsD(4) [OF assms(1) parent [OF that(1)] assms(4)] that(2) by simp
  have first: "P f3" if "P f2" "fo_write ops (pt_file_path t) n b f2 = (r, f3)" for f2 f3 n b r
    using fs_keepsD(6) [OF assms(1) that(1) assms(4), of n b] that(2) by simp
  show ?thesis
    using assms(2) parent create first
    by (auto simp: store_upload_payload_def split: option.splits prod.splits sum.splits)
qed

lemma take_transfer_kept:
  assumes "take_transfer key g = (res, g')"
  shows "registry_ok encode g \<Longrightarrow> registry_ok encode g'" and "rg_repository_root g' = rg_repository_root g"
    and "res = Some t \<Longrightarrow> (key, t) \<in> set (rg_transfers g)"
  using assms take_ok [of encode g key] by (auto simp: take_transfer_def dest: map_of_SomeD)

lemma take_raw_kept:
  assumes "take_transfer_matching_prefix buf g = (res, g')"
  shows "registry_ok encode g \<Longrightarrow> registry_ok encode g'" and "rg_repository_root g' = rg_repository_root g"
    and "res = Some (k, t, n) \<Longrightarrow> (k, t) \<in> set (rg_transfers g)" and "res = None \<Longrightarrow> set (rg_transfers g') \<subseteq> set (rg_transfers g)"
  using assms take_raw_ok [of encode g buf]
  by (auto simp: take_transfer_matching_prefix_def take_transfer_def split: option.splits dest: map_of_SomeD)

lemma read_raw_key_kept:
  "read_raw_key buf s g = (res, g') \<Longrightarrow>
     (registry_ok encode g \<longrightarrow> registry_ok encode g') \<and> rg_repository_root g' = rg_repository_root g
     \<and> (\<forall>t rest s'. res = Some (t, rest, s') \<longrightarrow> (\<exists>k. (k, t) \<in> set (rg_transfers g)))"
proof (induction "stream_bytes s" arbitrary: buf s g rule: less_induct)
  case less
  show ?case
  proof (cases "\<exists>b s'. read_stream 4096 s = (Some b, s') \<and> b \<noteq> []")
    case False
    then show ?thesis
      using less.prems by (subst (asm) read_raw_key.simps) (auto split: prod.splits option.splits if_splits)
  next
    case True
    then obtain b s' where b: "read_stream 4096 s = (Some b, s')" "b \<noteq> []" by blast
    obtain m g1 where m: "take_transfer_matching_prefix (buf @ b) g = (m, g1)" by fastforce
    note kept = take_raw_kept [OF m]
    show ?thesis
    proof (cases m)
      case (Some ktn)
      then show ?thesis
        using less.prems b m kept by (subst (asm) read_raw_key.simps) (cases ktn, auto)
    next
      case None
      show ?thesis
      proof (cases "1024 < length (buf @ b)")
        case True
        then show ?thesis
          using less.prems b m None kept by (subst (asm) read_raw_key.simps) auto
      next
        case False
        have "read_raw_key (buf @ b) s' g1 = (res, g')"
          using less.prems b m None False by (subst (asm) read_raw_key.simps) simp
        from less.hyps [OF read_stream_less [OF b] this]
        show ?thesis using kept(1,2) kept(4) [OF None] by (auto 0 3)
      qed
    qed
  qed
qed

lemma pending_path:
  assumes "registry_ok encode g" and "(k, t) \<in> set (rg_transfers g)"
  obtains cid where "area_reach cid (rg_repository_root g) (pt_file_path t)"
  using registry_entryD(3) [OF assms] by blast

lemma raw_transfer_confined:
  assumes "handle_raw_tcp_transfer ops s g f = (out, g', f')" and "registry_ok encode g"
  shows "registry_ok encode g'" and "rg_repository_root g' = rg_repository_root g"
    and "fs_keeps ops (below (rg_repository_root g)) (\<lambda>p. \<exists>cid. area_reach cid (rg_repository_root g) p) P \<Longrightarrow>
      P f \<Longrightarrow> P f'"
proof -
  obtain m g1 where m: "read_raw_key [] s g = (m, g1)" by fastforce
  note kept = read_raw_key_kept [OF m]
  show "registry_ok encode g'" "rg_repository_root g' = rg_repository_root g"
    using assms m kept
    by (auto simp: handle_raw_tcp_transfer_def Let_def emit_kept split: option.splits sum.splits ft_direction.splits prod.splits)
  assume keeps: "fs_keeps ops (below (rg_repository_root g)) (\<lambda>p. \<exists>cid. area_reach cid (rg_repository_root g) p) P" and "P f"
  have "P f1" if "m = Some (t, rest, s1)" "receive_upload ops t rest s1 f = (r, f1)" for t rest s1 r f1
  proof -
    obtain k where "(k, t) \<in> set (rg_transfers g)" using kept \<open>m = Some _\<close> by blast
    then obtain cid where "area_reach cid (rg_repository_root g) (pt_file_path t)" by (rule pending_path [OF assms(2)])
    then show ?thesis using receive_upload_confined [OF keeps \<open>P f\<close>, of cid t rest s1] that(2) by auto
  qed
  then show "P f'"
    using assms(1) m \<open>P f\<close>
    by (auto simp: handle_raw_tcp_transfer_def Let_def split: option.splits sum.splits ft_direction.splits prod.splits)
qed

lemma http_transfer_confined:
  assumes "handle_http_transfer encode ops s g f = (out, g', f')" and "registry_ok encode g"
  shows "registry_ok encode g'" and "rg_repository_root g' = rg_repository_root g"
    and "fs_keeps ops (below (rg_repository_root g)) (\<lambda>p. \<exists>cid. area_reach cid (rg_repository_root g) p) P \<Longrightarrow>
      P f \<Longrightarrow> P f'"
proof -
  show "registry_ok encode g'" "rg_repository_root g' = rg_repository_root g"
    using assms
    by (auto simp: handle_http_transfer_def Let_def emit_kept dest: take_transfer_kept
        split: option.splits sum.splits ft_direction.splits prod.splits if_splits)
  assume keeps: "fs_keeps ops (below (rg_repository_root g)) (\<lambda>p. \<exists>cid. area_reach cid (rg_repository_root g) p) P" and "P f"
  have "P f1" if "take_transfer key g = (Some t, g1)" "store_upload_payload ops request t f = (r, f1)"
    for key t g1 request r f1
  proof -
    have "(key, t) \<in> set (rg_transfers g)" using take_transfer_kept(3) [OF that(1)] by simp
    then obtain cid where "area_reach cid (rg_repository_root g) (pt_file_path t)" by (rule pending_path [OF assms(2)])
    then show ?thesis using store_upload_confined [OF keeps \<open>P f\<close>, of cid t request] that(2) by auto
  qed
  then show "P f'"
    using assms(1) \<open>P f\<close>
    by (auto simp: handle_http_transfer_def Let_def
        split: option.splits sum.splits ft_direction.splits prod.splits if_splits)
qed

lemma transfer_client_confined:
  assumes "handle_transfer_client encode decrypt ops s g f = (out, g', f')" and "registry_ok encode g"
  shows "registry_ok encode g'" and "rg_repository_root g' = rg_repository_root g"
    and "fs_keeps ops (below (rg_repository_root g)) (\<lambda>p. \<exists>cid. area_reach cid (rg_repository_root g) p) P \<Longrightarrow>
      P f \<Longrightarrow> P f'"
proof -
  have "handle_raw_tcp_transfer ops s g f = (out, g', f') \<or> handle_http_transfer encode ops (decrypt s) g f = (out, g', f')"
    using assms(1) by (auto simp: handle_transfer_client_def split: list.splits arrival.splits if_splits)
  then consider (raw) "handle_raw_tcp_transfer ops s g f = (out, g', f')"
    | (http) "handle_http_transfer encode ops (decrypt s) g f = (out, g', f')" by blast
  note cases = this
  show "registry_ok encode g'"
    by (cases rule: cases)
      (rule raw_transfer_confined(1) [OF _ assms(2)], assumption,
        rule http_transfer_confined(1) [OF _ assms(2)], assumption)
  show "rg_repository_root g' = rg_repository_root g"
    by (cases rule: cases)
      (rule raw_transfer_confined(2) [OF _ assms(2)], assumption,
        rule http_transfer_confined(2) [OF _ assms(2)], assumption)
  show "P f'" if "fs_keeps ops (below (rg_repository_root g)) (\<lambda>p. \<exists>cid. area_reach cid (rg_repository_root g) p) P" "P f"
    by (cases rule: cases)
      (rule raw_transfer_confined(3) [OF _ assms(2) that], assumption,
        rule http_transfer_confined(3) [OF _ assms(2) that], assumption)
qed

section \<open>What a raw connection transfers\<close>

text \<open>A connection on which nothing fails, and the bytes it delivers.\<close>

definition arrives :: "arrival \<Rightarrow> string" where
  "arrives a = (case a of Data b \<Rightarrow> b | ReadFails \<Rightarrow> [])"

definition stream_ok :: "arrival list \<Rightarrow> bool" where
  "stream_ok s = list_all (\<lambda>a. arrives a \<noteq> []) s"

definition stream_text :: "arrival list \<Rightarrow> string" where
  "stream_text s = concat (map arrives s)"

lemma read_stream_text:
  assumes "stream_ok s" and "s \<noteq> []" and "0 < n"
  shows "\<exists>b s'. read_stream n s = (Some b, s') \<and> b \<noteq> [] \<and> length b \<le> n \<and> stream_ok s'
           \<and> stream_text s = b @ stream_text s'"
  using assms
  by (cases "(n, s)" rule: read_stream.cases)
    (auto simp: stream_ok_def stream_text_def arrives_def split: if_splits)

lemma stream_text_Nil: "stream_ok s \<Longrightarrow> stream_text s = [] \<longleftrightarrow> s = []"
  by (cases s) (auto simp: stream_ok_def stream_text_def)

lemma nat_to_string_length: "n < 10 ^ d \<Longrightarrow> 0 < d \<Longrightarrow> length (nat_to_string n) \<le> d"
proof (induction d arbitrary: n)
  case (Suc d)
  show ?case
  proof (cases "n < 10")
    case False
    then have "0 < d" "n div 10 < 10 ^ d" using Suc.prems by (cases d, auto)
    with Suc.IH [of "n div 10"] False show ?thesis by (simp add: nat_to_string.simps [of n])
  qed (simp add: nat_to_string.simps [of n])
qed simp

lemma transfer_key_short:
  assumes "base64_like encode"
  shows "length (transfer_key encode t) \<le> 200"
proof -
  have digits: "length (word_to_string w) \<le> 20" for w :: u64
    using unsigned_less [of w, where 'a = nat] by (auto simp: word_to_string_def intro!: nat_to_string_length)
  have label: "length (transfer_label i n) \<le> 58" for i n
    using digits [of i] digits [of n] by (simp add: transfer_label_def)
  have "length (encode a) \<le> 2 * length a + 4" for a using assms unfolding base64_like_def by blast
  from this [of "transfer_label (pt_server_transfer_id t) (pt_size t)"] label [of "pt_server_transfer_id t" "pt_size t"]
  show ?thesis by linarith
qed

text \<open>Nothing but the presented transfer is taken while its key is arriving.\<close>

lemma presents_mono: "presents k buf \<Longrightarrow> prefix buf buf' \<Longrightarrow> presents k buf'"
  unfolding presents_def using prefix_order.trans by blast

lemma arriving_key:
  assumes "base64_like encode" and "registry_ok encode g" and "(k, t) \<in> set (rg_transfers g)"
    and "presents k whole" and "prefix buf whole" and "\<not> presents k buf"
  shows "take_transfer_matching_prefix buf g = (None, g)"
proof (rule take_absent)
  fix k' t' assume kt': "(k', t') \<in> set (rg_transfers g)"
  show "\<not> presents k' buf"
  proof
    assume "presents k' buf"
    then have "presents k' whole" using assms(5) by (rule presents_mono)
    then have "pt_server_transfer_id t' = pt_server_transfer_id t"
      using presents_unambiguous [OF assms(1), of t' whole t] registry_entryD(1) [OF assms(2)] kt' assms(3,4) by metis
    then have "k' = k" using registry_id_unique [OF assms(2) kt' assms(3)] by simp
    with \<open>presents k' buf\<close> assms(6) show False by simp
  qed
qed

definition key_bytes :: "string \<Rightarrow> string \<Rightarrow> string \<Rightarrow> bool" where
  "key_bytes k payload bytes = (bytes = k @ payload \<or> bytes = ''ftkey='' @ k @ payload)"

lemma key_bytes_presents: "key_bytes k payload whole \<Longrightarrow> presents k whole"
  by (auto simp: key_bytes_def presents_def)

lemma arrived_key:
  assumes "base64_like encode" and "key_bytes (transfer_key encode t) payload (buf @ later)"
    and "presents (transfer_key encode t) buf"
  shows "drop (length (transfer_key encode t) + (if prefix (transfer_key encode t) buf then 0 else 6)) buf @ later = payload"
proof -
  let ?k = "transfer_key encode t"
  have no_tag: "\<not> (prefix ?k w \<and> prefix ''ftkey='' w)" for w by (rule key_no_tag [OF assms(1)])
  show ?thesis
  proof (cases "prefix ?k buf")
    case True
    then obtain r where r: "buf = ?k @ r" by (auto simp: prefix_def)
    have "\<not> prefix ''ftkey='' (buf @ later)" using no_tag [of "buf @ later"] r by (auto simp: prefix_def)
    then have "buf @ later = ?k @ payload" using assms(2) unfolding key_bytes_def prefix_def by blast
    then show ?thesis using r True by simp
  next
    case False
    then obtain r where r: "buf = ''ftkey='' @ ?k @ r" using assms(3) by (auto simp: presents_def prefix_def)
    have "\<not> prefix ?k (buf @ later)" using no_tag [of "buf @ later"] r by (auto simp: prefix_def)
    then have whole: "buf @ later = ''ftkey='' @ ?k @ payload" using assms(2) unfolding key_bytes_def prefix_def by blast
    then have "r @ later = payload" using r by simp
    moreover have "drop (length ?k + 6) buf = r"
    proof -
      have "length (''ftkey='' @ ?k) = length ?k + 6" by simp
      then show ?thesis unfolding r by (metis append_assoc append_eq_conv_conj)
    qed
    ultimately show ?thesis using False by simp
  qed
qed

lemma read_raw_key_finds:
  assumes "base64_like encode" and "registry_ok encode g" and "(k, t) \<in> set (rg_transfers g)"
    and "key_bytes k payload (buf @ stream_text s)" and "stream_ok s" and "\<not> presents k buf"
  shows "\<exists>rest s'. read_raw_key buf s g =
       (Some (t, rest, s'), g\<lparr>rg_transfers := filter (\<lambda>e. fst e \<noteq> k) (rg_transfers g)\<rparr>)
     \<and> stream_ok s' \<and> rest @ stream_text s' = payload"
  using assms(4-6)
proof (induction "stream_bytes s" arbitrary: buf s rule: less_induct)
  case less
  have k: "k = transfer_key encode t" using registry_entryD(1) [OF assms(2,3)] .
  note pres = key_bytes_presents [OF less.prems(1)]
  have "s \<noteq> []" using less.prems pres by (auto simp: stream_text_def)
  then obtain b s' where b: "read_stream 4096 s = (Some b, s')" "b \<noteq> []" "stream_ok s'"
      "stream_text s = b @ stream_text s'"
    using read_stream_text [OF less.prems(2), of 4096] by auto
  have whole: "key_bytes k payload ((buf @ b) @ stream_text s')" using less.prems(1) b(4) by simp
  show ?case
  proof (cases "presents k (buf @ b)")
    case True
    note taken = take_presented [OF assms(1-3) True]
    show ?thesis
      using taken b arrived_key [OF assms(1) whole [unfolded k] True [unfolded k]]
      by (subst read_raw_key.simps) (simp add: k Let_def del: drop_append)
  next
    case False
    have "take_transfer_matching_prefix (buf @ b) g = (None, g)"
      by (rule arriving_key [OF assms(1-3) pres _ False]) (simp add: b(4))
    moreover have "length (buf @ b) \<le> 1024"
    proof (rule ccontr)
      assume "\<not> length (buf @ b) \<le> 1024"
      then have "length k + 6 \<le> length (buf @ b)" using transfer_key_short [OF assms(1), of t] k by simp
      moreover have "prefix (buf @ b) ((buf @ b) @ stream_text s')" by simp
      moreover have "prefix k ((buf @ b) @ stream_text s') \<or> prefix (''ftkey='' @ k) ((buf @ b) @ stream_text s')"
        using whole unfolding key_bytes_def by (metis append_assoc prefixI)
      moreover have "length (''ftkey='' @ k) = length k + 6" by simp
      ultimately have "prefix k (buf @ b) \<or> prefix (''ftkey='' @ k) (buf @ b)"
        by (metis add_leD1 prefix_length_prefix)
      with False show False by (simp add: presents_def)
    qed
    ultimately have step: "read_raw_key buf s g = read_raw_key (buf @ b) s' g"
      using b by (subst read_raw_key.simps) simp
    show ?thesis
      unfolding step by (rule less.hyps [OF read_stream_less [OF b(1,2)] whole b(3) False])
  qed
qed

text \<open>
  What the file system has to do at the path \<open>p\<close> while it is \<open>ready\<close>, a state no call made here leaves:
  directories can be made, \<open>File::create\<close> leaves an empty file, a write at the end appends, and a file
  that is there is read from the offset on.
\<close>

definition file_store :: "'f file_ops \<Rightarrow> ('f \<Rightarrow> bool) \<Rightarrow> ('f \<Rightarrow> string option) \<Rightarrow> os_path \<Rightarrow> bool" where
  "file_store ops ready content p \<longleftrightarrow>
     (\<forall>f. ready f \<longrightarrow>
        (\<exists>f'. fo_create_dir_all ops (butlast p) f = (Inr (), f') \<and> ready f')
      \<and> (\<exists>f'. fo_create ops p f = (Inr (), f') \<and> ready f' \<and> content f' = Some [])
      \<and> (\<forall>c b. content f = Some c \<and> length c < 2 ^ 64 \<longrightarrow>
           (\<exists>f'. fo_write ops p (of_nat (length c)) b f = (Inr (), f') \<and> ready f' \<and> content f' = Some (c @ b)))
      \<and> (\<forall>c n. content f = Some c \<longrightarrow>
           fo_open ops p f = Inr () \<and> fo_read ops p n f = Inr (drop (unat n) c)))"

lemma file_storeD:
  assumes "file_store ops ready content p" and "ready f"
  shows "\<exists>f'. create_parent ops p f = (Inr (), f') \<and> ready f'"
    and "\<exists>f'. fo_create ops p f = (Inr (), f') \<and> ready f' \<and> content f' = Some []"
    and "content f = Some c \<Longrightarrow> length c < 2 ^ 64 \<Longrightarrow>
      \<exists>f'. fo_write ops p (of_nat (length c)) b f = (Inr (), f') \<and> ready f' \<and> content f' = Some (c @ b)"
    and "content f = Some c \<Longrightarrow> fo_open ops p f = Inr () \<and> fo_read ops p n f = Inr (drop (unat n) c)"
  using assms unfolding file_store_def create_parent_def by auto

lemma receive_raw_appends:
  assumes "file_store ops ready content p" and "ready f" and "content f = Some c"
    and "stream_ok s" and "length c + length (stream_text s) = unat bytes"
  shows "\<exists>f'. receive_raw ops p 0 bytes (of_nat (length c)) s f = (Some bytes, f') \<and> ready f'
           \<and> content f' = Some (c @ stream_text s)"
  using assms(2-)
proof (induction "stream_bytes s" arbitrary: s f c rule: less_induct)
  case less
  have len: "length c \<le> unat bytes" using less.prems(4) by linarith
  have len': "unat (of_nat (length c) :: u64) = length c"
    using len by (rule le_unat_uoi)
  show ?case
  proof (cases "s = []")
    case True
    then have "of_nat (length c) = bytes" using less.prems(4) by (simp add: stream_text_def word_unat_eq_iff len')
    with True less.prems show ?thesis by (subst receive_raw.simps) (simp add: stream_text_def)
  next
    case False
    then have more: "length c < unat bytes" using less.prems(3,4) stream_text_Nil [of s] by (cases "stream_text s") auto
    then have lt: "of_nat (length c) < bytes" by (simp add: word_less_nat_alt len')
    then have want: "unat (bytes - of_nat (length c)) = unat bytes - length c"
      by (simp add: unat_sub len' less_imp_le)
    then have "0 < min (unat (bytes - of_nat (length c))) 4096" using more by simp
    from read_stream_text [OF less.prems(3) False this] obtain b s' where
      b: "read_stream (min (unat (bytes - of_nat (length c))) 4096) s = (Some b, s')" "b \<noteq> []"
        "length b \<le> unat bytes - length c" "stream_ok s'" "stream_text s = b @ stream_text s'"
      using want by auto
    obtain f1 where f1: "fo_write ops p (of_nat (length c)) b f = (Inr (), f1)" "ready f1" "content f1 = Some (c @ b)"
      using file_storeD(3) [OF assms(1) less.prems(1,2)] len unsigned_less [of bytes, where 'a = nat]
      by fastforce
    have sum: "length c + length b \<le> unat bytes" using b(3) more by simp
    have "unat (of_nat (length b) :: u64) = length b"
      by (rule le_unat_uoi [of _ bytes]) (use sum in simp)
    moreover have "unat (of_nat (length c + length b) :: u64) = length c + length b"
      using sum by (rule le_unat_uoi)
    ultimately have "sat_add (of_nat (length c)) (of_nat (length b)) = (of_nat (length (c @ b)) :: u64)"
      using unsigned_less [of bytes, where 'a = nat] sum len'
      by (simp add: word_unat_eq_iff unat_sat_add del: of_nat_add)
    then have step: "receive_raw ops p 0 bytes (of_nat (length c)) s f = receive_raw ops p 0 bytes (of_nat (length (c @ b))) s' f1"
      using lt b(1,2) f1(1) by (subst receive_raw.simps) simp
    have "length (c @ b) + length (stream_text s') = unat bytes" using less.prems(4) b(5) by simp
    from less.hyps [OF read_stream_less [OF b(1,2)] f1(2,3) b(4) this] show ?thesis
      unfolding step b(5) by simp
  qed
qed

lemma receive_upload_stores:
  assumes "file_store ops ready content (pt_file_path t)" and "ready f" and "pt_seek_position t = 0"
    and "stream_ok s" and "length (rest @ stream_text s) = unat (pt_size t)"
  shows "\<exists>f'. receive_upload ops t rest s f = (Some (pt_size t), f') \<and> ready f'
           \<and> content f' = Some (rest @ stream_text s)"
proof -
  let ?p = "pt_file_path t"
  have rest: "drop_line_end (pt_size t) rest = rest" "take (unat (pt_size t)) rest = rest"
    using assms(5) by (simp_all add: drop_line_end_def)
  obtain f1 where f1: "create_parent ops ?p f = (Inr (), f1)" "ready f1" using file_storeD(1) [OF assms(1,2)] by blast
  obtain f2 where f2: "fo_create ops ?p f1 = (Inr (), f2)" "ready f2" "content f2 = Some []"
    using file_storeD(2) [OF assms(1) f1(2)] by blast
  show ?thesis
  proof (cases "rest = []")
    case True
    then show ?thesis
      using receive_raw_appends [OF assms(1) f2(2,3) assms(4)] assms(3,5) f1 f2 rest
      by (simp add: receive_upload_def)
  next
    case False
    obtain f3 where f3: "fo_write ops ?p 0 rest f2 = (Inr (), f3)" "ready f3" "content f3 = Some rest"
      using file_storeD(3) [OF assms(1) f2(2,3), of rest] by auto
    show ?thesis
      using receive_raw_appends [OF assms(1) f3(2,3) assms(4)] assms(3,5) f1 f2 f3 rest False
      by (simp add: receive_upload_def Let_def)
  qed
qed

lemma not_presents_Nil: "base64_like encode \<Longrightarrow> \<not> presents (transfer_key encode t) []"
  using transfer_label_long [of "pt_server_transfer_id t" "pt_size t"]
  by (auto simp: presents_def base64_like_def) (metis le_zero_eq list.size(3) numeral_eq_Suc old.nat.distinct(2))

text \<open>
  Property C29: what a client uploads over a raw connection is what a later download delivers. Whatever the
  blocks in which the key of the upload and its bytes arrive, the transfer ends with the bytes in the
  file; a client that presents the key of a download of that file, in whatever blocks, is sent the
  bytes from the seek position of its transfer on.
\<close>

theorem raw_upload_download:
  assumes "base64_like encode" and "registry_ok encode g" and "registry_ok encode g'"
    and "(k, up) \<in> set (rg_transfers g)" and "pt_direction up = Upload" and "pt_seek_position up = 0"
    and "stream_ok s" and "key_bytes k payload (stream_text s)" and "length payload = unat (pt_size up)"
    and "(k', down) \<in> set (rg_transfers g')" and "pt_direction down = Download" and "pt_file_path down = pt_file_path up"
    and "stream_ok s'" and "key_bytes k' [] (stream_text s')"
    and "file_store ops ready content (pt_file_path up)" and "ready f"
  shows "\<exists>g1 f1 g2. handle_raw_tcp_transfer ops s g f = (Some [], g1, f1) \<and> content f1 = Some payload
    \<and> handle_raw_tcp_transfer ops s' g' f1 = (Some (drop (unat (pt_seek_position down)) payload), g2, f1)"
proof -
  have k: "k = transfer_key encode up" "k' = transfer_key encode down"
    using registry_entryD(1) assms(2-4,10) by blast+
  have none: "\<not> presents k []" "\<not> presents k' []" using k not_presents_Nil [OF assms(1)] by simp_all
  obtain rest sr where up: "read_raw_key [] s g =
      (Some (up, rest, sr), g\<lparr>rg_transfers := filter (\<lambda>e. fst e \<noteq> k) (rg_transfers g)\<rparr>)" "stream_ok sr"
      "rest @ stream_text sr = payload"
    using read_raw_key_finds [OF assms(1,2,4), of payload "[]" s] assms(7,8) none by auto
  obtain f1 where f1: "receive_upload ops up rest sr f = (Some (pt_size up), f1)" "ready f1" "content f1 = Some payload"
    using receive_upload_stores [OF assms(15,16,6) up(2), of rest] assms(9) up(3) by auto
  obtain rest' sr' where down: "read_raw_key [] s' g' =
      (Some (down, rest', sr'), g'\<lparr>rg_transfers := filter (\<lambda>e. fst e \<noteq> k') (rg_transfers g')\<rparr>)"
    using read_raw_key_finds [OF assms(1,3,10), of "[]" "[]" s'] assms(13,14) none by auto
  have "fo_open ops (pt_file_path up) f1 = Inr ()"
    "fo_read ops (pt_file_path up) (pt_seek_position down) f1 = Inr (drop (unat (pt_seek_position down)) payload)"
    using file_storeD(4) [OF assms(15) f1(2,3)] by auto
  then show ?thesis
    using up(1) f1 down assms(5,11,12) by (simp add: handle_raw_tcp_transfer_def Let_def)
qed

lemma mem_file_store: "file_store mem_ops (\<lambda>_. True) (\<lambda>f. map_of f p) p"
proof -
  have "unat (of_nat (length c) :: u64) = length c" if "length c < 2 ^ 64" for c :: string
    using that by (simp add: unat_of_nat)
  then show ?thesis by (auto simp: file_store_def mem_ops_def mem_write_def)
qed

text \<open>The upload of the example of the registry, and a download of its file from the second byte on.\<close>

definition transfer_demo :: "(ft_error + prepared_transfer) \<times> ft_registry \<times> mem_fs" where
  "transfer_demo = prepare_download encode_avatar_id_bytes mem_ops 5 ''/'' ''notes.txt'' 1 False (Some 8) (Some ''2'')
     None (fst (snd upload_demo)) (snd (snd upload_demo))"

lemma transfer_demo_ok: "registry_ok encode_avatar_id_bytes (fst (snd transfer_demo))"
proof -
  have next_ids: "rg_next_server_transfer_id (new_registry [''srv'']) \<noteq> -1"
    "rg_next_server_transfer_id (fst (snd upload_demo)) \<noteq> -1" by code_simp+
  have "registry_ok encode_avatar_id_bytes (fst (snd upload_demo))"
    using prepare_upload_confined(2) [OF _ _ new_registry_ok next_ids(1)] unfolding upload_demo_def
    by (metis option.pred_inject(1) prod.collapse)
  then show ?thesis
    using prepare_download_confined(2) [OF _ _ _ next_ids(2)] unfolding transfer_demo_def
    by (metis option.pred_inject(1) prod.collapse)
qed

theorem raw_upload_download_witness:
  "\<exists>k k' g1 f1 g2. handle_raw_tcp_transfer mem_ops [Data (k @ ''a''), Data ''bc''] (fst (snd transfer_demo)) []
       = (Some [], g1, f1)
     \<and> handle_raw_tcp_transfer mem_ops [Data k'] (fst (snd transfer_demo)) f1 = (Some ''bc'', g2, f1)"
proof -
  let ?g = "fst (snd transfer_demo)"
  have shape: "length (rg_transfers ?g) = 2"
    "map (\<lambda>(k, t). (pt_direction t, pt_seek_position t, pt_size t)) (rg_transfers ?g) = [(Download, 1, 2), (Upload, 0, 3)]"
    "length (remdups (map (pt_file_path \<circ> snd) (rg_transfers ?g))) = 1"
    "list_all (\<lambda>(k, t). k \<noteq> []) (rg_transfers ?g)"
    by code_simp+
  then obtain k' down k up where ts: "rg_transfers ?g = [(k', down), (k, up)]"
    by (auto simp: length_Suc_conv numeral_eq_Suc)
  have up: "pt_direction up = Upload" "pt_seek_position up = 0" "length ''abc'' = unat (pt_size up)"
    and down: "pt_direction down = Download" "pt_file_path down = pt_file_path up" "pt_seek_position down = 1" and ne: "k' \<noteq> []"
    using shape ts by (auto split: if_splits)
  have mem: "(k, up) \<in> set (rg_transfers ?g)" "(k', down) \<in> set (rg_transfers ?g)" using ts by simp_all
  have s: "stream_ok [Data (k @ ''a''), Data ''bc'']" "key_bytes k ''abc'' (stream_text [Data (k @ ''a''), Data ''bc''])"
    "stream_ok [Data k']" "key_bytes k' [] (stream_text [Data k'])"
    using ne by (simp_all add: stream_ok_def arrives_def key_bytes_def stream_text_def)
  from raw_upload_download [OF avatar_encoding_base64_like transfer_demo_ok transfer_demo_ok mem(1) up(1,2) s(1,2) up(3)
      mem(2) down(1,2) s(3,4) mem_file_store, of "[]"]
  show ?thesis using down(3) by (intro exI [of _ k] exI [of _ k']) auto
qed

end
