(* ===== verification/File_Commands.thy ===== *)
theory File_Commands
  imports File_Server Messages
begin

text \<open>
  The file transfer commands, \<open>runtime/handlers/file_transfer.rs\<close>. They check the access, find the registry
  and call it. The state is the runtime together with the registry (absent when the transfer is not
  enabled), the file system and the two counters of client transfer ids.

  The libraries the commands call are the record \<open>ft_libs\<close>: the file system, the base64 encoder and
  decoder and \<open>str::to_lowercase\<close>.
\<close>

section \<open>State and access\<close>

record 'f ft_libs =
  fl_ops :: "'f file_ops"
  fl_encode :: "string \<Rightarrow> string"
  fl_decode :: "string \<Rightarrow> string option"
  fl_lower :: "string \<Rightarrow> string"

record 'f ft_runtime =
  fr_runtime :: baseline_runtime
  fr_registry :: "ft_registry option"
  fr_files :: 'f
  fr_next_upload_id :: u64
  fr_next_download_id :: u64

definition map_ft_error :: "ft_error \<Rightarrow> query_response" where
  "map_ft_error e =
     (case e of
        NotFound \<Rightarrow> response_error 2051 ''file not found''
      | AlreadyExists \<Rightarrow> response_error 2050 ''file already exists''
      | InvalidPath \<Rightarrow> response_error 2054 ''invalid file path''
      | InvalidPayload \<Rightarrow> response_error 1538 ''invalid parameter''
      | FtIo \<Rightarrow> response_error 2052 ''file input/output error'')"

definition session_client_on :: "baseline_runtime \<Rightarrow> query_session \<Rightarrow> u32 \<Rightarrow> online_client option" where
  "session_client_on r session server_id =
     opt_filter (\<lambda>c. oc_server_id c = server_id) (bt_get (st_online_clients (rt_store r)) (qs_client_id session))"

definition actor_unique_identifier :: "baseline_runtime \<Rightarrow> query_session \<Rightarrow> u32 \<Rightarrow> string option" where
  "actor_unique_identifier r session server_id =
     (case session_client_on r session server_id of
        Some c \<Rightarrow> Some (oc_unique_identifier c)
      | None \<Rightarrow>
          (case qs_actor_client_database_id_override session of
             Some cldbid \<Rightarrow>
               or_else (map_option cl_unique_identifier (bt_get (st_clients (rt_store r)) cldbid))
                 (map_option oc_unique_identifier (online_client_by_cldbid r server_id cldbid))
           | None \<Rightarrow> qs_authenticated_login session))"

definition resolve_actor_avatar_id ::
    "(string \<Rightarrow> string option) \<Rightarrow> baseline_runtime \<Rightarrow> query_session \<Rightarrow> u32 \<Rightarrow> string option" where
  "resolve_actor_avatar_id decode r session server_id =
     (case actor_unique_identifier r session server_id of
        None \<Rightarrow> None
      | Some uid \<Rightarrow>
          (case decode uid of
             Some decoded \<Rightarrow>
               if decoded \<noteq> [] then Some (encode_avatar_id_bytes decoded) else Some (encode_avatar_id_bytes uid)
           | None \<Rightarrow> Some (encode_avatar_id_bytes uid)))"

definition flag_avatar :: "u32 \<Rightarrow> u64 \<Rightarrow> string \<Rightarrow> online_client \<Rightarrow> online_client" where
  "flag_avatar server_id cldbid avatar_hash oc =
     (if oc_server_id oc = server_id \<and> oc_database_id oc = cldbid
      then oc\<lparr>oc_extra_properties := bt_insert ''client_flag_avatar'' avatar_hash (oc_extra_properties oc)\<rparr>
      else oc)"

definition set_actor_avatar_flag ::
    "query_session \<Rightarrow> u32 \<Rightarrow> string \<Rightarrow> baseline_runtime \<Rightarrow> baseline_runtime" where
  "set_actor_avatar_flag session server_id avatar_hash r =
     (case or_else (or_else (map_option oc_database_id (session_client_on r session server_id))
                      (qs_actor_client_database_id_override session))
             (Option.bind (qs_authenticated_login session)
               (\<lambda>l. Option.bind (bt_get (st_query_accounts (rt_store r)) l) qa_client_database_id)) of
        None \<Rightarrow> r
      | Some cldbid \<Rightarrow>
          let r1 = (case bt_get (st_clients (rt_store r)) cldbid of
                      None \<Rightarrow> r
                    | Some c \<Rightarrow>
                        let c' = c\<lparr>cl_client_flag_avatar := avatar_hash\<rparr>
                        in emit [DbSaveClient c'] (upd_store (st_clients_update (bt_insert cldbid c')) r))
          in upd_store (st_online_clients_update (bt_map_values (flag_avatar server_id cldbid avatar_hash))) r1)"

text \<open>The check for a channel, for a session with an actor.\<close>

definition check_channel_access ::
    "baseline_runtime \<Rightarrow> query_session \<Rightarrow> u32 \<Rightarrow> u32 \<Rightarrow> channel \<Rightarrow> string option \<Rightarrow> string \<Rightarrow> string \<Rightarrow> query_response option" where
  "check_channel_access r session server_id cid channel cpw power_perm needed_perm =
     (case query_actor_effective_permissions r session of
        Inl e \<Rightarrow> Some e
      | Inr (actor, global_perms) \<Rightarrow>
          let perms = unwrap_or global_perms
                (effective_permissions_for_client_in_channel_context r server_id cid (ac_client_database_id actor))
          in if ch_password channel \<noteq> [] \<and> qs_current_channel_id session \<noteq> Some cid
                \<and> permission_value_or_default perms [''b_ft_ignore_password'', ''b_channel_join_ignore_password''] \<le> 0
                \<and> unwrap_or [] cpw \<noteq> ch_password channel
             then Some (response_error 781 ''invalid channel password'')
             else
               let actor_power = permission_power_max_or_default perms [power_perm];
                   needed_power = max (permission_value_or_default perms [needed_perm])
                     (unwrap_or 0 (map_option pa_value (bt_get (ch_permissions channel) needed_perm)));
                   explicitly_denied = (case bt_get perms power_perm of None \<Rightarrow> False | Some a \<Rightarrow> pa_value a < 0)
               in if explicitly_denied \<or> actor_power < needed_power
                  then Some (insufficient_permission_response r power_perm) else None)"

definition exceeds_limit :: "perm_map \<Rightarrow> string \<Rightarrow> u64 option \<Rightarrow> bool" where
  "exceeds_limit perms limit_name upload_size =
     (case (upload_size, bt_get perms limit_name) of
        (Some bytes, Some a) \<Rightarrow> 0 \<le> pa_value a \<and> pa_value a < sint bytes
      | _ \<Rightarrow> False)"

text \<open>The check for the global areas: what it takes for an icon or an avatar is decided on the texts of the request.\<close>

definition check_global_access ::
    "baseline_runtime \<Rightarrow> query_session \<Rightarrow> string \<Rightarrow> string \<Rightarrow> bool \<Rightarrow> u64 option \<Rightarrow> query_response option" where
  "check_global_access r session path name is_mutation upload_size =
     (case query_actor_effective_permissions r session of
        Inl e \<Rightarrow> Some e
      | Inr (_, perms) \<Rightarrow>
          let is_icon = starts_with ''/icon'' path \<or> starts_with ''/icon'' name \<or> starts_with ''icon_'' name;
              is_avatar = name = ''/avatar'' \<or> starts_with ''/avatar_'' name \<or> starts_with ''avatar'' name
          in if is_icon \<and> is_mutation then
               if permission_value_or_default perms [''b_icon_manage''] < 1
               then Some (insufficient_permission_response r ''b_icon_manage'')
               else if exceeds_limit perms ''i_icon_filesize'' upload_size
               then Some (insufficient_permission_response r ''i_icon_filesize'')
               else None
             else if is_avatar \<and> is_mutation \<and> exceeds_limit perms ''i_client_max_avatar_filesize'' upload_size
             then Some (insufficient_permission_response r ''i_client_max_avatar_filesize'')
             else None)"

definition check_ft_access ::
    "baseline_runtime \<Rightarrow> query_session \<Rightarrow> u32 \<Rightarrow> u32 \<Rightarrow> string \<Rightarrow> string \<Rightarrow> string option \<Rightarrow> string \<Rightarrow> string \<Rightarrow>
       bool \<Rightarrow> u64 option \<Rightarrow> query_response option" where
  "check_ft_access r session server_id cid path name cpw power_perm needed_perm is_mutation upload_size =
     (if 0 < cid then
        case channel_by_id r server_id cid of
          None \<Rightarrow> Some (response_error 768 ''invalid channelID'')
        | Some channel \<Rightarrow>
            if session_has_permission_actor session
            then check_channel_access r session server_id cid channel cpw power_perm needed_perm
            else None
      else if session_has_permission_actor session
      then check_global_access r session path name is_mutation upload_size
      else None)"

section \<open>Commands\<close>

definition ft_row :: "command_request \<Rightarrow> row option" where
  "ft_row request =
     (case option_groups request of
        r # _ \<Rightarrow> Some r
      | [] \<Rightarrow> if named_args request \<noteq> [] then Some (named_args request) else None)"

definition row_cid :: "row \<Rightarrow> u32" where
  "row_cid args = unwrap_or 0 (Option.bind (bt_get args ''cid'') parse_word)"

definition row_text :: "row \<Rightarrow> string \<Rightarrow> string \<Rightarrow> string" where
  "row_text args k d = unwrap_or d (bt_get args k)"

definition row_bool :: "row \<Rightarrow> string \<Rightarrow> bool \<Rightarrow> bool" where
  "row_bool args k d = unwrap_or d (Option.bind (bt_get args k) parse_query_bool)"

definition invalid_parameter :: query_response where
  "invalid_parameter = response_error 1538 ''invalid parameter''"

definition not_enabled :: query_response where
  "not_enabled = response_error 256 ''file transfer not enabled''"

text \<open>The client transfer id: the one of the request, or the next of a counter.\<close>

definition client_transfer_id :: "row \<Rightarrow> u64 \<Rightarrow> u64 \<times> u64" where
  "client_transfer_id args counter =
     (case Option.bind (bt_get args ''clientftfid'') parse_word of
        Some i \<Rightarrow> (i, counter)
      | None \<Rightarrow> (counter, counter + 1))"

definition ip_field :: "string option \<Rightarrow> (string \<times> string) list" where
  "ip_field ip = (case ip of None \<Rightarrow> [] | Some i \<Rightarrow> [(''ip'', i)])"

definition handle_ftinitupload ::
    "'f ft_libs \<Rightarrow> command_request \<Rightarrow> query_session \<Rightarrow> 'f ft_runtime \<Rightarrow> query_response \<times> 'f ft_runtime" where
  "handle_ftinitupload libs request session st =
     (case qs_selected_virtual_server_id session of
        None \<Rightarrow> (response_error 1024 ''invalid serverID'', st)
      | Some server_id \<Rightarrow>
     (case ft_row request of
        None \<Rightarrow> (invalid_parameter, st)
      | Some args \<Rightarrow>
          let cid = row_cid args; path = row_text args ''path'' ''/''; name = row_text args ''name'' [];
              bytes = unwrap_or 0 (Option.bind (bt_get args ''size'') parse_word);
              overwrite = row_bool args ''overwrite'' True; resume = row_bool args ''resume'' False
          in if trim name = [] then (invalid_parameter, st)
             else if overwrite \<and> resume \<and> bt_contains_key args ''overwrite'' \<and> bt_contains_key args ''resume''
             then (response_error 2056 ''overwrite excludes resume'', st)
             else
     (case check_ft_access (fr_runtime st) session server_id cid path name (bt_get args ''cpw'')
             ''i_ft_file_upload_power'' ''i_ft_needed_file_upload_power'' True (Some bytes) of
        Some e \<Rightarrow> (e, st)
      | None \<Rightarrow>
          let avatar = resolve_actor_avatar_id (fl_decode libs) (fr_runtime st) session server_id
          in case client_transfer_id args (fr_next_upload_id st) of
               (transfer_id, counter) \<Rightarrow>
          let st1 = st\<lparr>fr_next_upload_id := counter\<rparr>
          in case fr_registry st of
               None \<Rightarrow> (not_enabled, st1)
             | Some g \<Rightarrow>
     (case prepare_upload (fl_encode libs) (fl_ops libs) cid path name bytes overwrite False
             (Some (qs_client_id session)) (Some (word_to_string transfer_id)) avatar g (fr_files st) of
        (Inl e, g', f') \<Rightarrow> (map_ft_error e, st1\<lparr>fr_registry := Some g', fr_files := f'\<rparr>)
      | (Inr transfer, g', f') \<Rightarrow>
          let st2 = st1\<lparr>fr_registry := Some g', fr_files := f'\<rparr>;
              st3 = (if cid = 0 \<and> (name = ''/avatar'' \<or> starts_with ''/avatar'' name)
                     then st2\<lparr>fr_runtime := set_actor_avatar_flag session server_id
                            (unwrap_or (''avatar_'' @ word_to_string (qs_client_id session) @ ''_'' @ word_to_string bytes)
                              avatar) (fr_runtime st2)\<rparr>
                     else st2)
          in (response_ok_row (insert_fields
                ([(''clientftfid'', word_to_string transfer_id),
                  (''serverftfid'', word_to_string (pr_server_transfer_id transfer)),
                  (''ftkey'', pr_transfer_key transfer), (''port'', word_to_string (pr_port transfer)),
                  (''seekpos'', word_to_string (pr_seek_position transfer)),
                  (''size'', word_to_string (pr_size transfer)), (''proto'', ''0'')]
                 @ ip_field (pr_ip transfer)) []), st3)))))"

definition handle_ftinitdownload ::
    "'f ft_libs \<Rightarrow> command_request \<Rightarrow> query_session \<Rightarrow> 'f ft_runtime \<Rightarrow> query_response \<times> 'f ft_runtime" where
  "handle_ftinitdownload libs request session st =
     (case qs_selected_virtual_server_id session of
        None \<Rightarrow> (response_error 1024 ''invalid serverID'', st)
      | Some server_id \<Rightarrow>
     (case ft_row request of
        None \<Rightarrow> (invalid_parameter, st)
      | Some args \<Rightarrow>
          let cid = row_cid args; path = row_text args ''path'' ''/''; name = row_text args ''name'' [];
              seekpos = unwrap_or 0 (Option.bind (bt_get args ''seekpos'') parse_word)
          in if trim name = [] then (invalid_parameter, st)
             else
     (case check_ft_access (fr_runtime st) session server_id cid path name (bt_get args ''cpw'')
             ''i_ft_file_download_power'' ''i_ft_needed_file_download_power'' False None of
        Some e \<Rightarrow> (e, st)
      | None \<Rightarrow>
          let avatar = resolve_actor_avatar_id (fl_decode libs) (fr_runtime st) session server_id
          in case client_transfer_id args (fr_next_download_id st) of
               (transfer_id, counter) \<Rightarrow>
          let st1 = st\<lparr>fr_next_download_id := counter\<rparr>
          in case fr_registry st of
               None \<Rightarrow> (not_enabled, st1)
             | Some g \<Rightarrow>
     (case prepare_download (fl_encode libs) (fl_ops libs) cid path name seekpos False
             (Some (qs_client_id session)) (Some (word_to_string transfer_id)) avatar g (fr_files st) of
        (Inl e, g', f') \<Rightarrow> (map_ft_error e, st1\<lparr>fr_registry := Some g', fr_files := f'\<rparr>)
      | (Inr transfer, g', f') \<Rightarrow>
          (response_ok_row (insert_fields
             ([(''clientftfid'', word_to_string transfer_id),
               (''serverftfid'', word_to_string (pr_server_transfer_id transfer)),
               (''ftkey'', pr_transfer_key transfer), (''port'', word_to_string (pr_port transfer)),
               (''size'', word_to_string (pr_size transfer)), (''proto'', ''0'')]
              @ ip_field (pr_ip transfer)) []),
           st1\<lparr>fr_registry := Some g', fr_files := f'\<rparr>)))))"

definition file_row :: "u32 \<Rightarrow> string \<Rightarrow> file_entry_info \<Rightarrow> row" where
  "file_row cid path entry =
     insert_fields
       [(''cid'', word_to_string cid), (''path'', path), (''name'', fe_name entry),
        (''size'', word_to_string (fe_size entry)), (''datetime'', word_to_string (fe_datetime entry)),
        (''type'', word_to_string (fe_entry_type entry))] []"

definition handle_ftgetfilelist ::
    "'f ft_libs \<Rightarrow> command_request \<Rightarrow> query_session \<Rightarrow> 'f ft_runtime \<Rightarrow> query_response \<times> 'f ft_runtime" where
  "handle_ftgetfilelist libs request session st =
     (case ft_row request of
        None \<Rightarrow> (invalid_parameter, st)
      | Some args \<Rightarrow>
          let cid = row_cid args; path = row_text args ''path'' ''/''
          in
     (case check_ft_access (fr_runtime st) session (unwrap_or 1 (qs_selected_virtual_server_id session)) cid path []
             (bt_get args ''cpw'') ''i_ft_file_browse_power'' ''i_ft_needed_file_browse_power'' False None of
        Some e \<Rightarrow> (e, st)
      | None \<Rightarrow>
     (case fr_registry st of
        None \<Rightarrow> (not_enabled, st)
      | Some g \<Rightarrow>
     (case list_entries (fl_lower libs) (fl_ops libs) cid path g (fr_files st) of
        (Inl e, f') \<Rightarrow> (map_ft_error e, st\<lparr>fr_files := f'\<rparr>)
      | (Inr entries, f') \<Rightarrow>
          (if entries = [] then response_ok else response_ok_rows (map (file_row cid path) entries),
           st\<lparr>fr_files := f'\<rparr>)))))"

definition transfer_row :: "query_session \<Rightarrow> pending_transfer \<Rightarrow> row" where
  "transfer_row session t =
     insert_fields
       [(''clid'', word_to_string (unwrap_or (qs_client_id session) (pt_client_id t))),
        (''path'', unwrap_or ''/'' (if pt_file_path t = [] then None else file_name (butlast (pt_file_path t)))),
        (''name'', unwrap_or [] (file_name (pt_file_path t))),
        (''size'', word_to_string (pt_size t)), (''sizedone'', word_to_string (pt_seek_position t)),
        (''clientftfid'', unwrap_or ''0'' (pt_client_transfer_id t)),
        (''serverftfid'', word_to_string (pt_server_transfer_id t)),
        (''sender'', if pt_direction t = Upload then ''0'' else ''1''), (''status'', ''1''),
        (''current_speed'', ''0.0''), (''average_speed'', ''0.0''), (''runtime'', ''0'')] []"

definition row_transfer_id :: "row \<Rightarrow> u64" where
  "row_transfer_id r = unwrap_or 0 (Option.bind (bt_get r ''serverftfid'') parse_word)"

definition handle_ftlist :: "query_session \<Rightarrow> 'f ft_runtime \<Rightarrow> query_response" where
  "handle_ftlist session st =
     (case fr_registry st of
        None \<Rightarrow> not_enabled
      | Some g \<Rightarrow>
          response_ok_rows (sort_key row_transfer_id (map (transfer_row session \<circ> snd) (rg_transfers g))))"

definition handle_ftstop ::
    "'f ft_libs \<Rightarrow> command_request \<Rightarrow> query_session \<Rightarrow> 'f ft_runtime \<Rightarrow> query_response \<times> 'f ft_runtime" where
  "handle_ftstop libs request session st =
     (case fr_registry st of
        None \<Rightarrow> (not_enabled, st)
      | Some g \<Rightarrow>
     (case ft_row request of
        None \<Rightarrow> (invalid_parameter, st)
      | Some args \<Rightarrow>
     (case Option.bind (bt_get args ''serverftfid'') parse_word of
        None \<Rightarrow> (response_error 1538 ''serverftfid is required'', st)
      | Some serverftfid \<Rightarrow>
     (case stop_transfer serverftfid g of
        (None, g') \<Rightarrow> (response_error 2053 ''invalid file transfer ID'', st\<lparr>fr_registry := Some g'\<rparr>)
      | (Some t, g') \<Rightarrow>
          (response_ok,
           st\<lparr>fr_registry := Some g',
              fr_files := (if row_bool args ''delete'' False \<and> pt_direction t = Upload
                           then snd (fo_remove_file (fl_ops libs) (pt_file_path t) (fr_files st))
                           else fr_files st)\<rparr>)))))"

definition handle_ftcreatedir ::
    "'f ft_libs \<Rightarrow> command_request \<Rightarrow> query_session \<Rightarrow> 'f ft_runtime \<Rightarrow> query_response \<times> 'f ft_runtime" where
  "handle_ftcreatedir libs request session st =
     (case ft_row request of
        None \<Rightarrow> (invalid_parameter, st)
      | Some args \<Rightarrow>
          let cid = row_cid args; dirname = row_text args ''dirname'' []
          in if trim dirname = [] then (invalid_parameter, st)
             else
     (case check_ft_access (fr_runtime st) session (unwrap_or 1 (qs_selected_virtual_server_id session)) cid ''/'' dirname
             (bt_get args ''cpw'') ''i_ft_directory_create_power'' ''i_ft_needed_directory_create_power'' True None of
        Some e \<Rightarrow> (e, st)
      | None \<Rightarrow>
     (case fr_registry st of
        None \<Rightarrow> (not_enabled, st)
      | Some g \<Rightarrow>
     (case create_directory (fl_ops libs) cid dirname g (fr_files st) of
        (Inl e, f') \<Rightarrow> (map_ft_error e, st\<lparr>fr_files := f'\<rparr>)
      | (Inr _, f') \<Rightarrow> (response_ok, st\<lparr>fr_files := f'\<rparr>)))))"

text \<open>An argument that is looked up among the named arguments first and then in the row.\<close>

definition named_or_row :: "command_request \<Rightarrow> row \<Rightarrow> string \<Rightarrow> string option" where
  "named_or_row request args k = or_else (bt_get (named_args request) k) (bt_get args k)"

definition handle_ftdeletefile ::
    "'f ft_libs \<Rightarrow> command_request \<Rightarrow> query_session \<Rightarrow> 'f ft_runtime \<Rightarrow> query_response \<times> 'f ft_runtime" where
  "handle_ftdeletefile libs request session st =
     (case ft_row request of
        None \<Rightarrow> (invalid_parameter, st)
      | Some args \<Rightarrow>
          let server_id = unwrap_or 1 (qs_selected_virtual_server_id session);
              cid = unwrap_or 0 (Option.bind (named_or_row request args ''cid'') parse_word);
              path = unwrap_or ''/'' (named_or_row request args ''path''); name = row_text args ''name'' []
          in if trim name = [] then (invalid_parameter, st)
             else
     (case check_ft_access (fr_runtime st) session server_id cid path name (named_or_row request args ''cpw'')
             ''i_ft_file_delete_power'' ''i_ft_needed_file_delete_power'' True None of
        Some e \<Rightarrow> (e, st)
      | None \<Rightarrow>
     (case fr_registry st of
        None \<Rightarrow> (not_enabled, st)
      | Some g \<Rightarrow>
     (case delete_entry (fl_ops libs) cid path name
             (resolve_actor_avatar_id (fl_decode libs) (fr_runtime st) session server_id) g (fr_files st) of
        (Inl e, f') \<Rightarrow> (map_ft_error e, st\<lparr>fr_files := f'\<rparr>)
      | (Inr _, f') \<Rightarrow>
          (response_ok,
           st\<lparr>fr_files := f',
              fr_runtime := (if cid = 0 \<and> (name = ''/avatar'' \<or> starts_with ''/avatar'' name)
                             then set_actor_avatar_flag session server_id [] (fr_runtime st)
                             else fr_runtime st)\<rparr>)))))"

definition handle_ftrenamefile ::
    "'f ft_libs \<Rightarrow> command_request \<Rightarrow> query_session \<Rightarrow> 'f ft_runtime \<Rightarrow> query_response \<times> 'f ft_runtime" where
  "handle_ftrenamefile libs request session st =
     (case ft_row request of
        None \<Rightarrow> (invalid_parameter, st)
      | Some args \<Rightarrow>
          let server_id = unwrap_or 1 (qs_selected_virtual_server_id session); cid = row_cid args;
              tcid = unwrap_or cid (Option.bind (bt_get args ''tcid'') parse_word);
              oldname = row_text args ''oldname'' []; newname = row_text args ''newname'' [];
              cpw = bt_get args ''cpw''; tcpw = or_else (bt_get args ''tcpw'') cpw
          in if trim oldname = [] \<or> trim newname = [] then (invalid_parameter, st)
             else
     (case check_ft_access (fr_runtime st) session server_id cid ''/'' oldname cpw
             ''i_ft_file_rename_power'' ''i_ft_needed_file_rename_power'' True None of
        Some e \<Rightarrow> (e, st)
      | None \<Rightarrow>
     (case (if tcid \<noteq> cid then check_ft_access (fr_runtime st) session server_id tcid ''/'' newname tcpw
              ''i_ft_file_rename_power'' ''i_ft_needed_file_rename_power'' True None else None) of
        Some e \<Rightarrow> (e, st)
      | None \<Rightarrow>
     (case fr_registry st of
        None \<Rightarrow> (not_enabled, st)
      | Some g \<Rightarrow>
     (case rename_entry (fl_ops libs) cid oldname tcid newname g (fr_files st) of
        (Inl e, f') \<Rightarrow> (map_ft_error e, st\<lparr>fr_files := f'\<rparr>)
      | (Inr _, f') \<Rightarrow> (response_ok, st\<lparr>fr_files := f'\<rparr>))))))"

definition handle_ftgetfileinfo ::
    "'f ft_libs \<Rightarrow> command_request \<Rightarrow> query_session \<Rightarrow> 'f ft_runtime \<Rightarrow> query_response \<times> 'f ft_runtime" where
  "handle_ftgetfileinfo libs request session st =
     (case ft_row request of
        None \<Rightarrow> (invalid_parameter, st)
      | Some args \<Rightarrow>
          let server_id = unwrap_or 1 (qs_selected_virtual_server_id session); cid = row_cid args;
              name = row_text args ''name'' []
          in if trim name = [] then (invalid_parameter, st)
             else
     (case check_ft_access (fr_runtime st) session server_id cid ''/'' name (bt_get args ''cpw'')
             ''i_ft_file_browse_power'' ''i_ft_needed_file_browse_power'' False None of
        Some e \<Rightarrow> (e, st)
      | None \<Rightarrow>
     (case fr_registry st of
        None \<Rightarrow> (not_enabled, st)
      | Some g \<Rightarrow>
     (case stat_entry (fl_ops libs) cid name
             (resolve_actor_avatar_id (fl_decode libs) (fr_runtime st) session server_id) g (fr_files st) of
        (Inl e, f') \<Rightarrow> (map_ft_error e, st\<lparr>fr_files := f'\<rparr>)
      | (Inr entry, f') \<Rightarrow>
          (response_ok_row (insert_fields
             [(''cid'', word_to_string cid), (''name'', fe_name entry), (''size'', word_to_string (fe_size entry)),
              (''datetime'', word_to_string (fe_datetime entry))] []),
           st\<lparr>fr_files := f'\<rparr>)))))"

section \<open>Files stay in the repository\<close>

text \<open>The registry is in order and its root is the repository root.\<close>

definition ft_ok :: "'f ft_libs \<Rightarrow> os_path \<Rightarrow> 'f ft_runtime \<Rightarrow> bool" where
  "ft_ok libs root st =
     (case fr_registry st of
        None \<Rightarrow> True
      | Some g \<Rightarrow> registry_ok (fl_encode libs) g \<and> rg_repository_root g = root)"

definition transfer_ids_left :: "'f ft_runtime \<Rightarrow> bool" where
  "transfer_ids_left st = (case fr_registry st of None \<Rightarrow> True | Some g \<Rightarrow> rg_next_server_transfer_id g \<noteq> -1)"

lemma avatar_ok: "pred_option avatar_letters (resolve_actor_avatar_id decode r session server_id)"
  by (auto simp: resolve_actor_avatar_id_def avatar_id_letters split: option.splits)

text \<open>
  The contract of a command that works on files: it keeps the registry in order, and a property of the
  file system that survives changes at the paths the command may reach survives the command.
\<close>

locale file_command =
  fixes run :: "'f ft_libs \<Rightarrow> command_request \<Rightarrow> query_session \<Rightarrow> 'f ft_runtime \<Rightarrow> query_response \<times> 'f ft_runtime"
    and reach :: "command_request \<Rightarrow> os_path \<Rightarrow> os_path \<Rightarrow> bool"
  assumes registry_kept: "ft_ok libs root st \<Longrightarrow> transfer_ids_left st \<Longrightarrow> ft_ok libs root (snd (run libs request session st))"
    and confined: "ft_ok libs root st \<Longrightarrow> fs_keeps (fl_ops libs) (below root) (reach request root) P \<Longrightarrow>
      P (fr_files st) \<Longrightarrow> P (fr_files (snd (run libs request session st)))"
    and reach_area: "reach request root p \<Longrightarrow> \<exists>cid. area_reach cid root p"
begin

lemma repository_kept:
  assumes "ft_ok libs root st" and "fs_keeps (fl_ops libs) (below root) (\<lambda>p. \<exists>cid. area_reach cid root p) P"
    and "P (fr_files st)"
  shows "P (fr_files (snd (run libs request session st)))"
  using assms(1) fs_keeps_mono [OF assms(2) reach_area] assms(3) by (rule confined)

end

text \<open>The paths a request may reach: the files of the channel it names.\<close>

definition row_reach :: "command_request \<Rightarrow> os_path \<Rightarrow> os_path \<Rightarrow> bool" where
  "row_reach request = (case ft_row request of None \<Rightarrow> (\<lambda>_ _. False) | Some args \<Rightarrow> area_reach (row_cid args))"

lemma row_reach_area: "row_reach request root p \<Longrightarrow> \<exists>cid. area_reach cid root p"
  by (auto simp: row_reach_def split: option.splits)

interpretation upload_cmd: file_command handle_ftinitupload row_reach
proof (unfold_locales, goal_cases)
  case (1 libs root st request session)
  then show ?case
    by (auto simp: handle_ftinitupload_def Let_def ft_ok_def transfer_ids_left_def split: option.splits prod.splits sum.splits
        dest: prepare_upload_confined(2,3) [OF _ avatar_ok])
next
  case (2 libs root st request P session)
  then show ?case
    by (auto simp: handle_ftinitupload_def Let_def ft_ok_def row_reach_def split: option.splits prod.splits sum.splits
        dest: prepare_upload_confined(1) [OF _ avatar_ok])
qed (rule row_reach_area)

interpretation download_cmd: file_command handle_ftinitdownload row_reach
proof (unfold_locales, goal_cases)
  case (1 libs root st request session)
  then show ?case
    by (auto simp: handle_ftinitdownload_def Let_def ft_ok_def transfer_ids_left_def split: option.splits prod.splits sum.splits
        dest: prepare_download_confined(2,3) [OF _ avatar_ok])
next
  case (2 libs root st request P session)
  then show ?case
    by (auto simp: handle_ftinitdownload_def Let_def ft_ok_def row_reach_def split: option.splits prod.splits sum.splits
        dest: prepare_download_confined(1) [OF _ avatar_ok])
qed (rule row_reach_area)

text \<open>The commands that do not touch the registry.\<close>

lemma snd_confined: "P (snd x) \<Longrightarrow> x = (a, b) \<Longrightarrow> P b"
  by simp

interpretation list_cmd: file_command handle_ftgetfilelist row_reach
proof (unfold_locales, goal_cases)
  case (2 libs root st request P session)
  then show ?case
    by (auto simp: handle_ftgetfilelist_def Let_def ft_ok_def split: option.splits prod.splits sum.splits
        dest!: snd_confined [OF list_entries_confined])
qed (auto simp: handle_ftgetfilelist_def Let_def ft_ok_def split: option.splits prod.splits sum.splits intro: row_reach_area)

interpretation createdir_cmd: file_command handle_ftcreatedir row_reach
proof (unfold_locales, goal_cases)
  case (2 libs root st request P session)
  then show ?case
    by (auto simp: handle_ftcreatedir_def Let_def ft_ok_def split: option.splits prod.splits sum.splits
        dest!: snd_confined [OF create_directory_confined])
qed (auto simp: handle_ftcreatedir_def Let_def ft_ok_def split: option.splits prod.splits sum.splits intro: row_reach_area)

interpretation info_cmd: file_command handle_ftgetfileinfo row_reach
proof (unfold_locales, goal_cases)
  case (2 libs root st request P session)
  then show ?case
    by (auto simp: handle_ftgetfileinfo_def Let_def ft_ok_def split: option.splits prod.splits sum.splits
        dest!: snd_confined [OF stat_entry_confined [OF _ _ avatar_ok]])
qed (auto simp: handle_ftgetfileinfo_def Let_def ft_ok_def split: option.splits prod.splits sum.splits intro: row_reach_area)

text \<open>\<open>ftdeletefile\<close> looks the channel up among the named arguments first.\<close>

definition delete_reach :: "command_request \<Rightarrow> os_path \<Rightarrow> os_path \<Rightarrow> bool" where
  "delete_reach request =
     (case ft_row request of
        None \<Rightarrow> (\<lambda>_ _. False)
      | Some args \<Rightarrow> area_reach (unwrap_or 0 (Option.bind (named_or_row request args ''cid'') parse_word)))"

interpretation delete_cmd: file_command handle_ftdeletefile delete_reach
proof (unfold_locales, goal_cases)
  case (2 libs root st request P session)
  then show ?case
    by (auto simp: handle_ftdeletefile_def Let_def ft_ok_def delete_reach_def split: option.splits prod.splits sum.splits
        dest!: snd_confined [OF delete_entry_confined [OF _ _ avatar_ok]])
qed (auto simp: handle_ftdeletefile_def delete_reach_def Let_def ft_ok_def split: option.splits prod.splits sum.splits)

text \<open>\<open>ftrenamefile\<close> may reach the files of two channels.\<close>

definition rename_reach :: "command_request \<Rightarrow> os_path \<Rightarrow> os_path \<Rightarrow> bool" where
  "rename_reach request root p =
     (case ft_row request of
        None \<Rightarrow> False
      | Some args \<Rightarrow>
          area_reach (row_cid args) root p
          \<or> area_reach (unwrap_or (row_cid args) (Option.bind (bt_get args ''tcid'') parse_word)) root p)"

interpretation rename_cmd: file_command handle_ftrenamefile rename_reach
proof (unfold_locales, goal_cases)
  case (2 libs root st request P session)
  have renamed: "P (snd (rename_entry (fl_ops libs) (row_cid args) old
      (unwrap_or (row_cid args) (Option.bind (bt_get args ''tcid'') parse_word)) new g (fr_files st)))"
    if "ft_row request = Some args" "fr_registry st = Some g" for args old new g
    by (rule rename_entry_confined [where files = "rename_reach request root"]) (use 2 that in \<open>auto simp: ft_ok_def rename_reach_def\<close>)
  show ?case
    using 2(3) snd_confined [where P = P, OF renamed]
    by (auto simp: handle_ftrenamefile_def Let_def split: option.splits prod.splits sum.splits)
qed (auto simp: handle_ftrenamefile_def rename_reach_def Let_def ft_ok_def split: option.splits prod.splits sum.splits if_splits)

text \<open>\<open>ftstop\<close> names a transfer, whose file may lie in any area.\<close>

lemma stop_transfer_pending: "stop_transfer i g = (Some t, g') \<Longrightarrow> \<exists>k. (k, t) \<in> set (rg_transfers g)"
  by (auto simp: stop_transfer_def take_transfer_def split: option.splits dest: map_of_SomeD)

lemma stop_transfer_root: "stop_transfer i g = (res, g') \<Longrightarrow> rg_repository_root g' = rg_repository_root g"
  by (auto simp: stop_transfer_def take_transfer_def split: option.splits)

lemma stop_transfer_ok: "stop_transfer i g = (res, g') \<Longrightarrow> registry_ok encode g \<Longrightarrow> registry_ok encode g'"
  using stop_ok by (metis snd_conv)

interpretation stop_cmd: file_command handle_ftstop "\<lambda>_ root p. \<exists>cid. area_reach cid root p"
proof (unfold_locales, goal_cases)
  case (1 libs root st request session)
  then show ?case
    by (auto simp: handle_ftstop_def ft_ok_def split: option.splits prod.splits
        dest: stop_transfer_root stop_transfer_ok)
next
  case (2 libs root st request P session)
  have removed: "P (snd (fo_remove_file (fl_ops libs) (pt_file_path t) (fr_files st)))"
    if "fr_registry st = Some g" "stop_transfer i g = (Some t, g')" for i g t g'
  proof -
    have "\<exists>cid. area_reach cid root (pt_file_path t)"
      using registry_entryD(3) stop_transfer_pending [OF that(2)] 2(1) that(1) by (fastforce simp: ft_ok_def)
    then show ?thesis by (rule fs_keepsD(3) [OF 2(2,3)])
  qed
  show ?case
    using 2(3) removed by (auto simp: handle_ftstop_def split: option.splits prod.splits)
qed

lemma area_prefix: "prefix (area_root root a) q \<Longrightarrow> prefix (area_root root b) q \<Longrightarrow> a = b"
  by (cases a; cases b) (auto simp: prefix_def area_root_eq word_to_string_inj)

subsection \<open>Every sequence of requests\<close>

text \<open>
  The steps of the file transfer: a command of any session, whether it succeeds or not, a connection of
  a client, and another order of the table of transfers. \<open>decrypt\<close> is the TLS layer.
\<close>

inductive ft_step ::
    "'f ft_libs \<Rightarrow> (arrival list \<Rightarrow> arrival list) \<Rightarrow> 'f ft_runtime \<Rightarrow> 'f ft_runtime \<Rightarrow> bool"
  for libs decrypt where
  upload: "transfer_ids_left st \<Longrightarrow> ft_step libs decrypt st (snd (handle_ftinitupload libs request session st))"
| download: "transfer_ids_left st \<Longrightarrow> ft_step libs decrypt st (snd (handle_ftinitdownload libs request session st))"
| listed: "transfer_ids_left st \<Longrightarrow> ft_step libs decrypt st (snd (handle_ftgetfilelist libs request session st))"
| info: "transfer_ids_left st \<Longrightarrow> ft_step libs decrypt st (snd (handle_ftgetfileinfo libs request session st))"
| created: "transfer_ids_left st \<Longrightarrow> ft_step libs decrypt st (snd (handle_ftcreatedir libs request session st))"
| deleted: "transfer_ids_left st \<Longrightarrow> ft_step libs decrypt st (snd (handle_ftdeletefile libs request session st))"
| renamed: "transfer_ids_left st \<Longrightarrow> ft_step libs decrypt st (snd (handle_ftrenamefile libs request session st))"
| stopped: "transfer_ids_left st \<Longrightarrow> ft_step libs decrypt st (snd (handle_ftstop libs request session st))"
| connection: "fr_registry st = Some g \<Longrightarrow>
     handle_transfer_client (fl_encode libs) decrypt (fl_ops libs) s g (fr_files st) = (out, g', f') \<Longrightarrow>
     ft_step libs decrypt st (st\<lparr>fr_registry := Some g', fr_files := f'\<rparr>)"
| reordered: "fr_registry st = Some g \<Longrightarrow> mset ts = mset (rg_transfers g) \<Longrightarrow>
     ft_step libs decrypt st (st\<lparr>fr_registry := Some (g\<lparr>rg_transfers := ts\<rparr>)\<rparr>)"

lemmas commands_kept =
  upload_cmd.registry_kept download_cmd.registry_kept list_cmd.registry_kept info_cmd.registry_kept
  createdir_cmd.registry_kept delete_cmd.registry_kept rename_cmd.registry_kept stop_cmd.registry_kept

lemmas commands_confined =
  upload_cmd.repository_kept download_cmd.repository_kept list_cmd.repository_kept info_cmd.repository_kept
  createdir_cmd.repository_kept delete_cmd.repository_kept rename_cmd.repository_kept stop_cmd.repository_kept

lemma ft_step_ok: "ft_step libs decrypt st st' \<Longrightarrow> ft_ok libs root st \<Longrightarrow> ft_ok libs root st'"
proof (induction rule: ft_step.induct)
  case (connection st g s out g' f')
  then show ?case using transfer_client_confined(1,2) [OF connection(2)] by (simp add: ft_ok_def)
next
  case (reordered st g ts)
  then show ?case using reorder_ok by (auto simp: ft_ok_def)
qed (rule commands_kept; assumption)+

lemma ft_step_confined:
  assumes "ft_step libs decrypt st st'" and "ft_ok libs root st"
    and "fs_keeps (fl_ops libs) (below root) (\<lambda>p. \<exists>cid. area_reach cid root p) P" and "P (fr_files st)"
  shows "P (fr_files st')"
  using assms
proof (induction rule: ft_step.induct)
  case (connection st g s out g' f')
  have "registry_ok (fl_encode libs) g" "rg_repository_root g = root" using connection by (simp_all add: ft_ok_def)
  with transfer_client_confined(3) [OF connection(2) this(1), of P] connection show ?case by simp
qed (simp_all add: commands_confined)

text \<open>
  Property C27: no file outside the repository is ever changed. Along every sequence of file transfer
  commands and connections, whatever the sessions send, each property of the file system that survives
  making directories below the repository root, and every other change below a channel directory or
  one of the three global directories, survives; and the files of pending transfers lie there.
\<close>

theorem files_stay_in_repository:
  assumes "(ft_step libs decrypt)\<^sup>*\<^sup>* st st'" and "ft_ok libs root st"
    and "fs_keeps (fl_ops libs) (below root) (\<lambda>p. \<exists>cid. area_reach cid root p) P" and "P (fr_files st)"
  shows "P (fr_files st')
    \<and> (\<forall>g k t. fr_registry st' = Some g \<and> (k, t) \<in> set (rg_transfers g) \<longrightarrow> (\<exists>cid. area_reach cid root (pt_file_path t)))"
proof -
  have "P (fr_files st') \<and> ft_ok libs root st'"
    using assms(1) by induction (use assms(2-4) ft_step_confined ft_step_ok in blast)+
  then show ?thesis using registry_entryD(3) by (fastforce simp: ft_ok_def)
qed


section \<open>Examples\<close>

definition mem_libs :: "mem_fs ft_libs" where
  "mem_libs = \<lparr>fl_ops = mem_ops, fl_encode = encode_avatar_id_bytes, fl_decode = \<lambda>_. None, fl_lower = \<lambda>s. s\<rparr>"

definition repository :: os_path where
  "repository = [''srv'', ''BlackTeaSpeak-Server'', ''data'', ''file-repositories'']"

definition file_demo :: "mem_fs ft_runtime" where
  "file_demo =
     \<lparr>fr_runtime = seeded_runtime (empty_store\<lparr>st_channels := [(1, [
          (seed_channel 5 0 ''Staff'' [] False)\<lparr>ch_password := ''pw''\<rparr>, seed_channel 6 5 ''Lobby'' [] False])],
        st_server_groups := [(8, new_server_group 8 ''Normal'' 1)],
        st_online_clients := [(10, seed_online_client_10 1000), (11, seed_online_client_11 1000)]\<rparr>),
      fr_registry = Some (new_registry [''srv'']),
      fr_files =
        [(repository @ [''channels'', ''5'', ''minutes.txt''], ''staff''),
         (repository @ [''channels'', ''6'', ''rules.txt''], ''rules''),
         (repository @ [''global'', ''icons'', ''icon_1''], ''icon''),
         (repository @ [''global'', ''avatars'', ''avatar_ab''], ''picture''),
         ([''etc'', ''passwd''], ''root'')],
      fr_next_upload_id = 1, fr_next_download_id = 1\<rparr>"

definition file_request :: "string \<Rightarrow> (string \<times> string) list \<Rightarrow> command_request" where
  "file_request cmd args = \<lparr>command = cmd, positional_args = [], named_args = [], option_groups = [args], flags = []\<rparr>"

text \<open>The examples run on the file system in memory, with a file outside the repository.\<close>

lemma map_of_filter_key:
  "map_of (filter (\<lambda>e. \<not> prefix p (fst e)) f) q = (if prefix p q then None else map_of f q)"
  "map_of (filter (\<lambda>e. fst e \<noteq> p) f) q = (if q = p then None else map_of f q)"
  by (induction f) auto

lemma mem_fs_keeps:
  assumes "\<And>p. files p \<Longrightarrow> \<not> prefix p q"
  shows "fs_keeps mem_ops dirs files (\<lambda>f. map_of f q = c)"
  using assms by (auto simp: fs_keeps_def mem_ops_def mem_write_def map_of_filter_key split: option.splits)

lemma file_demo_ok: "ft_ok mem_libs repository file_demo"
proof -
  have "registry_ok encode_avatar_id_bytes (new_registry [''srv''])" by (rule new_registry_ok)
  moreover have "rg_repository_root (new_registry [''srv'']) = repository" by code_simp
  ultimately show ?thesis by (simp add: ft_ok_def file_demo_def mem_libs_def)
qed

definition upload_request :: command_request where
  "upload_request = file_request ''ftinitupload''
     [(''cid'', ''5''), (''path'', ''/''), (''name'', ''/notes.txt''), (''size'', ''3''), (''cpw'', ''pw'')]"

definition uploading :: "mem_fs ft_runtime" where
  "uploading = snd (handle_ftinitupload mem_libs upload_request (client_session 41) file_demo)"

definition received :: "ft_registry \<Rightarrow> string option \<times> ft_registry \<times> mem_fs" where
  "received g = handle_transfer_client (fl_encode mem_libs) id (fl_ops mem_libs)
     [Data (fst (hd (rg_transfers g)) @ ''abc'')] g (fr_files uploading)"

theorem files_stay_in_repository_witness:
  "\<exists>st. (ft_step mem_libs id)\<^sup>*\<^sup>* file_demo st
      \<and> map_of (fr_files st) (repository @ [''channels'', ''5'', ''notes.txt'']) = Some ''abc''
      \<and> map_of (fr_files st) [''etc'', ''passwd''] = Some ''root''"
proof -
  let ?g = "the (fr_registry uploading)"
  let ?st = "uploading\<lparr>fr_registry := Some (fst (snd (received ?g))), fr_files := snd (snd (received ?g))\<rparr>"
  have g: "fr_registry uploading \<noteq> None" by code_simp
  have content: "map_of (snd (snd (received ?g))) (repository @ [''channels'', ''5'', ''notes.txt'']) = Some ''abc''"
    by code_simp
  have "transfer_ids_left file_demo" by code_simp
  then have "ft_step mem_libs id file_demo uploading" unfolding uploading_def by (rule ft_step.upload)
  moreover have "ft_step mem_libs id uploading ?st"
    using g by (intro ft_step.connection [of _ ?g _ _ "[Data (fst (hd (rg_transfers ?g)) @ ''abc'')]" "fst (received ?g)"])
      (simp_all add: received_def)
  ultimately have steps: "(ft_step mem_libs id)\<^sup>*\<^sup>* file_demo ?st" by (meson converse_rtranclp_into_rtranclp rtranclp.rtrancl_refl)
  have "\<not> prefix p [''etc'', ''passwd'']" if "\<exists>cid. area_reach cid repository p" for p
    using that area_reach_below by (auto simp: area_reach_def below_def area_root_eq repository_def prefix_def strict_prefix_def)
  then have "fs_keeps (fl_ops mem_libs) (below repository) (\<lambda>p. \<exists>cid. area_reach cid repository p)
      (\<lambda>f. map_of f [''etc'', ''passwd''] = Some ''root'')"
    using mem_fs_keeps by (simp add: mem_libs_def)
  from files_stay_in_repository [OF steps file_demo_ok this]
  have "map_of (fr_files ?st) [''etc'', ''passwd''] = Some ''root''" by (simp add: file_demo_def repository_def)
  with steps content show ?thesis by (intro exI [of _ ?st]) simp
qed

definition delete_request :: "string \<Rightarrow> string \<Rightarrow> command_request" where
  "delete_request cid name = file_request ''ftdeletefile'' [(''cid'', cid), (''path'', ''/''), (''name'', name), (''cpw'', ''pw'')]"


text \<open>
  A session without a login and without a client passes every check: it deletes a file of the channel whose
  password it does not know, which a client may not.
\<close>

definition no_password_request :: command_request where
  "no_password_request = file_request ''ftdeletefile'' [(''cid'', ''5''), (''path'', ''/''), (''name'', ''/minutes.txt'')]"

theorem anonymous_session_deletes_file:
  "let minutes = repository @ [''channels'', ''5'', ''minutes.txt''];
       client = handle_ftdeletefile mem_libs no_password_request (client_session 41) file_demo;
       anonymous = handle_ftdeletefile mem_libs no_password_request default_session file_demo
   in error_id (fst client) = 781 \<and> map_of (fr_files (snd client)) minutes = Some ''staff''
    \<and> error_id (fst anonymous) = 0 \<and> map_of (fr_files (snd anonymous)) minutes = None"
  by code_simp

text \<open>
  Deleting an icon takes \<open>b_icon_manage\<close>, but the check reads the name before it is normalised: with a
  backslash in front, the client without the permission deletes the icon.
\<close>

theorem icon_permission_bypassed:
  "let icon = repository @ [''global'', ''icons'', ''icon_1''];
       asked = handle_ftdeletefile mem_libs (delete_request ''0'' ''/icon_1'') (client_session 41) file_demo;
       bypass = handle_ftdeletefile mem_libs (delete_request ''0'' (CHR 0x5C # ''icon_1'')) (client_session 41) file_demo
   in error_id (fst asked) = 2568 \<and> map_of (fr_files (snd asked)) icon = Some ''icon''
    \<and> error_id (fst bypass) = 0 \<and> map_of (fr_files (snd bypass)) icon = None"
  by code_simp

text \<open>The name \<open>/\<close> in channel 0 is the directory of all avatars, and any client may delete it.\<close>

theorem all_avatars_deleted:
  "let res = handle_ftdeletefile mem_libs (delete_request ''0'' ''/'') (client_session 41) file_demo
   in error_id (fst res) = 0
    \<and> filter (\<lambda>(p, _). prefix (area_root repository Avatars) p) (fr_files file_demo) \<noteq> []
    \<and> filter (\<lambda>(p, _). prefix (area_root repository Avatars) p) (fr_files (snd res)) = []"
  by code_simp

end
