(* ===== verification/Client_Commands.thy ===== *)
theory Client_Commands
  imports Sessions Messages
begin

text \<open>
  The client commands, \<open>runtime/handlers/client.rs\<close>, with the rows that describe a client
  (\<open>runtime/session_and_identity.rs\<close>, \<open>runtime/web.rs\<close>): looking clients up, poking, kicking, moving and
  editing them, and the login of a client for the query interface.

  Three things are arguments: \<open>extra\<close> renders the properties of a music bot (as in \<open>Music_Queue\<close>), \<open>volume\<close>
  is the rendering of a player volume, which reads and prints an \<open>f32\<close>, and \<open>now\<close> is the clock. The seek
  request that \<open>clientedit\<close> may send to the audio process of a bot is part of its result.
  \<open>clientmove\<close> walks to the root of the channel tree and \<open>clientupdate\<close> may allocate a client id; both are
  \<open>None\<close> when the loop does not end.
\<close>

section \<open>Describing a client\<close>

definition online_client_id_by_database_id :: "baseline_runtime \<Rightarrow> u32 \<Rightarrow> u64 \<Rightarrow> u64 option" where
  "online_client_id_by_database_id r server_id client_database_id =
     map_option oc_id
       (List.find (\<lambda>c. oc_server_id c = server_id \<and> oc_database_id c = client_database_id)
          (bt_values (st_online_clients (rt_store r))))"

definition extra_or :: "online_client \<Rightarrow> string \<Rightarrow> string \<Rightarrow> string" where
  "extra_or c k d = unwrap_or d (bt_get (oc_extra_properties c) k)"

definition groups_text :: "online_client \<Rightarrow> string" where
  "groups_text c = join_with '','' (map word_to_string (oc_server_groups c))"

definition fields_if :: "bool \<Rightarrow> (string \<times> string) list \<Rightarrow> (string \<times> string) list" where
  "fields_if b fs = (if b then fs else [])"

definition voice_fields :: "baseline_runtime \<Rightarrow> online_client \<Rightarrow> (string \<times> string) list" where
  "voice_fields r c =
     [(''client_input_muted'', flag_string (oc_input_muted c)),
      (''client_output_muted'', flag_string (oc_output_muted c)),
      (''client_flag_talking'', ''0''),
      (''client_talk_power'', extra_or c ''client_talk_power''
         (int_to_string (client_talk_power r (oc_server_id c) (oc_channel_id c) (oc_database_id c)))),
      (''client_is_talker'', extra_or c ''client_is_talker'' ''0''),
      (''client_talk_request'', extra_or c ''client_talk_request'' ''0''),
      (''client_talk_request_msg'', extra_or c ''client_talk_request_msg'' []),
      (''client_is_channel_commander'', extra_or c ''client_is_channel_commander'' ''0'')]"

definition stored_client :: "baseline_runtime \<Rightarrow> online_client \<Rightarrow> client option" where
  "stored_client r c = bt_get (st_clients (rt_store r)) (oc_database_id c)"

definition render_client_row :: "baseline_runtime \<Rightarrow> online_client \<Rightarrow> command_request \<Rightarrow> bool \<Rightarrow> row" where
  "render_client_row r c request detailed =
     (let wants = (\<lambda>flag. detailed \<or> flag \<in> set (flags request)) in
      insert_fields
        ([(''clid'', word_to_string (oc_id c)), (''cid'', word_to_string (oc_channel_id c)),
          (''client_database_id'', word_to_string (oc_database_id c)), (''client_nickname'', oc_nickname c),
          (''client_type'', word_to_string (oc_client_type c))]
         @ fields_if (wants ''uid'') [(''client_unique_identifier'', oc_unique_identifier c)]
         @ fields_if (wants ''away'')
             [(''client_away'', flag_string (oc_away c)), (''client_away_message'', oc_away_message c)]
         @ fields_if (wants ''voice'') (voice_fields r c)
         @ fields_if (wants ''times'') [(''connection_connected_time'', ''0''), (''client_idle_time'', ''0'')]
         @ fields_if (wants ''groups'') [(''client_servergroups'', groups_text c)]
         @ fields_if (wants ''info'')
             [(''client_version'', oc_version c), (''client_platform'', oc_platform c),
              (''client_description'',
               unwrap_or [] (or_else (bt_get (oc_extra_properties c) ''client_description'')
                               (map_option cl_description (stored_client r c))))]
         @ fields_if (wants ''country'') [(''client_country'', oc_country c)]
         @ fields_if (wants ''ip'') [(''connection_client_ip'', oc_connection_ip c)]
         @ fields_if (wants ''badges'') [(''client_badges'', ''compat'')]
         @ [(''client_flag_avatar'',
             unwrap_or [] (or_else (bt_get (oc_extra_properties c) ''client_flag_avatar'')
                             (map_option cl_client_flag_avatar (stored_client r c))))]) [])"

definition web_client_variables_row :: "baseline_runtime \<Rightarrow> u32 \<Rightarrow> u64 \<Rightarrow> row option" where
  "web_client_variables_row r server_id client_id =
     map_option
       (\<lambda>c. let hardware = (if oc_client_type c = 1 then ''0'' else ''1'');
                connected_at = word_to_string (oc_connected_at c)
            in bt_extend
              (insert_fields
                [(''clid'', word_to_string (oc_id c)), (''cid'', word_to_string (oc_channel_id c)),
                 (''client_database_id'', word_to_string (oc_database_id c)),
                 (''client_nickname'', oc_nickname c), (''client_unique_identifier'', oc_unique_identifier c),
                 (''client_type'', word_to_string (oc_client_type c)),
                 (''client_type_exact'',
                  word_to_string (if oc_client_type c = 0 \<and> oc_platform c = ''web'' then 3 else oc_client_type c)),
                 (''client_description'', unwrap_or [] (map_option cl_description (stored_client r c))),
                 (''client_servergroups'', groups_text c),
                 (''client_channel_group_id'',
                  word_to_string (unwrap_or 0
                    (map_option cg_id (effective_channel_group r (oc_channel_id c) (oc_database_id c))))),
                 (''client_channel_group_inherited_channel_id'', word_to_string (oc_channel_id c)),
                 (''client_lastconnected'', connected_at), (''client_created'', connected_at),
                 (''client_totalconnections'', ''1''), (''client_flag_avatar'', []), (''client_icon_id'', ''0''),
                 (''client_away'', flag_string (oc_away c)), (''client_away_message'', oc_away_message c),
                 (''client_country'', oc_country c), (''client_input_hardware'', hardware),
                 (''client_output_hardware'', hardware),
                 (''client_input_muted'', flag_string (oc_input_muted c)),
                 (''client_output_muted'', flag_string (oc_output_muted c)),
                 (''client_is_channel_commander'', ''0''),
                 (''client_talk_power'',
                  int_to_string (client_talk_power r server_id (oc_channel_id c) (oc_database_id c))),
                 (''client_talk_request'', ''0''), (''client_talk_request_msg'', []),
                 (''client_is_talker'', ''0''), (''client_is_priority_speaker'', ''0''),
                 (''client_version'', oc_version c), (''client_platform'', oc_platform c),
                 (''connection_client_ip'', oc_connection_ip c)] [])
              (filter (\<lambda>(k, _). \<not> starts_with ''_'' k) (oc_extra_properties c)))
       (online_client_by_id_in_server r server_id client_id)"

section \<open>Looking clients up\<close>

definition handle_clientpoke :: "command_request \<Rightarrow> query_session \<Rightarrow> baseline_runtime \<Rightarrow> query_response" where
  "handle_clientpoke request session r =
     (case require_server session of
        Inl e \<Rightarrow> e
      | Inr server_id \<Rightarrow>
     (case arg_u64 request ''clid'' of
        None \<Rightarrow> response_error 512 ''clid is required''
      | Some target \<Rightarrow>
          if target = qs_client_id session then response_error 512 ''cannot poke yourself''
          else if online_client_identity r server_id target = None
          then response_error 768 ''target client not found''
          else response_ok))"

definition clients_on :: "baseline_runtime \<Rightarrow> u32 \<Rightarrow> online_client list" where
  "clients_on r server_id =
     filter (\<lambda>c. oc_server_id c = server_id) (bt_values (st_online_clients (rt_store r)))"

definition handle_clientfind :: "command_request \<Rightarrow> query_session \<Rightarrow> baseline_runtime \<Rightarrow> query_response" where
  "handle_clientfind request session r =
     (case require_server session of
        Inl e \<Rightarrow> e
      | Inr server_id \<Rightarrow>
     (case arg request ''pattern'' of
        None \<Rightarrow> response_error 512 ''pattern is required''
      | Some pattern \<Rightarrow>
          response_ok_rows
            (map (\<lambda>c. insert_fields [(''clid'', word_to_string (oc_id c)), (''client_nickname'', oc_nickname c)] [])
              (filter (\<lambda>c. str_contains (to_ascii_lowercase pattern) (to_ascii_lowercase (oc_nickname c)))
                (clients_on r server_id)))))"

definition handle_clientgetids :: "command_request \<Rightarrow> query_session \<Rightarrow> baseline_runtime \<Rightarrow> query_response" where
  "handle_clientgetids request session r =
     (case require_server session of
        Inl e \<Rightarrow> e
      | Inr server_id \<Rightarrow>
     (case arg request ''cluid'' of
        None \<Rightarrow> response_error 512 ''cluid is required''
      | Some uid \<Rightarrow>
          response_ok_rows
            (map (\<lambda>c. insert_fields [(''clid'', word_to_string (oc_id c)), (''cluid'', oc_unique_identifier c),
                                     (''name'', oc_nickname c)] [])
              (filter (\<lambda>c. oc_unique_identifier c = uid) (clients_on r server_id)))))"

definition handle_clientgetdbidfromuid ::
    "command_request \<Rightarrow> query_session \<Rightarrow> baseline_runtime \<Rightarrow> query_response" where
  "handle_clientgetdbidfromuid request session r =
     (case require_server session of
        Inl e \<Rightarrow> e
      | Inr server_id \<Rightarrow>
     (case arg request ''cluid'' of
        None \<Rightarrow> response_error 512 ''cluid is required''
      | Some uid \<Rightarrow>
     (case lookup_client_identity_by_uid r server_id uid of
        None \<Rightarrow> response_error 768 ''client not found''
      | Some (resolved, dbid, _) \<Rightarrow>
          response_ok_row (insert_fields [(''cldbid'', word_to_string dbid), (''cluid'', resolved)] []))))"

definition identity_row :: "identity \<Rightarrow> row" where
  "identity_row i =
     (case i of (uid, dbid, name) \<Rightarrow>
        insert_fields [(''cldbid'', word_to_string dbid), (''cluid'', uid), (''name'', name)] [])"

definition handle_clientgetnamefromdbid ::
    "command_request \<Rightarrow> query_session \<Rightarrow> baseline_runtime \<Rightarrow> query_response" where
  "handle_clientgetnamefromdbid request session r =
     (case require_server session of
        Inl e \<Rightarrow> e
      | Inr server_id \<Rightarrow>
     (case arg_u64 request ''cldbid'' of
        None \<Rightarrow> response_error 512 ''cldbid is required''
      | Some dbid \<Rightarrow>
     (case lookup_client_identity_by_dbid r server_id dbid of
        None \<Rightarrow> response_error 768 ''client not found''
      | Some i \<Rightarrow> response_ok_row (identity_row i))))"

definition handle_clientgetnamefromuid ::
    "command_request \<Rightarrow> query_session \<Rightarrow> baseline_runtime \<Rightarrow> query_response" where
  "handle_clientgetnamefromuid request session r =
     (case require_server session of
        Inl e \<Rightarrow> e
      | Inr server_id \<Rightarrow>
     (case arg request ''cluid'' of
        None \<Rightarrow> response_error 512 ''cluid is required''
      | Some uid \<Rightarrow>
     (case lookup_client_identity_by_uid r server_id uid of
        None \<Rightarrow> response_error 768 ''client not found''
      | Some i \<Rightarrow> response_ok_row (identity_row i))))"

definition handle_clientgetuidfromclid ::
    "command_request \<Rightarrow> query_session \<Rightarrow> baseline_runtime \<Rightarrow> query_response" where
  "handle_clientgetuidfromclid request session r =
     (case require_server session of
        Inl e \<Rightarrow> e
      | Inr server_id \<Rightarrow>
     (case arg_u64 request ''clid'' of
        None \<Rightarrow> response_error 512 ''clid is required''
      | Some clid \<Rightarrow>
     (case online_client_by_id_in_server r server_id clid of
        None \<Rightarrow> response_error 768 ''client not found''
      | Some c \<Rightarrow>
          response_ok_row (insert_fields [(''clid'', word_to_string (oc_id c)), (''cluid'', oc_unique_identifier c),
                                          (''nickname'', oc_nickname c)] []))))"

definition handle_clientlist :: "command_request \<Rightarrow> query_session \<Rightarrow> baseline_runtime \<Rightarrow> query_response" where
  "handle_clientlist request session r =
     (if \<not> session_has_permission_actor session \<and> \<not> qs_is_desktop_client session
      then response_error 521 ''login required''
      else
     (case qs_selected_virtual_server_id session of
        None \<Rightarrow> response_error 522 ''virtual server selection required''
      | Some server_id \<Rightarrow>
          response_ok_rows (map (\<lambda>c. render_client_row r c request False) (clients_on r server_id))))"

definition handle_clientinfo :: "command_request \<Rightarrow> query_session \<Rightarrow> baseline_runtime \<Rightarrow> query_response" where
  "handle_clientinfo request session r =
     (case require_server session of
        Inl e \<Rightarrow> e
      | Inr server_id \<Rightarrow>
     (case arg_u64 request ''clid'' of
        None \<Rightarrow> response_error 512 ''clid is required''
      | Some clid \<Rightarrow>
     (case bt_get (st_online_clients (rt_store r)) clid of
        None \<Rightarrow> response_error 768 ''client not found''
      | Some c \<Rightarrow> response_ok_row (render_client_row r c request True))))"

definition requested_clids :: "command_request \<Rightarrow> query_session \<Rightarrow> u64 list" where
  "requested_clids request session =
     (let clids = List.map_filter (\<lambda>g. Option.bind (bt_get g ''clid'') parse_word) (option_groups request)
      in if clids = [] then [unwrap_or (qs_client_id session) (arg_u64 request ''clid'')] else clids)"

definition handle_clientgetvariables ::
    "command_request \<Rightarrow> query_session \<Rightarrow> baseline_runtime \<Rightarrow> query_response" where
  "handle_clientgetvariables request session r =
     (case qs_selected_virtual_server_id session of
        None \<Rightarrow> response_error 522 ''virtual server selection required''
      | Some server_id \<Rightarrow>
          let rs = List.map_filter (web_client_variables_row r server_id) (requested_clids request session)
          in if rs = [] then response_error 512 ''invalid clientID'' else response_ok_rows rs)"

section \<open>Kicking\<close>

definition put_in_channel :: "u64 \<Rightarrow> u32 \<Rightarrow> baseline_runtime \<Rightarrow> baseline_runtime" where
  "put_in_channel client_id channel_id r =
     upd_store (st_online_clients_update (bt_update client_id (oc_channel_id_update (\<lambda>_. channel_id)))) r"

definition sync_bot_of ::
    "(music_bot \<Rightarrow> row) \<Rightarrow> u32 \<Rightarrow> u64 \<Rightarrow> baseline_runtime \<Rightarrow> baseline_runtime" where
  "sync_bot_of extra server_id client_id r =
     (case music_bot_id_by_client r server_id client_id of
        None \<Rightarrow> r
      | Some bot_id \<Rightarrow> sync_music_bot_client_state extra bot_id r)"

definition handle_clientkick ::
    "(music_bot \<Rightarrow> row) \<Rightarrow> command_request \<Rightarrow> query_session \<Rightarrow> baseline_runtime \<Rightarrow>
       query_response \<times> baseline_runtime" where
  "handle_clientkick extra request session r =
     (case require_server session of
        Inl e \<Rightarrow> (e, r)
      | Inr server_id \<Rightarrow>
     (case arg_u64 request ''clid'' of
        None \<Rightarrow> (response_error 512 ''clid is required'', r)
      | Some target \<Rightarrow>
     (case arg_u32 request ''reasonid'' of
        None \<Rightarrow> (response_error 512 ''reasonid is required'', r)
      | Some reason_id \<Rightarrow>
          if 40 < length (arg_or_empty request ''reasonmsg'')
          then (response_error 512 ''reasonmsg is too long'', r)
          else
     (case query_actor_effective_permissions r session of
        Inl e \<Rightarrow> (e, r)
      | Inr (_, actor_permissions) \<Rightarrow>
     (case target_client_snapshot_and_permissions r server_id target of
        Inl e \<Rightarrow> (e, r)
      | Inr (snapshot, target_permissions) \<Rightarrow>
          if reason_id = 4 then
            (case check_target_client_power r actor_permissions target_permissions
                    [''i_client_kick_from_channel_power''] [''i_client_needed_kick_from_channel_power'']
                    ''i_client_kick_from_channel_power'' of
               Some e \<Rightarrow> (e, r)
             | None \<Rightarrow>
            (case default_channel_id_for_server r server_id of
               None \<Rightarrow> (response_error 768 ''target channel not found'', r)
             | Some default_channel_id \<Rightarrow>
                 let r1 = (if os_channel_id snapshot \<noteq> default_channel_id
                           then clear_client_media_broadcasts server_id target r else r)
                 in if bt_contains_key (st_online_clients (rt_store r1)) target
                    then (response_ok,
                          sync_bot_of extra server_id target (put_in_channel target default_channel_id r1))
                    else (response_error 768 ''target client not found'', r1)))
          else if reason_id = 5 then
            (case check_target_client_power r actor_permissions target_permissions
                    [''i_client_kick_from_server_power''] [''i_client_needed_kick_from_server_power'']
                    ''i_client_kick_from_server_power'' of
               Some e \<Rightarrow> (e, r)
             | None \<Rightarrow> (response_ok, remove_session_client_without_left_event (os_id snapshot) r))
          else (response_error 512 ''reasonid must be 4 or 5'', r))))))"

section \<open>Moving\<close>

text \<open>
  The limits on the clients in a channel and below it. The walk over the ancestors for the family limit
  ends at a channel that is not there or has no parent.
\<close>

definition full :: "u32 \<Rightarrow> int \<Rightarrow> bool" where
  "full n limit = (0 \<le> limit \<and> limit \<le> sint n)"

partial_function (option) family_limit_loop ::
    "baseline_runtime \<Rightarrow> u32 \<Rightarrow> u32 \<Rightarrow> query_response option option" where
  "family_limit_loop r server_id cid =
     (case channel_by_id r server_id cid of
        None \<Rightarrow> Some None
      | Some ch \<Rightarrow>
          Option.bind
            (if 0 \<le> ch_maxfamilyclients ch
             then map_option (\<lambda>n. full n (ch_maxfamilyclients ch)) (family_client_count_in_channel r server_id cid)
             else Some False)
            (\<lambda>reached.
               if reached then Some (Some (response_error 778 ''channel maxfamily reached''))
               else if ch_parent_id ch \<noteq> 0 then family_limit_loop r server_id (ch_parent_id ch)
               else Some None))"

declare family_limit_loop.simps [code]

definition join_power_ok :: "perm_map \<Rightarrow> bool" where
  "join_power_ok perms =
     (let needed = permission_value_or_default perms [''i_channel_needed_join_power'']
      in needed \<le> 0
         \<or> 0 < permission_value_or_default perms
                 [''b_channel_join_ignore_join_power'', ''b_permission_modify_power_ignore'']
         \<or> needed \<le> permission_power_max_or_default perms [''i_channel_join_power''])"

definition password_ok :: "command_request \<Rightarrow> perm_map \<Rightarrow> channel \<Rightarrow> bool" where
  "password_ok request perms ch =
     (\<not> (ch_flag_password ch \<and> ch_password ch \<noteq> [])
      \<or> 0 < permission_value_or_default perms [''b_channel_join_ignore_password'']
      \<or> arg_or_empty request ''cpw'' = ch_password ch)"

definition ignores_limits :: "perm_map \<Rightarrow> bool" where
  "ignores_limits perms = (0 < permission_value_or_default perms [''b_channel_join_ignore_maxclients''])"

definition join_refused ::
    "baseline_runtime \<Rightarrow> command_request \<Rightarrow> u32 \<Rightarrow> channel \<Rightarrow> u32 \<Rightarrow> perm_map \<Rightarrow> query_response option option" where
  "join_refused r request server_id ch cid perms =
     (if \<not> join_power_ok perms then Some (Some (insufficient_permission_response r ''i_channel_join_power''))
      else if \<not> password_ok request perms ch then Some (Some (response_error 781 ''invalid channel password''))
      else if ignores_limits perms then Some None
      else if full (client_count_in_channel r server_id cid) (ch_maxclients ch)
      then Some (Some (response_error 777 ''channel maxclient reached''))
      else family_limit_loop r server_id cid)"

definition drop_talk_flags :: "online_client \<Rightarrow> online_client" where
  "drop_talk_flags c =
     c\<lparr>oc_extra_properties :=
        bt_remove ''client_talk_request_msg''
          (bt_remove ''client_talk_request'' (bt_remove ''client_is_talker'' (oc_extra_properties c)))\<rparr>"

definition arrive_in :: "u32 \<Rightarrow> online_client \<Rightarrow> online_client" where
  "arrive_in cid c =
     (if oc_channel_id c \<noteq> cid then drop_talk_flags c else c)\<lparr>oc_channel_id := cid\<rparr>"

definition move_client :: "u32 \<Rightarrow> u64 \<Rightarrow> u32 \<Rightarrow> baseline_runtime \<Rightarrow> baseline_runtime" where
  "move_client server_id client_id cid r =
     (case bt_get (st_online_clients (rt_store r)) client_id of
        None \<Rightarrow> r
      | Some c \<Rightarrow>
          upd_store (st_online_clients_update (bt_update client_id (arrive_in cid)))
            (if oc_channel_id c \<noteq> cid then clear_client_media_broadcasts server_id client_id r else r))"

text \<open>Whether the request moves a client of another identity, and what that needs.\<close>

definition moves_other :: "baseline_runtime \<Rightarrow> query_session \<Rightarrow> u64 \<Rightarrow> u64 option \<Rightarrow> bool" where
  "moves_other r session actor_dbid requested =
     (case requested of
        None \<Rightarrow> False
      | Some clid \<Rightarrow>
          clid \<noteq> qs_client_id session
          \<and> (case bt_get (st_online_clients (rt_store r)) clid of
               None \<Rightarrow> True
             | Some c \<Rightarrow> oc_database_id c \<noteq> actor_dbid))"

definition move_refused ::
    "baseline_runtime \<Rightarrow> u32 \<Rightarrow> bool \<Rightarrow> u64 option \<Rightarrow> perm_map \<Rightarrow> query_response option" where
  "move_refused r server_id other requested actor_permissions =
     (case requested of
        Some clid \<Rightarrow>
          if other then
            (case target_client_snapshot_and_permissions r server_id clid of
               Inl e \<Rightarrow> Some e
             | Inr (_, target_permissions) \<Rightarrow>
                 check_target_client_power r actor_permissions target_permissions [''i_client_move_power'']
                   [''i_client_needed_move_power''] ''i_client_move_power'')
          else None
      | None \<Rightarrow> None)"

definition handle_clientmove ::
    "(music_bot \<Rightarrow> row) \<Rightarrow> command_request \<Rightarrow> query_session \<Rightarrow> baseline_runtime \<Rightarrow>
       (query_response \<times> query_session \<times> baseline_runtime) option" where
  "handle_clientmove extra request session r =
     (case require_server session of
        Inl e \<Rightarrow> Some (e, session, r)
      | Inr server_id \<Rightarrow>
     (case arg_u32 request ''cid'' of
        None \<Rightarrow> Some (response_error 512 ''cid is required'', session, r)
      | Some cid \<Rightarrow>
     (case channel_by_id r server_id cid of
        None \<Rightarrow> Some (response_error 768 ''target channel not found'', session, r)
      | Some ch \<Rightarrow>
          let requested = opt_filter (\<lambda>i. i \<noteq> 0) (arg_u64 request ''clid'')
          in
     (case query_actor_effective_permissions r session of
        Inl e \<Rightarrow> Some (e, session, r)
      | Inr (actor, actor_permissions) \<Rightarrow>
          let perms = unwrap_or actor_permissions
                (effective_permissions_for_client_in_channel_context r server_id cid (ac_client_database_id actor));
              moving = unwrap_or (qs_client_id session) requested;
              other = moves_other r session (ac_client_database_id actor) requested
          in
     (case move_refused r server_id other requested actor_permissions of
        Some e \<Rightarrow> Some (e, session, r)
      | None \<Rightarrow>
          let current = or_else (map_option oc_channel_id (bt_get (st_online_clients (rt_store r)) moving))
                          (if other then None else qs_current_channel_id session)
          in
     Option.bind (if current = Some cid then Some None else join_refused r request server_id ch cid perms)
       (\<lambda>refused. case refused of
          Some e \<Rightarrow> Some (e, session, r)
        | None \<Rightarrow>
            let session' = session\<lparr>qs_current_channel_id := Some cid\<rparr> in
            if moving \<noteq> qs_client_id session then
              (if bt_get (st_online_clients (rt_store r)) moving = None
               then Some (response_error 768 ''target client not found'', session, r)
               else Some (response_ok, if other then session else session',
                          sync_bot_of extra server_id moving (move_client server_id moving cid r)))
            else Some (response_ok, session', move_client server_id moving cid r)))))))"

section \<open>Editing\<close>

text \<open>
  \<open>clientupdate\<close>: the session keeps the fields of the first group, the client of the session those of the
  second. A field with a bad value ends the command, and the fields before it are kept.
\<close>

definition take_flag ::
    "command_request \<Rightarrow> string \<Rightarrow> (bool \<Rightarrow> query_session \<Rightarrow> query_session) \<Rightarrow>
       query_response option \<times> query_session \<Rightarrow> query_response option \<times> query_session" where
  "take_flag request key upd acc =
     (case acc of
        (Some e, session) \<Rightarrow> (Some e, session)
      | (None, session) \<Rightarrow>
          (case arg request key of
             None \<Rightarrow> (None, session)
           | Some v \<Rightarrow>
               (case parse_query_bool v of
                  None \<Rightarrow> (Some (response_error 512 (key @ '' must be 0 or 1'')), session)
                | Some b \<Rightarrow> (None, upd b session))))"

definition take_text ::
    "command_request \<Rightarrow> string \<Rightarrow> (string \<Rightarrow> query_session \<Rightarrow> query_session) \<Rightarrow>
       query_response option \<times> query_session \<Rightarrow> query_response option \<times> query_session" where
  "take_text request key upd acc =
     (case acc of
        (Some e, session) \<Rightarrow> (Some e, session)
      | (None, session) \<Rightarrow>
          (case arg request key of None \<Rightarrow> (None, session) | Some v \<Rightarrow> (None, upd v session)))"

definition update_session ::
    "command_request \<Rightarrow> query_session \<Rightarrow> query_response option \<times> query_session" where
  "update_session request session =
     take_flag request ''client_output_muted'' (\<lambda>b. qs_client_output_muted_update (\<lambda>_. b))
      (take_flag request ''client_input_muted'' (\<lambda>b. qs_client_input_muted_update (\<lambda>_. b))
       (take_text request ''client_away_message'' (\<lambda>v. qs_client_away_message_update (\<lambda>_. v))
        (take_flag request ''client_away'' (\<lambda>b. qs_client_away_update (\<lambda>_. b))
         (take_text request ''client_nickname'' (\<lambda>v. qs_client_nickname_update (\<lambda>_. v))
           (None, session)))))"

definition session_keys :: "string list" where
  "session_keys = [''client_nickname'', ''client_away'', ''client_away_message'', ''client_input_muted'',
     ''client_output_muted'']"

definition passthrough_keys :: "string list" where
  "passthrough_keys =
     [''client_outputonly_muted'', ''client_input_hardware'', ''client_output_hardware'',
      ''client_input_deactivated'', ''client_is_recording'', ''client_nickname_phonetic'',
      ''client_meta_data'', ''client_flag_talking'', ''client_badges'']"

definition client_keys :: "string list" where
  "client_keys =
     [''client_flag_avatar'', ''client_talk_request'', ''client_talk_request_msg'', ''client_description'',
      ''client_is_channel_commander''] @ passthrough_keys"

definition given_fields :: "command_request \<Rightarrow> string list \<Rightarrow> (string \<Rightarrow> string) \<Rightarrow> (string \<times> string) list" where
  "given_fields request keys f = List.map_filter (\<lambda>k. map_option (\<lambda>v. (k, f v)) (arg request k)) keys"

definition talk_requested :: "string \<Rightarrow> bool" where
  "talk_requested v =
     (runtime_bool_flag v \<or> (case parse_int 64 v of None \<Rightarrow> False | Some n \<Rightarrow> 0 < n))"

definition talk_request_fields :: "command_request \<Rightarrow> (string \<times> string) list" where
  "talk_request_fields request =
     (case arg request ''client_talk_request'' of
        None \<Rightarrow> []
      | Some v \<Rightarrow>
          (''client_talk_request'', flag_string (talk_requested v))
          # fields_if (\<not> talk_requested v \<and> \<not> arg_given request ''client_talk_request_msg'')
              [(''client_talk_request_msg'', [])])
     @ (case arg request ''client_talk_request_msg'' of
          None \<Rightarrow> []
        | Some msg \<Rightarrow>
            (''client_talk_request_msg'', msg)
            # fields_if (\<not> arg_given request ''client_talk_request'' \<and> msg \<noteq> []) [(''client_talk_request'', ''1'')])"

definition extra_updates :: "command_request \<Rightarrow> row" where
  "extra_updates request =
     insert_fields
       (given_fields request [''client_flag_avatar''] id @ talk_request_fields request
        @ given_fields request [''client_description''] id
        @ given_fields request [''client_is_channel_commander''] (flag_string \<circ> runtime_bool_flag)
        @ given_fields request passthrough_keys id) []"

definition update_target :: "query_session \<Rightarrow> baseline_runtime \<Rightarrow> u64 option" where
  "update_target session r =
     (if bt_contains_key (st_online_clients (rt_store r)) (qs_client_id session) then Some (qs_client_id session)
      else case (qs_selected_virtual_server_id session, qs_actor_client_database_id_override session) of
             (Some server_id, Some cldbid) \<Rightarrow> online_client_id_by_database_id r server_id cldbid
           | _ \<Rightarrow> None)"

definition store_avatar :: "string \<Rightarrow> u64 \<Rightarrow> baseline_runtime \<Rightarrow> baseline_runtime" where
  "store_avatar avatar dbid r =
     (case bt_get (st_clients (rt_store r)) dbid of
        None \<Rightarrow> r
      | Some c \<Rightarrow>
          emit [DbUpdateClientAvatar (cl_unique_identifier c) avatar]
            (upd_store (st_clients_update (bt_update dbid (cl_client_flag_avatar_update (\<lambda>_. avatar)))) r))"

definition store_description :: "string \<Rightarrow> u64 \<Rightarrow> baseline_runtime \<Rightarrow> baseline_runtime" where
  "store_description description dbid r =
     upd_store (st_clients_update (bt_update dbid (cl_description_update (\<lambda>_. description)))) r"

definition update_client :: "command_request \<Rightarrow> u64 \<Rightarrow> baseline_runtime \<Rightarrow> baseline_runtime" where
  "update_client request online_id r =
     (case bt_get (st_online_clients (rt_store r)) online_id of
        None \<Rightarrow> r
      | Some c \<Rightarrow>
          let r1 = (case arg request ''client_flag_avatar'' of
                      None \<Rightarrow> r | Some v \<Rightarrow> store_avatar v (oc_database_id c) r);
              r2 = (case arg request ''client_description'' of
                      None \<Rightarrow> r1 | Some v \<Rightarrow> store_description v (oc_database_id c) r1)
          in upd_store
               (st_online_clients_update
                 (bt_update online_id (oc_extra_properties_update (\<lambda>m. bt_extend m (extra_updates request))))) r2)"

definition handle_clientupdate ::
    "u64 \<Rightarrow> command_request \<Rightarrow> query_session \<Rightarrow> baseline_runtime \<Rightarrow>
       (query_response \<times> query_session \<times> baseline_runtime) option" where
  "handle_clientupdate now request session r =
     (if \<not> session_has_permission_actor session then Some (response_error 521 ''login required'', session, r)
      else if named_args request = []
      then Some (response_error 512 ''at least one client property is required'', session, r)
      else
        map_option
          (\<lambda>(session1, r1).
             case update_session request session1 of
               (Some e, session2) \<Rightarrow> (e, session2, r1)
             | (None, session2) \<Rightarrow>
                 let r2 = (case update_target session2 r1 of
                             None \<Rightarrow> r1 | Some online_id \<Rightarrow> update_client request online_id r1)
                 in (if list_ex (arg_given request) (session_keys @ client_keys) then response_ok
                     else response_error 512 ''no supported client properties provided'', session2, r2))
          (sync_session_client now session ''clientupdate'' r))"

text \<open>\<open>clientedit\<close>.\<close>

definition bot_keys :: "string list" where
  "bot_keys = [''client_bot_type'', ''client_uptime_mode'', ''client_flag_notify_song_change'', ''client_disabled'']"

definition edited_extra :: "(string \<Rightarrow> string) \<Rightarrow> command_request \<Rightarrow> (string \<times> string) list" where
  "edited_extra volume request =
     given_fields request [''client_description''] id
     @ (case arg request ''client_is_talker'' of
          None \<Rightarrow> []
        | Some v \<Rightarrow>
            (''client_is_talker'', flag_string (runtime_bool_flag v))
            # fields_if (runtime_bool_flag v) [(''client_talk_request'', ''0''), (''client_talk_request_msg'', [])])
     @ given_fields request [''client_is_channel_commander'', ''client_is_priority_speaker'']
         (flag_string \<circ> runtime_bool_flag)
     @ given_fields request [''client_country''] id @ given_fields request [''player_volume''] volume
     @ given_fields request bot_keys trim"

definition edit_client :: "(string \<Rightarrow> string) \<Rightarrow> command_request \<Rightarrow> online_client \<Rightarrow> online_client" where
  "edit_client volume request c =
     c\<lparr>oc_nickname := unwrap_or (oc_nickname c) (arg request ''client_nickname''),
       oc_version := unwrap_or (oc_version c) (arg request ''client_version''),
       oc_platform := unwrap_or (oc_platform c) (arg request ''client_platform''),
       oc_country := unwrap_or (oc_country c) (arg request ''client_country''),
       oc_extra_properties := bt_extend (oc_extra_properties c) (edited_extra volume request)\<rparr>"

definition edits_something :: "command_request \<Rightarrow> bool" where
  "edits_something request =
     list_ex (arg_given request)
       ([''client_nickname'', ''client_description'', ''client_is_talker'', ''client_is_channel_commander'',
         ''client_is_priority_speaker'', ''client_version'', ''client_platform'', ''client_country'',
         ''player_volume''] @ bot_keys)"

definition edit_refused ::
    "baseline_runtime \<Rightarrow> command_request \<Rightarrow> u32 \<Rightarrow> permission_actor_context \<Rightarrow> perm_map \<Rightarrow>
       online_client_snapshot \<Rightarrow> query_response option" where
  "edit_refused r request server_id actor actor_permissions target =
     (let channel_perms = unwrap_or actor_permissions
            (effective_permissions_for_client_in_channel_context r server_id (os_channel_id target)
               (ac_client_database_id actor));
          talker = (if arg_given request ''client_is_talker''
                    then check_required_permission channel_perms
                      [''b_client_set_flag_talker'', ''b_channel_modify_needed_talk_power'',
                       ''i_channel_modify_power'', ''b_permission_modify_power_ignore'']
                      ''b_client_set_flag_talker''
                    else Inr ());
          description = (if arg_given request ''client_description''
                            \<and> os_database_id target \<noteq> ac_client_database_id actor
                         then check_required_permission actor_permissions
                           [''b_client_modify_description'', ''b_permission_modify_power_ignore'']
                           ''b_client_modify_description''
                         else Inr ())
      in case talker of
           Inl p \<Rightarrow> Some (insufficient_permission_response r p)
         | Inr _ \<Rightarrow>
             (case description of
                Inl p \<Rightarrow> Some (insufficient_permission_response r p)
              | Inr _ \<Rightarrow> None))"

text \<open>The part of the edit that reaches the bot behind the client, with the position to seek to.\<close>

definition edit_bot :: "u64 \<Rightarrow> (string \<Rightarrow> string) \<Rightarrow> command_request \<Rightarrow> music_bot \<Rightarrow> music_bot \<times> u32 option" where
  "edit_bot now volume request mbot =
     (let (b1, seek) =
            (case arg request ''player_volume'' of
               None \<Rightarrow> (mbot, None)
             | Some v \<Rightarrow>
                 if mb_player_volume mbot = volume v then (mbot, None)
                 else let b = mbot\<lparr>mb_player_volume := volume v\<rparr> in
                   if mb_state b = Playing
                   then let replay = music_bot_current_song_replay_millis now b in
                     (b\<lparr>mb_current_song_progress_millis := replay,
                        mb_current_song_started_at_millis := Some now\<rparr>, Some (replay div 1000))
                   else (b, None))
      in (b1\<lparr>mb_nickname := unwrap_or (mb_nickname b1) (arg request ''client_nickname'')\<rparr>, seek))"

definition handle_clientedit ::
    "(music_bot \<Rightarrow> row) \<Rightarrow> (string \<Rightarrow> string) \<Rightarrow> u64 \<Rightarrow> command_request \<Rightarrow> query_session \<Rightarrow> baseline_runtime \<Rightarrow>
       query_response \<times> query_session \<times> baseline_runtime \<times> (u32 \<times> u32) option" where
  "handle_clientedit extra volume now request session r =
     (case require_server session of
        Inl e \<Rightarrow> (e, session, r, None)
      | Inr server_id \<Rightarrow>
     (case arg_u64 request ''clid'' of
        None \<Rightarrow> (response_error 512 ''clid is required'', session, r, None)
      | Some target \<Rightarrow>
     (case query_actor_effective_permissions r session of
        Inl e \<Rightarrow> (e, session, r, None)
      | Inr (actor, actor_permissions) \<Rightarrow>
     (case online_client_snapshot r server_id target of
        None \<Rightarrow> (response_error 768 ''target client not found'', session, r, None)
      | Some snapshot \<Rightarrow>
     (case edit_refused r request server_id actor actor_permissions snapshot of
        Some e \<Rightarrow> (e, session, r, None)
      | None \<Rightarrow>
          let session1 = (case arg request ''client_nickname'' of
                            None \<Rightarrow> session
                          | Some n \<Rightarrow> if target = qs_client_id session
                                     then session\<lparr>qs_client_nickname := n\<rparr> else session);
              r1 = upd_store (st_online_clients_update (bt_update target (edit_client volume request))) r;
              r2 = (case arg request ''client_description'' of
                      None \<Rightarrow> r1 | Some d \<Rightarrow> store_description d (os_database_id snapshot) r1);
              (r3, seek) =
                (case music_bot_id_by_client r2 server_id target of
                   None \<Rightarrow> (r2, None)
                 | Some bot_id \<Rightarrow>
                     (case bt_get (st_music_bots (rt_store r2)) bot_id of
                        None \<Rightarrow> (snd (sync_music_bot_client_properties extra bot_id r2), None)
                      | Some mbot \<Rightarrow>
                          let (b, secs) = edit_bot now volume request mbot in
                          (snd (sync_music_bot_client_properties extra bot_id
                             (upd_store (st_music_bots_update (bt_update bot_id (\<lambda>_. b))) r2)),
                           map_option (Pair bot_id) secs)))
          in (if edits_something request then response_ok
              else response_error 512 ''no supported clientedit properties provided'', session1, r3, seek))))))"

section \<open>A login for the query interface\<close>

definition handle_clientsetserverquerylogin ::
    "command_request \<Rightarrow> query_session \<Rightarrow> baseline_runtime \<Rightarrow>
       query_response \<times> query_session \<times> baseline_runtime" where
  "handle_clientsetserverquerylogin request session r =
     (case qs_authenticated_login session of
        None \<Rightarrow> (response_error 521 ''login required'', session, r)
      | Some current_login \<Rightarrow>
     (case query_actor_effective_permissions r session of
        Inl e \<Rightarrow> (e, session, r)
      | Inr (_, actor_permissions) \<Rightarrow>
     (case check_required_permission actor_permissions [''b_client_create_modify_serverquery_login'']
             ''b_client_create_modify_serverquery_login'' of
        Inl p \<Rightarrow> (insufficient_permission_response r p, session, r)
      | Inr _ \<Rightarrow>
     (case arg request ''client_login_name'' of
        None \<Rightarrow> (response_error 512 ''client_login_name is required'', session, r)
      | Some new_login \<Rightarrow>
          if bt_contains_key (st_query_accounts (rt_store r)) new_login
          then (response_error 769 ''target query account already exists'', session, r)
          else
     (case bt_get (st_query_accounts (rt_store r)) current_login of
        None \<Rightarrow> (response_error 768 ''current query account not found'', session, r)
      | Some account \<Rightarrow>
          let secret = ''generated-'' @ new_login
          in (response_ok_row
                (insert_fields [(''client_login_name'', new_login), (''client_login_password'', secret)] []),
              session\<lparr>qs_authenticated_login := Some new_login\<rparr>,
              rename_account current_login new_login (account\<lparr>qa_password := secret\<rparr>) r))))))"


section \<open>What a move does\<close>

text \<open>A client without the properties a music bot may show.\<close>

definition client_basics :: "baseline_runtime \<Rightarrow> u64 \<Rightarrow> online_client option" where
  "client_basics r i =
     map_option (oc_extra_properties_update (\<lambda>_. [])) (bt_get (st_online_clients (rt_store r)) i)"

lemma basics_clear [simp]: "client_basics (clear_client_media_broadcasts server_id c r) = client_basics r"
  by (simp add: client_basics_def clear_client_media_broadcasts_def Let_def fun_eq_iff)

lemma basics_emit [simp]: "client_basics (emit es r) = client_basics r"
  by (simp add: client_basics_def fun_eq_iff)

lemma basics_sync_properties [simp]:
  "client_basics (snd (sync_music_bot_client_properties extra bot_id r)) = client_basics r"
  by (auto simp: client_basics_def sync_music_bot_client_properties_def bt_get_update fun_eq_iff option.map_comp
      comp_def split: option.splits)

lemma basics_sync_bot [simp]: "client_basics (sync_bot_of extra server_id c r) = client_basics r"
  by (auto simp: sync_bot_of_def sync_music_bot_client_state_def Let_def split: option.splits)

definition placed :: "u64 \<Rightarrow> u32 \<Rightarrow> (u64 \<Rightarrow> online_client option) \<Rightarrow> u64 \<Rightarrow> online_client option" where
  "placed clid cid m = m(clid := map_option (oc_channel_id_update (\<lambda>_. cid)) (m clid))"

lemma basics_move [simp]: "client_basics (move_client server_id clid cid r) = placed clid cid (client_basics r)"
proof -
  have "oc_extra_properties_update (\<lambda>_. []) (arrive_in cid c) = oc_channel_id_update (\<lambda>_. cid) (oc_extra_properties_update (\<lambda>_. []) c)"
    for c by (simp add: arrive_in_def drop_talk_flags_def)
  moreover have "st_online_clients (rt_store (clear_client_media_broadcasts server_id clid r)) = st_online_clients (rt_store r)"
    by (simp add: clear_client_media_broadcasts_def Let_def)
  ultimately show ?thesis
    by (auto simp: move_client_def client_basics_def placed_def fun_eq_iff bt_get_update split: option.splits)
qed

lemma basics_put [simp]: "client_basics (put_in_channel clid cid r) = placed clid cid (client_basics r)"
  by (cases "bt_get (st_online_clients (rt_store r)) clid")
    (auto simp: put_in_channel_def client_basics_def placed_def fun_eq_iff bt_get_update)

text \<open>The client a request moves, and the channel it names.\<close>

definition moved_client :: "command_request \<Rightarrow> query_session \<Rightarrow> u64" where
  "moved_client request session =
     unwrap_or (qs_client_id session) (opt_filter (\<lambda>i. i \<noteq> 0) (arg_u64 request ''clid''))"

text \<open>The conditions to enter a channel: \<open>enters\<close> says that the client is not there already.\<close>

definition enters :: "baseline_runtime \<Rightarrow> query_session \<Rightarrow> u64 \<Rightarrow> u32 \<Rightarrow> bool" where
  "enters r session clid cid =
     (case bt_get (st_online_clients (rt_store r)) clid of
        Some c \<Rightarrow> oc_channel_id c \<noteq> cid
      | None \<Rightarrow> qs_current_channel_id session \<noteq> Some cid)"

lemma family_limit_passed:
  assumes "ancestor_or_self channels a cid" and "server_channels r server_id = Some channels"
    and "family_limit_loop r server_id cid = Some None" and "channel_by_id r server_id a = Some ch"
    and "0 \<le> ch_maxfamilyclients ch"
  shows "\<exists>n. family_client_count_in_channel r server_id a = Some n \<and> sint n < ch_maxfamilyclients ch"
  using assms(1,3)
proof (induction rule: ancestor_or_self.induct)
  case self
  then show ?case using assms(4,5)
    by (subst (asm) family_limit_loop.simps) (auto simp: full_def split: if_splits bind_splits)
next
  case (up i)
  have p: "parent_of channels i = (case channel_by_id r server_id i of None \<Rightarrow> 0 | Some c \<Rightarrow> ch_parent_id c)"
    using assms(2) by (simp add: parent_of_def channel_by_id_def unwrap_or_def split: option.split)
  have "parent_of channels i \<noteq> 0" using up.hyps(2) ancestor_zero by metis
  with up.prems p have "family_limit_loop r server_id (parent_of channels i) = Some None"
    by (subst (asm) family_limit_loop.simps) (auto split: if_splits option.splits bind_splits)
  then show ?case by (rule up.IH)
qed

lemma family_count_returns:
  assumes "\<And>i. reaches_root channels i" and "server_channels r server_id = Some channels"
  shows "\<exists>n. family_client_count_in_channel r server_id cid = Some n"
proof -
  have "\<exists>n. fold (\<lambda>c acc. Option.bind acc (\<lambda>n.
                if oc_server_id c \<noteq> server_id then Some n
                else if oc_channel_id c = cid then Some (Suc n)
                else map_option (\<lambda>b. if b then Suc n else n)
                       (channel_is_descendant channels (oc_channel_id c) cid))) cs (Some m) = Some n" for cs m
  proof (induction cs arbitrary: m)
    case (Cons c cs)
    have "channel_is_descendant channels (oc_channel_id c) cid \<noteq> None"
      using descendant_returns [OF assms(1)] by simp
    then show ?case using Cons.IH by (auto simp: not_None_eq)
  qed simp
  then show ?thesis using assms(2) by (simp add: family_client_count_in_channel_def)
qed

lemma family_limit_returns:
  assumes "tree_ok channels" and "server_channels r server_id = Some channels"
  shows "\<exists>res. family_limit_loop r server_id cid = Some res"
  using reaches_root_any [OF assms(1), of cid]
proof (induction rule: reaches_root.induct)
  case root
  have "List.find (\<lambda>c. ch_id c = 0) channels = None"
    using assms(1) by (auto simp: find_None_iff tree_ok_def)
  then show ?case using assms(2) by (subst family_limit_loop.simps) (simp add: channel_by_id_def)
next
  case (up i)
  have p: "parent_of channels i = (case channel_by_id r server_id i of None \<Rightarrow> 0 | Some c \<Rightarrow> ch_parent_id c)"
    using assms(2) by (simp add: parent_of_def channel_by_id_def unwrap_or_def split: option.split)
  show ?case
    using family_count_returns [OF reaches_root_any [OF assms(1)] assms(2), of i] up.IH p
    by (subst family_limit_loop.simps) (auto split: option.split)
qed

lemma family_limit_error:
  assumes "family_limit_loop r server_id cid = Some (Some e)"
  shows "error_id e \<noteq> 0"
proof -
  have "res = Some e \<longrightarrow> error_id e \<noteq> 0" if "family_limit_loop r server_id cid = Some res" for r server_id cid res
  proof (rule family_limit_loop.raw_induct [of "\<lambda>_ _ _ res. res = Some e \<longrightarrow> error_id e \<noteq> 0", OF _ that])
    fix loop r server_id cid res
    assume IH: "\<And>r server_id cid res. loop r server_id cid = Some res \<Longrightarrow> res = Some e \<longrightarrow> error_id e \<noteq> 0"
      and body: "(case channel_by_id r server_id cid of
        None \<Rightarrow> Some None
      | Some ch \<Rightarrow>
          Option.bind
            (if 0 \<le> ch_maxfamilyclients ch
             then map_option (\<lambda>n. full n (ch_maxfamilyclients ch)) (family_client_count_in_channel r server_id cid)
             else Some False)
            (\<lambda>reached.
               if reached then Some (Some (response_error 778 ''channel maxfamily reached''))
               else if ch_parent_id ch \<noteq> 0 then loop r server_id (ch_parent_id ch)
               else Some None)) = Some res"
    show "res = Some e \<longrightarrow> error_id e \<noteq> 0"
      using body IH by (auto simp: response_defs split: option.splits if_splits bind_splits)
  qed
  with assms show ?thesis by blast
qed

lemma join_refused_error: "join_refused r request server_id ch cid perms = Some (Some e) \<Longrightarrow> error_id e \<noteq> 0"
  by (auto simp: join_refused_def insufficient_permission_response_def response_defs dest: family_limit_error
      split: if_splits)

lemma move_refused_error: "move_refused r server_id other requested perms = Some e \<Longrightarrow> error_id e \<noteq> 0"
  by (auto simp: move_refused_def dest: target_errors split: option.splits if_splits sum.splits)

definition join_target_ok ::
    "baseline_runtime \<Rightarrow> command_request \<Rightarrow> u32 \<Rightarrow> channel \<Rightarrow> u32 \<Rightarrow> perm_map \<Rightarrow> bool" where
  "join_target_ok r request server_id ch cid perms =
     (join_power_ok perms \<and> password_ok request perms ch
      \<and> (ignores_limits perms
         \<or> \<not> full (client_count_in_channel r server_id cid) (ch_maxclients ch)
           \<and> family_limit_loop r server_id cid = Some None))"

lemma join_not_refused:
  "join_refused r request server_id ch cid perms = Some None \<Longrightarrow> join_target_ok r request server_id ch cid perms"
  by (auto simp: join_refused_def join_target_ok_def split: if_splits)

lemma clientmove_ok:
  assumes "handle_clientmove extra request session r = Some (resp, session', r')" and "error_id resp = 0"
  obtains server_id cid ch actor actor_permissions where
    "require_server session = Inr server_id" and "arg_u32 request ''cid'' = Some cid"
    and "channel_by_id r server_id cid = Some ch"
    and "query_actor_effective_permissions r session = Inr (actor, actor_permissions)"
    and "move_refused r server_id
           (moves_other r session (ac_client_database_id actor) (opt_filter (\<lambda>i. i \<noteq> 0) (arg_u64 request ''clid'')))
           (opt_filter (\<lambda>i. i \<noteq> 0) (arg_u64 request ''clid'')) actor_permissions = None"
    and "enters r session (moved_client request session) cid \<longrightarrow>
           join_target_ok r request server_id ch cid (unwrap_or actor_permissions
             (effective_permissions_for_client_in_channel_context r server_id cid (ac_client_database_id actor)))"
    and "client_basics r' = placed (moved_client request session) cid (client_basics r)"
proof -
  let ?requested = "opt_filter (\<lambda>i. i \<noteq> 0) (arg_u64 request ''clid'')"
  note errors = require_server_error actor_permissions_error move_refused_error join_refused_error
  obtain server_id where s: "require_server session = Inr server_id"
    using assms errors by (cases "require_server session") (auto simp: handle_clientmove_def)
  obtain cid where c: "arg_u32 request ''cid'' = Some cid"
    using assms s by (cases "arg_u32 request ''cid''") (auto simp: handle_clientmove_def response_defs)
  obtain ch where ch: "channel_by_id r server_id cid = Some ch"
    using assms s c by (cases "channel_by_id r server_id cid") (auto simp: handle_clientmove_def response_defs)
  obtain actor aperms where a: "query_actor_effective_permissions r session = Inr (actor, aperms)"
    using assms s c ch errors
    by (cases "query_actor_effective_permissions r session") (auto simp: handle_clientmove_def)
  let ?other = "moves_other r session (ac_client_database_id actor) ?requested"
  let ?perms = "unwrap_or aperms
    (effective_permissions_for_client_in_channel_context r server_id cid (ac_client_database_id actor))"
  let ?moving = "moved_client request session"
  have m: "move_refused r server_id ?other ?requested aperms = None"
    using assms s c ch a errors
    by (cases "move_refused r server_id ?other ?requested aperms") (auto simp: handle_clientmove_def Let_def)
  let ?current = "or_else (map_option oc_channel_id (bt_get (st_online_clients (rt_store r)) ?moving))
    (if ?other then None else qs_current_channel_id session)"
  obtain refused where j: "(if ?current = Some cid then Some None else join_refused r request server_id ch cid ?perms) = Some refused"
    using assms(1) s c ch a m
    by (cases "if ?current = Some cid then Some None else join_refused r request server_id ch cid ?perms")
      (auto simp: handle_clientmove_def Let_def moved_client_def)
  then have none: "refused = None"
    using assms s c ch a m join_refused_error [of r request server_id ch cid ?perms]
    by (cases refused) (auto simp: handle_clientmove_def Let_def moved_client_def split: if_splits)
  have "enters r session ?moving cid \<longrightarrow> ?current \<noteq> Some cid"
    by (auto simp: enters_def or_else_def split: option.splits)
  with j none have "enters r session ?moving cid \<longrightarrow> join_target_ok r request server_id ch cid ?perms"
    by (auto intro: join_not_refused)
  moreover have "client_basics r' = placed ?moving cid (client_basics r)"
    using assms s c ch a m j none
    by (auto simp: handle_clientmove_def Let_def moved_client_def [symmetric] response_defs split: if_splits)
  ultimately show ?thesis using that s c ch a m by blast
qed

lemma join_returns:
  assumes "\<And>server_id channels. server_channels r server_id = Some channels \<Longrightarrow> tree_ok channels"
  shows "\<exists>res. join_refused r request server_id ch cid perms = Some res"
proof -
  have "\<exists>res. family_limit_loop r server_id cid = Some res"
  proof (cases "server_channels r server_id")
    case None
    then show ?thesis by (subst family_limit_loop.simps) (simp add: channel_by_id_def)
  next
    case (Some channels)
    then show ?thesis using assms by (blast intro: family_limit_returns)
  qed
  then show ?thesis by (auto simp: join_refused_def)
qed

text \<open>
  Property C31: a successful \<open>clientmove\<close> puts the client it names, and nobody else, into the channel it
  names. A client that was not there has been let in by the join power, the password and the limit of
  the channel, and by the family limit of every channel above it, unless the permissions of the actor
  waive them; and a client of another identity is moved only with enough power.
\<close>

theorem clientmove_correct:
  assumes "handle_clientmove extra request session r = Some (resp, session', r')" and "error_id resp = 0"
  shows "\<exists>server_id cid ch actor actor_permissions perms.
    qs_selected_virtual_server_id session = Some server_id \<and> arg_u32 request ''cid'' = Some cid
    \<and> channel_by_id r server_id cid = Some ch
    \<and> query_actor_effective_permissions r session = Inr (actor, actor_permissions)
    \<and> perms = unwrap_or actor_permissions
        (effective_permissions_for_client_in_channel_context r server_id cid (ac_client_database_id actor))
    \<and> client_basics r' = placed (moved_client request session) cid (client_basics r)
    \<and> (enters r session (moved_client request session) cid \<longrightarrow>
        join_power_ok perms \<and> password_ok request perms ch
        \<and> (ignores_limits perms
           \<or> \<not> full (client_count_in_channel r server_id cid) (ch_maxclients ch)
             \<and> (\<forall>channels a above. server_channels r server_id = Some channels \<and> ancestor_or_self channels a cid
                  \<and> channel_by_id r server_id a = Some above \<and> 0 \<le> ch_maxfamilyclients above \<longrightarrow>
                  (\<exists>n. family_client_count_in_channel r server_id a = Some n \<and> sint n < ch_maxfamilyclients above))))
    \<and> (\<forall>c. moved_client request session \<noteq> qs_client_id session
         \<and> bt_get (st_online_clients (rt_store r)) (moved_client request session) = Some c
         \<and> oc_database_id c \<noteq> ac_client_database_id actor \<longrightarrow>
         (\<exists>target target_permissions.
            target_client_snapshot_and_permissions r server_id (moved_client request session)
              = Inr (target, target_permissions)
            \<and> permission_value_or_default target_permissions [''i_client_needed_move_power'']
              \<le> permission_value_or_default actor_permissions [''i_client_move_power'']))"
proof (rule clientmove_ok [OF assms])
  fix server_id cid ch actor actor_permissions
  let ?requested = "opt_filter (\<lambda>i. i \<noteq> 0) (arg_u64 request ''clid'')"
  assume s: "require_server session = Inr server_id" and c: "arg_u32 request ''cid'' = Some cid"
    and ch: "channel_by_id r server_id cid = Some ch"
    and a: "query_actor_effective_permissions r session = Inr (actor, actor_permissions)"
    and m: "move_refused r server_id (moves_other r session (ac_client_database_id actor) ?requested) ?requested
      actor_permissions = None"
    and e: "enters r session (moved_client request session) cid \<longrightarrow>
      join_target_ok r request server_id ch cid (unwrap_or actor_permissions
        (effective_permissions_for_client_in_channel_context r server_id cid (ac_client_database_id actor)))"
    and b: "client_basics r' = placed (moved_client request session) cid (client_basics r)"
  have selected: "qs_selected_virtual_server_id session = Some server_id"
    using s by (auto simp: require_server_def split: if_splits option.splits)
  have power: "\<exists>target target_permissions.
      target_client_snapshot_and_permissions r server_id (moved_client request session) = Inr (target, target_permissions)
      \<and> permission_value_or_default target_permissions [''i_client_needed_move_power'']
        \<le> permission_value_or_default actor_permissions [''i_client_move_power'']"
    if other: "moved_client request session \<noteq> qs_client_id session"
      "bt_get (st_online_clients (rt_store r)) (moved_client request session) = Some oc"
      "oc_database_id oc \<noteq> ac_client_database_id actor" for oc
  proof -
    obtain clid where clid: "?requested = Some clid" "moved_client request session = clid"
      using other(1) by (cases ?requested) (auto simp: moved_client_def unwrap_or_def)
    with other have "moves_other r session (ac_client_database_id actor) ?requested" by (simp add: moves_other_def)
    with m clid show ?thesis
      by (auto simp: move_refused_def check_target_client_power_def split: sum.splits if_splits)
  qed
  have limits: "\<exists>n. family_client_count_in_channel r server_id above = Some n \<and> sint n < ch_maxfamilyclients up"
    if "server_channels r server_id = Some channels" "ancestor_or_self channels above cid"
      "channel_by_id r server_id above = Some up" "0 \<le> ch_maxfamilyclients up"
      "family_limit_loop r server_id cid = Some None" for channels above up
    using family_limit_passed that by blast
  have entering: "enters r session (moved_client request session) cid \<longrightarrow>
      (let perms = unwrap_or actor_permissions
          (effective_permissions_for_client_in_channel_context r server_id cid (ac_client_database_id actor))
       in join_power_ok perms \<and> password_ok request perms ch
        \<and> (ignores_limits perms
           \<or> \<not> full (client_count_in_channel r server_id cid) (ch_maxclients ch)
             \<and> (\<forall>channels above up. server_channels r server_id = Some channels \<and> ancestor_or_self channels above cid
                  \<and> channel_by_id r server_id above = Some up \<and> 0 \<le> ch_maxfamilyclients up \<longrightarrow>
                  (\<exists>n. family_client_count_in_channel r server_id above = Some n \<and> sint n < ch_maxfamilyclients up))))"
    using e limits unfolding join_target_ok_def Let_def by blast
  show ?thesis
    by (intro exI conjI, rule selected, rule c, rule ch, rule a, rule refl, rule b,
        rule entering [unfolded Let_def], intro allI impI, elim conjE, rule power)
qed

text \<open>
  On a channel tree every \<open>clientmove\<close> returns.
\<close>

theorem clientmove_returns:
  assumes "\<And>server_id channels. server_channels r server_id = Some channels \<Longrightarrow> tree_ok channels"
  shows "\<exists>res. handle_clientmove extra request session r = Some res"
proof -
  have join: "join_refused r request server_id ch cid perms \<noteq> None" for server_id ch cid perms
    using join_returns [OF assms] by simp
  show ?thesis
  proof (rule ccontr)
    assume "\<nexists>res. handle_clientmove extra request session r = Some res"
    then have "handle_clientmove extra request session r = None"
      by (cases "handle_clientmove extra request session r") (simp, blast)
    then show False
      by (auto simp: handle_clientmove_def Let_def join split: sum.splits option.splits if_splits bind_splits)
  qed
qed

section \<open>Kicking and the query login\<close>

definition kicked ::
    "command_request \<Rightarrow> query_session \<Rightarrow> baseline_runtime \<Rightarrow> query_response \<times> baseline_runtime \<Rightarrow> bool" where
  "kicked request session r res =
     (\<exists>server_id clid actor actor_permissions target target_permissions.
        require_server session = Inr server_id \<and> arg_u64 request ''clid'' = Some clid
        \<and> query_actor_effective_permissions r session = Inr (actor, actor_permissions)
        \<and> target_client_snapshot_and_permissions r server_id clid = Inr (target, target_permissions)
        \<and> (arg_u32 request ''reasonid'' = Some 4
             \<and> permission_value_or_default target_permissions [''i_client_needed_kick_from_channel_power'']
                 \<le> permission_value_or_default actor_permissions [''i_client_kick_from_channel_power'']
             \<and> (\<exists>home. default_channel_id_for_server r server_id = Some home
                  \<and> client_basics (snd res) = placed clid home (client_basics r))
           \<or> arg_u32 request ''reasonid'' = Some 5
             \<and> permission_value_or_default target_permissions [''i_client_needed_kick_from_server_power'']
                 \<le> permission_value_or_default actor_permissions [''i_client_kick_from_server_power'']
             \<and> bt_get (st_online_clients (rt_store (snd res))) (os_id target) = None))"

lemma clientkick_ok: "ok_then (kicked request session r) (handle_clientkick extra request session r)"
  unfolding handle_clientkick_def Let_def
  by (intro ok_then_branches;
      (rule ok_then_error, fastforce simp: response_defs dest: require_server_error actor_permissions_error target_errors)?)
    (auto simp: ok_then_def kicked_def check_target_client_power_def remove_session_client_without_left_event_def
      remove_client_frame response_defs split: if_splits)

text \<open>
  A successful \<open>clientkick\<close> was sent with the power the target needs. With reason 4 the
  client, and nobody else, is put into the default channel; with reason 5 it is no longer online.
\<close>

theorem clientkick_correct:
  assumes "handle_clientkick extra request session r = (resp, r')" and "error_id resp = 0"
  shows "kicked request session r (resp, r')"
  using clientkick_ok [of request session r extra] assms by (simp add: ok_then_def)

lemma query_login_ok:
  "ok_then (\<lambda>res. \<exists>current new account. qs_authenticated_login session = Some current
      \<and> arg request ''client_login_name'' = Some new \<and> \<not> bt_contains_key (accounts r) new
      \<and> bt_get (accounts r) current = Some account
      \<and> snd (snd res) = rename_account current new (account\<lparr>qa_password := ''generated-'' @ new\<rparr>) r)
    (handle_clientsetserverquerylogin request session r)"
  unfolding handle_clientsetserverquerylogin_def Let_def
  by (intro ok_then_branches;
      (rule ok_then_error, fastforce simp: response_defs insufficient_permission_response_def dest: actor_permissions_error)?)
    (simp add: ok_then_def)

text \<open>
  After a successful \<open>clientsetserverquerylogin\<close> a login with the answered name and password
  succeeds, the old name is gone, and every other account is as it was.
\<close>

theorem query_login_renamed:
  assumes "handle_clientsetserverquerylogin request session r = (resp, session', r')" and "error_id resp = 0"
    and "accounts_ok r" and "qs_authenticated_login session = Some old"
  shows "\<exists>new. arg request ''client_login_name'' = Some new
    \<and> (\<forall>attempt s pw. arg attempt ''client_login_name'' = Some new \<and> arg attempt ''client_login_password'' = Some pw \<longrightarrow>
         (error_id (fst (handle_login attempt r' s)) = 0 \<longleftrightarrow> pw = ''generated-'' @ new))
    \<and> (\<forall>attempt s. arg attempt ''client_login_name'' = Some old \<longrightarrow> error_id (fst (handle_login attempt r' s)) \<noteq> 0)
    \<and> (\<forall>l. l \<noteq> old \<and> l \<noteq> new \<longrightarrow> bt_get (accounts r') l = bt_get (accounts r) l)"
proof -
  obtain new account where n: "arg request ''client_login_name'' = Some new"
    and acc: "bt_get (accounts r) old = Some account" and fresh: "\<not> bt_contains_key (accounts r) new"
    and r': "r' = rename_account old new (account\<lparr>qa_password := ''generated-'' @ new\<rparr>) r"
    using query_login_ok [of session request r] assms(1,2,4) by (auto simp: ok_then_def)
  have table: "bt_get (accounts r') =
      (bt_get (accounts r))(old := None, new \<mapsto> account\<lparr>qa_password := ''generated-'' @ new, qa_login_name := new\<rparr>)"
    by (simp add: r' rename_account_def bt_get_insert bt_get_remove Let_def split: option.split)
  moreover have "old \<noteq> new" using acc fresh by (auto simp: bt_contains_key_def)
  ultimately show ?thesis
    using n by (intro exI [of _ new]) (simp add: handle_login_def or_else_def split: option.split)
qed


section \<open>Examples\<close>

definition move_demo :: baseline_runtime where
  "move_demo = empty_runtime\<lparr>rt_store := empty_store\<lparr>
     st_channels := [(1, [demo_channel 1 0\<lparr>ch_flag_default := True\<rparr>,
        demo_channel 2 0\<lparr>ch_maxfamilyclients := 1\<rparr>, demo_channel 3 2\<lparr>ch_maxclients := 5\<rparr>])],
     st_query_accounts :=
       [(''ops'', token_account\<lparr>qa_permissions :=
           [(''b_client_create_modify_serverquery_login'', perm 1), (''i_client_kick_from_channel_power'', perm 50),
            (''i_client_kick_from_server_power'', perm 50), (''i_client_move_power'', perm 50)]\<rparr>)],
     st_server_groups := [(7, new_server_group 7 ''Guest Server Query'' 1), (8, new_server_group 8 ''Normal'' 1)],
     st_online_clients := [(10, seed_online_client_10 1000), (11, seed_online_client_11 1000)]\<rparr>\<rparr>"

definition move_request :: "string \<Rightarrow> command_request" where
  "move_request clid = account_request ''clientmove'' [(''cid'', ''3''), (''clid'', clid)]"

definition family_demo :: baseline_runtime where
  "family_demo = upd_store (st_online_clients_update (bt_update 10 (oc_channel_id_update (\<lambda>_. 3)))) move_demo"

lemma demo_channels:
  "server_channels move_demo 1 = Some [demo_channel 1 0\<lparr>ch_flag_default := True\<rparr>,
        demo_channel 2 0\<lparr>ch_maxfamilyclients := 1\<rparr>, demo_channel 3 2\<lparr>ch_maxclients := 5\<rparr>]"
  "server_id \<noteq> 1 \<Longrightarrow> server_channels move_demo server_id = None"
  by (simp_all add: server_channels_def move_demo_def bt_get_def)

theorem clientmove_correct_witness:
  "\<exists>resp session' r'. handle_clientmove (\<lambda>_. []) (move_request ''10'') token_session move_demo = Some (resp, session', r')
     \<and> error_id resp = 0 \<and> client_basics r' = placed 10 3 (client_basics move_demo)
     \<and> (\<exists>n. family_client_count_in_channel move_demo 1 2 = Some n \<and> sint n < 1)"
proof -
  let ?run = "handle_clientmove (\<lambda>_. []) (move_request ''10'') token_session move_demo"
  have ok: "map_option (\<lambda>(resp, _). error_id resp) ?run = Some 0" by code_simp
  then obtain resp session' r' where run: "?run = Some (resp, session', r')" "error_id resp = 0" by auto
  have facts: "moved_client (move_request ''10'') token_session = 10" "arg_u32 (move_request ''10'') ''cid'' = Some 3"
    "qs_selected_virtual_server_id token_session = Some 1" "enters move_demo token_session 10 3"
    "map_sum id (\<lambda>(actor, _). ac_client_database_id actor) (query_actor_effective_permissions move_demo token_session) = Inr 5"
    "map_option ignores_limits (effective_permissions_for_client_in_channel_context move_demo 1 3 5) = Some False"
    by code_simp+
  have above: "channel_by_id move_demo 1 2 = Some (demo_channel 2 0\<lparr>ch_maxfamilyclients := 1\<rparr>)"
    by (simp add: channel_by_id_def demo_channels)
  have "parent_of (the (server_channels move_demo 1)) 3 = 2"
    by (simp add: demo_channels parent_of_def)
  then have below: "ancestor_or_self (the (server_channels move_demo 1)) 2 3"
    by (simp add: ancestor_or_self.up [of 3] ancestor_or_self.self)
  obtain actor perms where a: "query_actor_effective_permissions move_demo token_session = Inr (actor, perms)"
    "ac_client_database_id actor = 5"
    using facts(5) by (cases "query_actor_effective_permissions move_demo token_session") auto
  obtain there where there: "effective_permissions_for_client_in_channel_context move_demo 1 3 5 = Some there"
    "\<not> ignores_limits there"
    using facts(6) by auto
  have limits: "server_channels move_demo 1 = Some (the (server_channels move_demo 1))"
    "1 = ch_maxfamilyclients (demo_channel 2 0\<lparr>ch_maxfamilyclients := 1\<rparr>)" by (simp_all add: demo_channels)
  from clientmove_correct [OF run] facts(1-3) a there
  have moved: "client_basics r' = placed 10 3 (client_basics move_demo)"
    and entered: "\<forall>channels above up. server_channels move_demo 1 = Some channels \<and> ancestor_or_self channels above 3
        \<and> channel_by_id move_demo 1 above = Some up \<and> 0 \<le> ch_maxfamilyclients up \<longrightarrow>
        (\<exists>n. family_client_count_in_channel move_demo 1 above = Some n \<and> sint n < ch_maxfamilyclients up)"
    using facts(4) by (clarsimp simp: unwrap_or_def)+
  have "\<exists>n. family_client_count_in_channel move_demo 1 2 = Some n \<and> sint n < 1"
    using entered [rule_format, OF conjI, OF limits(1) conjI, OF below conjI, OF above] by simp
  with run moved show ?thesis by blast
qed

text \<open>With that client below it, channel 2 takes no other one.\<close>

lemma family_limit_refuses:
  "map_option (\<lambda>(resp, _). error_id resp)
     (handle_clientmove (\<lambda>_. []) (move_request ''11'') token_session family_demo) = Some 778"
  by code_simp

definition kick_request :: "string \<Rightarrow> command_request" where
  "kick_request reason = account_request ''clientkick'' [(''clid'', ''10''), (''reasonid'', reason)]"

theorem clientkick_correct_witness:
  "kicked (kick_request ''4'') token_session family_demo
     (handle_clientkick (\<lambda>_. []) (kick_request ''4'') token_session family_demo)
   \<and> map_option oc_channel_id (bt_get (st_online_clients (rt_store (snd
       (handle_clientkick (\<lambda>_. []) (kick_request ''4'') token_session family_demo)))) 10) = Some 1"
proof -
  let ?res = "handle_clientkick (\<lambda>_. []) (kick_request ''4'') token_session family_demo"
  have ok: "error_id (fst ?res) = 0"
    and home: "map_option oc_channel_id (bt_get (st_online_clients (rt_store (snd ?res))) 10) = Some 1"
    by code_simp+
  have "kicked (kick_request ''4'') token_session family_demo (fst ?res, snd ?res)"
    by (rule clientkick_correct [OF _ ok]) simp
  with home show ?thesis by simp
qed

definition rename_request :: command_request where
  "rename_request = account_request ''clientsetserverquerylogin'' [(''client_login_name'', ''boss'')]"

theorem query_login_renamed_witness:
  "let r' = snd (snd (handle_clientsetserverquerylogin rename_request token_session move_demo))
   in error_id (fst (handle_login (account_request ''login''
          [(''client_login_name'', ''boss''), (''client_login_password'', ''generated-boss'')]) r' default_session)) = 0"
proof -
  let ?res = "handle_clientsetserverquerylogin rename_request token_session move_demo"
  let ?login = "account_request ''login'' [(''client_login_name'', ''boss''), (''client_login_password'', ''generated-boss'')]"
  have run: "?res = (fst ?res, fst (snd ?res), snd (snd ?res))" "error_id (fst ?res) = 0" by (simp, code_simp)
  have ok: "accounts_ok move_demo"
    by (simp add: accounts_ok_def move_demo_def bt_inv_def bt_get_def token_account_def)
  have args: "arg rename_request ''client_login_name'' = Some ''boss''" "arg ?login ''client_login_name'' = Some ''boss''"
    "arg ?login ''client_login_password'' = Some (''generated-'' @ ''boss'')"
    "qs_authenticated_login token_session = Some ''ops''"
    by code_simp+
  from query_login_renamed [OF run ok args(4)] obtain new where new: "arg rename_request ''client_login_name'' = Some new"
    and login: "\<forall>attempt s pw. arg attempt ''client_login_name'' = Some new \<and> arg attempt ''client_login_password'' = Some pw
      \<longrightarrow> (error_id (fst (handle_login attempt (snd (snd ?res)) s)) = 0 \<longleftrightarrow> pw = ''generated-'' @ new)"
    by (elim exE conjE) (rule that)
  have "new = ''boss''" using new args(1) by simp
  with login [rule_format, of ?login "''generated-'' @ ''boss''" default_session] args(2,3) show ?thesis by (simp add: Let_def)
qed

text \<open>
  The password that \<open>clientsetserverquerylogin\<close> generates is a fixed word and the new name: whoever knows
  the name of such a login knows its password.
\<close>

theorem generated_password_predictable:
  "bt_get (hd (rows (fst (handle_clientsetserverquerylogin rename_request token_session move_demo))))
     ''client_login_password'' = Some ''generated-boss''"
  by code_simp

text \<open>
  Only two fields of \<open>clientedit\<close> are guarded. A client without any permission gives another client a new
  name and another version.
\<close>

theorem client_renames_another:
  "let (resp, _, r', _) = handle_clientedit (\<lambda>_. []) id 0
         (account_request ''clientedit'' [(''clid'', ''10''), (''client_nickname'', ''Fool''), (''client_version'', ''0'')])
         (client_session 41) move_demo
   in error_id resp = 0 \<and> map_option oc_nickname (bt_get (st_online_clients (rt_store r')) 10) = Some ''Fool''"
  by code_simp

text \<open>
  \<open>clientinfo\<close> does not compare the server of the client with that of the session: a session on server 2
  reads the address of a client on server 1.
\<close>

theorem clientinfo_crosses_servers:
  "map (\<lambda>row. bt_get row ''connection_client_ip'')
     (rows (handle_clientinfo (account_request ''clientinfo'' [(''clid'', ''10'')])
       (token_session\<lparr>qs_selected_virtual_server_id := Some 2\<rparr>) move_demo))
   = [Some (oc_connection_ip (seed_online_client_10 1000))]"
  by code_simp

text \<open>A refused \<open>clientupdate\<close> keeps the fields it had read before the bad one.\<close>

theorem clientupdate_refused_in_part:
  "map_option (\<lambda>(resp, s', _). (error_id resp, qs_client_nickname s'))
     (handle_clientupdate 0 (account_request ''clientupdate'' [(''client_away'', ''x''), (''client_nickname'', ''New'')])
        ((client_session 40)\<lparr>qs_client_id := 10\<rparr>) move_demo)
   = Some (512, ''New'')"
  by code_simp

end
