(* ===== verification/Permission_Inspection.thy ===== *)
theory Permission_Inspection
  imports Channel_Groups
begin

text \<open>
  The reports on permissions, \<open>runtime/permissions/inspection.rs\<close>, with the description of a permission
  (\<open>runtime/catalog_and_utils.rs\<close>) and the filter of \<open>permoverview\<close>
  (\<open>runtime/normalization_and_helpers.rs\<close>).

  \<open>upper\<close> is \<open>char::to_uppercase\<close> for a character that is not ASCII, a function on the text that starts
  with it.
\<close>

section \<open>Descriptions\<close>

definition token_texts :: "(string \<times> string) list" where
  "token_texts =
     [(''serverinstance'', ''server instance''), (''virtualserver'', ''virtual server''),
      (''serverquery'', ''ServerQuery''), (''textmessage'', ''text message''),
      (''textmessages'', ''text messages''), (''clientdb'', ''client database''),
      (''channelgroup'', ''channel group''), (''servergroup'', ''server group''),
      (''musicgroup'', ''music group''), (''welcomemessage'', ''welcome message''),
      (''hostmessage'', ''host message''), (''hostbanner'', ''host banner''),
      (''maxclients'', ''max clients''), (''ft'', ''file transfer''), (''dblist'', ''database list''),
      (''dbinfo'', ''database info''), (''dbsearch'', ''database search''), (''antiflood'', ''anti flood'')]"

definition permission_token_text :: "string \<Rightarrow> string" where
  "permission_token_text tok =
     unwrap_or (map (\<lambda>c. if c = CHR ''-'' then CHR '' '' else c) tok) (map_of token_texts tok)"

definition permission_subject_text :: "string \<Rightarrow> string" where
  "permission_subject_text subject =
     join_with '' '' (map permission_token_text (filter (\<lambda>p. p \<noteq> []) (split_char CHR ''_'' subject)))"

definition sentence_case :: "(string \<Rightarrow> string) \<Rightarrow> string \<Rightarrow> string" where
  "sentence_case upper txt =
     (case txt of
        [] \<Rightarrow> []
      | c # cs \<Rightarrow>
          if byte c < 128
          then (if 97 \<le> byte c \<and> byte c \<le> 122 then char_of (byte c - 32) else c) # cs
          else upper txt)"

function trim_start_matches :: "string \<Rightarrow> string \<Rightarrow> string" where
  "trim_start_matches pat s =
     (if pat = [] then s
      else case strip_prefix pat s of None \<Rightarrow> s | Some rest \<Rightarrow> trim_start_matches pat rest)"
  by pat_completeness auto

termination trim_start_matches
  by (relation "measure (length \<circ> snd)") (auto simp: strip_prefix_Some)

declare trim_start_matches.simps [simp del]

text \<open>The last place of a pattern, as \<open>rsplit_once\<close>.\<close>

definition rsplit_once_str :: "string \<Rightarrow> string \<Rightarrow> (string \<times> string) option" where
  "rsplit_once_str pat s =
     map_option (\<lambda>i. (take i s, drop (i + length pat) s))
       (List.find (\<lambda>i. starts_with pat (drop i s)) (rev [0..<Suc (length s)]))"

text \<open>The rules of \<open>describe_permission_name\<close> that take a suffix off a name: the words before and after the subject.\<close>

definition suffix_rules :: "(string \<times> string \<times> string) list" where
  "suffix_rules =
     [(''_notify_register'', ''Register for '', '' notifications''),
      (''_notify_unregister'', ''Unregister from '', '' notifications''),
      (''_view'', ''View '', []), (''_list'', ''List '', []), (''_search'', ''Search '', []),
      (''_find'', ''Find '', []), (''_info'', ''View '', '' information''), (''_create'', ''Create '', []),
      (''_delete'', ''Delete '', []), (''_add'', ''Add '', []), (''_remove'', ''Remove '', []),
      (''_join_ignore_password'', ''Join '', '' ignoring password''), (''_rename'', ''Rename '', []),
      (''_move'', ''Move '', []), (''_start'', ''Start '', []), (''_stop'', ''Stop '', []), (''_use'', ''Use '', [])]"

definition describe_permission_name :: "(string \<Rightarrow> string) \<Rightarrow> string \<Rightarrow> string" where
  "describe_permission_name upper n =
     (if n = ''b_serverquery_login'' then ''Log in through ServerQuery''
      else if n = ''b_client_create_modify_serverquery_login'' then ''Create or modify ServerQuery login''
      else
        let b_rest = strip_prefix ''b_'' n;
            without = (\<lambda>suffix. Option.bind b_rest (strip_suffix suffix))
        in case without ''_textmessage_send'' of
             Some subject \<Rightarrow>
               sentence_case upper
                 (''Send text messages to '' @ trim_start_matches ''client '' (permission_subject_text subject))
           | None \<Rightarrow>
        (case find_map (\<lambda>(suffix, before, behind).
                 map_option (\<lambda>subject. before @ permission_subject_text subject @ behind) (without suffix))
               suffix_rules of
           Some txt \<Rightarrow> sentence_case upper txt
         | None \<Rightarrow>
        (case Option.bind b_rest (rsplit_once_str ''_modify_'') of
           Some (before, behind) \<Rightarrow>
             sentence_case upper (''Modify '' @ permission_subject_text (before @ ''_'' @ behind))
         | None \<Rightarrow>
             sentence_case upper (permission_subject_text (unwrap_or n (strip_prefix ''i_'' n))))))"

definition permission_description_for_name :: "(string \<Rightarrow> string) \<Rightarrow> baseline_runtime \<Rightarrow> string \<Rightarrow> string" where
  "permission_description_for_name upper r n =
     unwrap_or (describe_permission_name upper n)
       (map_option pce_description (bt_get (rt_permission_catalog r) n))"

definition build_permission_rows :: "(string \<Rightarrow> string) \<Rightarrow> baseline_runtime \<Rightarrow> row list" where
  "build_permission_rows upper r =
     map (\<lambda>n. insert_fields
             [(''permid'', word_to_string (permission_id_for_name r n)), (''permname'', n),
              (''permdesc'', permission_description_for_name upper r n)] [])
       (sort_key (permission_id_for_name r) (all_known_permission_names r))"

section \<open>Reports\<close>

type_synonym found_row = "u32 \<times> u64 \<times> u64 \<times> u32 \<times> string \<times> row"

definition found :: "baseline_runtime \<Rightarrow> string \<Rightarrow> u32 \<Rightarrow> u64 \<Rightarrow> u64 \<Rightarrow> perm_map \<Rightarrow> found_row list" where
  "found r n t id1 id2 permissions =
     (if bt_contains_key permissions n
      then [(t, id1, id2, permission_id_for_name r n, n,
             insert_fields
               [(''t'', word_to_string t), (''id1'', word_to_string id1), (''id2'', word_to_string id2),
                (''p'', word_to_string (permission_id_for_name r n)), (''permsid'', n)] [])]
      else [])"

definition permfind_rows :: "baseline_runtime \<Rightarrow> string \<Rightarrow> found_row list" where
  "permfind_rows r n =
     concat (map (\<lambda>g. found r n 0 (ucast (sg_id g)) 0 (sg_permissions g)) (bt_values (st_server_groups (rt_store r))))
     @ concat (map (\<lambda>c. found r n 2 (ucast (ch_id c)) 0 (ch_permissions c))
         (concat (bt_values (st_channels (rt_store r)))))
     @ concat (map (\<lambda>g. found r n 3 0 (ucast (cg_id g)) (cg_permissions g))
         (bt_values (st_channel_groups (rt_store r))))
     @ concat (map (\<lambda>t. found r n 4 (ucast (ccp_channel_id t)) (ccp_client_database_id t) (ccp_permissions t))
         (st_channel_client_permissions (rt_store r)))
     @ concat (map (\<lambda>a. case qa_client_database_id a of
                           None \<Rightarrow> [] | Some dbid \<Rightarrow> found r n 1 dbid 0 (qa_permissions a))
         (bt_values (st_query_accounts (rt_store r))))
     @ concat (map (\<lambda>t. found r n 1 (cpt_client_database_id t) 0 (cpt_permissions t))
         (st_client_permissions (rt_store r)))"

definition handle_permfind :: "command_request \<Rightarrow> query_session \<Rightarrow> baseline_runtime \<Rightarrow> query_response" where
  "handle_permfind request session r =
     (if \<not> session_has_permission_actor session then response_error 521 ''login required''
      else
     (case parse_requested_permission_names r request [] of
        Inl e \<Rightarrow> e
      | Inr names \<Rightarrow>
          response_ok_rows
            (map (\<lambda>(_, _, _, _, _, row). row)
              (sort_key (\<lambda>(t, id1, id2, p, n, _). (t, id1, id2, p, n)) (concat (map (permfind_rows r) names))))))"

fun permget_rows :: "baseline_runtime \<Rightarrow> perm_map \<Rightarrow> string list \<Rightarrow> query_response + row list" where
  "permget_rows r eff [] = Inr []"
| "permget_rows r eff (n # ns) =
     (case bt_get eff n of
        None \<Rightarrow> Inl (response_error 768 (''permission '' @ n @ '' not assigned''))
      | Some a \<Rightarrow>
          (case permget_rows r eff ns of
             Inl e \<Rightarrow> Inl e
           | Inr rs \<Rightarrow>
               Inr (bt_remove ''permskip'' (bt_remove ''permnegated'' (render_permission_row r n a True)) # rs)))"

definition handle_permget :: "command_request \<Rightarrow> query_session \<Rightarrow> baseline_runtime \<Rightarrow> query_response" where
  "handle_permget request session r =
     (if \<not> session_has_permission_actor session then response_error 521 ''login required''
      else
     (case parse_requested_permission_names r request [] of
        Inl e \<Rightarrow> e
      | Inr names \<Rightarrow>
     (case (case qs_authenticated_login session of
              Some login \<Rightarrow>
                if qs_actor_client_database_id_override session = None
                   \<and> qs_selected_virtual_server_id session = None
                then (case bt_get (st_query_accounts (rt_store r)) login of
                        None \<Rightarrow> Inl (response_error 768 ''query account not found'')
                      | Some account \<Rightarrow> Inr (effective_permissions_for_account r account))
                else map_sum id snd (query_actor_effective_permissions r session)
            | None \<Rightarrow> map_sum id snd (query_actor_effective_permissions r session)) of
        Inl e \<Rightarrow> e
      | Inr eff \<Rightarrow>
          (case permget_rows r eff names of Inl e \<Rightarrow> e | Inr rs \<Rightarrow> response_ok_rows rs))))"

fun permid_rows :: "baseline_runtime \<Rightarrow> string list \<Rightarrow> query_response + row list" where
  "permid_rows r [] = Inr []"
| "permid_rows r (n # ns) =
     (if \<not> knows_permission_name r n then Inl (response_error 768 (''permission '' @ n @ '' not found''))
      else
        case permid_rows r ns of
          Inl e \<Rightarrow> Inl e
        | Inr rs \<Rightarrow>
            Inr (insert_fields [(''permsid'', n), (''permid'', word_to_string (permission_id_for_name r n))] [] # rs))"

definition handle_permidgetbyname :: "command_request \<Rightarrow> query_session \<Rightarrow> baseline_runtime \<Rightarrow> query_response" where
  "handle_permidgetbyname request session r =
     (if \<not> session_has_permission_actor session then response_error 521 ''login required''
      else
     (case parse_requested_permission_names r request [] of
        Inl e \<Rightarrow> e
      | Inr names \<Rightarrow> (case permid_rows r names of Inl e \<Rightarrow> e | Inr rs \<Rightarrow> response_ok_rows rs)))"

definition handle_permissionlist :: "(string \<Rightarrow> string) \<Rightarrow> query_session \<Rightarrow> baseline_runtime \<Rightarrow> query_response" where
  "handle_permissionlist upper session r =
     (if \<not> session_has_permission_actor session then response_error 521 ''login required''
      else response_ok_rows (build_permission_rows upper r))"

definition handle_desktopgetmyperms :: "query_session \<Rightarrow> baseline_runtime \<Rightarrow> query_response" where
  "handle_desktopgetmyperms session r =
     (if \<not> session_has_permission_actor session then response_error 521 ''login required''
      else
     (case query_actor_effective_permissions r session of
        Inl _ \<Rightarrow> response_error 768 ''client not found''
      | Inr (_, eff) \<Rightarrow>
          response_ok_rows (map (\<lambda>(n, a).
            insert_fields
              [(''permid'', word_to_string (permission_id_for_name r n)), (''permname'', n), (''permsid'', n),
               (''permvalue'', int_to_string (pa_value a)), (''permskip'', flag_string (pa_skipped a)),
               (''permnegated'', flag_string (pa_negated a))] []) eff)))"

subsection \<open>The overview of a client in a channel\<close>

fun filter_names :: "baseline_runtime \<Rightarrow> row list \<Rightarrow> string list option \<Rightarrow> query_response + string list option" where
  "filter_names r [] acc = Inr acc"
| "filter_names r (g # gs) acc =
     (case bt_get g ''permsid'' of
        Some n \<Rightarrow> filter_names r gs (Some (insort_insert n (unwrap_or [] acc)))
      | None \<Rightarrow>
     (case bt_get g ''permid'' of
        None \<Rightarrow> filter_names r gs acc
      | Some v \<Rightarrow>
     (case parse_word v of
        None \<Rightarrow> Inl (response_error 512 ''permid must be an integer'')
      | Some i \<Rightarrow>
          if i = 0 then Inr None
          else
            (case permission_name_for_id r i of
               None \<Rightarrow> Inl (response_error 768 (''permission '' @ word_to_string i @ '' not found''))
             | Some n \<Rightarrow> filter_names r gs (Some (insort_insert n (unwrap_or [] acc)))))))"

definition permoverview_requested_permissions ::
    "baseline_runtime \<Rightarrow> command_request \<Rightarrow> query_response + string list option" where
  "permoverview_requested_permissions r request =
     filter_names r (permission_option_groups request [''cid'', ''cldbid'']) None"

definition permission_filter_matches :: "string list option \<Rightarrow> string \<Rightarrow> bool" where
  "permission_filter_matches names n = (case names of None \<Rightarrow> True | Some ns \<Rightarrow> n \<in> set ns)"

type_synonym overview_row = "u32 \<times> u64 \<times> u64 \<times> u32 \<times> row"

definition overview_of ::
    "baseline_runtime \<Rightarrow> string list option \<Rightarrow> u32 \<Rightarrow> u64 \<Rightarrow> u64 \<Rightarrow> perm_map \<Rightarrow> overview_row list" where
  "overview_of r names t id1 id2 permissions =
     map (\<lambda>(n, a). render_permoverview_row r t id1 id2 n a)
       (filter (\<lambda>(n, _). permission_filter_matches names n) permissions)"

definition overview_subject ::
    "baseline_runtime \<Rightarrow> u32 \<Rightarrow> u64 \<Rightarrow> (u32 list \<times> perm_map) option" where
  "overview_subject r server_id dbid =
     (case query_account_by_cldbid r dbid of
        Some account \<Rightarrow> Some (qa_server_groups account, qa_permissions account)
      | None \<Rightarrow>
     (case online_client_by_cldbid r server_id dbid of
        Some c \<Rightarrow> Some (oc_server_groups c,
                      unwrap_or [] (map_option cpt_permissions (client_permission_target r server_id dbid)))
      | None \<Rightarrow>
          map_option (\<lambda>t. ([], cpt_permissions t)) (client_permission_target r server_id dbid)))"

definition overview_rows ::
    "baseline_runtime \<Rightarrow> string list option \<Rightarrow> u32 \<Rightarrow> u32 \<Rightarrow> u64 \<Rightarrow> u32 list \<Rightarrow> perm_map \<Rightarrow> overview_row list" where
  "overview_rows r names server_id channel_id dbid group_ids client_permissions =
     (case channel_by_id r server_id channel_id of
        None \<Rightarrow> [] | Some c \<Rightarrow> overview_of r names 2 (ucast (ch_id c)) 0 (ch_permissions c))
     @ concat (map (\<lambda>i. case bt_get (st_server_groups (rt_store r)) i of
                          None \<Rightarrow> [] | Some g \<Rightarrow> overview_of r names 0 (ucast (sg_id g)) 0 (sg_permissions g)) group_ids)
     @ overview_of r names 1 dbid 0 client_permissions
     @ (case effective_channel_group r channel_id dbid of
          None \<Rightarrow> [] | Some g \<Rightarrow> overview_of r names 3 0 (ucast (cg_id g)) (cg_permissions g))
     @ (case List.find (\<lambda>t. ccp_channel_id t = channel_id \<and> ccp_client_database_id t = dbid)
               (st_channel_client_permissions (rt_store r)) of
          None \<Rightarrow> [] | Some t \<Rightarrow> overview_of r names 4 (ucast channel_id) dbid (ccp_permissions t))"

definition handle_permoverview :: "command_request \<Rightarrow> query_session \<Rightarrow> baseline_runtime \<Rightarrow> query_response" where
  "handle_permoverview request session r =
     (case require_server session of
        Inl e \<Rightarrow> e
      | Inr server_id \<Rightarrow>
     (case arg_u32 request ''cid'' of
        None \<Rightarrow> response_error 512 ''cid is required''
      | Some channel_id \<Rightarrow>
          if \<not> channel_exists r server_id channel_id then response_error 768 ''channel not found''
          else
     (case arg_u64 request ''cldbid'' of
        None \<Rightarrow> response_error 512 ''cldbid is required''
      | Some dbid \<Rightarrow>
     (case overview_subject r server_id dbid of
        None \<Rightarrow> response_error 768 ''client not found''
      | Some (group_ids, client_permissions) \<Rightarrow>
     (case permoverview_requested_permissions r request of
        Inl e \<Rightarrow> e
      | Inr names \<Rightarrow>
          response_ok_rows
            (map (\<lambda>(_, _, _, _, row). row)
              (sort_key (\<lambda>(t, id1, id2, p, _). (t, id1, id2, p))
                (overview_rows r names server_id channel_id dbid group_ids client_permissions))))))))"

section \<open>The overview explains the evaluation\<close>

text \<open>A row that shows the value of an assignment.\<close>

definition shows_value :: "baseline_runtime \<Rightarrow> string \<Rightarrow> perm_assignment \<Rightarrow> row \<Rightarrow> bool" where
  "shows_value r n a row =
     (bt_get row ''p'' = Some (word_to_string (permission_id_for_name r n))
      \<and> bt_get row ''v'' = Some (int_to_string (pa_value a)))"

lemma render_shows: "shows_value r n a (snd (snd (snd (snd (render_permoverview_row r t id1 id2 n a)))))"
  by (simp add: shows_value_def render_permoverview_row_def Let_def bt_get_def)

lemma overview_shows:
  assumes "bt_get permissions n = Some a" and "pa_value b = pa_value a"
  shows "\<exists>e \<in> set (overview_of r None t id1 id2 permissions). shows_value r n b (snd (snd (snd (snd e))))"
proof -
  have "(n, a) \<in> set permissions" using assms(1) by (auto simp: bt_get_def dest: map_of_SomeD)
  then have "render_permoverview_row r t id1 id2 n a \<in> set (overview_of r None t id1 id2 permissions)"
    by (force simp: overview_of_def permission_filter_matches_def)
  moreover have "shows_value r n b (snd (snd (snd (snd (render_permoverview_row r t id1 id2 n a)))))"
    using render_shows [of r n a t id1 id2] assms(2) by (simp add: shows_value_def)
  ultimately show ?thesis by blast
qed

lemma merged_value_in:
  assumes "as \<noteq> []"
  shows "\<exists>a \<in> set as. pa_value (merge_assignments as) = pa_value a"
proof -
  have "pa_value (merge_assignments as) \<in> pa_value ` set as"
    using iter_min_in [of "map pa_value as"] iter_max_in [of "map pa_value as"] assms
    by (cases "iter_min (map pa_value as)"; cases "iter_max (map pa_value as)")
      (auto simp: merge_assignments_def Let_def unwrap_or_def)
  then show ?thesis by blast
qed

lemma resolve_tier_cases: "resolve_tier layer cur = Some a \<Longrightarrow> layer = Some a \<or> cur = Some a"
  by (auto simp: resolve_tier_def or_else_def split: option.splits if_splits)

lemma permission_spec_cases:
  assumes "permission_spec r sid cid dbid n = Some a"
  shows "bt_get (channel_client_tier r cid dbid) n = Some a \<or> bt_get (channel_group_tier r cid dbid) n = Some a
    \<or> bt_get (channel_tier r sid cid) n = Some a \<or> bt_get (client_tier r sid dbid) n = Some a
    \<or> (\<exists>g b. g \<in> set (server_group_perms r sid dbid) \<and> bt_get g n = Some b \<and> pa_value b = pa_value a)"
proof -
  have merged: "\<exists>g b. g \<in> set gs \<and> bt_get g n = Some b \<and> pa_value b = pa_value (merge_assignments as)"
    if named: "as = List.map_filter (\<lambda>g. bt_get g n) gs" "as \<noteq> []" for as gs
  proof -
    obtain b where "b \<in> set as" "pa_value b = pa_value (merge_assignments as)"
      using merged_value_in [OF named(2)] by metis
    moreover from this(1) obtain g where "g \<in> set gs" "bt_get g n = Some b"
      by (auto simp: named(1) List.map_filter_def)
    ultimately show ?thesis by blast
  qed
  have "base_entry r sid dbid n = Some a \<Longrightarrow> bt_get (client_tier r sid dbid) n = Some a
    \<or> (\<exists>g b. g \<in> set (server_group_perms r sid dbid) \<and> bt_get g n = Some b \<and> pa_value b = pa_value a)"
    using merged [OF refl, of "server_group_perms r sid dbid"]
    by (auto simp: base_entry_def merged_group_entry_def or_else_def Let_def split: option.splits list.splits if_splits)
  then show ?thesis
    using assms unfolding permission_spec_def
    by (auto dest!: resolve_tier_cases split: if_splits)
qed

text \<open>
  Property C32: \<open>permoverview\<close> explains the evaluation. When the client has a query account or is online,
  every effective permission of the client in the channel has a row in the overview that shows its value.
\<close>

theorem permoverview_explains:
  assumes "perm_maps_inv (rt_store r)" and "overview_subject r server_id dbid = Some (group_ids, client_permissions)"
    and "query_account_by_cldbid r dbid \<noteq> None \<or> online_client_by_cldbid r server_id dbid \<noteq> None"
    and "require_server session = Inr server_id" and "arg_u32 request ''cid'' = Some cid"
    and "channel_exists r server_id cid" and "arg_u64 request ''cldbid'' = Some dbid"
    and "permoverview_requested_permissions r request = Inr None"
  shows "\<exists>eff. effective_permissions_for_client_in_channel_context r server_id cid dbid = Some eff
    \<and> (\<forall>n a. bt_get eff n = Some a \<longrightarrow>
         (\<exists>row \<in> set (rows (handle_permoverview request session r)). shows_value r n a row))"
proof -
  obtain eff where eff: "effective_permissions_for_client_in_channel_context r server_id cid dbid = Some eff"
    and spec: "\<And>n. bt_get eff n = permission_spec r server_id cid dbid n"
    using effective_permissions_by_name [OF assms(1)] by blast
  let ?entries = "overview_rows r None server_id cid dbid group_ids client_permissions"
  have rows: "rows (handle_permoverview request session r) =
      map (\<lambda>(_, _, _, _, row). row) (sort_key (\<lambda>(t, id1, id2, p, _). (t, id1, id2, p)) ?entries)"
    using assms(2,4-8) by (simp add: handle_permoverview_def response_ok_rows_def)
  have "\<exists>e \<in> set ?entries. shows_value r n a (snd (snd (snd (snd e))))" if a: "bt_get eff n = Some a" for n a
  proof -
    have subject: "client_permissions = client_tier r server_id dbid"
      "server_group_perms r server_id dbid = groups_of_ids r group_ids"
      using assms(2,3) by (auto simp: overview_subject_def client_tier_def server_group_perms_def unwrap_or_def split: option.splits)
    consider (ccp) "bt_get (channel_client_tier r cid dbid) n = Some a" | (cg) "bt_get (channel_group_tier r cid dbid) n = Some a"
      | (ch) "bt_get (channel_tier r server_id cid) n = Some a" | (cl) "bt_get (client_tier r server_id dbid) n = Some a"
      | (sg) g b where "g \<in> set (server_group_perms r server_id dbid)" "bt_get g n = Some b" "pa_value b = pa_value a"
      using permission_spec_cases [of r server_id cid dbid n a] spec a by metis
    then show ?thesis
    proof cases
      case ccp
      then show ?thesis using overview_shows [OF ccp refl]
        by (fastforce simp: overview_rows_def channel_client_tier_def split: option.splits)
    next
      case cg
      then show ?thesis using overview_shows [OF cg refl]
        by (fastforce simp: overview_rows_def channel_group_tier_def split: option.splits)
    next
      case ch
      then show ?thesis using overview_shows [OF ch refl]
        by (fastforce simp: overview_rows_def channel_tier_def split: option.splits)
    next
      case cl
      then show ?thesis using overview_shows [OF cl refl] by (fastforce simp: overview_rows_def subject)
    next
      case sg
      then obtain i gr where "i \<in> set group_ids" "bt_get (st_server_groups (rt_store r)) i = Some gr" "g = sg_permissions gr"
        by (auto simp: subject groups_of_ids_def List.map_filter_def split: option.splits)
      then show ?thesis using overview_shows [OF sg(2) sg(3) [symmetric], of r 0 "ucast (sg_id gr)" 0]
        by (fastforce simp: overview_rows_def)
    qed
  qed
  note shown = this
  have "\<exists>row \<in> set (rows (handle_permoverview request session r)). shows_value r n a row"
    if "bt_get eff n = Some a" for n a
  proof -
    obtain e where e: "e \<in> set ?entries" "shows_value r n a (snd (snd (snd (snd e))))" using shown \<open>bt_get eff n = Some a\<close> by blast
    from e(1) have "(case e of (_, _, _, _, row) \<Rightarrow> row) \<in> set (rows (handle_permoverview request session r))"
      unfolding rows by simp
    with e(2) show ?thesis by (cases e) auto
  qed
  with eff show ?thesis by blast
qed

definition overview_demo :: baseline_runtime where
  "overview_demo = empty_runtime\<lparr>rt_store := empty_store\<lparr>
     st_channels := [(1, [demo_channel 1 0\<lparr>ch_permissions := [(''i_icon_id'', perm 5)]\<rparr>])],
     st_query_accounts := [(''ops'', token_account)],
     st_server_groups := [(7, new_server_group 7 ''Guest Server Query'' 1\<lparr>sg_permissions := [(''i_client_talk_power'', perm 9)]\<rparr>)],
     st_custom_client_properties := [((0, 40), [(''server_groups'', ''7'')])],
     st_client_permissions :=
       [\<lparr>cpt_server_id = 1, cpt_client_database_id = 40, cpt_client_unique_identifier = ''uid'',
         cpt_client_nickname = ''ScP'', cpt_permissions = []\<rparr>]\<rparr>\<rparr>"

definition overview_request :: "string \<Rightarrow> command_request" where
  "overview_request cldbid =
     (let args = [(''cid'', ''1''), (''cldbid'', cldbid)]
      in \<lparr>command = ''permoverview'', positional_args = [], named_args = args, option_groups = [args], flags = []\<rparr>)"

theorem permoverview_explains_witness:
  "(\<exists>row \<in> set (rows (handle_permoverview (overview_request ''5'') token_session overview_demo)).
      shows_value overview_demo ''i_icon_id'' (perm 5) row)
   \<and> (\<exists>row \<in> set (rows (handle_permoverview (overview_request ''5'') token_session overview_demo)).
      shows_value overview_demo ''i_client_talk_power'' (perm 9) row)"
proof -
  have facts: "perm_maps_inv (rt_store overview_demo)" "overview_subject overview_demo 1 5 = Some ([7], [])"
    "query_account_by_cldbid overview_demo 5 \<noteq> None \<or> online_client_by_cldbid overview_demo 1 5 \<noteq> None"
    "require_server token_session = Inr 1" "arg_u32 (overview_request ''5'') ''cid'' = Some 1"
    "channel_exists overview_demo 1 1" "arg_u64 (overview_request ''5'') ''cldbid'' = Some 5"
    "permoverview_requested_permissions overview_demo (overview_request ''5'') = Inr None"
    by code_simp+
  have specs: "permission_spec overview_demo 1 1 5 ''i_icon_id'' = Some (perm 5)"
    "permission_spec overview_demo 1 1 5 ''i_client_talk_power'' = Some (perm 9)"
    by code_simp+
  obtain eff where "effective_permissions_for_client_in_channel_context overview_demo 1 1 5 = Some eff"
    "bt_get eff ''i_icon_id'' = Some (perm 5)" "bt_get eff ''i_client_talk_power'' = Some (perm 9)"
    using effective_permissions_by_name [OF facts(1), of 1 1 5] specs by metis
  then show ?thesis using permoverview_explains [OF facts] by (metis option.inject)
qed

text \<open>
  The server groups of a client that is not online are read from its custom properties by the evaluation,
  but not by the overview: the permissions they grant have no row.
\<close>

theorem overview_misses_offline_groups:
  "permission_spec overview_demo 1 1 40 ''i_client_talk_power'' = Some (perm 9)
   \<and> (let resp = handle_permoverview (overview_request ''40'') token_session overview_demo
      in error_id resp = 0
         \<and> (\<forall>row \<in> set (rows resp). bt_get row ''p'' \<noteq>
              Some (word_to_string (permission_id_for_name overview_demo ''i_client_talk_power''))))"
  by code_simp

end
