(* ===== verification/Server_Commands.thy ===== *)
theory Server_Commands
  imports Sessions
begin

text \<open>
  The server commands, \<open>runtime/handlers/server.rs\<close>, with \<open>prune_expired_temp_passwords\<close>
  (\<open>runtime/client_and_ban_state.rs\<close>) and \<open>web_server_variables_row\<close> (\<open>runtime/web.rs\<close>): notification
  subscriptions, the reports on a server, editing it, temporary passwords, and the check of the password a
  client presents. \<open>now\<close> is the clock in seconds.
\<close>

section \<open>Subscriptions\<close>

definition channel_event :: "notification_event_kind \<Rightarrow> bool" where
  "channel_event event = (event = EvChannel \<or> event = EvTextChannel)"

definition handle_servernotifyregister ::
    "command_request \<Rightarrow> query_session \<Rightarrow> query_response \<times> query_session" where
  "handle_servernotifyregister request session =
     (if qs_selected_virtual_server_id session = None
      then (response_error 522 ''virtual server selection required'', session)
      else
     (case arg request ''event'' of
        None \<Rightarrow> (response_error 512 ''event is required'', session)
      | Some event_name \<Rightarrow>
     (case notification_event_parse event_name of
        None \<Rightarrow> (response_error 512 ''unsupported notify event'', session)
      | Some event \<Rightarrow>
          let channel_id = or_else (arg_u32 request ''id'')
                (if channel_event event then qs_current_channel_id session else None);
              subscription = \<lparr>ns_event = event,
                ns_channel_id = (if channel_event event then channel_id else None)\<rparr>
          in (response_ok,
              if subscription \<in> set (qs_notification_subscriptions session) then session
              else session\<lparr>qs_notification_subscriptions :=
                             qs_notification_subscriptions session @ [subscription]\<rparr>))))"

definition handle_servernotifyunregister :: "query_session \<Rightarrow> query_response \<times> query_session" where
  "handle_servernotifyunregister session = (response_ok, session\<lparr>qs_notification_subscriptions := []\<rparr>)"

section \<open>Reports\<close>

definition query_clients_on :: "baseline_runtime \<Rightarrow> u32 \<Rightarrow> nat" where
  "query_clients_on r server_id =
     length (filter (\<lambda>c. oc_server_id c = server_id \<and> oc_client_type c = 1)
       (bt_values (st_online_clients (rt_store r))))"

definition handle_serverrequestconnectioninfo :: "query_session \<Rightarrow> baseline_runtime \<Rightarrow> query_response" where
  "handle_serverrequestconnectioninfo session r =
     (if \<not> session_has_permission_actor session then response_error 521 ''login required''
      else
     (case selected_server r session of
        None \<Rightarrow> response_error 522 ''virtual server selection required''
      | Some server \<Rightarrow>
          response_ok_row (insert_fields
            [(''virtualserver_id'', word_to_string (vs_id server)),
             (''virtualserver_port'', word_to_string (vs_port server)),
             (''virtualserver_clientsonline'', word_to_string (client_count_in_server r (vs_id server))),
             (''virtualserver_queryclientsonline'', nat_to_string (query_clients_on r (vs_id server))),
             (''connection_connected_time'', ''0''), (''connection_packets_sent_total'', ''0''),
             (''connection_packets_received_total'', ''0''), (''connection_bytes_sent_total'', ''0''),
             (''connection_bytes_received_total'', ''0''), (''connection_filetransfer_bandwidth_sent'', ''0''),
             (''connection_filetransfer_bandwidth_received'', ''0'')] [])))"

definition handle_serveridgetbyport ::
    "command_request \<Rightarrow> query_session \<Rightarrow> baseline_runtime \<Rightarrow> query_response" where
  "handle_serveridgetbyport request session r =
     (if \<not> session_has_permission_actor session then response_error 521 ''login required''
      else
     (case Option.bind (arg request ''virtualserver_port'') (\<lambda>v. parse_word v :: u16 option) of
        None \<Rightarrow> response_error 512 ''virtualserver_port is required''
      | Some port \<Rightarrow>
     (case List.find (\<lambda>s. vs_port s = port) (bt_values (st_virtual_servers (rt_store r))) of
        None \<Rightarrow> response_error 768 ''virtual server not found''
      | Some server \<Rightarrow> response_ok_row (insert_fields [(''server_id'', word_to_string (vs_id server))] []))))"

definition effective_server_status :: "bool \<Rightarrow> virtual_server \<Rightarrow> string" where
  "effective_server_status as_virtual server =
     (if vs_status server = ''offline'' \<and> as_virtual then ''virtual online''
      else if vs_status server = [] then ''online'' else vs_status server)"

definition server_list_row ::
    "baseline_runtime \<Rightarrow> command_request \<Rightarrow> query_session \<Rightarrow> virtual_server \<Rightarrow> row" where
  "server_list_row r request session server =
     insert_fields
       ([(''virtualserver_id'', word_to_string (vs_id server)),
         (''virtualserver_port'', word_to_string (vs_port server)),
         (''virtualserver_status'',
          effective_server_status
            (qs_virtual_mode session \<and> qs_selected_virtual_server_id session = Some (vs_id server)) server),
         (''virtualserver_clientsonline'', word_to_string (client_count_in_server r (vs_id server))),
         (''virtualserver_maxclients'', word_to_string (vs_max_clients server)),
         (''virtualserver_name'', vs_name server)]
        @ (if ''uid'' \<in> set (flags request) \<or> ''short'' \<notin> set (flags request)
           then [(''virtualserver_unique_identifier'', vs_unique_identifier server)] else [])) []"

definition handle_serverlist :: "command_request \<Rightarrow> query_session \<Rightarrow> baseline_runtime \<Rightarrow> query_response" where
  "handle_serverlist request session r =
     (if \<not> session_has_permission_actor session then response_error 521 ''login required''
      else
        let rs = map (server_list_row r request session)
              (filter (\<lambda>s. ''onlyoffline'' \<notin> set (flags request) \<or> vs_status s = ''offline'')
                (bt_values (st_virtual_servers (rt_store r))))
        in if rs = [] then response_error 0x501 ''database empty result set'' else response_ok_rows rs)"

definition server_property_key :: "u32 \<Rightarrow> string \<Rightarrow> string" where
  "server_property_key server_id key = ''vs:'' @ word_to_string server_id @ '':'' @ key"

definition server_property :: "baseline_runtime \<Rightarrow> u32 \<Rightarrow> string \<Rightarrow> string \<Rightarrow> string \<times> string" where
  "server_property r server_id key fallback =
     (key, unwrap_or fallback
             (bt_get (st_instance_properties (rt_store r)) (server_property_key server_id key)))"

definition handle_serverinfo :: "query_session \<Rightarrow> baseline_runtime \<Rightarrow> query_response" where
  "handle_serverinfo session r =
     (case selected_server r session of
        None \<Rightarrow> response_error 522 ''virtual server selection required''
      | Some server \<Rightarrow>
          response_ok_row (insert_fields
            [(''virtualserver_id'', word_to_string (vs_id server)),
             (''virtualserver_port'', word_to_string (vs_port server)),
             (''virtualserver_name'', vs_name server),
             (''virtualserver_status'', effective_server_status (qs_virtual_mode session) server),
             (''virtualserver_unique_identifier'', vs_unique_identifier server),
             (''virtualserver_welcomemessage'', vs_welcome_message server),
             (''virtualserver_hostmessage'', vs_host_message server),
             (''virtualserver_hostmessage_mode'', word_to_string (vs_host_message_mode server)),
             (''virtualserver_ask_for_privilegekey'', word_to_string (vs_ask_for_privilegekey server)),
             (''virtualserver_maxclients'', word_to_string (vs_max_clients server)),
             (''virtualserver_clientsonline'', word_to_string (client_count_in_server r (vs_id server))),
             (''virtualserver_channelsonline'',
              nat_to_string (length (unwrap_or [] (server_channels r (vs_id server))))),
             (''virtualserver_antiflood_points_tick_reduce'',
              word_to_string (vs_antiflood_points_tick_reduce server)),
             (''virtualserver_antiflood_points_needed_command_block'',
              word_to_string (vs_antiflood_points_needed_command_block server)),
             (''virtualserver_antiflood_points_needed_ip_block'',
              word_to_string (vs_antiflood_points_needed_ip_block server)),
             (''virtualserver_antiflood_ban_time'', word_to_string (vs_antiflood_ban_time server)),
             (''virtualserver_flag_password'', if vs_password server = [] then ''0'' else ''1''),
             (''virtualserver_password'', vs_password server),
             server_property r (vs_id server) ''virtualserver_complain_autoban_count'' ''5'',
             server_property r (vs_id server) ''virtualserver_complain_autoban_time'' ''1200'',
             server_property r (vs_id server) ''virtualserver_complain_remove_time'' ''3600''] []))"

definition web_server_variables_row :: "baseline_runtime \<Rightarrow> u32 \<Rightarrow> row option" where
  "web_server_variables_row r server_id =
     map_option
       (\<lambda>server. insert_fields
          [(''virtualserver_id'', word_to_string (vs_id server)),
           (''virtualserver_port'', word_to_string (vs_port server)),
           (''virtualserver_name'', vs_name server),
           (''virtualserver_unique_identifier'', vs_unique_identifier server),
           (''virtualserver_welcomemessage'', vs_welcome_message server),
           (''virtualserver_hostmessage'', vs_host_message server),
           (''virtualserver_hostmessage_mode'', word_to_string (vs_host_message_mode server)),
           (''virtualserver_ask_for_privilegekey'', word_to_string (vs_ask_for_privilegekey server)),
           (''virtualserver_clientsonline'', word_to_string (client_count_in_server r (vs_id server))),
           (''virtualserver_queryclientsonline'', nat_to_string (query_clients_on r (vs_id server))),
           (''virtualserver_maxclients'', word_to_string (vs_max_clients server)),
           (''virtualserver_antiflood_points_tick_reduce'',
            word_to_string (vs_antiflood_points_tick_reduce server)),
           (''virtualserver_antiflood_points_needed_command_block'',
            word_to_string (vs_antiflood_points_needed_command_block server)),
           (''virtualserver_antiflood_points_needed_ip_block'',
            word_to_string (vs_antiflood_points_needed_ip_block server)),
           (''virtualserver_antiflood_ban_time'', word_to_string (vs_antiflood_ban_time server)),
           (''virtualserver_icon_id'', ''0''), (''virtualserver_hostbanner_mode'', ''0''),
           (''virtualserver_hostbanner_url'', []), (''virtualserver_hostbanner_gfx_url'', []),
           (''virtualserver_hostbanner_gfx_interval'', ''0'')] [])
       (bt_get (st_virtual_servers (rt_store r)) server_id)"

definition handle_servergetvariables :: "query_session \<Rightarrow> baseline_runtime \<Rightarrow> query_response" where
  "handle_servergetvariables session r =
     (case qs_selected_virtual_server_id session of
        None \<Rightarrow> response_error 522 ''virtual server selection required''
      | Some server_id \<Rightarrow>
          (case web_server_variables_row r server_id of
             Some row \<Rightarrow> response_ok_row row
           | None \<Rightarrow> response_error 1024 ''invalid serverID''))"

section \<open>Editing a server\<close>

text \<open>The permissions a request needs, in the order in which they are asked for.\<close>

definition edit_guards :: "command_request \<Rightarrow> (bool \<times> string list \<times> string) list" where
  "edit_guards request =
     [(arg_given request ''virtualserver_name'', [''b_virtualserver_modify_name''], ''b_virtualserver_modify_name''),
      (arg_given request ''virtualserver_password'',
       [''b_virtualserver_modify_password'', ''b_virtualserver_modify_name''], ''b_virtualserver_modify_password''),
      (arg_given request ''virtualserver_welcomemessage'', [''b_virtualserver_modify_welcomemessage''],
       ''b_virtualserver_modify_welcomemessage''),
      (arg_given request ''virtualserver_hostmessage'' \<or> arg_given request ''virtualserver_hostmessage_mode'',
       [''b_virtualserver_modify_hostmessage''], ''b_virtualserver_modify_hostmessage''),
      (arg_given request ''virtualserver_maxclients'', [''b_virtualserver_modify_maxclients''],
       ''b_virtualserver_modify_maxclients''),
      (list_ex (starts_with ''virtualserver_antiflood_'') (bt_keys (named_args request)),
       [''b_virtualserver_modify_antiflood''], ''b_virtualserver_modify_antiflood''),
      (arg_given request ''virtualserver_ask_for_privilegekey'', [''b_virtualserver_modify_name''],
       ''b_virtualserver_modify_name'')]"

definition missing_permission :: "perm_map \<Rightarrow> (bool \<times> string list \<times> string) list \<Rightarrow> string option" where
  "missing_permission perms guards =
     find_map (\<lambda>(asked, names, name).
         if asked then (case check_required_permission perms names name of Inl p \<Rightarrow> Some p | Inr _ \<Rightarrow> None)
         else None) guards"

text \<open>The edits of the server itself. An edit with a bad value ends the command, and those before it stay.\<close>

definition edit_text ::
    "command_request \<Rightarrow> string \<Rightarrow> ((string \<Rightarrow> string) \<Rightarrow> virtual_server \<Rightarrow> virtual_server) \<Rightarrow>
       query_response option \<times> virtual_server \<Rightarrow> query_response option \<times> virtual_server" where
  "edit_text request key field acc =
     (case acc of
        (Some e, server) \<Rightarrow> (Some e, server)
      | (None, server) \<Rightarrow> (None, case arg request key of None \<Rightarrow> server | Some v \<Rightarrow> field (\<lambda>_. v) server))"

definition edit_parsed ::
    "(string \<Rightarrow> u32 option) \<Rightarrow> string \<Rightarrow> command_request \<Rightarrow> string \<Rightarrow>
       ((u32 \<Rightarrow> u32) \<Rightarrow> virtual_server \<Rightarrow> virtual_server) \<Rightarrow>
       query_response option \<times> virtual_server \<Rightarrow> query_response option \<times> virtual_server" where
  "edit_parsed parse complaint request key field acc =
     (case acc of
        (Some e, server) \<Rightarrow> (Some e, server)
      | (None, server) \<Rightarrow>
          (case arg request key of
             None \<Rightarrow> (None, server)
           | Some v \<Rightarrow>
               (case parse v of
                  None \<Rightarrow> (Some (response_error 512 (key @ complaint)), server)
                | Some n \<Rightarrow> (None, field (\<lambda>_. n) server))))"

definition flag_number :: "string \<Rightarrow> u32 option" where
  "flag_number v = map_option (\<lambda>b. if b then 1 else 0) (parse_query_bool v)"

abbreviation edit_number where
  "edit_number \<equiv> edit_parsed parse_word '' must be numeric''"

abbreviation edit_flag where
  "edit_flag \<equiv> edit_parsed flag_number '' must be 0 or 1''"

definition edit_server :: "command_request \<Rightarrow> virtual_server \<Rightarrow> query_response option \<times> virtual_server" where
  "edit_server request server =
     edit_number request ''virtualserver_antiflood_ban_time'' vs_antiflood_ban_time_update
     (edit_number request ''virtualserver_antiflood_points_needed_ip_block''
        vs_antiflood_points_needed_ip_block_update
     (edit_number request ''virtualserver_antiflood_points_needed_command_block''
        vs_antiflood_points_needed_command_block_update
     (edit_number request ''virtualserver_antiflood_points_tick_reduce''
        vs_antiflood_points_tick_reduce_update
     (edit_number request ''virtualserver_maxclients'' vs_max_clients_update
     (edit_flag request ''virtualserver_ask_for_privilegekey'' vs_ask_for_privilegekey_update
     (edit_number request ''virtualserver_hostmessage_mode'' vs_host_message_mode_update
     (edit_text request ''virtualserver_hostmessage'' vs_host_message_update
     (edit_text request ''virtualserver_welcomemessage'' vs_welcome_message_update
     (edit_text request ''virtualserver_password'' vs_password_update
     (edit_text request ''virtualserver_name'' vs_name_update (None, server)))))))))))"

definition complaint_keys :: "string list" where
  "complaint_keys =
     [''virtualserver_complain_autoban_count'', ''virtualserver_complain_autoban_time'',
      ''virtualserver_complain_remove_time'']"

fun edit_complaints ::
    "command_request \<Rightarrow> u32 \<Rightarrow> string list \<Rightarrow> (string, string) btree \<Rightarrow>
       query_response option \<times> (string, string) btree" where
  "edit_complaints request server_id [] props = (None, props)"
| "edit_complaints request server_id (key # keys) props =
     (case arg request key of
        None \<Rightarrow> edit_complaints request server_id keys props
      | Some v \<Rightarrow>
          (case (parse_word v :: u32 option) of
             None \<Rightarrow> (Some (response_error 512 (key @ '' must be numeric'')), props)
           | Some n \<Rightarrow> edit_complaints request server_id keys
                         (bt_insert (server_property_key server_id key) (word_to_string n) props)))"

definition server_keys :: "string list" where
  "server_keys =
     [''virtualserver_name'', ''virtualserver_password'', ''virtualserver_welcomemessage'',
      ''virtualserver_hostmessage'', ''virtualserver_hostmessage_mode'', ''virtualserver_ask_for_privilegekey'',
      ''virtualserver_maxclients'', ''virtualserver_antiflood_points_tick_reduce'',
      ''virtualserver_antiflood_points_needed_command_block'', ''virtualserver_antiflood_points_needed_ip_block'',
      ''virtualserver_antiflood_ban_time''] @ complaint_keys"

definition put_server :: "u32 \<Rightarrow> virtual_server \<Rightarrow> baseline_runtime \<Rightarrow> baseline_runtime" where
  "put_server server_id server r =
     upd_store (st_virtual_servers_update (bt_update server_id (\<lambda>_. server))) r"

definition handle_serveredit ::
    "command_request \<Rightarrow> query_session \<Rightarrow> baseline_runtime \<Rightarrow> query_response \<times> baseline_runtime" where
  "handle_serveredit request session r =
     (if \<not> session_has_permission_actor session then (response_error 521 ''login required'', r)
      else if named_args request = [] then (response_error 512 ''at least one server property is required'', r)
      else
     (case query_actor_effective_permissions r session of
        Inl e \<Rightarrow> (e, r)
      | Inr (_, actor_permissions) \<Rightarrow>
     (case missing_permission actor_permissions (edit_guards request) of
        Some p \<Rightarrow> (insufficient_permission_response r p, r)
      | None \<Rightarrow>
     (case qs_selected_virtual_server_id session of
        None \<Rightarrow> (response_error 522 ''virtual server selection required'', r)
      | Some selected \<Rightarrow>
     (case bt_get (st_virtual_servers (rt_store r)) selected of
        None \<Rightarrow> (response_error 522 ''virtual server selection required'', r)
      | Some server \<Rightarrow>
     (case edit_server request server of
        (Some e, server') \<Rightarrow> (e, put_server selected server' r)
      | (None, server') \<Rightarrow>
     (case edit_complaints request (vs_id server') complaint_keys (st_instance_properties (rt_store r)) of
        (complaint_error, props) \<Rightarrow>
          let r1 = upd_store (st_instance_properties_update (\<lambda>_. props)) (put_server selected server' r)
          in case complaint_error of
               Some e \<Rightarrow> (e, r1)
             | None \<Rightarrow>
                 if \<not> list_ex (arg_given request) server_keys
                 then (response_error 512 ''no supported server properties provided'', r1)
                 else (response_ok, emit [DbSaveVirtualServer server'] r1))))))))"

section \<open>Temporary passwords\<close>

definition prune_expired_temp_passwords :: "u64 \<Rightarrow> baseline_runtime \<Rightarrow> baseline_runtime" where
  "prune_expired_temp_passwords now r =
     upd_store (st_server_temp_passwords_update
       (filter (\<lambda>entry. tp_end_timestamp entry = 0 \<or> now < tp_end_timestamp entry))) r"

definition temp_password_permissions :: "string list" where
  "temp_password_permissions =
     [''b_virtualserver_modify_temporary_passwords'', ''b_virtualserver_modify_password'',
      ''b_virtualserver_modify_name'']"

definition drop_temp_password :: "u32 \<Rightarrow> string \<Rightarrow> server_temp_password list \<Rightarrow> server_temp_password list" where
  "drop_temp_password server_id pw = filter (\<lambda>entry. \<not> (tp_server_id entry = server_id \<and> tp_password entry = pw))"

definition requested_password :: "command_request \<Rightarrow> string option" where
  "requested_password request = opt_filter (\<lambda>pw. pw \<noteq> []) (arg request ''pw'')"

text \<open>The channel a temporary password leads to.\<close>

definition temp_password_target :: "baseline_runtime \<Rightarrow> command_request \<Rightarrow> u32 \<Rightarrow> query_response + u32" where
  "temp_password_target r request server_id =
     (case arg request ''tcid'' of
        None \<Rightarrow> Inr 0
      | Some v \<Rightarrow>
          (case parse_word v of
             None \<Rightarrow> Inl (response_error 512 ''tcid must be numeric'')
           | Some tcid \<Rightarrow>
               if tcid \<noteq> 0 \<and> \<not> channel_exists r server_id tcid
               then Inl (response_error 768 ''invalid channelID'') else Inr tcid))"

definition temp_password_guard :: "baseline_runtime \<Rightarrow> query_session \<Rightarrow> query_response + (u32 \<times> permission_actor_context)" where
  "temp_password_guard r session =
     (case require_server session of
        Inl e \<Rightarrow> Inl e
      | Inr server_id \<Rightarrow>
     (case query_actor_effective_permissions r session of
        Inl e \<Rightarrow> Inl e
      | Inr (actor, actor_permissions) \<Rightarrow>
     (case check_required_permission actor_permissions temp_password_permissions
             ''b_virtualserver_modify_temporary_passwords'' of
        Inl p \<Rightarrow> Inl (insufficient_permission_response r p)
      | Inr _ \<Rightarrow> Inr (server_id, actor))))"

definition new_temp_password ::
    "u64 \<Rightarrow> command_request \<Rightarrow> query_session \<Rightarrow> baseline_runtime \<Rightarrow> permission_actor_context \<Rightarrow> u32 \<Rightarrow> string \<Rightarrow>
       u64 \<Rightarrow> u32 \<Rightarrow> server_temp_password" where
  "new_temp_password now request session r actor server_id pw duration tcid =
     (let (invoker_uid, _, invoker_name) =
            unwrap_or (''serveradmin'', ac_client_database_id actor, effective_nickname session)
              (lookup_client_identity_by_dbid r server_id (ac_client_database_id actor))
      in \<lparr>tp_server_id = server_id, tp_password = pw, tp_password_clear = pw,
           tp_description = arg_or_empty request ''desc'', tp_start_timestamp = now,
           tp_end_timestamp = sat_add now duration, tp_target_channel_id = tcid,
           tp_target_channel_password = arg_or_empty request ''tcpw'',
           tp_invoker_name = invoker_name, tp_invoker_unique_id = invoker_uid\<rparr>)"

definition handle_servertemppasswordadd ::
    "u64 \<Rightarrow> command_request \<Rightarrow> query_session \<Rightarrow> baseline_runtime \<Rightarrow> query_response \<times> baseline_runtime" where
  "handle_servertemppasswordadd now request session r =
     (case temp_password_guard r session of
        Inl e \<Rightarrow> (e, r)
      | Inr (server_id, actor) \<Rightarrow>
     (case requested_password request of
        None \<Rightarrow> (response_error 512 ''pw is required'', r)
      | Some pw \<Rightarrow>
     (case arg request ''duration'' of
        None \<Rightarrow> (response_error 512 ''duration is required'', r)
      | Some duration_text \<Rightarrow>
     (case parse_word duration_text of
        None \<Rightarrow> (response_error 512 ''duration must be a positive integer'', r)
      | Some duration \<Rightarrow>
          if duration = 0 then (response_error 512 ''duration must be greater than 0'', r)
          else
     (case temp_password_target r request server_id of
        Inl e \<Rightarrow> (e, r)
      | Inr tcid \<Rightarrow>
          (response_ok,
           upd_store (st_server_temp_passwords_update (\<lambda>es. drop_temp_password server_id pw es
               @ [new_temp_password now request session r actor server_id pw duration tcid]))
             (prune_expired_temp_passwords now r)))))))"

definition handle_servertemppassworddel ::
    "u64 \<Rightarrow> command_request \<Rightarrow> query_session \<Rightarrow> baseline_runtime \<Rightarrow> query_response \<times> baseline_runtime" where
  "handle_servertemppassworddel now request session r =
     (case temp_password_guard r session of
        Inl e \<Rightarrow> (e, r)
      | Inr (server_id, _) \<Rightarrow>
     (case requested_password request of
        None \<Rightarrow> (response_error 512 ''pw is required'', r)
      | Some pw \<Rightarrow>
          let r1 = prune_expired_temp_passwords now r;
              kept = drop_temp_password server_id pw (st_server_temp_passwords (rt_store r1));
              r2 = upd_store (st_server_temp_passwords_update (\<lambda>_. kept)) r1
          in (if length kept = length (st_server_temp_passwords (rt_store r1))
              then response_error 1281 ''database empty result set'' else response_ok, r2)))"

definition temp_password_row :: "server_temp_password \<Rightarrow> row" where
  "temp_password_row entry =
     insert_fields
       [(''nickname'', tp_invoker_name entry), (''uid'', tp_invoker_unique_id entry),
        (''desc'', tp_description entry), (''pw_clear'', tp_password_clear entry),
        (''start'', word_to_string (tp_start_timestamp entry)), (''end'', word_to_string (tp_end_timestamp entry)),
        (''tcid'', word_to_string (tp_target_channel_id entry)), (''pw'', tp_password entry)] []"

definition handle_servertemppasswordlist ::
    "u64 \<Rightarrow> query_session \<Rightarrow> baseline_runtime \<Rightarrow> query_response \<times> baseline_runtime" where
  "handle_servertemppasswordlist now session r =
     (case temp_password_guard r session of
        Inl e \<Rightarrow> (e, r)
      | Inr (server_id, _) \<Rightarrow>
          let r1 = prune_expired_temp_passwords now r
          in (response_ok_rows
                (map temp_password_row
                  (filter (\<lambda>entry. tp_server_id entry = server_id) (st_server_temp_passwords (rt_store r1)))), r1))"

text \<open>
  The password a client presents. \<open>None\<close> is the refusal; otherwise the channel that a temporary password
  leads to, with its password.
\<close>

definition opens :: "u32 \<Rightarrow> string \<Rightarrow> server_temp_password \<Rightarrow> bool" where
  "opens server_id pw entry =
     (tp_server_id entry = server_id \<and> pw \<noteq> [] \<and> (tp_password entry = pw \<or> tp_password_clear entry = pw))"

definition may_ignore_password :: "baseline_runtime \<Rightarrow> u32 \<Rightarrow> u64 \<Rightarrow> bool" where
  "may_ignore_password r server_id cldbid =
     (case effective_permissions_for_client r server_id
             (unwrap_or 1 (default_channel_id_for_server r server_id)) cldbid of
        None \<Rightarrow> False
      | Some perms \<Rightarrow>
          check_required_permission perms [''b_virtualserver_join_ignore_password'']
            ''b_virtualserver_join_ignore_password'' = Inr ())"

definition verify_server_password ::
    "u64 \<Rightarrow> u32 \<Rightarrow> string \<Rightarrow> u64 option \<Rightarrow> baseline_runtime \<Rightarrow>
       (u32 \<times> string) option option \<times> baseline_runtime" where
  "verify_server_password now server_id pw client_database_id r =
     (let r1 = prune_expired_temp_passwords now r in
      (case List.find (opens server_id pw) (st_server_temp_passwords (rt_store r1)) of
         Some entry \<Rightarrow>
           Some (if tp_target_channel_id entry \<noteq> 0
                 then Some (tp_target_channel_id entry, tp_target_channel_password entry) else None)
       | None \<Rightarrow>
      (case bt_get (st_virtual_servers (rt_store r1)) server_id of
         None \<Rightarrow> Some None
       | Some server \<Rightarrow>
           if vs_password server = [] \<or> vs_password server = pw then Some None
           else if (case client_database_id of None \<Rightarrow> False | Some cldbid \<Rightarrow> may_ignore_password r1 server_id cldbid)
           then Some None else None), r1))"

section \<open>Temporary passwords open the server until they end\<close>

definition alive :: "u64 \<Rightarrow> server_temp_password \<Rightarrow> bool" where
  "alive now entry = (tp_end_timestamp entry = 0 \<or> now < tp_end_timestamp entry)"

definition temp_passwords :: "baseline_runtime \<Rightarrow> server_temp_password list" where
  "temp_passwords r = st_server_temp_passwords (rt_store r)"

text \<open>The entries that the code makes have one password.\<close>

definition plain_entries :: "baseline_runtime \<Rightarrow> bool" where
  "plain_entries r = list_all (\<lambda>entry. tp_password entry = tp_password_clear entry) (temp_passwords r)"

definition set_temp_passwords :: "server_temp_password list \<Rightarrow> baseline_runtime \<Rightarrow> baseline_runtime" where
  "set_temp_passwords es r = upd_store (st_server_temp_passwords_update (\<lambda>_. es)) r"

lemma temp_set [simp]: "temp_passwords (set_temp_passwords es r) = es" "set_temp_passwords es (set_temp_passwords ds r) = set_temp_passwords es r"
  by (simp_all add: temp_passwords_def set_temp_passwords_def upd_store_def)

lemma prune_sets: "prune_expired_temp_passwords now r = set_temp_passwords (filter (alive now) (temp_passwords r)) r"
  by (simp add: prune_expired_temp_passwords_def set_temp_passwords_def temp_passwords_def upd_store_def alive_def [abs_def])

lemma server_channels_set [simp]: "server_channels (set_temp_passwords es r) = server_channels r"
  by (simp add: fun_eq_iff server_channels_def set_temp_passwords_def)

lemma may_ignore_set [simp]: "may_ignore_password (set_temp_passwords es r) = may_ignore_password r"
proof -
  have lookups: "online_client_by_cldbid (set_temp_passwords es r) = online_client_by_cldbid r"
    "query_account_by_cldbid (set_temp_passwords es r) = query_account_by_cldbid r"
    "client_permission_target (set_temp_passwords es r) = client_permission_target r"
    "effective_channel_group (set_temp_passwords es r) = effective_channel_group r"
    "groups_of_ids (set_temp_passwords es r) = groups_of_ids r"
    "channel_by_id (set_temp_passwords es r) = channel_by_id r"
    "st_clients (rt_store (set_temp_passwords es r)) = st_clients (rt_store r)"
    "st_custom_client_properties (rt_store (set_temp_passwords es r)) = st_custom_client_properties (rt_store r)"
    "st_channel_client_permissions (rt_store (set_temp_passwords es r)) = st_channel_client_permissions (rt_store r)"
    by (simp_all add: fun_eq_iff online_client_by_cldbid_def query_account_by_cldbid_def client_permission_target_def
        effective_channel_group_def default_channel_group_id_def groups_of_ids_def channel_by_id_def)
      (simp_all add: set_temp_passwords_def default_channel_group_id_def cong: option.case_cong)
  show ?thesis
    by (simp add: fun_eq_iff may_ignore_password_def effective_permissions_for_client_def lookups
        effective_permissions_for_client_in_channel_context_def default_channel_id_for_server_def server_group_perms_def
        client_tier_def channel_tier_def channel_group_tier_def channel_client_tier_def cong: option.case_cong if_cong)
qed

text \<open>What admits a client without a temporary password.\<close>

definition standing_admission :: "baseline_runtime \<Rightarrow> u32 \<Rightarrow> string \<Rightarrow> u64 option \<Rightarrow> (u32 \<times> string) option option" where
  "standing_admission r server_id pw client =
     (case bt_get (st_virtual_servers (rt_store r)) server_id of
        None \<Rightarrow> Some None
      | Some server \<Rightarrow>
          if vs_password server = [] \<or> vs_password server = pw
             \<or> (case client of None \<Rightarrow> False | Some cldbid \<Rightarrow> may_ignore_password r server_id cldbid)
          then Some None else None)"

lemma verify_cases:
  "fst (verify_server_password now server_id pw client r) =
     (case List.find (opens server_id pw) (filter (alive now) (temp_passwords r)) of
        Some entry \<Rightarrow>
          Some (if tp_target_channel_id entry \<noteq> 0
                then Some (tp_target_channel_id entry, tp_target_channel_password entry) else None)
      | None \<Rightarrow> standing_admission r server_id pw client)"
proof -
  have "st_server_temp_passwords (rt_store (set_temp_passwords es r)) = es"
    "st_virtual_servers (rt_store (set_temp_passwords es r)) = st_virtual_servers (rt_store r)" for es
    by (simp_all add: set_temp_passwords_def)
  then show ?thesis
    by (auto simp: verify_server_password_def prune_sets Let_def standing_admission_def split: option.split)
qed

lemma standing_set [simp]: "standing_admission (set_temp_passwords es r) = standing_admission r"
proof -
  have "st_virtual_servers (rt_store (set_temp_passwords es r)) = st_virtual_servers (rt_store r)"
    by (simp add: set_temp_passwords_def)
  then show ?thesis by (simp add: fun_eq_iff standing_admission_def cong: option.case_cong)
qed

lemma find_in_append: "List.find P (xs @ ys) = (case List.find P xs of None \<Rightarrow> List.find P ys | Some x \<Rightarrow> Some x)"
  by (induction xs) auto

lemma temp_password_guard_error: "temp_password_guard r session = Inl e \<Longrightarrow> error_id e \<noteq> 0"
  by (auto simp: temp_password_guard_def insufficient_permission_response_def response_defs
      dest: require_server_error actor_permissions_error split: sum.splits)

lemma temp_password_target_error: "temp_password_target r request server_id = Inl e \<Longrightarrow> error_id e \<noteq> 0"
  by (auto simp: temp_password_target_def response_defs split: option.splits if_splits)

lemma temp_password_guard_server:
  "temp_password_guard r session = Inr (server_id, actor) \<Longrightarrow> qs_selected_virtual_server_id session = Some server_id"
  by (auto simp: temp_password_guard_def require_server_def split: sum.splits option.splits if_splits)

definition temp_added ::
    "u64 \<Rightarrow> command_request \<Rightarrow> query_session \<Rightarrow> baseline_runtime \<Rightarrow> query_response \<times> baseline_runtime \<Rightarrow> bool" where
  "temp_added now request session r res =
     (\<exists>actor server_id pw duration tcid.
        temp_password_guard r session = Inr (server_id, actor) \<and> requested_password request = Some pw
        \<and> Option.bind (arg request ''duration'') parse_word = Some duration \<and> duration \<noteq> 0
        \<and> temp_password_target r request server_id = Inr tcid
        \<and> snd res = set_temp_passwords
            (drop_temp_password server_id pw (filter (alive now) (temp_passwords r))
              @ [new_temp_password now request session r actor server_id pw duration tcid]) r)"

lemma new_temp_password_simps [simp]:
  "tp_server_id (new_temp_password now request session r actor server_id pw duration tcid) = server_id"
  "tp_password (new_temp_password now request session r actor server_id pw duration tcid) = pw"
  "tp_password_clear (new_temp_password now request session r actor server_id pw duration tcid) = pw"
  "tp_end_timestamp (new_temp_password now request session r actor server_id pw duration tcid) = sat_add now duration"
  "tp_target_channel_id (new_temp_password now request session r actor server_id pw duration tcid) = tcid"
  "tp_target_channel_password (new_temp_password now request session r actor server_id pw duration tcid)
     = arg_or_empty request ''tcpw''"
  by (simp_all add: new_temp_password_def case_prod_beta Let_def)

lemma upd_temp_passwords:
  "upd_store (st_server_temp_passwords_update f) (set_temp_passwords es r) = set_temp_passwords (f es) r"
  by (simp add: set_temp_passwords_def upd_store_def)

lemma servertemppasswordadd_ok: "ok_then (temp_added now request session r) (handle_servertemppasswordadd now request session r)"
  unfolding handle_servertemppasswordadd_def
  by (intro ok_then_branches;
      (rule ok_then_error, fastforce simp: response_defs dest: temp_password_guard_error temp_password_target_error)?)
    (simp add: ok_then_def temp_added_def prune_sets upd_temp_passwords)

lemma still_alive: "now \<le> t \<Longrightarrow> filter (alive t) (filter (alive now) es) = filter (alive t) es"
  by (induction es) (auto simp: alive_def)

lemma dropped_opens:
  assumes "list_all (\<lambda>entry. tp_password entry = tp_password_clear entry) es"
  shows "List.find (opens sid p) (filter (alive t) (drop_temp_password server_id pw es)) =
    (if sid = server_id \<and> p = pw then None else List.find (opens sid p) (filter (alive t) es))"
  using assms by (induction es) (auto simp: drop_temp_password_def opens_def find_None_iff)

lemma end_not_zero:
  fixes now duration :: u64
  assumes "duration \<noteq> 0"
  shows "sat_add now duration \<noteq> 0"
proof -
  have "0 < unat duration" using assms by (simp add: unat_gt_0)
  then show ?thesis using unat_sat_add [of now duration] by (auto simp: word_unat_eq_iff unat_max_word)
qed

text \<open>
  Property C33: a temporary password opens its server, and leads to its channel, from its creation until it
  ends, and afterwards is worth what it was without it. No other password and no other server is affected.
\<close>

theorem temp_password_window:
  assumes "handle_servertemppasswordadd now request session r = (resp, r')" and "error_id resp = 0" and "plain_entries r"
  shows "\<exists>server_id pw duration tcid.
    qs_selected_virtual_server_id session = Some server_id \<and> arg request ''pw'' = Some pw
    \<and> Option.bind (arg request ''duration'') parse_word = Some duration
    \<and> (case arg request ''tcid'' of None \<Rightarrow> Some 0 | Some v \<Rightarrow> parse_word v) = Some tcid
    \<and> (\<forall>t client. now \<le> t \<longrightarrow>
         fst (verify_server_password t server_id pw client r') =
           (if t < sat_add now duration
            then Some (if tcid \<noteq> 0 then Some (tcid, arg_or_empty request ''tcpw'') else None)
            else standing_admission r server_id pw client))
    \<and> (\<forall>t sid p client. now \<le> t \<and> (sid, p) \<noteq> (server_id, pw) \<longrightarrow>
         fst (verify_server_password t sid p client r') = fst (verify_server_password t sid p client r))"
proof -
  obtain actor server_id pw duration tcid where
    g: "temp_password_guard r session = Inr (server_id, actor)" and p: "requested_password request = Some pw"
    and d: "Option.bind (arg request ''duration'') parse_word = Some duration" "duration \<noteq> 0"
    and tc: "temp_password_target r request server_id = Inr tcid"
    and r': "r' = set_temp_passwords (drop_temp_password server_id pw (filter (alive now) (temp_passwords r))
      @ [new_temp_password now request session r actor server_id pw duration tcid]) r"
    using servertemppasswordadd_ok [of now request session r] assms(1,2) by (auto simp: ok_then_def temp_added_def)
  define new where "new = new_temp_password now request session r actor server_id pw duration tcid"
  have new: "tp_server_id new = server_id" "tp_password new = pw" "tp_password_clear new = pw"
      "tp_end_timestamp new = sat_add now duration" "tp_target_channel_id new = tcid"
      "tp_target_channel_password new = arg_or_empty request ''tcpw''"
    by (simp_all add: new_def)
  note r' = r' [folded new_def]
  have s: "qs_selected_virtual_server_id session = Some server_id" by (rule temp_password_guard_server [OF g])
  have pw: "arg request ''pw'' = Some pw" "pw \<noteq> []"
    using p by (auto simp: requested_password_def opt_filter_def split: option.splits if_splits)
  have target: "(case arg request ''tcid'' of None \<Rightarrow> Some 0 | Some v \<Rightarrow> parse_word v) = Some tcid"
    using tc by (auto simp: temp_password_target_def split: option.splits if_splits)
  have plain: "list_all (\<lambda>entry. tp_password entry = tp_password_clear entry) (filter (alive now) (temp_passwords r))"
    using assms(3) by (auto simp: plain_entries_def list_all_iff)
  have alive_new: "alive t new \<longleftrightarrow> t < sat_add now duration" for t
    using end_not_zero [OF d(2), of now] by (simp add: alive_def new)
  have found: "List.find (opens sid p) (filter (alive t) (temp_passwords r')) =
      (if sid = server_id \<and> p = pw then if t < sat_add now duration then Some new else None
       else List.find (opens sid p) (filter (alive t) (temp_passwords r)))" if "now \<le> t" for sid p t
    using new(1-3) pw(2) still_alive [OF that, of "temp_passwords r"]
    by (auto simp: r' find_in_append dropped_opens [OF plain] alive_new opens_def split: option.split)
  have standing: "standing_admission r' = standing_admission r" by (simp add: r')
  have "fst (verify_server_password t server_id pw client r') =
      (if t < sat_add now duration then Some (if tcid \<noteq> 0 then Some (tcid, arg_or_empty request ''tcpw'') else None)
       else standing_admission r server_id pw client)" if "now \<le> t" for t client
    by (simp add: verify_cases found [OF that] standing new)
  moreover have "fst (verify_server_password t sid p client r') = fst (verify_server_password t sid p client r)"
    if "now \<le> t" "(sid, p) \<noteq> (server_id, pw)" for t sid p client
    using that(2) by (simp add: verify_cases found [OF that(1)] standing del: prod.inject cong: option.case_cong) auto
  ultimately show ?thesis using s pw(1) d(1) target by blast
qed

text \<open>A removed temporary password is worth nothing more.\<close>

definition temp_removed ::
    "u64 \<Rightarrow> command_request \<Rightarrow> query_session \<Rightarrow> baseline_runtime \<Rightarrow> query_response \<times> baseline_runtime \<Rightarrow> bool" where
  "temp_removed now request session r res =
     (\<exists>server_id actor pw. temp_password_guard r session = Inr (server_id, actor) \<and> requested_password request = Some pw
        \<and> snd res = set_temp_passwords (drop_temp_password server_id pw (filter (alive now) (temp_passwords r))) r)"

lemma servertemppassworddel_ok: "ok_then (temp_removed now request session r) (handle_servertemppassworddel now request session r)"
  unfolding handle_servertemppassworddel_def Let_def
  by (intro ok_then_branches;
      (rule ok_then_error, fastforce simp: response_defs dest: temp_password_guard_error)?)
    (simp add: ok_then_def temp_removed_def prune_sets upd_temp_passwords temp_passwords_def [symmetric])

lemma servertemppassworddel_closes:
  assumes "handle_servertemppassworddel now request session r = (resp, r')" and "error_id resp = 0" and "plain_entries r"
  shows "\<exists>server_id pw. qs_selected_virtual_server_id session = Some server_id \<and> arg request ''pw'' = Some pw
    \<and> (\<forall>t client. now \<le> t \<longrightarrow> fst (verify_server_password t server_id pw client r') = standing_admission r server_id pw client)"
proof -
  obtain server_id actor pw where g: "temp_password_guard r session = Inr (server_id, actor)"
    and p: "requested_password request = Some pw"
    and r': "r' = set_temp_passwords (drop_temp_password server_id pw (filter (alive now) (temp_passwords r))) r"
    using servertemppassworddel_ok [of now request session r] assms(1,2) by (auto simp: ok_then_def temp_removed_def)
  have plain: "list_all (\<lambda>entry. tp_password entry = tp_password_clear entry) (filter (alive now) (temp_passwords r))"
    using assms(3) by (auto simp: plain_entries_def list_all_iff)
  have "arg request ''pw'' = Some pw"
    using p by (auto simp: requested_password_def opt_filter_def split: option.splits if_splits)
  moreover have "fst (verify_server_password t server_id pw client r') = standing_admission r server_id pw client" for t client
    by (simp add: verify_cases r' dropped_opens [OF plain])
  ultimately show ?thesis using temp_password_guard_server [OF g] by blast
qed

section \<open>What an edit does\<close>

lemma edit_textE:
  assumes "edit_text request key field acc = (None, server')" and "\<And>s. field (\<lambda>x. x) s = s"
  obtains s where "acc = (None, s)" "server' = field (\<lambda>old. unwrap_or old (arg request key)) s"
  using assms by (cases acc) (auto simp: edit_text_def unwrap_or_def split: option.splits)

lemma edit_parsedE:
  assumes "edit_parsed parse complaint request key field acc = (None, server')" and "\<And>s. field (\<lambda>x. x) s = s"
  obtains s where "acc = (None, s)" "server' = field (\<lambda>old. unwrap_or old (Option.bind (arg request key) parse)) s"
    "\<forall>v. arg request key = Some v \<longrightarrow> parse v \<noteq> None"
  using assms by (cases acc) (auto simp: edit_parsed_def unwrap_or_def split: option.splits)

lemma update_ids [simp]:
  "vs_name_update (\<lambda>x. x) s = s" "vs_password_update (\<lambda>x. x) s = s" "vs_welcome_message_update (\<lambda>x. x) s = s"
  "vs_host_message_update (\<lambda>x. x) s = s" "vs_host_message_mode_update (\<lambda>x. x) s = s"
  "vs_ask_for_privilegekey_update (\<lambda>x. x) s = s" "vs_max_clients_update (\<lambda>x. x) s = s"
  "vs_antiflood_points_tick_reduce_update (\<lambda>x. x) s = s"
  "vs_antiflood_points_needed_command_block_update (\<lambda>x. x) s = s"
  "vs_antiflood_points_needed_ip_block_update (\<lambda>x. x) s = s" "vs_antiflood_ban_time_update (\<lambda>x. x) s = s"
  for s :: virtual_server
  by simp_all

definition field_set :: "command_request \<Rightarrow> string \<Rightarrow> (string \<Rightarrow> 'a option) \<Rightarrow> 'a \<Rightarrow> 'a \<Rightarrow> bool" where
  "field_set request key parse old new =
     (case arg request key of None \<Rightarrow> new = old | Some v \<Rightarrow> parse v = Some new)"

definition server_edited :: "command_request \<Rightarrow> virtual_server \<Rightarrow> virtual_server \<Rightarrow> bool" where
  "server_edited request s s' =
     (vs_id s' = vs_id s \<and> vs_port s' = vs_port s \<and> vs_status s' = vs_status s
      \<and> vs_unique_identifier s' = vs_unique_identifier s
      \<and> field_set request ''virtualserver_name'' Some (vs_name s) (vs_name s')
      \<and> field_set request ''virtualserver_password'' Some (vs_password s) (vs_password s')
      \<and> field_set request ''virtualserver_welcomemessage'' Some (vs_welcome_message s) (vs_welcome_message s')
      \<and> field_set request ''virtualserver_hostmessage'' Some (vs_host_message s) (vs_host_message s')
      \<and> field_set request ''virtualserver_hostmessage_mode'' parse_word (vs_host_message_mode s) (vs_host_message_mode s')
      \<and> field_set request ''virtualserver_ask_for_privilegekey'' flag_number
          (vs_ask_for_privilegekey s) (vs_ask_for_privilegekey s')
      \<and> field_set request ''virtualserver_maxclients'' parse_word (vs_max_clients s) (vs_max_clients s')
      \<and> field_set request ''virtualserver_antiflood_points_tick_reduce'' parse_word
          (vs_antiflood_points_tick_reduce s) (vs_antiflood_points_tick_reduce s')
      \<and> field_set request ''virtualserver_antiflood_points_needed_command_block'' parse_word
          (vs_antiflood_points_needed_command_block s) (vs_antiflood_points_needed_command_block s')
      \<and> field_set request ''virtualserver_antiflood_points_needed_ip_block'' parse_word
          (vs_antiflood_points_needed_ip_block s) (vs_antiflood_points_needed_ip_block s')
      \<and> field_set request ''virtualserver_antiflood_ban_time'' parse_word
          (vs_antiflood_ban_time s) (vs_antiflood_ban_time s'))"

lemma field_set_text: "field_set request key Some old (unwrap_or old (arg request key))"
  by (simp add: field_set_def unwrap_or_def split: option.split)

lemma field_set_parsed:
  "\<forall>v. arg request key = Some v \<longrightarrow> parse v \<noteq> None \<Longrightarrow>
     field_set request key parse old (unwrap_or old (Option.bind (arg request key) parse))"
  by (auto simp: field_set_def unwrap_or_def split: option.splits)

lemma edit_server_ok:
  assumes "edit_server request server = (None, server')"
  shows "server_edited request server server'"
  using assms unfolding edit_server_def
  by (elim edit_parsedE edit_textE) (simp_all add: server_edited_def field_set_text field_set_parsed)

definition fails_with_error :: "query_response option \<times> virtual_server \<Rightarrow> bool" where
  "fails_with_error acc = (\<forall>e. fst acc = Some e \<longrightarrow> error_id e \<noteq> 0)"

lemma edits_fail_with_error:
  "fails_with_error acc \<Longrightarrow> fails_with_error (edit_parsed parse complaint request key field acc)"
  "fails_with_error acc \<Longrightarrow> fails_with_error (edit_text request key field' acc)"
  by (auto simp: fails_with_error_def edit_parsed_def edit_text_def response_defs split: prod.splits option.splits)

lemma edit_server_error: "edit_server request server = (Some e, server') \<Longrightarrow> error_id e \<noteq> 0"
proof -
  have "fails_with_error (edit_server request server)"
    unfolding edit_server_def by (intro edits_fail_with_error) (simp add: fails_with_error_def)
  then show "edit_server request server = (Some e, server') \<Longrightarrow> error_id e \<noteq> 0" by (simp add: fails_with_error_def)
qed

lemma edit_complaints_error: "edit_complaints request server_id keys props = (Some e, props') \<Longrightarrow> error_id e \<noteq> 0"
  by (induction request server_id keys props rule: edit_complaints.induct) (auto simp: response_defs split: option.splits)

lemma edit_complaints_other:
  "k \<notin> server_property_key server_id ` set keys \<Longrightarrow>
     bt_get (snd (edit_complaints request server_id keys props)) k = bt_get props k"
  by (induction request server_id keys props rule: edit_complaints.induct)
    (auto simp: bt_get_insert split: option.splits)

definition servers :: "baseline_runtime \<Rightarrow> (u32, virtual_server) btree" where
  "servers r = st_virtual_servers (rt_store r)"

definition server_edit_done ::
    "command_request \<Rightarrow> query_session \<Rightarrow> baseline_runtime \<Rightarrow> query_response \<times> baseline_runtime \<Rightarrow> bool" where
  "server_edit_done request session r res =
     (\<exists>server_id server server' actor perms.
        qs_selected_virtual_server_id session = Some server_id \<and> bt_get (servers r) server_id = Some server
        \<and> query_actor_effective_permissions r session = Inr (actor, perms)
        \<and> missing_permission perms (edit_guards request) = None
        \<and> server_edited request server server'
        \<and> bt_get (servers (snd res)) = (bt_get (servers r))(server_id \<mapsto> server')
        \<and> (\<forall>k. k \<notin> server_property_key (vs_id server) ` set complaint_keys \<longrightarrow>
             bt_get (st_instance_properties (rt_store (snd res))) k = bt_get (st_instance_properties (rt_store r)) k)
        \<and> (\<exists>ps. rt_store (snd res) = (rt_store r)\<lparr>st_virtual_servers := servers (snd res), st_instance_properties := ps\<rparr>))"

lemma serveredit_ok: "ok_then (server_edit_done request session r) (handle_serveredit request session r)"
proof -
  have finished: "server_edit_done request session r (resp, emit es
      (upd_store (st_instance_properties_update (\<lambda>_. snd (edit_complaints request (vs_id server') complaint_keys
         (st_instance_properties (rt_store r))))) (put_server server_id server' r)))"
    if "qs_selected_virtual_server_id session = Some server_id"
      "bt_get (st_virtual_servers (rt_store r)) server_id = Some server"
      "query_actor_effective_permissions r session = Inr (actor, perms)"
      "missing_permission perms (edit_guards request) = None" "edit_server request server = (None, server')"
    for server_id server actor perms server' resp es
  proof -
    have e: "server_edited request server server'" by (rule edit_server_ok [OF that(5)])
    then have same_id: "vs_id server' = vs_id server" by (simp add: server_edited_def)
    have "bt_get (bt_update server_id (\<lambda>_. server') (servers r)) = (bt_get (servers r))(server_id \<mapsto> server')"
      using that(2) by (auto simp: fun_eq_iff bt_get_update servers_def)
    moreover have "rt_store (emit es (upd_store (st_instance_properties_update (\<lambda>_. ps)) (put_server server_id server' r)))
        = (rt_store r)\<lparr>st_virtual_servers := bt_update server_id (\<lambda>_. server') (servers r), st_instance_properties := ps\<rparr>" for ps
      by (simp add: put_server_def servers_def)
    ultimately show ?thesis
      using that(1-4) e edit_complaints_other [of _ "vs_id server" complaint_keys request "st_instance_properties (rt_store r)"]
      unfolding server_edit_done_def snd_conv same_id
      by (intro exI [of _ server_id] exI [of _ server] exI [of _ server'] exI [of _ actor] exI [of _ perms]) (auto simp: servers_def)
  qed
  show ?thesis
    unfolding handle_serveredit_def Let_def
    by (intro ok_then_branches;
        (rule ok_then_error, fastforce simp: response_defs insufficient_permission_response_def
          dest: actor_permissions_error edit_server_error edit_complaints_error)?)
      (rule ok_then_I, metis finished snd_conv)
qed


section \<open>Examples\<close>

definition demo_server :: virtual_server where
  "demo_server =
     \<lparr>vs_id = 1, vs_port = 9987, vs_name = ''Demo'', vs_status = ''online'', vs_password = ''gate'',
      vs_unique_identifier = ''uid'', vs_welcome_message = [], vs_host_message = [], vs_host_message_mode = 0,
      vs_ask_for_privilegekey = 0, vs_max_clients = 32, vs_antiflood_points_tick_reduce = 10,
      vs_antiflood_points_needed_command_block = 150, vs_antiflood_points_needed_ip_block = 250,
      vs_antiflood_ban_time = 300\<rparr>"

definition server_demo :: baseline_runtime where
  "server_demo = empty_runtime\<lparr>rt_store := empty_store\<lparr>
     st_virtual_servers := [(1, demo_server)],
     st_channels := [(1, [demo_channel 1 0, demo_channel 2 0])],
     st_query_accounts :=
       [(''ops'', token_account\<lparr>qa_permissions :=
           [(''b_virtualserver_modify_hostmessage'', perm 1), (''b_virtualserver_modify_name'', perm 1)]\<rparr>)],
     st_server_groups := [(7, new_server_group 7 ''Guest Server Query'' 1)]\<rparr>\<rparr>"

definition guest_pass_request :: command_request where
  "guest_pass_request = account_request ''servertemppasswordadd''
     [(''duration'', ''60''), (''pw'', ''guest''), (''tcid'', ''2''), (''tcpw'', ''room'')]"

theorem temp_password_window_witness:
  "let r' = snd (handle_servertemppasswordadd 1000 guest_pass_request token_session server_demo) in
   fst (verify_server_password 1059 1 ''guest'' None r') = Some (Some (2, ''room''))
   \<and> fst (verify_server_password 1060 1 ''guest'' None r') = None
   \<and> fst (verify_server_password 1060 1 ''gate'' None r') = Some None"
proof -
  let ?res = "handle_servertemppasswordadd 1000 guest_pass_request token_session server_demo"
  have run: "?res = (fst ?res, snd ?res)" "error_id (fst ?res) = 0" "plain_entries server_demo" by (simp, code_simp+)
  have args: "qs_selected_virtual_server_id token_session = Some 1" "arg guest_pass_request ''pw'' = Some ''guest''"
    "Option.bind (arg guest_pass_request ''duration'') parse_word = Some (60 :: u64)"
    "(case arg guest_pass_request ''tcid'' of None \<Rightarrow> Some 0 | Some v \<Rightarrow> parse_word v) = Some (2 :: u32)"
    "arg_or_empty guest_pass_request ''tcpw'' = ''room''" "sat_add 1000 60 = (1060 :: u64)"
    "standing_admission server_demo 1 ''guest'' None = None"
    "fst (verify_server_password 1060 1 ''gate'' None server_demo) = Some None"
    by code_simp+
  obtain server_id pw duration tcid where w: "qs_selected_virtual_server_id token_session = Some server_id"
    "arg guest_pass_request ''pw'' = Some pw" "Option.bind (arg guest_pass_request ''duration'') parse_word = Some duration"
    "(case arg guest_pass_request ''tcid'' of None \<Rightarrow> Some 0 | Some v \<Rightarrow> parse_word v) = Some tcid"
    and inside: "\<forall>t client. 1000 \<le> t \<longrightarrow>
         fst (verify_server_password t server_id pw client (snd ?res)) =
           (if t < sat_add 1000 duration
            then Some (if tcid \<noteq> 0 then Some (tcid, arg_or_empty guest_pass_request ''tcpw'') else None)
            else standing_admission server_demo server_id pw client)"
    and outside: "\<forall>t sid p client. 1000 \<le> t \<and> (sid, p) \<noteq> (server_id, pw) \<longrightarrow>
         fst (verify_server_password t sid p client (snd ?res)) = fst (verify_server_password t sid p client server_demo)"
    using temp_password_window [OF run] by (elim exE conjE) (rule that)
  have "server_id = 1" "pw = ''guest''" "duration = 60" "tcid = 2" using w args by simp_all
  then show ?thesis
    using inside [rule_format, of 1059 None] inside [rule_format, of 1060 None]
      outside [rule_format, of 1060 1 "''gate''" None] args
    by (simp add: Let_def)
qed

definition rename_server_request :: command_request where
  "rename_server_request = account_request ''serveredit'' [(''virtualserver_name'', ''New''), (''virtualserver_password'', [])]"


text \<open>A refused \<open>serveredit\<close> keeps the fields it had read before the bad one.\<close>

theorem serveredit_refused_in_part:
  "let (resp, r') = handle_serveredit
         (account_request ''serveredit'' [(''virtualserver_hostmessage_mode'', ''x''), (''virtualserver_name'', ''New'')])
         token_session server_demo
   in error_id resp = 512 \<and> map_option vs_name (bt_get (servers r') 1) = Some ''New''"
  by code_simp

text \<open>\<open>serverinfo\<close> answers the password of the server to every session with a selected server, also without a login.\<close>

theorem serverinfo_shows_password:
  "map (\<lambda>row. bt_get row ''virtualserver_password'')
     (rows (handle_serverinfo (default_session\<lparr>qs_selected_virtual_server_id := Some 1\<rparr>) server_demo))
   = [Some ''gate'']"
  by code_simp

end
