(* ===== verification/Server_Lifecycle.thy ===== *)
theory Server_Lifecycle
  imports Server_Commands
begin

text \<open>
  The lifecycle of a virtual server and its snapshots,
  \<open>runtime/handlers/server_lifecycle_and_snapshots.rs\<close>. The messages to the process that opens and closes
  the sockets of a server are effects. A snapshot is serialised by \<open>serde_json\<close>, encoded in base64 and
  given a SHA-1 hash; these are the fields of the record \<open>snapshot_codec\<close>. The \<open>Persisted\<close> structs of
  the payload have the fields of the runtime structs and are modelled by them.
\<close>

section \<open>Creating, stopping and starting a server\<close>

definition actor_with ::
    "string list \<Rightarrow> string \<Rightarrow> query_session \<Rightarrow> baseline_runtime \<Rightarrow> query_response + permission_actor_context" where
  "actor_with names name session r =
     (if \<not> session_has_permission_actor session then Inl (response_error 521 ''login required'')
      else
     (case query_actor_effective_permissions r session of
        Inl e \<Rightarrow> Inl e
      | Inr (actor, perms) \<Rightarrow>
     (case check_required_permission perms names name of
        Inl p \<Rightarrow> Inl (insufficient_permission_response r p)
      | Inr _ \<Rightarrow> Inr actor)))"

definition used_ports :: "baseline_runtime \<Rightarrow> u16 list" where
  "used_ports r = map vs_port (bt_values (st_virtual_servers (rt_store r)))"

function free_port_from :: "u16 list \<Rightarrow> nat \<Rightarrow> u16 option" where
  "free_port_from used n =
     (if 65534 < n then None
      else if of_nat n \<notin> set used then Some (of_nat n) else free_port_from used (Suc n))"
  by pat_completeness auto

termination free_port_from
  by (relation "measure (\<lambda>(_, n). 65535 - n)") auto

declare free_port_from.simps [simp del]

definition requested_port :: "command_request \<Rightarrow> baseline_runtime \<Rightarrow> query_response + u16" where
  "requested_port request r =
     (case arg request ''virtualserver_port'' of
        None \<Rightarrow> Inr (unwrap_or 9987 (free_port_from (used_ports r) 9987))
      | Some v \<Rightarrow>
          (case parse_word v of
             None \<Rightarrow> Inl (response_error 512 ''virtualserver_port must be a valid port'')
           | Some port \<Rightarrow>
               if port = 0 then Inl (response_error 512 ''virtualserver_port must be greater than 0'')
               else if port \<in> set (used_ports r) then Inl (response_error 1028 ''unable to bind network port'')
               else Inr port))"

definition next_server_id :: "baseline_runtime \<Rightarrow> u32" where
  "next_server_id r = max (sat_add (unwrap_or 0 (iter_max (bt_keys (st_virtual_servers (rt_store r))))) 1) 1"

definition text_or :: "command_request \<Rightarrow> string \<Rightarrow> string \<Rightarrow> string" where
  "text_or request key fallback = unwrap_or fallback (opt_filter (\<lambda>s. trim s \<noteq> []) (arg request key))"

definition created_server :: "command_request \<Rightarrow> u32 \<Rightarrow> u16 \<Rightarrow> virtual_server" where
  "created_server request sid port =
     \<lparr>vs_id = sid, vs_port = port, vs_name = text_or request ''virtualserver_name'' ''BlackTeaSpeak Server'',
      vs_status = ''online'', vs_password = arg_or_empty request ''virtualserver_password'',
      vs_unique_identifier =
        text_or request ''virtualserver_unique_identifier'' (''compat-server-uid-'' @ word_to_string sid),
      vs_welcome_message =
        unwrap_or ''Welcome to BlackTeaSpeak!'' (arg request ''virtualserver_welcomemessage''),
      vs_host_message = arg_or_empty request ''virtualserver_hostmessage'',
      vs_host_message_mode = unwrap_or 0 (arg_u32 request ''virtualserver_hostmessage_mode''),
      vs_ask_for_privilegekey = 1, vs_max_clients = unwrap_or 32 (arg_u32 request ''virtualserver_maxclients''),
      vs_antiflood_points_tick_reduce = 10, vs_antiflood_points_needed_command_block = 150,
      vs_antiflood_points_needed_ip_block = 250, vs_antiflood_ban_time = 300\<rparr>"

definition fresh_channel_id :: "baseline_runtime \<Rightarrow> u32" where
  "fresh_channel_id r =
     max (sat_add (unwrap_or 0 (iter_max (map ch_id (concat (bt_values (st_channels (rt_store r))))))) 1) 1"

definition first_channel :: "u32 \<Rightarrow> channel" where
  "first_channel cid =
     \<lparr>ch_id = cid, ch_parent_id = 0, ch_order = 0, ch_kind = Permanent, ch_name = ''Default Channel'',
      ch_topic = ''Default Channel has no topic'', ch_description = [], ch_password = [], ch_codec = 4,
      ch_codec_quality = 10, ch_maxclients = -1, ch_maxfamilyclients = -1, ch_flag_default = True,
      ch_flag_password = False, ch_permissions = []\<rparr>"

definition owner_token ::
    "u64 \<Rightarrow> u32 \<Rightarrow> u32 \<Rightarrow> u32 \<Rightarrow> u32 \<Rightarrow> string \<Rightarrow> privilege_token" where
  "owner_token now sid token_id action_id group_id owner =
     \<lparr>tk_id = token_id, tk_server_id = sid, tk_token = token_value_for token_id now,
      tk_description = ''Initial Server Admin privilege key'', tk_max_uses = 1, tk_uses = 0,
      tk_created_at = now, tk_owner_login = owner, tk_expired_at = None,
      tk_actions = [\<lparr>ta_id = action_id, ta_action_type = 2, ta_action_id1 = group_id, ta_action_id2 = 0,
                     ta_action_text = []\<rparr>]\<rparr>"

definition admin_group_id :: "baseline_runtime \<Rightarrow> u32" where
  "admin_group_id r =
     unwrap_or 9 (map_option sg_id
       (List.find (\<lambda>g. sg_name g = ''Server Admin'') (bt_values (st_server_groups (rt_store r)))))"

definition create_server :: "u64 \<Rightarrow> command_request \<Rightarrow> string \<Rightarrow> u16 \<Rightarrow> baseline_runtime \<Rightarrow> query_response \<times> baseline_runtime" where
  "create_server now request owner port r =
     (let sid = next_server_id r;
          server = created_server request sid port;
          r1 = upd_store (st_virtual_servers_update (bt_insert sid server)) (emit [DbSaveVirtualServer server] r);
          ch = first_channel (fresh_channel_id r1);
          r2 = upd_store (st_channels_update (bt_insert sid [ch])) (emit [DbSaveChannel RuntimeDb sid ch] r1)
      in case next_token_id r2 of (token_id, r3) \<Rightarrow>
        (case next_token_action_id r3 of (action_id, r4) \<Rightarrow>
           let token = owner_token now sid token_id action_id (admin_group_id r2) owner;
               r5 = upd_store (st_tokens_update (bt_insert token_id token)) (emit [DbSaveToken token] r4)
           in (response_ok_row (insert_fields
                 [(''sid'', word_to_string sid), (''virtualserver_port'', word_to_string port),
                  (''token'', tk_token token)] []),
               append_server_log now sid 4 ''VirtualServerBase''
                 (''virtualserver '' @ word_to_string sid @ '' created and started on port '' @ word_to_string port)
                 (emit [LifecycleStart sid port] r5))))"

definition handle_servercreate ::
    "u64 \<Rightarrow> command_request \<Rightarrow> query_session \<Rightarrow> baseline_runtime \<Rightarrow> query_response \<times> baseline_runtime" where
  "handle_servercreate now request session r =
     (case actor_with [''b_virtualserver_create''] ''b_virtualserver_create'' session r of
        Inl e \<Rightarrow> (e, r)
      | Inr actor \<Rightarrow>
     (case requested_port request r of
        Inl e \<Rightarrow> (e, r)
      | Inr port \<Rightarrow> create_server now request (session_owner session actor) port r))"

definition requested_sid :: "command_request \<Rightarrow> u32 option" where
  "requested_sid request =
     or_else (arg_u32 request ''sid'')
       (case positional_args request of [] \<Rightarrow> None | p # _ \<Rightarrow> parse_word p)"

definition set_status :: "u32 \<Rightarrow> string \<Rightarrow> baseline_runtime \<Rightarrow> baseline_runtime" where
  "set_status sid status r = upd_store (st_virtual_servers_update (bt_update sid (vs_status_update (\<lambda>_. status)))) r"

definition handle_serverstop ::
    "u64 \<Rightarrow> command_request \<Rightarrow> query_session \<Rightarrow> baseline_runtime \<Rightarrow> query_response \<times> baseline_runtime" where
  "handle_serverstop now request session r =
     (case actor_with [''b_virtualserver_stop'', ''b_virtualserver_stop_any'', ''b_virtualserver_create'']
             ''b_virtualserver_stop'' session r of
        Inl e \<Rightarrow> (e, r)
      | Inr _ \<Rightarrow>
     (case requested_sid request of
        None \<Rightarrow> (response_error 512 ''sid is required'', r)
      | Some sid \<Rightarrow>
     (case bt_get (st_virtual_servers (rt_store r)) sid of
        None \<Rightarrow> (response_error 768 ''virtual server not found'', r)
      | Some server \<Rightarrow>
          if vs_status server = ''offline'' then (response_error 1026 ''server is not running'', r)
          else
            let r1 = set_status sid ''offline'' r;
                reason = unwrap_or ''Server Shutdown'' (arg request ''reasonmsg'');
                client_ids = map oc_id (filter (\<lambda>c. oc_server_id c = sid) (bt_values (st_online_clients (rt_store r1))));
                r2 = fold (\<lambda>clid. remove_session_client clid 11 reason) client_ids r1
            in (response_ok,
                append_server_log now sid 4 ''VirtualServerBase''
                  (''virtualserver '' @ word_to_string sid @ '' stopped ('' @ reason @ '')'')
                  (emit [LifecycleStop sid] r2)))))"

definition handle_serverstart ::
    "u64 \<Rightarrow> command_request \<Rightarrow> query_session \<Rightarrow> baseline_runtime \<Rightarrow> query_response \<times> baseline_runtime" where
  "handle_serverstart now request session r =
     (case actor_with [''b_virtualserver_start'', ''b_virtualserver_start_any'', ''b_virtualserver_create'']
             ''b_virtualserver_start'' session r of
        Inl e \<Rightarrow> (e, r)
      | Inr _ \<Rightarrow>
     (case requested_sid request of
        None \<Rightarrow> (response_error 512 ''sid is required'', r)
      | Some sid \<Rightarrow>
     (case bt_get (st_virtual_servers (rt_store r)) sid of
        None \<Rightarrow> (response_error 768 ''virtual server not found'', r)
      | Some server \<Rightarrow>
          if vs_status server \<noteq> ''offline'' then (response_error 1025 ''server is running'', r)
          else
            (response_ok,
             append_server_log now sid 4 ''VirtualServerBase''
               (''virtualserver '' @ word_to_string sid @ '' started on port '' @ word_to_string (vs_port server))
               (emit [LifecycleStart sid (vs_port server)] (set_status sid ''online'' r))))))"

section \<open>Deleting a server\<close>

definition channel_ids_of :: "baseline_runtime \<Rightarrow> u32 \<Rightarrow> u32 list" where
  "channel_ids_of r sid = map ch_id (unwrap_or [] (server_channels r sid))"

definition forget_server :: "u32 \<Rightarrow> u32 list \<Rightarrow> in_memory_store \<Rightarrow> in_memory_store" where
  "forget_server sid cids s =
     s\<lparr>st_virtual_servers := bt_remove sid (st_virtual_servers s),
       st_channels := bt_remove sid (st_channels s),
       st_conversation_messages := bt_remove sid (st_conversation_messages s),
       st_private_messages := bt_remove sid (st_private_messages s),
       st_channel_group_assignments :=
         filter (\<lambda>a. cga_channel_id a \<notin> set cids) (st_channel_group_assignments s),
       st_channel_client_permissions :=
         filter (\<lambda>t. ccp_channel_id t \<notin> set cids) (st_channel_client_permissions s),
       st_offline_messages := bt_retain (\<lambda>_ m. om_server_id m \<noteq> sid) (st_offline_messages s),
       st_complaints := filter (\<lambda>c. cc_server_id c \<noteq> sid) (st_complaints s),
       st_custom_client_properties := bt_retain (\<lambda>(i, _) _. i \<noteq> sid) (st_custom_client_properties s),
       st_tokens := bt_retain (\<lambda>_ t. tk_server_id t \<noteq> sid) (st_tokens s),
       st_server_temp_passwords := filter (\<lambda>p. tp_server_id p \<noteq> sid) (st_server_temp_passwords s),
       st_active_bans := bt_retain (\<lambda>_ b. ab_server_id b \<noteq> sid) (st_active_bans s),
       st_music_bots := bt_retain (\<lambda>_ b. mb_server_id b \<noteq> sid) (st_music_bots s),
       st_online_clients := bt_retain (\<lambda>_ c. oc_server_id c \<noteq> sid) (st_online_clients s)\<rparr>"

definition handle_serverdelete ::
    "u64 \<Rightarrow> command_request \<Rightarrow> query_session \<Rightarrow> baseline_runtime \<Rightarrow>
       query_response \<times> query_session \<times> baseline_runtime" where
  "handle_serverdelete now request session r =
     (case actor_with [''b_virtualserver_delete'', ''b_virtualserver_create''] ''b_virtualserver_delete'' session r of
        Inl e \<Rightarrow> (e, session, r)
      | Inr _ \<Rightarrow>
     (case requested_sid request of
        None \<Rightarrow> (response_error 512 ''sid is required'', session, r)
      | Some sid \<Rightarrow>
     (case bt_get (st_virtual_servers (rt_store r)) sid of
        None \<Rightarrow> (response_error 768 ''virtual server not found'', session, r)
      | Some server \<Rightarrow>
          if vs_status server \<noteq> ''offline'' \<and> ''force'' \<notin> set (flags request)
          then (response_error 1025 ''server is running'', session, r)
          else
            let r1 = emit [LifecycleStop sid] r;
                r2 = emit [DbDeleteVirtualServer sid] (upd_store (forget_server sid (channel_ids_of r1 sid)) r1)
            in (response_ok,
                if qs_selected_virtual_server_id session = Some sid
                then session\<lparr>qs_selected_virtual_server_id := None, qs_current_channel_id := None,
                             qs_virtual_mode := False\<rparr>
                else session,
                append_server_log now 0 4 ''ServerLibPriv''
                  (''virtualserver '' @ word_to_string sid @ '' deleted'') r2))))"

definition handle_serverprocessstop ::
    "u64 \<Rightarrow> command_request \<Rightarrow> query_session \<Rightarrow> baseline_runtime \<Rightarrow> query_response \<times> baseline_runtime" where
  "handle_serverprocessstop now request session r =
     (case actor_with [''b_serverinstance_stop''] ''b_serverinstance_stop'' session r of
        Inl e \<Rightarrow> (e, r)
      | Inr _ \<Rightarrow>
          (response_ok,
           append_server_log now 0 4 ''ServerLibPriv''
             (''server process stop requested ('' @ unwrap_or ''Server Process Shutdown'' (arg request ''reasonmsg'') @ '')'') r))"

section \<open>Snapshots\<close>

record server_snapshot =
  sn_server :: virtual_server
  sn_channels :: "channel list"
  sn_server_groups :: "(u32, server_group) btree"
  sn_channel_groups :: "(u32, channel_group) btree"
  sn_channel_group_assignments :: "channel_group_assignment list"
  sn_channel_client_permissions :: "channel_client_permission_target list"
  sn_client_permissions :: "(u64 \<times> string \<times> string \<times> perm_map) list"
  sn_custom_client_properties :: "(u32 \<times> u64 \<times> row) list"

record snapshot_codec =
  sc_write :: "server_snapshot \<Rightarrow> string option"
  sc_read :: "string \<Rightarrow> server_snapshot option"
  sc_encode :: "string \<Rightarrow> string"
  sc_decode :: "string \<Rightarrow> string option"
  sc_sha1 :: "string \<Rightarrow> string"

definition with_password_flag :: "channel \<Rightarrow> channel" where
  "with_password_flag c = c\<lparr>ch_flag_password := ch_flag_password c \<or> ch_password c \<noteq> []\<rparr>"

definition take_snapshot :: "virtual_server \<Rightarrow> baseline_runtime \<Rightarrow> server_snapshot" where
  "take_snapshot server r =
     (let channels = unwrap_or [] (server_channels r (vs_id server));
          cids = map ch_id channels
      in \<lparr>sn_server = server, sn_channels = map with_password_flag channels,
          sn_server_groups = st_server_groups (rt_store r), sn_channel_groups = st_channel_groups (rt_store r),
          sn_channel_group_assignments =
            filter (\<lambda>a. cga_channel_id a \<in> set cids) (st_channel_group_assignments (rt_store r)),
          sn_channel_client_permissions =
            filter (\<lambda>t. ccp_channel_id t \<in> set cids) (st_channel_client_permissions (rt_store r)),
          sn_client_permissions =
            map (\<lambda>t. (cpt_client_database_id t, cpt_client_unique_identifier t, cpt_client_nickname t,
                      cpt_permissions t)) (st_client_permissions (rt_store r)),
          sn_custom_client_properties =
            map (\<lambda>((sid, cldbid), props). (sid, cldbid, props))
              (filter (\<lambda>((sid, _), _). sid = vs_id server) (st_custom_client_properties (rt_store r)))\<rparr>)"

definition handle_serversnapshotcreate ::
    "snapshot_codec \<Rightarrow> command_request \<Rightarrow> query_session \<Rightarrow> baseline_runtime \<Rightarrow> query_response" where
  "handle_serversnapshotcreate codec request session r =
     (if \<not> session_has_permission_actor session then response_error 521 ''login required''
      else
     (case selected_server r session of
        None \<Rightarrow> response_error 522 ''virtual server selection required''
      | Some server \<Rightarrow>
     (case actor_with [''b_virtualserver_snapshot_create'', ''b_virtualserver_modify_name'']
             ''b_virtualserver_snapshot_create'' session r of
        Inl e \<Rightarrow> e
      | Inr _ \<Rightarrow>
          let content = sc_encode codec (unwrap_or [] (sc_write codec (take_snapshot server r)))
          in response_ok_row (insert_fields
               [(''version'', unwrap_or ''2'' (arg request ''version'')),
                (''hash'', sc_encode codec (sc_sha1 codec content)), (''data'', content),
                (''virtualserver_unique_identifier'', vs_unique_identifier server),
                (''virtualserver_name'', vs_name server)] []))))"

definition snapshot_data :: "command_request \<Rightarrow> string option" where
  "snapshot_data request =
     opt_filter (\<lambda>s. trim s \<noteq> [])
       (or_else (arg request ''data'') (List.find (\<lambda>a. \<not> starts_with ''-'' a) (positional_args request)))"

definition restore_server :: "virtual_server \<Rightarrow> virtual_server \<Rightarrow> virtual_server" where
  "restore_server saved server =
     server\<lparr>vs_name := vs_name saved, vs_password := vs_password saved,
            vs_welcome_message := vs_welcome_message saved, vs_host_message := vs_host_message saved,
            vs_host_message_mode := vs_host_message_mode saved,
            vs_ask_for_privilegekey := vs_ask_for_privilegekey saved, vs_max_clients := vs_max_clients saved,
            vs_antiflood_points_tick_reduce := vs_antiflood_points_tick_reduce saved,
            vs_antiflood_points_needed_command_block := vs_antiflood_points_needed_command_block saved,
            vs_antiflood_points_needed_ip_block := vs_antiflood_points_needed_ip_block saved,
            vs_antiflood_ban_time := vs_antiflood_ban_time saved\<rparr>"

definition save_if_known :: "u32 \<Rightarrow> baseline_runtime \<Rightarrow> baseline_runtime" where
  "save_if_known server_id r =
     (case bt_get (st_virtual_servers (rt_store r)) server_id of
        None \<Rightarrow> r | Some server \<Rightarrow> emit [DbSaveVirtualServer server] r)"

definition deploy_snapshot :: "u64 \<Rightarrow> u32 \<Rightarrow> server_snapshot \<Rightarrow> baseline_runtime \<Rightarrow> baseline_runtime" where
  "deploy_snapshot now server_id snapshot r =
     (let r1 = save_if_known server_id
            (upd_store (st_virtual_servers_update (bt_update server_id (restore_server (sn_server snapshot)))) r);
          old_ids = channel_ids_of r1 server_id;
          r2 = emit (map (DbSaveChannel RuntimeDb server_id) (sn_channels snapshot)) r1;
          r3 = (if sn_channels snapshot = [] then r2
                else upd_store (st_channels_update (bt_insert server_id (sn_channels snapshot))) r2);
          stale = (\<lambda>cid. cid \<in> set old_ids \<or> cid \<in> set (channel_ids_of r3 server_id));
          r4 = upd_store (\<lambda>s. s
            \<lparr>st_channel_group_assignments :=
               filter (\<lambda>a. \<not> stale (cga_channel_id a)) (st_channel_group_assignments s)
               @ sn_channel_group_assignments snapshot,
             st_channel_client_permissions :=
               filter (\<lambda>t. \<not> stale (ccp_channel_id t)) (st_channel_client_permissions s)
               @ sn_channel_client_permissions snapshot,
             st_custom_client_properties :=
               fold (\<lambda>(_, cldbid, props). bt_insert (server_id, cldbid) props)
                 (sn_custom_client_properties snapshot)
                 (bt_retain (\<lambda>(i, _) _. i \<noteq> server_id) (st_custom_client_properties s))\<rparr>) r3
      in append_server_log now server_id 4 ''VirtualServerBase'' ''virtualserver snapshot deployed'' r4)"

definition handle_serversnapshotdeploy ::
    "snapshot_codec \<Rightarrow> u64 \<Rightarrow> command_request \<Rightarrow> query_session \<Rightarrow> baseline_runtime \<Rightarrow>
       query_response \<times> query_session \<times> baseline_runtime" where
  "handle_serversnapshotdeploy codec now request session r =
     (case require_server session of
        Inl e \<Rightarrow> (e, session, r)
      | Inr server_id \<Rightarrow>
     (case actor_with [''b_virtualserver_snapshot_deploy'', ''b_virtualserver_modify_name'']
             ''b_virtualserver_snapshot_deploy'' session r of
        Inl e \<Rightarrow> (e, session, r)
      | Inr _ \<Rightarrow>
     (case snapshot_data request of
        None \<Rightarrow> (response_error 512 ''snapshot data is required'', session, r)
      | Some content \<Rightarrow>
     (case sc_decode codec (trim content) of
        None \<Rightarrow> (response_error 1538 ''invalid snapshot base64 data'', session, r)
      | Some bytes \<Rightarrow>
     (case sc_read codec bytes of
        None \<Rightarrow> (response_error 1538 ''invalid snapshot payload'', session, r)
      | Some snapshot \<Rightarrow>
          let r' = deploy_snapshot now server_id snapshot r;
              mapping = map (\<lambda>c. insert_fields [(''ocid'', word_to_string (ch_id c)), (''ncid'', word_to_string (ch_id c))] [])
                          (sn_channels snapshot)
          in (if ''mapping'' \<in> set (flags request) \<and> mapping \<noteq> [] then response_ok_rows mapping else response_ok,
              session\<lparr>qs_current_channel_id := default_channel_id_for_server r' server_id\<rparr>, r'))))))"

section \<open>What a server is to the rest of the store\<close>

text \<open>
  The view of a server: everything in the store that belongs to it, by its id or by the ids of its channels.
\<close>

record server_view =
  vw_server :: "virtual_server option"
  vw_channels :: "channel list option"
  vw_conversations :: "conversation_message list option"
  vw_private_messages :: "private_message list option"
  vw_assignments :: "channel_group_assignment list"
  vw_channel_client_permissions :: "channel_client_permission_target list"
  vw_offline_messages :: "(u64, offline_message) btree"
  vw_complaints :: "client_complaint list"
  vw_custom_properties :: "(u32 \<times> u64, (string, string) btree) btree"
  vw_tokens :: "(u32, privilege_token) btree"
  vw_temp_passwords :: "server_temp_password list"
  vw_bans :: "(u32, active_ban) btree"
  vw_music_bots :: "(u32, music_bot) btree"
  vw_clients :: "(u64, online_client) btree"

definition view_of :: "u32 \<Rightarrow> baseline_runtime \<Rightarrow> server_view" where
  "view_of sid r =
     (let s = rt_store r; cids = set (channel_ids_of r sid) in
      \<lparr>vw_server = bt_get (st_virtual_servers s) sid, vw_channels = bt_get (st_channels s) sid,
       vw_conversations = bt_get (st_conversation_messages s) sid,
       vw_private_messages = bt_get (st_private_messages s) sid,
       vw_assignments = filter (\<lambda>a. cga_channel_id a \<in> cids) (st_channel_group_assignments s),
       vw_channel_client_permissions = filter (\<lambda>t. ccp_channel_id t \<in> cids) (st_channel_client_permissions s),
       vw_offline_messages = bt_retain (\<lambda>_ m. om_server_id m = sid) (st_offline_messages s),
       vw_complaints = filter (\<lambda>c. cc_server_id c = sid) (st_complaints s),
       vw_custom_properties = bt_retain (\<lambda>k _. fst k = sid) (st_custom_client_properties s),
       vw_tokens = bt_retain (\<lambda>_ t. tk_server_id t = sid) (st_tokens s),
       vw_temp_passwords = filter (\<lambda>p. tp_server_id p = sid) (st_server_temp_passwords s),
       vw_bans = bt_retain (\<lambda>_ b. ab_server_id b = sid) (st_active_bans s),
       vw_music_bots = bt_retain (\<lambda>_ b. mb_server_id b = sid) (st_music_bots s),
       vw_clients = bt_retain (\<lambda>_ c. oc_server_id c = sid) (st_online_clients s)\<rparr>)"

definition no_server :: server_view where
  "no_server =
     \<lparr>vw_server = None, vw_channels = None, vw_conversations = None, vw_private_messages = None,
      vw_assignments = [], vw_channel_client_permissions = [], vw_offline_messages = [], vw_complaints = [],
      vw_custom_properties = [], vw_tokens = [], vw_temp_passwords = [], vw_bans = [], vw_music_bots = [],
      vw_clients = []\<rparr>"

text \<open>Channel ids are used once: no channel of another server has the id of one of this server.\<close>

definition separate_channels :: "baseline_runtime \<Rightarrow> u32 \<Rightarrow> u32 list \<Rightarrow> bool" where
  "separate_channels r sid cids =
     (\<forall>other. other \<noteq> sid \<longrightarrow> set (channel_ids_of r other) \<inter> set cids = {})"

lemma channel_ids_store: "rt_store r = rt_store r' \<Longrightarrow> channel_ids_of r sid = channel_ids_of r' sid"
  by (simp add: channel_ids_of_def server_channels_def)

lemma view_store:
  assumes "rt_store r = rt_store r'"
  shows "view_of sid r = view_of sid r'"
  using channel_ids_store [OF assms, of sid] assms by (simp add: view_of_def Let_def)

lemma channel_ids_log [simp]: "channel_ids_of (append_server_log now s l c t r) sid = channel_ids_of r sid"
  by (simp add: channel_ids_of_def server_channels_def append_server_log_def Let_def)

lemma view_log [simp]: "view_of sid (append_server_log now s l c t r) = view_of sid r"
  unfolding view_of_def channel_ids_log by (simp add: append_server_log_def Let_def)

lemma view_emit [simp]: "view_of sid (emit es r) = view_of sid r"
  by (rule view_store) simp

lemma retain_retain: "bt_retain P (bt_retain Q m) = bt_retain (\<lambda>k v. Q k v \<and> P k v) m"
  by (simp add: bt_retain_def conj_commute)

lemma retain_cong: "(\<And>k v. (k, v) \<in> set m \<Longrightarrow> P k v = Q k v) \<Longrightarrow> bt_retain P m = bt_retain Q m"
  by (auto simp: bt_retain_def intro!: filter_cong)

lemma retain_none: "(\<And>k v. \<not> P k v) \<Longrightarrow> bt_retain P m = []"
  by (simp add: bt_retain_def filter_empty_conv)

lemma retain_insert: "\<not> P k v \<Longrightarrow> bt_get m k = None \<Longrightarrow> bt_retain P (bt_insert k v m) = bt_retain P m"
  by (induction m) (auto simp: bt_retain_def bt_get_def split: if_splits)

lemma actor_with_error: "actor_with names name session r = Inl e \<Longrightarrow> error_id e \<noteq> 0"
  by (auto simp: actor_with_def insufficient_permission_response_def response_defs dest: actor_permissions_error
      split: if_splits sum.splits)

section \<open>Deleting leaves nothing\<close>

lemma forget_channel_ids:
  "channel_ids_of (upd_store (forget_server sid cids) r) other = (if other = sid then [] else channel_ids_of r other)"
  by (simp add: channel_ids_of_def server_channels_def forget_server_def bt_get_remove)

lemma forgotten_view: "view_of sid (upd_store (forget_server sid cids) r) = no_server"
  unfolding view_of_def forget_channel_ids
  by (simp add: no_server_def forget_server_def bt_get_remove Let_def retain_retain case_prod_beta retain_none filter_empty_conv)

lemma forget_keeps_view:
  assumes "other \<noteq> sid" and "set (channel_ids_of r other) \<inter> set cids = {}"
  shows "view_of other (upd_store (forget_server sid cids) r) = view_of other r"
proof -
  have kept: "(x \<notin> set cids \<and> x \<in> set (channel_ids_of r other)) = (x \<in> set (channel_ids_of r other))" for x
    using assms(2) by auto
  have same: "(x \<noteq> sid \<and> x = other) = (x = other)" for x using assms(1) by auto
  show ?thesis
    using assms(1) unfolding view_of_def forget_channel_ids
    by (simp add: forget_server_def bt_get_remove Let_def kept retain_retain same case_prod_beta)
qed

definition server_deleted ::
    "command_request \<Rightarrow> query_session \<Rightarrow> baseline_runtime \<Rightarrow> query_response \<times> query_session \<times> baseline_runtime \<Rightarrow> bool" where
  "server_deleted request session r res =
     (\<exists>sid server. requested_sid request = Some sid \<and> bt_get (st_virtual_servers (rt_store r)) sid = Some server
        \<and> (vs_status server = ''offline'' \<or> ''force'' \<in> set (flags request))
        \<and> view_of sid (snd (snd res)) = no_server
        \<and> (separate_channels r sid (channel_ids_of r sid) \<longrightarrow>
             (\<forall>other. other \<noteq> sid \<longrightarrow> view_of other (snd (snd res)) = view_of other r))
        \<and> qs_selected_virtual_server_id (fst (snd res)) =
            (if qs_selected_virtual_server_id session = Some sid then None else qs_selected_virtual_server_id session))"

lemma serverdelete_ok: "ok_then (server_deleted request session r) (handle_serverdelete now request session r)"
proof -
  have emitted: "channel_ids_of (emit es r) sid = channel_ids_of r sid" for es sid
    by (rule channel_ids_store) simp
  have view: "view_of other (upd_store f (emit es r)) = view_of other (upd_store f r)" for other f es
    by (rule view_store) simp
  show ?thesis
    unfolding handle_serverdelete_def Let_def emitted
    by (intro ok_then_branches;
        (rule ok_then_error, fastforce simp: response_defs dest: actor_with_error)?)
      (rule ok_then_I, auto simp: server_deleted_def view forgotten_view forget_keeps_view separate_channels_def)
qed


section \<open>A new server is fresh\<close>

lemma below_sat_next:
  fixes xs :: "'a::len word list"
  assumes "-1 \<notin> set xs" and "x \<in> set xs"
  shows "x < sat_add (unwrap_or 0 (iter_max xs)) 1"
proof -
  obtain m where m: "iter_max xs = Some m" "x \<le> m" using iter_max_ge [OF assms(2)] by blast
  then have "m \<noteq> -1" using assms(1) iter_max_in by metis
  then show ?thesis using m sat_add_one_greater [of m] by (simp add: order_le_less_trans)
qed

lemma sat_next_fresh:
  fixes xs :: "'a::len word list"
  assumes "-1 \<notin> set xs"
  shows "max (sat_add (unwrap_or 0 (iter_max xs)) 1) b \<notin> set xs"
proof
  assume "max (sat_add (unwrap_or 0 (iter_max xs)) 1) b \<in> set xs"
  from below_sat_next [OF assms this] show False by (metis leD max.cobounded1)
qed

lemma next_server_id_fresh:
  "-1 \<notin> set (bt_keys (st_virtual_servers (rt_store r))) \<Longrightarrow> bt_get (st_virtual_servers (rt_store r)) (next_server_id r) = None"
  unfolding next_server_id_def using sat_next_fresh by (metis bt_keys_iff)

lemma fresh_channel: "-1 \<notin> set (all_channel_ids (rt_store r)) \<Longrightarrow> fresh_channel_id r \<notin> set (all_channel_ids (rt_store r))"
  unfolding fresh_channel_id_def all_channel_ids_def by (rule sat_next_fresh)

lemma channel_ids_all: "set (channel_ids_of r sid) \<subseteq> set (all_channel_ids (rt_store r))"
proof (cases "bt_get (st_channels (rt_store r)) sid")
  case (Some cs)
  then have "cs \<in> set (bt_values (st_channels (rt_store r)))" by (rule bt_get_in_values)
  then show ?thesis using Some by (auto simp: channel_ids_of_def server_channels_def all_channel_ids_def unwrap_or_def)
qed (simp add: channel_ids_of_def server_channels_def unwrap_or_def)

lemma free_port_unused: "free_port_from used n = Some p \<Longrightarrow> p \<notin> set used"
  by (induction used n rule: free_port_from.induct) (subst (asm) (2) free_port_from.simps, auto split: if_splits)

lemma next_token_id_fresh:
  assumes "-1 \<notin> set (bt_keys (st_tokens (rt_store r)))"
  shows "bt_get (st_tokens (rt_store r)) (fst (next_token_id r)) = None"
proof (cases "bt_keys (st_tokens (rt_store r)) = []")
  case True
  then show ?thesis by (metis bt_keys_iff list.set(1) empty_iff)
next
  case False
  then have "next_token_id_seed (st_tokens (rt_store r)) = sat_add (unwrap_or 0 (iter_max (bt_keys (st_tokens (rt_store r))))) 1"
    by (auto simp: next_token_id_seed_def unwrap_or_def split: option.split)
  then have "fst (next_token_id r) \<notin> set (bt_keys (st_tokens (rt_store r)))"
    using sat_next_fresh [OF assms] by (simp add: next_token_id_def Let_def max.commute)
  then show ?thesis by (simp add: bt_keys_iff)
qed

definition new_token :: "u64 \<Rightarrow> string \<Rightarrow> baseline_runtime \<Rightarrow> privilege_token" where
  "new_token now owner r =
     owner_token now (next_server_id r) (fst (next_token_id r)) (fst (next_token_action_id r)) (admin_group_id r) owner"

definition created_store ::
    "u64 \<Rightarrow> command_request \<Rightarrow> string \<Rightarrow> u16 \<Rightarrow> baseline_runtime \<Rightarrow> in_memory_store \<Rightarrow> in_memory_store" where
  "created_store now request owner port r s =
     s\<lparr>st_virtual_servers := bt_insert (next_server_id r) (created_server request (next_server_id r) port)
        (st_virtual_servers (rt_store r)),
      st_channels := bt_insert (next_server_id r) [first_channel (fresh_channel_id r)] (st_channels (rt_store r)),
      st_tokens := bt_insert (fst (next_token_id r)) (new_token now owner r) (st_tokens (rt_store r))\<rparr>"

lemma create_server_store:
  "\<exists>ti ta logs li. rt_store (snd (create_server now request owner port r)) =
     created_store now request owner port r
       ((rt_store r)\<lparr>st_next_token_id := ti, st_next_token_action_id := ta, st_server_logs := logs, st_next_log_id := li\<rparr>)"
  by (rule exI [of _ "st_next_token_id (rt_store (snd (create_server now request owner port r)))"],
      rule exI [of _ "st_next_token_action_id (rt_store (snd (create_server now request owner port r)))"],
      rule exI [of _ "st_server_logs (rt_store (snd (create_server now request owner port r)))"],
      rule exI [of _ "st_next_log_id (rt_store (snd (create_server now request owner port r)))"])
    (simp add: created_store_def create_server_def new_token_def Let_def next_token_id_def next_token_action_id_def
      append_server_log_def fresh_channel_id_def admin_group_id_def)

lemma create_server_rows:
  "rows (fst (create_server now request owner port r)) =
     [insert_fields [(''sid'', word_to_string (next_server_id r)), (''virtualserver_port'', word_to_string port),
        (''token'', tk_token (new_token now owner r))] []]"
  by (simp add: create_server_def new_token_def Let_def next_token_id_def next_token_action_id_def owner_token_def
      response_ok_row_def)

lemma create_server_ok: "error_id (fst (create_server now request owner port r)) = 0"
  by (simp add: create_server_def Let_def response_ok_row_def split: prod.split)

lemma servercreate_runs:
  "actor_with [''b_virtualserver_create''] ''b_virtualserver_create'' session r = Inr actor \<Longrightarrow> requested_port request r = Inr port \<Longrightarrow>
   handle_servercreate now request session r = create_server now request (session_owner session actor) port r"
  by (simp add: handle_servercreate_def)

definition server_created ::
    "u64 \<Rightarrow> command_request \<Rightarrow> query_session \<Rightarrow> baseline_runtime \<Rightarrow> query_response \<times> baseline_runtime \<Rightarrow> bool" where
  "server_created now request session r res =
     (\<exists>actor sid port cid token.
        actor_with [''b_virtualserver_create''] ''b_virtualserver_create'' session r = Inr actor
        \<and> bt_get (st_virtual_servers (rt_store r)) sid = None
        \<and> port \<notin> set (used_ports r) \<and> cid \<notin> set (all_channel_ids (rt_store r)) \<and> cid \<noteq> 0
        \<and> bt_get (st_virtual_servers (rt_store (snd res))) sid = Some (created_server request sid port)
        \<and> server_channels (snd res) sid = Some [first_channel cid]
        \<and> bt_get (st_tokens (rt_store r)) (tk_id token) = None \<and> tk_server_id token = sid \<and> tk_max_uses token = 1
        \<and> tk_uses token = 0 \<and> map ta_action_id1 (tk_actions token) = [admin_group_id r]
        \<and> bt_get (st_tokens (rt_store (snd res))) (tk_id token) = Some token
        \<and> rows (fst res) = [insert_fields [(''sid'', word_to_string sid), (''virtualserver_port'', word_to_string port),
             (''token'', tk_token token)] []]
        \<and> (\<forall>other. other \<noteq> sid \<longrightarrow> view_of other (snd res) = view_of other r))"

lemma created_views:
  assumes "other \<noteq> next_server_id r" and "bt_get (st_tokens (rt_store r)) (fst (next_token_id r)) = None"
  shows "view_of other (snd (create_server now request owner port r)) = view_of other r"
proof -
  obtain ti ta logs li where store: "rt_store (snd (create_server now request owner port r)) =
     created_store now request owner port r
       ((rt_store r)\<lparr>st_next_token_id := ti, st_next_token_action_id := ta, st_server_logs := logs, st_next_log_id := li\<rparr>)"
    using create_server_store by blast
  have ids: "channel_ids_of (snd (create_server now request owner port r)) other = channel_ids_of r other"
    using assms(1) by (simp add: channel_ids_of_def server_channels_def store created_store_def bt_get_insert)
  have "tk_server_id (new_token now owner r) \<noteq> other"
    using assms(1) by (simp add: new_token_def owner_token_def)
  then have "bt_retain (\<lambda>_ t. tk_server_id t = other) (bt_insert (fst (next_token_id r)) (new_token now owner r) (st_tokens (rt_store r)))
      = bt_retain (\<lambda>_ t. tk_server_id t = other) (st_tokens (rt_store r))"
    using assms(2) by (intro retain_insert) auto
  then show ?thesis
    unfolding view_of_def ids Let_def store using assms(1) by (simp add: created_store_def bt_get_insert)
qed

lemma requested_port_error: "requested_port request r = Inl e \<Longrightarrow> error_id e \<noteq> 0"
  by (auto simp: requested_port_def response_defs split: option.splits if_splits)

lemma requested_port_unused:
  "requested_port request r = Inr port \<Longrightarrow> free_port_from (used_ports r) 9987 \<noteq> None \<Longrightarrow> port \<notin> set (used_ports r)"
  using free_port_unused [of "used_ports r" 9987]
  by (auto simp: requested_port_def unwrap_or_def split: option.splits if_splits)

text \<open>
  Property C35: as long as ids and ports are left, a successful \<open>servercreate\<close> makes a server under an id and
  a port that no server has, with one default channel under an id that no channel has, and answers a token
  for one use that grants the administrator group; no other server sees a difference.
\<close>

theorem servercreate_correct:
  assumes "handle_servercreate now request session r = (resp, r')" and "error_id resp = 0"
    and "-1 \<notin> set (bt_keys (st_virtual_servers (rt_store r)))" and "-1 \<notin> set (all_channel_ids (rt_store r))"
    and "-1 \<notin> set (bt_keys (st_tokens (rt_store r)))" and "free_port_from (used_ports r) 9987 \<noteq> None"
  shows "server_created now request session r (resp, r')"
proof -
  obtain actor where a: "actor_with [''b_virtualserver_create''] ''b_virtualserver_create'' session r = Inr actor"
    using assms(1,2) actor_with_error
    by (cases "actor_with [''b_virtualserver_create''] ''b_virtualserver_create'' session r")
      (auto simp: handle_servercreate_def)
  obtain port where p: "requested_port request r = Inr port"
    using assms(1,2) a requested_port_error by (cases "requested_port request r") (auto simp: handle_servercreate_def)
  let ?res = "create_server now request (session_owner session actor) port r"
  have res: "(resp, r') = ?res" using assms(1) servercreate_runs [OF a p] by simp
  have cid: "fresh_channel_id r \<noteq> 0"
    unfolding fresh_channel_id_def by (metis max.cobounded2 word_le_0_iff zero_neq_one)
  have token: "bt_get (st_tokens (rt_store r)) (fst (next_token_id r)) = None" by (rule next_token_id_fresh [OF assms(5)])
  let ?owner = "session_owner session actor"
  obtain ti ta logs li where store: "rt_store (snd ?res) =
     created_store now request ?owner port r
       ((rt_store r)\<lparr>st_next_token_id := ti, st_next_token_action_id := ta, st_server_logs := logs, st_next_log_id := li\<rparr>)"
    using create_server_store by blast
  have "bt_get (st_virtual_servers (rt_store (snd ?res))) (next_server_id r) = Some (created_server request (next_server_id r) port)"
    "server_channels (snd ?res) (next_server_id r) = Some [first_channel (fresh_channel_id r)]"
    "bt_get (st_tokens (rt_store (snd ?res))) (tk_id (new_token now ?owner r)) = Some (new_token now ?owner r)"
    by (simp_all add: store created_store_def bt_get_insert server_channels_def new_token_def owner_token_def)
  moreover have "tk_id (new_token now ?owner r) = fst (next_token_id r)" "tk_server_id (new_token now ?owner r) = next_server_id r"
    "tk_max_uses (new_token now ?owner r) = 1" "tk_uses (new_token now ?owner r) = 0"
    "map ta_action_id1 (tk_actions (new_token now ?owner r)) = [admin_group_id r]"
    by (simp_all add: new_token_def owner_token_def)
  ultimately show ?thesis
    unfolding server_created_def res
    using a next_server_id_fresh [OF assms(3)] requested_port_unused [OF p assms(6)] fresh_channel [OF assms(4)] cid token
      create_server_rows created_views [OF _ token]
    by (intro exI [of _ actor] exI [of _ "next_server_id r"] exI [of _ port] exI [of _ "fresh_channel_id r"]
        exI [of _ "new_token now ?owner r"]) simp
qed

section \<open>Snapshots\<close>

lemma snapshot_properties:
  assumes "distinct (map fst (m :: (('a \<times> 'b) \<times> 'c) list))"
  shows "map_of (rev (map (\<lambda>(_, c, p). ((sid, c), p)) (map (\<lambda>((i, c), p). (i, c, p)) (filter (\<lambda>((i, _), _). i = from) m)))) k
     = (if fst k = sid then map_of m (from, snd k) else None)"
proof -
  let ?xs = "map (\<lambda>(_, c, p). ((sid, c), p)) (map (\<lambda>((i, c), p). (i, c, p)) (filter (\<lambda>((i, _), _). i = from) m))"
  have "distinct (map fst ?xs)" using assms by (induction m) (force simp: image_iff)+
  then have "map_of (rev ?xs) = map_of ?xs" by (intro map_of_inject_set [THEN iffD2]) (simp_all add: rev_map [symmetric])
  moreover have "map_of ?xs k = (if fst k = sid then map_of m (from, snd k) else None)"
    by (induction m) (auto simp: prod_eq_iff split: prod.splits)
  ultimately show ?thesis by simp
qed

lemma deployed_properties:
  "fold (\<lambda>(_, cldbid, props). bt_insert (sid, cldbid) props) ps m = bt_extend m (map (\<lambda>(_, c, p). ((sid, c), p)) ps)"
  by (induction ps arbitrary: m) (auto simp: bt_extend_def)

definition snapshot_restored ::
    "u32 \<Rightarrow> virtual_server \<Rightarrow> baseline_runtime \<Rightarrow> baseline_runtime \<Rightarrow> baseline_runtime \<Rightarrow> bool" where
  "snapshot_restored sid saved r r1 r' =
     (let channels = unwrap_or [] (server_channels r (vs_id saved));
          of_saved = (\<lambda>cid. cid \<in> set (map ch_id channels))
      in bt_get (st_virtual_servers (rt_store r')) sid =
           map_option (restore_server saved) (bt_get (st_virtual_servers (rt_store r1)) sid)
       \<and> server_channels r' sid =
           (if channels = [] then server_channels r1 sid else Some (map with_password_flag channels))
       \<and> filter (\<lambda>a. of_saved (cga_channel_id a)) (st_channel_group_assignments (rt_store r')) =
           filter (\<lambda>a. of_saved (cga_channel_id a)) (st_channel_group_assignments (rt_store r))
       \<and> filter (\<lambda>t. of_saved (ccp_channel_id t)) (st_channel_client_permissions (rt_store r')) =
           filter (\<lambda>t. of_saved (ccp_channel_id t)) (st_channel_client_permissions (rt_store r))
       \<and> (\<forall>cldbid. bt_get (st_custom_client_properties (rt_store r')) (sid, cldbid) =
           bt_get (st_custom_client_properties (rt_store r)) (vs_id saved, cldbid))
       \<and> (\<forall>other. other \<noteq> sid \<longrightarrow>
           bt_get (st_virtual_servers (rt_store r')) other = bt_get (st_virtual_servers (rt_store r1)) other
           \<and> server_channels r' other = server_channels r1 other
           \<and> (\<forall>cldbid. bt_get (st_custom_client_properties (rt_store r')) (other, cldbid) =
                bt_get (st_custom_client_properties (rt_store r1)) (other, cldbid))))"

lemma save_if_known_store [simp]: "rt_store (save_if_known sid r) = rt_store r"
  by (simp add: save_if_known_def split: option.split)

lemma deploy_servers:
  "st_virtual_servers (rt_store (deploy_snapshot now sid sn r)) =
     bt_update sid (restore_server (sn_server sn)) (st_virtual_servers (rt_store r))"
  by (simp add: deploy_snapshot_def Let_def append_server_log_def)

lemma deploy_channels:
  "server_channels (deploy_snapshot now sid sn r) other =
     (if other = sid \<and> sn_channels sn \<noteq> [] then Some (sn_channels sn) else server_channels r other)"
  by (simp add: deploy_snapshot_def Let_def append_server_log_def server_channels_def bt_get_insert)

lemma deploy_properties:
  "st_custom_client_properties (rt_store (deploy_snapshot now sid sn r)) =
     fold (\<lambda>(_, cldbid, props). bt_insert (sid, cldbid) props) (sn_custom_client_properties sn)
       (bt_retain (\<lambda>(i, _) _. i \<noteq> sid) (st_custom_client_properties (rt_store r)))"
  by (simp add: deploy_snapshot_def Let_def append_server_log_def)

definition replaced_channel :: "u32 \<Rightarrow> server_snapshot \<Rightarrow> baseline_runtime \<Rightarrow> u32 \<Rightarrow> bool" where
  "replaced_channel sid sn r cid = (cid \<in> set (channel_ids_of r sid) \<or> cid \<in> set (map ch_id (sn_channels sn)))"

lemma deploy_lists:
  "st_channel_group_assignments (rt_store (deploy_snapshot now sid sn r)) =
     filter (\<lambda>a. \<not> replaced_channel sid sn r (cga_channel_id a)) (st_channel_group_assignments (rt_store r))
     @ sn_channel_group_assignments sn"
  "st_channel_client_permissions (rt_store (deploy_snapshot now sid sn r)) =
     filter (\<lambda>t. \<not> replaced_channel sid sn r (ccp_channel_id t)) (st_channel_client_permissions (rt_store r))
     @ sn_channel_client_permissions sn"
  by (auto simp: deploy_snapshot_def Let_def append_server_log_def channel_ids_of_def server_channels_def bt_get_insert
      replaced_channel_def unwrap_or_def intro!: filter_cong)

lemma restored_properties:
  assumes "bt_inv (st_custom_client_properties (rt_store r))" and "bt_inv (st_custom_client_properties (rt_store r1))"
  shows "bt_get (st_custom_client_properties (rt_store (deploy_snapshot now sid (take_snapshot saved r) r1))) (other, cldbid) =
     (if other = sid then bt_get (st_custom_client_properties (rt_store r)) (vs_id saved, cldbid)
      else bt_get (st_custom_client_properties (rt_store r1)) (other, cldbid))"
proof -
  have taken: "sn_custom_client_properties (take_snapshot saved r) =
      map (\<lambda>((i, c), p). (i, c, p)) (filter (\<lambda>((i, _), _). i = vs_id saved) (st_custom_client_properties (rt_store r)))"
    by (simp add: take_snapshot_def Let_def)
  show ?thesis
    unfolding deploy_properties deployed_properties bt_get_extend taken map_add_def
      snapshot_properties [OF bt_inv_distinct [OF assms(1)]] bt_get_retain [OF assms(2)]
    by (auto simp: bt_get_def split: option.split)
qed

lemma restored_ids: "map ch_id (map with_password_flag cs) = map ch_id cs"
  by (simp add: with_password_flag_def)

lemma filter_replaced:
  "(\<And>x. P x \<Longrightarrow> Q x) \<Longrightarrow> filter P (filter (\<lambda>x. \<not> Q x) xs @ filter P ys) = filter P ys"
  by (auto simp: filter_empty_conv)

lemma deploy_taken:
  assumes "bt_inv (st_custom_client_properties (rt_store r))" and "bt_inv (st_custom_client_properties (rt_store r1))"
  shows "snapshot_restored sid saved r r1 (deploy_snapshot now sid (take_snapshot saved r) r1)"
proof -
  let ?sn = "take_snapshot saved r" and ?cs = "unwrap_or [] (server_channels r (vs_id saved))"
  have taken: "sn_server ?sn = saved" "sn_channels ?sn = map with_password_flag ?cs"
    "sn_channel_group_assignments ?sn = filter (\<lambda>a. cga_channel_id a \<in> set (map ch_id ?cs)) (st_channel_group_assignments (rt_store r))"
    "sn_channel_client_permissions ?sn = filter (\<lambda>t. ccp_channel_id t \<in> set (map ch_id ?cs)) (st_channel_client_permissions (rt_store r))"
    by (simp_all add: take_snapshot_def Let_def)
  have replaced: "replaced_channel sid ?sn r1 cid" if "cid \<in> set (map ch_id ?cs)" for cid
    using that by (simp only: replaced_channel_def taken restored_ids simp_thms)
  show ?thesis
    unfolding snapshot_restored_def Let_def
  proof (intro conjI allI impI)
    show "filter (\<lambda>a. cga_channel_id a \<in> set (map ch_id ?cs)) (st_channel_group_assignments (rt_store (deploy_snapshot now sid ?sn r1))) =
        filter (\<lambda>a. cga_channel_id a \<in> set (map ch_id ?cs)) (st_channel_group_assignments (rt_store r))"
      unfolding deploy_lists taken by (rule filter_replaced, rule replaced)
    show "filter (\<lambda>t. ccp_channel_id t \<in> set (map ch_id ?cs)) (st_channel_client_permissions (rt_store (deploy_snapshot now sid ?sn r1))) =
        filter (\<lambda>t. ccp_channel_id t \<in> set (map ch_id ?cs)) (st_channel_client_permissions (rt_store r))"
      unfolding deploy_lists taken by (rule filter_replaced, rule replaced)
  qed (simp_all add: deploy_servers deploy_channels taken bt_get_update restored_properties [OF assms])
qed

definition codec_keeps :: "snapshot_codec \<Rightarrow> server_snapshot \<Rightarrow> bool" where
  "codec_keeps codec sn =
     (case sc_write codec sn of
        None \<Rightarrow> False
      | Some json \<Rightarrow> sc_read codec json = Some sn \<and> sc_decode codec (sc_encode codec json) = Some json
          \<and> trim (sc_encode codec json) = sc_encode codec json)"

lemma snapshot_row:
  "bt_get (insert_fields [(''version'', version), (''hash'', hash), (''data'', content),
     (''virtualserver_unique_identifier'', uid), (''virtualserver_name'', name)] []) ''data'' = Some content"
  by (simp add: insert_fields_def bt_get_def)

lemma created_snapshot:
  assumes "error_id (handle_serversnapshotcreate codec request session r) = 0"
  obtains server where "selected_server r session = Some server"
    "map (\<lambda>row. bt_get row ''data'') (rows (handle_serversnapshotcreate codec request session r)) =
       [Some (sc_encode codec (unwrap_or [] (sc_write codec (take_snapshot server r))))]"
proof -
  let ?actor = "actor_with [''b_virtualserver_snapshot_create'', ''b_virtualserver_modify_name'']
      ''b_virtualserver_snapshot_create'' session r"
  have actor: "session_has_permission_actor session"
    using assms by (simp add: handle_serversnapshotcreate_def response_error_def split: if_splits)
  obtain server where server: "selected_server r session = Some server"
    using assms actor by (cases "selected_server r session") (simp_all add: handle_serversnapshotcreate_def response_error_def)
  obtain a where "?actor = Inr a"
    using assms actor server actor_with_error by (cases ?actor) (auto simp: handle_serversnapshotcreate_def)
  then have "map (\<lambda>row. bt_get row ''data'') (rows (handle_serversnapshotcreate codec request session r)) =
       [Some (sc_encode codec (unwrap_or [] (sc_write codec (take_snapshot server r))))]"
    using actor server by (simp add: handle_serversnapshotcreate_def Let_def response_ok_row_def snapshot_row)
  with server show ?thesis by (rule that)
qed

lemma deploy_ok:
  "ok_then (\<lambda>(resp, session', r'). \<exists>sid content bytes sn. qs_selected_virtual_server_id session = Some sid
      \<and> snapshot_data request = Some content \<and> sc_decode codec (trim content) = Some bytes \<and> sc_read codec bytes = Some sn
      \<and> r' = deploy_snapshot now sid sn r)
     (handle_serversnapshotdeploy codec now request session r)"
  unfolding handle_serversnapshotdeploy_def
  by (intro ok_then_branches;
      (rule ok_then_error, fastforce simp: response_defs dest: actor_with_error require_server_error)?)
    (rule ok_then_I, auto simp: require_server_def split: if_splits option.splits)


section \<open>Examples\<close>

definition second_server :: virtual_server where
  "second_server = demo_server\<lparr>vs_id := 2, vs_port := 9988, vs_name := ''Second''\<rparr>"

definition lifecycle_demo :: baseline_runtime where
  "lifecycle_demo = empty_runtime\<lparr>rt_store := empty_store\<lparr>
     st_virtual_servers := [(1, demo_server), (2, second_server)],
     st_channels := [(1, [demo_channel 1 0, demo_channel 2 0]), (2, [demo_channel 3 0])],
     st_channel_group_assignments :=
       [\<lparr>cga_channel_id = 2, cga_client_database_id = 5, cga_channel_group_id = 8\<rparr>,
        \<lparr>cga_channel_id = 3, cga_client_database_id = 5, cga_channel_group_id = 9\<rparr>],
     st_custom_client_properties := [((1, 5), [(''a'', ''x'')]), ((2, 5), [(''a'', ''y'')])],
     st_query_accounts :=
       [(''ops'', token_account\<lparr>qa_permissions :=
           [(''b_virtualserver_create'', perm 1), (''b_virtualserver_modify_name'', perm 1)]\<rparr>)],
     st_server_groups := [(7, new_server_group 7 ''Guest Server Query'' 1)]\<rparr>\<rparr>"

definition delete_request :: command_request where
  "delete_request = (account_request ''serverdelete'' [(''sid'', ''1'')])\<lparr>flags := [''force'']\<rparr>"


definition create_request :: command_request where
  "create_request = account_request ''servercreate'' [(''virtualserver_name'', ''Third''), (''virtualserver_port'', ''9900'')]"

theorem servercreate_correct_witness:
  "server_created 1000 create_request token_session lifecycle_demo (handle_servercreate 1000 create_request token_session lifecycle_demo)
   \<and> map (\<lambda>row. (bt_get row ''sid'', bt_get row ''virtualserver_port''))
        (rows (fst (handle_servercreate 1000 create_request token_session lifecycle_demo))) = [(Some ''3'', Some ''9900'')]"
proof -
  let ?res = "handle_servercreate 1000 create_request token_session lifecycle_demo"
  have "\<not> isl (actor_with [''b_virtualserver_create''] ''b_virtualserver_create'' token_session lifecycle_demo)"
    and requested: "requested_port create_request lifecycle_demo = Inr 9900" by code_simp+
  then obtain actor where "actor_with [''b_virtualserver_create''] ''b_virtualserver_create'' token_session lifecycle_demo = Inr actor"
    by (auto simp: isl_def split: sum.splits) (metis sum.exhaust)
  then have run: "?res = create_server 1000 create_request (session_owner token_session actor) 9900 lifecycle_demo"
    using requested by (rule servercreate_runs)
  then have ok: "error_id (fst ?res) = 0" by (simp add: create_server_ok)
  have "word_to_string (next_server_id lifecycle_demo) = ''3''" "word_to_string (9900 :: u16) = ''9900''" by code_simp+
  then have row: "map (\<lambda>row. (bt_get row ''sid'', bt_get row ''virtualserver_port'')) (rows (fst ?res)) = [(Some ''3'', Some ''9900'')]"
    by (simp add: run create_server_rows insert_fields_def bt_get_def)
  have left: "-1 \<notin> set (bt_keys (st_virtual_servers (rt_store lifecycle_demo)))" "-1 \<notin> set (all_channel_ids (rt_store lifecycle_demo))"
    "-1 \<notin> set (bt_keys (st_tokens (rt_store lifecycle_demo)))"
    by code_simp+
  have "used_ports lifecycle_demo = [9987, 9988]" by code_simp
  then have port: "free_port_from (used_ports lifecycle_demo) 9987 \<noteq> None" by (simp add: free_port_from.simps)
  have "server_created 1000 create_request token_session lifecycle_demo (fst ?res, snd ?res)"
    by (rule servercreate_correct [OF _ ok left port]) simp
  with row show ?thesis by simp
qed

text \<open>A codec that knows one snapshot.\<close>

definition demo_codec :: "server_snapshot \<Rightarrow> snapshot_codec" where
  "demo_codec sn =
     \<lparr>sc_write = (\<lambda>s. if s = sn then Some ''json'' else None), sc_read = (\<lambda>t. if t = ''json'' then Some sn else None),
      sc_encode = (\<lambda>s. CHR ''b'' # s), sc_decode = (\<lambda>s. if s = [] then None else Some (tl s)), sc_sha1 = rev\<rparr>"

definition deploy_request :: "(string \<times> string) list \<Rightarrow> command_request" where
  "deploy_request more_args = account_request ''serversnapshotdeploy'' ((''data'', ''bjson'') # more_args)"

definition demo_deploy :: "query_session \<Rightarrow> query_response \<times> query_session \<times> baseline_runtime" where
  "demo_deploy session =
     handle_serversnapshotdeploy (demo_codec (take_snapshot demo_server lifecycle_demo)) 1000 (deploy_request []) session
       lifecycle_demo"


text \<open>A snapshot deployed on another server gives its channels ids that the first server uses too.\<close>

theorem deploy_elsewhere_shares_channel_ids:
  "let r' = snd (snd (demo_deploy (token_session\<lparr>qs_selected_virtual_server_id := Some 2\<rparr>)))
   in channel_ids_of r' 1 = [1, 2] \<and> channel_ids_of r' 2 = [1, 2]"
  by code_simp

text \<open>\<open>serversnapshotdeploy\<close> does not look at the hash that \<open>serversnapshotcreate\<close> answers.\<close>

theorem deploy_ignores_hash:
  "fst (handle_serversnapshotdeploy (demo_codec (take_snapshot demo_server lifecycle_demo)) 1000
     (deploy_request [(''hash'', ''wrong'')]) token_session lifecycle_demo) = response_ok"
  by code_simp

text \<open>The answer of \<open>serversnapshotcreate\<close> holds the password of the server.\<close>

theorem snapshot_keeps_password: "vs_password (sn_server (take_snapshot demo_server lifecycle_demo)) = ''gate''"
  by code_simp

end
