(* ===== verification/Tsdns.thy ===== *)
theory Tsdns
  imports Client_Database Server_Lifecycle
begin

text \<open>
  TSDNS: \<open>protocols/tsdns/resolver.rs\<close>, the answer of \<open>protocols/tsdns/tcp_server.rs\<close> and the commands of
  \<open>runtime/handlers/tsdns.rs\<close>. The rules are entries of the instance properties under a prefix. A host name is
  answered by its own rule, else by the longest wildcard rule that matches, else by a running server of that name.
\<close>

section \<open>Host names\<close>

definition tsdns_rule_prefix :: string where
  "tsdns_rule_prefix = ''tsdns_rule:''"

definition trim_end_char :: "char \<Rightarrow> string \<Rightarrow> string" where
  "trim_end_char c s = rev (dropWhile (\<lambda>x. x = c) (rev s))"

definition trim_char :: "char \<Rightarrow> string \<Rightarrow> string" where
  "trim_char c s = trim_end_char c (dropWhile (\<lambda>x. x = c) s)"

definition normalize_hostname :: "string \<Rightarrow> string" where
  "normalize_hostname raw =
     (let trimmed = trim_end_char CHR ''.'' (trim raw);
          host_part = (if \<not> starts_with ''['' trimmed then hd (split_char CHR '':'' trimmed) else trimmed)
      in to_ascii_lowercase (trim host_part))"

text \<open>The name of a server is UTF-8; every character outside ASCII becomes one hyphen.\<close>

definition utf8_continuation :: "char \<Rightarrow> bool" where
  "utf8_continuation c = (128 \<le> byte c \<and> byte c < 192)"

definition ascii_alphanumeric :: "char \<Rightarrow> bool" where
  "ascii_alphanumeric c =
     (48 \<le> byte c \<and> byte c \<le> 57 \<or> 65 \<le> byte c \<and> byte c \<le> 90 \<or> 97 \<le> byte c \<and> byte c \<le> 122)"

definition slugify_server_name :: "string \<Rightarrow> string" where
  "slugify_server_name name =
     trim_char CHR ''-''
       (map (\<lambda>c. if ascii_alphanumeric c \<or> c = CHR ''.'' \<or> c = CHR ''-'' then ascii_lower_char c else CHR ''-'')
         (filter (\<lambda>c. \<not> utf8_continuation c) (trim name)))"

definition format_virtual_server_target :: "string option \<Rightarrow> u16 \<Rightarrow> string" where
  "format_virtual_server_target ip_prop port =
     unwrap_or ''127.0.0.1''
       (opt_filter (\<lambda>ip. ip \<noteq> [] \<and> ip \<noteq> ''0.0.0.0'' \<and> ip \<noteq> ''::'') (map_option trim ip_prop))
     @ '':'' @ word_to_string port"

definition wildcard_matches :: "string \<Rightarrow> string \<Rightarrow> bool" where
  "wildcard_matches pattern hostname =
     (if pattern = ''*'' then True
      else case strip_prefix ''*.'' pattern of
        Some tail_part \<Rightarrow> hostname = tail_part \<or> ends_with (CHR ''.'' # tail_part) hostname
      | None \<Rightarrow>
     (case strip_suffix ''.*'' pattern of
        Some start \<Rightarrow> starts_with (start @ ''.'') hostname
      | None \<Rightarrow> pattern = hostname))"

section \<open>Resolving a name\<close>

definition rule_answer :: "string \<Rightarrow> string option" where
  "rule_answer target =
     (let trimmed = trim target; lower = to_ascii_lowercase trimmed in
      if lower = ''404'' \<or> lower = ''noresponse'' \<or> trimmed = [] then None else Some trimmed)"

definition wildcard_of :: "string \<Rightarrow> string \<Rightarrow> string option" where
  "wildcard_of hostname key =
     (case strip_prefix tsdns_rule_prefix key of
        None \<Rightarrow> None
      | Some pattern \<Rightarrow>
          let pattern_norm = normalize_hostname pattern in
          if CHR ''*'' \<in> set pattern_norm \<and> wildcard_matches pattern_norm hostname then Some pattern_norm else None)"

definition better_wildcard :: "string \<Rightarrow> (nat \<times> string) option \<Rightarrow> string \<times> string \<Rightarrow> (nat \<times> string) option" where
  "better_wildcard hostname best entry =
     (case wildcard_of hostname (fst entry) of
        None \<Rightarrow> best
      | Some pattern_norm \<Rightarrow>
          if (case best of None \<Rightarrow> True | Some (best_len, _) \<Rightarrow> best_len < length pattern_norm)
          then Some (length pattern_norm, snd entry) else best)"

definition best_wildcard :: "string \<Rightarrow> (string, string) btree \<Rightarrow> (nat \<times> string) option" where
  "best_wildcard hostname props = foldl (better_wildcard hostname) None props"

definition server_named :: "string \<Rightarrow> virtual_server \<Rightarrow> bool" where
  "server_named hostname server =
     (vs_status server = ''online''
      \<and> (let name = normalize_hostname (vs_name server); slug = slugify_server_name (vs_name server) in
         name \<noteq> [] \<and> name = hostname \<or> slug \<noteq> [] \<and> slug = hostname))"

definition resolve_tsdns_hostname :: "baseline_runtime \<Rightarrow> string \<Rightarrow> string option" where
  "resolve_tsdns_hostname r raw_hostname =
     (let hostname = normalize_hostname raw_hostname; props = st_instance_properties (rt_store r) in
      if hostname = [] then None
      else
     (case bt_get props (tsdns_rule_prefix @ hostname) of
        Some target \<Rightarrow> rule_answer target
      | None \<Rightarrow>
     (case best_wildcard hostname props of
        Some (_, target) \<Rightarrow> rule_answer target
      | None \<Rightarrow>
          map_option
            (\<lambda>server. format_virtual_server_target (bt_get props ''serverinstance_tsdns_default_ip'') (vs_port server))
            (List.find (server_named hostname) (bt_values (st_virtual_servers (rt_store r)))))))"

definition list_tsdns_rules :: "baseline_runtime \<Rightarrow> (string \<times> string) list" where
  "list_tsdns_rules r =
     sort_key fst
       (List.map_filter (\<lambda>(key, val). map_option (\<lambda>domain. (domain, val)) (strip_prefix tsdns_rule_prefix key))
         (st_instance_properties (rt_store r)))"

text \<open>
  The line a connection of the TSDNS port answers to the line it has read; nothing is answered when the
  connection ends before a byte arrives.
\<close>

definition handle_tsdns_connection :: "baseline_runtime \<Rightarrow> string \<Rightarrow> string option" where
  "handle_tsdns_connection r line =
     (if line = [] then None
      else Some (unwrap_or ''404'' (resolve_tsdns_hostname r line) @ [char_of (13 :: nat), char_of (10 :: nat)]))"

section \<open>The commands\<close>

definition tsdns_domain :: "command_request \<Rightarrow> string" where
  "tsdns_domain request =
     unwrap_or [] (map_option normalize_hostname (or_else (arg request ''domain'') (arg request ''pattern'')))"

definition tsdns_target :: "command_request \<Rightarrow> string" where
  "tsdns_target request = unwrap_or [] (map_option trim (or_else (arg request ''target'') (arg request ''address'')))"

definition handle_tsdnsadd ::
    "command_request \<Rightarrow> query_session \<Rightarrow> baseline_runtime \<Rightarrow> query_response \<times> baseline_runtime" where
  "handle_tsdnsadd request session r =
     (if \<not> session_has_permission_actor session then (response_error 521 ''login required'', r)
      else
        let domain = tsdns_domain request; target = tsdns_target request in
        if domain = [] \<or> target = []
        then (response_error 1538 ''invalid parameter: domain and target required'', r)
        else
          (response_ok,
           emit [PersistState]
             (upd_store (st_instance_properties_update (bt_insert (tsdns_rule_prefix @ domain) target)) r)))"

definition handle_tsdnsdel ::
    "command_request \<Rightarrow> query_session \<Rightarrow> baseline_runtime \<Rightarrow> query_response \<times> baseline_runtime" where
  "handle_tsdnsdel request session r =
     (if \<not> session_has_permission_actor session then (response_error 521 ''login required'', r)
      else
        let domain = tsdns_domain request in
        if domain = [] then (response_error 1538 ''invalid parameter: domain required'', r)
        else if bt_get (st_instance_properties (rt_store r)) (tsdns_rule_prefix @ domain) = None
        then (response_error 1281 ''database empty result set'', r)
        else
          (response_ok,
           emit [PersistState]
             (upd_store (st_instance_properties_update (bt_remove (tsdns_rule_prefix @ domain))) r)))"

definition handle_tsdnslist :: "query_session \<Rightarrow> baseline_runtime \<Rightarrow> query_response" where
  "handle_tsdnslist session r =
     (if \<not> session_has_permission_actor session then response_error 521 ''login required''
      else
        let rules = list_tsdns_rules r in
        if rules = [] then response_error 1281 ''database empty result set''
        else response_ok_rows
          (map (\<lambda>(domain, target). insert_fields [(''domain'', domain), (''target'', target)] []) rules))"

definition handle_tsdnsresolve :: "command_request \<Rightarrow> baseline_runtime \<Rightarrow> query_response" where
  "handle_tsdnsresolve request r =
     (let domain = unwrap_or [] (map_option trim (or_else (arg request ''domain'') (arg request ''hostname''))) in
      if domain = [] then response_error 1538 ''invalid parameter: domain required''
      else response_ok_row (insert_fields
        [(''domain'', normalize_hostname domain), (''target'', unwrap_or ''404'' (resolve_tsdns_hostname r domain))] []))"

section \<open>Which rule answers\<close>

text \<open>
  What a name resolves to: its own rule; without one a wildcard rule that matches and that no matching rule
  is longer than; without one the first running server of that name.
\<close>

definition matching_wildcards :: "string \<Rightarrow> (string, string) btree \<Rightarrow> (string \<times> string) set" where
  "matching_wildcards hostname props =
     {(pattern, target). \<exists>key. (key, target) \<in> set props \<and> wildcard_of hostname key = Some pattern}"

definition longest_of :: "(string \<times> string) set \<Rightarrow> nat \<Rightarrow> string \<Rightarrow> bool" where
  "longest_of matching n target =
     ((\<exists>pattern. (pattern, target) \<in> matching \<and> length pattern = n) \<and> (\<forall>p \<in> matching. length (fst p) \<le> n))"

definition resolves_to :: "baseline_runtime \<Rightarrow> string \<Rightarrow> string option \<Rightarrow> bool" where
  "resolves_to r hostname answer =
     (case bt_get (st_instance_properties (rt_store r)) (tsdns_rule_prefix @ hostname) of
        Some target \<Rightarrow> answer = rule_answer target
      | None \<Rightarrow>
          (\<exists>n target. longest_of (matching_wildcards hostname (st_instance_properties (rt_store r))) n target
             \<and> answer = rule_answer target)
          \<or> matching_wildcards hostname (st_instance_properties (rt_store r)) = {}
            \<and> (case answer of
                 None \<Rightarrow> \<forall>server \<in> set (bt_values (st_virtual_servers (rt_store r))). \<not> server_named hostname server
               | Some text \<Rightarrow> \<exists>server \<in> set (bt_values (st_virtual_servers (rt_store r))). server_named hostname server
                   \<and> text = format_virtual_server_target
                       (bt_get (st_instance_properties (rt_store r)) ''serverinstance_tsdns_default_ip'') (vs_port server)))"

definition best_ok :: "(string \<times> string) set \<Rightarrow> (nat \<times> string) option \<Rightarrow> bool" where
  "best_ok matching best = (case best of None \<Rightarrow> matching = {} | Some (n, target) \<Rightarrow> longest_of matching n target)"

lemma matching_snoc:
  "matching_wildcards hostname (props @ [(key, target)]) =
     (case wildcard_of hostname key of None \<Rightarrow> matching_wildcards hostname props
      | Some pattern \<Rightarrow> insert (pattern, target) (matching_wildcards hostname props))"
  by (auto simp: matching_wildcards_def split: option.split)

lemma longest_insert:
  "longest_of (insert (pattern, target) {}) (length pattern) target"
  "longest_of matching n best \<Longrightarrow> n < length pattern \<Longrightarrow> longest_of (insert (pattern, target) matching) (length pattern) target"
  "longest_of matching n best \<Longrightarrow> \<not> n < length pattern \<Longrightarrow> longest_of (insert (pattern, target) matching) n best"
  by (fastforce simp: longest_of_def)+

lemma best_ok_step:
  assumes "best_ok (matching_wildcards hostname props) best"
  shows "best_ok (matching_wildcards hostname (props @ [(key, target)])) (better_wildcard hostname best (key, target))"
  using assms
  by (cases "wildcard_of hostname key")
    (auto simp: best_ok_def better_wildcard_def matching_snoc longest_insert split: option.splits)

lemma best_wildcard_ok: "best_ok (matching_wildcards hostname props) (best_wildcard hostname props)"
proof (induction props rule: rev_induct)
  case Nil
  show ?case by (simp add: best_ok_def best_wildcard_def matching_wildcards_def)
next
  case (snoc entry props)
  then show ?case using best_ok_step [of hostname props] by (cases entry) (simp add: best_wildcard_def)
qed

text \<open>
  Property C39: a name resolves to the answer of its own rule, else of a longest matching wildcard rule, else
  to a running server of that name, and to nothing when there is none of these.
\<close>

theorem resolve_tsdns_correct:
  assumes "normalize_hostname raw \<noteq> []"
  shows "resolves_to r (normalize_hostname raw) (resolve_tsdns_hostname r raw)"
proof (cases "bt_get (st_instance_properties (rt_store r)) (tsdns_rule_prefix @ normalize_hostname raw)")
  case (Some target)
  then show ?thesis using assms by (simp add: resolves_to_def resolve_tsdns_hostname_def Let_def)
next
  case None
  let ?host = "normalize_hostname raw" and ?props = "st_instance_properties (rt_store r)"
  note best = best_wildcard_ok [of ?host ?props]
  show ?thesis
  proof (cases "best_wildcard ?host ?props")
    case (Some b)
    then obtain n target where b: "best_wildcard ?host ?props = Some (n, target)" by (cases b) auto
    then have "resolve_tsdns_hostname r raw = rule_answer target"
      using None assms by (simp add: resolve_tsdns_hostname_def Let_def)
    moreover have "longest_of (matching_wildcards ?host ?props) n target" using best b by (simp add: best_ok_def)
    ultimately show ?thesis using None by (auto simp: resolves_to_def)
  next
    case no: None
    then have none: "matching_wildcards ?host ?props = {}" using best by (simp add: best_ok_def)
    show ?thesis
      using None no none assms
      by (auto simp: resolves_to_def resolve_tsdns_hostname_def Let_def find_None_iff find_Some_iff split: option.split)
  qed
qed

section \<open>Adding and deleting a rule\<close>

lemma best_wildcard_retain: "best_wildcard hostname props = best_wildcard hostname (bt_retain (\<lambda>key _. wildcard_of hostname key \<noteq> None) props)"
proof -
  have "foldl (better_wildcard hostname) best props =
      foldl (better_wildcard hostname) best (filter (\<lambda>p. wildcard_of hostname (fst p) \<noteq> None) props)" for best
    by (induction props arbitrary: best) (auto simp: better_wildcard_def)
  then show ?thesis by (simp add: best_wildcard_def bt_retain_def)
qed

lemma retain_insert_other: "\<not> P k \<Longrightarrow> bt_retain (\<lambda>k _. P k) (bt_insert k v m) = bt_retain (\<lambda>k _. P k) m"
  by (induction m) (auto simp: bt_retain_def)

lemma best_wildcard_insert:
  "wildcard_of hostname key = None \<Longrightarrow> best_wildcard hostname (bt_insert key target props) = best_wildcard hostname props"
  by (subst (1 2) best_wildcard_retain) (simp add: retain_insert_other)

lemma wildcard_of_own: "CHR ''*'' \<notin> set (normalize_hostname pattern) \<Longrightarrow> wildcard_of hostname (tsdns_rule_prefix @ pattern) = None"
  by (simp add: wildcard_of_def Let_def)

lemma tsdns_default_ip: "''serverinstance_tsdns_default_ip'' \<noteq> tsdns_rule_prefix @ domain"
  by (simp add: tsdns_rule_prefix_def)

lemma rule_taken_back: "bt_inv m \<Longrightarrow> bt_get m k = None \<Longrightarrow> bt_remove k (bt_insert k v m) = m"
  by (rule bt_ext) (auto simp: bt_inv_remove bt_inv_insert bt_get_remove bt_get_insert fun_eq_iff)

definition rule_added :: "command_request \<Rightarrow> query_session \<Rightarrow> baseline_runtime \<Rightarrow> baseline_runtime \<Rightarrow> bool" where
  "rule_added request session r r' =
     (let domain = tsdns_domain request in
      (\<forall>raw. normalize_hostname raw = domain \<longrightarrow> resolve_tsdns_hostname r' raw = rule_answer (tsdns_target request))
      \<and> (CHR ''*'' \<notin> set (normalize_hostname domain) \<longrightarrow>
           (\<forall>raw. normalize_hostname raw \<noteq> domain \<longrightarrow> resolve_tsdns_hostname r' raw = resolve_tsdns_hostname r raw))
      \<and> (bt_get (st_instance_properties (rt_store r)) (tsdns_rule_prefix @ domain) = None \<longrightarrow>
           error_id (fst (handle_tsdnsdel request session r')) = 0
           \<and> rt_store (snd (handle_tsdnsdel request session r')) = rt_store r))"

text \<open>
  Property C40: after a successful \<open>tsdnsadd\<close> the name resolves to the target, a rule without a wildcard changes
  no other name, and \<open>tsdnsdel\<close> takes a new rule away again without a trace.
\<close>

theorem tsdnsadd_correct:
  assumes "handle_tsdnsadd request session r = (resp, r')" and "error_id resp = 0"
    and "bt_inv (st_instance_properties (rt_store r))"
  shows "rule_added request session r r'"
proof -
  let ?key = "tsdns_rule_prefix @ tsdns_domain request" and ?props = "st_instance_properties (rt_store r)"
  have actor: "session_has_permission_actor session" and domain: "tsdns_domain request \<noteq> []"
    and r': "r' = emit [PersistState] (upd_store (st_instance_properties_update (bt_insert ?key (tsdns_target request))) r)"
    using assms(1,2) by (auto simp: handle_tsdnsadd_def Let_def response_error_def split: if_splits)
  have props: "st_instance_properties (rt_store r') = bt_insert ?key (tsdns_target request) ?props"
    and servers: "st_virtual_servers (rt_store r') = st_virtual_servers (rt_store r)"
    by (simp_all add: r')
  show ?thesis
    unfolding rule_added_def Let_def
  proof (intro conjI allI impI)
    fix raw assume "normalize_hostname raw = tsdns_domain request"
    then show "resolve_tsdns_hostname r' raw = rule_answer (tsdns_target request)"
      using domain by (simp add: resolve_tsdns_hostname_def Let_def props bt_get_insert)
  next
    fix raw
    assume "CHR ''*'' \<notin> set (normalize_hostname (tsdns_domain request))" and "normalize_hostname raw \<noteq> tsdns_domain request"
    then show "resolve_tsdns_hostname r' raw = resolve_tsdns_hostname r raw"
      by (simp add: resolve_tsdns_hostname_def Let_def props servers bt_get_insert tsdns_default_ip
          best_wildcard_insert wildcard_of_own cong: option.case_cong if_cong)
  next
    assume fresh: "bt_get ?props ?key = None"
    show "error_id (fst (handle_tsdnsdel request session r')) = 0"
      using actor domain by (simp add: handle_tsdnsdel_def Let_def props bt_get_insert response_ok_def)
    show "rt_store (snd (handle_tsdnsdel request session r')) = rt_store r"
      using actor domain by (simp add: handle_tsdnsdel_def Let_def props bt_get_insert r' rule_taken_back [OF assms(3) fresh])
  qed
qed

section \<open>Examples\<close>

definition tsdns_demo :: baseline_runtime where
  "tsdns_demo = lifecycle_demo\<lparr>rt_store := (rt_store lifecycle_demo)
     \<lparr>st_query_accounts := [(''ops'', token_account)],
      st_instance_properties :=
        [(''tsdns_rule:*'', ''10.0.0.1:9987''), (''tsdns_rule:*.example.org'', ''10.0.0.2:9987''),
         (''tsdns_rule:*.org'', ''10.0.0.3:9987'')]\<rparr>\<rparr>"

theorem resolve_tsdns_correct_witness:
  "resolves_to tsdns_demo ''voice.example.org'' (resolve_tsdns_hostname tsdns_demo '' Voice.Example.org:9987'')
   \<and> resolve_tsdns_hostname tsdns_demo '' Voice.Example.org:9987'' = Some ''10.0.0.2:9987''"
proof -
  have host: "normalize_hostname '' Voice.Example.org:9987'' = ''voice.example.org''"
    and answer: "resolve_tsdns_hostname tsdns_demo '' Voice.Example.org:9987'' = Some ''10.0.0.2:9987''"
    by code_simp+
  have "normalize_hostname '' Voice.Example.org:9987'' \<noteq> []" by (simp add: host)
  from resolve_tsdns_correct [OF this, of tsdns_demo] answer show ?thesis by (simp add: host)
qed

definition rule_request :: "string \<Rightarrow> command_request" where
  "rule_request domain = account_request ''tsdnsadd'' [(''domain'', domain), (''target'', ''10.0.0.9:9987'')]"

theorem tsdnsadd_correct_witness:
  "let r' = snd (handle_tsdnsadd (rule_request ''voice.example.org'') token_session tsdns_demo) in
   rule_added (rule_request ''voice.example.org'') token_session tsdns_demo r'
   \<and> resolve_tsdns_hostname r' ''voice.example.org'' = Some ''10.0.0.9:9987''"
proof -
  let ?res = "handle_tsdnsadd (rule_request ''voice.example.org'') token_session tsdns_demo"
  have ok: "error_id (fst ?res) = 0" and inv: "bt_inv (st_instance_properties (rt_store tsdns_demo))"
    and answer: "resolve_tsdns_hostname (snd ?res) ''voice.example.org'' = Some ''10.0.0.9:9987''"
    by code_simp+
  have "rule_added (rule_request ''voice.example.org'') token_session tsdns_demo (snd ?res)"
    by (rule tsdnsadd_correct [OF _ ok inv]) simp
  with answer show ?thesis by (simp add: Let_def)
qed

text \<open>\<open>tsdnsadd\<close> asks for a login and for no permission: an account without any redirects every name.\<close>

theorem tsdns_rule_without_permission:
  "qa_permissions token_account = []
   \<and> error_id (fst (handle_tsdnsadd (rule_request ''*'') token_session tsdns_demo)) = 0
   \<and> resolve_tsdns_hostname (snd (handle_tsdnsadd (rule_request ''*'') token_session tsdns_demo)) ''a.net'' = Some ''10.0.0.9:9987''"
  by code_simp

text \<open>A wildcard between two labels is accepted and matches no name.\<close>

theorem inner_wildcard_matches_nothing: "wildcard_matches ''voice.*.org'' hostname \<longleftrightarrow> hostname = ''voice.*.org''"
  by (auto simp: wildcard_matches_def strip_suffix_def)

text \<open>Normalising twice is not normalising once, so a rule may be listed under a name that does not resolve to it.\<close>

theorem normalize_hostname_not_idempotent:
  "let r' = snd (handle_tsdnsadd (rule_request ''a. :1'') token_session tsdns_demo) in
   (''a.'', ''10.0.0.9:9987'') \<in> set (list_tsdns_rules r') \<and> resolve_tsdns_hostname r' ''a.'' = Some ''10.0.0.1:9987''"
  by code_simp

end
