(* ===== verification/Persistence.thy ===== *)
theory Persistence
  imports Server_Lifecycle Entity_Permissions
begin

text \<open>
  The persisted state, \<open>runtime/persistence.rs\<close> with the structs of \<open>state.rs\<close>: what is written to the state
  file and what a start of the program makes of it. Reading and writing the JSON file is I/O; a start without a
  file, or without a state store, is \<open>None\<close>. A \<open>Persisted\<close> struct with the fields of the runtime struct is
  modelled by it. The properties of the client of a music bot are the parameter \<open>extra\<close>, as in the music queue.
\<close>

section \<open>The persisted structs\<close>

record persisted_client_permission =
  pcl_client_database_id :: u64
  pcl_client_unique_identifier :: string
  pcl_client_nickname :: string
  pcl_permissions :: perm_map

record persisted_music_bot =
  pmb_id :: u32
  pmb_server_id :: u32
  pmb_client_database_id :: u64
  pmb_linked_client_id :: "u64 option"
  pmb_nickname :: string
  pmb_channel_id :: u32
  pmb_playlist_id :: u32
  pmb_current_song_id :: u32
  pmb_next_song_id :: u32
  pmb_state :: music_bot_state
  pmb_player_volume :: string
  pmb_playlist_title :: string
  pmb_playlist_description :: string
  pmb_playlist_flag_delete_played :: bool
  pmb_playlist_flag_finished :: bool
  pmb_playlist_replay_mode :: u32
  pmb_playlist_max_songs :: u32
  pmb_permissions :: perm_map
  pmb_client_permissions :: "playlist_client_permission_target list"
  pmb_queue :: "music_queue_entry list"

record persisted_state =
  ps_schema_version :: u32
  ps_query_accounts :: "(string, query_account) btree"
  ps_server_groups :: "(u32, server_group) btree"
  ps_channel_groups :: "(u32, channel_group) btree"
  ps_virtual_servers :: "(u32, virtual_server) btree"
  ps_channels :: "(u32, channel list) btree"
  ps_channel_group_assignments :: "channel_group_assignment list"
  ps_channel_client_permissions :: "channel_client_permission_target list"
  ps_client_permissions :: "persisted_client_permission list"
  ps_conversation_messages :: "(u32, conversation_message list) btree"
  ps_private_messages :: "(u32, private_message list) btree"
  ps_offline_messages :: "(u64, offline_message) btree"
  ps_complaints :: "client_complaint list"
  ps_custom_client_properties :: "(u32 \<times> u64 \<times> row) list"
  ps_server_logs :: "server_log_entry list"
  ps_instance_properties :: "(string, string) btree"
  ps_music_bots :: "(u32, persisted_music_bot) btree"
  ps_tokens :: "(u32, privilege_token) btree"
  ps_session_snapshots :: "(string, persisted_session_snapshot) btree"
  ps_next_client_database_id :: u64
  ps_next_conversation_timestamp :: u64
  ps_next_token_id :: u32
  ps_next_token_action_id :: u32
  ps_next_offline_message_id :: u64
  ps_next_log_id :: u64

section \<open>Writing the state\<close>

definition runtime_state_schema_version :: u32 where
  "runtime_state_schema_version = 13"

definition persist_client_permission :: "client_permission_target \<Rightarrow> persisted_client_permission" where
  "persist_client_permission t =
     \<lparr>pcl_client_database_id = cpt_client_database_id t,
      pcl_client_unique_identifier = cpt_client_unique_identifier t,
      pcl_client_nickname = cpt_client_nickname t, pcl_permissions = cpt_permissions t\<rparr>"

definition music_bot_client :: "baseline_runtime \<Rightarrow> music_bot \<Rightarrow> online_client option" where
  "music_bot_client r mbot = Option.bind (mb_linked_client_id mbot) (bt_get (st_online_clients (rt_store r)))"

definition music_bot_client_name :: "baseline_runtime \<Rightarrow> music_bot \<Rightarrow> string" where
  "music_bot_client_name r mbot =
     unwrap_or (''MusicBot '' @ word_to_string (mb_id mbot))
       (or_else (map_option oc_nickname (music_bot_client r mbot))
         (if trim (mb_nickname mbot) \<noteq> [] then Some (mb_nickname mbot) else None))"

definition persist_music_bot :: "baseline_runtime \<Rightarrow> music_bot \<Rightarrow> persisted_music_bot" where
  "persist_music_bot r b =
     \<lparr>pmb_id = mb_id b, pmb_server_id = mb_server_id b, pmb_client_database_id = mb_client_database_id b,
      pmb_linked_client_id = mb_linked_client_id b, pmb_nickname = music_bot_client_name r b,
      pmb_channel_id = unwrap_or (mb_channel_id b) (map_option oc_channel_id (music_bot_client r b)),
      pmb_playlist_id = mb_playlist_id b, pmb_current_song_id = unwrap_or 0 (mb_current_song_id b),
      pmb_next_song_id = mb_next_song_id b, pmb_state = mb_state b, pmb_player_volume = mb_player_volume b,
      pmb_playlist_title = mb_playlist_title b, pmb_playlist_description = mb_playlist_description b,
      pmb_playlist_flag_delete_played = mb_playlist_flag_delete_played b,
      pmb_playlist_flag_finished = mb_playlist_flag_finished b,
      pmb_playlist_replay_mode = mb_playlist_replay_mode b, pmb_playlist_max_songs = mb_playlist_max_songs b,
      pmb_permissions = mb_permissions b, pmb_client_permissions = mb_client_permissions b,
      pmb_queue = mb_queue b\<rparr>"

definition persist_state :: "baseline_runtime \<Rightarrow> persisted_state" where
  "persist_state r =
     (let s = rt_store r in
      \<lparr>ps_schema_version = runtime_state_schema_version, ps_query_accounts = st_query_accounts s,
       ps_server_groups = st_server_groups s, ps_channel_groups = st_channel_groups s,
       ps_virtual_servers = st_virtual_servers s,
       ps_channels = bt_map_values (map with_password_flag) (st_channels s),
       ps_channel_group_assignments = st_channel_group_assignments s,
       ps_channel_client_permissions = st_channel_client_permissions s,
       ps_client_permissions = map persist_client_permission (st_client_permissions s),
       ps_conversation_messages = st_conversation_messages s, ps_private_messages = st_private_messages s,
       ps_offline_messages = st_offline_messages s, ps_complaints = st_complaints s,
       ps_custom_client_properties =
         map (\<lambda>((server_id, cldbid), props). (server_id, cldbid, props)) (st_custom_client_properties s),
       ps_server_logs = st_server_logs s, ps_instance_properties = st_instance_properties s,
       ps_music_bots = bt_map_values (persist_music_bot r) (st_music_bots s), ps_tokens = st_tokens s,
       ps_session_snapshots = rt_session_snapshots r,
       ps_next_client_database_id = st_next_client_database_id s,
       ps_next_conversation_timestamp = st_next_conversation_timestamp s,
       ps_next_token_id = st_next_token_id s, ps_next_token_action_id = st_next_token_action_id s,
       ps_next_offline_message_id = st_next_offline_message_id s, ps_next_log_id = st_next_log_id s\<rparr>)"

section \<open>Loading the state\<close>

definition unless_empty :: "'a list \<Rightarrow> 'a list \<Rightarrow> 'a list" where
  "unless_empty loaded present = (if loaded = [] then present else loaded)"

definition load_client_permission :: "persisted_client_permission \<Rightarrow> client_permission_target" where
  "load_client_permission t =
     \<lparr>cpt_server_id = 0, cpt_client_database_id = pcl_client_database_id t,
      cpt_client_unique_identifier = pcl_client_unique_identifier t,
      cpt_client_nickname = pcl_client_nickname t, cpt_permissions = pcl_permissions t\<rparr>"

definition load_virtual_server :: "virtual_server \<Rightarrow> virtual_server" where
  "load_virtual_server v = v\<lparr>vs_status := (if vs_status v = [] then ''online'' else vs_status v)\<rparr>"

definition load_music_bot :: "u64 \<Rightarrow> persisted_music_bot \<Rightarrow> music_bot" where
  "load_music_bot now_millis b =
     normalize_music_bot_queue now_millis
       \<lparr>mb_id = pmb_id b, mb_server_id = pmb_server_id b, mb_client_database_id = pmb_client_database_id b,
        mb_linked_client_id = pmb_linked_client_id b, mb_nickname = pmb_nickname b,
        mb_channel_id = pmb_channel_id b,
        mb_playlist_id = (if pmb_playlist_id b = 0 then pmb_id b else pmb_playlist_id b),
        mb_current_song_id = (if pmb_current_song_id b \<noteq> 0 then Some (pmb_current_song_id b) else None),
        mb_next_song_id = pmb_next_song_id b, mb_state = pmb_state b, mb_player_volume = pmb_player_volume b,
        mb_playlist_title = pmb_playlist_title b, mb_playlist_description = pmb_playlist_description b,
        mb_playlist_flag_delete_played = pmb_playlist_flag_delete_played b,
        mb_playlist_flag_finished = pmb_playlist_flag_finished b,
        mb_playlist_replay_mode = pmb_playlist_replay_mode b, mb_playlist_max_songs = pmb_playlist_max_songs b,
        mb_permissions = pmb_permissions b, mb_client_permissions = pmb_client_permissions b,
        mb_current_song_started_at_millis = None, mb_current_song_progress_millis = 0,
        mb_queue = pmb_queue b\<rparr>"

definition load_identities :: "persisted_state \<Rightarrow> in_memory_store \<Rightarrow> in_memory_store" where
  "load_identities p s =
     s\<lparr>st_query_accounts := ps_query_accounts p,
       st_server_groups := unless_empty (ps_server_groups p) (st_server_groups s),
       st_channel_groups :=
         (if 4 \<le> ps_schema_version p then unless_empty (ps_channel_groups p) (st_channel_groups s)
          else st_channel_groups s),
       st_channel_group_assignments :=
         (if 4 \<le> ps_schema_version p then ps_channel_group_assignments p else st_channel_group_assignments s),
       st_channel_client_permissions :=
         (if 4 \<le> ps_schema_version p then ps_channel_client_permissions p else st_channel_client_permissions s)\<rparr>"

definition load_places :: "persisted_state \<Rightarrow> in_memory_store \<Rightarrow> in_memory_store" where
  "load_places p s =
     s\<lparr>st_client_permissions := map load_client_permission (ps_client_permissions p),
       st_virtual_servers :=
         unless_empty (bt_map_values load_virtual_server (ps_virtual_servers p)) (st_virtual_servers s),
       st_channels := bt_map_values (map with_password_flag) (ps_channels p)\<rparr>"

definition load_records :: "persisted_state \<Rightarrow> in_memory_store \<Rightarrow> in_memory_store" where
  "load_records p s =
     s\<lparr>st_conversation_messages := ps_conversation_messages p,
       st_private_messages := ps_private_messages p,
       st_offline_messages := ps_offline_messages p,
       st_complaints := ps_complaints p,
       st_custom_client_properties :=
         bt_collect (map (\<lambda>(server_id, cldbid, props). ((server_id, cldbid), props)) (ps_custom_client_properties p)),
       st_server_logs := unless_empty (ps_server_logs p) (st_server_logs s),
       st_instance_properties := ps_instance_properties p\<rparr>"

definition load_music_bots :: "u64 \<Rightarrow> persisted_state \<Rightarrow> in_memory_store \<Rightarrow> in_memory_store" where
  "load_music_bots now_millis p s =
     s\<lparr>st_music_bots := unless_empty (bt_map_values (load_music_bot now_millis) (ps_music_bots p)) (st_music_bots s)\<rparr>"

definition load_tables :: "u64 \<Rightarrow> persisted_state \<Rightarrow> in_memory_store \<Rightarrow> in_memory_store" where
  "load_tables now_millis p s = load_music_bots now_millis p (load_records p (load_places p (load_identities p s)))"

text \<open>The client of a loaded music bot.\<close>

definition bot_online_client :: "(music_bot \<Rightarrow> row) \<Rightarrow> u64 \<Rightarrow> music_bot \<Rightarrow> u64 \<Rightarrow> string \<Rightarrow> u32 \<Rightarrow> online_client" where
  "bot_online_client extra now mbot clid nickname cid =
     \<lparr>oc_id = clid, oc_database_id = mb_client_database_id mbot,
      oc_unique_identifier = ''compat-musicbot-'' @ word_to_string (mb_client_database_id mbot),
      oc_nickname = nickname, oc_away = False, oc_away_message = [], oc_input_muted = False,
      oc_output_muted = False, oc_server_id = mb_server_id mbot, oc_channel_id = cid, oc_client_type = 0,
      oc_version = ''BlackTeaSpeak 1.5.6 compat-musicbot'', oc_platform = ''compat-rust'', oc_country = ''ZZ'',
      oc_connection_ip = [], oc_server_groups = [8], oc_connected_at = now, oc_last_seen_at = now,
      oc_whisper_targets = None, oc_extra_properties = extra mbot\<rparr>"

definition bot_clients ::
    "(music_bot \<Rightarrow> row) \<Rightarrow> u64 \<Rightarrow> music_bot \<Rightarrow> u64 \<Rightarrow> baseline_runtime \<Rightarrow> (u64, online_client) btree" where
  "bot_clients extra now mbot clid r =
     (let clients = st_online_clients (rt_store r);
          custom = (mb_channel_id mbot \<noteq> 0 \<and> channel_exists r (mb_server_id mbot) (mb_channel_id mbot));
          target = (if custom then mb_channel_id mbot
                    else unwrap_or 1 (default_channel_id_for_server r (mb_server_id mbot)));
          named = (trim (mb_nickname mbot) \<noteq> []);
          nickname = (if named then mb_nickname mbot else ''MusicBot '' @ word_to_string (mb_id mbot))
      in if bt_get clients clid = None
         then bt_insert clid (bot_online_client extra now mbot clid nickname target) clients
         else bt_update clid
           (\<lambda>c. c\<lparr>oc_nickname := (if named then nickname else oc_nickname c),
                  oc_channel_id := (if custom then target else oc_channel_id c),
                  oc_extra_properties := extra mbot\<rparr>) clients)"

definition register_bot_client :: "(music_bot \<Rightarrow> row) \<Rightarrow> u64 \<Rightarrow> music_bot \<Rightarrow> baseline_runtime \<Rightarrow> baseline_runtime" where
  "register_bot_client extra now mbot r =
     (let dbid = mb_client_database_id mbot;
          r1 = upd_store (st_next_client_database_id_update
                 (\<lambda>n. if n \<le> dbid then sat_add dbid 1 else n)) r
      in case mb_linked_client_id mbot of
           None \<Rightarrow> r1
         | Some clid \<Rightarrow>
             let r2 = upd_store (st_next_query_client_id_update
                        (\<lambda>n. if n \<le> clid then sat_add clid 1 else n)) r1
             in upd_store (st_online_clients_update (\<lambda>_. bot_clients extra now mbot clid r2)) r2)"

definition load_counters :: "persisted_state \<Rightarrow> in_memory_store \<Rightarrow> in_memory_store" where
  "load_counters p s =
     s\<lparr>st_next_client_database_id := max (ps_next_client_database_id p) (next_client_database_seed (st_query_accounts s)),
       st_next_conversation_timestamp :=
         max (ps_next_conversation_timestamp p)
           (next_conversation_timestamp_seed (st_conversation_messages s) (st_private_messages s)),
       st_next_token_id := max (ps_next_token_id p) (next_token_id_seed (st_tokens s)),
       st_next_token_action_id := max (ps_next_token_action_id p) (next_token_action_id_seed (st_tokens s)),
       st_next_offline_message_id :=
         max (ps_next_offline_message_id p)
           (unwrap_or 1 (map_option (\<lambda>v. sat_add v 1) (iter_max (bt_keys (st_offline_messages s))))),
       st_next_log_id :=
         max (ps_next_log_id p) (unwrap_or 1 (map_option (\<lambda>v. sat_add v 1) (iter_max (map sl_id (st_server_logs s)))))\<rparr>"

text \<open>The server groups a store must have.\<close>

definition standard_group :: "u32 \<Rightarrow> string \<Rightarrow> u32 \<Rightarrow> int \<Rightarrow> perm_map \<Rightarrow> server_group" where
  "standard_group sgid name group_type icon permissions =
     \<lparr>sg_id = sgid, sg_name = name, sg_group_type = group_type, sg_icon_id = icon, sg_save_db = True,
      sg_permissions = permissions\<rparr>"

definition ensure_group :: "server_group \<Rightarrow> (u32, server_group) btree \<Rightarrow> (u32, server_group) btree" where
  "ensure_group g groups = (if bt_contains_key groups (sg_id g) then groups else bt_insert (sg_id g) g groups)"

definition ensure_admin_group ::
    "permission_group_spec list \<Rightarrow> (u32, server_group) btree \<Rightarrow> (u32, server_group) btree" where
  "ensure_admin_group specs groups =
     (if list_ex (\<lambda>g. sg_name g = ''Server Admin'') (bt_values groups) then groups
      else
        let next_id = (if \<not> bt_contains_key groups 9 then 9
                       else unwrap_or 1 (map_option (\<lambda>v. sat_add v 1) (iter_max (bt_keys groups))))
        in bt_insert next_id
             (standard_group next_id ''Server Admin'' 1 300
               (build_named_permission_map specs ''Server Admin'' ''SERVER'')) groups)"

definition ensure_groups :: "permission_group_spec list \<Rightarrow> (u32, server_group) btree \<Rightarrow> (u32, server_group) btree" where
  "ensure_groups specs groups =
     (let g0 = (if length groups = 1 \<and> map_option sg_name (bt_get groups 1) = Some ''Server Admin''
                then bt_remove 1 groups else groups);
          g1 = ensure_group (standard_group 6 ''Admin Server Query'' 2 500
                 (build_named_permission_map specs ''Admin Server Query'' ''QUERY'')) g0;
          g2 = ensure_group (standard_group 7 ''Guest Server Query'' 2 0
                 (build_named_permission_map specs ''Guest Server Query'' ''QUERY'')) g1;
          g3 = ensure_group (standard_group 8 ''Normal'' 1 0
                 (bt_collect
                   [(''i_server_group_needed_member_add_power'', perm 50),
                    (''i_server_group_needed_member_remove_power'', perm 50)])) g2
      in ensure_admin_group specs g3)"

definition load_state ::
    "permission_group_spec list \<Rightarrow> (music_bot \<Rightarrow> row) \<Rightarrow> u64 \<Rightarrow> u64 \<Rightarrow> persisted_state \<Rightarrow> baseline_runtime \<Rightarrow> baseline_runtime" where
  "load_state specs extra now now_millis p r =
     (let r1 = upd_store (load_tables now_millis p) r;
          r2 = (if ps_music_bots p = [] then r1
                else fold (register_bot_client extra now) (bt_values (st_music_bots (rt_store r1))) r1);
          r3 = upd_store (st_tokens_update (\<lambda>_. ps_tokens p)) r2;
          r4 = normalize_store (r3\<lparr>rt_session_snapshots := ps_session_snapshots p\<rparr>);
          r5 = upd_store (load_counters p) r4;
          r6 = upd_store (st_music_bots_update (bt_map_values (normalize_music_bot_queue now_millis))) r5
      in upd_store (st_server_groups_update (ensure_groups specs)) r6)"

definition load_persisted_state ::
    "permission_group_spec list \<Rightarrow> (music_bot \<Rightarrow> row) \<Rightarrow> u64 \<Rightarrow> u64 \<Rightarrow> persisted_state option \<Rightarrow> baseline_runtime \<Rightarrow>
       baseline_runtime" where
  "load_persisted_state specs extra now now_millis loaded r =
     (case loaded of None \<Rightarrow> r | Some p \<Rightarrow> load_state specs extra now now_millis p r)"

lemmas loads = load_tables_def load_identities_def load_places_def load_records_def load_music_bots_def

section \<open>The passes of a load\<close>

lemma load_persisted_Some: "load_persisted_state specs extra now now_millis (Some p) r = load_state specs extra now now_millis p r"
  by (simp add: load_persisted_state_def)

lemma register_frame:
  "\<exists>clients a b. register_bot_client extra now mbot r =
     upd_store (\<lambda>s. s\<lparr>st_online_clients := clients, st_next_client_database_id := a, st_next_query_client_id := b\<rparr>) r"
proof (cases "mb_linked_client_id mbot")
  case None
  then show ?thesis
    by (intro exI [of _ "st_online_clients (rt_store r)"] exI [of _ "st_next_query_client_id (rt_store r)"]
        exI [of _ "if st_next_client_database_id (rt_store r) \<le> mb_client_database_id mbot
          then sat_add (mb_client_database_id mbot) 1 else st_next_client_database_id (rt_store r)"])
      (simp add: register_bot_client_def Let_def upd_store_def)
next
  case (Some clid)
  let ?dbid = "\<lambda>n. if n \<le> mb_client_database_id mbot then sat_add (mb_client_database_id mbot) 1 else n"
    and ?clid = "\<lambda>n. if n \<le> clid then sat_add clid 1 else n"
  show ?thesis
    by (rule exI [of _ "bot_clients extra now mbot clid
          (upd_store (st_next_query_client_id_update ?clid) (upd_store (st_next_client_database_id_update ?dbid) r))"],
        rule exI [of _ "?dbid (st_next_client_database_id (rt_store r))"],
        rule exI [of _ "?clid (st_next_query_client_id (rt_store r))"])
      (simp add: register_bot_client_def Let_def Some, simp add: upd_store_def)
qed

lemma registers_frame:
  "\<exists>clients a b. fold (register_bot_client extra now) bots r =
     upd_store (\<lambda>s. s\<lparr>st_online_clients := clients, st_next_client_database_id := a, st_next_query_client_id := b\<rparr>) r"
proof (induction bots arbitrary: r)
  case Nil
  show ?case
    by (rule exI [of _ "st_online_clients (rt_store r)"], rule exI [of _ "st_next_client_database_id (rt_store r)"],
        rule exI [of _ "st_next_query_client_id (rt_store r)"]) (simp add: upd_store_def)
next
  case (Cons b bots)
  obtain c a q where one: "register_bot_client extra now b r =
     upd_store (\<lambda>s. s\<lparr>st_online_clients := c, st_next_client_database_id := a, st_next_query_client_id := q\<rparr>) r"
    using register_frame by blast
  obtain c' a' q' where rest: "fold (register_bot_client extra now) bots (register_bot_client extra now b r) =
     upd_store (\<lambda>s. s\<lparr>st_online_clients := c', st_next_client_database_id := a', st_next_query_client_id := q'\<rparr>)
       (register_bot_client extra now b r)"
    using Cons.IH by blast
  show ?case
    by (rule exI [of _ c'], rule exI [of _ a'], rule exI [of _ q']) (simp add: rest, simp add: one upd_store_def)
qed

lemma normal_store_fixed:
  "accounts_normal r \<Longrightarrow> client_targets_normal (st_client_permissions (rt_store r)) \<Longrightarrow> assignments_normal r \<Longrightarrow>
   channel_clients_normal r \<Longrightarrow> normalize_store r = r"
  by (simp add: normalize_store_def accounts_normal_fixed client_targets_fixed assignments_fixed channel_clients_fixed)

lemma password_flag_twice [simp]: "with_password_flag (with_password_flag c) = with_password_flag c"
  by (simp add: with_password_flag_def)

lemma map_values_twice: "bt_map_values f (bt_map_values g m) = bt_map_values (\<lambda>v. f (g v)) m"
  by (simp add: bt_map_values_def)

lemma flagged_ids: "map ch_id (concat (bt_values (bt_map_values (map with_password_flag) m))) = map ch_id (concat (bt_values m))"
  by (induction m) (auto simp: bt_values_def bt_map_values_def with_password_flag_def)

lemma collect_sorted: "bt_inv m \<Longrightarrow> bt_collect m = m"
  by (simp add: bt_collect_def bt_extend_Nil_sorted)

lemma properties_restored:
  "bt_inv m \<Longrightarrow> bt_collect (map (\<lambda>(server_id, cldbid, props). ((server_id, cldbid), props))
     (map (\<lambda>((server_id, cldbid), props). (server_id, cldbid, props)) m)) = m"
  by (subst map_map, subst map_idI) (auto simp: collect_sorted)

lemma ensure_groups_same:
  assumes "bt_contains_key groups 6" "bt_contains_key groups 7" "bt_contains_key groups 8"
    "list_ex (\<lambda>g. sg_name g = ''Server Admin'') (bt_values groups)"
  shows "ensure_groups specs groups = groups"
proof -
  have "length groups \<noteq> 1"
  proof
    assume "length groups = 1"
    then obtain p where "groups = [p]" by (auto simp: length_Suc_conv)
    then show False using assms(1,2) by (auto simp: bt_contains_key_def bt_get_def split: if_splits)
  qed
  then show ?thesis
    using assms by (simp add: ensure_groups_def Let_def ensure_group_def standard_group_def ensure_admin_group_def)
qed

section \<open>What a restart keeps\<close>

text \<open>The clients that a load knows: those of the accounts, the database, the properties and the permissions.\<close>

definition durable_client :: "baseline_runtime \<Rightarrow> baseline_runtime \<Rightarrow> u64 \<Rightarrow> bool" where
  "durable_client r r0 cldbid =
     (cldbid \<in> set (List.map_filter qa_client_database_id (bt_values (st_query_accounts (rt_store r))))
      \<or> cldbid \<in> set (bt_keys (st_clients (rt_store r0)))
      \<or> cldbid \<in> snd ` set (bt_keys (st_custom_client_properties (rt_store r)))
      \<or> cldbid \<in> cpt_client_database_id ` set (st_client_permissions (rt_store r)))"

definition without_server :: "client_permission_target \<Rightarrow> client_permission_target" where
  "without_server t = t\<lparr>cpt_server_id := 0\<rparr>"

text \<open>A store in the form the passes give it, with the standard groups and no empty table.\<close>

definition settled :: "baseline_runtime \<Rightarrow> baseline_runtime \<Rightarrow> bool" where
  "settled r r0 =
     (let s = rt_store r in
      accounts_normal r \<and> client_targets_normal (map without_server (st_client_permissions s))
      \<and> bt_inv (map (\<lambda>a. ((cga_channel_id a, cga_client_database_id a), cga_channel_group_id a)) (st_channel_group_assignments s))
      \<and> (\<forall>a \<in> set (st_channel_group_assignments s). bt_contains_key (st_channel_groups s) (cga_channel_group_id a)
           \<and> cga_channel_id a \<in> set (all_channel_ids s) \<and> durable_client r r0 (cga_client_database_id a))
      \<and> bt_inv (map (\<lambda>t. ((ccp_channel_id t, ccp_client_database_id t), ccp_permissions t)) (st_channel_client_permissions s))
      \<and> (\<forall>t \<in> set (st_channel_client_permissions s). ccp_permissions t \<noteq> [] \<and> bt_inv (ccp_permissions t)
           \<and> ccp_channel_id t \<in> set (all_channel_ids s) \<and> durable_client r r0 (ccp_client_database_id t))
      \<and> bt_inv (st_custom_client_properties s)
      \<and> bt_contains_key (st_server_groups s) 6 \<and> bt_contains_key (st_server_groups s) 7 \<and> bt_contains_key (st_server_groups s) 8
      \<and> list_ex (\<lambda>g. sg_name g = ''Server Admin'') (bt_values (st_server_groups s))
      \<and> st_channel_groups s \<noteq> [] \<and> st_virtual_servers s \<noteq> []
      \<and> (\<forall>v \<in> set (bt_values (st_virtual_servers s)). vs_status v \<noteq> []))"

definition bot_kept :: "music_bot \<Rightarrow> music_bot \<Rightarrow> bool" where
  "bot_kept b b' =
     (mb_id b' = mb_id b \<and> mb_server_id b' = mb_server_id b \<and> mb_client_database_id b' = mb_client_database_id b
      \<and> mb_permissions b' = mb_permissions b \<and> song_ids b' = song_ids b \<and> queue_inv b')"

definition bots_kept :: "(u32, music_bot) btree \<Rightarrow> (u32, music_bot) btree \<Rightarrow> bool" where
  "bots_kept bots bots' =
     (\<forall>i \<in> set (bt_keys bots). case (bt_get bots i, bt_get bots' i) of (Some b, Some b') \<Rightarrow> bot_kept b b' | _ \<Rightarrow> False)"

definition survives_restart :: "baseline_runtime \<Rightarrow> baseline_runtime \<Rightarrow> baseline_runtime \<Rightarrow> bool" where
  "survives_restart r r0 r' =
     (let s = rt_store r; s0 = rt_store r0; s' = rt_store r' in
      st_query_accounts s' = st_query_accounts s \<and> st_server_groups s' = st_server_groups s
      \<and> st_channel_groups s' = st_channel_groups s \<and> st_virtual_servers s' = st_virtual_servers s
      \<and> st_channels s' = bt_map_values (map with_password_flag) (st_channels s)
      \<and> st_channel_group_assignments s' = st_channel_group_assignments s
      \<and> st_channel_client_permissions s' = st_channel_client_permissions s
      \<and> st_client_permissions s' = map without_server (st_client_permissions s)
      \<and> st_conversation_messages s' = st_conversation_messages s \<and> st_private_messages s' = st_private_messages s
      \<and> st_offline_messages s' = st_offline_messages s \<and> st_complaints s' = st_complaints s
      \<and> st_custom_client_properties s' = st_custom_client_properties s
      \<and> (st_server_logs s \<noteq> [] \<longrightarrow> st_server_logs s' = st_server_logs s)
      \<and> bots_kept (st_music_bots s) (st_music_bots s')
      \<and> st_instance_properties s' = st_instance_properties s \<and> st_tokens s' = st_tokens s
      \<and> rt_session_snapshots r' = rt_session_snapshots r
      \<and> st_next_client_database_id s \<le> st_next_client_database_id s'
      \<and> st_next_conversation_timestamp s \<le> st_next_conversation_timestamp s'
      \<and> st_next_token_id s \<le> st_next_token_id s' \<and> st_next_token_action_id s \<le> st_next_token_action_id s'
      \<and> st_next_offline_message_id s \<le> st_next_offline_message_id s' \<and> st_next_log_id s \<le> st_next_log_id s'
      \<and> st_active_bans s' = st_active_bans s0 \<and> st_server_temp_passwords s' = st_server_temp_passwords s0)"

lemma loaded_normal:
  assumes "settled r r0"
    and tables: "st_query_accounts (rt_store l) = st_query_accounts (rt_store r)"
      "st_server_groups (rt_store l) = st_server_groups (rt_store r)"
      "st_channel_groups (rt_store l) = st_channel_groups (rt_store r)"
      "st_channels (rt_store l) = bt_map_values (map with_password_flag) (st_channels (rt_store r))"
      "st_channel_group_assignments (rt_store l) = st_channel_group_assignments (rt_store r)"
      "st_channel_client_permissions (rt_store l) = st_channel_client_permissions (rt_store r)"
      "st_client_permissions (rt_store l) = map without_server (st_client_permissions (rt_store r))"
      "st_custom_client_properties (rt_store l) = st_custom_client_properties (rt_store r)"
      "st_clients (rt_store l) = st_clients (rt_store r0)"
  shows "normalize_store l = l"
proof -
  note s = assms(1) [unfolded settled_def Let_def]
  have ids: "set (all_channel_ids (rt_store l)) = set (all_channel_ids (rt_store r))"
    unfolding all_channel_ids_def tables flagged_ids ..
  have known: "durable_client r r0 i \<Longrightarrow> i \<in> set (known_client_database_ids l)" for i
    by (auto simp: durable_client_def known_client_database_ids_def tables without_server_def image_iff)
  show ?thesis
  proof (rule normal_store_fixed)
    have "accounts_normal r" using s by blast
    then show "accounts_normal l" unfolding accounts_normal_def tables .
    show "client_targets_normal (st_client_permissions (rt_store l))" using s by (simp add: tables)
    show "assignments_normal l" using s known by (simp add: assignments_normal_def assignment_valid_def tables ids)
    show "channel_clients_normal l" using s known by (simp add: channel_clients_normal_def channel_client_target_valid_def tables ids)
  qed
qed

lemma playback_identity [simp]:
  "mb_id (reset_music_bot_playback_progress t b) = mb_id b"
  "mb_server_id (reset_music_bot_playback_progress t b) = mb_server_id b"
  "mb_client_database_id (reset_music_bot_playback_progress t b) = mb_client_database_id b"
  "mb_permissions (reset_music_bot_playback_progress t b) = mb_permissions b"
  "mb_id (stop_music_bot_playback b) = mb_id b"
  "mb_server_id (stop_music_bot_playback b) = mb_server_id b"
  "mb_client_database_id (stop_music_bot_playback b) = mb_client_database_id b"
  "mb_permissions (stop_music_bot_playback b) = mb_permissions b"
  by (simp_all add: reset_music_bot_playback_progress_def stop_music_bot_playback_def)

lemma settle_identity [simp]:
  "mb_id (settle_current_song t b) = mb_id b"
  "mb_server_id (settle_current_song t b) = mb_server_id b"
  "mb_client_database_id (settle_current_song t b) = mb_client_database_id b"
  "mb_permissions (settle_current_song t b) = mb_permissions b"
  by (simp_all add: settle_current_song_def Let_def)

lemma normalize_identity:
  "mb_id (normalize_music_bot_queue t b) = mb_id b"
  "mb_server_id (normalize_music_bot_queue t b) = mb_server_id b"
  "mb_client_database_id (normalize_music_bot_queue t b) = mb_client_database_id b"
  "mb_permissions (normalize_music_bot_queue t b) = mb_permissions b"
  by (simp_all add: normalize_music_bot_queue_def Let_def) (simp_all add: normalize_playlist_def)

lemma bot_restored: "bot_kept b (normalize_music_bot_queue t (load_music_bot t (persist_music_bot r b)))"
  unfolding bot_kept_def load_music_bot_def
  by (simp add: normalize_identity persist_music_bot_def) (simp add: song_ids_def)

lemma permission_restored: "load_client_permission (persist_client_permission t) = without_server t"
  by (cases t) (simp add: load_client_permission_def persist_client_permission_def without_server_def)

lemma map_values_Nil [simp]: "bt_map_values f m = [] \<longleftrightarrow> m = []"
  by (simp add: bt_map_values_def)

lemma servers_restored:
  "\<forall>v \<in> set (bt_values m). vs_status v \<noteq> [] \<Longrightarrow> bt_map_values load_virtual_server m = m"
  by (rule bt_map_values_same) (simp add: load_virtual_server_def)

text \<open>The tables when the passes start.\<close>

definition loaded_runtime ::
    "u64 \<Rightarrow> persisted_state \<Rightarrow> (u64, online_client) btree \<Rightarrow> u64 \<Rightarrow> u64 \<Rightarrow> baseline_runtime \<Rightarrow> baseline_runtime" where
  "loaded_runtime now_millis p clients a q r =
     (upd_store (\<lambda>s. (load_tables now_millis p s)
        \<lparr>st_online_clients := clients, st_next_client_database_id := a, st_next_query_client_id := q,
         st_tokens := ps_tokens p\<rparr>) r)
     \<lparr>rt_session_snapshots := ps_session_snapshots p\<rparr>"

lemma load_state_passes:
  "\<exists>clients a q. load_state specs extra now now_millis p r =
     upd_store (st_server_groups_update (ensure_groups specs))
       (upd_store (st_music_bots_update (bt_map_values (normalize_music_bot_queue now_millis)))
         (upd_store (load_counters p) (normalize_store (loaded_runtime now_millis p clients a q r))))"
proof -
  let ?r1 = "upd_store (load_tables now_millis p) r"
  let ?r2 = "if ps_music_bots p = [] then ?r1
    else fold (register_bot_client extra now) (bt_values (st_music_bots (rt_store ?r1))) ?r1"
  have "\<exists>clients a q. ?r2 = upd_store (\<lambda>s. s\<lparr>st_online_clients := clients, st_next_client_database_id := a,
      st_next_query_client_id := q\<rparr>) ?r1"
    using registers_frame [of extra now "[]" ?r1] registers_frame [of extra now "bt_values (st_music_bots (rt_store ?r1))" ?r1]
    by simp
  then obtain clients a q where r2: "?r2 = upd_store (\<lambda>s. s\<lparr>st_online_clients := clients, st_next_client_database_id := a,
      st_next_query_client_id := q\<rparr>) ?r1" by blast
  have "(upd_store (st_tokens_update (\<lambda>_. ps_tokens p)) ?r2)\<lparr>rt_session_snapshots := ps_session_snapshots p\<rparr> =
      loaded_runtime now_millis p clients a q r"
    unfolding r2 by (simp add: loaded_runtime_def upd_store_def)
  then have "load_state specs extra now now_millis p r =
     upd_store (st_server_groups_update (ensure_groups specs))
       (upd_store (st_music_bots_update (bt_map_values (normalize_music_bot_queue now_millis)))
         (upd_store (load_counters p) (normalize_store (loaded_runtime now_millis p clients a q r))))"
    by (simp only: load_state_def Let_def)
  then show ?thesis by blast
qed

lemma loaded_properties:
  "st_custom_client_properties (rt_store (loaded_runtime t p clients a q r)) =
     bt_collect (map (\<lambda>(server_id, cldbid, props). ((server_id, cldbid), props)) (ps_custom_client_properties p))"
  by (simp add: loaded_runtime_def loads)

lemma persisted_properties:
  "ps_custom_client_properties (persist_state r) =
     map (\<lambda>((server_id, cldbid), props). (server_id, cldbid, props)) (st_custom_client_properties (rt_store r))"
  by (simp add: persist_state_def Let_def)

lemma loaded_tables:
  assumes "settled r r0"
    and l: "l = loaded_runtime t (persist_state r) clients a q r0"
  shows "st_query_accounts (rt_store l) = st_query_accounts (rt_store r)"
    "st_server_groups (rt_store l) = st_server_groups (rt_store r)"
    "st_channel_groups (rt_store l) = st_channel_groups (rt_store r)"
    "st_channels (rt_store l) = bt_map_values (map with_password_flag) (st_channels (rt_store r))"
    "st_channel_group_assignments (rt_store l) = st_channel_group_assignments (rt_store r)"
    "st_channel_client_permissions (rt_store l) = st_channel_client_permissions (rt_store r)"
    "st_client_permissions (rt_store l) = map without_server (st_client_permissions (rt_store r))"
    "st_custom_client_properties (rt_store l) = st_custom_client_properties (rt_store r)"
    "st_clients (rt_store l) = st_clients (rt_store r0)"
    "st_virtual_servers (rt_store l) = st_virtual_servers (rt_store r)"
proof -
  note s = assms(1) [unfolded settled_def Let_def]
  have inv: "bt_inv (st_custom_client_properties (rt_store r))"
    and groups: "st_server_groups (rt_store r) \<noteq> []" "st_channel_groups (rt_store r) \<noteq> []"
    and servers: "st_virtual_servers (rt_store r) \<noteq> []" "\<forall>v \<in> set (bt_values (st_virtual_servers (rt_store r))). vs_status v \<noteq> []"
    using s by (auto simp: bt_contains_key_def bt_get_def)
  show "st_query_accounts (rt_store l) = st_query_accounts (rt_store r)"
    "st_channel_group_assignments (rt_store l) = st_channel_group_assignments (rt_store r)"
    "st_channel_client_permissions (rt_store l) = st_channel_client_permissions (rt_store r)"
    "st_clients (rt_store l) = st_clients (rt_store r0)"
    by (simp_all add: l loaded_runtime_def loads persist_state_def Let_def runtime_state_schema_version_def)
  show "st_server_groups (rt_store l) = st_server_groups (rt_store r)" "st_channel_groups (rt_store l) = st_channel_groups (rt_store r)"
    using groups by (simp_all add: l loaded_runtime_def loads persist_state_def Let_def
        runtime_state_schema_version_def unless_empty_def)
  show "st_virtual_servers (rt_store l) = st_virtual_servers (rt_store r)"
    using servers by (simp add: l loaded_runtime_def loads persist_state_def Let_def unless_empty_def servers_restored)
  show "st_channels (rt_store l) = bt_map_values (map with_password_flag) (st_channels (rt_store r))"
    by (simp add: l loaded_runtime_def loads persist_state_def Let_def map_values_twice comp_def)
  show "st_client_permissions (rt_store l) = map without_server (st_client_permissions (rt_store r))"
    by (simp add: l loaded_runtime_def loads persist_state_def Let_def permission_restored)
  show "st_custom_client_properties (rt_store l) = st_custom_client_properties (rt_store r)"
    unfolding l loaded_properties persisted_properties by (rule properties_restored [OF inv])
qed


section \<open>Examples\<close>

definition standard_groups :: "(u32, server_group) btree" where
  "standard_groups =
     [(6, standard_group 6 ''Admin Server Query'' 2 500 []), (7, standard_group 7 ''Guest Server Query'' 2 0 []),
      (8, standard_group 8 ''Normal'' 1 0 []), (9, standard_group 9 ''Server Admin'' 1 300 [])]"

definition saved_demo :: baseline_runtime where
  "saved_demo = empty_runtime\<lparr>rt_store := empty_store\<lparr>
     st_query_accounts := [(''ops'', token_account)], st_server_groups := standard_groups,
     st_channel_groups := [(2, \<lparr>cg_id = 2, cg_name = ''Guest'', cg_group_type = 1, cg_icon_id = 0, cg_save_db = True,
       cg_permissions = []\<rparr>)],
     st_virtual_servers := [(1, demo_server)],
     st_channels := [(1, [demo_channel 1 0, demo_channel 2 0\<lparr>ch_password := ''room''\<rparr>])],
     st_channel_group_assignments :=
       [\<lparr>cga_channel_id = 2, cga_client_database_id = 5, cga_channel_group_id = 2\<rparr>],
     st_client_permissions :=
       [\<lparr>cpt_server_id = 1, cpt_client_database_id = 5, cpt_client_unique_identifier = ''u'', cpt_client_nickname = ''n'',
         cpt_permissions = [(''i_client_talk_power'', perm 75)]\<rparr>],
     st_next_token_id := 4\<rparr>\<rparr>"

definition no_extra :: "music_bot \<Rightarrow> row" where
  "no_extra mbot = []"

definition restarted :: "baseline_runtime \<Rightarrow> baseline_runtime \<Rightarrow> baseline_runtime" where
  "restarted r r0 = load_persisted_state [] no_extra 1700000000 1700000000000 (Some (persist_state r)) r0"


text \<open>
  A start fills the client table and its id counter from the database first; the load then lowers the counter to
  that of the state file, below an id that is in use.
\<close>

theorem load_lowers_client_counter:
  "let r0 = empty_runtime\<lparr>rt_store := empty_store\<lparr>st_next_client_database_id := 501\<rparr>\<rparr> in
   st_next_client_database_id (rt_store (restarted saved_demo r0)) = 100"
  by code_simp

text \<open>An empty table in the file counts as missing: the server of the fresh store is back after the last server was deleted.\<close>

theorem deleted_server_returns:
  "let deleted = upd_store (st_virtual_servers_update (\<lambda>_. [])) saved_demo;
       fresh = empty_runtime\<lparr>rt_store := empty_store\<lparr>st_virtual_servers := [(1, demo_server)]\<rparr>\<rparr>
   in bt_keys (st_virtual_servers (rt_store (restarted deleted fresh))) = [1]"
  by code_simp

text \<open>After a restart the permissions of a client are filed under no server, so a lookup on its server finds none.\<close>

theorem restart_loses_client_permissions:
  "client_permission_target saved_demo 1 5 \<noteq> None \<and> client_permission_target (restarted saved_demo empty_runtime) 1 5 = None"
  by code_simp

end
