(* ===== verification/Spec2Isabelle.thy ===== *)
theory Spec2Isabelle
  imports Query_Parser Anti_Flood Channel_Safety Channel_Effects Bans Logs_Api_Keys
    Client_Database File_Commands Client_Commands Permission_Inspection Server_Commands Server_Lifecycle
    Tsdns Persistence
begin

text \<open>
  BlackTeaSpeak server: a verification library.

  \<^bold>\<open>The program.\<close> BlackTeaSpeak is a voice server in Rust, \<open>src/BlackTeaSpeak-Server/src\<close>. Front ends
  (ServerQuery over SSH and telnet, the BTea, TS3, TS6 and TeaSpeak protocols, a web server) turn what
  they receive into a \<open>CommandRequest\<close> and hand it to \<open>BaselineRuntime::dispatch\<close>, which runs one handler
  per command on one in-memory store (\<open>runtime/\<close>). A handler answers with a \<open>QueryResponse\<close>, changes the
  store, writes through to a database and publishes notifications. The library models the
  ServerQuery line format and the runtime behind it.

  \<^bold>\<open>How the code is modelled.\<close> The structs of the store are records and its enums datatypes;
  \<open>u32\<close>, \<open>u64\<close> and \<open>i32\<close> values are words of that width with saturating or wrapping arithmetic as the code
  has it; strings are lists of UTF-8 bytes; \<open>BTreeMap\<close> is an ordered association list. A handler is a
  function from the request, the session and the runtime to the response and the runtime as they are
  when the handler returns, also when it returns an error. Calls to the database, to the persistence
  layer, to the broadcast channels and to the WebRTC manager are appended to the effect list of the
  runtime in the order of the code. The clock is the argument \<open>now\<close>, and the permission specification
  that the program reads from its configuration files is a parameter of the runtime. A loop that may
  run for ever is a partial function on options, and \<open>None\<close> is not returning; a handler in which the code
  may panic returns \<open>None\<close> there. No fuel is used.

  \<^bold>\<open>The theories.\<close>
  \<^item> \<open>Rust_Prelude\<close>, \<open>Rust_Strings\<close>, \<open>Btree_Map\<close>: what the sources use of the standard library: saturating
    arithmetic, decimal parsing and printing, \<open>str\<close> methods, \<open>BTreeMap\<close>. The locale \<open>ordered_map\<close> states
    the laws of the map and is interpreted on the association list.
  \<^item> \<open>Query_Parser\<close> (\<open>protocols/serverquery/parser.rs\<close>): the request line parser, escaping and rendering.
    Escaping is inverted by unescaping; a rendered row parses back to itself; the named arguments
    are the union of the option groups.
  \<^item> \<open>Runtime_State\<close>, \<open>Store_Queries\<close>, \<open>Seed_Store\<close> (\<open>runtime/models.rs\<close>, \<open>runtime/mod.rs\<close>,
    \<open>runtime/session_and_identity.rs\<close>, \<open>seed_store\<close> of \<open>runtime/permissions/checks.rs\<close>): the state, the
    lookups on it and the store of a fresh server.
  \<^item> \<open>Anti_Flood\<close> (\<open>runtime/client_and_ban_state.rs\<close>): points decay over time independently of how often
    they are looked at; a block holds until it ends; the number of commands a burst may have is exact.
  \<^item> \<open>Permissions\<close> (\<open>runtime/permissions/evaluation_and_catalog.rs\<close>, \<open>checks.rs\<close>): the five-tier evaluation
    refines a specification per permission name; merging of server groups does not depend on their
    order; ids and rows of permissions round trip.
  \<^item> \<open>Channel_Tree\<close> (\<open>runtime/catalog_and_utils.rs\<close>): channels name their parent and predecessor. The
    ancestor walk ends and is right on a tree, the loop that collects a subtree computes exactly the
    descendants, relinking and listing are inverse, a move the check allows keeps a tree.
  \<^item> \<open>Handler_Contract\<close>: the locales \<open>atomic_command\<close> (a failed command changes nothing) and
    \<open>invariant_command\<close> (an invariant kept along every sequence of requests). \<open>Channel_Safety\<close> and
    \<open>Tokens\<close> interpret them on the handlers.
  \<^item> \<open>Channel_Handlers\<close>, \<open>Channel_Safety\<close>, \<open>Channel_Effects\<close> (\<open>runtime/handlers/channel.rs\<close>): every channel
    command; what a create and a forced delete do to the whole store; that failed commands change
    nothing; that the tree stays a tree along every sequence of commands, so that the walks end; and
    the three cases in which the code does not keep its promise.
  \<^item> \<open>Music_Queue\<close> (\<open>runtime/musicbot/mod.rs\<close>, \<open>queue_and_loader.rs\<close>): insert, remove, reorder and the
    playback position.
  \<^item> \<open>Normalization\<close> (\<open>runtime/normalization_and_helpers.rs\<close>): id allocation ends with a fresh id, and the
    passes over a loaded store establish the table invariants and are idempotent.
  \<^item> \<open>Tokens\<close> (\<open>runtime/handlers/token.rs\<close>): privilege tokens are redeemed at most as often as they may,
    grant exactly their groups and have pairwise different values.
  \<^item> \<open>Server_Groups\<close>, \<open>Channel_Groups\<close> (\<open>runtime/permissions/server_groups.rs\<close>, \<open>channel_groups.rs\<close>): group
    commands, membership and the powers they need. The locale \<open>group_editor\<close> holds what the two
    permission editors share and is interpreted on both.
  \<^item> \<open>Entity_Permissions\<close> (\<open>runtime/permissions/entity_permissions.rs\<close>): permissions of clients, channels,
    playlists and their clients, with the exact condition under which one command panics.
  \<^item> \<open>Bans\<close> (\<open>runtime/handlers/bans_and_complain.rs\<close>, the ban table of \<open>client_and_ban_state.rs\<close> and
    \<open>runtime/web.rs\<close>): bans, their expiry, complaints and the removal of a client.

  \<^item> \<open>Query_Accounts\<close> (\<open>runtime/handlers/query_accounts.rs\<close>): the accounts stay filed under their login
    names, and nobody changes the account of somebody else without the permission for all accounts;
    the locale \<open>account_command\<close> holds the argument and is interpreted on the four commands.
  \<^item> \<open>Messages\<close> (\<open>runtime/handlers/messaging_and_chat.rs\<close>, \<open>runtime/events.rs\<close>, the histories of
    \<open>runtime/web.rs\<close>): offline messages reach their recipient and nobody else, conversations stay in
    the order of their timestamps. The locale \<open>mailbox_command\<close> is interpreted on the three commands that
    name a message. The chat commands of the music bot are a parameter.
  \<^item> \<open>Sessions\<close> (\<open>runtime/handlers/session_and_instance.rs\<close>, the snapshots of \<open>runtime/persistence.rs\<close>,
    \<open>sync_session_client\<close>): login, logout, server selection, instance commands; a changed password takes
    effect, a login restores the session, a session has exactly one client in the client table.
  \<^item> \<open>Logs_Api_Keys\<close> (\<open>runtime/handlers/logs_and_apikeys.rs\<close>): the log window and the API keys; the JSON writer
    and reader of \<open>serde_json\<close> are parameters.
  \<^item> \<open>Client_Database\<close> (\<open>runtime/handlers/client_db_and_custom.rs\<close>): the client database commands; the
    pattern search decides the meaning of a \<open>LIKE\<close> pattern.
  \<^item> \<open>File_Paths\<close> (\<open>file_transfer/utils.rs\<close>, the paths of \<open>registry.rs\<close>): virtual paths, the areas of the
    repository, and why no name leaves its area.
  \<^item> \<open>File_Registry\<close> (\<open>file_transfer/registry.rs\<close>, \<open>models.rs\<close>): the file operations and the table of
    pending transfers. The file system is a record of functions over an arbitrary state, base64 and
    \<open>to_lowercase\<close> are functions. A transfer key opens its transfer and works once, whatever the order in
    which the table is searched.
  \<^item> \<open>File_Server\<close> (\<open>file_transfer/server.rs\<close>, \<open>http.rs\<close>): raw and HTTP connections as functions of the
    reads that arrive on the socket; what is uploaded is what a download delivers, however the bytes are
    cut into reads. The TLS layer is a function on these reads.
  \<^item> \<open>File_Commands\<close> (\<open>runtime/handlers/file_transfer.rs\<close>): every file transfer command. Nothing outside the
    repository is changed along any sequence of commands and connections, and a command changes files of
    the channel it names only. The locale \<open>file_command\<close> holds the argument and is interpreted on the eight
    commands.
  \<^item> \<open>Client_Commands\<close> (\<open>runtime/handlers/client.rs\<close>, the rows of \<open>session_and_identity.rs\<close> and \<open>web.rs\<close>):
    every client command. A move puts exactly the named client into the named channel, past the join
    power, the password and the limits of the channel and of all channels above it, and returns on a
    channel tree.
  \<^item> \<open>Permission_Inspection\<close> (\<open>runtime/permissions/inspection.rs\<close>, \<open>describe_permission_name\<close>): the reports
    on permissions; the overview has a row for every effective permission.
  \<^item> \<open>Server_Commands\<close> (\<open>runtime/handlers/server.rs\<close>): notification subscriptions, the reports on a
    server, editing it, temporary passwords and the password check. A temporary password opens its
    server until it ends; an edit sets the named fields and nothing else.
  \<^item> \<open>Server_Lifecycle\<close> (\<open>runtime/handlers/server_lifecycle_and_snapshots.rs\<close>): creating, starting, stopping and
    deleting a server, and snapshots. A new server is fresh, a deleted one leaves nothing, a snapshot that is
    deployed gives back what it took; the serialiser, base64 and SHA-1 are a record of functions.
  \<^item> \<open>Tsdns\<close> (\<open>runtime/handlers/tsdns.rs\<close>, \<open>protocols/tsdns/resolver.rs\<close>, the answer of \<open>tcp_server.rs\<close>): a name
    resolves to its own rule, else to a longest matching wildcard, else to a running server of that name.
  \<^item> \<open>Persistence\<close> (the rest of \<open>runtime/persistence.rs\<close>, \<open>state.rs\<close>): what is written to the state file and what a
    start makes of it. A settled store survives a restart, except for the server of client permissions.

  \<^bold>\<open>Not modelled.\<close> The sockets, asynchronous tasks, WebRTC, cryptography, the audio processes and the SQL
  statements are input and output or libraries. Playlists and the bot commands, the
  dispatch on the command name and the packet codec are programs of the kind
  modelled here and are left to an extension.
\<close>

end
